(* ===== verification/Kernel_Prelude.thy ===== *)
theory Kernel_Prelude
  imports Complex_Main "HOL-Library.Char_ord" "HOL-Library.List_Lexorder"
begin

text \<open>
  Shared vocabulary of the development.

  \<^item> The result type of every fallible operation. The kernel signals a refused operation with an
    exception: \<open>InvalidLifecycleTransition\<close> (reducer), \<open>CommandGenerationError\<close> (durable
    commands), a pydantic \<open>ValidationError\<close> (a model that cannot be constructed), a plain
    \<open>ValueError\<close>, \<open>TypeError\<close>, \<open>KeyError\<close> or \<open>RuntimeError\<close>, a \<open>decimal\<close> trap, \<open>AggregateVersionConflict\<close> or
    \<open>UnsupportedKernelEffect\<close> (repositories and unit of work), or the database's \<open>IntegrityError\<close>. Each is a constructor of \<open>kernel_error\<close>, and a
    fallible operation returns \<open>Inl error\<close> where the code raises.
  \<^item> The \<open>str\<close> operations the sources use: \<open>strip\<close>, \<open>startswith\<close>, blankness tests and the
    \<open>sha256:<64 hex digits>\<close> pattern. Identifiers are ASCII, so a \<open>str\<close> is a \<open>string\<close>.
  \<^item> The theorem collections the component theories fill.
\<close>

named_theorems kernel_defs \<open>definitions of the operations of a component\<close>
named_theorems kernel_wf \<open>facts that follow from a model's validators\<close>

section \<open>Errors as values\<close>

datatype kernel_error =
    InvalidLifecycleTransition string
  | CommandGenerationError string
  | ValidationError
  | ValueError string
  | DecimalInvalidOperation
  | AggregateVersionConflict string
  | UnsupportedKernelEffect string
  | RuntimeError string
  | TypeError string
  | KeyError string
  | AssertionError
  | IntegrityError

type_synonym 'a result = "kernel_error + 'a"

definition ok :: "'a result \<Rightarrow> bool" where
  "ok r = (case r of Inl _ \<Rightarrow> False | Inr _ \<Rightarrow> True)"

lemma ok_simps [simp]: "ok (Inr v)" "\<not> ok (Inl e)"
  by (simp_all add: ok_def)

lemma ok_iff: "ok r \<longleftrightarrow> (\<exists>v. r = Inr v)"
  by (cases r) (auto simp: ok_def)

lemma not_ok_iff: "\<not> ok r \<longleftrightarrow> (\<exists>e. r = Inl e)"
  by (cases r) (auto simp: ok_def)

text \<open>Sequencing of fallible steps: the first error wins, as an exception does.\<close>

definition bind_result :: "'a result \<Rightarrow> ('a \<Rightarrow> 'b result) \<Rightarrow> 'b result" where
  "bind_result r f = (case r of Inl e \<Rightarrow> Inl e | Inr v \<Rightarrow> f v)"

lemma bind_result_simps [simp]:
  "bind_result (Inl e) f = Inl e" "bind_result (Inr v) f = f v"
  by (simp_all add: bind_result_def)

lemma bind_result_Inr_iff [simp]:
  "bind_result r f = Inr w \<longleftrightarrow> (\<exists>v. r = Inr v \<and> f v = Inr w)"
  by (cases r) auto

section \<open>Strings\<close>

text \<open>
  \<open>str.strip()\<close> removes the characters for which \<open>str.isspace()\<close> holds; among the ASCII
  characters these are the code points 9 to 13 and 28 to 32.
\<close>

definition py_isspace :: "char \<Rightarrow> bool" where
  "py_isspace c = (let n = (of_char c :: nat) in (9 \<le> n \<and> n \<le> 13) \<or> (28 \<le> n \<and> n \<le> 32))"

definition py_strip :: "string \<Rightarrow> string" where
  "py_strip s = rev (dropWhile py_isspace (rev (dropWhile py_isspace s)))"

text \<open>\<open>str(value or "").strip()\<close> on an optional string.\<close>

definition py_strip_opt :: "string option \<Rightarrow> string" where
  "py_strip_opt v = (case v of None \<Rightarrow> [] | Some s \<Rightarrow> py_strip s)"

definition non_blank :: "string \<Rightarrow> bool" where
  "non_blank s \<longleftrightarrow> py_strip s \<noteq> []"

definition py_startswith :: "string \<Rightarrow> string \<Rightarrow> bool" where
  "py_startswith s p \<longleftrightarrow> take (length p) s = p"

text \<open>\<open>normalized or None\<close>: the empty string becomes \<open>None\<close>.\<close>

definition blank_to_none :: "string \<Rightarrow> string option" where
  "blank_to_none s = (if s = [] then None else Some s)"

definition is_lower_hex :: "char \<Rightarrow> bool" where
  "is_lower_hex c = (c \<in> set ''0123456789abcdef'')"

text \<open>\<open>re.compile(r"^sha256:[0-9a-f]{64}$").fullmatch\<close>.\<close>

definition is_sha256_digest :: "string \<Rightarrow> bool" where
  "is_sha256_digest s \<longleftrightarrow>
     take 7 s = ''sha256:'' \<and> length s = 71 \<and> list_all is_lower_hex (drop 7 s)"

lemma py_strip_Nil [simp]: "py_strip [] = []"
  by (simp add: py_strip_def)

lemma non_blank_Nil [simp]: "\<not> non_blank []"
  by (simp add: non_blank_def)

lemma dropWhile_idem [simp]: "dropWhile P (dropWhile P xs) = dropWhile P xs"
  by (induction xs) auto

lemma hd_dropWhile_rev:
  assumes "dropWhile P (rev (dropWhile P xs)) \<noteq> []"
  shows "\<not> P (hd (rev (dropWhile P (rev (dropWhile P xs)))))"
proof -
  let ?ys = "dropWhile P xs"
  obtain us where us: "rev ?ys = us @ dropWhile P (rev ?ys)"
    by (metis takeWhile_dropWhile_id)
  then have "?ys = rev (dropWhile P (rev ?ys)) @ rev us"
    by (metis rev_append rev_rev_ident)
  then have "hd ?ys = hd (rev (dropWhile P (rev ?ys)))"
    using assms by (metis hd_append2 rev_is_Nil_conv)
  moreover have "?ys \<noteq> []" using assms by (metis dropWhile.simps(1) rev.simps(1))
  ultimately show ?thesis using hd_dropWhile by metis
qed

text \<open>Stripping is idempotent, so a validated identifier is its own normal form.\<close>

lemma py_strip_idem [simp]: "py_strip (py_strip s) = py_strip s"
proof (cases "py_strip s = []")
  case False
  let ?t = "py_strip s"
  have hd: "\<not> py_isspace (hd ?t)"
    using False hd_dropWhile_rev[of py_isspace s] by (simp add: py_strip_def)
  then have "dropWhile py_isspace ?t = ?t"
    using False by (cases ?t) auto
  then show ?thesis
    by (simp add: py_strip_def)
qed simp

lemma non_blank_strip [simp]: "non_blank (py_strip s) = non_blank s"
  by (simp add: non_blank_def)

text \<open>An identifier whose first and last characters are no white space is its own stripped form.\<close>

lemma py_strip_id:
  assumes "s \<noteq> []" "\<not> py_isspace (hd s)" "\<not> py_isspace (last s)"
  shows "py_strip s = s"
proof -
  have "dropWhile py_isspace s = s" using assms by (cases s) auto
  moreover have "dropWhile py_isspace (rev s) = rev s"
    using assms by (cases "rev s") (auto simp: last_rev[symmetric] hd_rev)
  ultimately show ?thesis by (simp add: py_strip_def)
qed

lemma lower_hex_not_space: "is_lower_hex c \<Longrightarrow> \<not> py_isspace c"
proof -
  have "list_all (\<lambda>c. \<not> py_isspace c) ''0123456789abcdef''" by code_simp
  then show "is_lower_hex c \<Longrightarrow> \<not> py_isspace c" by (auto simp: is_lower_hex_def list_all_iff)
qed

lemma sha256_digest_strip:
  assumes "is_sha256_digest d"
  shows "py_strip d = d"
proof (rule py_strip_id)
  have d: "take 7 d = ''sha256:''" "length d = 71" "list_all is_lower_hex (drop 7 d)"
    using assms by (simp_all add: is_sha256_digest_def)
  then show ne: "d \<noteq> []" by auto
  have "hd d = hd (take 7 d)" using ne by simp
  then show "\<not> py_isspace (hd d)" using d(1) by (simp add: py_isspace_def)
  have "last d = last (drop 7 d)" using d(2) by simp
  moreover have "last (drop 7 d) \<in> set (drop 7 d)" using d(2) by (intro last_in_set) auto
  ultimately show "\<not> py_isspace (last d)"
    using d(3) lower_hex_not_space by (auto simp: list_all_iff)
qed

end
