(* ===== verification/Py_Decimal.thy ===== *)
theory Py_Decimal
  imports Kernel_Prelude
begin

text \<open>
  Python's \<open>decimal.Decimal\<close> under the default context, which is the one the kernel computes in:
  28 significant digits, \<open>ROUND_HALF_EVEN\<close>.

  Every decimal of the kernel lives in a pydantic field or is computed from such fields, and pydantic
  refuses infinities and NaNs, so a decimal is a rational number. Comparisons are exact; every
  arithmetic operation computes the exact result and rounds it once with \<open>dec_fix\<close>. The exponent
  range of the context (up to \<open>10 ^ 999999\<close>) is taken as unbounded. Division is only used with
  denominators the validators keep non-zero.

  The facts the components use about rounding are the laws of the locale \<open>context_rounding\<close>: zero is
  exact, rounding is odd and monotone and has a relative error of at most \<open>5 * 10 ^ -28\<close>. They are
  proved here for \<open>dec_fix\<close>.
\<close>

type_synonym decimal = rat

section \<open>The rounding of the default context\<close>

fun ndigits :: "int \<Rightarrow> nat" where
  "ndigits n = (if n < 10 then 1 else Suc (ndigits (n div 10)))"

declare ndigits.simps [simp del]

text \<open>Round to the nearest integer, ties to even.\<close>

definition round_half_even :: "rat \<Rightarrow> int" where
  "round_half_even x = (let f = \<lfloor>x\<rfloor>; r = x - of_int f in
     if r < 1/2 then f else if r > 1/2 then f + 1 else if even f then f else f + 1)"

text \<open>\<open>Decimal.adjusted\<close>: the exponent of the most significant digit.\<close>

definition dec_adjusted :: "rat \<Rightarrow> int" where
  "dec_adjusted x =
     (let (p, q) = quotient_of \<bar>x\<bar>;
          k = int (ndigits p) - int (ndigits q)
      in if \<bar>x\<bar> < 10 powi k then k - 1 else k)"

definition dec_fix :: "rat \<Rightarrow> decimal" where
  "dec_fix x = (if x = 0 then 0
     else let e = dec_adjusted x - 27 in of_int (round_half_even (x / 10 powi e)) * 10 powi e)"

definition dec_add :: "decimal \<Rightarrow> decimal \<Rightarrow> decimal" where
  "dec_add x y = dec_fix (x + y)"

definition dec_sub :: "decimal \<Rightarrow> decimal \<Rightarrow> decimal" where
  "dec_sub x y = dec_fix (x - y)"

definition dec_mul :: "decimal \<Rightarrow> decimal \<Rightarrow> decimal" where
  "dec_mul x y = dec_fix (x * y)"

definition dec_div :: "decimal \<Rightarrow> decimal \<Rightarrow> decimal" where
  "dec_div x y = dec_fix (x / y)"

text \<open>\<open>sum(values, Decimal(0))\<close>.\<close>

definition dec_sum :: "decimal list \<Rightarrow> decimal" where
  "dec_sum xs = foldl dec_add 0 xs"

text \<open>\<open>to_integral_value\<close> rounds to an integer and does not apply the context precision.\<close>

definition dec_floor :: "decimal \<Rightarrow> decimal" where
  "dec_floor x = of_int \<lfloor>x\<rfloor>"

definition dec_ceiling :: "decimal \<Rightarrow> decimal" where
  "dec_ceiling x = of_int \<lceil>x\<rceil>"

text \<open>
  The \<open>%\<close> operator: the remainder of the division truncated towards zero. It traps when the
  divisor is zero or the integer quotient needs more than 28 digits.
\<close>

definition dec_trunc :: "rat \<Rightarrow> int" where
  "dec_trunc x = (if 0 \<le> x then \<lfloor>x\<rfloor> else \<lceil>x\<rceil>)"

definition dec_mod :: "decimal \<Rightarrow> decimal \<Rightarrow> decimal result" where
  "dec_mod x y =
     (if y = 0 \<or> 10 ^ 28 \<le> \<bar>dec_trunc (x / y)\<bar> then Inl DecimalInvalidOperation
      else Inr (dec_fix (x - y * of_int (dec_trunc (x / y)))))"

lemmas dec_ops = dec_add_def dec_sub_def dec_mul_def dec_div_def

section \<open>The laws of context rounding\<close>

locale context_rounding =
  fixes rnd :: "rat \<Rightarrow> rat" and eps :: rat
  assumes rnd_minus: "rnd (- x) = - rnd x"
    and rnd_mono: "x \<le> y \<Longrightarrow> rnd x \<le> rnd y"
    and rnd_error: "\<bar>rnd x - x\<bar> \<le> eps * \<bar>x\<bar>"
    and eps_small: "0 < eps" "eps < 1"
begin

lemma rnd_zero [simp]: "rnd 0 = 0"
  using rnd_error[of 0] by simp

lemma rnd_nonneg [simp]: "0 \<le> x \<Longrightarrow> 0 \<le> rnd x"
  using rnd_mono[of 0 x] by simp

lemma rnd_pos [simp]: "0 < x \<Longrightarrow> 0 < rnd x"
proof -
  assume "0 < x"
  then have "eps * x < 1 * x" using eps_small by (intro mult_strict_right_mono) auto
  moreover have "x - rnd x \<le> eps * x" using rnd_error[of x] \<open>0 < x\<close> by (simp add: abs_le_iff)
  ultimately show "0 < rnd x" by simp
qed

lemma rnd_pos_iff [simp]: "0 < rnd x \<longleftrightarrow> 0 < x"
  by (metis linorder_not_le neg_0_le_iff_le rnd_minus rnd_nonneg rnd_pos)

lemma rnd_neg_iff [simp]: "rnd x < 0 \<longleftrightarrow> x < 0"
  using rnd_pos_iff[of "- x"] by (simp add: rnd_minus)

lemma rnd_le_0_iff [simp]: "rnd x \<le> 0 \<longleftrightarrow> x \<le> 0"
  using rnd_pos_iff[of x] by (simp add: not_less [symmetric] del: rnd_pos_iff)

lemma rnd_eq_0_iff [simp]: "rnd x = 0 \<longleftrightarrow> x = 0"
  by (metis less_irrefl linorder_neqE rnd_neg_iff rnd_pos_iff rnd_zero)

lemma rnd_abs: "\<bar>rnd x\<bar> = rnd \<bar>x\<bar>"
  by (cases "0 \<le> x") (auto simp: rnd_minus abs_of_neg)

lemma rnd_upper: "0 \<le> x \<Longrightarrow> rnd x \<le> x * (1 + eps)"
  using rnd_error[of x] by (simp add: algebra_simps abs_le_iff)

lemma rnd_lower: "0 \<le> x \<Longrightarrow> x * (1 - eps) \<le> rnd x"
  using rnd_error[of x] by (simp add: algebra_simps abs_le_iff)

text \<open>Upper bounds through a chain of rounded operations, counting the roundings.\<close>

lemma rnd_chain: "0 \<le> x \<Longrightarrow> x \<le> y * (1 + eps) ^ n \<Longrightarrow> rnd x \<le> y * (1 + eps) ^ Suc n"
proof -
  assume x: "0 \<le> x" "x \<le> y * (1 + eps) ^ n"
  have "rnd x \<le> x * (1 + eps)" using x rnd_upper by simp
  also have "\<dots> \<le> y * (1 + eps) ^ n * (1 + eps)" using x eps_small by (intro mult_right_mono) auto
  finally show ?thesis by (simp add: mult_ac)
qed

end

section \<open>The default context satisfies the laws\<close>

lemma ndigits_pos: "0 < ndigits n"
  by (subst ndigits.simps) simp

lemma ndigits_bounds: "0 < n \<Longrightarrow> 10 ^ (ndigits n - 1) \<le> n \<and> n < 10 ^ ndigits n"
proof (induction n rule: ndigits.induct)
  case (1 n)
  show ?case
  proof (cases "n < 10")
    case True
    then show ?thesis using 1 by (simp add: ndigits.simps[of n])
  next
    case False
    then have IH: "10 ^ (ndigits (n div 10) - 1) \<le> n div 10 \<and> n div 10 < 10 ^ ndigits (n div 10)"
      using 1 by simp
    have e: "(10::int) ^ ndigits (n div 10) = 10 * 10 ^ (ndigits (n div 10) - 1)"
      by (metis Suc_diff_1 power_Suc ndigits_pos)
    show ?thesis using IH False by (simp add: ndigits.simps[of n] e) linarith
  qed
qed

lemma ndigits_bounds_rat:
  assumes "0 < n"
  shows "(10::rat) ^ (ndigits n - 1) \<le> of_int n" "of_int n < (10::rat) ^ ndigits n"
  using ndigits_bounds[OF assms]
  by (metis of_int_le_iff of_int_numeral of_int_power,
      metis of_int_less_iff of_int_numeral of_int_power ndigits_bounds[OF assms])

lemma quotient_digit_bounds:
  fixes p q :: int
  assumes p: "0 < p" and q: "0 < q"
  defines "k \<equiv> int (ndigits p) - int (ndigits q)"
  shows "(10::rat) powi (k - 1) \<le> of_int p / of_int q"
    and "of_int p / of_int q < (10::rat) powi (k + 1)"
proof -
  note P = ndigits_bounds_rat[OF p] and Q = ndigits_bounds_rat[OF q]
  have "(10::rat) powi (k - 1) = 10 ^ (ndigits p - 1) / 10 ^ ndigits q"
    using ndigits_pos[of p] ndigits_pos[of q]
    by (simp add: k_def power_int_diff of_nat_diff flip: power_int_of_nat)
  also have "\<dots> \<le> of_int p / of_int q"
    using P Q q p by (intro frac_le) auto
  finally show "(10::rat) powi (k - 1) \<le> of_int p / of_int q" .
  have "of_int p / of_int q < (10::rat) ^ ndigits p / 10 ^ (ndigits q - 1)"
    using P Q q p by (intro frac_less) auto
  also have "\<dots> = 10 powi (k + 1)"
    using ndigits_pos[of p] ndigits_pos[of q]
    by (simp add: k_def power_int_diff power_int_add of_nat_diff flip: power_int_of_nat)
  finally show "of_int p / of_int q < (10::rat) powi (k + 1)" .
qed

lemma dec_adjusted_bounds:
  assumes "x \<noteq> 0"
  shows "10 powi dec_adjusted x \<le> \<bar>x\<bar>" "\<bar>x\<bar> < 10 powi (dec_adjusted x + 1)"
proof -
  obtain p q where pq: "quotient_of \<bar>x\<bar> = (p, q)" by fastforce
  have q: "0 < q" and x: "\<bar>x\<bar> = of_int p / of_int q"
    using quotient_of_denom_pos[OF pq] quotient_of_div[OF pq] by auto
  have "0 < (of_int p / of_int q :: rat)" using assms x by (metis zero_less_abs_iff)
  then have p: "0 < p" using q by (simp add: zero_less_divide_iff)
  define k where "k = int (ndigits p) - int (ndigits q)"
  have "dec_adjusted x = (if \<bar>x\<bar> < 10 powi k then k - 1 else k)"
    by (simp add: dec_adjusted_def pq k_def Let_def)
  then show "10 powi dec_adjusted x \<le> \<bar>x\<bar>" "\<bar>x\<bar> < 10 powi (dec_adjusted x + 1)"
    using quotient_digit_bounds[OF p q] x by (auto simp: k_def split: if_splits)
qed

lemma dec_adjusted_mono:
  assumes "0 < x" "x \<le> y"
  shows "dec_adjusted x \<le> dec_adjusted y"
proof (rule ccontr)
  assume "\<not> ?thesis"
  then have "(10::rat) powi (dec_adjusted y + 1) \<le> 10 powi dec_adjusted x"
    by (intro power_int_increasing) auto
  then show False
    using dec_adjusted_bounds[of x] dec_adjusted_bounds[of y] assms by simp
qed

lemma dec_adjusted_minus [simp]: "dec_adjusted (- x) = dec_adjusted x"
  by (simp add: dec_adjusted_def)

lemma round_half_even_of_int [simp]: "round_half_even (of_int n) = n"
  by (simp add: round_half_even_def)

lemma round_half_even_numeral [simp]: "round_half_even (numeral n) = numeral n"
  using round_half_even_of_int[of "numeral n"] by simp

lemma round_half_even_zero [simp]: "round_half_even 0 = 0"
  using round_half_even_of_int[of 0] by simp

lemma round_half_even_error: "\<bar>of_int (round_half_even x) - x\<bar> \<le> 1/2"
proof -
  define f :: rat where "f = of_int \<lfloor>x\<rfloor>"
  have "f \<le> x" "x < f + 1" unfolding f_def by linarith+
  moreover have "of_int (round_half_even x) = f \<and> x - f \<le> 1/2
      \<or> of_int (round_half_even x) = f + 1 \<and> 1/2 \<le> x - f"
    by (simp add: round_half_even_def Let_def f_def)
  ultimately show ?thesis
    by (elim disjE conjE) (simp_all add: abs_le_iff)
qed

lemma round_half_even_bounds: "\<lfloor>x\<rfloor> \<le> round_half_even x" "round_half_even x \<le> \<lfloor>x\<rfloor> + 1"
  by (simp_all add: round_half_even_def Let_def)

lemma round_half_even_mono:
  assumes "x \<le> y"
  shows "round_half_even x \<le> round_half_even y"
proof (cases "\<lfloor>x\<rfloor> = \<lfloor>y\<rfloor>")
  case True
  then show ?thesis using assms by (simp add: round_half_even_def Let_def)
next
  case False
  then have "\<lfloor>x\<rfloor> + 1 \<le> \<lfloor>y\<rfloor>" using floor_mono[OF assms] by simp
  then show ?thesis using round_half_even_bounds[of x] round_half_even_bounds[of y] by linarith
qed

lemma round_half_even_minus: "round_half_even (- x) = - round_half_even x"
proof (cases "x = of_int \<lfloor>x\<rfloor>")
  case True
  then show ?thesis by (metis of_int_minus round_half_even_of_int)
next
  case False
  then have "\<lfloor>- x\<rfloor> = - \<lfloor>x\<rfloor> - 1"
    by linarith
  then show ?thesis
    by (simp add: round_half_even_def Let_def)
qed

lemma dec_fix_minus: "dec_fix (- x) = - dec_fix x"
  by (simp add: dec_fix_def Let_def round_half_even_minus)

lemma dec_fix_decade:
  assumes "0 < x"
  shows "10 powi dec_adjusted x \<le> dec_fix x" "dec_fix x \<le> 10 powi (dec_adjusted x + 1)"
proof -
  define e where "e = dec_adjusted x - 27"
  have pos: "(0::rat) < 10 powi e" by simp
  have lo: "of_int (10 ^ 27) \<le> x / 10 powi e" and hi: "x / 10 powi e \<le> of_int (10 ^ 28)"
    using dec_adjusted_bounds[of x] assms pos
    by (simp_all add: e_def field_simps power_int_diff power_int_add)
  have "10 ^ 27 \<le> round_half_even (x / 10 powi e)" "round_half_even (x / 10 powi e) \<le> 10 ^ 28"
    using round_half_even_mono[OF lo] round_half_even_mono[OF hi] by simp_all
  then have "(10::rat) ^ 27 \<le> of_int (round_half_even (x / 10 powi e))"
    "of_int (round_half_even (x / 10 powi e)) \<le> (10::rat) ^ 28"
    by (metis of_int_le_iff of_int_numeral of_int_power)+
  then have "10 ^ 27 * 10 powi e \<le> dec_fix x" "dec_fix x \<le> 10 ^ 28 * 10 powi e"
    using assms by (simp_all add: dec_fix_def Let_def e_def)
  then show "10 powi dec_adjusted x \<le> dec_fix x" "dec_fix x \<le> 10 powi (dec_adjusted x + 1)"
    by (simp_all add: e_def power_int_diff power_int_add)
qed

lemma dec_fix_mono_pos:
  assumes "0 < x" "x \<le> y"
  shows "dec_fix x \<le> dec_fix y"
proof (cases "dec_adjusted x = dec_adjusted y")
  case True
  then have "round_half_even (x / 10 powi (dec_adjusted x - 27))
      \<le> round_half_even (y / 10 powi (dec_adjusted y - 27))"
    using assms by (intro round_half_even_mono) (simp add: divide_right_mono)
  then show ?thesis
    using assms True by (simp add: dec_fix_def Let_def)
next
  case False
  then have "dec_adjusted x + 1 \<le> dec_adjusted y" using dec_adjusted_mono[OF assms] by simp
  then have "(10::rat) powi (dec_adjusted x + 1) \<le> 10 powi dec_adjusted y"
    by (intro power_int_increasing) auto
  then show ?thesis
    using dec_fix_decade[of x] dec_fix_decade[of y] assms by linarith
qed

lemma dec_fix_pos: "0 < x \<Longrightarrow> 0 < dec_fix x"
  using dec_fix_decade(1)[of x] by (meson less_le_trans zero_less_numeral zero_less_power_int)

lemma dec_fix_mono:
  assumes "x \<le> y"
  shows "dec_fix x \<le> dec_fix y"
proof -
  consider "0 < x" | "x = 0" | "x < 0" "0 \<le> y" | "y < 0" using assms by linarith
  then show ?thesis
  proof cases
    case 1
    then show ?thesis using assms by (rule dec_fix_mono_pos)
  next
    case 2
    then show ?thesis using assms dec_fix_pos[of y] by (cases "y = 0") (auto simp: dec_fix_def)
  next
    case 3
    then have "dec_fix x < 0" using dec_fix_pos[of "- x"] by (simp add: dec_fix_minus)
    moreover have "0 \<le> dec_fix y"
      using 3 dec_fix_pos[of y] by (cases "y = 0") (auto simp: dec_fix_def)
    ultimately show ?thesis by simp
  next
    case 4
    then have "dec_fix (- y) \<le> dec_fix (- x)" using assms by (intro dec_fix_mono_pos) auto
    then show ?thesis by (simp add: dec_fix_minus)
  qed
qed

lemma dec_fix_error: "\<bar>dec_fix x - x\<bar> \<le> 1 / (2 * 10 ^ 27) * \<bar>x\<bar>"
proof (cases "x = 0")
  case False
  define e where "e = dec_adjusted x - 27"
  define m where "m = x / 10 powi e"
  have pos: "(0::rat) < 10 powi e" by simp
  have "dec_fix x - x = (of_int (round_half_even m) - m) * 10 powi e"
    using False by (simp add: dec_fix_def Let_def e_def m_def algebra_simps)
  then have "\<bar>dec_fix x - x\<bar> = \<bar>of_int (round_half_even m) - m\<bar> * 10 powi e"
    by (simp add: abs_mult)
  also have "\<dots> \<le> 1/2 * 10 powi e"
    using round_half_even_error[of m] pos by (intro mult_right_mono) auto
  also have "\<dots> = 1 / (2 * 10 ^ 27) * 10 powi dec_adjusted x"
    by (simp add: e_def power_int_diff)
  also have "\<dots> \<le> 1 / (2 * 10 ^ 27) * \<bar>x\<bar>"
    using dec_adjusted_bounds(1)[OF False] by (intro mult_left_mono) auto
  finally show ?thesis .
qed (simp add: dec_fix_def)

definition dec_eps :: rat where
  "dec_eps = 1 / (2 * 10 ^ 27)"

interpretation dec: context_rounding dec_fix dec_eps
proof unfold_locales
  show "\<bar>dec_fix x - x\<bar> \<le> dec_eps * \<bar>x\<bar>" for x
    unfolding dec_eps_def by (rule dec_fix_error)
qed (auto simp: dec_fix_minus dec_fix_mono dec_eps_def)

section \<open>Exact results\<close>

text \<open>A value with at most 28 significant digits is not rounded.\<close>

definition representable :: "rat \<Rightarrow> bool" where
  "representable x \<longleftrightarrow> (\<exists>m e. x = of_int m * 10 powi e \<and> \<bar>m\<bar> \<le> 10 ^ 28)"

lemma dec_fix_integral_quotient:
  assumes "x / 10 powi (dec_adjusted x - 27) = of_int n"
  shows "dec_fix x = x"
  using assms by (cases "x = 0") (simp_all add: dec_fix_def Let_def, simp add: field_simps)

lemma dec_fix_scaled_int:
  assumes m: "\<bar>m\<bar> \<le> 10 ^ 28"
  shows "dec_fix (of_int m * 10 powi k) = of_int m * 10 powi k"
proof (cases "m = 0")
  case False
  define x where "x = (of_int m * 10 powi k :: rat)"
  define e where "e = dec_adjusted x - 27"
  have x0: "x \<noteq> 0" using False by (simp add: x_def)
  have absx: "\<bar>x\<bar> = of_int \<bar>m\<bar> * 10 powi k" by (simp add: x_def abs_mult)
  have "\<exists>n. x / 10 powi e = of_int n"
  proof (cases "e \<le> k")
    case True
    then have "(10::rat) powi k / 10 powi e = of_int (10 ^ nat (k - e))"
      by (simp flip: power_int_diff power_int_of_nat)
    then show ?thesis
      by (metis x_def of_int_mult times_divide_eq_right)
  next
    case False
    have "of_int \<bar>m\<bar> \<le> (10 ^ 28 :: rat)" using m by (metis of_int_le_iff of_int_numeral of_int_power)
    moreover have ge: "10 powi (e + 27 - k) \<le> (of_int \<bar>m\<bar> :: rat)"
      using dec_adjusted_bounds(1)[OF x0] absx
      by (simp add: e_def power_int_diff power_int_add field_simps)
    ultimately have "(10::rat) powi (e + 27 - k) \<le> 10 powi 28" by simp
    then have "e + 27 - k \<le> 28"
      by (metis linorder_not_le one_less_numeral_iff power_int_strict_increasing semiring_norm(76))
    then have k: "k = e - 1" using False by simp
    then have "(of_int \<bar>m\<bar> :: rat) = 10 ^ 28"
      using ge \<open>of_int \<bar>m\<bar> \<le> (10 ^ 28 :: rat)\<close> by simp
    then have "\<bar>m\<bar> = 10 ^ 28" by (metis of_int_eq_iff of_int_numeral of_int_power)
    then have "x / 10 powi e = of_int (sgn m * 10 ^ 27)"
      using k by (auto simp: x_def power_int_diff sgn_if abs_if split: if_splits)
    then show ?thesis by blast
  qed
  then show ?thesis
    using dec_fix_integral_quotient[of x] by (auto simp: e_def x_def)
qed simp

lemma dec_fix_representable: "representable x \<Longrightarrow> dec_fix x = x"
  by (auto simp: representable_def dec_fix_scaled_int)

lemma representable_dec_fix [simp]: "representable (dec_fix x)"
proof (cases "x = 0")
  case False
  have "\<bar>round_half_even (y / 10 powi (dec_adjusted y - 27))\<bar> \<le> 10 ^ 28" if "0 < y" for y :: rat
  proof -
    have "y / 10 powi (dec_adjusted y - 27) \<le> of_int (10 ^ 28)"
      using dec_adjusted_bounds[of y] that by (simp add: field_simps power_int_diff power_int_add)
    from round_half_even_mono[OF this]
    have "round_half_even (y / 10 powi (dec_adjusted y - 27)) \<le> 10 ^ 28" by simp
    moreover have "0 \<le> round_half_even (y / 10 powi (dec_adjusted y - 27))"
      using round_half_even_mono[of "of_int 0" "y / 10 powi (dec_adjusted y - 27)"] that by simp
    ultimately show ?thesis by simp
  qed
  from this[of x] this[of "- x"] False
  have "\<bar>round_half_even (x / 10 powi (dec_adjusted x - 27))\<bar> \<le> 10 ^ 28"
    by (cases "0 < x") (auto simp: round_half_even_minus)
  then show ?thesis using False by (auto simp: representable_def dec_fix_def Let_def)
qed (auto simp: representable_def dec_fix_def intro: exI[of _ 0])

lemma dec_fix_idem [simp]: "dec_fix (dec_fix x) = dec_fix x"
  by (simp add: dec_fix_representable)

lemma dec_fix_of_int: "\<bar>m\<bar> \<le> 10 ^ 28 \<Longrightarrow> dec_fix (of_int m) = of_int m"
  using dec_fix_scaled_int[of m 0] by simp

lemma dec_fix_numeral [simp]:
  "(numeral n :: int) \<le> 10 ^ 28 \<Longrightarrow> dec_fix (numeral n) = numeral n"
  using dec_fix_of_int[of "numeral n"] by simp

lemma dec_fix_neg_numeral [simp]:
  "(numeral n :: int) \<le> 10 ^ 28 \<Longrightarrow> dec_fix (- numeral n) = - numeral n"
  using dec_fix_numeral[of n] by (simp add: dec_fix_minus)

lemma dec_fix_one [simp]: "dec_fix 1 = 1"
  using dec_fix_of_int[of 1] by simp

lemma dec_fix_neg_one [simp]: "dec_fix (- 1) = - 1"
  by (simp add: dec_fix_minus)

text \<open>A decimal fraction \<open>m / 10 ^ k\<close> with few digits, as it appears in concrete inputs.\<close>

lemma dec_fix_frac:
  "\<bar>m\<bar> \<le> 10 ^ 28 \<Longrightarrow> dec_fix (of_int m / 10 ^ k) = of_int m / 10 ^ k"
  using dec_fix_scaled_int[of m "- int k"] by (simp add: power_int_minus divide_inverse)

section \<open>Rounding to a step\<close>

lemma dec_floor_le: "dec_floor x \<le> x"
  by (simp add: dec_floor_def)

lemma dec_floor_nonneg [simp]: "0 \<le> x \<Longrightarrow> 0 \<le> dec_floor x"
  by (simp add: dec_floor_def)

lemma dec_floor_mono: "x \<le> y \<Longrightarrow> dec_floor x \<le> dec_floor y"
  by (simp add: dec_floor_def floor_mono)

lemma dec_ceiling_ge: "x \<le> dec_ceiling x"
  by (simp add: dec_ceiling_def)

lemma dec_mod_zero_iff:
  assumes "0 \<le> x" "0 < y"
  shows "dec_mod x y = Inr 0 \<longleftrightarrow> \<lfloor>x / y\<rfloor> < 10 ^ 28 \<and> x = y * of_int \<lfloor>x / y\<rfloor>"
proof -
  have "0 \<le> x / y" using assms by simp
  then show ?thesis
    using assms by (auto simp: dec_mod_def dec_trunc_def)
qed

end
