(* ===== verification/Py_Digest.thy ===== *)
theory Py_Digest
  imports Py_Decimal "HOL-Library.Word"
begin

unbundle bit_operations_syntax

text \<open>
  The standard-library services behind the kernel's deterministic identities: \<open>hashlib.sha256\<close>
  (FIPS 180-4, over the UTF-8 bytes of an ASCII string), \<open>str(int)\<close>, the fixed-point rendering of a
  decimal, and \<open>json.dumps(..., ensure_ascii=False, separators=(",", ":"), sort_keys=True)\<close>. On top
  of them, \<open>canonical_digest\<close> as several domain modules define it.

  The lemmas give what the code relies on: a digest has 64 lower-case hexadecimal digits, so every
  \<open>sha256:\<close> identity built here matches the pattern the validators require.
\<close>

section \<open>SHA-256\<close>

type_synonym word32 = "32 word"

definition sha256_k :: "word32 list" where
  "sha256_k =
   [
    1116352408, 1899447441, 3049323471, 3921009573, 961987163, 1508970993, 2453635748, 2870763221,
    3624381080, 310598401, 607225278, 1426881987, 1925078388, 2162078206, 2614888103, 3248222580,
    3835390401, 4022224774, 264347078, 604807628, 770255983, 1249150122, 1555081692, 1996064986,
    2554220882, 2821834349, 2952996808, 3210313671, 3336571891, 3584528711, 113926993, 338241895,
    666307205, 773529912, 1294757372, 1396182291, 1695183700, 1986661051, 2177026350, 2456956037,
    2730485921, 2820302411, 3259730800, 3345764771, 3516065817, 3600352804, 4094571909, 275423344,
    430227734, 506948616, 659060556, 883997877, 958139571, 1322822218, 1537002063, 1747873779,
    1955562222, 2024104815, 2227730452, 2361852424, 2428436474, 2756734187, 3204031479, 3329325298]"

datatype sha_state = Sha word32 word32 word32 word32 word32 word32 word32 word32

definition sha256_init :: sha_state where
  "sha256_init = Sha 1779033703 3144134277 1013904242 2773480762
                     1359893119 2600822924 528734635 1541459225"

definition big_sigma0 :: "word32 \<Rightarrow> word32" where
  "big_sigma0 x = (word_rotr 2 x XOR word_rotr 13 x XOR word_rotr 22 x)"

definition big_sigma1 :: "word32 \<Rightarrow> word32" where
  "big_sigma1 x = (word_rotr 6 x XOR word_rotr 11 x XOR word_rotr 25 x)"

definition small_sigma0 :: "word32 \<Rightarrow> word32" where
  "small_sigma0 x = (word_rotr 7 x XOR word_rotr 18 x XOR drop_bit 3 x)"

definition small_sigma1 :: "word32 \<Rightarrow> word32" where
  "small_sigma1 x = (word_rotr 17 x XOR word_rotr 19 x XOR drop_bit 10 x)"

fun sha_round :: "sha_state \<Rightarrow> word32 \<times> word32 \<Rightarrow> sha_state" where
  "sha_round (Sha a b c d e f g h) (k, w) =
     (let t1 = h + big_sigma1 e + ((e AND f) XOR (NOT e AND g)) + k + w;
          t2 = big_sigma0 a + ((a AND b) XOR (a AND c) XOR (b AND c))
      in Sha (t1 + t2) a b c (d + t1) e f g)"

fun sha_add :: "sha_state \<Rightarrow> sha_state \<Rightarrow> sha_state" where
  "sha_add (Sha a b c d e f g h) (Sha a' b' c' d' e' f' g' h') =
     Sha (a + a') (b + b') (c + c') (d + d') (e + e') (f + f') (g + g') (h + h')"

text \<open>The message schedule: \<open>n\<close> further words, each from the sixteen before it.\<close>

fun sha_schedule :: "nat \<Rightarrow> word32 list \<Rightarrow> word32 list" where
  "sha_schedule 0 ws = ws"
| "sha_schedule (Suc n) ws =
     (let t = length ws in
      sha_schedule n (ws @ [small_sigma1 (ws ! (t - 2)) + ws ! (t - 7)
                            + small_sigma0 (ws ! (t - 15)) + ws ! (t - 16)]))"

definition sha_block :: "sha_state \<Rightarrow> word32 list \<Rightarrow> sha_state" where
  "sha_block st ws = sha_add st (foldl sha_round st (zip sha256_k (sha_schedule 48 ws)))"

definition bytes_to_word :: "nat list \<Rightarrow> word32" where
  "bytes_to_word bs = foldl (\<lambda>acc b. 256 * acc + of_nat b) 0 bs"

function sha_chunks :: "nat \<Rightarrow> 'a list \<Rightarrow> 'a list list" where
  "sha_chunks n xs = (if n = 0 \<or> xs = [] then [] else take n xs # sha_chunks n (drop n xs))"
  by pat_completeness auto
termination
  by (relation "measure (\<lambda>(n, xs). length xs)") auto

declare sha_chunks.simps [simp del]

text \<open>Padding: a one bit, zeros up to 56 bytes modulo 64, and the bit length in eight bytes.\<close>

definition sha_pad :: "nat list \<Rightarrow> nat list" where
  "sha_pad bs =
     (let n = length bs; z = (55 + 64 - n mod 64) mod 64
      in bs @ [128] @ replicate z 0 @ map (\<lambda>i. (8 * n div 256 ^ i) mod 256) (rev [0..<8]))"

definition sha256_state :: "nat list \<Rightarrow> sha_state" where
  "sha256_state bs =
     foldl sha_block sha256_init
       (map (\<lambda>blk. map bytes_to_word (sha_chunks 4 blk)) (sha_chunks 64 (sha_pad bs)))"

definition hex_char :: "nat \<Rightarrow> char" where
  "hex_char n = (if n < 10 then char_of (48 + n) else char_of (87 + n))"

definition word_hex :: "word32 \<Rightarrow> string" where
  "word_hex w = map (\<lambda>i. hex_char (unat (drop_bit (4 * i) w) mod 16)) (rev [0..<8])"

fun state_hex :: "sha_state \<Rightarrow> string" where
  "state_hex (Sha a b c d e f g h) =
     word_hex a @ word_hex b @ word_hex c @ word_hex d
     @ word_hex e @ word_hex f @ word_hex g @ word_hex h"

text \<open>\<open>sha256(text.encode("utf-8")).hexdigest()\<close>.\<close>

definition sha256_hexdigest :: "string \<Rightarrow> string" where
  "sha256_hexdigest s = state_hex (sha256_state (map of_char s))"

lemma is_lower_hex_hex_char: "n < 16 \<Longrightarrow> is_lower_hex (hex_char n)"
proof -
  have "list_all (\<lambda>n. is_lower_hex (hex_char n)) [0..<16]" by code_simp
  then show "n < 16 \<Longrightarrow> is_lower_hex (hex_char n)" by (simp add: list_all_iff)
qed

lemma length_word_hex [simp]: "length (word_hex w) = 8"
  by (simp add: word_hex_def)

lemma word_hex_is_hex [simp]: "list_all is_lower_hex (word_hex w)"
  by (simp add: word_hex_def list_all_iff is_lower_hex_hex_char)

lemma length_sha256_hexdigest [simp]: "length (sha256_hexdigest s) = 64"
  unfolding sha256_hexdigest_def by (cases "sha256_state (map of_char s)") simp

lemma sha256_hexdigest_is_hex [simp]: "list_all is_lower_hex (sha256_hexdigest s)"
  unfolding sha256_hexdigest_def by (cases "sha256_state (map of_char s)") simp

lemma sha256_prefix_is_digest [simp]: "is_sha256_digest (''sha256:'' @ sha256_hexdigest s)"
  by (simp add: is_sha256_digest_def)

section \<open>Numbers as text\<close>

fun show_nat :: "nat \<Rightarrow> string" where
  "show_nat n = (if n < 10 then [char_of (48 + n)] else show_nat (n div 10) @ [char_of (48 + n mod 10)])"

declare show_nat.simps [simp del]

definition show_int :: "int \<Rightarrow> string" where
  "show_int i = (if i < 0 then ''-'' @ show_nat (nat (- i)) else show_nat (nat i))"

text \<open>
  The number of fractional digits of a decimal with denominator \<open>q\<close>: each digit cancels the common
  factor of \<open>q\<close> and 10.
\<close>

function frac_digits :: "int \<Rightarrow> nat" where
  "frac_digits q = (if q \<le> 1 \<or> gcd q 10 = 1 then 0 else Suc (frac_digits (q div gcd q 10)))"
  by pat_completeness auto
termination
proof (relation "measure nat")
  fix q :: int
  assume a: "\<not> (q \<le> 1 \<or> gcd q 10 = 1)"
  have "1 < gcd q 10" using a gcd_pos_int[of q 10] by linarith
  then have "q div gcd q 10 < q" using a by (intro int_div_less_self) auto
  then show "(q div gcd q 10, q) \<in> measure nat" using a by auto
qed simp

declare frac_digits.simps [simp del]

definition pad_zeros :: "nat \<Rightarrow> string \<Rightarrow> string" where
  "pad_zeros n s = replicate (n - length s) (CHR ''0'') @ s"

text \<open>
  The fixed-point rendering without trailing zeros: \<open>"0" if v == 0 else format(v.normalize(), "f")\<close>,
  and equally \<open>format(v, "f")\<close> after \<open>rstrip("0").rstrip(".")\<close>. It depends on the value only.
\<close>

definition show_decimal :: "decimal \<Rightarrow> string" where
  "show_decimal x =
     (let k = frac_digits (snd (quotient_of x));
          n = nat \<lfloor>\<bar>x\<bar> * 10 ^ k\<rfloor>
      in (if x < 0 then ''-'' else []) @ show_nat (n div 10 ^ k) @
         (if k = 0 then [] else ''.'' @ pad_zeros k (show_nat (n mod 10 ^ k))))"

section \<open>Canonical JSON\<close>

datatype json =
    JNull
  | JBool bool
  | JInt int
  | JStr string
  | JList "json list"
  | JObj "(string \<times> json) list"

definition json_escape_char :: "char \<Rightarrow> string" where
  "json_escape_char c =
     (let n = (of_char c :: nat) in
      if n = 34 then [char_of (92::nat), c]
      else if n = 92 then [c, c]
      else if n = 8 then char_of (92::nat) # ''b''
      else if n = 9 then char_of (92::nat) # ''t''
      else if n = 10 then char_of (92::nat) # ''n''
      else if n = 12 then char_of (92::nat) # ''f''
      else if n = 13 then char_of (92::nat) # ''r''
      else if n < 32 then char_of (92::nat) # ''u00'' @ [hex_char (n div 16), hex_char (n mod 16)]
      else [c])"

definition json_string :: "string \<Rightarrow> string" where
  "json_string s = [char_of (34::nat)] @ concat (map json_escape_char s) @ [char_of (34::nat)]"

fun join_comma :: "string list \<Rightarrow> string" where
  "join_comma [] = []"
| "join_comma [x] = x"
| "join_comma (x # y # ys) = x @ '','' @ join_comma (y # ys)"

fun json_dumps :: "json \<Rightarrow> string" where
  "json_dumps JNull = ''null''"
| "json_dumps (JBool b) = (if b then ''true'' else ''false'')"
| "json_dumps (JInt i) = show_int i"
| "json_dumps (JStr s) = json_string s"
| "json_dumps (JList js) = ''['' @ join_comma (map json_dumps js) @ '']''"
| "json_dumps (JObj kvs) =
     ''{'' @ join_comma (map snd (sort_key fst
        (map (\<lambda>(k, j). (k, json_string k @ '':'' @ json_dumps j)) kvs))) @ ''}''"

text \<open>\<open>_canonicalize\<close> renders a decimal as its normalized value; normalizing rounds to the context.\<close>

definition json_decimal :: "decimal \<Rightarrow> json" where
  "json_decimal x = JStr (show_decimal (dec_fix x))"

definition json_option :: "('a \<Rightarrow> json) \<Rightarrow> 'a option \<Rightarrow> json" where
  "json_option f v = (case v of None \<Rightarrow> JNull | Some x \<Rightarrow> f x)"

definition canonical_digest :: "json \<Rightarrow> string" where
  "canonical_digest j = ''sha256:'' @ sha256_hexdigest (json_dumps j)"

lemma canonical_digest_is_digest [simp]: "is_sha256_digest (canonical_digest j)"
  unfolding canonical_digest_def by (rule sha256_prefix_is_digest)

end
