(* ===== verification/Identities.thy ===== *)
theory Identities
  imports Py_Digest
begin

text \<open>
  \<open>domain/identities.py\<close>, \<open>domain/exposure_family.py\<close> and \<open>domain/incident_blocking.py\<close>: the
  immutable identities shared by every fact, command, event and projection of a Ticket, and the typed
  fences an incident puts on new ENTRY. The model of a pydantic class is a record; its validators are
  the function \<open>mk_\<dots>\<close>, which returns the normalised record or \<open>ValidationError\<close>.
\<close>

datatype position_side = Long | Short

fun side_value :: "position_side \<Rightarrow> string" where
  "side_value Long = ''long''"
| "side_value Short = ''short''"

datatype exposure_family = long_continuation | opening_range | rally_failure_short

record netting_domain =
  nd_venue_id :: string
  nd_account_id :: string
  nd_exchange_instrument_id :: string
  nd_position_side :: position_side

record runtime_identity =
  ri_runtime_profile_id :: string
  ri_strategy_group_id :: string
  ri_strategy_version_id :: string
  ri_event_spec_id :: string

record ticket_identity =
  ti_ticket_id :: string
  ti_exposure_episode_id :: string
  ti_signal_event_id :: string
  ti_runtime :: runtime_identity
  ti_netting_domain :: netting_domain

text \<open>\<open>_FrozenIdentity._require_non_blank_strings\<close> on every string field.\<close>

definition mk_netting_domain :: "netting_domain \<Rightarrow> netting_domain result" where
  "mk_netting_domain d =
     (if non_blank (nd_venue_id d) \<and> non_blank (nd_account_id d)
         \<and> non_blank (nd_exchange_instrument_id d)
      then Inr (d\<lparr>nd_venue_id := py_strip (nd_venue_id d),
                  nd_account_id := py_strip (nd_account_id d),
                  nd_exchange_instrument_id := py_strip (nd_exchange_instrument_id d)\<rparr>)
      else Inl ValidationError)"

definition mk_runtime_identity :: "runtime_identity \<Rightarrow> runtime_identity result" where
  "mk_runtime_identity r =
     (if non_blank (ri_runtime_profile_id r) \<and> non_blank (ri_strategy_group_id r)
         \<and> non_blank (ri_strategy_version_id r) \<and> non_blank (ri_event_spec_id r)
      then Inr (r\<lparr>ri_runtime_profile_id := py_strip (ri_runtime_profile_id r),
                  ri_strategy_group_id := py_strip (ri_strategy_group_id r),
                  ri_strategy_version_id := py_strip (ri_strategy_version_id r),
                  ri_event_spec_id := py_strip (ri_event_spec_id r)\<rparr>)
      else Inl ValidationError)"

definition mk_ticket_identity :: "ticket_identity \<Rightarrow> ticket_identity result" where
  "mk_ticket_identity t =
     bind_result (mk_runtime_identity (ti_runtime t)) (\<lambda>r.
     bind_result (mk_netting_domain (ti_netting_domain t)) (\<lambda>d.
       if non_blank (ti_ticket_id t) \<and> non_blank (ti_exposure_episode_id t)
          \<and> non_blank (ti_signal_event_id t)
       then Inr \<lparr>ti_ticket_id = py_strip (ti_ticket_id t),
                 ti_exposure_episode_id = py_strip (ti_exposure_episode_id t),
                 ti_signal_event_id = py_strip (ti_signal_event_id t),
                 ti_runtime = r, ti_netting_domain = d\<rparr>
       else Inl ValidationError))"

text \<open>\<open>NettingDomain.key\<close>.\<close>

definition netting_domain_key :: "netting_domain \<Rightarrow> string" where
  "netting_domain_key d =
     nd_venue_id d @ '':'' @ nd_account_id d @ '':'' @ nd_exchange_instrument_id d @ '':''
     @ side_value (nd_position_side d)"

section \<open>Entry block scopes\<close>

datatype entry_block_scope = RUNTIME | ACCOUNT_CAPACITY | LEVERAGE_DOMAIN | NO_BLOCK

text \<open>\<open>urllib.parse.quote(text, safe='')\<close>: letters, digits and \<open>_.-~\<close> stay, other bytes become \<open>%XX\<close>.\<close>

definition upper_hex_char :: "nat \<Rightarrow> char" where
  "upper_hex_char n = (if n < 10 then char_of (48 + n) else char_of (55 + n))"

definition url_unreserved :: "char \<Rightarrow> bool" where
  "url_unreserved c =
     (let n = (of_char c :: nat) in
      (48 \<le> n \<and> n \<le> 57) \<or> (65 \<le> n \<and> n \<le> 90) \<or> (97 \<le> n \<and> n \<le> 122) \<or> c \<in> set ''_.-~'')"

definition url_quote :: "string \<Rightarrow> string" where
  "url_quote s = concat (map (\<lambda>c. if url_unreserved c then [c]
     else (let n = (of_char c :: nat) in ''%'' @ [upper_hex_char (n div 16), upper_hex_char (n mod 16)])) s)"

definition canonical_entry_block_key ::
  "entry_block_scope \<Rightarrow> string \<Rightarrow> string \<Rightarrow> string option \<Rightarrow> string option result" where
  "canonical_entry_block_key scope venue_id account_id exchange_instrument_id =
     (if scope = RUNTIME then Inr (Some ''global'')
      else if scope = NO_BLOCK then Inr None
      else if venue_id = [] \<or> account_id = []
      then Inl (ValueError ''entry block keys require venue and account identity'')
      else if scope = ACCOUNT_CAPACITY then Inr (Some (venue_id @ '':'' @ account_id))
      else (case exchange_instrument_id of
              None \<Rightarrow> Inl (ValueError ''leverage-domain block keys require instrument identity'')
            | Some i \<Rightarrow>
                if i = [] then Inl (ValueError ''leverage-domain block keys require instrument identity'')
                else Inr (Some (venue_id @ '':'' @ account_id @ '':'' @ url_quote i))))"

section \<open>Lemmas\<close>

text \<open>Validation is a projection onto its image: a validated identity validates to itself.\<close>

lemma mk_netting_domain_idem:
  "mk_netting_domain d = Inr d' \<Longrightarrow> mk_netting_domain d' = Inr d'"
  by (auto simp: mk_netting_domain_def split: if_splits)

lemma mk_runtime_identity_idem:
  "mk_runtime_identity r = Inr r' \<Longrightarrow> mk_runtime_identity r' = Inr r'"
  by (auto simp: mk_runtime_identity_def split: if_splits)

lemma mk_ticket_identity_idem:
  "mk_ticket_identity t = Inr t' \<Longrightarrow> mk_ticket_identity t' = Inr t'"
  by (auto simp: mk_ticket_identity_def split: if_splits
      dest: mk_netting_domain_idem mk_runtime_identity_idem)

text \<open>
  The leverage-domain key separates instruments: percent-quoting is injective and leaves no colon in
  the quoted part, so two instruments of one account never share a fence.
\<close>

lemma upper_hex_inj: "m < 16 \<Longrightarrow> n < 16 \<Longrightarrow> upper_hex_char m = upper_hex_char n \<Longrightarrow> m = n"
proof -
  have "list_all (\<lambda>m. list_all (\<lambda>n. upper_hex_char m = upper_hex_char n \<longrightarrow> m = n) [0..<16]) [0..<16]"
    by code_simp
  then show "m < 16 \<Longrightarrow> n < 16 \<Longrightarrow> upper_hex_char m = upper_hex_char n \<Longrightarrow> m = n"
    by (simp add: list_all_iff)
qed

lemma url_unreserved_not_percent: "\<not> url_unreserved (CHR ''%'')"
  by code_simp

lemma url_quote_Cons: "url_quote (c # s) = (if url_unreserved c then [c]
     else ''%'' @ [upper_hex_char (of_char c div 16), upper_hex_char (of_char c mod 16)]) @ url_quote s"
  by (simp add: url_quote_def Let_def)

lemma url_quote_Nil [simp]: "url_quote [] = []"
  by (simp add: url_quote_def)

lemma char_eq_of_halves:
  assumes "(of_char c :: nat) div 16 = of_char d div 16" "(of_char c :: nat) mod 16 = of_char d mod 16"
  shows "c = d"
proof -
  have "(of_char c :: nat) = of_char d" using assms by (metis div_mult_mod_eq)
  then show ?thesis by (metis char_of_char)
qed

lemma of_char_div_16: "(of_char c :: nat) div 16 < 16"
  using nat_of_char_less_256[of c] by linarith

lemma url_quote_inj: "url_quote s = url_quote t \<Longrightarrow> s = t"
proof (induction s arbitrary: t)
  case Nil
  then show ?case by (cases t) (auto simp: url_quote_Cons split: if_splits)
next
  case (Cons c s)
  then obtain d t' where t: "t = d # t'"
    by (cases t) (auto simp: url_quote_Cons split: if_splits)
  have "c = d \<and> url_quote s = url_quote t'"
    using Cons.prems unfolding t url_quote_Cons
    by (auto simp: url_unreserved_not_percent of_char_div_16 split: if_splits
        intro: char_eq_of_halves dest!: upper_hex_inj[rotated 2])
  then show ?case using Cons.IH t by blast
qed

end
