(* ===== verification/Ticket.thy ===== *)
theory Ticket
  imports Identities
begin

text \<open>
  \<open>domain/ticket.py\<close>: the immutable execution decision for one exposure episode. \<open>mk_ticket\<close> is
  the pydantic construction of \<open>TradeTicket\<close> with all its field and model validators;
  \<open>build_ticket_id\<close> is the deterministic Ticket identity. \<open>decision_digest\<close> is not modelled: it hashes
  the textual exponent of each decimal, which a rational does not carry.
\<close>

datatype entry_order_type = MARKET | LIMIT

datatype ticket_status =
    T_ISSUED
  | T_EXPIRED_BEFORE_SUBMIT
  | T_LEVERAGE_REJECTED
  | T_ENTRY_REJECTED
  | T_ENTRY_RECONCILED_ABSENT
  | T_TERMINAL

record trade_ticket =
  tk_identity :: ticket_identity
  tk_owner_policy_id :: string
  tk_owner_policy_version :: int
  tk_runtime_scope_id :: string
  tk_runtime_scope_version :: int
  tk_universe_version_id :: string
  tk_universe_semantic_digest :: string
  tk_fact_digest :: string
  tk_exposure_family :: exposure_family
  tk_active_family_ticket_count_at_claim :: int
  tk_family_ticket_limit :: int
  tk_directional_risk_at_stop_at_claim :: decimal
  tk_directional_stop_risk_limit_fraction :: decimal
  tk_min_materialization_ratio :: decimal
  tk_minimum_stop_risk_budget :: decimal
  tk_exit_policy_id :: string
  tk_exit_policy_semantic_hash :: string
  tk_exit_binding_id :: "string option"
  tk_exit_binding_semantic_hash :: "string option"
  tk_exit_binding_authority_version :: "int option"
  tk_capacity_claim_id :: string
  tk_created_at_ms :: int
  tk_expires_at_ms :: int
  tk_entry_reference_price :: decimal
  tk_quantity :: decimal
  tk_notional :: decimal
  tk_planned_stop_risk_budget :: decimal
  tk_post_fill_stop_risk_limit :: decimal
  tk_selected_leverage :: int
  tk_leverage_change_required :: bool
  tk_reserved_margin :: decimal
  tk_risk_reservation_basis :: string
  tk_margin_mode :: string
  tk_cross_margin_stress_model_id :: string
  tk_post_stop_stress_multiple :: decimal
  tk_claim_stress_proof_digest :: string
  tk_risk_at_stop :: decimal
  tk_entry_order_type :: entry_order_type
  tk_entry_limit_price :: "decimal option"
  tk_initial_stop_price :: decimal
  tk_pre_tp1_reclaim_price :: "decimal option"
  tk_exposure_session_end_ms :: "int option"
  tk_take_profit_prices :: "decimal list"
  tk_take_profit_quantities :: "decimal list"
  tk_status :: ticket_status
  tk_selection_authority_id :: "string option"

text \<open>The \<open>mode="before"\<close> validators: strings are stripped, blank optional references become \<open>None\<close>.\<close>

definition normalize_ticket :: "trade_ticket \<Rightarrow> trade_ticket" where
  "normalize_ticket t =
     t\<lparr>tk_owner_policy_id := py_strip (tk_owner_policy_id t),
       tk_runtime_scope_id := py_strip (tk_runtime_scope_id t),
       tk_universe_version_id := py_strip (tk_universe_version_id t),
       tk_exit_policy_id := py_strip (tk_exit_policy_id t),
       tk_capacity_claim_id := py_strip (tk_capacity_claim_id t),
       tk_risk_reservation_basis := py_strip (tk_risk_reservation_basis t),
       tk_selection_authority_id := blank_to_none (py_strip_opt (tk_selection_authority_id t)),
       tk_exit_binding_id := blank_to_none (py_strip_opt (tk_exit_binding_id t)),
       tk_fact_digest := py_strip (tk_fact_digest t),
       tk_universe_semantic_digest := py_strip (tk_universe_semantic_digest t),
       tk_claim_stress_proof_digest := py_strip (tk_claim_stress_proof_digest t),
       tk_exit_policy_semantic_hash := py_strip (tk_exit_policy_semantic_hash t)\<rparr>"

definition ticket_fields_ok :: "trade_ticket \<Rightarrow> bool" where
  "ticket_fields_ok t \<longleftrightarrow>
     tk_owner_policy_id t \<noteq> [] \<and> tk_runtime_scope_id t \<noteq> [] \<and> tk_universe_version_id t \<noteq> []
     \<and> tk_exit_policy_id t \<noteq> [] \<and> tk_capacity_claim_id t \<noteq> [] \<and> tk_risk_reservation_basis t \<noteq> []
     \<and> is_sha256_digest (tk_fact_digest t) \<and> is_sha256_digest (tk_universe_semantic_digest t)
     \<and> is_sha256_digest (tk_claim_stress_proof_digest t)
     \<and> is_sha256_digest (tk_exit_policy_semantic_hash t)
     \<and> (case tk_exit_binding_semantic_hash t of None \<Rightarrow> True | Some h \<Rightarrow> is_sha256_digest h)
     \<and> (case tk_exit_binding_authority_version t of None \<Rightarrow> True | Some v \<Rightarrow> 0 < v)
     \<and> 0 < tk_owner_policy_version t \<and> 0 < tk_runtime_scope_version t
     \<and> 0 < tk_quantity t \<and> 0 < tk_notional t \<and> 0 < tk_planned_stop_risk_budget t
     \<and> 0 < tk_post_fill_stop_risk_limit t \<and> 0 < tk_reserved_margin t
     \<and> 0 < tk_entry_reference_price t \<and> 0 < tk_initial_stop_price t
     \<and> 0 < tk_post_stop_stress_multiple t \<and> 0 < tk_directional_stop_risk_limit_fraction t
     \<and> 0 < tk_min_materialization_ratio t \<and> 0 < tk_minimum_stop_risk_budget t
     \<and> 0 \<le> tk_risk_at_stop t \<and> 0 \<le> tk_directional_risk_at_stop_at_claim t
     \<and> (case tk_pre_tp1_reclaim_price t of None \<Rightarrow> True | Some p \<Rightarrow> 0 < p)
     \<and> 0 < tk_selected_leverage t \<and> 0 \<le> tk_active_family_ticket_count_at_claim t
     \<and> 0 < tk_family_ticket_limit t
     \<and> list_all (\<lambda>p. 0 < p) (tk_take_profit_prices t)
     \<and> list_all (\<lambda>q. 0 < q) (tk_take_profit_quantities t)
     \<and> tk_margin_mode t = ''cross''
     \<and> tk_cross_margin_stress_model_id t = ''cross-margin-stop-stress-v1''"

text \<open>\<open>_validate_deadline_and_order_shape\<close>.\<close>

definition ticket_shape_ok :: "trade_ticket \<Rightarrow> bool" where
  "ticket_shape_ok t \<longleftrightarrow>
     ((tk_exit_binding_id t = None \<and> tk_exit_binding_semantic_hash t = None
         \<and> tk_exit_binding_authority_version t = None)
      \<or> (tk_exit_binding_id t \<noteq> None \<and> tk_exit_binding_semantic_hash t \<noteq> None
         \<and> tk_exit_binding_authority_version t \<noteq> None))
     \<and> tk_created_at_ms t < tk_expires_at_ms t
     \<and> (if tk_entry_order_type t = LIMIT
        then (case tk_entry_limit_price t of None \<Rightarrow> False | Some p \<Rightarrow> 0 < p)
        else tk_entry_limit_price t = None)
     \<and> length (tk_take_profit_prices t) = length (tk_take_profit_quantities t)
     \<and> dec_sum (tk_take_profit_quantities t) < tk_quantity t
     \<and> tk_risk_at_stop t \<le> tk_planned_stop_risk_budget t
     \<and> tk_planned_stop_risk_budget t \<le> tk_post_fill_stop_risk_limit t
     \<and> tk_active_family_ticket_count_at_claim t < tk_family_ticket_limit t
     \<and> tk_minimum_stop_risk_budget t \<le> tk_risk_at_stop t
     \<and> (tk_pre_tp1_reclaim_price t = None) = (tk_exposure_session_end_ms t = None)
     \<and> (case tk_exposure_session_end_ms t of None \<Rightarrow> True | Some e \<Rightarrow> 0 < e)"

definition valid_ticket :: "trade_ticket \<Rightarrow> bool" where
  "valid_ticket t \<longleftrightarrow>
     mk_ticket_identity (tk_identity t) = Inr (tk_identity t)
     \<and> normalize_ticket t = t \<and> ticket_fields_ok t \<and> ticket_shape_ok t"

definition mk_ticket :: "trade_ticket \<Rightarrow> trade_ticket result" where
  "mk_ticket t =
     bind_result (mk_ticket_identity (tk_identity t)) (\<lambda>identity.
       let t' = normalize_ticket (t\<lparr>tk_identity := identity\<rparr>)
       in if ticket_fields_ok t' \<and> ticket_shape_ok t' then Inr t' else Inl ValidationError)"

definition build_ticket_id :: "string \<Rightarrow> runtime_identity \<Rightarrow> netting_domain \<Rightarrow> string result" where
  "build_ticket_id signal_event_id runtime domain =
     (let normalized = py_strip signal_event_id in
      if normalized = [] then Inl (ValueError ''signal_event_id must be non-blank'')
      else Inr (''ticket:'' @ take 32 (sha256_hexdigest (json_dumps (JObj
        [(''signal_event_id'', JStr normalized),
         (''runtime'', JObj
            [(''runtime_profile_id'', JStr (ri_runtime_profile_id runtime)),
             (''strategy_group_id'', JStr (ri_strategy_group_id runtime)),
             (''strategy_version_id'', JStr (ri_strategy_version_id runtime)),
             (''event_spec_id'', JStr (ri_event_spec_id runtime))]),
         (''netting_domain'', JObj
            [(''venue_id'', JStr (nd_venue_id domain)),
             (''account_id'', JStr (nd_account_id domain)),
             (''exchange_instrument_id'', JStr (nd_exchange_instrument_id domain)),
             (''position_side'', JStr (side_value (nd_position_side domain)))])])))))"

section \<open>Lemmas\<close>

lemma blank_to_none_strip_idem [simp]:
  "blank_to_none (py_strip_opt (blank_to_none (py_strip_opt v))) = blank_to_none (py_strip_opt v)"
  by (cases v) (auto simp: blank_to_none_def py_strip_opt_def)

lemma normalize_ticket_idem [simp]: "normalize_ticket (normalize_ticket t) = normalize_ticket t"
  by (simp add: normalize_ticket_def)

lemma mk_ticket_valid: "mk_ticket t = Inr t' \<Longrightarrow> valid_ticket t'"
  by (auto simp: mk_ticket_def valid_ticket_def Let_def normalize_ticket_def
      dest: mk_ticket_identity_idem split: if_splits)

lemma valid_ticket_mk: "valid_ticket t \<Longrightarrow> mk_ticket t = Inr t"
  by (auto simp: mk_ticket_def valid_ticket_def)

text \<open>What the lifecycle proofs use of a validated Ticket.\<close>

lemma valid_ticket_facts [kernel_wf]:
  assumes "valid_ticket t"
  shows "0 < tk_quantity t" "0 < tk_initial_stop_price t"
    "dec_sum (tk_take_profit_quantities t) < tk_quantity t"
    "\<forall>q \<in> set (tk_take_profit_quantities t). 0 < q"
    "\<forall>p \<in> set (tk_take_profit_prices t). 0 < p"
    "tk_risk_at_stop t \<le> tk_planned_stop_risk_budget t"
    "tk_planned_stop_risk_budget t \<le> tk_post_fill_stop_risk_limit t"
  using assms
  by (auto simp: valid_ticket_def ticket_fields_ok_def ticket_shape_ok_def list_all_iff)

lemma valid_ticket_id: "valid_ticket t \<Longrightarrow> py_strip (ti_ticket_id (tk_identity t)) = ti_ticket_id (tk_identity t)
    \<and> ti_ticket_id (tk_identity t) \<noteq> []"
  by (auto simp: valid_ticket_def mk_ticket_identity_def non_blank_def split: if_splits)
     (metis py_strip_Nil py_strip_idem ticket_identity.select_convs(1))+

end
