(* ===== verification/Commands.thy ===== *)
theory Commands
  imports Ticket
begin

text \<open>
  \<open>domain/commands.py\<close>: the durable exactly-once command identity of every venue side effect. The
  payload records with their validators, \<open>ExchangeCommand\<close> with its kind/payload discipline, the
  result shapes, the deterministic identities and the retry rule \<open>require_next_generation_allowed\<close>.
  An exchange command is the only way the kernel touches the venue, so what the validators exclude
  (an ENTRY retry, an order without a client id, a replacement without its predecessor) can never be
  dispatched.
\<close>

datatype exchange_command_kind =
    SET_LEVERAGE | ENTRY | INITIAL_STOP | TAKE_PROFIT | EXIT | CANCEL_ORDER
  | REPLACE_PROTECTION | CONTROLLED_FLATTEN

fun command_kind_value :: "exchange_command_kind \<Rightarrow> string" where
  "command_kind_value SET_LEVERAGE = ''set_leverage''"
| "command_kind_value ENTRY = ''entry''"
| "command_kind_value INITIAL_STOP = ''initial_stop''"
| "command_kind_value TAKE_PROFIT = ''take_profit''"
| "command_kind_value EXIT = ''exit''"
| "command_kind_value CANCEL_ORDER = ''cancel_order''"
| "command_kind_value REPLACE_PROTECTION = ''replace_protection''"
| "command_kind_value CONTROLLED_FLATTEN = ''controlled_flatten''"

text \<open>\<open>kind.value.upper()\<close>, the enum name.\<close>

fun command_kind_upper :: "exchange_command_kind \<Rightarrow> string" where
  "command_kind_upper SET_LEVERAGE = ''SET_LEVERAGE''"
| "command_kind_upper ENTRY = ''ENTRY''"
| "command_kind_upper INITIAL_STOP = ''INITIAL_STOP''"
| "command_kind_upper TAKE_PROFIT = ''TAKE_PROFIT''"
| "command_kind_upper EXIT = ''EXIT''"
| "command_kind_upper CANCEL_ORDER = ''CANCEL_ORDER''"
| "command_kind_upper REPLACE_PROTECTION = ''REPLACE_PROTECTION''"
| "command_kind_upper CONTROLLED_FLATTEN = ''CONTROLLED_FLATTEN''"

datatype exchange_command_status =
    PREPARED | CLAIMED | SUPERSEDED | ACCEPTED | REJECTED | OUTCOME_UNKNOWN
  | RECONCILED_ABSENT | RECONCILED_ACCEPTED

fun command_status_value :: "exchange_command_status \<Rightarrow> string" where
  "command_status_value PREPARED = ''prepared''"
| "command_status_value CLAIMED = ''claimed''"
| "command_status_value SUPERSEDED = ''superseded''"
| "command_status_value ACCEPTED = ''accepted''"
| "command_status_value REJECTED = ''rejected''"
| "command_status_value OUTCOME_UNKNOWN = ''outcome_unknown''"
| "command_status_value RECONCILED_ABSENT = ''reconciled_absent''"
| "command_status_value RECONCILED_ACCEPTED = ''reconciled_accepted''"

section \<open>Payloads\<close>

datatype order_side = Buy | Sell
datatype venue_order_type = OT_market | OT_limit | OT_stop_market | OT_take_profit_market
datatype time_in_force = GTC | GTX
datatype order_namespace = Regular | Conditional
datatype cancel_purpose =
  entry_remainder | selection_vacuum_entry | reconciliation_cleanup | runner_old_stop

record order_payload =
  op_side :: order_side
  op_quantity :: decimal
  op_order_type :: venue_order_type
  op_reduce_only :: bool
  op_limit_price :: "decimal option"
  op_time_in_force :: "time_in_force option"
  op_stop_price :: "decimal option"
  op_replaces_exchange_order_id :: "string option"
  op_source_watermark_ms :: "int option"
  op_required_configured_leverage :: "int option"
  op_leverage_verification_digest :: "string option"

definition positive_opt :: "'a::linordered_idom option \<Rightarrow> bool" where
  "positive_opt v = (case v of None \<Rightarrow> True | Some x \<Rightarrow> 0 < x)"

text \<open>\<open>OrderCommandPayload\<close>: field validators, then \<open>_validate_order_shape\<close>.\<close>

definition valid_order_payload :: "order_payload \<Rightarrow> bool" where
  "valid_order_payload p \<longleftrightarrow>
     0 < op_quantity p \<and> positive_opt (op_limit_price p) \<and> positive_opt (op_stop_price p)
     \<and> (if op_order_type p = OT_limit
        then op_limit_price p \<noteq> None \<and> op_time_in_force p \<noteq> None
        else op_limit_price p = None \<and> op_time_in_force p = None)
     \<and> (if op_order_type p \<in> {OT_stop_market, OT_take_profit_market}
        then op_stop_price p \<noteq> None else op_stop_price p = None)
     \<and> (op_replaces_exchange_order_id p \<noteq> None \<or> op_source_watermark_ms p \<noteq> None \<longrightarrow>
          py_strip_opt (op_replaces_exchange_order_id p) \<noteq> []
          \<and> (case op_source_watermark_ms p of None \<Rightarrow> False | Some w \<Rightarrow> 0 < w))
     \<and> (op_required_configured_leverage p \<noteq> None \<or> op_leverage_verification_digest p \<noteq> None \<longrightarrow>
          (case op_required_configured_leverage p of None \<Rightarrow> False | Some l \<Rightarrow> 0 < l)
          \<and> (case op_leverage_verification_digest p of None \<Rightarrow> False | Some d \<Rightarrow> is_sha256_digest d))"

definition mk_order_payload :: "order_payload \<Rightarrow> order_payload result" where
  "mk_order_payload p = (if valid_order_payload p then Inr p else Inl ValidationError)"

record cancel_payload =
  cp_exchange_order_id :: string
  cp_order_namespace :: order_namespace
  cp_purpose :: cancel_purpose
  cp_entry_vacuum_id :: "string option"

text \<open>\<open>CancelCommandPayload\<close>: identities are stripped, a Vacuum cancel carries exclusive lineage.\<close>

definition mk_cancel_payload :: "cancel_payload \<Rightarrow> cancel_payload result" where
  "mk_cancel_payload p =
     (let p' = p\<lparr>cp_exchange_order_id := py_strip (cp_exchange_order_id p),
                 cp_entry_vacuum_id := blank_to_none (py_strip_opt (cp_entry_vacuum_id p))\<rparr>
      in if cp_exchange_order_id p' \<noteq> []
            \<and> (cp_purpose p' = selection_vacuum_entry) = (cp_entry_vacuum_id p' \<noteq> None)
         then Inr p' else Inl ValidationError)"

record set_leverage_payload =
  lp_desired_leverage :: int
  lp_owner_policy_version :: int
  lp_entry_admission_snapshot_digest :: string
  lp_leverage_fact_digest :: string

definition mk_set_leverage_payload :: "set_leverage_payload \<Rightarrow> set_leverage_payload result" where
  "mk_set_leverage_payload p =
     (if 0 < lp_desired_leverage p \<and> 0 < lp_owner_policy_version p
         \<and> is_sha256_digest (lp_entry_admission_snapshot_digest p)
         \<and> is_sha256_digest (lp_leverage_fact_digest p)
      then Inr p else Inl ValidationError)"

datatype command_payload =
    OrderCommandPayload order_payload
  | CancelCommandPayload cancel_payload
  | SetLeverageCommandPayload set_leverage_payload

section \<open>Commands\<close>

record exchange_command =
  ec_command_id :: string
  ec_ticket_identity :: ticket_identity
  ec_kind :: exchange_command_kind
  ec_generation :: int
  ec_idempotency_key :: string
  ec_venue_client_order_id :: "string option"
  ec_payload :: command_payload
  ec_status :: exchange_command_status
  ec_created_at_ms :: int
  ec_deadline_at_ms :: int

text \<open>The part of \<open>_validate_command\<close> that ties the payload to the kind.\<close>

definition payload_matches_kind :: "exchange_command \<Rightarrow> bool" where
  "payload_matches_kind c =
     (if ec_kind c = SET_LEVERAGE
      then ec_venue_client_order_id c = None
           \<and> (case ec_payload c of SetLeverageCommandPayload _ \<Rightarrow> True | _ \<Rightarrow> False)
      else ec_venue_client_order_id c \<noteq> None
           \<and> (case ec_payload c of
                CancelCommandPayload _ \<Rightarrow> ec_kind c = CANCEL_ORDER
              | SetLeverageCommandPayload _ \<Rightarrow> False
              | OrderCommandPayload p \<Rightarrow>
                  ec_kind c \<noteq> CANCEL_ORDER
                  \<and> (if ec_kind c = ENTRY
                     then op_required_configured_leverage p \<noteq> None
                          \<and> op_leverage_verification_digest p \<noteq> None
                     else op_required_configured_leverage p = None
                          \<and> op_leverage_verification_digest p = None)
                  \<and> (ec_kind c = REPLACE_PROTECTION) =
                      (op_replaces_exchange_order_id p \<noteq> None \<or> op_source_watermark_ms p \<noteq> None)))"

text \<open>
  \<open>ExchangeCommand(...)\<close> on an already constructed payload (the payload classes validate on their
  own construction).
\<close>

definition normalize_command :: "exchange_command \<Rightarrow> exchange_command" where
  "normalize_command c =
     c\<lparr>ec_command_id := py_strip (ec_command_id c),
       ec_idempotency_key := py_strip (ec_idempotency_key c),
       ec_venue_client_order_id := blank_to_none (py_strip_opt (ec_venue_client_order_id c))\<rparr>"

definition command_fields_ok :: "exchange_command \<Rightarrow> bool" where
  "command_fields_ok c \<longleftrightarrow>
     ec_command_id c \<noteq> [] \<and> ec_idempotency_key c \<noteq> []
     \<and> 0 < ec_generation c \<and> 0 < ec_created_at_ms c \<and> 0 < ec_deadline_at_ms c
     \<and> (ec_kind c \<in> {SET_LEVERAGE, ENTRY} \<longrightarrow> ec_generation c = 1)
     \<and> ec_created_at_ms c < ec_deadline_at_ms c
     \<and> (case ec_venue_client_order_id c of None \<Rightarrow> True | Some v \<Rightarrow> length v \<le> 36)
     \<and> payload_matches_kind c"

definition mk_exchange_command :: "exchange_command \<Rightarrow> exchange_command result" where
  "mk_exchange_command c =
     (if command_fields_ok (normalize_command c) then Inr (normalize_command c)
      else Inl ValidationError)"

text \<open>\<open>ExchangeCommandResult\<close>; the free-form \<open>venue_payload\<close> is not inspected by the kernel.\<close>

record exchange_command_result =
  er_status :: exchange_command_status
  er_observed_at_ms :: int
  er_exchange_order_id :: "string option"
  er_reason :: "string option"

definition valid_command_result :: "exchange_command_result \<Rightarrow> bool" where
  "valid_command_result r \<longleftrightarrow>
     0 < er_observed_at_ms r
     \<and> er_status r \<in> {ACCEPTED, REJECTED, OUTCOME_UNKNOWN}
     \<and> (if er_status r = ACCEPTED
        then py_strip_opt (er_exchange_order_id r) \<noteq> [] \<and> er_reason r = None
        else py_strip_opt (er_reason r) \<noteq> [] \<and> er_exchange_order_id r = None)"

record set_leverage_result =
  lr_exchange_configured_leverage :: int
  lr_leverage_verified_at_ms :: int
  lr_leverage_verification_digest :: string

definition valid_set_leverage_result :: "set_leverage_result \<Rightarrow> bool" where
  "valid_set_leverage_result r \<longleftrightarrow>
     0 < lr_exchange_configured_leverage r \<and> 0 < lr_leverage_verified_at_ms r
     \<and> is_sha256_digest (lr_leverage_verification_digest r)"

section \<open>Identities and retry\<close>

definition build_command_id :: "string \<Rightarrow> exchange_command_kind \<Rightarrow> int \<Rightarrow> string result" where
  "build_command_id ticket_id kind generation =
     (let normalized = py_strip ticket_id in
      if normalized = [] then Inl (ValueError ''ticket_id must be non-blank'')
      else if generation \<le> 0 then Inl (ValueError ''generation must be positive'')
      else Inr (''command:'' @ take 32 (sha256_hexdigest
             (normalized @ ''|'' @ command_kind_value kind @ ''|'' @ show_int generation))))"

definition build_venue_client_order_id :: "string \<Rightarrow> string result" where
  "build_venue_client_order_id command_id =
     (let normalized = py_strip command_id in
      if normalized = [] then Inl (ValueError ''command_id must be non-blank'')
      else Inr (''brc-'' @ take 28 (sha256_hexdigest normalized)))"

definition require_next_generation_allowed ::
  "exchange_command_kind \<Rightarrow> exchange_command_status \<Rightarrow> int \<Rightarrow> unit result" where
  "require_next_generation_allowed kind prior_status next_generation =
     (if next_generation \<le> 1
      then Inl (CommandGenerationError ''next generation must be greater than one'')
      else if kind \<in> {ENTRY, SET_LEVERAGE}
      then Inl (CommandGenerationError (command_kind_upper kind @ '' is never retried''))
      else if prior_status = OUTCOME_UNKNOWN
      then Inl (CommandGenerationError ''unknown outcome must be reconciled first'')
      else if kind = REPLACE_PROTECTION \<and> prior_status \<in> {ACCEPTED, RECONCILED_ACCEPTED}
      then Inr ()
      else if prior_status \<notin> {REJECTED, RECONCILED_ABSENT}
      then Inl (CommandGenerationError
             (''new generation not allowed after '' @ command_status_value prior_status))
      else Inr ())"

section \<open>Lemmas\<close>

lemma next_generation_allowed_iff:
  "ok (require_next_generation_allowed kind prior_status g) \<longleftrightarrow>
     1 < g \<and> kind \<notin> {ENTRY, SET_LEVERAGE}
     \<and> (prior_status \<in> {REJECTED, RECONCILED_ABSENT}
        \<or> kind = REPLACE_PROTECTION \<and> prior_status \<in> {ACCEPTED, RECONCILED_ACCEPTED})"
  by (auto simp: require_next_generation_allowed_def)

lemma build_command_id_ok:
  "ok (build_command_id t k g) \<longleftrightarrow> non_blank t \<and> 0 < g"
  by (simp add: build_command_id_def non_blank_def Let_def)

lemma tagged_hex_strip:
  assumes "tag \<noteq> []" "\<not> py_isspace (hd tag)" "0 < n"
  shows "py_strip (tag @ take n (sha256_hexdigest x)) = tag @ take n (sha256_hexdigest x)"
proof (rule py_strip_id)
  have "list_all is_lower_hex (take n (sha256_hexdigest x))"
    using sha256_hexdigest_is_hex[of x] by (meson in_set_takeD list_all_iff)
  moreover have ne: "take n (sha256_hexdigest x) \<noteq> []"
    using assms(3) by (metis length_sha256_hexdigest less_numeral_extra(3) list.size(3)
        take_eq_Nil zero_less_numeral)
  ultimately have "is_lower_hex (last (take n (sha256_hexdigest x)))"
    by (simp add: list_all_iff)
  then show "\<not> py_isspace (last (tag @ take n (sha256_hexdigest x)))"
    using ne by (simp add: lower_hex_not_space)
qed (use assms in auto)

lemma build_command_id_strip:
  assumes "build_command_id t k g = Inr c"
  shows "py_strip c = c" "c \<noteq> []"
  using assms tagged_hex_strip[of "''command:''" 32]
  by (auto simp: build_command_id_def Let_def py_isspace_def split: if_splits)

text \<open>
  The client id sent to the venue: always 32 characters, so it is inside the 36-character boundary the
  validator enforces, and it survives the validator's stripping unchanged.
\<close>

lemma build_venue_client_order_id_shape:
  assumes "build_venue_client_order_id c = Inr v"
  shows "length v = 32" "py_strip v = v"
  using assms tagged_hex_strip[of "''brc-''" 28]
  by (auto simp: build_venue_client_order_id_def Let_def py_isspace_def split: if_splits)

lemma mk_cancel_payload_idem:
  assumes "mk_cancel_payload p = Inr p'" shows "mk_cancel_payload p' = Inr p'"
proof -
  have "p' = p\<lparr>cp_exchange_order_id := py_strip (cp_exchange_order_id p),
                 cp_entry_vacuum_id := blank_to_none (py_strip_opt (cp_entry_vacuum_id p))\<rparr>"
    using assms by (simp add: mk_cancel_payload_def Let_def split: if_splits)
  then show ?thesis
    using assms by (simp add: mk_cancel_payload_def Let_def split: if_split_asm)
qed

text \<open>What a constructed command guarantees.\<close>

lemma normalize_command_idem [simp]: "normalize_command (normalize_command c) = normalize_command c"
  by (simp add: normalize_command_def)

lemma mk_exchange_command_iff:
  "mk_exchange_command c = Inr c' \<longleftrightarrow> c' = normalize_command c \<and> command_fields_ok c'"
  by (auto simp: mk_exchange_command_def)

lemma mk_exchange_command_facts:
  assumes "mk_exchange_command c = Inr c'"
  shows "mk_exchange_command c' = Inr c'"
    and "ec_kind c' \<in> {SET_LEVERAGE, ENTRY} \<Longrightarrow> ec_generation c' = 1"
    and "0 < ec_generation c'" and "ec_created_at_ms c' < ec_deadline_at_ms c'"
    and "payload_matches_kind c'"
    and "ec_payload c' = ec_payload c" and "ec_kind c' = ec_kind c"
    and "ec_generation c' = ec_generation c" and "ec_ticket_identity c' = ec_ticket_identity c"
  using assms unfolding mk_exchange_command_iff
  by (auto simp: command_fields_ok_def) (simp_all add: normalize_command_def)

end
