(* ===== verification/Post_Fill_Risk.thy ===== *)
theory Post_Fill_Risk
  imports Identities
begin

text \<open>
  \<open>domain/post_fill_risk.py\<close>: the disposition of one filled Ticket. The request carries the frozen
  Ticket limits and the exchange facts after a fill; the decision says whether the position is kept,
  flattened once protected, or flattened at once.
\<close>

datatype post_fill_risk_status =
  WITHIN_BUDGET | TOLERATED_OVERRUN | HARD_OVERRUN | PROTECTION_DIRECTION_INVALID

fun post_fill_status_value :: "post_fill_risk_status \<Rightarrow> string" where
  "post_fill_status_value WITHIN_BUDGET = ''within_budget''"
| "post_fill_status_value TOLERATED_OVERRUN = ''tolerated_overrun''"
| "post_fill_status_value HARD_OVERRUN = ''hard_overrun''"
| "post_fill_status_value PROTECTION_DIRECTION_INVALID = ''protection_direction_invalid''"

datatype post_fill_disposition = NORMAL | FLATTEN_AFTER_PROTECTION | FLATTEN_IMMEDIATELY

record post_fill_risk_request =
  pr_position_side :: position_side
  pr_filled_quantity :: decimal
  pr_average_fill_price :: decimal
  pr_initial_stop_price :: decimal
  pr_planned_stop_risk_budget :: decimal
  pr_post_fill_stop_risk_limit :: decimal

definition valid_post_fill_request :: "post_fill_risk_request \<Rightarrow> bool" where
  "valid_post_fill_request r \<longleftrightarrow>
     0 < pr_filled_quantity r \<and> 0 < pr_average_fill_price r \<and> 0 < pr_initial_stop_price r
     \<and> 0 < pr_planned_stop_risk_budget r \<and> 0 < pr_post_fill_stop_risk_limit r
     \<and> \<not> pr_post_fill_stop_risk_limit r < pr_planned_stop_risk_budget r"

record post_fill_risk_decision =
  pd_status :: post_fill_risk_status
  pd_disposition :: post_fill_disposition
  pd_actual_stop_risk :: decimal

definition stop_is_protective :: "post_fill_risk_request \<Rightarrow> bool" where
  "stop_is_protective r =
     (if pr_position_side r = Long then pr_initial_stop_price r < pr_average_fill_price r
      else pr_initial_stop_price r > pr_average_fill_price r)"

definition assess_post_fill_risk :: "post_fill_risk_request \<Rightarrow> post_fill_risk_decision" where
  "assess_post_fill_risk r =
     (let stop_distance = \<bar>dec_sub (pr_average_fill_price r) (pr_initial_stop_price r)\<bar>;
          actual_stop_risk = dec_mul (pr_filled_quantity r) stop_distance
      in if \<not> stop_is_protective r
         then \<lparr>pd_status = PROTECTION_DIRECTION_INVALID, pd_disposition = FLATTEN_IMMEDIATELY,
               pd_actual_stop_risk = actual_stop_risk\<rparr>
         else if actual_stop_risk > pr_post_fill_stop_risk_limit r
         then \<lparr>pd_status = HARD_OVERRUN, pd_disposition = FLATTEN_AFTER_PROTECTION,
               pd_actual_stop_risk = actual_stop_risk\<rparr>
         else if actual_stop_risk > pr_planned_stop_risk_budget r
         then \<lparr>pd_status = TOLERATED_OVERRUN, pd_disposition = NORMAL,
               pd_actual_stop_risk = actual_stop_risk\<rparr>
         else \<lparr>pd_status = WITHIN_BUDGET, pd_disposition = NORMAL,
               pd_actual_stop_risk = actual_stop_risk\<rparr>)"

section \<open>Lemmas\<close>

text \<open>
  A position is kept exactly when its stop is on the protective side and its risk at the stop is
  within the frozen post-fill limit.
\<close>

lemma assess_normal_iff:
  "pd_disposition (assess_post_fill_risk r) = NORMAL \<longleftrightarrow>
     stop_is_protective r
     \<and> pd_actual_stop_risk (assess_post_fill_risk r) \<le> pr_post_fill_stop_risk_limit r"
  if "valid_post_fill_request r"
  using that by (auto simp: assess_post_fill_risk_def Let_def valid_post_fill_request_def not_less)

lemma assess_flatten_iff:
  "pd_disposition (assess_post_fill_risk r) = FLATTEN_IMMEDIATELY \<longleftrightarrow> \<not> stop_is_protective r"
  by (simp add: assess_post_fill_risk_def Let_def)

lemma assess_risk:
  "pd_actual_stop_risk (assess_post_fill_risk r) =
     dec_mul (pr_filled_quantity r) \<bar>dec_sub (pr_average_fill_price r) (pr_initial_stop_price r)\<bar>"
  by (simp add: assess_post_fill_risk_def Let_def)

lemma assess_within_budget_iff:
  "pd_status (assess_post_fill_risk r) = WITHIN_BUDGET \<longleftrightarrow>
     stop_is_protective r
     \<and> pd_actual_stop_risk (assess_post_fill_risk r) \<le> pr_planned_stop_risk_budget r"
  if "valid_post_fill_request r"
  using that by (auto simp: assess_post_fill_risk_def Let_def valid_post_fill_request_def not_less)

text \<open>A protective stop always leaves a positive risk: the distance never rounds to zero.\<close>

lemma assess_risk_pos:
  assumes "valid_post_fill_request r" "stop_is_protective r"
  shows "0 < pd_actual_stop_risk (assess_post_fill_risk r)"
proof -
  have "pr_average_fill_price r - pr_initial_stop_price r \<noteq> 0"
    using assms(2) by (auto simp: stop_is_protective_def split: if_splits)
  then have "0 < \<bar>dec_sub (pr_average_fill_price r) (pr_initial_stop_price r)\<bar>"
    by (simp add: dec_sub_def)
  then show ?thesis
    using assms(1) by (simp add: assess_risk dec_mul_def valid_post_fill_request_def)
qed

end
