(* ===== verification/Cross_Margin_Stress.thy ===== *)
theory Cross_Margin_Stress
  imports Identities
begin

text \<open>
  \<open>domain/cross_margin_stress.py\<close>: the account-level Cross Margin stop-stress authority. The records
  are the pydantic models, \<open>valid_\<dots>\<close> their validators, and \<open>evaluate_cross_margin_stress\<close> the
  decision with its helpers in the order of the source. Every exception the source can raise is an
  \<open>Inl\<close>.

  The theory \<open>Margin_Stress_Properties\<close> shows what the decision promises.
\<close>

section \<open>Data\<close>

record maintenance_margin_bracket =
  mb_bracket_id :: string
  mb_notional_floor :: decimal
  mb_notional_cap :: "decimal option"
  mb_maintenance_margin_rate :: decimal
  mb_maintenance_amount :: decimal

record account_risk_position =
  ap_exchange_instrument_id :: string
  ap_position_side :: position_side
  ap_quantity :: decimal
  ap_average_entry_price :: decimal
  ap_current_unrealized_pnl :: decimal
  ap_current_maintenance_margin :: decimal

record account_risk_snapshot =
  as_venue_id :: string
  as_account_id :: string
  as_account_risk_mode :: string
  as_settlement_asset :: string
  as_position_mode :: string
  as_margin_mode :: string
  as_exchange_instrument_id :: string
  as_mark_price :: decimal
  as_configured_leverage :: int
  as_total_wallet_balance :: decimal
  as_total_margin_balance :: decimal
  as_total_initial_margin :: decimal
  as_total_maintenance_margin :: decimal
  as_available_margin :: decimal
  as_account_positions :: "account_risk_position list"
  as_observed_at_ms :: int
  as_valid_until_ms :: int
  as_snapshot_digest :: string

record stress_position =
  sp_position_side :: position_side
  sp_quantity :: decimal
  sp_average_entry_price :: decimal

record stress_request =
  sr_account_snapshot :: account_risk_snapshot
  sr_maintenance_margin_brackets :: "maintenance_margin_bracket list"
  sr_maintenance_margin_brackets_digest :: string
  sr_notional_coefficient :: decimal
  sr_notional_coefficient_certified :: bool
  sr_evaluated_side :: position_side
  sr_reference_entry_price :: decimal
  sr_initial_stop_price :: decimal
  sr_post_stop_stress_multiple :: decimal
  sr_projected_instrument_positions :: "stress_position list"

datatype stress_status = PASSED | FAILED | FACTS_CONTRADICTORY

fun stress_status_value :: "stress_status \<Rightarrow> string" where
  "stress_status_value PASSED = ''passed''"
| "stress_status_value FAILED = ''failed''"
| "stress_status_value FACTS_CONTRADICTORY = ''facts_contradictory''"

record stress_proof =
  sf_model_id :: string
  sf_snapshot_digest :: string
  sf_maintenance_margin_brackets_digest :: string
  sf_status :: stress_status
  sf_stress_price :: decimal
  sf_stress_boundary_clamped_to_zero :: bool
  sf_minimum_margin_surplus :: "decimal option"
  sf_minimum_margin_surplus_price :: "decimal option"
  sf_evaluated_point_count :: int
  sf_contradiction_reason :: "string option"
  sf_proof_digest :: string

record stress_evidence =
  se_request :: stress_request
  se_proof :: stress_proof

section \<open>Canonical digests\<close>

definition bracket_json :: "maintenance_margin_bracket \<Rightarrow> json" where
  "bracket_json b = JObj
     [(''bracket_id'', JStr (mb_bracket_id b)),
      (''notional_floor'', json_decimal (mb_notional_floor b)),
      (''notional_cap'', json_option json_decimal (mb_notional_cap b)),
      (''maintenance_margin_rate'', json_decimal (mb_maintenance_margin_rate b)),
      (''maintenance_amount'', json_decimal (mb_maintenance_amount b))]"

definition account_position_json :: "account_risk_position \<Rightarrow> json" where
  "account_position_json p = JObj
     [(''exchange_instrument_id'', JStr (ap_exchange_instrument_id p)),
      (''position_side'', JStr (side_value (ap_position_side p))),
      (''quantity'', json_decimal (ap_quantity p)),
      (''average_entry_price'', json_decimal (ap_average_entry_price p)),
      (''current_unrealized_pnl'', json_decimal (ap_current_unrealized_pnl p)),
      (''current_maintenance_margin'', json_decimal (ap_current_maintenance_margin p))]"

definition snapshot_payload :: "account_risk_snapshot \<Rightarrow> (string \<times> json) list" where
  "snapshot_payload s =
     [(''venue_id'', JStr (as_venue_id s)),
      (''account_id'', JStr (as_account_id s)),
      (''account_risk_mode'', JStr (as_account_risk_mode s)),
      (''settlement_asset'', JStr (as_settlement_asset s)),
      (''position_mode'', JStr (as_position_mode s)),
      (''margin_mode'', JStr (as_margin_mode s)),
      (''exchange_instrument_id'', JStr (as_exchange_instrument_id s)),
      (''mark_price'', json_decimal (as_mark_price s)),
      (''configured_leverage'', JInt (as_configured_leverage s)),
      (''total_wallet_balance'', json_decimal (as_total_wallet_balance s)),
      (''total_margin_balance'', json_decimal (as_total_margin_balance s)),
      (''total_initial_margin'', json_decimal (as_total_initial_margin s)),
      (''total_maintenance_margin'', json_decimal (as_total_maintenance_margin s)),
      (''available_margin'', json_decimal (as_available_margin s)),
      (''account_positions'', JList (map account_position_json (as_account_positions s))),
      (''observed_at_ms'', JInt (as_observed_at_ms s)),
      (''valid_until_ms'', JInt (as_valid_until_ms s))]"

definition snapshot_json :: "account_risk_snapshot \<Rightarrow> json" where
  "snapshot_json s = JObj (snapshot_payload s @ [(''snapshot_digest'', JStr (as_snapshot_digest s))])"

definition snapshot_canonical_digest :: "account_risk_snapshot \<Rightarrow> string" where
  "snapshot_canonical_digest s = canonical_digest (JObj (snapshot_payload s))"

definition stress_position_json :: "stress_position \<Rightarrow> json" where
  "stress_position_json p = JObj
     [(''position_side'', JStr (side_value (sp_position_side p))),
      (''quantity'', json_decimal (sp_quantity p)),
      (''average_entry_price'', json_decimal (sp_average_entry_price p))]"

definition stress_request_json :: "stress_request \<Rightarrow> json" where
  "stress_request_json r = JObj
     [(''account_snapshot'', snapshot_json (sr_account_snapshot r)),
      (''maintenance_margin_brackets'', JList (map bracket_json (sr_maintenance_margin_brackets r))),
      (''maintenance_margin_brackets_digest'', JStr (sr_maintenance_margin_brackets_digest r)),
      (''notional_coefficient'', json_decimal (sr_notional_coefficient r)),
      (''notional_coefficient_certified'', JBool (sr_notional_coefficient_certified r)),
      (''evaluated_side'', JStr (side_value (sr_evaluated_side r))),
      (''reference_entry_price'', json_decimal (sr_reference_entry_price r)),
      (''initial_stop_price'', json_decimal (sr_initial_stop_price r)),
      (''post_stop_stress_multiple'', json_decimal (sr_post_stop_stress_multiple r)),
      (''projected_instrument_positions'',
         JList (map stress_position_json (sr_projected_instrument_positions r)))]"

section \<open>Validators\<close>

definition valid_bracket :: "maintenance_margin_bracket \<Rightarrow> bool" where
  "valid_bracket b \<longleftrightarrow>
     mb_bracket_id b \<noteq> [] \<and> py_strip (mb_bracket_id b) = mb_bracket_id b
     \<and> 0 \<le> mb_notional_floor b \<and> 0 \<le> mb_maintenance_amount b
     \<and> (case mb_notional_cap b of None \<Rightarrow> True | Some c \<Rightarrow> 0 < c \<and> mb_notional_floor b < c)
     \<and> 0 \<le> mb_maintenance_margin_rate b \<and> mb_maintenance_margin_rate b < 1"

definition valid_account_position :: "account_risk_position \<Rightarrow> bool" where
  "valid_account_position p \<longleftrightarrow>
     ap_exchange_instrument_id p \<noteq> []
     \<and> py_strip (ap_exchange_instrument_id p) = ap_exchange_instrument_id p
     \<and> 0 < ap_quantity p \<and> 0 < ap_average_entry_price p \<and> 0 \<le> ap_current_maintenance_margin p"

definition valid_snapshot :: "account_risk_snapshot \<Rightarrow> bool" where
  "valid_snapshot s \<longleftrightarrow>
     as_account_risk_mode s = ''standard_usdm_single_asset'' \<and> as_settlement_asset s = ''USDT''
     \<and> as_position_mode s = ''independent_sides'' \<and> as_margin_mode s = ''cross''
     \<and> list_all valid_account_position (as_account_positions s)
     \<and> list_all (\<lambda>v. v \<noteq> [] \<and> py_strip v = v)
          [as_venue_id s, as_account_id s, as_exchange_instrument_id s]
     \<and> 0 < as_mark_price s \<and> 0 < as_configured_leverage s
     \<and> 0 \<le> as_total_wallet_balance s \<and> 0 \<le> as_total_initial_margin s
     \<and> 0 \<le> as_total_maintenance_margin s \<and> 0 \<le> as_available_margin s
     \<and> is_sha256_digest (as_snapshot_digest s)
     \<and> 0 < as_observed_at_ms s \<and> as_observed_at_ms s < as_valid_until_ms s
     \<and> distinct (map (\<lambda>p. (ap_exchange_instrument_id p, ap_position_side p)) (as_account_positions s))
     \<and> snapshot_canonical_digest s = as_snapshot_digest s"

definition valid_stress_position :: "stress_position \<Rightarrow> bool" where
  "valid_stress_position p \<longleftrightarrow> 0 < sp_quantity p \<and> 0 < sp_average_entry_price p"

definition valid_stress_request :: "stress_request \<Rightarrow> bool" where
  "valid_stress_request r \<longleftrightarrow>
     valid_snapshot (sr_account_snapshot r)
     \<and> list_all valid_bracket (sr_maintenance_margin_brackets r)
     \<and> is_sha256_digest (sr_maintenance_margin_brackets_digest r)
     \<and> 0 < sr_notional_coefficient r \<and> 0 < sr_reference_entry_price r
     \<and> 0 < sr_initial_stop_price r \<and> 0 < sr_post_stop_stress_multiple r
     \<and> list_all valid_stress_position (sr_projected_instrument_positions r)
     \<and> sorted (map (\<lambda>p. side_value (sp_position_side p)) (sr_projected_instrument_positions r))
     \<and> sr_maintenance_margin_brackets r \<noteq> []
     \<and> sr_projected_instrument_positions r \<noteq> []
     \<and> distinct (map sp_position_side (sr_projected_instrument_positions r))
     \<and> sr_evaluated_side r \<in> set (map sp_position_side (sr_projected_instrument_positions r))
     \<and> \<not> (sr_evaluated_side r = Long \<and> sr_reference_entry_price r \<le> sr_initial_stop_price r)
     \<and> \<not> (sr_evaluated_side r = Short \<and> sr_initial_stop_price r \<le> sr_reference_entry_price r)"

definition valid_stress_proof :: "stress_proof \<Rightarrow> bool" where
  "valid_stress_proof p \<longleftrightarrow>
     sf_model_id p = ''cross-margin-stop-stress-v1''
     \<and> is_sha256_digest (sf_snapshot_digest p)
     \<and> is_sha256_digest (sf_maintenance_margin_brackets_digest p)
     \<and> is_sha256_digest (sf_proof_digest p)
     \<and> 0 \<le> sf_stress_price p
     \<and> (if sf_status p = FACTS_CONTRADICTORY
        then sf_minimum_margin_surplus p = None \<and> sf_minimum_margin_surplus_price p = None
             \<and> sf_evaluated_point_count p = 0
             \<and> (case sf_contradiction_reason p of None \<Rightarrow> False | Some c \<Rightarrow> c \<noteq> [])
        else (case (sf_minimum_margin_surplus p, sf_minimum_margin_surplus_price p) of
                (Some s, Some q) \<Rightarrow> 0 \<le> q \<and> (sf_status p = PASSED \<longrightarrow> 0 < s)
              | _ \<Rightarrow> False)
             \<and> 0 < sf_evaluated_point_count p \<and> sf_contradiction_reason p = None)"

definition valid_stress_evidence :: "stress_evidence \<Rightarrow> bool" where
  "valid_stress_evidence e \<longleftrightarrow>
     valid_stress_request (se_request e) \<and> valid_stress_proof (se_proof e)
     \<and> as_snapshot_digest (sr_account_snapshot (se_request e)) = sf_snapshot_digest (se_proof e)
     \<and> sr_maintenance_margin_brackets_digest (se_request e)
         = sf_maintenance_margin_brackets_digest (se_proof e)"

text \<open>\<open>AccountRiskSnapshot.create\<close>: positions sorted, digest computed, then validated.\<close>

definition create_snapshot :: "account_risk_snapshot \<Rightarrow> account_risk_snapshot result" where
  "create_snapshot s =
     (let s1 = s\<lparr>as_account_positions := sort_key (\<lambda>p. side_value (ap_position_side p))
                   (as_account_positions s)\<rparr>;
          s2 = s1\<lparr>as_account_positions := sort_key ap_exchange_instrument_id (as_account_positions s1)\<rparr>;
          s3 = s2\<lparr>as_snapshot_digest := snapshot_canonical_digest s2\<rparr>
      in if valid_snapshot s3 then Inr s3 else Inl ValidationError)"

section \<open>The decision\<close>

definition stress_boundary :: "stress_request \<Rightarrow> decimal \<times> bool" where
  "stress_boundary r =
     (let stop_distance = \<bar>dec_sub (sr_reference_entry_price r) (sr_initial_stop_price r)\<bar>
      in if sr_evaluated_side r = Short
         then (dec_add (sr_initial_stop_price r)
                 (dec_mul (sr_post_stop_stress_multiple r) stop_distance), False)
         else (let raw_stress_price = dec_sub (sr_initial_stop_price r)
                     (dec_mul (sr_post_stop_stress_multiple r) stop_distance)
               in (max 0 raw_stress_price, raw_stress_price < 0)))"

text \<open>The loop over adjacent brackets.\<close>

fun bracket_chain_ok :: "maintenance_margin_bracket list \<Rightarrow> bool" where
  "bracket_chain_ok (previous # bracket # rest) =
     (if mb_notional_cap previous \<noteq> Some (mb_notional_floor bracket)
         \<or> mb_maintenance_margin_rate bracket < mb_maintenance_margin_rate previous
      then False
      else let boundary = mb_notional_floor bracket;
               previous_margin = dec_sub (dec_mul boundary (mb_maintenance_margin_rate previous))
                                         (mb_maintenance_amount previous);
               current_margin = dec_sub (dec_mul boundary (mb_maintenance_margin_rate bracket))
                                        (mb_maintenance_amount bracket)
           in if current_margin \<noteq> previous_margin \<or> current_margin < 0 then False
              else bracket_chain_ok (bracket # rest))"
| "bracket_chain_ok _ = True"

definition bracket_schedule_is_structurally_valid :: "maintenance_margin_bracket list \<Rightarrow> bool" where
  "bracket_schedule_is_structurally_valid brackets =
     (case brackets of
        [] \<Rightarrow> False
      | b # _ \<Rightarrow>
          if mb_notional_floor b \<noteq> 0 \<or> \<not> distinct (map mb_bracket_id brackets) then False
          else if mb_maintenance_amount b \<noteq> 0 then False
          else bracket_chain_ok brackets)"

definition bracket_for ::
  "maintenance_margin_bracket list \<Rightarrow> decimal \<Rightarrow> maintenance_margin_bracket option" where
  "bracket_for brackets notional =
     List.find (\<lambda>b. mb_notional_floor b \<le> notional
       \<and> (case mb_notional_cap b of None \<Rightarrow> True | Some c \<Rightarrow> notional < c)) brackets"

definition projected_notionals_are_covered :: "stress_request \<Rightarrow> decimal list \<Rightarrow> bool" where
  "projected_notionals_are_covered r points =
     list_all (\<lambda>price. list_all (\<lambda>p.
        bracket_for (sr_maintenance_margin_brackets r) (dec_mul (sp_quantity p) price) \<noteq> None)
        (sr_projected_instrument_positions r)) points"

definition bracket_boundaries :: "maintenance_margin_bracket \<Rightarrow> decimal list" where
  "bracket_boundaries b =
     mb_notional_floor b # (case mb_notional_cap b of None \<Rightarrow> [] | Some c \<Rightarrow> [c])"

definition evaluation_points :: "stress_request \<Rightarrow> decimal \<Rightarrow> decimal list" where
  "evaluation_points r stress_price =
     (let mark_price = as_mark_price (sr_account_snapshot r);
          lower = min mark_price stress_price;
          upper = max mark_price stress_price;
          boundary_prices = concat (map (\<lambda>p. concat (map (\<lambda>b.
              map (\<lambda>boundary. dec_div boundary (sp_quantity p)) (bracket_boundaries b))
              (sr_maintenance_margin_brackets r))) (sr_projected_instrument_positions r))
      in sort (remdups ([mark_price, sr_initial_stop_price r, stress_price]
           @ filter (\<lambda>p. lower \<le> p \<and> p \<le> upper) boundary_prices)))"

fun accumulate_positions ::
  "maintenance_margin_bracket list \<Rightarrow> decimal \<Rightarrow> stress_position list \<Rightarrow> decimal \<Rightarrow> decimal
   \<Rightarrow> (decimal \<times> decimal) result" where
  "accumulate_positions brackets price [] upnl maintenance = Inr (upnl, maintenance)"
| "accumulate_positions brackets price (p # ps) upnl maintenance =
     (let upnl' = dec_add upnl
            (if sp_position_side p = Long
             then dec_mul (sp_quantity p) (dec_sub price (sp_average_entry_price p))
             else dec_mul (sp_quantity p) (dec_sub (sp_average_entry_price p) price));
          notional = dec_mul (sp_quantity p) price
      in case bracket_for brackets notional of
           None \<Rightarrow> Inl (ValueError ''validated maintenance schedule does not cover notional'')
         | Some b \<Rightarrow> accumulate_positions brackets price ps upnl'
             (dec_add maintenance
               (dec_sub (dec_mul notional (mb_maintenance_margin_rate b)) (mb_maintenance_amount b))))"

definition margin_surplus :: "stress_request \<Rightarrow> decimal \<Rightarrow> decimal \<Rightarrow> decimal \<Rightarrow> decimal result" where
  "margin_surplus r price base_margin_balance base_maintenance_margin =
     bind_result (accumulate_positions (sr_maintenance_margin_brackets r) price
        (sr_projected_instrument_positions r) 0 0)
      (\<lambda>(projected_upnl, projected_maintenance).
        Inr (dec_sub (dec_sub (dec_add base_margin_balance projected_upnl) base_maintenance_margin)
               projected_maintenance))"

fun surplus_by_price ::
  "stress_request \<Rightarrow> decimal \<Rightarrow> decimal \<Rightarrow> decimal list \<Rightarrow> (decimal \<times> decimal) list result" where
  "surplus_by_price r bal maint [] = Inr []"
| "surplus_by_price r bal maint (p # ps) =
     bind_result (margin_surplus r p bal maint) (\<lambda>s.
     bind_result (surplus_by_price r bal maint ps) (\<lambda>rest. Inr ((p, s) # rest)))"

text \<open>\<open>min(pairs, key=lambda item: (item[1], item[0]))\<close> on a non-empty list.\<close>

fun min_surplus :: "decimal \<times> decimal \<Rightarrow> (decimal \<times> decimal) list \<Rightarrow> decimal \<times> decimal" where
  "min_surplus best [] = best"
| "min_surplus (p, s) ((p', s') # rest) =
     min_surplus (if s' < s \<or> (s' = s \<and> p' < p) then (p', s') else (p, s)) rest"

definition stress_proof_payload :: "stress_proof \<Rightarrow> json" where
  "stress_proof_payload p = JObj
     [(''model_id'', JStr (sf_model_id p)),
      (''snapshot_digest'', JStr (sf_snapshot_digest p)),
      (''maintenance_margin_brackets_digest'', JStr (sf_maintenance_margin_brackets_digest p)),
      (''status'', JStr (stress_status_value (sf_status p))),
      (''stress_price'', json_decimal (sf_stress_price p)),
      (''stress_boundary_clamped_to_zero'', JBool (sf_stress_boundary_clamped_to_zero p)),
      (''minimum_margin_surplus'', json_option json_decimal (sf_minimum_margin_surplus p)),
      (''minimum_margin_surplus_price'', json_option json_decimal (sf_minimum_margin_surplus_price p)),
      (''evaluated_point_count'', JInt (sf_evaluated_point_count p)),
      (''contradiction_reason'', json_option JStr (sf_contradiction_reason p))]"

definition mk_proof_evidence ::
  "stress_request \<Rightarrow> stress_status \<Rightarrow> decimal \<Rightarrow> bool \<Rightarrow> decimal option \<Rightarrow> decimal option \<Rightarrow> int
   \<Rightarrow> string option \<Rightarrow> stress_evidence result" where
  "mk_proof_evidence r status stress_price clamped surplus surplus_price count reason =
     (let p = \<lparr>sf_model_id = ''cross-margin-stop-stress-v1'',
               sf_snapshot_digest = as_snapshot_digest (sr_account_snapshot r),
               sf_maintenance_margin_brackets_digest = sr_maintenance_margin_brackets_digest r,
               sf_status = status,
               sf_stress_price = stress_price,
               sf_stress_boundary_clamped_to_zero = clamped,
               sf_minimum_margin_surplus = surplus,
               sf_minimum_margin_surplus_price = surplus_price,
               sf_evaluated_point_count = count,
               sf_contradiction_reason = reason,
               sf_proof_digest = []\<rparr>;
          p' = p\<lparr>sf_proof_digest := canonical_digest (JObj
                 [(''request'', stress_request_json r), (''result'', stress_proof_payload p)])\<rparr>;
          e = \<lparr>se_request = r, se_proof = p'\<rparr>
      in if valid_stress_evidence e then Inr e else Inl ValidationError)"

definition contradictory :: "stress_request \<Rightarrow> decimal \<Rightarrow> bool \<Rightarrow> string \<Rightarrow> stress_evidence result" where
  "contradictory r stress_price clamped reason =
     mk_proof_evidence r FACTS_CONTRADICTORY stress_price clamped None None 0 (Some reason)"

definition base_margin_balance :: "stress_request \<Rightarrow> decimal" where
  "base_margin_balance r =
     (let s = sr_account_snapshot r;
          current_positions = filter (\<lambda>p. ap_exchange_instrument_id p = as_exchange_instrument_id s)
             (as_account_positions s)
      in dec_sub (as_total_margin_balance s) (dec_sum (map ap_current_unrealized_pnl current_positions)))"

definition base_maintenance_margin :: "stress_request \<Rightarrow> decimal" where
  "base_maintenance_margin r =
     (let s = sr_account_snapshot r;
          current_positions = filter (\<lambda>p. ap_exchange_instrument_id p = as_exchange_instrument_id s)
             (as_account_positions s)
      in dec_sub (as_total_maintenance_margin s)
           (dec_sum (map ap_current_maintenance_margin current_positions)))"

definition mark_is_protected :: "stress_request \<Rightarrow> bool" where
  "mark_is_protected r =
     (if sr_evaluated_side r = Long
      then as_mark_price (sr_account_snapshot r) > sr_initial_stop_price r
      else as_mark_price (sr_account_snapshot r) < sr_initial_stop_price r)"

definition evaluate_cross_margin_stress :: "stress_request \<Rightarrow> stress_evidence result" where
  "evaluate_cross_margin_stress r =
     (let (stress_price, clamped) = stress_boundary r in
      if \<not> sr_notional_coefficient_certified r
      then contradictory r stress_price clamped ''notional coefficient is not certified''
      else if \<not> bracket_schedule_is_structurally_valid (sr_maintenance_margin_brackets r)
      then contradictory r stress_price clamped ''maintenance bracket schedule invalid''
      else let points = evaluation_points r stress_price in
      if \<not> projected_notionals_are_covered r points
      then contradictory r stress_price clamped ''projected notional exceeds certified bracket range''
      else if base_maintenance_margin r < 0
      then contradictory r stress_price clamped ''instrument maintenance margin exceeds account total''
      else bind_result (surplus_by_price r (base_margin_balance r) (base_maintenance_margin r) points)
        (\<lambda>pairs. let (minimum_price, minimum_surplus) = min_surplus (hd pairs) (tl pairs);
                     status = (if mark_is_protected r \<and> 0 < minimum_surplus then PASSED else FAILED)
                 in mk_proof_evidence r status stress_price clamped (Some minimum_surplus)
                      (Some minimum_price) (int (length points)) None))"

end
