(* ===== verification/Trade_Events.thy ===== *)
theory Trade_Events
  imports Commands Post_Fill_Risk Cross_Margin_Stress
begin

text \<open>
  \<open>domain/events.py\<close>: the immutable facts the lifecycle reducer accepts. Every event has the header of
  \<open>_Event\<close>; every event but \<open>TicketIssued\<close> also has the \<open>ticket_id\<close> of \<open>_TicketEvent\<close> and one of
  the 65 fact classes, a constructor of \<open>lifecycle_fact\<close> with the fields of the class in their order
  (classes with many fields carry them in a record). \<open>valid_event\<close> collects the validators.
\<close>

record event_header =
  eh_event_id :: string
  eh_sequence :: int
  eh_occurred_at_ms :: int

record vacuum_late_fill =
  vl_entry_vacuum_id :: string
  vl_entry_command_id :: string
  vl_exchange_order_id :: string
  vl_venue_client_order_id :: string
  vl_filled_qty :: decimal
  vl_average_fill_price :: decimal
  vl_position_observed_at_ms :: int
  vl_venue_observed_at_ms :: int
  vl_attribution_digest :: string

record vacuum_no_fill =
  vn_entry_vacuum_id :: string
  vn_entry_command_id :: string
  vn_exchange_order_id :: string
  vn_venue_client_order_id :: string
  vn_position_observed_at_ms :: int
  vn_venue_observed_at_ms :: int
  vn_proof_digest :: string

record vacuum_retained =
  vr_entry_vacuum_id :: string
  vr_selection_authority_id :: "string option"
  vr_requested_qty :: decimal
  vr_final_filled_qty :: decimal
  vr_average_fill_price :: decimal
  vr_quantity_step :: decimal
  vr_effective_tp1_qty :: decimal
  vr_effective_runner_qty :: decimal
  vr_post_fill_risk :: post_fill_risk_decision

datatype stress_outcome = stress_passed | stress_failed

record stress_assessment =
  ps_status :: stress_outcome
  ps_evidence :: stress_evidence
  ps_owner_policy_id :: string
  ps_owner_policy_version :: int
  ps_filled_qty :: decimal
  ps_average_fill_price :: decimal
  ps_initial_stop_price :: decimal
  ps_initial_stop_exchange_order_id :: string

record entry_fill =
  ef_filled_qty :: decimal
  ef_average_fill_price :: decimal
  ef_post_fill_risk :: post_fill_risk_decision
  ef_venue_reported_liquidation_price :: "decimal option"
  ef_position_observed_at_ms :: int

record replacement_confirmation =
  rc_exchange_order_id :: string
  rc_protected_qty :: decimal
  rc_stop_price :: decimal
  rc_replaces_exchange_order_id :: string
  rc_source_watermark_ms :: int

datatype (plugins only: code) lifecycle_fact =
    LeverageConfirmed int int string
  | LeverageRejected string
  | LeverageOutcomeUnknown string
  | EntryAccepted string
  | EntryRejected string
  | EntryOutcomeUnknown string
  | EntryAbsenceConfirmed string
  | EntryFilled entry_fill
  | EntryPartiallyFilled decimal decimal decimal
  | EntryRemainderCancelConfirmed string
  | EntryRemainderCancelRejected string string
  | EntryRemainderCancelOutcomeUnknown string string
  | EntryVacuumSuperseded string string
  | EntryVacuumCancelRequested string string decimal "decimal option"
  | EntryVacuumCancelConfirmed string
  | EntryVacuumCancelRejected string string
  | EntryVacuumCancelOutcomeUnknown string string
  | EntryVacuumOrderAbsenceConfirmed string string decimal "decimal option"
  | VacuumLateFillAttributed vacuum_late_fill
  | VacuumPostAbsenceNoFillVerified vacuum_no_fill
  | EntryVacuumAbsenceConfirmed string
  | VacuumPartialRetained vacuum_retained
  | VacuumPartialFlattenRequired string decimal decimal string
  | InitialStopConfirmed string decimal
  | PostFillStressAssessed stress_assessment
  | InitialStopRejected string
  | InitialStopOutcomeUnknown string
  | InitialStopAbsenceConfirmed string
  | TakeProfitConfirmed string decimal
  | TakeProfitRejected string
  | TakeProfitOutcomeUnknown string
  | TakeProfitAbsenceConfirmed string
  | TakeProfitFilled decimal decimal decimal
  | RunnerStopRequested decimal int
  | ProtectionReplacementConfirmed replacement_confirmation
  | ProtectionReplacementRejected string
  | ProtectionReplacementOutcomeUnknown string
  | ProtectionReplacementAbsenceConfirmed string
  | ExitRequested string
  | ExitAccepted string
  | ExitRejected string
  | ExitOutcomeUnknown string
  | ExitAbsenceConfirmed string
  | ControlledFlattenAccepted string
  | ControlledFlattenRejected string
  | ControlledFlattenOutcomeUnknown string
  | ControlledFlattenAbsenceConfirmed string
  | PositionFlatConfirmed
  | ExternalFlatDetected
  | OwnedOrphanOrderDetected string order_namespace
  | OwnedOrderAbsenceConfirmed string
  | UnownedOrderDetected string
  | ProtectionCancelConfirmed string
  | ProtectionCancelRejected string string
  | ProtectionCancelOutcomeUnknown string string
  | ProtectionCancelAbsenceConfirmed string
  | OwnedOrphanCancelConfirmed string
  | CancelOrderRejected string string
  | CancelOrderOutcomeUnknown string string
  | CancelOrderAbsenceConfirmed string
  | CancelOrderStillOpenConfirmed string
  | ReconciliationMatched "string option"
  | BudgetSettled
  | ReviewRecorded string
  | ReviewRevised string string

datatype trade_event =
    TicketIssued event_header trade_ticket
  | TicketEvent event_header string lifecycle_fact

fun event_header_of :: "trade_event \<Rightarrow> event_header" where
  "event_header_of (TicketIssued h _) = h"
| "event_header_of (TicketEvent h _ _) = h"

definition event_sequence :: "trade_event \<Rightarrow> int" where
  "event_sequence e = eh_sequence (event_header_of e)"

section \<open>Validators\<close>

text \<open>A validated identifier is stripped and not empty.\<close>

definition normal_id :: "string \<Rightarrow> bool" where
  "normal_id s \<longleftrightarrow> py_strip s = s \<and> s \<noteq> []"

definition valid_header :: "event_header \<Rightarrow> bool" where
  "valid_header h \<longleftrightarrow> normal_id (eh_event_id h) \<and> 0 < eh_sequence h \<and> 0 < eh_occurred_at_ms h"

text \<open>The fill price of a Vacuum observation is present exactly when a quantity was filled.\<close>

definition vacuum_fill_ok :: "string \<Rightarrow> string \<Rightarrow> decimal \<Rightarrow> decimal option \<Rightarrow> bool" where
  "vacuum_fill_ok vacuum_id order_id qty price \<longleftrightarrow>
     non_blank vacuum_id \<and> non_blank order_id \<and> 0 \<le> qty
     \<and> (qty = 0) = (price = None) \<and> positive_opt price"

definition late_fill_ok :: "int \<Rightarrow> vacuum_late_fill \<Rightarrow> bool" where
  "late_fill_ok occurred_at_ms v \<longleftrightarrow>
     list_all non_blank [vl_entry_vacuum_id v, vl_entry_command_id v, vl_exchange_order_id v,
        vl_venue_client_order_id v]
     \<and> 0 < vl_filled_qty v \<and> 0 < vl_average_fill_price v
     \<and> 0 < vl_position_observed_at_ms v
     \<and> vl_position_observed_at_ms v \<le> vl_venue_observed_at_ms v
     \<and> vl_venue_observed_at_ms v \<le> occurred_at_ms
     \<and> is_sha256_digest (vl_attribution_digest v)"

definition no_fill_ok :: "int \<Rightarrow> vacuum_no_fill \<Rightarrow> bool" where
  "no_fill_ok occurred_at_ms v \<longleftrightarrow>
     list_all non_blank [vn_entry_vacuum_id v, vn_entry_command_id v, vn_exchange_order_id v,
        vn_venue_client_order_id v]
     \<and> 0 < vn_position_observed_at_ms v
     \<and> vn_position_observed_at_ms v \<le> vn_venue_observed_at_ms v
     \<and> vn_venue_observed_at_ms v \<le> occurred_at_ms
     \<and> is_sha256_digest (vn_proof_digest v)"

definition retained_ok :: "vacuum_retained \<Rightarrow> bool" where
  "retained_ok v \<longleftrightarrow>
     non_blank (vr_entry_vacuum_id v)
     \<and> (case vr_selection_authority_id v of None \<Rightarrow> True | Some a \<Rightarrow> non_blank a)
     \<and> 0 < vr_requested_qty v \<and> 0 < vr_final_filled_qty v \<and> 0 < vr_average_fill_price v
     \<and> 0 < vr_quantity_step v \<and> 0 < vr_effective_tp1_qty v \<and> 0 < vr_effective_runner_qty v
     \<and> vr_final_filled_qty v < vr_requested_qty v
     \<and> dec_mod (vr_final_filled_qty v) (vr_quantity_step v) = Inr 0
     \<and> dec_add (vr_effective_tp1_qty v) (vr_effective_runner_qty v) = vr_final_filled_qty v
     \<and> 0 \<le> pd_actual_stop_risk (vr_post_fill_risk v)"

definition assessment_ok :: "stress_assessment \<Rightarrow> bool" where
  "assessment_ok a \<longleftrightarrow>
     valid_stress_evidence (ps_evidence a)
     \<and> sf_status (se_proof (ps_evidence a)) = (if ps_status a = stress_passed then PASSED else FAILED)
     \<and> 0 < ps_owner_policy_version a \<and> 0 < ps_filled_qty a \<and> 0 < ps_average_fill_price a
     \<and> 0 < ps_initial_stop_price a
     \<and> non_blank (ps_owner_policy_id a) \<and> non_blank (ps_initial_stop_exchange_order_id a)"

fun valid_fact :: "int \<Rightarrow> lifecycle_fact \<Rightarrow> bool" where
  "valid_fact t (LeverageConfirmed lev verified_at digest) =
     (0 < lev \<and> 0 < verified_at \<and> is_sha256_digest digest)"
| "valid_fact t (LeverageRejected reason) = normal_id reason"
| "valid_fact t (LeverageOutcomeUnknown reason) = normal_id reason"
| "valid_fact t (EntryVacuumSuperseded vacuum_id command_id) =
     (non_blank vacuum_id \<and> non_blank command_id)"
| "valid_fact t (EntryVacuumCancelRequested vacuum_id order_id qty price) =
     vacuum_fill_ok vacuum_id order_id qty price"
| "valid_fact t (EntryVacuumOrderAbsenceConfirmed vacuum_id order_id qty price) =
     vacuum_fill_ok vacuum_id order_id qty price"
| "valid_fact t (VacuumLateFillAttributed v) = late_fill_ok t v"
| "valid_fact t (VacuumPostAbsenceNoFillVerified v) = no_fill_ok t v"
| "valid_fact t (VacuumPartialRetained v) = retained_ok v"
| "valid_fact t (VacuumPartialFlattenRequired vacuum_id qty price reason) =
     (non_blank vacuum_id \<and> non_blank reason \<and> 0 < qty \<and> 0 < price)"
| "valid_fact t (PostFillStressAssessed a) = assessment_ok a"
| "valid_fact t _ = True"

fun valid_event :: "trade_event \<Rightarrow> bool" where
  "valid_event (TicketIssued h t) = (valid_header h \<and> valid_ticket t)"
| "valid_event (TicketEvent h tid f) =
     (valid_header h \<and> normal_id tid \<and> valid_fact (eh_occurred_at_ms h) f)"

end
