(* ===== verification/Aggregate.thy ===== *)
theory Aggregate
  imports Trade_Events
begin

text \<open>
  \<open>domain/aggregate.py\<close> and \<open>domain/effects.py\<close>: the current lifecycle projection of one Ticket and
  the typed side effects of a reduction. The incident kinds of an effect are free strings, as in the
  source.
\<close>

datatype (plugins only: code) aggregate_status =
    LEVERAGE_PENDING | LEVERAGE_CONFIRMED | LEVERAGE_REJECTED | LEVERAGE_OUTCOME_UNKNOWN |
    ENTRY_PENDING | ENTRY_ACCEPTED | ENTRY_REJECTED | ENTRY_OUTCOME_UNKNOWN |
    ENTRY_RECONCILED_ABSENT | ENTRY_VACUUM_CANCEL_PENDING | ENTRY_VACUUM_CANCEL_REJECTED |
    ENTRY_VACUUM_CANCEL_OUTCOME_UNKNOWN | ENTRY_VACUUM_CANCELLED | PARTIAL_FILL_INCIDENT |
    PARTIAL_FILL_CANCEL_REJECTED | PARTIAL_FILL_CANCEL_OUTCOME_UNKNOWN | PROTECTION_PENDING |
    INITIAL_STOP_OUTCOME_UNKNOWN | POST_FILL_RISK_PENDING | TP1_PENDING | TP1_REJECTED |
    TP1_OUTCOME_UNKNOWN | POSITION_PROTECTED | RUNNER_REPLACEMENT_PENDING |
    RUNNER_REPLACEMENT_REJECTED | RUNNER_REPLACEMENT_OUTCOME_UNKNOWN |
    RUNNER_OLD_STOP_CANCEL_PENDING | RUNNER_OLD_STOP_CANCEL_REJECTED |
    RUNNER_OLD_STOP_CANCEL_OUTCOME_UNKNOWN | RUNNER_PROTECTED | EXIT_PENDING | EXIT_ACCEPTED |
    EXIT_REJECTED | EXIT_OUTCOME_UNKNOWN | CONTROLLED_FLATTEN_PENDING |
    CONTROLLED_FLATTEN_ACCEPTED | CONTROLLED_FLATTEN_REJECTED |
    CONTROLLED_FLATTEN_OUTCOME_UNKNOWN | RECONCILIATION_PENDING | CANCEL_REJECTED |
    CANCEL_OUTCOME_UNKNOWN | SETTLEMENT_PENDING | REVIEW_PENDING | TERMINAL

text \<open>\<open>AggregateStatus.value\<close>, the lower-case name.\<close>

fun status_value :: "aggregate_status \<Rightarrow> string" where
  "status_value LEVERAGE_PENDING = ''leverage_pending''"
| "status_value LEVERAGE_CONFIRMED = ''leverage_confirmed''"
| "status_value LEVERAGE_REJECTED = ''leverage_rejected''"
| "status_value LEVERAGE_OUTCOME_UNKNOWN = ''leverage_outcome_unknown''"
| "status_value ENTRY_PENDING = ''entry_pending''"
| "status_value ENTRY_ACCEPTED = ''entry_accepted''"
| "status_value ENTRY_REJECTED = ''entry_rejected''"
| "status_value ENTRY_OUTCOME_UNKNOWN = ''entry_outcome_unknown''"
| "status_value ENTRY_RECONCILED_ABSENT = ''entry_reconciled_absent''"
| "status_value ENTRY_VACUUM_CANCEL_PENDING = ''entry_vacuum_cancel_pending''"
| "status_value ENTRY_VACUUM_CANCEL_REJECTED = ''entry_vacuum_cancel_rejected''"
| "status_value ENTRY_VACUUM_CANCEL_OUTCOME_UNKNOWN = ''entry_vacuum_cancel_outcome_unknown''"
| "status_value ENTRY_VACUUM_CANCELLED = ''entry_vacuum_cancelled''"
| "status_value PARTIAL_FILL_INCIDENT = ''partial_fill_incident''"
| "status_value PARTIAL_FILL_CANCEL_REJECTED = ''partial_fill_cancel_rejected''"
| "status_value PARTIAL_FILL_CANCEL_OUTCOME_UNKNOWN = ''partial_fill_cancel_outcome_unknown''"
| "status_value PROTECTION_PENDING = ''protection_pending''"
| "status_value INITIAL_STOP_OUTCOME_UNKNOWN = ''initial_stop_outcome_unknown''"
| "status_value POST_FILL_RISK_PENDING = ''post_fill_risk_pending''"
| "status_value TP1_PENDING = ''tp1_pending''"
| "status_value TP1_REJECTED = ''tp1_rejected''"
| "status_value TP1_OUTCOME_UNKNOWN = ''tp1_outcome_unknown''"
| "status_value POSITION_PROTECTED = ''position_protected''"
| "status_value RUNNER_REPLACEMENT_PENDING = ''runner_replacement_pending''"
| "status_value RUNNER_REPLACEMENT_REJECTED = ''runner_replacement_rejected''"
| "status_value RUNNER_REPLACEMENT_OUTCOME_UNKNOWN = ''runner_replacement_outcome_unknown''"
| "status_value RUNNER_OLD_STOP_CANCEL_PENDING = ''runner_old_stop_cancel_pending''"
| "status_value RUNNER_OLD_STOP_CANCEL_REJECTED = ''runner_old_stop_cancel_rejected''"
| "status_value RUNNER_OLD_STOP_CANCEL_OUTCOME_UNKNOWN = ''runner_old_stop_cancel_outcome_unknown''"
| "status_value RUNNER_PROTECTED = ''runner_protected''"
| "status_value EXIT_PENDING = ''exit_pending''"
| "status_value EXIT_ACCEPTED = ''exit_accepted''"
| "status_value EXIT_REJECTED = ''exit_rejected''"
| "status_value EXIT_OUTCOME_UNKNOWN = ''exit_outcome_unknown''"
| "status_value CONTROLLED_FLATTEN_PENDING = ''controlled_flatten_pending''"
| "status_value CONTROLLED_FLATTEN_ACCEPTED = ''controlled_flatten_accepted''"
| "status_value CONTROLLED_FLATTEN_REJECTED = ''controlled_flatten_rejected''"
| "status_value CONTROLLED_FLATTEN_OUTCOME_UNKNOWN = ''controlled_flatten_outcome_unknown''"
| "status_value RECONCILIATION_PENDING = ''reconciliation_pending''"
| "status_value CANCEL_REJECTED = ''cancel_rejected''"
| "status_value CANCEL_OUTCOME_UNKNOWN = ''cancel_outcome_unknown''"
| "status_value SETTLEMENT_PENDING = ''settlement_pending''"
| "status_value REVIEW_PENDING = ''review_pending''"
| "status_value TERMINAL = ''terminal''"

definition RECONCILIATION_POSITION_STATUSES :: "aggregate_status list" where
  "RECONCILIATION_POSITION_STATUSES =
     [
      ENTRY_ACCEPTED, ENTRY_VACUUM_CANCEL_PENDING, ENTRY_VACUUM_CANCEL_REJECTED,
      ENTRY_VACUUM_CANCEL_OUTCOME_UNKNOWN, ENTRY_VACUUM_CANCELLED, PARTIAL_FILL_INCIDENT,
      PARTIAL_FILL_CANCEL_REJECTED, PARTIAL_FILL_CANCEL_OUTCOME_UNKNOWN, PROTECTION_PENDING,
      INITIAL_STOP_OUTCOME_UNKNOWN, POST_FILL_RISK_PENDING, TP1_PENDING, TP1_REJECTED,
      TP1_OUTCOME_UNKNOWN, POSITION_PROTECTED, RUNNER_REPLACEMENT_PENDING,
      RUNNER_REPLACEMENT_REJECTED, RUNNER_REPLACEMENT_OUTCOME_UNKNOWN,
      RUNNER_OLD_STOP_CANCEL_PENDING, RUNNER_OLD_STOP_CANCEL_REJECTED,
      RUNNER_OLD_STOP_CANCEL_OUTCOME_UNKNOWN, RUNNER_PROTECTED, EXIT_PENDING, EXIT_ACCEPTED,
      EXIT_REJECTED, EXIT_OUTCOME_UNKNOWN, CONTROLLED_FLATTEN_PENDING,
      CONTROLLED_FLATTEN_ACCEPTED, CONTROLLED_FLATTEN_REJECTED,
      CONTROLLED_FLATTEN_OUTCOME_UNKNOWN, RECONCILIATION_PENDING, CANCEL_REJECTED,
      CANCEL_OUTCOME_UNKNOWN]"

record trade_aggregate =
  ag_identity :: ticket_identity
  ag_ticket :: trade_ticket
  ag_status :: aggregate_status
  ag_version :: int
  ag_last_event_sequence :: int
  ag_entry_lane_held :: bool
  ag_position_qty :: decimal
  ag_average_fill_price :: "decimal option"
  ag_actual_stop_risk :: "decimal option"
  ag_venue_reported_liquidation_price :: "decimal option"
  ag_post_fill_risk_status :: "post_fill_risk_status option"
  ag_post_fill_disposition :: "post_fill_disposition option"
  ag_post_fill_stress_status :: "stress_outcome option"
  ag_post_fill_stress_proof_digest :: "string option"
  ag_protected_qty :: decimal
  ag_entry_exchange_order_id :: "string option"
  ag_initial_stop_exchange_order_id :: "string option"
  ag_active_stop_exchange_order_id :: "string option"
  ag_active_stop_price :: "decimal option"
  ag_tp1_exchange_order_id :: "string option"
  ag_tp1_target_qty :: decimal
  ag_tp1_filled_qty :: decimal
  ag_break_even_floor_price :: "decimal option"
  ag_pending_replaced_stop_exchange_order_id :: "string option"
  ag_pending_stop_price :: "decimal option"
  ag_pending_stop_watermark_ms :: "int option"
  ag_runner_stop_watermark_ms :: "int option"
  ag_pending_cancel_exchange_order_id :: "string option"
  ag_entry_vacuum_id :: "string option"
  ag_vacuum_partial_retained :: bool
  ag_exit_exchange_order_id :: "string option"
  ag_review_id :: "string option"

text \<open>
  \<open>entry_materialization_kind\<close> has the single value \<open>"VACUUM_PARTIAL_RETAINED"\<close> or is absent: the
  boolean \<open>ag_vacuum_partial_retained\<close>.

  \<open>TradeAggregate(identity=..., ticket=..., status=..., version=..., last_event_sequence=...)\<close> with the
  defaults of the class.
\<close>

definition new_aggregate :: "trade_ticket \<Rightarrow> aggregate_status \<Rightarrow> int \<Rightarrow> int \<Rightarrow> trade_aggregate" where
  "new_aggregate ticket status version sequence =
     \<lparr>ag_identity = tk_identity ticket, ag_ticket = ticket, ag_status = status, ag_version = version,
      ag_last_event_sequence = sequence, ag_entry_lane_held = True, ag_position_qty = 0,
      ag_average_fill_price = None, ag_actual_stop_risk = None,
      ag_venue_reported_liquidation_price = None, ag_post_fill_risk_status = None,
      ag_post_fill_disposition = None, ag_post_fill_stress_status = None,
      ag_post_fill_stress_proof_digest = None, ag_protected_qty = 0,
      ag_entry_exchange_order_id = None, ag_initial_stop_exchange_order_id = None,
      ag_active_stop_exchange_order_id = None, ag_active_stop_price = None,
      ag_tp1_exchange_order_id = None, ag_tp1_target_qty = 0, ag_tp1_filled_qty = 0,
      ag_break_even_floor_price = None, ag_pending_replaced_stop_exchange_order_id = None,
      ag_pending_stop_price = None, ag_pending_stop_watermark_ms = None,
      ag_runner_stop_watermark_ms = None, ag_pending_cancel_exchange_order_id = None,
      ag_entry_vacuum_id = None, ag_vacuum_partial_retained = False,
      ag_exit_exchange_order_id = None, ag_review_id = None\<rparr>"

lemma new_aggregate_sel [simp]:
  "ag_identity (new_aggregate ticket status version sequence) = tk_identity ticket"
  "ag_ticket (new_aggregate ticket status version sequence) = ticket"
  "ag_status (new_aggregate ticket status version sequence) = status"
  "ag_version (new_aggregate ticket status version sequence) = version"
  "ag_last_event_sequence (new_aggregate ticket status version sequence) = sequence"
  "ag_entry_lane_held (new_aggregate ticket status version sequence) = True"
  "ag_position_qty (new_aggregate ticket status version sequence) = 0"
  "ag_average_fill_price (new_aggregate ticket status version sequence) = None"
  "ag_actual_stop_risk (new_aggregate ticket status version sequence) = None"
  "ag_venue_reported_liquidation_price (new_aggregate ticket status version sequence) = None"
  "ag_post_fill_risk_status (new_aggregate ticket status version sequence) = None"
  "ag_post_fill_disposition (new_aggregate ticket status version sequence) = None"
  "ag_post_fill_stress_status (new_aggregate ticket status version sequence) = None"
  "ag_post_fill_stress_proof_digest (new_aggregate ticket status version sequence) = None"
  "ag_protected_qty (new_aggregate ticket status version sequence) = 0"
  "ag_entry_exchange_order_id (new_aggregate ticket status version sequence) = None"
  "ag_initial_stop_exchange_order_id (new_aggregate ticket status version sequence) = None"
  "ag_active_stop_exchange_order_id (new_aggregate ticket status version sequence) = None"
  "ag_active_stop_price (new_aggregate ticket status version sequence) = None"
  "ag_tp1_exchange_order_id (new_aggregate ticket status version sequence) = None"
  "ag_tp1_target_qty (new_aggregate ticket status version sequence) = 0"
  "ag_tp1_filled_qty (new_aggregate ticket status version sequence) = 0"
  "ag_break_even_floor_price (new_aggregate ticket status version sequence) = None"
  "ag_pending_replaced_stop_exchange_order_id (new_aggregate ticket status version sequence) = None"
  "ag_pending_stop_price (new_aggregate ticket status version sequence) = None"
  "ag_pending_stop_watermark_ms (new_aggregate ticket status version sequence) = None"
  "ag_runner_stop_watermark_ms (new_aggregate ticket status version sequence) = None"
  "ag_pending_cancel_exchange_order_id (new_aggregate ticket status version sequence) = None"
  "ag_entry_vacuum_id (new_aggregate ticket status version sequence) = None"
  "ag_vacuum_partial_retained (new_aggregate ticket status version sequence) = False"
  "ag_exit_exchange_order_id (new_aggregate ticket status version sequence) = None"
  "ag_review_id (new_aggregate ticket status version sequence) = None"
  by (simp_all add: new_aggregate_def)

section \<open>Effects\<close>

record capital_release =
  cr_ticket_id :: string
  cr_account_capacity_domain_key :: string
  cr_netting_domain_key :: string
  cr_notional :: decimal
  cr_risk_at_stop :: decimal
  cr_reserved_margin :: decimal
  cr_released_at_ms :: int

datatype kernel_effect =
    PrepareEntryCommand trade_ticket "string option"
  | PrepareSetLeverageCommand trade_ticket
  | PrepareInitialStopCommand string decimal decimal
  | PrepareTakeProfitCommand string decimal decimal
  | PrepareProtectionReplacementCommand string decimal decimal string int
  | PrepareExitCommand string decimal string
  | CancelEntryRemainder string
  | CancelVacuumEntryOrder string string string
  | RequestControlledFlatten string decimal
  | PrepareControlledFlattenCommand string decimal
  | CancelProtectionOrders string string order_namespace cancel_purpose
  | MarkCancelCommandReconciledAbsent string string
  | OpenIncident string string
  | ResolveIncident string string
  | ResolveTicketIncidentsAtClosure string
  | ReleaseEntryLane string
  | ReleaseCapitalAuthorities capital_release
  | ReleaseBudget string
  | ProjectTerminalOwnerState string

end
