(* ===== verification/Vacuum_Late_Fill.thy ===== *)
theory Vacuum_Late_Fill
  imports Commands
begin

text \<open>
  The proof digests of \<open>domain/vacuum_late_fill.py\<close>. The reducer recomputes them to accept the exact
  attribution of a late fill (or of its absence) to the frozen ENTRY command of a Ticket.
\<close>

text \<open>\<open>_proof_digest\<close> renders a decimal as its value, without the context rounding of \<open>normalize\<close>.\<close>

definition proof_decimal :: "decimal \<Rightarrow> json" where
  "proof_decimal x = JStr (show_decimal x)"

definition vacuum_late_fill_proof_digest ::
  "string \<Rightarrow> string \<Rightarrow> string \<Rightarrow> string \<Rightarrow> string \<Rightarrow> decimal \<Rightarrow> decimal \<Rightarrow> int \<Rightarrow> int \<Rightarrow> string" where
  "vacuum_late_fill_proof_digest ticket_id entry_command_id exchange_order_id venue_client_order_id
     domain_key filled_qty average_fill_price position_observed_at_ms venue_observed_at_ms =
     canonical_digest (JObj
      [(''ticket_id'', JStr ticket_id),
       (''entry_command_id'', JStr entry_command_id),
       (''exchange_order_id'', JStr exchange_order_id),
       (''venue_client_order_id'', JStr venue_client_order_id),
       (''netting_domain_key'', JStr domain_key),
       (''filled_qty'', proof_decimal filled_qty),
       (''average_fill_price'', proof_decimal average_fill_price),
       (''position_observed_at_ms'', JInt position_observed_at_ms),
       (''venue_observed_at_ms'', JInt venue_observed_at_ms)])"

definition vacuum_no_fill_proof_digest ::
  "string \<Rightarrow> string \<Rightarrow> string \<Rightarrow> string \<Rightarrow> string \<Rightarrow> int \<Rightarrow> int \<Rightarrow> string" where
  "vacuum_no_fill_proof_digest ticket_id entry_command_id exchange_order_id venue_client_order_id
     domain_key position_observed_at_ms venue_observed_at_ms =
     canonical_digest (JObj
      [(''ticket_id'', JStr ticket_id),
       (''entry_command_id'', JStr entry_command_id),
       (''exchange_order_id'', JStr exchange_order_id),
       (''venue_client_order_id'', JStr venue_client_order_id),
       (''netting_domain_key'', JStr domain_key),
       (''filled_qty'', proof_decimal 0),
       (''position_observed_at_ms'', JInt position_observed_at_ms),
       (''venue_observed_at_ms'', JInt venue_observed_at_ms)])"

end
