(* ===== verification/Reducer.thy ===== *)
theory Reducer
  imports Aggregate Vacuum_Late_Fill
begin

text \<open>
  \<open>domain/reducer.py\<close>: the deterministic state reduction of one Ticket lifecycle. \<open>reduce_event\<close> maps
  the current aggregate (absent before the Ticket is issued) and one event to the next aggregate and
  the effects, or to the \<open>InvalidLifecycleTransition\<close> the code raises. Each \<open>isinstance\<close> branch of
  the source is one \<open>on_\<dots>\<close> definition, with the guards in the order of the source.
\<close>

type_synonym reduction = "trade_aggregate \<times> kernel_effect list"

abbreviation agg_ticket_id :: "trade_aggregate \<Rightarrow> string" where
  "agg_ticket_id a \<equiv> ti_ticket_id (ag_identity a)"

abbreviation agg_domain :: "trade_aggregate \<Rightarrow> netting_domain" where
  "agg_domain a \<equiv> ti_netting_domain (ag_identity a)"

section \<open>Helpers\<close>

text \<open>A guard of the source: \<open>if not b: raise InvalidLifecycleTransition(message)\<close>, then the rest.\<close>

definition require :: "bool \<Rightarrow> string \<Rightarrow> unit result" where
  "require b message = (if b then Inr () else Inl (InvalidLifecycleTransition message))"

definition after :: "unit result \<Rightarrow> 'a result \<Rightarrow> 'a result" where
  "after r k = bind_result r (\<lambda>_. k)"

fun join_comma_space :: "string list \<Rightarrow> string" where
  "join_comma_space [] = []"
| "join_comma_space [x] = x"
| "join_comma_space (x # y # ys) = x @ '', '' @ join_comma_space (y # ys)"

definition require_status :: "trade_aggregate \<Rightarrow> aggregate_status \<Rightarrow> unit result" where
  "require_status current expected =
     require (ag_status current = expected)
       (''event requires '' @ status_value expected @ '', current is '' @ status_value (ag_status current))"

definition require_status_in :: "trade_aggregate \<Rightarrow> aggregate_status list \<Rightarrow> unit result" where
  "require_status_in current expected =
     require (ag_status current \<in> set expected)
       (''event requires one of '' @ join_comma_space (sort (map status_value expected))
        @ '', current is '' @ status_value (ag_status current))"

fun require_event_identity_and_sequence :: "trade_aggregate \<Rightarrow> trade_event \<Rightarrow> unit result" where
  "require_event_identity_and_sequence current (TicketIssued h t) =
     Inl (InvalidLifecycleTransition ''Ticket cannot be issued twice'')"
| "require_event_identity_and_sequence current (TicketEvent h ticket_id f) =
     after (require (ticket_id = agg_ticket_id current) ''event Ticket identity mismatch'')
       (require (eh_sequence h = ag_last_event_sequence current + 1) ''event sequence is not monotonic'')"

text \<open>\<open>_transition\<close>: the base update, then the updates of the event.\<close>

definition transition ::
  "trade_aggregate \<Rightarrow> event_header \<Rightarrow> aggregate_status \<Rightarrow> (trade_aggregate \<Rightarrow> trade_aggregate)
   \<Rightarrow> kernel_effect list \<Rightarrow> reduction result" where
  "transition current h status updates effects =
     Inr (updates (current\<lparr>ag_status := status, ag_version := ag_version current + 1,
                           ag_last_event_sequence := eh_sequence h\<rparr>), effects)"

definition post_fill_updates :: "entry_fill \<Rightarrow> trade_aggregate \<Rightarrow> trade_aggregate" where
  "post_fill_updates e a =
     a\<lparr>ag_position_qty := ef_filled_qty e,
       ag_average_fill_price := Some (ef_average_fill_price e),
       ag_actual_stop_risk := Some (pd_actual_stop_risk (ef_post_fill_risk e)),
       ag_venue_reported_liquidation_price := ef_venue_reported_liquidation_price e,
       ag_post_fill_risk_status := Some (pd_status (ef_post_fill_risk e)),
       ag_post_fill_disposition := Some (pd_disposition (ef_post_fill_risk e))\<rparr>"

fun add_identity :: "string option \<Rightarrow> string list \<Rightarrow> string list" where
  "add_identity None ids = ids"
| "add_identity (Some i) ids = (if i \<in> set ids then ids else ids @ [i])"

definition known_cleanup_order_ids :: "trade_aggregate \<Rightarrow> string list" where
  "known_cleanup_order_ids a =
     foldl (\<lambda>ids i. add_identity i ids) []
       [ag_tp1_exchange_order_id a, ag_active_stop_exchange_order_id a,
        ag_initial_stop_exchange_order_id a]"

definition next_cleanup_order_id :: "trade_aggregate \<Rightarrow> string option" where
  "next_cleanup_order_id a =
     (case known_cleanup_order_ids a of [] \<Rightarrow> None | i # _ \<Rightarrow> Some i)"

text \<open>The updates are computed from \<open>current\<close> and applied to the copy \<open>a\<close>.\<close>

definition clear_cleanup_order :: "trade_aggregate \<Rightarrow> string \<Rightarrow> trade_aggregate \<Rightarrow> trade_aggregate" where
  "clear_cleanup_order current exchange_order_id a =
     (let a1 = a\<lparr>ag_pending_cancel_exchange_order_id := None\<rparr>;
          a2 = (if ag_tp1_exchange_order_id current = Some exchange_order_id
                then a1\<lparr>ag_tp1_exchange_order_id := None\<rparr> else a1);
          a3 = (if ag_active_stop_exchange_order_id current = Some exchange_order_id
                then a2\<lparr>ag_active_stop_exchange_order_id := None, ag_active_stop_price := None,
                         ag_protected_qty := 0\<rparr> else a2)
      in (if ag_initial_stop_exchange_order_id current = Some exchange_order_id
          then a3\<lparr>ag_initial_stop_exchange_order_id := None\<rparr> else a3))"

definition resolve_if :: "bool \<Rightarrow> trade_aggregate \<Rightarrow> string \<Rightarrow> kernel_effect list" where
  "resolve_if b current kind = (if b then [ResolveIncident (agg_ticket_id current) kind] else [])"

section \<open>Issue\<close>

fun issue_ticket :: "trade_event \<Rightarrow> reduction result" where
  "issue_ticket (TicketEvent h t f) =
     Inl (InvalidLifecycleTransition ''first event must issue a Ticket'')"
| "issue_ticket (TicketIssued h ticket) =
     (if eh_sequence h \<noteq> 1
      then Inl (InvalidLifecycleTransition ''first event sequence must be one'')
      else Inr (new_aggregate ticket
                  (if tk_leverage_change_required ticket then LEVERAGE_PENDING else ENTRY_PENDING)
                  1 (eh_sequence h),
                [if tk_leverage_change_required ticket then PrepareSetLeverageCommand ticket
                 else PrepareEntryCommand ticket None]))"

section \<open>Leverage\<close>

definition on_leverage_confirmed ::
  "trade_aggregate \<Rightarrow> event_header \<Rightarrow> int \<Rightarrow> int \<Rightarrow> string \<Rightarrow> reduction result" where
  "on_leverage_confirmed current h leverage verified_at_ms digest =
     after (require_status_in current [LEVERAGE_PENDING, LEVERAGE_OUTCOME_UNKNOWN])
     (after (require (leverage = tk_selected_leverage (ag_ticket current))
               ''confirmed leverage differs from immutable Ticket'')
     (after (require (0 < verified_at_ms) ''leverage confirmation time must be positive'')
     (after (require (py_startswith digest ''sha256:'') ''leverage confirmation requires a digest'')
     (transition current h LEVERAGE_CONFIRMED id
        (resolve_if (ag_status current = LEVERAGE_OUTCOME_UNKNOWN) current ''leverage_outcome_unknown''
         @ [PrepareEntryCommand (ag_ticket current) (Some digest)])))))"

definition release_all :: "trade_aggregate \<Rightarrow> kernel_effect list" where
  "release_all current =
     [ReleaseBudget (agg_ticket_id current), ReleaseEntryLane (agg_ticket_id current),
      ProjectTerminalOwnerState (agg_ticket_id current)]"

definition on_leverage_rejected :: "trade_aggregate \<Rightarrow> event_header \<Rightarrow> string \<Rightarrow> reduction result" where
  "on_leverage_rejected current h reason =
     after (require_status_in current [LEVERAGE_PENDING, LEVERAGE_OUTCOME_UNKNOWN])
     (after (require (non_blank reason) ''leverage rejection requires reason'')
     (transition current h LEVERAGE_REJECTED (\<lambda>a. a\<lparr>ag_entry_lane_held := False\<rparr>)
        (resolve_if (ag_status current = LEVERAGE_OUTCOME_UNKNOWN) current ''leverage_outcome_unknown''
         @ release_all current)))"

definition on_leverage_outcome_unknown ::
  "trade_aggregate \<Rightarrow> event_header \<Rightarrow> string \<Rightarrow> reduction result" where
  "on_leverage_outcome_unknown current h reason =
     after (require_status current LEVERAGE_PENDING)
     (after (require (non_blank reason) ''unknown leverage outcome requires reason'')
     (transition current h LEVERAGE_OUTCOME_UNKNOWN id
        [OpenIncident (agg_ticket_id current) ''leverage_outcome_unknown'']))"

section \<open>Entry\<close>

definition on_entry_accepted :: "trade_aggregate \<Rightarrow> event_header \<Rightarrow> string \<Rightarrow> reduction result" where
  "on_entry_accepted current h order_id =
     after (require_status_in current [ENTRY_PENDING, LEVERAGE_CONFIRMED, ENTRY_OUTCOME_UNKNOWN])
     (after (require (non_blank order_id) ''ENTRY acceptance requires order identity'')
     (transition current h ENTRY_ACCEPTED
        (\<lambda>a. a\<lparr>ag_entry_exchange_order_id := Some (py_strip order_id)\<rparr>)
        (resolve_if (ag_status current = ENTRY_OUTCOME_UNKNOWN) current ''entry_outcome_unknown'')))"

definition on_entry_outcome_unknown ::
  "trade_aggregate \<Rightarrow> event_header \<Rightarrow> string \<Rightarrow> reduction result" where
  "on_entry_outcome_unknown current h reason =
     after (require_status_in current [ENTRY_PENDING, LEVERAGE_CONFIRMED])
     (after (require (non_blank reason) ''unknown ENTRY outcome requires reason'')
     (transition current h ENTRY_OUTCOME_UNKNOWN id
        [OpenIncident (agg_ticket_id current) ''entry_outcome_unknown'']))"

definition on_entry_rejected :: "trade_aggregate \<Rightarrow> event_header \<Rightarrow> string \<Rightarrow> reduction result" where
  "on_entry_rejected current h reason =
     after (require_status_in current [ENTRY_PENDING, LEVERAGE_CONFIRMED])
     (transition current h ENTRY_REJECTED (\<lambda>a. a\<lparr>ag_entry_lane_held := False\<rparr>) (release_all current))"

definition on_entry_absence_confirmed ::
  "trade_aggregate \<Rightarrow> event_header \<Rightarrow> string \<Rightarrow> reduction result" where
  "on_entry_absence_confirmed current h command_id =
     after (require_status current ENTRY_OUTCOME_UNKNOWN)
     (after (require (non_blank command_id) ''reconciled ENTRY absence requires command identity'')
     (transition current h ENTRY_RECONCILED_ABSENT (\<lambda>a. a\<lparr>ag_entry_lane_held := False\<rparr>)
        (ResolveIncident (agg_ticket_id current) ''entry_outcome_unknown'' # release_all current)))"

definition on_entry_filled :: "trade_aggregate \<Rightarrow> event_header \<Rightarrow> entry_fill \<Rightarrow> reduction result" where
  "on_entry_filled current h e =
     after (require_status_in current
              [ENTRY_PENDING, LEVERAGE_CONFIRMED, ENTRY_ACCEPTED, ENTRY_VACUUM_CANCELLED])
     (after (require (\<not> (ag_status current = ENTRY_VACUUM_CANCELLED \<and> ag_entry_vacuum_id current = None))
               ''Vacuum full fill requires exact Vacuum lineage'')
     (after (require (ef_filled_qty e = tk_quantity (ag_ticket current))
               ''full entry fill must equal Ticket quantity'')
     (after (require (0 < ef_average_fill_price e) ''average fill price must be positive'')
     (let assessment = ef_post_fill_risk e;
          incident = OpenIncident (agg_ticket_id current) (post_fill_status_value (pd_status assessment));
          prepare_stop = PrepareInitialStopCommand (agg_ticket_id current) (ef_filled_qty e)
                           (tk_initial_stop_price (ag_ticket current))
      in if pd_disposition assessment = FLATTEN_IMMEDIATELY
         then transition current h CONTROLLED_FLATTEN_PENDING (post_fill_updates e)
                [incident, PrepareControlledFlattenCommand (agg_ticket_id current) (ef_filled_qty e)]
         else transition current h PROTECTION_PENDING (post_fill_updates e)
                (if pd_disposition assessment = FLATTEN_AFTER_PROTECTION
                 then [incident, prepare_stop] else [prepare_stop])))))"

definition on_entry_partially_filled ::
  "trade_aggregate \<Rightarrow> event_header \<Rightarrow> decimal \<Rightarrow> decimal \<Rightarrow> decimal \<Rightarrow> reduction result" where
  "on_entry_partially_filled current h filled_qty requested_qty average_fill_price =
     after (require_status_in current [ENTRY_PENDING, LEVERAGE_CONFIRMED, ENTRY_ACCEPTED])
     (after (require (0 < filled_qty \<and> filled_qty < requested_qty)
               ''partial fill quantity is contradictory'')
     (after (require (requested_qty = tk_quantity (ag_ticket current))
               ''partial fill request differs from Ticket'')
     (transition current h PARTIAL_FILL_INCIDENT
        (\<lambda>a. a\<lparr>ag_position_qty := filled_qty, ag_average_fill_price := Some average_fill_price\<rparr>)
        [OpenIncident (agg_ticket_id current) ''unsupported_partial_entry_fill'',
         CancelEntryRemainder (agg_ticket_id current),
         RequestControlledFlatten (agg_ticket_id current) filled_qty])))"

definition on_entry_remainder_cancel_confirmed ::
  "trade_aggregate \<Rightarrow> event_header \<Rightarrow> string \<Rightarrow> reduction result" where
  "on_entry_remainder_cancel_confirmed current h order_id =
     after (require_status_in current [PARTIAL_FILL_INCIDENT, PARTIAL_FILL_CANCEL_OUTCOME_UNKNOWN])
     (after (require (ag_entry_exchange_order_id current = Some order_id)
               ''ENTRY remainder cancel identity mismatch'')
     (transition current h CONTROLLED_FLATTEN_PENDING id
        ((if ag_status current = PARTIAL_FILL_CANCEL_OUTCOME_UNKNOWN
          then [MarkCancelCommandReconciledAbsent (agg_ticket_id current) order_id,
                ResolveIncident (agg_ticket_id current) ''entry_remainder_cancel_outcome_unknown'']
          else [])
         @ [PrepareControlledFlattenCommand (agg_ticket_id current) (ag_position_qty current)])))"

definition on_entry_remainder_cancel_rejected ::
  "trade_aggregate \<Rightarrow> event_header \<Rightarrow> string \<Rightarrow> string \<Rightarrow> reduction result" where
  "on_entry_remainder_cancel_rejected current h order_id reason =
     after (require_status current PARTIAL_FILL_INCIDENT)
     (after (require (ag_entry_exchange_order_id current = Some order_id)
               ''rejected ENTRY cancel identity mismatch'')
     (after (require (non_blank reason) ''ENTRY cancel rejection requires reason'')
     (transition current h PARTIAL_FILL_CANCEL_REJECTED id
        [OpenIncident (agg_ticket_id current) ''entry_remainder_cancel_rejected''])))"

definition on_entry_remainder_cancel_outcome_unknown ::
  "trade_aggregate \<Rightarrow> event_header \<Rightarrow> string \<Rightarrow> string \<Rightarrow> reduction result" where
  "on_entry_remainder_cancel_outcome_unknown current h order_id reason =
     after (require_status current PARTIAL_FILL_INCIDENT)
     (after (require (ag_entry_exchange_order_id current = Some order_id)
               ''unknown ENTRY cancel identity mismatch'')
     (after (require (non_blank reason) ''unknown ENTRY cancel requires reason'')
     (transition current h PARTIAL_FILL_CANCEL_OUTCOME_UNKNOWN id
        [OpenIncident (agg_ticket_id current) ''entry_remainder_cancel_outcome_unknown''])))"

section \<open>Selection Vacuum\<close>

definition on_entry_vacuum_superseded ::
  "trade_aggregate \<Rightarrow> event_header \<Rightarrow> string \<Rightarrow> string \<Rightarrow> reduction result" where
  "on_entry_vacuum_superseded current h vacuum_id command_id =
     after (require_status_in current [LEVERAGE_PENDING, LEVERAGE_CONFIRMED, ENTRY_PENDING])
     (transition current h ENTRY_REJECTED
        (\<lambda>a. a\<lparr>ag_entry_lane_held := False, ag_entry_vacuum_id := Some vacuum_id\<rparr>)
        (release_all current))"

definition on_entry_vacuum_cancel_requested ::
  "trade_aggregate \<Rightarrow> event_header \<Rightarrow> string \<Rightarrow> string \<Rightarrow> decimal \<Rightarrow> decimal option \<Rightarrow> reduction result" where
  "on_entry_vacuum_cancel_requested current h vacuum_id order_id observed_qty average_fill_price =
     after (require_status_in current [ENTRY_ACCEPTED, ENTRY_VACUUM_CANCEL_REJECTED])
     (after (require (ag_entry_exchange_order_id current = Some order_id)
               ''Vacuum ENTRY cancel identity mismatch'')
     (after (require (0 \<le> observed_qty \<and> observed_qty < tk_quantity (ag_ticket current))
               ''Vacuum ENTRY cancel requires unfinished requested quantity'')
     (transition current h ENTRY_VACUUM_CANCEL_PENDING
        (\<lambda>a. a\<lparr>ag_position_qty := observed_qty, ag_average_fill_price := average_fill_price,
                ag_pending_cancel_exchange_order_id := Some order_id,
                ag_entry_vacuum_id := Some vacuum_id\<rparr>)
        (resolve_if (ag_status current = ENTRY_VACUUM_CANCEL_REJECTED) current
           ''selection_vacuum_entry_cancel_rejected''
         @ [CancelVacuumEntryOrder (agg_ticket_id current) order_id vacuum_id]))))"

definition on_entry_vacuum_cancel_confirmed ::
  "trade_aggregate \<Rightarrow> event_header \<Rightarrow> string \<Rightarrow> reduction result" where
  "on_entry_vacuum_cancel_confirmed current h order_id =
     after (require_status_in current [ENTRY_VACUUM_CANCEL_PENDING, ENTRY_VACUUM_CANCEL_OUTCOME_UNKNOWN])
     (after (require (ag_pending_cancel_exchange_order_id current = Some order_id)
               ''Vacuum ENTRY cancel result mismatch'')
     (transition current h ENTRY_VACUUM_CANCEL_PENDING id
        (if ag_status current = ENTRY_VACUUM_CANCEL_OUTCOME_UNKNOWN
         then [MarkCancelCommandReconciledAbsent (agg_ticket_id current) order_id,
               ResolveIncident (agg_ticket_id current) ''selection_vacuum_entry_cancel_outcome_unknown'']
         else [])))"

definition on_entry_vacuum_cancel_rejected ::
  "trade_aggregate \<Rightarrow> event_header \<Rightarrow> string \<Rightarrow> string \<Rightarrow> reduction result" where
  "on_entry_vacuum_cancel_rejected current h order_id reason =
     after (require_status_in current [ENTRY_VACUUM_CANCEL_PENDING, ENTRY_VACUUM_CANCEL_OUTCOME_UNKNOWN])
     (after (require (ag_pending_cancel_exchange_order_id current = Some order_id)
               ''Vacuum ENTRY cancel rejection mismatch'')
     (transition current h ENTRY_VACUUM_CANCEL_REJECTED id
        (resolve_if (ag_status current = ENTRY_VACUUM_CANCEL_OUTCOME_UNKNOWN) current
           ''selection_vacuum_entry_cancel_outcome_unknown''
         @ [OpenIncident (agg_ticket_id current) ''selection_vacuum_entry_cancel_rejected''])))"

definition on_entry_vacuum_cancel_outcome_unknown ::
  "trade_aggregate \<Rightarrow> event_header \<Rightarrow> string \<Rightarrow> string \<Rightarrow> reduction result" where
  "on_entry_vacuum_cancel_outcome_unknown current h order_id reason =
     after (require_status current ENTRY_VACUUM_CANCEL_PENDING)
     (after (require (ag_pending_cancel_exchange_order_id current = Some order_id)
               ''Vacuum ENTRY cancel unknown mismatch'')
     (transition current h ENTRY_VACUUM_CANCEL_OUTCOME_UNKNOWN id
        [OpenIncident (agg_ticket_id current) ''selection_vacuum_entry_cancel_outcome_unknown'']))"

definition on_entry_vacuum_order_absence_confirmed ::
  "trade_aggregate \<Rightarrow> event_header \<Rightarrow> string \<Rightarrow> string \<Rightarrow> decimal \<Rightarrow> decimal option \<Rightarrow> reduction result" where
  "on_entry_vacuum_order_absence_confirmed current h vacuum_id order_id final_filled_qty
     average_fill_price =
     after (require_status_in current
              [ENTRY_ACCEPTED, ENTRY_VACUUM_CANCEL_PENDING, ENTRY_VACUUM_CANCEL_REJECTED])
     (after (require (ag_entry_exchange_order_id current = Some order_id)
               ''Vacuum ENTRY absence identity mismatch'')
     (after (require (0 \<le> final_filled_qty \<and> final_filled_qty \<le> tk_quantity (ag_ticket current))
               ''Vacuum final filled quantity is invalid'')
     (after (require (\<not> (ag_entry_vacuum_id current \<noteq> None \<and> ag_entry_vacuum_id current \<noteq> Some vacuum_id))
               ''Vacuum ENTRY absence lineage mismatch'')
     (transition current h ENTRY_VACUUM_CANCELLED
        (\<lambda>a. a\<lparr>ag_position_qty := final_filled_qty, ag_average_fill_price := average_fill_price,
                ag_pending_cancel_exchange_order_id := None, ag_entry_vacuum_id := Some vacuum_id\<rparr>)
        (resolve_if (ag_status current = ENTRY_VACUUM_CANCEL_REJECTED) current
           ''selection_vacuum_entry_cancel_rejected'')))))"

definition on_vacuum_late_fill_attributed ::
  "trade_aggregate \<Rightarrow> event_header \<Rightarrow> vacuum_late_fill \<Rightarrow> reduction result" where
  "on_vacuum_late_fill_attributed current h v =
     after (require_status current ENTRY_VACUUM_CANCELLED)
     (bind_result (build_command_id (agg_ticket_id current) ENTRY 1) (\<lambda>expected_command_id.
      bind_result (build_venue_client_order_id expected_command_id) (\<lambda>expected_client_id.
      after (require
        (ag_entry_vacuum_id current = Some (vl_entry_vacuum_id v)
         \<and> ag_entry_exchange_order_id current = Some (vl_exchange_order_id v)
         \<and> vl_entry_command_id v = expected_command_id
         \<and> vl_venue_client_order_id v = expected_client_id
         \<and> ag_position_qty current = 0
         \<and> vl_filled_qty v \<le> tk_quantity (ag_ticket current)
         \<and> vl_attribution_digest v = vacuum_late_fill_proof_digest (agg_ticket_id current)
              (vl_entry_command_id v) (vl_exchange_order_id v) (vl_venue_client_order_id v)
              (netting_domain_key (agg_domain current)) (vl_filled_qty v) (vl_average_fill_price v)
              (vl_position_observed_at_ms v) (vl_venue_observed_at_ms v))
        ''late fill attribution differs from cancelled ENTRY'')
      (transition current h ENTRY_VACUUM_CANCELLED
         (\<lambda>a. a\<lparr>ag_position_qty := vl_filled_qty v,
                 ag_average_fill_price := Some (vl_average_fill_price v)\<rparr>) []))))"

definition on_vacuum_post_absence_no_fill_verified ::
  "trade_aggregate \<Rightarrow> event_header \<Rightarrow> vacuum_no_fill \<Rightarrow> reduction result" where
  "on_vacuum_post_absence_no_fill_verified current h v =
     after (require_status current ENTRY_VACUUM_CANCELLED)
     (bind_result (build_command_id (agg_ticket_id current) ENTRY 1) (\<lambda>expected_command_id.
      bind_result (build_venue_client_order_id expected_command_id) (\<lambda>expected_client_id.
      after (require
        (ag_entry_vacuum_id current = Some (vn_entry_vacuum_id v)
         \<and> ag_entry_exchange_order_id current = Some (vn_exchange_order_id v)
         \<and> vn_entry_command_id v = expected_command_id
         \<and> vn_venue_client_order_id v = expected_client_id
         \<and> ag_position_qty current = 0
         \<and> vn_proof_digest v = vacuum_no_fill_proof_digest (agg_ticket_id current)
              (vn_entry_command_id v) (vn_exchange_order_id v) (vn_venue_client_order_id v)
              (netting_domain_key (agg_domain current))
              (vn_position_observed_at_ms v) (vn_venue_observed_at_ms v))
        ''post-absence no-fill proof differs from cancelled ENTRY'')
      (transition current h ENTRY_RECONCILED_ABSENT (\<lambda>a. a\<lparr>ag_entry_lane_held := False\<rparr>)
         (ResolveIncident (agg_ticket_id current) ''vacuum_post_absence_contradiction''
          # release_all current)))))"

definition on_entry_vacuum_absence_confirmed ::
  "trade_aggregate \<Rightarrow> event_header \<Rightarrow> string \<Rightarrow> reduction result" where
  "on_entry_vacuum_absence_confirmed current h vacuum_id =
     after (require_status current ENTRY_VACUUM_CANCELLED)
     (after (require (ag_entry_vacuum_id current = Some vacuum_id)
               ''Vacuum ENTRY absence lineage mismatch'')
     (after (require (ag_position_qty current = 0)
               ''Vacuum ENTRY absence cannot discard filled exposure'')
     (transition current h ENTRY_RECONCILED_ABSENT (\<lambda>a. a\<lparr>ag_entry_lane_held := False\<rparr>)
        (release_all current))))"

definition on_vacuum_partial_retained ::
  "trade_aggregate \<Rightarrow> event_header \<Rightarrow> vacuum_retained \<Rightarrow> reduction result" where
  "on_vacuum_partial_retained current h v =
     after (require_status current ENTRY_VACUUM_CANCELLED)
     (after (require
        (ag_entry_vacuum_id current = Some (vr_entry_vacuum_id v)
         \<and> vr_requested_qty v = tk_quantity (ag_ticket current)
         \<and> vr_final_filled_qty v = ag_position_qty current
         \<and> ag_average_fill_price current = Some (vr_average_fill_price v)
         \<and> pd_disposition (vr_post_fill_risk v) = NORMAL
         \<and> pd_actual_stop_risk (vr_post_fill_risk v) =
             dec_mul (vr_final_filled_qty v)
               \<bar>dec_sub (vr_average_fill_price v) (tk_initial_stop_price (ag_ticket current))\<bar>)
        ''retained Vacuum partial differs from cancelled exposure'')
     (after (require
        (\<not> (tk_selection_authority_id (ag_ticket current) \<noteq> None
            \<and> vr_selection_authority_id v \<noteq> tk_selection_authority_id (ag_ticket current)))
        ''retained Vacuum partial Authority differs from Ticket birth'')
     (after (require
        (\<not> (tk_selection_authority_id (ag_ticket current) = None
            \<and> vr_selection_authority_id v \<noteq> None))
        ''retained Vacuum partial cannot invent Ticket Authority'')
     (transition current h PROTECTION_PENDING
        (\<lambda>a. a\<lparr>ag_actual_stop_risk := Some (pd_actual_stop_risk (vr_post_fill_risk v)),
                ag_post_fill_risk_status := Some (pd_status (vr_post_fill_risk v)),
                ag_post_fill_disposition := Some (pd_disposition (vr_post_fill_risk v)),
                ag_tp1_target_qty := vr_effective_tp1_qty v,
                ag_vacuum_partial_retained := True\<rparr>)
        [PrepareInitialStopCommand (agg_ticket_id current) (vr_final_filled_qty v)
           (tk_initial_stop_price (ag_ticket current))]))))"

definition on_vacuum_partial_flatten_required ::
  "trade_aggregate \<Rightarrow> event_header \<Rightarrow> string \<Rightarrow> decimal \<Rightarrow> decimal \<Rightarrow> string \<Rightarrow> reduction result" where
  "on_vacuum_partial_flatten_required current h vacuum_id final_filled_qty average_fill_price reason =
     after (require_status current ENTRY_VACUUM_CANCELLED)
     (after (require
        (ag_entry_vacuum_id current = Some vacuum_id \<and> final_filled_qty = ag_position_qty current
         \<and> ag_average_fill_price current = Some average_fill_price)
        ''Vacuum partial flatten differs from cancelled exposure'')
     (transition current h CONTROLLED_FLATTEN_PENDING id
        [OpenIncident (agg_ticket_id current) reason,
         PrepareControlledFlattenCommand (agg_ticket_id current) final_filled_qty]))"

section \<open>Initial protection\<close>

definition on_initial_stop_confirmed ::
  "trade_aggregate \<Rightarrow> event_header \<Rightarrow> string \<Rightarrow> decimal \<Rightarrow> reduction result" where
  "on_initial_stop_confirmed current h order_id protected_qty =
     after (require_status_in current [PROTECTION_PENDING, INITIAL_STOP_OUTCOME_UNKNOWN])
     (after (require (protected_qty = ag_position_qty current)
               ''initial stop does not cover exact position'')
     (after (require (non_blank order_id) ''initial stop order identity is required'')
     (let stop_updates = (\<lambda>a. a\<lparr>ag_protected_qty := protected_qty,
            ag_initial_stop_exchange_order_id := Some (py_strip order_id),
            ag_active_stop_exchange_order_id := Some (py_strip order_id),
            ag_active_stop_price := Some (tk_initial_stop_price (ag_ticket current))\<rparr>)
      in if ag_post_fill_disposition current = Some FLATTEN_AFTER_PROTECTION
         then transition current h CONTROLLED_FLATTEN_PENDING stop_updates
                [PrepareControlledFlattenCommand (agg_ticket_id current) (ag_position_qty current)]
         else transition current h POST_FILL_RISK_PENDING stop_updates
                (resolve_if (ag_status current = INITIAL_STOP_OUTCOME_UNKNOWN) current
                   ''initial_stop_outcome_unknown''))))"

text \<open>The first leg of the take-profit plan the source passes to TP1, if it has exactly one.\<close>

definition tp1_leg :: "trade_aggregate \<Rightarrow> (decimal \<times> decimal) option" where
  "tp1_leg current =
     (case (tk_take_profit_prices (ag_ticket current),
            if 0 < ag_tp1_target_qty current then [ag_tp1_target_qty current]
            else tk_take_profit_quantities (ag_ticket current)) of
        ([price], [quantity]) \<Rightarrow> Some (price, quantity)
      | _ \<Rightarrow> None)"

definition stress_identity_matches :: "trade_aggregate \<Rightarrow> stress_assessment \<Rightarrow> bool" where
  "stress_identity_matches current e \<longleftrightarrow>
     ps_owner_policy_id e = tk_owner_policy_id (ag_ticket current)
     \<and> ps_owner_policy_version e = tk_owner_policy_version (ag_ticket current)
     \<and> ps_filled_qty e = ag_position_qty current
     \<and> ag_average_fill_price current = Some (ps_average_fill_price e)
     \<and> ps_initial_stop_price e = tk_initial_stop_price (ag_ticket current)
     \<and> ag_initial_stop_exchange_order_id current = Some (ps_initial_stop_exchange_order_id e)"

definition stress_evidence_matches :: "trade_aggregate \<Rightarrow> stress_assessment \<Rightarrow> bool" where
  "stress_evidence_matches current e \<longleftrightarrow>
     (let request = se_request (ps_evidence e); snapshot = sr_account_snapshot request in
      as_venue_id snapshot = nd_venue_id (agg_domain current)
      \<and> as_account_id snapshot = nd_account_id (agg_domain current)
      \<and> as_exchange_instrument_id snapshot = nd_exchange_instrument_id (agg_domain current)
      \<and> sr_evaluated_side request = nd_position_side (agg_domain current)
      \<and> sr_reference_entry_price request = ps_average_fill_price e
      \<and> sr_initial_stop_price request = ps_initial_stop_price e
      \<and> sr_post_stop_stress_multiple request = tk_post_stop_stress_multiple (ag_ticket current))"

definition on_post_fill_stress_assessed ::
  "trade_aggregate \<Rightarrow> event_header \<Rightarrow> stress_assessment \<Rightarrow> reduction result" where
  "on_post_fill_stress_assessed current h e =
     after (require_status current POST_FILL_RISK_PENDING)
     (after (require (stress_identity_matches current e)
               ''post-fill stress identity differs from protected exposure'')
     (after (require (stress_evidence_matches current e)
               ''post-fill stress evidence differs from Ticket authority'')
     (let stress_updates = (\<lambda>a. a\<lparr>ag_post_fill_stress_status := Some (ps_status e),
            ag_post_fill_stress_proof_digest := Some (sf_proof_digest (se_proof (ps_evidence e)))\<rparr>)
      in if ps_status e = stress_failed
         then transition current h CONTROLLED_FLATTEN_PENDING stress_updates
                [OpenIncident (agg_ticket_id current) ''post_fill_stress_failed'',
                 PrepareControlledFlattenCommand (agg_ticket_id current) (ag_position_qty current)]
         else (case tp1_leg current of
                 None \<Rightarrow> Inl (InvalidLifecycleTransition
                   ''registered exit policy requires exactly one TP1 leg'')
               | Some (price, tp1_quantity) \<Rightarrow>
                   after (require (tp1_quantity < ag_position_qty current)
                            ''TP1 must preserve a runner quantity'')
                   (transition current h TP1_PENDING
                      (\<lambda>a. (stress_updates a)\<lparr>ag_entry_lane_held := False,
                                                ag_tp1_target_qty := tp1_quantity\<rparr>)
                      [ReleaseEntryLane (agg_ticket_id current),
                       PrepareTakeProfitCommand (agg_ticket_id current) tp1_quantity price])))))"

definition on_initial_stop_rejected ::
  "trade_aggregate \<Rightarrow> event_header \<Rightarrow> string \<Rightarrow> reduction result" where
  "on_initial_stop_rejected current h reason =
     after (require_status current PROTECTION_PENDING)
     (after (require (non_blank reason) ''initial stop rejection requires reason'')
     (if ag_vacuum_partial_retained current
      then transition current h CONTROLLED_FLATTEN_PENDING id
             [OpenIncident (agg_ticket_id current) ''vacuum_partial_initial_stop_rejected'',
              PrepareControlledFlattenCommand (agg_ticket_id current) (ag_position_qty current)]
      else transition current h EXIT_PENDING id
             [OpenIncident (agg_ticket_id current) ''initial_stop_rejected'',
              PrepareExitCommand (agg_ticket_id current) (ag_position_qty current)
                ''initial_stop_rejected'']))"

definition on_initial_stop_outcome_unknown ::
  "trade_aggregate \<Rightarrow> event_header \<Rightarrow> string \<Rightarrow> reduction result" where
  "on_initial_stop_outcome_unknown current h reason =
     after (require_status current PROTECTION_PENDING)
     (after (require (non_blank reason) ''unknown initial stop outcome requires reason'')
     (transition current h INITIAL_STOP_OUTCOME_UNKNOWN id
        [OpenIncident (agg_ticket_id current) ''initial_stop_outcome_unknown'']))"

definition on_initial_stop_absence_confirmed ::
  "trade_aggregate \<Rightarrow> event_header \<Rightarrow> string \<Rightarrow> reduction result" where
  "on_initial_stop_absence_confirmed current h command_id =
     after (require_status current INITIAL_STOP_OUTCOME_UNKNOWN)
     (after (require (non_blank command_id) ''reconciled initial stop absence requires command identity'')
     (if ag_vacuum_partial_retained current
      then transition current h CONTROLLED_FLATTEN_PENDING id
             [ResolveIncident (agg_ticket_id current) ''initial_stop_outcome_unknown'',
              OpenIncident (agg_ticket_id current) ''vacuum_partial_initial_stop_absent'',
              PrepareControlledFlattenCommand (agg_ticket_id current) (ag_position_qty current)]
      else transition current h EXIT_PENDING id
             [ResolveIncident (agg_ticket_id current) ''initial_stop_outcome_unknown'',
              OpenIncident (agg_ticket_id current) ''initial_stop_absent'',
              PrepareExitCommand (agg_ticket_id current) (ag_position_qty current)
                ''initial_stop_absent'']))"

section \<open>Take profit and runner\<close>

definition on_take_profit_confirmed ::
  "trade_aggregate \<Rightarrow> event_header \<Rightarrow> string \<Rightarrow> decimal \<Rightarrow> reduction result" where
  "on_take_profit_confirmed current h order_id target_qty =
     after (require_status_in current [TP1_PENDING, POST_FILL_RISK_PENDING, TP1_OUTCOME_UNKNOWN])
     (after (require (non_blank order_id) ''TP1 acceptance requires order identity'')
     (after (require (target_qty = ag_tp1_target_qty current)
               ''TP1 accepted quantity differs from Ticket'')
     (transition current h POSITION_PROTECTED
        (\<lambda>a. a\<lparr>ag_tp1_exchange_order_id := Some (py_strip order_id)\<rparr>)
        (resolve_if (ag_status current = TP1_OUTCOME_UNKNOWN) current ''take_profit_outcome_unknown''))))"

definition on_take_profit_rejected ::
  "trade_aggregate \<Rightarrow> event_header \<Rightarrow> string \<Rightarrow> reduction result" where
  "on_take_profit_rejected current h reason =
     after (require_status current TP1_PENDING)
     (after (require (non_blank reason) ''TP1 rejection requires reason'')
     (transition current h TP1_REJECTED id
        [OpenIncident (agg_ticket_id current) ''take_profit_rejected'']))"

definition on_take_profit_outcome_unknown ::
  "trade_aggregate \<Rightarrow> event_header \<Rightarrow> string \<Rightarrow> reduction result" where
  "on_take_profit_outcome_unknown current h reason =
     after (require_status current TP1_PENDING)
     (after (require (non_blank reason) ''TP1 unknown outcome requires reason'')
     (transition current h TP1_OUTCOME_UNKNOWN id
        [OpenIncident (agg_ticket_id current) ''take_profit_outcome_unknown'']))"

definition on_take_profit_absence_confirmed ::
  "trade_aggregate \<Rightarrow> event_header \<Rightarrow> string \<Rightarrow> reduction result" where
  "on_take_profit_absence_confirmed current h command_id =
     after (require_status current TP1_OUTCOME_UNKNOWN)
     (after (require (non_blank command_id) ''reconciled TP1 absence requires command identity'')
     (case tk_take_profit_prices (ag_ticket current) of
        [price] \<Rightarrow>
          transition current h TP1_PENDING id
            [ResolveIncident (agg_ticket_id current) ''take_profit_outcome_unknown'',
             PrepareTakeProfitCommand (agg_ticket_id current) (ag_tp1_target_qty current) price]
      | _ \<Rightarrow> Inl (InvalidLifecycleTransition ''TP1 retry requires one frozen price'')))"

definition on_take_profit_filled ::
  "trade_aggregate \<Rightarrow> event_header \<Rightarrow> decimal \<Rightarrow> decimal \<Rightarrow> decimal \<Rightarrow> reduction result" where
  "on_take_profit_filled current h filled_qty average_fill_price runner_floor_price =
     after (require_status current POSITION_PROTECTED)
     (after (require (filled_qty = ag_tp1_target_qty current) ''TP1 fill must equal the frozen target'')
     (after (require (\<not> (average_fill_price \<le> 0 \<or> runner_floor_price \<le> 0))
               ''TP1 fill and runner floor must be positive'')
     (case ag_active_stop_exchange_order_id current of
        None \<Rightarrow> Inl (InvalidLifecycleTransition ''TP1 fill has no active stop to replace'')
      | Some active_stop \<Rightarrow>
          (let runner_qty = dec_sub (ag_position_qty current) filled_qty in
           after (require (0 < runner_qty) ''TP1 fill must preserve runner exposure'')
           (transition current h RUNNER_REPLACEMENT_PENDING
              (\<lambda>a. a\<lparr>ag_position_qty := runner_qty, ag_tp1_filled_qty := filled_qty,
                      ag_tp1_exchange_order_id := None,
                      ag_break_even_floor_price := Some runner_floor_price,
                      ag_pending_stop_price := Some runner_floor_price,
                      ag_pending_stop_watermark_ms := Some (eh_occurred_at_ms h)\<rparr>)
              [PrepareProtectionReplacementCommand (agg_ticket_id current) runner_qty
                 runner_floor_price active_stop (eh_occurred_at_ms h)])))))"

definition stop_improves :: "position_side \<Rightarrow> decimal \<Rightarrow> decimal \<Rightarrow> bool" where
  "stop_improves side new_stop old_stop = (if side = Long then new_stop > old_stop else new_stop < old_stop)"

definition on_runner_stop_requested ::
  "trade_aggregate \<Rightarrow> event_header \<Rightarrow> decimal \<Rightarrow> int \<Rightarrow> reduction result" where
  "on_runner_stop_requested current h stop_price watermark =
     after (require_status current RUNNER_PROTECTED)
     (case ag_active_stop_exchange_order_id current of
        None \<Rightarrow> Inl (InvalidLifecycleTransition ''runner move requires active stop identity'')
      | Some active_stop \<Rightarrow>
     (case ag_active_stop_price current of
        None \<Rightarrow> Inl (InvalidLifecycleTransition ''runner move requires active stop price'')
      | Some active_price \<Rightarrow>
     (after (require (\<not> (stop_price \<le> 0 \<or> watermark \<le> 0)) ''runner move requires price and watermark'')
     (after (require (stop_improves (nd_position_side (agg_domain current)) stop_price active_price)
               ''runner stop must improve monotonically'')
     (transition current h RUNNER_REPLACEMENT_PENDING
        (\<lambda>a. a\<lparr>ag_pending_stop_price := Some stop_price,
                ag_pending_stop_watermark_ms := Some watermark\<rparr>)
        [PrepareProtectionReplacementCommand (agg_ticket_id current) (ag_position_qty current)
           stop_price active_stop watermark])))))"

definition on_protection_replacement_confirmed ::
  "trade_aggregate \<Rightarrow> event_header \<Rightarrow> replacement_confirmation \<Rightarrow> reduction result" where
  "on_protection_replacement_confirmed current h e =
     after (require_status_in current [RUNNER_REPLACEMENT_PENDING, RUNNER_REPLACEMENT_OUTCOME_UNKNOWN])
     (after (require (non_blank (rc_exchange_order_id e))
               ''protection replacement requires order identity'')
     (after (require (rc_protected_qty e = ag_position_qty current)
               ''protection replacement must cover exact runner quantity'')
     (after (require (ag_active_stop_exchange_order_id current = Some (rc_replaces_exchange_order_id e))
               ''replaced stop identity mismatch'')
     (after (require (ag_pending_stop_price current = Some (rc_stop_price e)
                      \<and> ag_pending_stop_watermark_ms current = Some (rc_source_watermark_ms e))
               ''replacement terms differ from request'')
     (transition current h RUNNER_OLD_STOP_CANCEL_PENDING
        (\<lambda>a. a\<lparr>ag_protected_qty := rc_protected_qty e,
                ag_active_stop_exchange_order_id := Some (py_strip (rc_exchange_order_id e)),
                ag_active_stop_price := Some (rc_stop_price e),
                ag_pending_replaced_stop_exchange_order_id := Some (rc_replaces_exchange_order_id e),
                ag_pending_stop_price := None, ag_pending_stop_watermark_ms := None,
                ag_runner_stop_watermark_ms := Some (rc_source_watermark_ms e)\<rparr>)
        (resolve_if (ag_status current = RUNNER_REPLACEMENT_OUTCOME_UNKNOWN) current
           ''protection_replacement_outcome_unknown''
         @ [CancelProtectionOrders (agg_ticket_id current) (rc_replaces_exchange_order_id e)
              Conditional runner_old_stop]))))))"

definition on_protection_replacement_rejected ::
  "trade_aggregate \<Rightarrow> event_header \<Rightarrow> string \<Rightarrow> reduction result" where
  "on_protection_replacement_rejected current h reason =
     after (require_status current RUNNER_REPLACEMENT_PENDING)
     (after (require (non_blank reason) ''protection replacement rejection requires reason'')
     (transition current h RUNNER_REPLACEMENT_REJECTED id
        [OpenIncident (agg_ticket_id current) ''protection_replacement_rejected'']))"

definition on_protection_replacement_outcome_unknown ::
  "trade_aggregate \<Rightarrow> event_header \<Rightarrow> string \<Rightarrow> reduction result" where
  "on_protection_replacement_outcome_unknown current h reason =
     after (require_status current RUNNER_REPLACEMENT_PENDING)
     (after (require (non_blank reason) ''protection replacement unknown outcome requires reason'')
     (transition current h RUNNER_REPLACEMENT_OUTCOME_UNKNOWN id
        [OpenIncident (agg_ticket_id current) ''protection_replacement_outcome_unknown'']))"

definition on_protection_replacement_absence_confirmed ::
  "trade_aggregate \<Rightarrow> event_header \<Rightarrow> string \<Rightarrow> reduction result" where
  "on_protection_replacement_absence_confirmed current h command_id =
     after (require_status current RUNNER_REPLACEMENT_OUTCOME_UNKNOWN)
     (after (require (non_blank command_id) ''reconciled replacement absence requires command identity'')
     (case (ag_active_stop_exchange_order_id current, ag_pending_stop_price current,
            ag_pending_stop_watermark_ms current) of
        (Some active_stop, Some stop_price, Some watermark) \<Rightarrow>
          transition current h RUNNER_REPLACEMENT_PENDING id
            [ResolveIncident (agg_ticket_id current) ''protection_replacement_outcome_unknown'',
             PrepareProtectionReplacementCommand (agg_ticket_id current) (ag_position_qty current)
               stop_price active_stop watermark]
      | _ \<Rightarrow> Inl (InvalidLifecycleTransition ''replacement retry requires exact pending terms'')))"

section \<open>Exit and controlled flatten\<close>

definition on_exit_requested :: "trade_aggregate \<Rightarrow> event_header \<Rightarrow> string \<Rightarrow> reduction result" where
  "on_exit_requested current h reason =
     after (require_status_in current [POSITION_PROTECTED, RUNNER_PROTECTED, EXIT_REJECTED])
     (after (require (non_blank reason) ''exit reason is required'')
     (transition current h EXIT_PENDING id
        [PrepareExitCommand (agg_ticket_id current) (ag_position_qty current) (py_strip reason)]))"

definition on_exit_accepted :: "trade_aggregate \<Rightarrow> event_header \<Rightarrow> string \<Rightarrow> reduction result" where
  "on_exit_accepted current h order_id =
     after (require_status_in current [EXIT_PENDING, EXIT_OUTCOME_UNKNOWN])
     (after (require (non_blank order_id) ''EXIT acceptance requires order identity'')
     (transition current h EXIT_ACCEPTED
        (\<lambda>a. a\<lparr>ag_exit_exchange_order_id := Some (py_strip order_id)\<rparr>)
        (resolve_if (ag_status current = EXIT_OUTCOME_UNKNOWN) current ''exit_outcome_unknown'')))"

definition on_exit_rejected :: "trade_aggregate \<Rightarrow> event_header \<Rightarrow> string \<Rightarrow> reduction result" where
  "on_exit_rejected current h reason =
     after (require_status current EXIT_PENDING)
     (after (require (non_blank reason) ''EXIT rejection requires reason'')
     (transition current h EXIT_REJECTED id
        [OpenIncident (agg_ticket_id current) ''exit_rejected'']))"

definition on_exit_outcome_unknown ::
  "trade_aggregate \<Rightarrow> event_header \<Rightarrow> string \<Rightarrow> reduction result" where
  "on_exit_outcome_unknown current h reason =
     after (require_status current EXIT_PENDING)
     (after (require (non_blank reason) ''EXIT unknown outcome requires reason'')
     (transition current h EXIT_OUTCOME_UNKNOWN id
        [OpenIncident (agg_ticket_id current) ''exit_outcome_unknown'']))"

definition on_exit_absence_confirmed ::
  "trade_aggregate \<Rightarrow> event_header \<Rightarrow> string \<Rightarrow> reduction result" where
  "on_exit_absence_confirmed current h command_id =
     after (require_status current EXIT_OUTCOME_UNKNOWN)
     (after (require (non_blank command_id) ''reconciled EXIT absence requires command identity'')
     (transition current h EXIT_REJECTED id
        [ResolveIncident (agg_ticket_id current) ''exit_outcome_unknown'']))"

definition on_controlled_flatten_accepted ::
  "trade_aggregate \<Rightarrow> event_header \<Rightarrow> string \<Rightarrow> reduction result" where
  "on_controlled_flatten_accepted current h order_id =
     after (require_status_in current [CONTROLLED_FLATTEN_PENDING, CONTROLLED_FLATTEN_OUTCOME_UNKNOWN])
     (after (require (non_blank order_id) ''controlled flatten requires order identity'')
     (transition current h CONTROLLED_FLATTEN_ACCEPTED
        (\<lambda>a. a\<lparr>ag_exit_exchange_order_id := Some (py_strip order_id)\<rparr>)
        (resolve_if (ag_status current = CONTROLLED_FLATTEN_OUTCOME_UNKNOWN) current
           ''controlled_flatten_outcome_unknown'')))"

definition on_controlled_flatten_rejected ::
  "trade_aggregate \<Rightarrow> event_header \<Rightarrow> string \<Rightarrow> reduction result" where
  "on_controlled_flatten_rejected current h reason =
     after (require_status current CONTROLLED_FLATTEN_PENDING)
     (after (require (non_blank reason) ''controlled flatten rejection requires reason'')
     (transition current h CONTROLLED_FLATTEN_REJECTED id
        [OpenIncident (agg_ticket_id current) ''controlled_flatten_rejected'']))"

definition on_controlled_flatten_outcome_unknown ::
  "trade_aggregate \<Rightarrow> event_header \<Rightarrow> string \<Rightarrow> reduction result" where
  "on_controlled_flatten_outcome_unknown current h reason =
     after (require_status current CONTROLLED_FLATTEN_PENDING)
     (after (require (non_blank reason) ''unknown controlled flatten requires reason'')
     (transition current h CONTROLLED_FLATTEN_OUTCOME_UNKNOWN id
        [OpenIncident (agg_ticket_id current) ''controlled_flatten_outcome_unknown'']))"

definition on_controlled_flatten_absence_confirmed ::
  "trade_aggregate \<Rightarrow> event_header \<Rightarrow> string \<Rightarrow> reduction result" where
  "on_controlled_flatten_absence_confirmed current h command_id =
     after (require_status current CONTROLLED_FLATTEN_OUTCOME_UNKNOWN)
     (after (require (non_blank command_id)
               ''reconciled controlled flatten absence requires command identity'')
     (transition current h CONTROLLED_FLATTEN_REJECTED id
        [ResolveIncident (agg_ticket_id current) ''controlled_flatten_outcome_unknown'',
         OpenIncident (agg_ticket_id current) ''controlled_flatten_absent'']))"

section \<open>Flat position and reconciliation\<close>

definition flat_exit_statuses :: "aggregate_status list" where
  "flat_exit_statuses =
     [EXIT_PENDING, EXIT_ACCEPTED, EXIT_REJECTED, EXIT_OUTCOME_UNKNOWN,
      CONTROLLED_FLATTEN_PENDING, CONTROLLED_FLATTEN_ACCEPTED, CONTROLLED_FLATTEN_REJECTED,
      CONTROLLED_FLATTEN_OUTCOME_UNKNOWN]"

definition on_position_flat_confirmed :: "trade_aggregate \<Rightarrow> event_header \<Rightarrow> reduction result" where
  "on_position_flat_confirmed current h =
     after (require_status_in current flat_exit_statuses)
     (let cleanup = next_cleanup_order_id current in
      transition current h RECONCILIATION_PENDING
        (\<lambda>a. a\<lparr>ag_position_qty := 0,
                ag_pending_cancel_exchange_order_id :=
                  (if cleanup = None then ag_pending_cancel_exchange_order_id a else cleanup),
                ag_entry_lane_held := (if ag_entry_lane_held current then False else ag_entry_lane_held a)\<rparr>)
        ((case cleanup of None \<Rightarrow> []
          | Some i \<Rightarrow> [CancelProtectionOrders (agg_ticket_id current) i Conditional reconciliation_cleanup])
         @ (if ag_entry_lane_held current then [ReleaseEntryLane (agg_ticket_id current)] else [])))"

definition external_flat_statuses :: "aggregate_status list" where
  "external_flat_statuses =
     [TP1_PENDING, TP1_REJECTED, TP1_OUTCOME_UNKNOWN, POSITION_PROTECTED,
      RUNNER_REPLACEMENT_PENDING, RUNNER_REPLACEMENT_REJECTED, RUNNER_REPLACEMENT_OUTCOME_UNKNOWN,
      RUNNER_OLD_STOP_CANCEL_PENDING, RUNNER_OLD_STOP_CANCEL_REJECTED,
      RUNNER_OLD_STOP_CANCEL_OUTCOME_UNKNOWN, RUNNER_PROTECTED]"

definition on_external_flat_detected :: "trade_aggregate \<Rightarrow> event_header \<Rightarrow> reduction result" where
  "on_external_flat_detected current h =
     after (require_status_in current external_flat_statuses)
     (case next_cleanup_order_id current of
        None \<Rightarrow> Inl (InvalidLifecycleTransition ''external flat has no owned order identity'')
      | Some cleanup \<Rightarrow>
          transition current h RECONCILIATION_PENDING
            (\<lambda>a. a\<lparr>ag_position_qty := 0, ag_pending_cancel_exchange_order_id := Some cleanup\<rparr>)
            [OpenIncident (agg_ticket_id current) ''external_flat'',
             CancelProtectionOrders (agg_ticket_id current) cleanup Conditional reconciliation_cleanup])"

definition on_owned_orphan_order_detected ::
  "trade_aggregate \<Rightarrow> event_header \<Rightarrow> string \<Rightarrow> order_namespace \<Rightarrow> reduction result" where
  "on_owned_orphan_order_detected current h order_id ns =
     after (require_status_in current [RECONCILIATION_PENDING, CANCEL_REJECTED])
     (after (require (non_blank order_id) ''owned orphan order identity is required'')
     (transition current h RECONCILIATION_PENDING
        (\<lambda>a. a\<lparr>ag_pending_cancel_exchange_order_id := Some (py_strip order_id)\<rparr>)
        [CancelProtectionOrders (agg_ticket_id current) (py_strip order_id) ns reconciliation_cleanup]))"

definition on_owned_order_absence_confirmed ::
  "trade_aggregate \<Rightarrow> event_header \<Rightarrow> string \<Rightarrow> reduction result" where
  "on_owned_order_absence_confirmed current h order_id =
     after (require_status current RECONCILIATION_PENDING)
     (after (require (non_blank order_id) ''owned order absence requires identity'')
     (after (require (order_id \<in> set (known_cleanup_order_ids current))
               ''absent order is not owned by Ticket'')
     (transition current h RECONCILIATION_PENDING (clear_cleanup_order current order_id) [])))"

definition on_unowned_order_detected ::
  "trade_aggregate \<Rightarrow> event_header \<Rightarrow> string \<Rightarrow> reduction result" where
  "on_unowned_order_detected current h order_id =
     after (require_status current RECONCILIATION_PENDING)
     (after (require (non_blank order_id) ''unowned order identity is required'')
     (transition current h RECONCILIATION_PENDING id
        [OpenIncident (agg_ticket_id current) ''unowned_open_order'']))"

text \<open>The replaced stop is gone; it may also have been the initial stop.\<close>

definition drop_replaced_stop :: "trade_aggregate \<Rightarrow> string \<Rightarrow> trade_aggregate \<Rightarrow> trade_aggregate" where
  "drop_replaced_stop current order_id a =
     (let a1 = a\<lparr>ag_pending_replaced_stop_exchange_order_id := None\<rparr>
      in if ag_initial_stop_exchange_order_id current = Some order_id
         then a1\<lparr>ag_initial_stop_exchange_order_id := None\<rparr> else a1)"

definition on_protection_cancel_confirmed ::
  "trade_aggregate \<Rightarrow> event_header \<Rightarrow> string \<Rightarrow> reduction result" where
  "on_protection_cancel_confirmed current h order_id =
     (if ag_status current = RUNNER_OLD_STOP_CANCEL_PENDING
      then after (require (ag_pending_replaced_stop_exchange_order_id current = Some order_id)
                    ''runner replaced-stop cancel identity mismatch'')
             (transition current h RUNNER_PROTECTED (drop_replaced_stop current order_id) [])
      else after (require_status current RECONCILIATION_PENDING)
             (after (require (ag_pending_cancel_exchange_order_id current = Some order_id)
                       ''pending cancel identity mismatch'')
             (after (require (order_id \<in> set (known_cleanup_order_ids current))
                       ''cancelled order is not owned by Ticket'')
             (transition current h RECONCILIATION_PENDING (clear_cleanup_order current order_id) []))))"

definition on_protection_cancel_rejected ::
  "trade_aggregate \<Rightarrow> event_header \<Rightarrow> string \<Rightarrow> string \<Rightarrow> reduction result" where
  "on_protection_cancel_rejected current h order_id reason =
     after (require_status current RUNNER_OLD_STOP_CANCEL_PENDING)
     (after (require (ag_pending_replaced_stop_exchange_order_id current = Some order_id)
               ''rejected replaced-stop identity mismatch'')
     (after (require (non_blank reason) ''replaced-stop rejection requires reason'')
     (transition current h RUNNER_OLD_STOP_CANCEL_REJECTED id
        [OpenIncident (agg_ticket_id current) ''runner_old_stop_cancel_rejected''])))"

definition on_protection_cancel_outcome_unknown ::
  "trade_aggregate \<Rightarrow> event_header \<Rightarrow> string \<Rightarrow> string \<Rightarrow> reduction result" where
  "on_protection_cancel_outcome_unknown current h order_id reason =
     after (require_status current RUNNER_OLD_STOP_CANCEL_PENDING)
     (after (require (ag_pending_replaced_stop_exchange_order_id current = Some order_id)
               ''unknown replaced-stop identity mismatch'')
     (after (require (non_blank reason) ''unknown replaced-stop cancel requires reason'')
     (transition current h RUNNER_OLD_STOP_CANCEL_OUTCOME_UNKNOWN id
        [OpenIncident (agg_ticket_id current) ''runner_old_stop_cancel_outcome_unknown''])))"

definition on_protection_cancel_absence_confirmed ::
  "trade_aggregate \<Rightarrow> event_header \<Rightarrow> string \<Rightarrow> reduction result" where
  "on_protection_cancel_absence_confirmed current h order_id =
     after (require_status current RUNNER_OLD_STOP_CANCEL_OUTCOME_UNKNOWN)
     (after (require (ag_pending_replaced_stop_exchange_order_id current = Some order_id)
               ''absent replaced-stop identity mismatch'')
     (transition current h RUNNER_PROTECTED (drop_replaced_stop current order_id)
        [MarkCancelCommandReconciledAbsent (agg_ticket_id current) order_id,
         ResolveIncident (agg_ticket_id current) ''runner_old_stop_cancel_outcome_unknown'']))"

definition on_owned_orphan_cancel_confirmed ::
  "trade_aggregate \<Rightarrow> event_header \<Rightarrow> string \<Rightarrow> reduction result" where
  "on_owned_orphan_cancel_confirmed current h order_id =
     after (require_status current RECONCILIATION_PENDING)
     (after (require (non_blank order_id) ''owned orphan cancel identity is required'')
     (after (require (ag_pending_cancel_exchange_order_id current = Some order_id)
               ''pending orphan cancel identity mismatch'')
     (transition current h RECONCILIATION_PENDING (clear_cleanup_order current order_id) [])))"

definition on_cancel_order_rejected ::
  "trade_aggregate \<Rightarrow> event_header \<Rightarrow> string \<Rightarrow> string \<Rightarrow> reduction result" where
  "on_cancel_order_rejected current h order_id reason =
     after (require_status current RECONCILIATION_PENDING)
     (after (require (ag_pending_cancel_exchange_order_id current = Some order_id)
               ''rejected cancel identity mismatch'')
     (after (require (non_blank reason) ''cancel rejection requires reason'')
     (transition current h CANCEL_REJECTED id
        [OpenIncident (agg_ticket_id current) ''cancel_order_rejected''])))"

definition on_cancel_order_outcome_unknown ::
  "trade_aggregate \<Rightarrow> event_header \<Rightarrow> string \<Rightarrow> string \<Rightarrow> reduction result" where
  "on_cancel_order_outcome_unknown current h order_id reason =
     after (require_status current RECONCILIATION_PENDING)
     (after (require (ag_pending_cancel_exchange_order_id current = Some order_id)
               ''unknown cancel identity mismatch'')
     (after (require (non_blank reason) ''unknown cancel outcome requires reason'')
     (transition current h CANCEL_OUTCOME_UNKNOWN id
        [OpenIncident (agg_ticket_id current) ''cancel_order_outcome_unknown''])))"

definition on_cancel_order_still_open_confirmed ::
  "trade_aggregate \<Rightarrow> event_header \<Rightarrow> string \<Rightarrow> reduction result" where
  "on_cancel_order_still_open_confirmed current h order_id =
     after (require_status current CANCEL_OUTCOME_UNKNOWN)
     (after (require (ag_pending_cancel_exchange_order_id current = Some order_id)
               ''still-open cancel identity mismatch'')
     (transition current h CANCEL_REJECTED id
        [ResolveIncident (agg_ticket_id current) ''cancel_order_outcome_unknown'']))"

definition on_cancel_order_absence_confirmed ::
  "trade_aggregate \<Rightarrow> event_header \<Rightarrow> string \<Rightarrow> reduction result" where
  "on_cancel_order_absence_confirmed current h order_id =
     after (require_status_in current [CANCEL_REJECTED, CANCEL_OUTCOME_UNKNOWN])
     (after (require (ag_pending_cancel_exchange_order_id current = Some order_id)
               ''absent cancel identity mismatch'')
     (transition current h RECONCILIATION_PENDING (clear_cleanup_order current order_id)
        (if ag_status current = CANCEL_OUTCOME_UNKNOWN
         then [MarkCancelCommandReconciledAbsent (agg_ticket_id current) order_id,
               ResolveIncident (agg_ticket_id current) ''cancel_order_outcome_unknown'']
         else [])))"

section \<open>Settlement and review\<close>

definition on_reconciliation_matched ::
  "trade_aggregate \<Rightarrow> event_header \<Rightarrow> string option \<Rightarrow> reduction result" where
  "on_reconciliation_matched current h resolved_incident_kind =
     after (require_status current RECONCILIATION_PENDING)
     (after (require (known_cleanup_order_ids current = []) ''owned order identity residue remains'')
     (after (require (ag_protected_qty current = 0) ''protected quantity remains'')
     (after (require (ag_pending_cancel_exchange_order_id current = None)
               ''cancel outcome remains unresolved'')
     (let ticket = ag_ticket current; domain = ti_netting_domain (tk_identity ticket)
      in transition current h SETTLEMENT_PENDING id
        [ResolveTicketIncidentsAtClosure (agg_ticket_id current),
         ReleaseCapitalAuthorities
           \<lparr>cr_ticket_id = agg_ticket_id current,
            cr_account_capacity_domain_key = nd_venue_id domain @ '':'' @ nd_account_id domain,
            cr_netting_domain_key = netting_domain_key domain,
            cr_notional = tk_notional ticket,
            cr_risk_at_stop = tk_risk_at_stop ticket,
            cr_reserved_margin = tk_reserved_margin ticket,
            cr_released_at_ms = eh_occurred_at_ms h\<rparr>]))))"

definition on_budget_settled :: "trade_aggregate \<Rightarrow> event_header \<Rightarrow> reduction result" where
  "on_budget_settled current h =
     after (require_status current SETTLEMENT_PENDING) (transition current h REVIEW_PENDING id [])"

definition on_review_recorded :: "trade_aggregate \<Rightarrow> event_header \<Rightarrow> string \<Rightarrow> reduction result" where
  "on_review_recorded current h review_id =
     after (require_status current REVIEW_PENDING)
     (after (require (non_blank review_id) ''review identity is required'')
     (transition current h TERMINAL (\<lambda>a. a\<lparr>ag_review_id := Some (py_strip review_id)\<rparr>)
        [ProjectTerminalOwnerState (agg_ticket_id current)]))"

definition on_review_revised ::
  "trade_aggregate \<Rightarrow> event_header \<Rightarrow> string \<Rightarrow> string \<Rightarrow> reduction result" where
  "on_review_revised current h review_id supersedes_review_id =
     after (require_status current TERMINAL)
     (after (require (non_blank review_id \<and> non_blank supersedes_review_id)
               ''review revision identities are required'')
     (after (require (ag_review_id current = Some (py_strip supersedes_review_id))
               ''review revision supersedes identity differs from current pointer'')
     (after (require (py_strip review_id \<noteq> py_strip supersedes_review_id)
               ''review revision must use a new review identity'')
     (transition current h TERMINAL (\<lambda>a. a\<lparr>ag_review_id := Some (py_strip review_id)\<rparr>)
        [ProjectTerminalOwnerState (agg_ticket_id current)]))))"

section \<open>The reducer\<close>

primrec reduce_fact :: "trade_aggregate \<Rightarrow> event_header \<Rightarrow> lifecycle_fact \<Rightarrow> reduction result" where
  "reduce_fact a h (LeverageConfirmed l t d) = on_leverage_confirmed a h l t d"
| "reduce_fact a h (LeverageRejected r) = on_leverage_rejected a h r"
| "reduce_fact a h (LeverageOutcomeUnknown r) = on_leverage_outcome_unknown a h r"
| "reduce_fact a h (EntryAccepted i) = on_entry_accepted a h i"
| "reduce_fact a h (EntryRejected r) = on_entry_rejected a h r"
| "reduce_fact a h (EntryOutcomeUnknown r) = on_entry_outcome_unknown a h r"
| "reduce_fact a h (EntryAbsenceConfirmed c) = on_entry_absence_confirmed a h c"
| "reduce_fact a h (EntryFilled e) = on_entry_filled a h e"
| "reduce_fact a h (EntryPartiallyFilled q rq p) = on_entry_partially_filled a h q rq p"
| "reduce_fact a h (EntryRemainderCancelConfirmed i) = on_entry_remainder_cancel_confirmed a h i"
| "reduce_fact a h (EntryRemainderCancelRejected i r) = on_entry_remainder_cancel_rejected a h i r"
| "reduce_fact a h (EntryRemainderCancelOutcomeUnknown i r) =
     on_entry_remainder_cancel_outcome_unknown a h i r"
| "reduce_fact a h (EntryVacuumSuperseded v c) = on_entry_vacuum_superseded a h v c"
| "reduce_fact a h (EntryVacuumCancelRequested v i q p) = on_entry_vacuum_cancel_requested a h v i q p"
| "reduce_fact a h (EntryVacuumCancelConfirmed i) = on_entry_vacuum_cancel_confirmed a h i"
| "reduce_fact a h (EntryVacuumCancelRejected i r) = on_entry_vacuum_cancel_rejected a h i r"
| "reduce_fact a h (EntryVacuumCancelOutcomeUnknown i r) =
     on_entry_vacuum_cancel_outcome_unknown a h i r"
| "reduce_fact a h (EntryVacuumOrderAbsenceConfirmed v i q p) =
     on_entry_vacuum_order_absence_confirmed a h v i q p"
| "reduce_fact a h (VacuumLateFillAttributed v) = on_vacuum_late_fill_attributed a h v"
| "reduce_fact a h (VacuumPostAbsenceNoFillVerified v) = on_vacuum_post_absence_no_fill_verified a h v"
| "reduce_fact a h (EntryVacuumAbsenceConfirmed v) = on_entry_vacuum_absence_confirmed a h v"
| "reduce_fact a h (VacuumPartialRetained v) = on_vacuum_partial_retained a h v"
| "reduce_fact a h (VacuumPartialFlattenRequired v q p r) =
     on_vacuum_partial_flatten_required a h v q p r"
| "reduce_fact a h (InitialStopConfirmed i q) = on_initial_stop_confirmed a h i q"
| "reduce_fact a h (PostFillStressAssessed e) = on_post_fill_stress_assessed a h e"
| "reduce_fact a h (InitialStopRejected r) = on_initial_stop_rejected a h r"
| "reduce_fact a h (InitialStopOutcomeUnknown r) = on_initial_stop_outcome_unknown a h r"
| "reduce_fact a h (InitialStopAbsenceConfirmed c) = on_initial_stop_absence_confirmed a h c"
| "reduce_fact a h (TakeProfitConfirmed i q) = on_take_profit_confirmed a h i q"
| "reduce_fact a h (TakeProfitRejected r) = on_take_profit_rejected a h r"
| "reduce_fact a h (TakeProfitOutcomeUnknown r) = on_take_profit_outcome_unknown a h r"
| "reduce_fact a h (TakeProfitAbsenceConfirmed c) = on_take_profit_absence_confirmed a h c"
| "reduce_fact a h (TakeProfitFilled q p f) = on_take_profit_filled a h q p f"
| "reduce_fact a h (RunnerStopRequested p w) = on_runner_stop_requested a h p w"
| "reduce_fact a h (ProtectionReplacementConfirmed e) = on_protection_replacement_confirmed a h e"
| "reduce_fact a h (ProtectionReplacementRejected r) = on_protection_replacement_rejected a h r"
| "reduce_fact a h (ProtectionReplacementOutcomeUnknown r) =
     on_protection_replacement_outcome_unknown a h r"
| "reduce_fact a h (ProtectionReplacementAbsenceConfirmed c) =
     on_protection_replacement_absence_confirmed a h c"
| "reduce_fact a h (ExitRequested r) = on_exit_requested a h r"
| "reduce_fact a h (ExitAccepted i) = on_exit_accepted a h i"
| "reduce_fact a h (ExitRejected r) = on_exit_rejected a h r"
| "reduce_fact a h (ExitOutcomeUnknown r) = on_exit_outcome_unknown a h r"
| "reduce_fact a h (ExitAbsenceConfirmed c) = on_exit_absence_confirmed a h c"
| "reduce_fact a h (ControlledFlattenAccepted i) = on_controlled_flatten_accepted a h i"
| "reduce_fact a h (ControlledFlattenRejected r) = on_controlled_flatten_rejected a h r"
| "reduce_fact a h (ControlledFlattenOutcomeUnknown r) = on_controlled_flatten_outcome_unknown a h r"
| "reduce_fact a h (ControlledFlattenAbsenceConfirmed c) =
     on_controlled_flatten_absence_confirmed a h c"
| "reduce_fact a h PositionFlatConfirmed = on_position_flat_confirmed a h"
| "reduce_fact a h ExternalFlatDetected = on_external_flat_detected a h"
| "reduce_fact a h (OwnedOrphanOrderDetected i n) = on_owned_orphan_order_detected a h i n"
| "reduce_fact a h (OwnedOrderAbsenceConfirmed i) = on_owned_order_absence_confirmed a h i"
| "reduce_fact a h (UnownedOrderDetected i) = on_unowned_order_detected a h i"
| "reduce_fact a h (ProtectionCancelConfirmed i) = on_protection_cancel_confirmed a h i"
| "reduce_fact a h (ProtectionCancelRejected i r) = on_protection_cancel_rejected a h i r"
| "reduce_fact a h (ProtectionCancelOutcomeUnknown i r) = on_protection_cancel_outcome_unknown a h i r"
| "reduce_fact a h (ProtectionCancelAbsenceConfirmed i) = on_protection_cancel_absence_confirmed a h i"
| "reduce_fact a h (OwnedOrphanCancelConfirmed i) = on_owned_orphan_cancel_confirmed a h i"
| "reduce_fact a h (CancelOrderRejected i r) = on_cancel_order_rejected a h i r"
| "reduce_fact a h (CancelOrderOutcomeUnknown i r) = on_cancel_order_outcome_unknown a h i r"
| "reduce_fact a h (CancelOrderAbsenceConfirmed i) = on_cancel_order_absence_confirmed a h i"
| "reduce_fact a h (CancelOrderStillOpenConfirmed i) = on_cancel_order_still_open_confirmed a h i"
| "reduce_fact a h (ReconciliationMatched k) = on_reconciliation_matched a h k"
| "reduce_fact a h BudgetSettled = on_budget_settled a h"
| "reduce_fact a h (ReviewRecorded i) = on_review_recorded a h i"
| "reduce_fact a h (ReviewRevised i s) = on_review_revised a h i s"

definition reduce_event :: "trade_aggregate option \<Rightarrow> trade_event \<Rightarrow> reduction result" where
  "reduce_event current event =
     (case current of
        None \<Rightarrow> issue_ticket event
      | Some a \<Rightarrow>
          after (require_event_identity_and_sequence a event)
            (case event of
               TicketIssued h t \<Rightarrow> Inl (InvalidLifecycleTransition ''unsupported event: TicketIssued'')
             | TicketEvent h ticket_id f \<Rightarrow> reduce_fact a h f))"

section \<open>When a handler accepts\<close>

text \<open>
  A handler accepts exactly when all its guards hold; these rules turn the equation
  \<open>handler \<dots> = Inr (a', es)\<close> into the conjunction of its guards and the definition of the new state.
\<close>

lemma require_Inr [simp]: "require b m = Inr u \<longleftrightarrow> b"
  by (simp add: require_def)

lemma after_Inr [simp]: "after r k = Inr x \<longleftrightarrow> (\<exists>u. r = Inr u) \<and> k = Inr x"
  by (simp add: after_def)

lemma require_status_Inr [simp]: "require_status a s = Inr u \<longleftrightarrow> ag_status a = s"
  by (simp add: require_status_def)

lemma require_status_in_Inr [simp]: "require_status_in a ss = Inr u \<longleftrightarrow> ag_status a \<in> set ss"
  by (simp add: require_status_in_def)

lemma transition_Inr [simp]:
  "transition a h s upd eff = Inr (a', es) \<longleftrightarrow>
     a' = upd (a\<lparr>ag_status := s, ag_version := ag_version a + 1, ag_last_event_sequence := eh_sequence h\<rparr>)
     \<and> es = eff"
  by (auto simp: transition_def)

text \<open>What the two composite updates leave in each field.\<close>

lemma clear_cleanup_order_sel [simp]:
  "ag_identity (clear_cleanup_order c i a) = ag_identity a"
  "ag_ticket (clear_cleanup_order c i a) = ag_ticket a"
  "ag_status (clear_cleanup_order c i a) = ag_status a"
  "ag_version (clear_cleanup_order c i a) = ag_version a"
  "ag_last_event_sequence (clear_cleanup_order c i a) = ag_last_event_sequence a"
  "ag_entry_lane_held (clear_cleanup_order c i a) = ag_entry_lane_held a"
  "ag_position_qty (clear_cleanup_order c i a) = ag_position_qty a"
  "ag_average_fill_price (clear_cleanup_order c i a) = ag_average_fill_price a"
  "ag_actual_stop_risk (clear_cleanup_order c i a) = ag_actual_stop_risk a"
  "ag_venue_reported_liquidation_price (clear_cleanup_order c i a) = ag_venue_reported_liquidation_price a"
  "ag_post_fill_risk_status (clear_cleanup_order c i a) = ag_post_fill_risk_status a"
  "ag_post_fill_disposition (clear_cleanup_order c i a) = ag_post_fill_disposition a"
  "ag_post_fill_stress_status (clear_cleanup_order c i a) = ag_post_fill_stress_status a"
  "ag_post_fill_stress_proof_digest (clear_cleanup_order c i a) = ag_post_fill_stress_proof_digest a"
  "ag_protected_qty (clear_cleanup_order c i a) = (if ag_active_stop_exchange_order_id c = Some i then 0 else ag_protected_qty a)"
  "ag_entry_exchange_order_id (clear_cleanup_order c i a) = ag_entry_exchange_order_id a"
  "ag_initial_stop_exchange_order_id (clear_cleanup_order c i a) = (if ag_initial_stop_exchange_order_id c = Some i then None else ag_initial_stop_exchange_order_id a)"
  "ag_active_stop_exchange_order_id (clear_cleanup_order c i a) = (if ag_active_stop_exchange_order_id c = Some i then None else ag_active_stop_exchange_order_id a)"
  "ag_active_stop_price (clear_cleanup_order c i a) = (if ag_active_stop_exchange_order_id c = Some i then None else ag_active_stop_price a)"
  "ag_tp1_exchange_order_id (clear_cleanup_order c i a) = (if ag_tp1_exchange_order_id c = Some i then None else ag_tp1_exchange_order_id a)"
  "ag_tp1_target_qty (clear_cleanup_order c i a) = ag_tp1_target_qty a"
  "ag_tp1_filled_qty (clear_cleanup_order c i a) = ag_tp1_filled_qty a"
  "ag_break_even_floor_price (clear_cleanup_order c i a) = ag_break_even_floor_price a"
  "ag_pending_replaced_stop_exchange_order_id (clear_cleanup_order c i a) = ag_pending_replaced_stop_exchange_order_id a"
  "ag_pending_stop_price (clear_cleanup_order c i a) = ag_pending_stop_price a"
  "ag_pending_stop_watermark_ms (clear_cleanup_order c i a) = ag_pending_stop_watermark_ms a"
  "ag_runner_stop_watermark_ms (clear_cleanup_order c i a) = ag_runner_stop_watermark_ms a"
  "ag_pending_cancel_exchange_order_id (clear_cleanup_order c i a) = None"
  "ag_entry_vacuum_id (clear_cleanup_order c i a) = ag_entry_vacuum_id a"
  "ag_vacuum_partial_retained (clear_cleanup_order c i a) = ag_vacuum_partial_retained a"
  "ag_exit_exchange_order_id (clear_cleanup_order c i a) = ag_exit_exchange_order_id a"
  "ag_review_id (clear_cleanup_order c i a) = ag_review_id a"
  by (simp_all add: clear_cleanup_order_def Let_def)

lemma drop_replaced_stop_sel [simp]:
  "ag_identity (drop_replaced_stop c i a) = ag_identity a"
  "ag_ticket (drop_replaced_stop c i a) = ag_ticket a"
  "ag_status (drop_replaced_stop c i a) = ag_status a"
  "ag_version (drop_replaced_stop c i a) = ag_version a"
  "ag_last_event_sequence (drop_replaced_stop c i a) = ag_last_event_sequence a"
  "ag_entry_lane_held (drop_replaced_stop c i a) = ag_entry_lane_held a"
  "ag_position_qty (drop_replaced_stop c i a) = ag_position_qty a"
  "ag_average_fill_price (drop_replaced_stop c i a) = ag_average_fill_price a"
  "ag_actual_stop_risk (drop_replaced_stop c i a) = ag_actual_stop_risk a"
  "ag_venue_reported_liquidation_price (drop_replaced_stop c i a) = ag_venue_reported_liquidation_price a"
  "ag_post_fill_risk_status (drop_replaced_stop c i a) = ag_post_fill_risk_status a"
  "ag_post_fill_disposition (drop_replaced_stop c i a) = ag_post_fill_disposition a"
  "ag_post_fill_stress_status (drop_replaced_stop c i a) = ag_post_fill_stress_status a"
  "ag_post_fill_stress_proof_digest (drop_replaced_stop c i a) = ag_post_fill_stress_proof_digest a"
  "ag_protected_qty (drop_replaced_stop c i a) = ag_protected_qty a"
  "ag_entry_exchange_order_id (drop_replaced_stop c i a) = ag_entry_exchange_order_id a"
  "ag_initial_stop_exchange_order_id (drop_replaced_stop c i a) = (if ag_initial_stop_exchange_order_id c = Some i then None else ag_initial_stop_exchange_order_id a)"
  "ag_active_stop_exchange_order_id (drop_replaced_stop c i a) = ag_active_stop_exchange_order_id a"
  "ag_active_stop_price (drop_replaced_stop c i a) = ag_active_stop_price a"
  "ag_tp1_exchange_order_id (drop_replaced_stop c i a) = ag_tp1_exchange_order_id a"
  "ag_tp1_target_qty (drop_replaced_stop c i a) = ag_tp1_target_qty a"
  "ag_tp1_filled_qty (drop_replaced_stop c i a) = ag_tp1_filled_qty a"
  "ag_break_even_floor_price (drop_replaced_stop c i a) = ag_break_even_floor_price a"
  "ag_pending_replaced_stop_exchange_order_id (drop_replaced_stop c i a) = None"
  "ag_pending_stop_price (drop_replaced_stop c i a) = ag_pending_stop_price a"
  "ag_pending_stop_watermark_ms (drop_replaced_stop c i a) = ag_pending_stop_watermark_ms a"
  "ag_runner_stop_watermark_ms (drop_replaced_stop c i a) = ag_runner_stop_watermark_ms a"
  "ag_pending_cancel_exchange_order_id (drop_replaced_stop c i a) = ag_pending_cancel_exchange_order_id a"
  "ag_entry_vacuum_id (drop_replaced_stop c i a) = ag_entry_vacuum_id a"
  "ag_vacuum_partial_retained (drop_replaced_stop c i a) = ag_vacuum_partial_retained a"
  "ag_exit_exchange_order_id (drop_replaced_stop c i a) = ag_exit_exchange_order_id a"
  "ag_review_id (drop_replaced_stop c i a) = ag_review_id a"
  by (simp_all add: drop_replaced_stop_def Let_def)

lemmas handler_defs =
  on_leverage_confirmed_def on_leverage_rejected_def on_leverage_outcome_unknown_def
  on_entry_accepted_def on_entry_outcome_unknown_def on_entry_rejected_def
  on_entry_absence_confirmed_def on_entry_filled_def on_entry_partially_filled_def
  on_entry_remainder_cancel_confirmed_def on_entry_remainder_cancel_rejected_def
  on_entry_remainder_cancel_outcome_unknown_def on_entry_vacuum_superseded_def
  on_entry_vacuum_cancel_requested_def on_entry_vacuum_cancel_confirmed_def
  on_entry_vacuum_cancel_rejected_def on_entry_vacuum_cancel_outcome_unknown_def
  on_entry_vacuum_order_absence_confirmed_def on_vacuum_late_fill_attributed_def
  on_vacuum_post_absence_no_fill_verified_def on_entry_vacuum_absence_confirmed_def
  on_vacuum_partial_retained_def on_vacuum_partial_flatten_required_def
  on_initial_stop_confirmed_def on_post_fill_stress_assessed_def on_initial_stop_rejected_def
  on_initial_stop_outcome_unknown_def on_initial_stop_absence_confirmed_def
  on_take_profit_confirmed_def on_take_profit_rejected_def on_take_profit_outcome_unknown_def
  on_take_profit_absence_confirmed_def on_take_profit_filled_def on_runner_stop_requested_def
  on_protection_replacement_confirmed_def on_protection_replacement_rejected_def
  on_protection_replacement_outcome_unknown_def on_protection_replacement_absence_confirmed_def
  on_exit_requested_def on_exit_accepted_def on_exit_rejected_def on_exit_outcome_unknown_def
  on_exit_absence_confirmed_def on_controlled_flatten_accepted_def
  on_controlled_flatten_rejected_def on_controlled_flatten_outcome_unknown_def
  on_controlled_flatten_absence_confirmed_def on_position_flat_confirmed_def
  on_external_flat_detected_def on_owned_orphan_order_detected_def
  on_owned_order_absence_confirmed_def on_unowned_order_detected_def
  on_protection_cancel_confirmed_def on_protection_cancel_rejected_def
  on_protection_cancel_outcome_unknown_def on_protection_cancel_absence_confirmed_def
  on_owned_orphan_cancel_confirmed_def on_cancel_order_rejected_def
  on_cancel_order_outcome_unknown_def on_cancel_order_still_open_confirmed_def
  on_cancel_order_absence_confirmed_def on_reconciliation_matched_def on_budget_settled_def
  on_review_recorded_def on_review_revised_def

end
