(* ===== verification/Lifecycle.thy ===== *)
theory Lifecycle
  imports Reducer
begin

text \<open>
  The reachable lifecycles of a Ticket and their invariants. A \<^emph>\<open>history\<close> is a sequence of validated
  events the reducer accepts, from \<open>TicketIssued\<close> on, with the effects it emitted. The locale
  \<open>lifecycle_invariant\<close> carries a predicate over every history once issue and step are shown to keep it;
  \<open>effect_bound\<close> and \<open>effect_ledger\<close> extend it to an account of how often a kind of effect has been emitted.
\<close>

section \<open>Histories\<close>

inductive history :: "trade_aggregate \<Rightarrow> trade_event list \<Rightarrow> kernel_effect list \<Rightarrow> bool" where
  issued: "valid_event e \<Longrightarrow> reduce_event None e = Inr (a, fx) \<Longrightarrow> history a [e] fx"
| step: "history a es fx \<Longrightarrow> valid_event e \<Longrightarrow> reduce_event (Some a) e = Inr (a', fx')
    \<Longrightarrow> history a' (es @ [e]) (fx @ fx')"

text \<open>The executable form: replay of a stream of events from an aggregate.\<close>

fun replay_from :: "trade_aggregate option \<Rightarrow> trade_event list \<Rightarrow> (trade_aggregate option \<times> kernel_effect list) result" where
  "replay_from current [] = Inr (current, [])"
| "replay_from current (e # es) =
     bind_result (reduce_event current e) (\<lambda>(a, fx).
     bind_result (replay_from (Some a) es) (\<lambda>(b, gx). Inr (b, fx @ gx)))"

inductive_cases history_Nil: "history a [] fx"

lemma reduce_event_None_iff:
  "reduce_event None e = Inr (a, fx) \<longleftrightarrow>
     (\<exists>h t. e = TicketIssued h t \<and> eh_sequence h = 1
        \<and> a = new_aggregate t (if tk_leverage_change_required t then LEVERAGE_PENDING else ENTRY_PENDING) 1 1
        \<and> fx = [if tk_leverage_change_required t then PrepareSetLeverageCommand t
                else PrepareEntryCommand t None])"
  by (cases e) (auto simp: reduce_event_def)

lemma reduce_event_Some_iff:
  "reduce_event (Some a) e = Inr r \<longleftrightarrow>
     (\<exists>h f. e = TicketEvent h (agg_ticket_id a) f \<and> eh_sequence h = ag_last_event_sequence a + 1
        \<and> reduce_fact a h f = Inr r)"
  by (cases e) (auto simp: reduce_event_def)

lemma replay_from_append:
  "replay_from c (xs @ ys) =
     bind_result (replay_from c xs) (\<lambda>(b, fx).
     bind_result (replay_from b ys) (\<lambda>(d, gx). Inr (d, fx @ gx)))"
proof (induction xs arbitrary: c)
  case Nil
  show ?case by (cases "replay_from c ys") auto
next
  case (Cons e es)
  show ?case
  proof (cases "reduce_event c e")
    case (Inr p)
    obtain a fx where p: "p = (a, fx)" by (cases p)
    show ?thesis
      using Inr p Cons.IH[of "Some a"]
      by (cases "replay_from (Some a) es"; simp)
        (auto simp: bind_result_def split: sum.split prod.split)
  qed simp
qed

text \<open>Histories are exactly the successful replays of validated events.\<close>

lemma replay_snoc:
  assumes "replay_from c es = Inr (Some a, fx)" "reduce_event (Some a) e = Inr (a', fx')"
  shows "replay_from c (es @ [e]) = Inr (Some a', fx @ fx')"
  using assms by (simp add: replay_from_append)

lemma history_replay: "history a es fx \<Longrightarrow> replay_from None es = Inr (Some a, fx) \<and> list_all valid_event es"
proof (induction rule: history.induct)
  case (step a es fx e a' fx')
  then show ?case using replay_snoc by auto
qed simp

lemma replay_history:
  assumes "replay_from None es = Inr (Some a, fx)" "list_all valid_event es"
  shows "history a es fx"
  using assms
proof (induction es arbitrary: a fx rule: rev_induct)
  case (snoc e es)
  obtain b fx1 where b: "replay_from None es = Inr (b, fx1)"
    and r: "bind_result (replay_from b [e]) (\<lambda>(d, gx). Inr (d, fx1 @ gx)) = Inr (Some a, fx)"
    using snoc.prems(1) by (auto simp: replay_from_append)
  obtain fx2 where e: "reduce_event b e = Inr (a, fx2)" "fx = fx1 @ fx2"
    using r by auto
  show ?case
  proof (cases b)
    case None
    then have "es = []"
    proof (cases es rule: rev_cases)
      case (snoc ys y)
      then show ?thesis using b None by (auto simp: replay_from_append)
    qed simp
    then show ?thesis using e b None snoc.prems by (auto intro: history.issued)
  next
    case (Some c)
    then show ?thesis using e b snoc by (auto intro: history.step)
  qed
qed simp

section \<open>Frame\<close>

lemmas step_simps = handler_defs Let_def post_fill_updates_def flat_exit_statuses_def
  external_flat_statuses_def

lemmas step_splits = if_split_asm option.split_asm list.split_asm prod.split_asm

text \<open>No event touches the identity, the Ticket or the version counters beyond one increment.\<close>

lemma reduce_fact_frame:
  assumes "reduce_fact a h f = Inr (a', fx)"
  shows "ag_ticket a' = ag_ticket a \<and> ag_identity a' = ag_identity a
    \<and> ag_version a' = ag_version a + 1 \<and> ag_last_event_sequence a' = eh_sequence h"
  using assms by (cases f) (auto simp: step_simps split: step_splits)

section \<open>The event log\<close>

text \<open>
  A history counts its events without gaps; the first event issues the Ticket of the aggregate and every
  later one names that Ticket.
\<close>

lemma history_log:
  assumes "history a es fx"
  shows "ag_version a = int (length es) \<and> ag_last_event_sequence a = int (length es)
    \<and> map event_sequence es = map int [1..<Suc (length es)]
    \<and> (\<exists>h rest. es = TicketIssued h (ag_ticket a) # rest
        \<and> list_all (\<lambda>e. \<exists>h f. e = TicketEvent h (ti_ticket_id (tk_identity (ag_ticket a))) f) rest)
    \<and> ag_identity a = tk_identity (ag_ticket a)"
  using assms
proof (induction rule: history.induct)
  case (issued e a fx)
  then show ?case by (auto simp: reduce_event_None_iff event_sequence_def)
next
  case (step a es fx e a' fx')
  then obtain h f where e: "e = TicketEvent h (agg_ticket_id a) f"
      "eh_sequence h = ag_last_event_sequence a + 1" "reduce_fact a h f = Inr (a', fx')"
    by (auto simp: reduce_event_Some_iff)
  then show ?case
    using step.IH reduce_fact_frame[OF e(3)] by (auto simp: event_sequence_def)
qed

section \<open>Carrying a predicate over every history\<close>

locale lifecycle_invariant =
  fixes inv :: "trade_aggregate \<Rightarrow> bool"
  assumes inv_issue: "valid_ticket t \<Longrightarrow>
      inv (new_aggregate t (if tk_leverage_change_required t then LEVERAGE_PENDING else ENTRY_PENDING) 1 1)"
    and inv_step: "inv a \<Longrightarrow> valid_ticket (ag_ticket a) \<Longrightarrow> valid_fact (eh_occurred_at_ms h) f
      \<Longrightarrow> reduce_fact a h f = Inr (a', fx) \<Longrightarrow> inv a'"
begin

lemma history_inv: "history a es fx \<Longrightarrow> inv a \<and> valid_ticket (ag_ticket a) \<and> ag_identity a = tk_identity (ag_ticket a)"
proof (induction rule: history.induct)
  case (issued e a fx)
  then show ?case using inv_issue by (auto simp: reduce_event_None_iff)
next
  case (step a es fx e a' fx')
  then show ?case
    by (auto simp: reduce_event_Some_iff reduce_fact_frame dest: inv_step)
qed

end

text \<open>
  Accounts of emitted effects: the number of effects so far that satisfy \<open>counts\<close> is bounded by, or
  equal to, a function \<open>charge\<close> of the current state.
\<close>

definition effect_count :: "(kernel_effect \<Rightarrow> bool) \<Rightarrow> kernel_effect list \<Rightarrow> nat" where
  "effect_count P fx = length (filter P fx)"

lemma effect_count_simps [simp]:
  "effect_count P [] = 0"
  "effect_count P (e # fx) = (if P e then 1 else 0) + effect_count P fx"
  "effect_count P (fx @ gx) = effect_count P fx + effect_count P gx"
  by (simp_all add: effect_count_def)

locale effect_bound = lifecycle_invariant +
  fixes counts :: "kernel_effect \<Rightarrow> bool"
    and charge :: "trade_aggregate \<Rightarrow> nat"
  assumes bound_issue: "valid_ticket t \<Longrightarrow>
      effect_count counts [if tk_leverage_change_required t then PrepareSetLeverageCommand t
                           else PrepareEntryCommand t None]
      \<le> charge (new_aggregate t (if tk_leverage_change_required t then LEVERAGE_PENDING else ENTRY_PENDING) 1 1)"
    and bound_step: "inv a \<Longrightarrow> valid_ticket (ag_ticket a) \<Longrightarrow> reduce_fact a h f = Inr (a', fx)
      \<Longrightarrow> charge a + effect_count counts fx \<le> charge a'"
begin

lemma history_bound: "history a es fx \<Longrightarrow> effect_count counts fx \<le> charge a"
proof (induction rule: history.induct)
  case (issued e a fx)
  then show ?case using bound_issue by (auto simp: reduce_event_None_iff)
next
  case (step a es fx e a' fx')
  from step.hyps(1) have "inv a" "valid_ticket (ag_ticket a)" using history_inv by blast+
  then have "charge a + effect_count counts fx' \<le> charge a'"
    using step bound_step by (auto simp: reduce_event_Some_iff)
  then show ?case using step.IH by simp
qed

end

text \<open>The exact account, of which the bound is one half.\<close>

locale effect_ledger = lifecycle_invariant +
  fixes counts :: "kernel_effect \<Rightarrow> bool"
    and charge :: "trade_aggregate \<Rightarrow> nat"
  assumes charge_issue: "valid_ticket t \<Longrightarrow>
      charge (new_aggregate t (if tk_leverage_change_required t then LEVERAGE_PENDING else ENTRY_PENDING) 1 1)
      = effect_count counts [if tk_leverage_change_required t then PrepareSetLeverageCommand t
                             else PrepareEntryCommand t None]"
    and charge_step: "inv a \<Longrightarrow> valid_ticket (ag_ticket a) \<Longrightarrow> reduce_fact a h f = Inr (a', fx)
      \<Longrightarrow> charge a' = charge a + effect_count counts fx"

sublocale effect_ledger \<subseteq> effect_bound
proof
  fix t :: trade_ticket
  assume "valid_ticket t"
  then show "effect_count counts [if tk_leverage_change_required t then PrepareSetLeverageCommand t
                           else PrepareEntryCommand t None]
      \<le> charge (new_aggregate t (if tk_leverage_change_required t then LEVERAGE_PENDING else ENTRY_PENDING) 1 1)"
    by (simp only: charge_issue order_refl)
next
  fix a h f a' fx
  assume "inv a" "valid_ticket (ag_ticket a)" "reduce_fact a h f = Inr (a', fx)"
  then show "charge a + effect_count counts fx \<le> charge a'"
    by (simp only: charge_step order_refl)
qed

context effect_ledger
begin

lemma history_charge: "history a es fx \<Longrightarrow> effect_count counts fx = charge a"
proof (induction rule: history.induct)
  case (issued e a fx)
  then show ?case using charge_issue by (auto simp: reduce_event_None_iff)
next
  case (step a es fx e a' fx')
  from step.hyps(1) have "inv a" "valid_ticket (ag_ticket a)" using history_inv by blast+
  then show ?case using step charge_step by (auto simp: reduce_event_Some_iff)
qed

end

end
