(* ===== verification/Lifecycle_Invariants.thy ===== *)
theory Lifecycle_Invariants
  imports Lifecycle
begin

text \<open>
  The invariants of a Ticket lifecycle. The 44 statuses are grouped into ten phases; \<open>lifecycle_ok\<close>
  collects what every reachable aggregate satisfies: the exposure matches the phase and never exceeds
  the Ticket, every phase that holds exposure in the steady state has an active stop that covers it, the
  ENTRY lane is held until protection is proven, and the identities the next phase needs are present.
\<close>

section \<open>Phases\<close>

datatype lifecycle_phase =
  Entering | Vacuum | Partial | Protecting | Guarded | Runner | Closing | Reconciling | Settled | Discarded

primrec phase_of :: "aggregate_status \<Rightarrow> lifecycle_phase" where
  "phase_of LEVERAGE_PENDING = Entering"
| "phase_of LEVERAGE_CONFIRMED = Entering"
| "phase_of LEVERAGE_REJECTED = Discarded"
| "phase_of LEVERAGE_OUTCOME_UNKNOWN = Entering"
| "phase_of ENTRY_PENDING = Entering"
| "phase_of ENTRY_ACCEPTED = Entering"
| "phase_of ENTRY_REJECTED = Discarded"
| "phase_of ENTRY_OUTCOME_UNKNOWN = Entering"
| "phase_of ENTRY_RECONCILED_ABSENT = Discarded"
| "phase_of ENTRY_VACUUM_CANCEL_PENDING = Vacuum"
| "phase_of ENTRY_VACUUM_CANCEL_REJECTED = Vacuum"
| "phase_of ENTRY_VACUUM_CANCEL_OUTCOME_UNKNOWN = Vacuum"
| "phase_of ENTRY_VACUUM_CANCELLED = Vacuum"
| "phase_of PARTIAL_FILL_INCIDENT = Partial"
| "phase_of PARTIAL_FILL_CANCEL_REJECTED = Partial"
| "phase_of PARTIAL_FILL_CANCEL_OUTCOME_UNKNOWN = Partial"
| "phase_of PROTECTION_PENDING = Protecting"
| "phase_of INITIAL_STOP_OUTCOME_UNKNOWN = Protecting"
| "phase_of POST_FILL_RISK_PENDING = Guarded"
| "phase_of TP1_PENDING = Guarded"
| "phase_of TP1_REJECTED = Guarded"
| "phase_of TP1_OUTCOME_UNKNOWN = Guarded"
| "phase_of POSITION_PROTECTED = Guarded"
| "phase_of RUNNER_REPLACEMENT_PENDING = Runner"
| "phase_of RUNNER_REPLACEMENT_REJECTED = Runner"
| "phase_of RUNNER_REPLACEMENT_OUTCOME_UNKNOWN = Runner"
| "phase_of RUNNER_OLD_STOP_CANCEL_PENDING = Runner"
| "phase_of RUNNER_OLD_STOP_CANCEL_REJECTED = Runner"
| "phase_of RUNNER_OLD_STOP_CANCEL_OUTCOME_UNKNOWN = Runner"
| "phase_of RUNNER_PROTECTED = Runner"
| "phase_of EXIT_PENDING = Closing"
| "phase_of EXIT_ACCEPTED = Closing"
| "phase_of EXIT_REJECTED = Closing"
| "phase_of EXIT_OUTCOME_UNKNOWN = Closing"
| "phase_of CONTROLLED_FLATTEN_PENDING = Closing"
| "phase_of CONTROLLED_FLATTEN_ACCEPTED = Closing"
| "phase_of CONTROLLED_FLATTEN_REJECTED = Closing"
| "phase_of CONTROLLED_FLATTEN_OUTCOME_UNKNOWN = Closing"
| "phase_of RECONCILIATION_PENDING = Reconciling"
| "phase_of CANCEL_REJECTED = Reconciling"
| "phase_of CANCEL_OUTCOME_UNKNOWN = Reconciling"
| "phase_of SETTLEMENT_PENDING = Settled"
| "phase_of REVIEW_PENDING = Settled"
| "phase_of TERMINAL = Settled"

abbreviation phase :: "trade_aggregate \<Rightarrow> lifecycle_phase" where
  "phase a \<equiv> phase_of (ag_status a)"

definition moving_stop :: "aggregate_status \<Rightarrow> bool" where
  "moving_stop s \<longleftrightarrow> s \<in> {RUNNER_REPLACEMENT_PENDING, RUNNER_REPLACEMENT_REJECTED,
     RUNNER_REPLACEMENT_OUTCOME_UNKNOWN}"

section \<open>The invariant\<close>

definition quantity_inv :: "trade_aggregate \<Rightarrow> bool" where
  "quantity_inv a \<longleftrightarrow>
     0 \<le> ag_position_qty a \<and> 0 \<le> ag_tp1_target_qty a
     \<and> (phase a \<in> {Entering, Reconciling, Settled, Discarded} \<longrightarrow> ag_position_qty a = 0)
     \<and> (phase a \<in> {Partial, Protecting, Guarded, Runner, Closing} \<longrightarrow> 0 < ag_position_qty a)
     \<and> (representable (tk_quantity (ag_ticket a)) \<longrightarrow>
          ag_position_qty a \<le> tk_quantity (ag_ticket a)
          \<and> (phase a \<in> {Protecting, Guarded, Runner} \<longrightarrow> representable (ag_position_qty a)))"

definition stop_inv :: "trade_aggregate \<Rightarrow> bool" where
  "stop_inv a \<longleftrightarrow>
     (ag_active_stop_exchange_order_id a = None \<longrightarrow> ag_protected_qty a = 0)
     \<and> (ag_active_stop_exchange_order_id a = None) = (ag_active_stop_price a = None)
     \<and> (phase a \<in> {Entering, Vacuum, Partial, Protecting, Discarded} \<longrightarrow>
          ag_active_stop_exchange_order_id a = None \<and> ag_initial_stop_exchange_order_id a = None
          \<and> ag_tp1_exchange_order_id a = None)
     \<and> (phase a \<in> {Guarded, Runner} \<longrightarrow> ag_active_stop_exchange_order_id a \<noteq> None
          \<and> (representable (tk_quantity (ag_ticket a)) \<longrightarrow> ag_position_qty a \<le> ag_protected_qty a))
     \<and> (phase a \<in> {Guarded, Runner} \<and> \<not> moving_stop (ag_status a) \<longrightarrow>
          ag_protected_qty a = ag_position_qty a)
     \<and> (moving_stop (ag_status a) \<longrightarrow>
          ag_pending_stop_price a \<noteq> None \<and> ag_pending_stop_watermark_ms a \<noteq> None)
     \<and> (phase a = Settled \<longrightarrow>
          ag_active_stop_exchange_order_id a = None \<and> ag_initial_stop_exchange_order_id a = None
          \<and> ag_tp1_exchange_order_id a = None \<and> ag_pending_cancel_exchange_order_id a = None)"

definition lane_inv :: "trade_aggregate \<Rightarrow> bool" where
  "lane_inv a \<longleftrightarrow>
     (phase a \<in> {Entering, Vacuum, Partial, Protecting} \<or> ag_status a = POST_FILL_RISK_PENDING
        \<longrightarrow> ag_entry_lane_held a)
     \<and> (phase a = Discarded \<or> ag_status a \<in> {TP1_PENDING, TP1_REJECTED, TP1_OUTCOME_UNKNOWN}
        \<longrightarrow> \<not> ag_entry_lane_held a)"

definition disposition_inv :: "trade_aggregate \<Rightarrow> bool" where
  "disposition_inv a \<longleftrightarrow>
     (phase a = Protecting \<longrightarrow>
        ag_post_fill_disposition a \<noteq> None \<and> ag_post_fill_disposition a \<noteq> Some FLATTEN_IMMEDIATELY)
     \<and> (phase a \<in> {Guarded, Runner} \<longrightarrow> ag_post_fill_disposition a = Some NORMAL)
     \<and> (ag_status a \<in> {TP1_PENDING, TP1_REJECTED, TP1_OUTCOME_UNKNOWN} \<longrightarrow>
        ag_post_fill_stress_status a = Some stress_passed
        \<and> 0 < ag_tp1_target_qty a \<and> ag_tp1_target_qty a < ag_position_qty a
        \<and> length (tk_take_profit_prices (ag_ticket a)) = 1)"

definition normal_opt :: "string option \<Rightarrow> bool" where
  "normal_opt i = (case i of None \<Rightarrow> True | Some s \<Rightarrow> normal_id s)"

definition order_inv :: "trade_aggregate \<Rightarrow> bool" where
  "order_inv a \<longleftrightarrow>
     normal_opt (ag_entry_exchange_order_id a) \<and> normal_opt (ag_active_stop_exchange_order_id a)
     \<and> normal_opt (ag_initial_stop_exchange_order_id a) \<and> normal_opt (ag_tp1_exchange_order_id a)
     \<and> normal_opt (ag_pending_cancel_exchange_order_id a)
     \<and> (phase a = Entering \<longrightarrow> ag_entry_vacuum_id a = None)
     \<and> (phase a = Vacuum \<or> ag_status a = ENTRY_ACCEPTED \<longrightarrow> ag_entry_exchange_order_id a \<noteq> None)
     \<and> (phase a = Vacuum \<longrightarrow> ag_entry_vacuum_id a \<noteq> None
          \<and> (\<forall>v. ag_entry_vacuum_id a = Some v \<longrightarrow> non_blank v)
          \<and> (ag_position_qty a = 0) = (ag_average_fill_price a = None)
          \<and> positive_opt (ag_average_fill_price a))
     \<and> (phase a = Vacuum \<and> ag_status a \<noteq> ENTRY_VACUUM_CANCELLED \<longrightarrow>
          ag_pending_cancel_exchange_order_id a = ag_entry_exchange_order_id a)
     \<and> (ag_status a \<in> {CANCEL_REJECTED, CANCEL_OUTCOME_UNKNOWN} \<longrightarrow>
          ag_pending_cancel_exchange_order_id a \<noteq> None)"

definition lifecycle_ok :: "trade_aggregate \<Rightarrow> bool" where
  "lifecycle_ok a \<longleftrightarrow>
     quantity_inv a \<and> stop_inv a \<and> lane_inv a \<and> disposition_inv a \<and> order_inv a"

lemmas lifecycle_ok_parts = lifecycle_ok_def quantity_inv_def stop_inv_def lane_inv_def
  disposition_inv_def order_inv_def

section \<open>Preservation\<close>

lemma normal_strip [simp]: "normal_id (py_strip s) \<longleftrightarrow> non_blank s"
  by (simp add: normal_id_def non_blank_def)

lemma normal_opt_simps [simp]: "normal_opt None" "normal_opt (Some s) \<longleftrightarrow> normal_id s"
  by (simp_all add: normal_opt_def)

lemma dec_sub_le: "representable p \<Longrightarrow> 0 \<le> q \<Longrightarrow> dec_sub p q \<le> p"
  using dec.rnd_mono[of "p - q" p] by (simp add: dec_sub_def dec_fix_representable)

lemma representable_dec_ops [simp]: "representable (dec_sub p q)" "representable (dec_add p q)"
  by (simp_all add: dec_ops)

lemma retained_representable: "retained_ok v \<Longrightarrow> representable (vr_final_filled_qty v)"
  by (metis representable_dec_ops(2) retained_ok_def)


text \<open>What a reachable aggregate offers in each phase, as conditional rewrite rules.\<close>

lemma ok_facts:
  assumes "lifecycle_ok a"
  shows "0 \<le> ag_position_qty a" "0 \<le> ag_tp1_target_qty a"
    "phase a = Entering \<Longrightarrow> ag_position_qty a = 0"
    "phase a = Reconciling \<Longrightarrow> ag_position_qty a = 0"
    "phase a = Settled \<Longrightarrow> ag_position_qty a = 0"
    "phase a = Discarded \<Longrightarrow> ag_position_qty a = 0"
    "phase a = Partial \<Longrightarrow> 0 < ag_position_qty a"
    "phase a = Protecting \<Longrightarrow> 0 < ag_position_qty a"
    "phase a = Guarded \<Longrightarrow> 0 < ag_position_qty a"
    "phase a = Runner \<Longrightarrow> 0 < ag_position_qty a"
    "phase a = Closing \<Longrightarrow> 0 < ag_position_qty a"
    "phase a = Entering \<Longrightarrow> ag_entry_lane_held a"
    "phase a = Vacuum \<Longrightarrow> ag_entry_lane_held a"
    "phase a = Partial \<Longrightarrow> ag_entry_lane_held a"
    "phase a = Protecting \<Longrightarrow> ag_entry_lane_held a"
    "ag_status a = POST_FILL_RISK_PENDING \<Longrightarrow> ag_entry_lane_held a"
    "phase a = Discarded \<Longrightarrow> \<not> ag_entry_lane_held a"
    "ag_status a \<in> {TP1_PENDING, TP1_REJECTED, TP1_OUTCOME_UNKNOWN} \<Longrightarrow> \<not> ag_entry_lane_held a"
    "representable (tk_quantity (ag_ticket a)) \<Longrightarrow> ag_position_qty a \<le> tk_quantity (ag_ticket a)"
    "representable (tk_quantity (ag_ticket a)) \<Longrightarrow> phase a = Protecting \<Longrightarrow> representable (ag_position_qty a)"
    "representable (tk_quantity (ag_ticket a)) \<Longrightarrow> phase a = Guarded \<Longrightarrow> representable (ag_position_qty a)"
    "representable (tk_quantity (ag_ticket a)) \<Longrightarrow> phase a = Runner \<Longrightarrow> representable (ag_position_qty a)"
  using assms by (auto simp: lifecycle_ok_def quantity_inv_def lane_inv_def)

lemma ok_stop_facts:
  assumes "lifecycle_ok a"
  shows "phase a = Entering \<Longrightarrow> ag_active_stop_exchange_order_id a = None"
    "phase a = Vacuum \<Longrightarrow> ag_active_stop_exchange_order_id a = None"
    "phase a = Partial \<Longrightarrow> ag_active_stop_exchange_order_id a = None"
    "phase a = Protecting \<Longrightarrow> ag_active_stop_exchange_order_id a = None"
    "phase a = Discarded \<Longrightarrow> ag_active_stop_exchange_order_id a = None"
    "phase a = Settled \<Longrightarrow> ag_active_stop_exchange_order_id a = None"
    "phase a = Entering \<Longrightarrow> ag_initial_stop_exchange_order_id a = None"
    "phase a = Vacuum \<Longrightarrow> ag_initial_stop_exchange_order_id a = None"
    "phase a = Partial \<Longrightarrow> ag_initial_stop_exchange_order_id a = None"
    "phase a = Protecting \<Longrightarrow> ag_initial_stop_exchange_order_id a = None"
    "phase a = Discarded \<Longrightarrow> ag_initial_stop_exchange_order_id a = None"
    "phase a = Settled \<Longrightarrow> ag_initial_stop_exchange_order_id a = None"
    "phase a = Entering \<Longrightarrow> ag_tp1_exchange_order_id a = None"
    "phase a = Vacuum \<Longrightarrow> ag_tp1_exchange_order_id a = None"
    "phase a = Partial \<Longrightarrow> ag_tp1_exchange_order_id a = None"
    "phase a = Protecting \<Longrightarrow> ag_tp1_exchange_order_id a = None"
    "phase a = Discarded \<Longrightarrow> ag_tp1_exchange_order_id a = None"
    "phase a = Settled \<Longrightarrow> ag_tp1_exchange_order_id a = None"
    "phase a = Settled \<Longrightarrow> ag_pending_cancel_exchange_order_id a = None"
    "(ag_active_stop_price a = None) = (ag_active_stop_exchange_order_id a = None)"
    "phase a = Guarded \<Longrightarrow> ag_active_stop_exchange_order_id a \<noteq> None"
    "phase a = Guarded \<Longrightarrow> \<exists>y. ag_active_stop_exchange_order_id a = Some y"
    "phase a = Runner \<Longrightarrow> ag_active_stop_exchange_order_id a \<noteq> None"
    "phase a = Runner \<Longrightarrow> \<exists>y. ag_active_stop_exchange_order_id a = Some y"
    "ag_active_stop_exchange_order_id a = None \<Longrightarrow> ag_protected_qty a = 0"
    "phase a = Guarded \<Longrightarrow> ag_protected_qty a = ag_position_qty a"
    "phase a = Runner \<Longrightarrow> \<not> moving_stop (ag_status a) \<Longrightarrow> ag_protected_qty a = ag_position_qty a"
    "phase a = Runner \<Longrightarrow> representable (tk_quantity (ag_ticket a)) \<Longrightarrow> ag_position_qty a \<le> ag_protected_qty a"
    "moving_stop (ag_status a) \<Longrightarrow> ag_pending_stop_price a \<noteq> None"
    "moving_stop (ag_status a) \<Longrightarrow> \<exists>y. ag_pending_stop_price a = Some y"
    "moving_stop (ag_status a) \<Longrightarrow> ag_pending_stop_watermark_ms a \<noteq> None"
    "moving_stop (ag_status a) \<Longrightarrow> \<exists>y. ag_pending_stop_watermark_ms a = Some y"
  using assms by (auto simp: lifecycle_ok_def stop_inv_def moving_stop_def)

lemma ok_order_facts:
  assumes "lifecycle_ok a"
  shows "normal_opt (ag_entry_exchange_order_id a)" "normal_opt (ag_active_stop_exchange_order_id a)"
    "normal_opt (ag_initial_stop_exchange_order_id a)" "normal_opt (ag_tp1_exchange_order_id a)"
    "normal_opt (ag_pending_cancel_exchange_order_id a)"
    "phase a = Entering \<Longrightarrow> ag_entry_vacuum_id a = None"
    "phase a = Vacuum \<Longrightarrow> ag_entry_exchange_order_id a \<noteq> None"
    "phase a = Vacuum \<Longrightarrow> \<exists>y. ag_entry_exchange_order_id a = Some y"
    "ag_status a = ENTRY_ACCEPTED \<Longrightarrow> ag_entry_exchange_order_id a \<noteq> None"
    "ag_status a = ENTRY_ACCEPTED \<Longrightarrow> \<exists>y. ag_entry_exchange_order_id a = Some y"
    "phase a = Vacuum \<Longrightarrow> ag_entry_vacuum_id a \<noteq> None"
    "phase a = Vacuum \<Longrightarrow> \<exists>y. ag_entry_vacuum_id a = Some y"
    "phase a = Vacuum \<Longrightarrow> ag_entry_vacuum_id a = Some v \<Longrightarrow> non_blank v"
    "phase a = Vacuum \<Longrightarrow> (ag_average_fill_price a = None) = (ag_position_qty a = 0)"
    "phase a = Vacuum \<Longrightarrow> positive_opt (ag_average_fill_price a)"
    "phase a = Vacuum \<Longrightarrow> ag_status a \<noteq> ENTRY_VACUUM_CANCELLED \<Longrightarrow>
       ag_pending_cancel_exchange_order_id a = ag_entry_exchange_order_id a"
    "ag_status a \<in> {CANCEL_REJECTED, CANCEL_OUTCOME_UNKNOWN} \<Longrightarrow>
       ag_pending_cancel_exchange_order_id a \<noteq> None"
    "ag_status a \<in> {CANCEL_REJECTED, CANCEL_OUTCOME_UNKNOWN} \<Longrightarrow>
       \<exists>y. ag_pending_cancel_exchange_order_id a = Some y"
    "phase a = Protecting \<Longrightarrow> ag_post_fill_disposition a \<noteq> None"
    "phase a = Protecting \<Longrightarrow> \<exists>y. ag_post_fill_disposition a = Some y"
    "phase a = Protecting \<Longrightarrow> ag_post_fill_disposition a \<noteq> Some FLATTEN_IMMEDIATELY"
    "phase a = Guarded \<Longrightarrow> ag_post_fill_disposition a = Some NORMAL"
    "phase a = Runner \<Longrightarrow> ag_post_fill_disposition a = Some NORMAL"
    "ag_status a \<in> {TP1_PENDING, TP1_REJECTED, TP1_OUTCOME_UNKNOWN} \<Longrightarrow>
       ag_post_fill_stress_status a = Some stress_passed"
    "ag_status a \<in> {TP1_PENDING, TP1_REJECTED, TP1_OUTCOME_UNKNOWN} \<Longrightarrow> 0 < ag_tp1_target_qty a"
    "ag_status a \<in> {TP1_PENDING, TP1_REJECTED, TP1_OUTCOME_UNKNOWN} \<Longrightarrow>
       ag_tp1_target_qty a < ag_position_qty a"
    "ag_status a \<in> {TP1_PENDING, TP1_REJECTED, TP1_OUTCOME_UNKNOWN} \<Longrightarrow>
       length (tk_take_profit_prices (ag_ticket a)) = Suc 0"
  using assms by (auto simp: lifecycle_ok_def order_inv_def disposition_inv_def)

lemma lane_inv_step:
  assumes "lifecycle_ok a" "reduce_fact a h f = Inr (a', fx)"
  shows "lane_inv a'"
  using assms
  by (cases f) (auto simp: step_simps lane_inv_def ok_facts split: step_splits)

lemma tp1_leg_facts:
  assumes "tp1_leg a = Some (p, q)" "valid_ticket (ag_ticket a)"
  shows "0 < q \<and> 0 < p \<and> length (tk_take_profit_prices (ag_ticket a)) = Suc 0"
  using assms valid_ticket_facts(4,5)[OF assms(2)]
  by (auto simp: tp1_leg_def split: list.split_asm if_split_asm)

lemma kept_disposition:
  "d \<noteq> None \<Longrightarrow> d \<noteq> Some FLATTEN_IMMEDIATELY \<Longrightarrow>
     (d = Some NORMAL) = (d \<noteq> Some FLATTEN_AFTER_PROTECTION)"
  by (cases d; cases "the d"; simp)

lemma not_failed_iff [simp]: "s \<noteq> stress_failed \<longleftrightarrow> s = stress_passed"
  by (cases s) auto

lemma dec_add_representable: "dec_add p q = r \<Longrightarrow> representable r"
  by auto

lemma ok_ids:
  assumes "lifecycle_ok a"
  shows "ag_entry_exchange_order_id a = Some i \<Longrightarrow> normal_id i"
    "ag_active_stop_exchange_order_id a = Some i \<Longrightarrow> normal_id i"
    "ag_initial_stop_exchange_order_id a = Some i \<Longrightarrow> normal_id i"
    "ag_tp1_exchange_order_id a = Some i \<Longrightarrow> normal_id i"
    "ag_pending_cancel_exchange_order_id a = Some i \<Longrightarrow> normal_id i"
  using assms by (auto simp: lifecycle_ok_def order_inv_def)

lemma known_cleanup_empty:
  "known_cleanup_order_ids a = [] \<longleftrightarrow>
     ag_tp1_exchange_order_id a = None \<and> ag_active_stop_exchange_order_id a = None
     \<and> ag_initial_stop_exchange_order_id a = None"
  by (cases "ag_tp1_exchange_order_id a"; cases "ag_active_stop_exchange_order_id a";
      cases "ag_initial_stop_exchange_order_id a") (simp_all add: known_cleanup_order_ids_def)

lemma known_cleanup_normal:
  assumes "lifecycle_ok a" "i \<in> set (known_cleanup_order_ids a)"
  shows "normal_id i"
  using assms ok_ids[OF assms(1)]
  by (cases "ag_tp1_exchange_order_id a"; cases "ag_active_stop_exchange_order_id a";
      cases "ag_initial_stop_exchange_order_id a")
    (auto simp: known_cleanup_order_ids_def split: if_split_asm)

lemma next_cleanup_normal:
  "lifecycle_ok a \<Longrightarrow> next_cleanup_order_id a = Some i \<Longrightarrow> normal_id i"
  using known_cleanup_normal by (auto simp: next_cleanup_order_id_def split: list.split_asm)

lemma runner_quantity_le:
  assumes "lifecycle_ok a" "phase a = Guarded" "representable (tk_quantity (ag_ticket a))"
  shows "dec_sub (ag_position_qty a) (ag_tp1_target_qty a) \<le> ag_position_qty a"
    "dec_sub (ag_position_qty a) (ag_tp1_target_qty a) \<le> tk_quantity (ag_ticket a)"
  using assms dec_sub_le[of "ag_position_qty a" "ag_tp1_target_qty a"]
  by (auto simp: ok_facts intro: order_trans)

lemma quantity_inv_step:
  assumes "lifecycle_ok a" "valid_ticket (ag_ticket a)" "valid_fact t f" "reduce_fact a h f = Inr (a', fx)"
  shows "quantity_inv a'"
  using assms valid_ticket_facts(1)[OF assms(2)]
  by (cases f) (auto simp: step_simps quantity_inv_def ok_facts tp1_leg_facts runner_quantity_le
     late_fill_ok_def retained_ok_def less_imp_le intro: dec_add_representable split: step_splits)

lemma disposition_inv_step:
  assumes "lifecycle_ok a" "valid_ticket (ag_ticket a)" "reduce_fact a h f = Inr (a', fx)"
  shows "disposition_inv a'"
  using assms
  by (cases f) (auto simp: step_simps disposition_inv_def ok_facts ok_order_facts tp1_leg_facts
      kept_disposition split: step_splits)

lemma order_inv_step:
  assumes "lifecycle_ok a" "valid_fact t f" "reduce_fact a h f = Inr (a', fx)"
  shows "order_inv a'"
  using assms
  by (cases f) (auto simp: step_simps order_inv_def ok_facts ok_order_facts
    vacuum_fill_ok_def late_fill_ok_def positive_opt_def[of "Some _"] intro: ok_ids next_cleanup_normal split: step_splits)

lemma stop_inv_step:
  assumes "lifecycle_ok a" "reduce_fact a h f = Inr (a', fx)"
  shows "stop_inv a'"
  using assms
  by (cases f) (auto simp: step_simps stop_inv_def ok_facts ok_stop_facts moving_stop_def
      runner_quantity_le known_cleanup_empty split: step_splits)

lemma lifecycle_ok_step:
  assumes "lifecycle_ok a" "valid_ticket (ag_ticket a)" "valid_fact t f" "reduce_fact a h f = Inr (a', fx)"
  shows "lifecycle_ok a'"
  unfolding lifecycle_ok_def
  using quantity_inv_step[OF assms] stop_inv_step[OF assms(1,4)] lane_inv_step[OF assms(1,4)]
    disposition_inv_step[OF assms(1,2,4)] order_inv_step[OF assms(1,3,4)] by blast

interpretation lc: lifecycle_invariant lifecycle_ok
proof
  fix t :: trade_ticket
  assume "valid_ticket t"
  then show "lifecycle_ok (new_aggregate t (if tk_leverage_change_required t then LEVERAGE_PENDING
      else ENTRY_PENDING) 1 1)"
    using valid_ticket_facts(1)[of t]
    by (auto simp: lifecycle_ok_parts moving_stop_def)
qed (rule lifecycle_ok_step)

section \<open>Ledgers of effects\<close>

fun is_release_lane :: "kernel_effect \<Rightarrow> bool" where
  "is_release_lane (ReleaseEntryLane _) = True"
| "is_release_lane _ = False"

fun is_capital_release :: "kernel_effect \<Rightarrow> bool" where
  "is_capital_release (ReleaseBudget _) = True"
| "is_capital_release (ReleaseCapitalAuthorities _) = True"
| "is_capital_release _ = False"

fun is_prepare_entry :: "kernel_effect \<Rightarrow> bool" where
  "is_prepare_entry (PrepareEntryCommand _ _) = True"
| "is_prepare_entry _ = False"

lemma resolve_if_count [simp]:
  "effect_count is_release_lane (resolve_if b a k) = 0"
  "effect_count is_capital_release (resolve_if b a k) = 0"
  "effect_count is_prepare_entry (resolve_if b a k) = 0"
  by (simp_all add: resolve_if_def)

lemma release_all_count [simp]:
  "effect_count is_release_lane (release_all a) = 1"
  "effect_count is_capital_release (release_all a) = 1"
  "effect_count is_prepare_entry (release_all a) = 0"
  by (simp_all add: release_all_def)

text \<open>The lane is released once, and exactly when the aggregate stops holding it.\<close>

definition lane_charge :: "trade_aggregate \<Rightarrow> nat" where
  "lane_charge a = (if ag_entry_lane_held a then 0 else 1)"

text \<open>Capital is released once, on the step into a discarded or settled phase.\<close>

definition capital_charge :: "trade_aggregate \<Rightarrow> nat" where
  "capital_charge a = (if phase a \<in> {Discarded, Settled} then 1 else 0)"

lemma lane_charge_step:
  assumes "lifecycle_ok a" "reduce_fact a h f = Inr (a', fx)"
  shows "lane_charge a' = lane_charge a + effect_count is_release_lane fx"
  using assms
  by (cases f) (auto simp: step_simps lane_charge_def ok_facts split: step_splits)

lemma capital_charge_step:
  assumes "reduce_fact a h f = Inr (a', fx)"
  shows "capital_charge a' = capital_charge a + effect_count is_capital_release fx"
  using assms
  by (cases f) (auto simp: step_simps capital_charge_def split: step_splits)

interpretation lane: effect_ledger lifecycle_ok is_release_lane lane_charge
  by unfold_locales (simp add: lane_charge_def, rule lane_charge_step)

interpretation capital: effect_ledger lifecycle_ok is_capital_release capital_charge
  by unfold_locales (simp add: capital_charge_def, rule capital_charge_step)

text \<open>
  An ENTRY command is prepared at most once: at issue, or when the leverage change is confirmed. While
  the leverage change is undecided or after it was rejected none has been prepared.
\<close>

definition entry_charge :: "trade_aggregate \<Rightarrow> nat" where
  "entry_charge a =
     (if ag_status a \<in> {LEVERAGE_PENDING, LEVERAGE_OUTCOME_UNKNOWN, LEVERAGE_REJECTED} then 0 else 1)"

lemma entry_charge_step:
  assumes "reduce_fact a h f = Inr (a', fx)"
  shows "entry_charge a + effect_count is_prepare_entry fx \<le> entry_charge a'"
  using assms
  by (cases f) (auto simp: step_simps entry_charge_def split: step_splits option.splits)

interpretation entry: effect_bound lifecycle_ok is_prepare_entry entry_charge
  by unfold_locales (simp add: entry_charge_def, rule entry_charge_step)

section \<open>The runner stop only improves\<close>

text \<open>
  The watermark of the active runner stop is set by the first confirmed replacement. From then on a
  pending replacement improves on the active stop.
\<close>

definition runner_inv :: "trade_aggregate \<Rightarrow> bool" where
  "runner_inv a \<longleftrightarrow>
     (moving_stop (ag_status a) \<and> ag_runner_stop_watermark_ms a \<noteq> None \<longrightarrow>
        (\<exists>p q. ag_pending_stop_price a = Some p \<and> ag_active_stop_price a = Some q
           \<and> stop_improves (nd_position_side (agg_domain a)) p q))
     \<and> (phase a = Runner \<and> \<not> moving_stop (ag_status a) \<longrightarrow> ag_runner_stop_watermark_ms a \<noteq> None)
     \<and> (phase a \<in> {Entering, Vacuum, Partial, Protecting, Guarded} \<longrightarrow> ag_runner_stop_watermark_ms a = None)"

definition runner_ok :: "trade_aggregate \<Rightarrow> bool" where
  "runner_ok a \<longleftrightarrow> runner_inv a \<and> lifecycle_ok a"

lemma runner_facts:
  assumes "runner_ok a"
  shows "phase a = Entering \<Longrightarrow> ag_runner_stop_watermark_ms a = None"
    "phase a = Vacuum \<Longrightarrow> ag_runner_stop_watermark_ms a = None"
    "phase a = Partial \<Longrightarrow> ag_runner_stop_watermark_ms a = None"
    "phase a = Protecting \<Longrightarrow> ag_runner_stop_watermark_ms a = None"
    "phase a = Guarded \<Longrightarrow> ag_runner_stop_watermark_ms a = None"
    "phase a = Runner \<Longrightarrow> \<not> moving_stop (ag_status a) \<Longrightarrow> \<exists>w. ag_runner_stop_watermark_ms a = Some w"
    "moving_stop (ag_status a) \<Longrightarrow> ag_runner_stop_watermark_ms a = Some w \<Longrightarrow>
      \<exists>p q. ag_pending_stop_price a = Some p \<and> ag_active_stop_price a = Some q
        \<and> stop_improves (nd_position_side (agg_domain a)) p q"
  using assms by (auto simp: runner_inv_def runner_ok_def)

lemma runner_pending:
  assumes "runner_ok a" "ag_runner_stop_watermark_ms a = Some w"
  shows "ag_status a = RUNNER_REPLACEMENT_PENDING \<Longrightarrow>
      \<exists>p q. ag_pending_stop_price a = Some p \<and> ag_active_stop_price a = Some q
        \<and> stop_improves (nd_position_side (agg_domain a)) p q"
    "ag_status a = RUNNER_REPLACEMENT_OUTCOME_UNKNOWN \<Longrightarrow>
      \<exists>p q. ag_pending_stop_price a = Some p \<and> ag_active_stop_price a = Some q
        \<and> stop_improves (nd_position_side (agg_domain a)) p q"
  using runner_facts(7)[OF assms(1) _ assms(2)] by (auto simp: moving_stop_def)

lemma runner_inv_step:
  assumes "runner_ok a" "reduce_fact a h f = Inr (a', fx)"
  shows "runner_inv a'"
  using assms
  by (cases f) (auto simp: step_simps runner_inv_def runner_facts moving_stop_def
      dest: runner_pending split: step_splits)

interpretation rn: lifecycle_invariant runner_ok
proof
  fix t :: trade_ticket
  assume "valid_ticket t"
  then show "runner_ok (new_aggregate t (if tk_leverage_change_required t then LEVERAGE_PENDING
      else ENTRY_PENDING) 1 1)"
    using lc.inv_issue[of t] by (auto simp: runner_ok_def runner_inv_def moving_stop_def)
next
  fix a h f a' fx
  assume "runner_ok a" "valid_ticket (ag_ticket a)" "valid_fact (eh_occurred_at_ms h) f"
    "reduce_fact a h f = Inr (a', fx)"
  then show "runner_ok a'"
    using lc.inv_step runner_inv_step by (auto simp: runner_ok_def)
qed

text \<open>One accepted event keeps the active stop price or, once the runner has a stop of its own, improves it.\<close>

lemma active_stop_step:
  assumes "runner_ok a" "reduce_fact a h f = Inr (a', fx)"
    "ag_active_stop_price a = Some q" "ag_active_stop_price a' = Some q'"
    "ag_runner_stop_watermark_ms a \<noteq> None"
  shows "q' = q \<or> stop_improves (nd_position_side (agg_domain a)) q' q"
proof -
  obtain w where w: "ag_runner_stop_watermark_ms a = Some w" using assms(5) by blast
  have "phase a \<noteq> Protecting"
    using runner_facts(4)[OF assms(1)] w by auto
  then show ?thesis
    using assms(2-4) runner_pending[OF assms(1) w]
    by (cases f) (auto simp: step_simps split: step_splits)
qed

end
