(* ===== verification/Lifecycle_Liveness.thy ===== *)
theory Lifecycle_Liveness
  imports Lifecycle_Invariants
begin

text \<open>
  Which lifecycles can still be closed. \<open>can_close a\<close> says that some validated continuation brings the
  Ticket to a discarded or settled status, where its capital is released. Every reachable aggregate can
  close, except in the dead ends \<open>stuck\<close> names.
\<close>

definition can_close :: "trade_aggregate \<Rightarrow> bool" where
  "can_close a \<longleftrightarrow> (\<exists>es b fx. list_all valid_event es \<and> replay_from (Some a) es = Inr (Some b, fx)
     \<and> phase b \<in> {Discarded, Settled})"

text \<open>
  The dead ends: a rejected cancel of a partially filled ENTRY, and a partial fill whose ENTRY was never
  acknowledged with an order identity, so that no cancel result can match it.
\<close>

definition stuck :: "trade_aggregate \<Rightarrow> bool" where
  "stuck a \<longleftrightarrow> ag_status a = PARTIAL_FILL_CANCEL_REJECTED
     \<or> (ag_status a \<in> {PARTIAL_FILL_INCIDENT, PARTIAL_FILL_CANCEL_OUTCOME_UNKNOWN}
        \<and> ag_entry_exchange_order_id a = None)"

definition live_ok :: "trade_aggregate \<Rightarrow> bool" where
  "live_ok a \<longleftrightarrow> lifecycle_ok a \<and> 0 < ag_last_event_sequence a \<and> valid_ticket (ag_ticket a)
     \<and> ag_identity a = tk_identity (ag_ticket a)"

text \<open>The header of the next event.\<close>

definition next_header :: "trade_aggregate \<Rightarrow> event_header" where
  "next_header a = \<lparr>eh_event_id = ''e'', eh_sequence = ag_last_event_sequence a + 1, eh_occurred_at_ms = 1\<rparr>"

lemma next_header_sel [simp]:
  "eh_sequence (next_header a) = ag_last_event_sequence a + 1" "eh_occurred_at_ms (next_header a) = 1"
  by (simp_all add: next_header_def)

lemma valid_next_header: "live_ok a \<Longrightarrow> valid_header (next_header a)"
proof -
  have "py_strip ''e'' = ''e''" by code_simp
  then show "live_ok a \<Longrightarrow> valid_header (next_header a)"
    by (simp add: valid_header_def next_header_def live_ok_def normal_id_def)
qed

lemma live_ok_step:
  assumes "live_ok a" "valid_fact 1 f" "reduce_fact a (next_header a) f = Inr (a', fx)"
  shows "live_ok a'"
  using assms lifecycle_ok_step[OF _ _ assms(2,3)] reduce_fact_frame[OF assms(3)]
  by (simp add: live_ok_def)

lemma can_close_step:
  assumes "live_ok a" "valid_fact 1 f" "reduce_fact a (next_header a) f = Inr (a', fx)"
    and "live_ok a' \<Longrightarrow> can_close a'"
  shows "can_close a"
proof -
  have "can_close a'" using live_ok_step assms by blast
  then obtain es b gx where es: "list_all valid_event es" "replay_from (Some a') es = Inr (Some b, gx)"
    "phase b \<in> {Discarded, Settled}" unfolding can_close_def by blast
  let ?e = "TicketEvent (next_header a) (agg_ticket_id a) f"
  have "normal_id (agg_ticket_id a)"
    using assms(1) valid_ticket_id[of "ag_ticket a"] by (auto simp: live_ok_def normal_id_def)
  then have "valid_event ?e" using assms(1,2) valid_next_header by simp
  moreover have "reduce_event (Some a) ?e = Inr (a', fx)"
    using assms(3) by (simp add: reduce_event_Some_iff)
  ultimately show ?thesis
    unfolding can_close_def using es by (intro exI[of _ "?e # es"]) auto
qed

lemma can_close_closed: "phase a \<in> {Discarded, Settled} \<Longrightarrow> can_close a"
  unfolding can_close_def by (intro exI[of _ "[]"]) auto

text \<open>The step as it is used: an event the reducer accepts, and the closure of whatever it yields.\<close>

lemma can_close_via:
  assumes "live_ok a" "valid_fact 1 f" "ok (reduce_fact a (next_header a) f)"
    and "\<And>a' fx. reduce_fact a (next_header a) f = Inr (a', fx) \<Longrightarrow> live_ok a' \<Longrightarrow> can_close a'"
  shows "can_close a"
proof -
  obtain a' fx where "reduce_fact a (next_header a) f = Inr (a', fx)"
    using assms(3) by (auto simp: ok_iff)
  then show ?thesis using can_close_step[OF assms(1,2)] assms(4) by blast
qed

lemma ok_after [simp]: "ok (after r k) \<longleftrightarrow> ok r \<and> ok k"
  by (cases r) (simp_all add: after_def)

lemma ok_guards [simp]:
  "ok (require b m) \<longleftrightarrow> b"
  "ok (require_status a s) \<longleftrightarrow> ag_status a = s"
  "ok (require_status_in a ss) \<longleftrightarrow> ag_status a \<in> set ss"
  "ok (transition a h s upd eff)"
  by (simp_all add: require_def require_status_def require_status_in_def transition_def)

lemma blank_r [simp]: "non_blank ''r''" "normal_id ''r''"
  by code_simp+

lemma normal_non_blank: "normal_id i \<Longrightarrow> non_blank i"
  by (simp add: normal_id_def non_blank_def)

lemma live_lifecycle: "live_ok a \<Longrightarrow> lifecycle_ok a"
  by (simp add: live_ok_def)

section \<open>Backwards from closure\<close>

lemma close_clean:
  assumes "live_ok a" "ag_status a = RECONCILIATION_PENDING" "known_cleanup_order_ids a = []"
    "ag_pending_cancel_exchange_order_id a = None"
  shows "can_close a"
proof (rule can_close_via[where f = "ReconciliationMatched None"])
  have "ag_protected_qty a = 0"
    using assms live_lifecycle[OF assms(1)] known_cleanup_empty[of a] by (simp add: ok_stop_facts)
  then show "ok (reduce_fact a (next_header a) (ReconciliationMatched None))"
    using assms by (simp add: on_reconciliation_matched_def Let_def)
qed (use assms in \<open>auto simp: on_reconciliation_matched_def Let_def intro: can_close_closed\<close>)

lemma close_no_ids:
  assumes "live_ok a" "ag_status a = RECONCILIATION_PENDING" "known_cleanup_order_ids a = []"
  shows "can_close a"
proof (cases "ag_pending_cancel_exchange_order_id a")
  case None
  then show ?thesis using assms close_clean by blast
next
  case (Some i)
  then have i: "non_blank i" using assms(1) ok_ids(5) normal_non_blank live_lifecycle by blast
  show ?thesis
  proof (rule can_close_via[where f = "OwnedOrphanCancelConfirmed i"])
    fix a' fx
    assume r: "reduce_fact a (next_header a) (OwnedOrphanCancelConfirmed i) = Inr (a', fx)" "live_ok a'"
    show "can_close a'"
      using r assms(3) by (intro close_clean) (auto simp: on_owned_orphan_cancel_confirmed_def known_cleanup_empty)
  qed (use assms Some i in \<open>auto simp: on_owned_orphan_cancel_confirmed_def\<close>)
qed

definition owned_orders :: "trade_aggregate \<Rightarrow> nat" where
  "owned_orders a =
     (if ag_tp1_exchange_order_id a = None then 0 else 1)
     + (if ag_active_stop_exchange_order_id a = None then 0 else 1)
     + (if ag_initial_stop_exchange_order_id a = None then 0 else 1)"

lemma known_cleanup_iff:
  "i \<in> set (known_cleanup_order_ids a) \<longleftrightarrow>
     ag_tp1_exchange_order_id a = Some i \<or> ag_active_stop_exchange_order_id a = Some i
     \<or> ag_initial_stop_exchange_order_id a = Some i"
  by (cases "ag_tp1_exchange_order_id a"; cases "ag_active_stop_exchange_order_id a";
      cases "ag_initial_stop_exchange_order_id a") (auto simp: known_cleanup_order_ids_def)

lemma close_reconciling:
  assumes "live_ok a" "ag_status a = RECONCILIATION_PENDING"
  shows "can_close a"
  using assms
proof (induction "owned_orders a" arbitrary: a rule: less_induct)
  case less
  show ?case
  proof (cases "known_cleanup_order_ids a")
    case Nil
    then show ?thesis using less.prems close_no_ids by blast
  next
    case (Cons i ids)
    then have i: "i \<in> set (known_cleanup_order_ids a)" by simp
    then have nb: "non_blank i"
      using known_cleanup_normal[OF live_lifecycle[OF less.prems(1)]] normal_non_blank by blast
    show ?thesis
    proof (rule can_close_via[where f = "OwnedOrderAbsenceConfirmed i"])
      fix a' fx
      assume r: "reduce_fact a (next_header a) (OwnedOrderAbsenceConfirmed i) = Inr (a', fx)" "live_ok a'"
      then have "owned_orders a' < owned_orders a"
        using i by (auto simp: on_owned_order_absence_confirmed_def owned_orders_def known_cleanup_iff)
      then show "can_close a'"
        using r by (intro less.hyps) (auto simp: on_owned_order_absence_confirmed_def)
    qed (use less.prems i nb in \<open>auto simp: on_owned_order_absence_confirmed_def\<close>)
  qed
qed

lemma close_cancel:
  assumes "live_ok a" "phase a = Reconciling"
  shows "can_close a"
proof (cases "ag_status a = RECONCILIATION_PENDING")
  case False
  then have s: "ag_status a \<in> {CANCEL_REJECTED, CANCEL_OUTCOME_UNKNOWN}"
    using assms(2) by (cases "ag_status a") auto
  then obtain i where i: "ag_pending_cancel_exchange_order_id a = Some i"
    using live_lifecycle[OF assms(1)] by (auto simp: lifecycle_ok_def order_inv_def)
  show ?thesis
  proof (rule can_close_via[where f = "CancelOrderAbsenceConfirmed i"])
    fix a' fx
    assume "reduce_fact a (next_header a) (CancelOrderAbsenceConfirmed i) = Inr (a', fx)" "live_ok a'"
    then show "can_close a'"
      by (intro close_reconciling) (auto simp: on_cancel_order_absence_confirmed_def)
  qed (use assms s i in \<open>auto simp: on_cancel_order_absence_confirmed_def\<close>)
qed (use assms close_reconciling in blast)

lemma close_closing:
  assumes "live_ok a" "phase a = Closing"
  shows "can_close a"
proof (rule can_close_via[where f = PositionFlatConfirmed])
  have "ag_status a \<in> set flat_exit_statuses"
    using assms(2) by (cases "ag_status a") (auto simp: flat_exit_statuses_def)
  then show "ok (reduce_fact a (next_header a) PositionFlatConfirmed)"
    by (simp add: on_position_flat_confirmed_def Let_def)
  fix a' fx
  assume "reduce_fact a (next_header a) PositionFlatConfirmed = Inr (a', fx)" "live_ok a'"
  then show "can_close a'"
    by (intro close_reconciling) (auto simp: on_position_flat_confirmed_def Let_def)
qed (use assms in auto)

text \<open>With an active stop the Ticket owns an order, so a flat position seen at the venue is accepted.\<close>

lemma close_external_flat:
  assumes "live_ok a" "ag_status a \<in> set external_flat_statuses"
  shows "can_close a"
proof (rule can_close_via[where f = ExternalFlatDetected])
  have "phase a \<in> {Guarded, Runner}"
    using assms(2) by (auto simp: external_flat_statuses_def)
  then have "ag_active_stop_exchange_order_id a \<noteq> None"
    using live_lifecycle[OF assms(1)] ok_stop_facts(21,23)[of a] by blast
  then have "known_cleanup_order_ids a \<noteq> []" by (simp add: known_cleanup_empty)
  then show "ok (reduce_fact a (next_header a) ExternalFlatDetected)"
    using assms(2)
    by (simp add: on_external_flat_detected_def next_cleanup_order_id_def split: list.split)
  fix a' fx
  assume "reduce_fact a (next_header a) ExternalFlatDetected = Inr (a', fx)" "live_ok a'"
  then show "can_close a'"
    by (intro close_reconciling) (auto simp: on_external_flat_detected_def split: option.split_asm)
qed (use assms in auto)

lemma close_protected:
  assumes "live_ok a" "phase a \<in> {Guarded, Runner}"
  shows "can_close a"
proof (cases "ag_status a = POST_FILL_RISK_PENDING")
  case True
  show ?thesis
  proof (rule can_close_via[where f = "TakeProfitConfirmed ''r'' (ag_tp1_target_qty a)"])
    fix a' fx
    assume "reduce_fact a (next_header a) (TakeProfitConfirmed ''r'' (ag_tp1_target_qty a)) = Inr (a', fx)"
      "live_ok a'"
    then show "can_close a'"
      by (intro close_external_flat) (auto simp: on_take_profit_confirmed_def external_flat_statuses_def)
  qed (use assms True in \<open>auto simp: on_take_profit_confirmed_def\<close>)
next
  case False
  then have "ag_status a \<in> set external_flat_statuses"
    using assms(2) by (cases "ag_status a") (auto simp: external_flat_statuses_def)
  then show ?thesis using assms(1) close_external_flat by blast
qed

lemma close_protecting:
  assumes "live_ok a" "phase a = Protecting"
  shows "can_close a"
proof (cases "ag_status a = PROTECTION_PENDING")
  case True
  show ?thesis
  proof (rule can_close_via[where f = "InitialStopRejected ''r''"])
    fix a' fx
    assume "reduce_fact a (next_header a) (InitialStopRejected ''r'') = Inr (a', fx)" "live_ok a'"
    then show "can_close a'"
      by (intro close_closing) (auto simp: on_initial_stop_rejected_def split: if_split_asm)
  qed (use assms True in \<open>auto simp: on_initial_stop_rejected_def\<close>)
next
  case False
  then have s: "ag_status a = INITIAL_STOP_OUTCOME_UNKNOWN" using assms(2) by (cases "ag_status a") auto
  show ?thesis
  proof (rule can_close_via[where f = "InitialStopAbsenceConfirmed ''r''"])
    fix a' fx
    assume "reduce_fact a (next_header a) (InitialStopAbsenceConfirmed ''r'') = Inr (a', fx)" "live_ok a'"
    then show "can_close a'"
      by (intro close_closing) (auto simp: on_initial_stop_absence_confirmed_def split: if_split_asm)
  qed (use assms s in \<open>auto simp: on_initial_stop_absence_confirmed_def\<close>)
qed

lemma close_partial:
  assumes "live_ok a" "phase a = Partial" "\<not> stuck a"
  shows "can_close a"
proof -
  have s: "ag_status a \<in> {PARTIAL_FILL_INCIDENT, PARTIAL_FILL_CANCEL_OUTCOME_UNKNOWN}"
    using assms(2,3) by (cases "ag_status a") (auto simp: stuck_def)
  then obtain i where i: "ag_entry_exchange_order_id a = Some i"
    using assms(3) by (auto simp: stuck_def)
  show ?thesis
  proof (rule can_close_via[where f = "EntryRemainderCancelConfirmed i"])
    fix a' fx
    assume "reduce_fact a (next_header a) (EntryRemainderCancelConfirmed i) = Inr (a', fx)" "live_ok a'"
    then show "can_close a'"
      by (intro close_closing) (auto simp: on_entry_remainder_cancel_confirmed_def)
  qed (use assms s i in \<open>auto simp: on_entry_remainder_cancel_confirmed_def\<close>)
qed

lemma close_vacuum_cancelled:
  assumes "live_ok a" "ag_status a = ENTRY_VACUUM_CANCELLED"
  shows "can_close a"
proof -
  have ok: "order_inv a" "0 \<le> ag_position_qty a"
    using live_lifecycle[OF assms(1)] ok_facts(1) by (auto simp: lifecycle_ok_def)
  then obtain v where v: "ag_entry_vacuum_id a = Some v" "non_blank v"
    using assms(2) by (auto simp: order_inv_def)
  show ?thesis
  proof (cases "ag_position_qty a = 0")
    case True
    show ?thesis
      by (rule can_close_via[where f = "EntryVacuumAbsenceConfirmed v"])
        (use assms v True in \<open>auto simp: on_entry_vacuum_absence_confirmed_def intro: can_close_closed\<close>)
  next
    case False
    then obtain p where p: "ag_average_fill_price a = Some p" "0 < p"
      using ok assms(2) by (auto simp: order_inv_def positive_opt_def)
    show ?thesis
    proof (rule can_close_via[where f = "VacuumPartialFlattenRequired v (ag_position_qty a) p ''r''"])
      fix a' fx
      assume "reduce_fact a (next_header a) (VacuumPartialFlattenRequired v (ag_position_qty a) p ''r'')
        = Inr (a', fx)" "live_ok a'"
      then show "can_close a'"
        by (intro close_closing) (auto simp: on_vacuum_partial_flatten_required_def)
    qed (use assms v p False ok in \<open>auto simp: on_vacuum_partial_flatten_required_def\<close>)
  qed
qed

text \<open>A working ENTRY order that vanished without a fill leaves the Ticket cancelled.\<close>

lemma close_order_gone:
  assumes "live_ok a" "ag_status a \<in> {ENTRY_ACCEPTED, ENTRY_VACUUM_CANCEL_PENDING, ENTRY_VACUUM_CANCEL_REJECTED}"
  shows "can_close a"
proof -
  have ok: "order_inv a" using live_lifecycle[OF assms(1)] by (simp add: lifecycle_ok_def)
  have "\<exists>i. ag_entry_exchange_order_id a = Some i"
    using assms(2) live_lifecycle[OF assms(1)] by (elim insertE) (simp_all add: ok_order_facts)
  then obtain i where i: "ag_entry_exchange_order_id a = Some i" "non_blank i"
    using ok_ids(1)[OF live_lifecycle[OF assms(1)]] normal_non_blank by blast
  have "phase a = Entering \<or> phase a = Vacuum" using assms(2) by auto
  then have "ag_entry_vacuum_id a = None \<or> (\<exists>v. ag_entry_vacuum_id a = Some v \<and> non_blank v)"
    using ok by (auto simp: order_inv_def)
  then obtain v where v: "non_blank v" "ag_entry_vacuum_id a = None \<or> ag_entry_vacuum_id a = Some v"
    using blank_r(1) by blast
  have q: "0 \<le> tk_quantity (ag_ticket a)"
    using assms(1) valid_ticket_facts(1) by (auto simp: live_ok_def less_imp_le)
  show ?thesis
  proof (rule can_close_via[where f = "EntryVacuumOrderAbsenceConfirmed v i 0 None"])
    fix a' fx
    assume "reduce_fact a (next_header a) (EntryVacuumOrderAbsenceConfirmed v i 0 None) = Inr (a', fx)"
      "live_ok a'"
    then show "can_close a'"
      by (intro close_vacuum_cancelled) (auto simp: on_entry_vacuum_order_absence_confirmed_def)
  qed (use assms i v q in \<open>auto simp: on_entry_vacuum_order_absence_confirmed_def vacuum_fill_ok_def positive_opt_def\<close>)
qed

lemma close_vacuum:
  assumes "live_ok a" "phase a = Vacuum"
  shows "can_close a"
proof (cases "ag_status a = ENTRY_VACUUM_CANCEL_OUTCOME_UNKNOWN")
  case True
  have "\<exists>i. ag_pending_cancel_exchange_order_id a = Some i"
    using live_lifecycle[OF assms(1)] True by (simp add: ok_order_facts)
  then obtain i where i: "ag_pending_cancel_exchange_order_id a = Some i" by blast
  show ?thesis
  proof (rule can_close_via[where f = "EntryVacuumCancelConfirmed i"])
    fix a' fx
    assume "reduce_fact a (next_header a) (EntryVacuumCancelConfirmed i) = Inr (a', fx)" "live_ok a'"
    then show "can_close a'"
      by (intro close_order_gone) (auto simp: on_entry_vacuum_cancel_confirmed_def)
  qed (use assms True i in \<open>auto simp: on_entry_vacuum_cancel_confirmed_def\<close>)
next
  case False
  then have "ag_status a = ENTRY_VACUUM_CANCELLED
      \<or> ag_status a \<in> {ENTRY_VACUUM_CANCEL_PENDING, ENTRY_VACUUM_CANCEL_REJECTED}"
    using assms(2) by (cases "ag_status a") auto
  then show ?thesis using assms(1) close_vacuum_cancelled close_order_gone by blast
qed

lemma close_entering:
  assumes "live_ok a" "phase a = Entering"
  shows "can_close a"
proof -
  consider "ag_status a \<in> {LEVERAGE_PENDING, LEVERAGE_OUTCOME_UNKNOWN}"
    | "ag_status a \<in> {LEVERAGE_CONFIRMED, ENTRY_PENDING}" | "ag_status a = ENTRY_OUTCOME_UNKNOWN"
    | "ag_status a = ENTRY_ACCEPTED"
    using assms(2) by (cases "ag_status a") auto
  then show ?thesis
  proof cases
    case 1
    show ?thesis
      by (rule can_close_via[where f = "LeverageRejected ''r''"])
        (use assms 1 in \<open>auto simp: on_leverage_rejected_def intro!: can_close_closed\<close>)
  next
    case 2
    show ?thesis
      by (rule can_close_via[where f = "EntryRejected ''r''"])
        (use assms 2 in \<open>auto simp: on_entry_rejected_def intro!: can_close_closed\<close>)
  next
    case 3
    show ?thesis
      by (rule can_close_via[where f = "EntryAbsenceConfirmed ''r''"])
        (use assms 3 in \<open>auto simp: on_entry_absence_confirmed_def intro!: can_close_closed\<close>)
  next
    case 4
    then show ?thesis using assms(1) close_order_gone by blast
  qed
qed

lemma live_can_close:
  assumes "live_ok a" "\<not> stuck a"
  shows "can_close a"
proof (cases "phase a")
  case Entering
  then show ?thesis using assms close_entering by blast
next
  case Vacuum
  then show ?thesis using assms close_vacuum by blast
next
  case Partial
  then show ?thesis using assms close_partial by blast
next
  case Protecting
  then show ?thesis using assms close_protecting by blast
next
  case Closing
  then show ?thesis using assms close_closing by blast
next
  case Reconciling
  then show ?thesis using assms close_cancel by blast
qed (use assms close_protected can_close_closed in auto)

section \<open>Dead ends\<close>

text \<open>A stuck aggregate accepts no event that changes its status out of the dead end.\<close>

lemma stuck_step:
  assumes "stuck a" "reduce_fact a h f = Inr (a', fx)"
  shows "stuck a' \<and> phase a' = Partial"
  using assms by (cases f) (auto simp: step_simps stuck_def split: step_splits)

text \<open>Statuses in which the reducer refuses every event.\<close>

definition absorbing :: "aggregate_status \<Rightarrow> bool" where
  "absorbing s \<longleftrightarrow> s \<in> {LEVERAGE_REJECTED, ENTRY_REJECTED, ENTRY_RECONCILED_ABSENT,
     PARTIAL_FILL_CANCEL_REJECTED}"

lemma absorbing_refuses:
  assumes "absorbing (ag_status a)"
  shows "\<not> ok (reduce_fact a h f)"
  using assms by (cases f) (auto simp: step_simps absorbing_def ok_iff split: step_splits)

end
