(* ===== verification/Custody.thy ===== *)
theory Custody
  imports Lifecycle_Liveness
begin

text \<open>
  The abstract contract of a Ticket: its custody is the phase, the open quantity and the quantity the
  active stop covers. \<open>custody_step\<close> is the specification of how custody may change; the reducer refines
  it. The second half classifies the order-submitting effects: what they are for, and how large they are.
\<close>

section \<open>The contract\<close>

type_synonym custody = "lifecycle_phase \<times> decimal \<times> decimal"

inductive custody_step :: "custody \<Rightarrow> custody \<Rightarrow> bool" where
  idle: "custody_step (p, q, c) (p, q, c)"
| observe: "p = Entering \<or> p = Vacuum \<Longrightarrow> 0 \<le> q' \<Longrightarrow> custody_step (p, q, 0) (Vacuum, q', 0)"
| partial: "0 < q' \<Longrightarrow> custody_step (Entering, 0, 0) (Partial, q', 0)"
| fill: "p = Entering \<or> p = Vacuum \<Longrightarrow> 0 < q' \<Longrightarrow> p' = Protecting \<or> p' = Closing
    \<Longrightarrow> custody_step (p, q, 0) (p', q', 0)"
| discard: "p = Entering \<or> p = Vacuum \<Longrightarrow> custody_step (p, 0, 0) (Discarded, 0, 0)"
| protect: "p' = Guarded \<or> p' = Closing \<Longrightarrow> 0 < q \<Longrightarrow> custody_step (Protecting, q, 0) (p', q, q)"
| unprotected: "custody_step (Protecting, q, 0) (Closing, q, 0)"
| take_profit: "0 < q' \<Longrightarrow> q' \<le> q \<Longrightarrow> custody_step (Guarded, q, q) (Runner, q', q)"
| trail: "custody_step (Runner, q, c) (Runner, q, q)"
| leave: "p = Partial \<or> p = Guarded \<or> p = Runner \<Longrightarrow> custody_step (p, q, c) (Closing, q, c)"
| flat: "p = Guarded \<or> p = Runner \<or> p = Closing \<Longrightarrow> custody_step (p, q, c) (Reconciling, 0, c)"
| clean: "custody_step (Reconciling, 0, c) (Reconciling, 0, 0)"
| settle: "custody_step (Reconciling, 0, 0) (Settled, 0, 0)"

definition custody_of :: "trade_aggregate \<Rightarrow> custody" where
  "custody_of a = (phase a, ag_position_qty a, ag_protected_qty a)"

text \<open>Custody never moves back to an earlier phase.\<close>

primrec phase_rank :: "lifecycle_phase \<Rightarrow> nat" where
  "phase_rank Entering = 0"
| "phase_rank Vacuum = 1"
| "phase_rank Partial = 1"
| "phase_rank Protecting = 2"
| "phase_rank Guarded = 3"
| "phase_rank Runner = 4"
| "phase_rank Closing = 5"
| "phase_rank Reconciling = 6"
| "phase_rank Settled = 7"
| "phase_rank Discarded = 7"

lemma custody_rank: "custody_step (p, q, c) (p', q', c') \<Longrightarrow> phase_rank p \<le> phase_rank p'"
  by (erule custody_step.cases) auto

lemma ok_unprotected:
  assumes "lifecycle_ok a"
  shows "phase a = Entering \<Longrightarrow> ag_protected_qty a = 0" "phase a = Vacuum \<Longrightarrow> ag_protected_qty a = 0"
    "phase a = Partial \<Longrightarrow> ag_protected_qty a = 0" "phase a = Protecting \<Longrightarrow> ag_protected_qty a = 0"
    "phase a = Discarded \<Longrightarrow> ag_protected_qty a = 0" "phase a = Settled \<Longrightarrow> ag_protected_qty a = 0"
  using assms by (simp_all add: ok_stop_facts)

lemma custody_refines:
  assumes "lifecycle_ok a" "valid_ticket (ag_ticket a)" "representable (tk_quantity (ag_ticket a))"
    "valid_fact t f" "reduce_fact a h f = Inr (a', fx)"
  shows "custody_step (custody_of a) (custody_of a')"
  using assms valid_ticket_facts(1)[OF assms(2)]
  by (cases f) (auto simp: step_simps custody_of_def ok_facts ok_unprotected ok_stop_facts(26,27)
      runner_quantity_le late_fill_ok_def retained_ok_def moving_stop_def
      intro: custody_step.intros split: step_splits,
    auto simp: ok_facts intro!: custody_step.protect)

section \<open>Order-submitting effects\<close>

text \<open>The quantity of an effect that reduces the position, and the command kind an effect prepares.\<close>

fun closing_quantity :: "kernel_effect \<Rightarrow> decimal option" where
  "closing_quantity (PrepareInitialStopCommand _ q _) = Some q"
| "closing_quantity (PrepareTakeProfitCommand _ q _) = Some q"
| "closing_quantity (PrepareProtectionReplacementCommand _ q _ _ _) = Some q"
| "closing_quantity (PrepareExitCommand _ q _) = Some q"
| "closing_quantity (PrepareControlledFlattenCommand _ q) = Some q"
| "closing_quantity (RequestControlledFlatten _ q) = Some q"
| "closing_quantity _ = None"

fun is_take_profit :: "kernel_effect \<Rightarrow> bool" where
  "is_take_profit (PrepareTakeProfitCommand _ _ _) = True"
| "is_take_profit _ = False"

fun submitted_kind :: "kernel_effect \<Rightarrow> exchange_command_kind option" where
  "submitted_kind (PrepareSetLeverageCommand _) = Some SET_LEVERAGE"
| "submitted_kind (PrepareEntryCommand _ _) = Some ENTRY"
| "submitted_kind (PrepareInitialStopCommand _ _ _) = Some INITIAL_STOP"
| "submitted_kind (PrepareTakeProfitCommand _ _ _) = Some TAKE_PROFIT"
| "submitted_kind (PrepareProtectionReplacementCommand _ _ _ _ _) = Some REPLACE_PROTECTION"
| "submitted_kind (PrepareExitCommand _ _ _) = Some EXIT"
| "submitted_kind (PrepareControlledFlattenCommand _ _) = Some CONTROLLED_FLATTEN"
| "submitted_kind _ = None"

text \<open>The submission whose outcome a status is waiting to learn.\<close>

primrec unknown_kind :: "aggregate_status \<Rightarrow> exchange_command_kind option" where
  "unknown_kind LEVERAGE_OUTCOME_UNKNOWN = Some SET_LEVERAGE"
| "unknown_kind ENTRY_OUTCOME_UNKNOWN = Some ENTRY"
| "unknown_kind INITIAL_STOP_OUTCOME_UNKNOWN = Some INITIAL_STOP"
| "unknown_kind TP1_OUTCOME_UNKNOWN = Some TAKE_PROFIT"
| "unknown_kind RUNNER_REPLACEMENT_OUTCOME_UNKNOWN = Some REPLACE_PROTECTION"
| "unknown_kind EXIT_OUTCOME_UNKNOWN = Some EXIT"
| "unknown_kind CONTROLLED_FLATTEN_OUTCOME_UNKNOWN = Some CONTROLLED_FLATTEN"
| "unknown_kind LEVERAGE_PENDING = None"
| "unknown_kind LEVERAGE_CONFIRMED = None"
| "unknown_kind LEVERAGE_REJECTED = None"
| "unknown_kind ENTRY_PENDING = None"
| "unknown_kind ENTRY_ACCEPTED = None"
| "unknown_kind ENTRY_REJECTED = None"
| "unknown_kind ENTRY_RECONCILED_ABSENT = None"
| "unknown_kind ENTRY_VACUUM_CANCEL_PENDING = None"
| "unknown_kind ENTRY_VACUUM_CANCEL_REJECTED = None"
| "unknown_kind ENTRY_VACUUM_CANCEL_OUTCOME_UNKNOWN = None"
| "unknown_kind ENTRY_VACUUM_CANCELLED = None"
| "unknown_kind PARTIAL_FILL_INCIDENT = None"
| "unknown_kind PARTIAL_FILL_CANCEL_REJECTED = None"
| "unknown_kind PARTIAL_FILL_CANCEL_OUTCOME_UNKNOWN = None"
| "unknown_kind PROTECTION_PENDING = None"
| "unknown_kind POST_FILL_RISK_PENDING = None"
| "unknown_kind TP1_PENDING = None"
| "unknown_kind TP1_REJECTED = None"
| "unknown_kind POSITION_PROTECTED = None"
| "unknown_kind RUNNER_REPLACEMENT_PENDING = None"
| "unknown_kind RUNNER_REPLACEMENT_REJECTED = None"
| "unknown_kind RUNNER_OLD_STOP_CANCEL_PENDING = None"
| "unknown_kind RUNNER_OLD_STOP_CANCEL_REJECTED = None"
| "unknown_kind RUNNER_OLD_STOP_CANCEL_OUTCOME_UNKNOWN = None"
| "unknown_kind RUNNER_PROTECTED = None"
| "unknown_kind EXIT_PENDING = None"
| "unknown_kind EXIT_ACCEPTED = None"
| "unknown_kind EXIT_REJECTED = None"
| "unknown_kind CONTROLLED_FLATTEN_PENDING = None"
| "unknown_kind CONTROLLED_FLATTEN_ACCEPTED = None"
| "unknown_kind CONTROLLED_FLATTEN_REJECTED = None"
| "unknown_kind RECONCILIATION_PENDING = None"
| "unknown_kind CANCEL_REJECTED = None"
| "unknown_kind CANCEL_OUTCOME_UNKNOWN = None"
| "unknown_kind SETTLEMENT_PENDING = None"
| "unknown_kind REVIEW_PENDING = None"
| "unknown_kind TERMINAL = None"

fun is_absence_proof :: "lifecycle_fact \<Rightarrow> bool" where
  "is_absence_proof (TakeProfitAbsenceConfirmed _) = True"
| "is_absence_proof (ProtectionReplacementAbsenceConfirmed _) = True"
| "is_absence_proof _ = False"

lemma resolve_if_effects [simp]:
  "e \<in> set (resolve_if b a k) \<Longrightarrow> closing_quantity e = None"
  "e \<in> set (resolve_if b a k) \<Longrightarrow> submitted_kind e = None"
  by (auto simp: resolve_if_def split: if_splits)

lemma release_all_effects [simp]:
  "e \<in> set (release_all a) \<Longrightarrow> closing_quantity e = None"
  "e \<in> set (release_all a) \<Longrightarrow> submitted_kind e = None"
  by (auto simp: release_all_def)

lemma closing_quantity_step:
  assumes "lifecycle_ok a" "valid_ticket (ag_ticket a)" "valid_fact t f"
    "reduce_fact a h f = Inr (a', fx)" "e \<in> set fx" "closing_quantity e = Some q"
  shows "0 < q \<and> (if is_take_profit e then q < ag_position_qty a' else q = ag_position_qty a')"
  using assms valid_ticket_facts(1)[OF assms(2)]
  by (cases f) (auto simp: step_simps ok_facts ok_order_facts tp1_leg_facts retained_ok_def
      dest: resolve_if_effects release_all_effects split: step_splits option.split_asm)

lemma unknown_kind_step:
  assumes "reduce_fact a h f = Inr (a', fx)" "unknown_kind (ag_status a) = Some k"
    "e \<in> set fx" "submitted_kind e = Some k"
  shows "is_absence_proof f"
  using assms
  by (cases f) (auto simp: step_simps dest: resolve_if_effects release_all_effects
      split: step_splits option.split_asm)

end
