(* ===== verification/Lifecycle_Demo.thy ===== *)
theory Lifecycle_Demo
  imports Lifecycle_Liveness
begin

text \<open>
  Concrete lifecycles. A long Ticket of two contracts is issued, filled, protected, stress-tested, takes
  profit on one contract, moves its runner stop, exits and is reviewed. The instances of the properties
  in this development are evaluated on the prefixes of this run.
\<close>

definition demo_digest :: string where
  "demo_digest = ''sha256:'' @ replicate 64 (CHR ''a'')"

definition demo_ticket :: trade_ticket where
  "demo_ticket =
     \<lparr>tk_identity = \<lparr>ti_ticket_id = ''t'', ti_exposure_episode_id = ''x'', ti_signal_event_id = ''s'',
        ti_runtime = \<lparr>ri_runtime_profile_id = ''p'', ri_strategy_group_id = ''g'',
                      ri_strategy_version_id = ''v'', ri_event_spec_id = ''event_spec:MPG-001:MPG-LONG:v3''\<rparr>,
        ti_netting_domain = \<lparr>nd_venue_id = ''b'', nd_account_id = ''a'',
                             nd_exchange_instrument_id = ''i'', nd_position_side = Long\<rparr>\<rparr>,
      tk_owner_policy_id = ''o'', tk_owner_policy_version = 1, tk_runtime_scope_id = ''r'',
      tk_runtime_scope_version = 1, tk_universe_version_id = ''u'',
      tk_universe_semantic_digest = demo_digest, tk_fact_digest = demo_digest,
      tk_exposure_family = long_continuation, tk_active_family_ticket_count_at_claim = 0,
      tk_family_ticket_limit = 1, tk_directional_risk_at_stop_at_claim = 0,
      tk_directional_stop_risk_limit_fraction = 1, tk_min_materialization_ratio = 1,
      tk_minimum_stop_risk_budget = 20, tk_exit_policy_id = ''q'', tk_exit_policy_semantic_hash = demo_digest,
      tk_exit_binding_id = None, tk_exit_binding_semantic_hash = None,
      tk_exit_binding_authority_version = None, tk_capacity_claim_id = ''c'',
      tk_created_at_ms = 1, tk_expires_at_ms = 2, tk_entry_reference_price = 100, tk_quantity = 2,
      tk_notional = 200, tk_planned_stop_risk_budget = 20, tk_post_fill_stop_risk_limit = 24,
      tk_selected_leverage = 5, tk_leverage_change_required = False, tk_reserved_margin = 40,
      tk_risk_reservation_basis = ''planned'', tk_margin_mode = ''cross'',
      tk_cross_margin_stress_model_id = ''cross-margin-stop-stress-v1'',
      tk_post_stop_stress_multiple = 1, tk_claim_stress_proof_digest = demo_digest,
      tk_risk_at_stop = 20, tk_entry_order_type = MARKET, tk_entry_limit_price = None,
      tk_initial_stop_price = 90, tk_pre_tp1_reclaim_price = None, tk_exposure_session_end_ms = None,
      tk_take_profit_prices = [120], tk_take_profit_quantities = [1], tk_status = T_ISSUED,
      tk_selection_authority_id = None\<rparr>"

lemma demo_digest_ok [simp]: "is_sha256_digest demo_digest" "py_strip demo_digest = demo_digest"
  by code_simp+

lemma demo_ids_ok [simp]:
  "py_strip ''t'' = ''t''" "py_strip ''x'' = ''x''" "py_strip ''s'' = ''s''" "py_strip ''p'' = ''p''"
  "py_strip ''g'' = ''g''" "py_strip ''v'' = ''v''" "py_strip ''event_spec:MPG-001:MPG-LONG:v3'' = ''event_spec:MPG-001:MPG-LONG:v3''" "py_strip ''b'' = ''b''" "py_strip ''e'' = ''e''"
  "py_strip ''a'' = ''a''" "py_strip ''i'' = ''i''" "py_strip ''o'' = ''o''" "py_strip ''r'' = ''r''"
  "py_strip ''u'' = ''u''" "py_strip ''q'' = ''q''" "py_strip ''c'' = ''c''"
  "py_strip ''planned'' = ''planned''" "py_strip ''stop'' = ''stop''" "py_strip ''tp'' = ''tp''"
  "py_strip ''run'' = ''run''" "py_strip ''out'' = ''out''" "py_strip ''in'' = ''in''"
  by code_simp+

lemma valid_demo_ticket: "valid_ticket demo_ticket"
  by (simp add: valid_ticket_def mk_ticket_identity_def mk_runtime_identity_def mk_netting_domain_def
      normalize_ticket_def ticket_fields_ok_def ticket_shape_ok_def demo_ticket_def non_blank_def
      blank_to_none_def py_strip_opt_def dec_sum_def dec_add_def)

section \<open>Stress evidence\<close>

definition demo_brackets :: "maintenance_margin_bracket list" where
  "demo_brackets =
     [\<lparr>mb_bracket_id = ''a'', mb_notional_floor = 0, mb_notional_cap = Some 1000,
       mb_maintenance_margin_rate = 0, mb_maintenance_amount = 0\<rparr>,
      \<lparr>mb_bracket_id = ''b'', mb_notional_floor = 1000, mb_notional_cap = None,
       mb_maintenance_margin_rate = 1/2, mb_maintenance_amount = 500\<rparr>]"

definition demo_snapshot0 :: account_risk_snapshot where
  "demo_snapshot0 =
     \<lparr>as_venue_id = ''b'', as_account_id = ''a'', as_account_risk_mode = ''standard_usdm_single_asset'',
      as_settlement_asset = ''USDT'', as_position_mode = ''independent_sides'', as_margin_mode = ''cross'',
      as_exchange_instrument_id = ''i'', as_mark_price = 100, as_configured_leverage = 5,
      as_total_wallet_balance = 1000, as_total_margin_balance = 1000, as_total_initial_margin = 0,
      as_total_maintenance_margin = 0, as_available_margin = 1000, as_account_positions = [],
      as_observed_at_ms = 1, as_valid_until_ms = 2, as_snapshot_digest = []\<rparr>"

definition demo_snapshot :: account_risk_snapshot where
  "demo_snapshot = demo_snapshot0\<lparr>as_snapshot_digest := snapshot_canonical_digest demo_snapshot0\<rparr>"

definition demo_request :: stress_request where
  "demo_request =
     \<lparr>sr_account_snapshot = demo_snapshot, sr_maintenance_margin_brackets = demo_brackets,
      sr_maintenance_margin_brackets_digest = demo_digest, sr_notional_coefficient = 1,
      sr_notional_coefficient_certified = True, sr_evaluated_side = Long,
      sr_reference_entry_price = 100, sr_initial_stop_price = 90, sr_post_stop_stress_multiple = 1,
      sr_projected_instrument_positions =
        [\<lparr>sp_position_side = Long, sp_quantity = 2, sp_average_entry_price = 100\<rparr>]\<rparr>"

definition demo_evidence :: stress_evidence where
  "demo_evidence =
     \<lparr>se_request = demo_request,
      se_proof = \<lparr>sf_model_id = ''cross-margin-stop-stress-v1'',
        sf_snapshot_digest = as_snapshot_digest demo_snapshot,
        sf_maintenance_margin_brackets_digest = demo_digest, sf_status = PASSED,
        sf_stress_price = 80, sf_stress_boundary_clamped_to_zero = False,
        sf_minimum_margin_surplus = Some 960, sf_minimum_margin_surplus_price = Some 80,
        sf_evaluated_point_count = 3, sf_contradiction_reason = None,
        sf_proof_digest = demo_digest\<rparr>\<rparr>"

lemma demo_snapshot_digest:
  "is_sha256_digest (as_snapshot_digest demo_snapshot)"
  "snapshot_canonical_digest demo_snapshot = as_snapshot_digest demo_snapshot"
  by (simp_all add: demo_snapshot_def snapshot_canonical_digest_def snapshot_payload_def)

lemma valid_demo_request: "valid_stress_request demo_request"
proof -
  have "valid_snapshot demo_snapshot"
    unfolding valid_snapshot_def using demo_snapshot_digest
    by (simp add: demo_snapshot_def demo_snapshot0_def)
  moreover have "list_all valid_bracket demo_brackets"
    by (simp add: demo_brackets_def valid_bracket_def)
  moreover have "demo_brackets \<noteq> []" by (simp add: demo_brackets_def)
  ultimately show ?thesis
    by (simp add: valid_stress_request_def demo_request_def valid_stress_position_def)
qed

lemma valid_demo_evidence: "valid_stress_evidence demo_evidence"
  using valid_demo_request demo_snapshot_digest
  by (simp add: valid_stress_evidence_def demo_evidence_def valid_stress_proof_def demo_request_def)

section \<open>The run\<close>

definition demo_header :: "int \<Rightarrow> event_header" where
  "demo_header n = \<lparr>eh_event_id = ''e'', eh_sequence = n, eh_occurred_at_ms = n\<rparr>"

definition demo_assessment :: stress_assessment where
  "demo_assessment =
     \<lparr>ps_status = stress_passed, ps_evidence = demo_evidence, ps_owner_policy_id = ''o'',
      ps_owner_policy_version = 1, ps_filled_qty = 2, ps_average_fill_price = 100,
      ps_initial_stop_price = 90, ps_initial_stop_exchange_order_id = ''stop''\<rparr>"

definition demo_fill :: entry_fill where
  "demo_fill =
     \<lparr>ef_filled_qty = 2, ef_average_fill_price = 100,
      ef_post_fill_risk = \<lparr>pd_status = WITHIN_BUDGET, pd_disposition = NORMAL, pd_actual_stop_risk = 20\<rparr>,
      ef_venue_reported_liquidation_price = None, ef_position_observed_at_ms = 3\<rparr>"

definition demo_replacement :: "string \<Rightarrow> decimal \<Rightarrow> string \<Rightarrow> int \<Rightarrow> replacement_confirmation" where
  "demo_replacement order_id price replaces watermark =
     \<lparr>rc_exchange_order_id = order_id, rc_protected_qty = 1, rc_stop_price = price,
      rc_replaces_exchange_order_id = replaces, rc_source_watermark_ms = watermark\<rparr>"

text \<open>The events after the issue, up to an established runner, and from the exit to the review.\<close>

definition demo_entry_facts :: "lifecycle_fact list" where
  "demo_entry_facts =
     [EntryAccepted ''in'', EntryFilled demo_fill, InitialStopConfirmed ''stop'' 2,
      PostFillStressAssessed demo_assessment, TakeProfitConfirmed ''tp'' 1]"

definition demo_runner_facts :: "lifecycle_fact list" where
  "demo_runner_facts =
     [TakeProfitFilled 1 120 101, ProtectionReplacementConfirmed (demo_replacement ''run'' 101 ''stop'' 7),
      ProtectionCancelConfirmed ''stop'']"

definition demo_exit_facts :: "lifecycle_fact list" where
  "demo_exit_facts =
     [ExitRequested ''x'', ExitAccepted ''out'', PositionFlatConfirmed,
      OwnedOrderAbsenceConfirmed ''run'', ReconciliationMatched None, BudgetSettled, ReviewRecorded ''v'']"

fun demo_stream :: "int \<Rightarrow> lifecycle_fact list \<Rightarrow> trade_event list" where
  "demo_stream n [] = []"
| "demo_stream n (f # fs) = TicketEvent (demo_header n) ''t'' f # demo_stream (n + 1) fs"

definition demo_events :: "lifecycle_fact list \<Rightarrow> trade_event list" where
  "demo_events facts = TicketIssued (demo_header 1) demo_ticket # demo_stream 2 facts"

definition demo_initial :: trade_aggregate where
  "demo_initial = new_aggregate demo_ticket ENTRY_PENDING 1 1"

lemma demo_ticket_sel [simp]:
  "ti_ticket_id (tk_identity demo_ticket) = ''t''" "tk_quantity demo_ticket = 2"
  "tk_initial_stop_price demo_ticket = 90" "tk_take_profit_prices demo_ticket = [120]"
  "tk_take_profit_quantities demo_ticket = [1]" "tk_leverage_change_required demo_ticket = False"
  "tk_owner_policy_id demo_ticket = ''o''" "tk_owner_policy_version demo_ticket = 1"
  "tk_post_stop_stress_multiple demo_ticket = 1" "nd_position_side (ti_netting_domain (tk_identity demo_ticket)) = Long"
  by (simp_all add: demo_ticket_def)

lemma demo_header_sel [simp]: "eh_sequence (demo_header n) = n" "eh_occurred_at_ms (demo_header n) = n"
  by (simp_all add: demo_header_def)

lemma blank_demo [simp]:
  "non_blank ''in''" "non_blank ''stop''" "non_blank ''tp''" "non_blank ''run''" "non_blank ''out''"
  "non_blank ''v''" "non_blank ''x''"
  by code_simp+

definition demo_guarded :: trade_aggregate where
  "demo_guarded = demo_initial
     \<lparr>ag_status := POSITION_PROTECTED, ag_version := 6, ag_last_event_sequence := 6,
      ag_entry_lane_held := False, ag_position_qty := 2, ag_average_fill_price := Some 100,
      ag_actual_stop_risk := Some 20, ag_post_fill_risk_status := Some WITHIN_BUDGET,
      ag_post_fill_disposition := Some NORMAL, ag_post_fill_stress_status := Some stress_passed,
      ag_post_fill_stress_proof_digest := Some demo_digest, ag_protected_qty := 2,
      ag_entry_exchange_order_id := Some ''in'', ag_initial_stop_exchange_order_id := Some ''stop'',
      ag_active_stop_exchange_order_id := Some ''stop'', ag_active_stop_price := Some 90,
      ag_tp1_exchange_order_id := Some ''tp'', ag_tp1_target_qty := 1\<rparr>"

definition demo_guarded_effects :: "kernel_effect list" where
  "demo_guarded_effects =
     [PrepareEntryCommand demo_ticket None, PrepareInitialStopCommand ''t'' 2 90,
      ReleaseEntryLane ''t'', PrepareTakeProfitCommand ''t'' 1 120]"

definition demo_runner :: trade_aggregate where
  "demo_runner = demo_guarded
     \<lparr>ag_status := RUNNER_PROTECTED, ag_version := 9, ag_last_event_sequence := 9,
      ag_position_qty := 1, ag_protected_qty := 1, ag_tp1_filled_qty := 1,
      ag_tp1_exchange_order_id := None, ag_break_even_floor_price := Some 101,
      ag_initial_stop_exchange_order_id := None, ag_active_stop_exchange_order_id := Some ''run'',
      ag_active_stop_price := Some 101, ag_runner_stop_watermark_ms := Some 7\<rparr>"

definition demo_runner_effects :: "kernel_effect list" where
  "demo_runner_effects =
     [PrepareProtectionReplacementCommand ''t'' 1 101 ''stop'' 7,
      CancelProtectionOrders ''t'' ''stop'' Conditional runner_old_stop]"

definition demo_terminal :: trade_aggregate where
  "demo_terminal = demo_runner
     \<lparr>ag_status := TERMINAL, ag_version := 16, ag_last_event_sequence := 16,
      ag_position_qty := 0, ag_protected_qty := 0, ag_active_stop_exchange_order_id := None,
      ag_active_stop_price := None, ag_exit_exchange_order_id := Some ''out'',
      ag_review_id := Some ''v''\<rparr>"

definition demo_exit_effects :: "kernel_effect list" where
  "demo_exit_effects =
     [PrepareExitCommand ''t'' 1 ''x'',
      CancelProtectionOrders ''t'' ''run'' Conditional reconciliation_cleanup,
      ResolveTicketIncidentsAtClosure ''t'',
      ReleaseCapitalAuthorities
        \<lparr>cr_ticket_id = ''t'', cr_account_capacity_domain_key = ''b:a'',
         cr_netting_domain_key = ''b:a:i:long'', cr_notional = 200, cr_risk_at_stop = 20,
         cr_reserved_margin = 40, cr_released_at_ms = 14\<rparr>,
      ProjectTerminalOwnerState ''t'']"

lemmas demo_eval = reduce_event_def transition_def step_simps require_def require_status_def
  require_status_in_def after_def resolve_if_def known_cleanup_order_ids_def next_cleanup_order_id_def
  clear_cleanup_order_def drop_replaced_stop_def

lemma demo_guarded_run:
  "replay_from None (demo_events demo_entry_facts) = Inr (Some demo_guarded, demo_guarded_effects)"
  by (simp add: demo_events_def demo_entry_facts_def demo_guarded_def demo_guarded_effects_def
      demo_initial_def demo_fill_def demo_assessment_def stress_identity_matches_def
      stress_evidence_matches_def demo_evidence_def demo_request_def demo_snapshot_def demo_snapshot0_def
      demo_ticket_def tp1_leg_def new_aggregate_def demo_eval)

lemma demo_runner_run:
  "replay_from (Some demo_guarded) (demo_stream 7 demo_runner_facts) = Inr (Some demo_runner, demo_runner_effects)"
  by (simp add: demo_runner_facts_def demo_runner_def demo_runner_effects_def demo_guarded_def
      demo_initial_def demo_replacement_def new_aggregate_def dec_sub_def demo_eval)

lemma demo_exit_run:
  "replay_from (Some demo_runner) (demo_stream 10 demo_exit_facts) = Inr (Some demo_terminal, demo_exit_effects)"
  by (simp add: demo_exit_facts_def demo_terminal_def demo_runner_def demo_exit_effects_def demo_guarded_def
      demo_initial_def new_aggregate_def netting_domain_key_def demo_ticket_def demo_eval)

section \<open>Histories\<close>

lemma demo_stream_append:
  "demo_stream n (fs @ gs) = demo_stream n fs @ demo_stream (n + int (length fs)) gs"
  by (induction fs arbitrary: n) (simp_all add: algebra_simps)

lemma valid_demo_header: "0 < n \<Longrightarrow> valid_header (demo_header n)"
  by (simp add: demo_header_def valid_header_def normal_id_def)

lemma valid_demo_stream:
  assumes "\<And>t. list_all (valid_fact t) fs" "0 < n"
  shows "list_all valid_event (demo_stream n fs)"
  using assms
proof (induction fs arbitrary: n)
  case (Cons f fs)
  have "list_all valid_event (demo_stream (n + 1) fs)"
    using Cons.prems Cons.IH[of "n + 1"] by simp
  then show ?case
    using Cons.prems by (simp add: valid_demo_header normal_id_def)
qed simp

lemma valid_demo_facts:
  "list_all (valid_fact t) demo_entry_facts" "list_all (valid_fact t) demo_runner_facts"
  "list_all (valid_fact t) demo_exit_facts"
  using valid_demo_evidence
  by (simp_all add: demo_entry_facts_def demo_runner_facts_def demo_exit_facts_def assessment_ok_def
      demo_assessment_def non_blank_def) (simp add: demo_evidence_def)

lemma valid_demo_events:
  assumes "\<And>t. list_all (valid_fact t) fs"
  shows "list_all valid_event (demo_events fs)"
  using valid_demo_stream[OF assms, of 2]
  by (simp add: demo_events_def valid_demo_header valid_demo_ticket)

lemma demo_guarded_history: "history demo_guarded (demo_events demo_entry_facts) demo_guarded_effects"
  by (rule replay_history[OF demo_guarded_run]) (simp add: valid_demo_events valid_demo_facts)

lemma demo_runner_history:
  "history demo_runner (demo_events (demo_entry_facts @ demo_runner_facts))
     (demo_guarded_effects @ demo_runner_effects)"
proof (rule replay_history)
  have "demo_events (demo_entry_facts @ demo_runner_facts)
      = demo_events demo_entry_facts @ demo_stream 7 demo_runner_facts"
    by (simp add: demo_events_def demo_stream_append) (simp add: demo_entry_facts_def)
  then show "replay_from None (demo_events (demo_entry_facts @ demo_runner_facts))
      = Inr (Some demo_runner, demo_guarded_effects @ demo_runner_effects)"
    by (simp add: replay_from_append demo_guarded_run demo_runner_run)
qed (simp add: valid_demo_events valid_demo_facts)

lemma demo_terminal_history:
  "history demo_terminal (demo_events (demo_entry_facts @ demo_runner_facts @ demo_exit_facts))
     (demo_guarded_effects @ demo_runner_effects @ demo_exit_effects)"
proof (rule replay_history)
  have "demo_events (demo_entry_facts @ demo_runner_facts @ demo_exit_facts)
      = demo_events demo_entry_facts @ demo_stream 7 demo_runner_facts @ demo_stream 10 demo_exit_facts"
    by (simp add: demo_events_def demo_stream_append)
      (simp add: demo_entry_facts_def demo_runner_facts_def)
  then show "replay_from None (demo_events (demo_entry_facts @ demo_runner_facts @ demo_exit_facts))
      = Inr (Some demo_terminal, demo_guarded_effects @ demo_runner_effects @ demo_exit_effects)"
    by (simp add: replay_from_append demo_guarded_run demo_runner_run demo_exit_run)
qed (simp add: valid_demo_events valid_demo_facts)

section \<open>Two irregular runs\<close>

text \<open>
  A take-profit confirmation accepted before the post-fill stress verdict, then a flat position: the
  Ticket reaches its terminal status.
\<close>

definition demo_early_tp_facts :: "lifecycle_fact list" where
  "demo_early_tp_facts =
     [EntryAccepted ''in'', EntryFilled demo_fill, InitialStopConfirmed ''stop'' 2,
      TakeProfitConfirmed ''tp'' 0, ExternalFlatDetected, OwnedOrderAbsenceConfirmed ''tp'',
      OwnedOrderAbsenceConfirmed ''stop'', ReconciliationMatched None, BudgetSettled, ReviewRecorded ''v'']"

definition demo_early_tp :: trade_aggregate where
  "demo_early_tp = demo_initial
     \<lparr>ag_status := TERMINAL, ag_version := 11, ag_last_event_sequence := 11,
      ag_average_fill_price := Some 100, ag_actual_stop_risk := Some 20,
      ag_post_fill_risk_status := Some WITHIN_BUDGET, ag_post_fill_disposition := Some NORMAL,
      ag_entry_exchange_order_id := Some ''in'', ag_review_id := Some ''v''\<rparr>"

lemma demo_early_tp_history:
  "\<exists>fx. history demo_early_tp (demo_events demo_early_tp_facts) fx"
proof -
  have "\<exists>fx. replay_from None (demo_events demo_early_tp_facts) = Inr (Some demo_early_tp, fx)"
    by (simp add: demo_events_def demo_early_tp_facts_def demo_early_tp_def demo_initial_def demo_fill_def
        new_aggregate_def demo_eval)
  moreover have "list_all valid_event (demo_events demo_early_tp_facts)"
    by (rule valid_demo_events) (simp add: demo_early_tp_facts_def)
  ultimately show ?thesis using replay_history by blast
qed

text \<open>A partial fill of an accepted ENTRY whose remainder the venue refuses to cancel.\<close>

definition demo_partial_facts :: "lifecycle_fact list" where
  "demo_partial_facts =
     [EntryAccepted ''in'', EntryPartiallyFilled 1 2 100, EntryRemainderCancelRejected ''in'' ''r'']"

definition demo_partial :: trade_aggregate where
  "demo_partial = demo_initial
     \<lparr>ag_status := PARTIAL_FILL_CANCEL_REJECTED, ag_version := 4, ag_last_event_sequence := 4,
      ag_position_qty := 1, ag_average_fill_price := Some 100, ag_entry_exchange_order_id := Some ''in''\<rparr>"

lemma demo_partial_history: "\<exists>fx. history demo_partial (demo_events demo_partial_facts) fx"
proof -
  have "\<exists>fx. replay_from None (demo_events demo_partial_facts) = Inr (Some demo_partial, fx)"
    by (simp add: demo_events_def demo_partial_facts_def demo_partial_def demo_initial_def new_aggregate_def demo_eval)
  moreover have "list_all valid_event (demo_events demo_partial_facts)"
    by (rule valid_demo_events) (simp add: demo_partial_facts_def)
  ultimately show ?thesis using replay_history by blast
qed

lemma demo_representable [simp]: "representable 2"
  using representable_dec_fix[of 2] by simp

end
