(* ===== verification/Lifecycle_Properties.thy ===== *)
theory Lifecycle_Properties
  imports Custody Lifecycle_Demo
begin

text \<open>
  The correctness properties of the Ticket lifecycle, stated over every history the reducer accepts, with
  an instance of each on a concrete run.
\<close>

section \<open>Helpers\<close>

lemma history_live:
  assumes "history a es fx"
  shows "live_ok a"
proof -
  have "0 < ag_last_event_sequence a"
    using assms
  proof (induction rule: history.induct)
    case (issued e a fx)
    then show ?case by (auto simp: reduce_event_None_iff)
  next
    case (step a es fx e a' fx')
    then show ?case by (auto simp: reduce_event_Some_iff reduce_fact_frame)
  qed
  then show ?thesis using lc.history_inv[OF assms] by (simp add: live_ok_def)
qed

text \<open>One accepted event on a reachable aggregate, unfolded to the reducer.\<close>

lemma reduce_event_step:
  assumes "valid_event e" "reduce_event (Some a) e = Inr (a', fx)"
  obtains h f where "e = TicketEvent h (agg_ticket_id a) f" "valid_fact (eh_occurred_at_ms h) f"
    "eh_sequence h = ag_last_event_sequence a + 1" "reduce_fact a h f = Inr (a', fx)"
  using assms by (auto simp: reduce_event_Some_iff)

lemma runner_watermark_step:
  assumes "runner_ok a" "reduce_fact a h f = Inr (a', fx)" "ag_runner_stop_watermark_ms a \<noteq> None"
  shows "ag_runner_stop_watermark_ms a' \<noteq> None"
    and "ag_active_stop_price a = None \<Longrightarrow> ag_active_stop_price a' = None"
proof -
  show "ag_runner_stop_watermark_ms a' \<noteq> None"
    using assms(2,3) by (cases f) (auto simp: step_simps split: step_splits)
  have ok: "lifecycle_ok a" "phase a \<noteq> Protecting"
    using assms runner_facts(4)[OF assms(1)] by (auto simp: runner_ok_def)
  show "ag_active_stop_price a = None \<Longrightarrow> ag_active_stop_price a' = None"
    using assms(2) ok(2) ok_stop_facts(20)[OF ok(1)]
    by (cases f) (auto simp: step_simps split: step_splits)
qed

lemma runner_stop_trace:
  assumes "replay_from (Some a) es = Inr (Some b, fx)" "list_all valid_event es" "runner_ok a"
    "valid_ticket (ag_ticket a)" "ag_runner_stop_watermark_ms a \<noteq> None"
    "ag_active_stop_price b = Some q'"
  shows "\<exists>q. ag_active_stop_price a = Some q
    \<and> (q' = q \<or> stop_improves (nd_position_side (agg_domain a)) q' q)"
  using assms
proof (induction es arbitrary: a fx)
  case (Cons e es)
  obtain a1 fx1 gx where e: "reduce_event (Some a) e = Inr (a1, fx1)"
    and r: "replay_from (Some a1) es = Inr (Some b, gx)"
    using Cons.prems(1) by auto
  obtain h f where f: "valid_fact (eh_occurred_at_ms h) f" "reduce_fact a h f = Inr (a1, fx1)"
    using e Cons.prems(2) by (auto elim: reduce_event_step)
  have frame: "ag_ticket a1 = ag_ticket a" "ag_identity a1 = ag_identity a"
    using reduce_fact_frame[OF f(2)] by simp_all
  have w: "ag_runner_stop_watermark_ms a1 \<noteq> None"
    using runner_watermark_step(1)[OF Cons.prems(3) f(2) Cons.prems(5)] .
  obtain q1 where q1: "ag_active_stop_price a1 = Some q1"
      "q' = q1 \<or> stop_improves (nd_position_side (agg_domain a)) q' q1"
    using Cons.IH[OF r _ rn.inv_step[OF Cons.prems(3,4) f] _ w Cons.prems(6)] Cons.prems(2,4) frame
    by auto
  obtain q where q: "ag_active_stop_price a = Some q"
    using runner_watermark_step(2)[OF Cons.prems(3) f(2) Cons.prems(5)] q1(1) by fastforce
  show ?case
    using active_stop_step[OF Cons.prems(3) f(2) q q1(1) Cons.prems(5)] q q1
    by (auto simp: stop_improves_def split: if_splits)
qed auto

section \<open>Properties\<close>

text \<open>
  C1. In every reachable state that carries steady exposure (from the confirmed initial stop to the
  runner), the Ticket has an active stop order with a price, its position is open, and the stop covers
  the whole position; outside a pending replacement it covers it exactly.
\<close>

theorem protection_maintained:
  assumes "history a es fx" "phase_of (ag_status a) \<in> {Guarded, Runner}"
    "representable (tk_quantity (ag_ticket a))"
  shows "ag_active_stop_exchange_order_id a \<noteq> None \<and> ag_active_stop_price a \<noteq> None
    \<and> 0 < ag_position_qty a \<and> ag_position_qty a \<le> ag_protected_qty a
    \<and> (\<not> moving_stop (ag_status a) \<longrightarrow> ag_protected_qty a = ag_position_qty a)"
proof -
  have ok: "lifecycle_ok a" using lc.history_inv[OF assms(1)] by blast
  show ?thesis
    using assms(2,3) ok by (elim insertE) (simp_all add: ok_facts ok_stop_facts)
qed

theorem protection_maintained_witness:
  "ag_active_stop_exchange_order_id demo_runner \<noteq> None \<and> ag_active_stop_price demo_runner \<noteq> None
    \<and> 0 < ag_position_qty demo_runner \<and> ag_protected_qty demo_runner = ag_position_qty demo_runner"
proof -
  have "phase_of (ag_status demo_runner) \<in> {Guarded, Runner}" "representable (tk_quantity (ag_ticket demo_runner))"
    "\<not> moving_stop (ag_status demo_runner)"
    by (simp_all add: demo_runner_def demo_guarded_def demo_initial_def moving_stop_def)
  then show ?thesis using protection_maintained[OF demo_runner_history] by blast
qed

text \<open>
  C2. The position never becomes negative and never exceeds the Ticket quantity; it is zero before the
  ENTRY fills, while reconciling, after settlement and on a discarded Ticket.
\<close>

theorem exposure_bounded:
  assumes "history a es fx" "representable (tk_quantity (ag_ticket a))"
  shows "0 \<le> ag_position_qty a \<and> ag_position_qty a \<le> tk_quantity (ag_ticket a)
    \<and> (phase_of (ag_status a) \<in> {Entering, Reconciling, Settled, Discarded} \<longrightarrow> ag_position_qty a = 0)"
proof -
  have "quantity_inv a" using lc.history_inv[OF assms(1)] by (simp add: lifecycle_ok_def)
  then show ?thesis using assms(2) by (simp add: quantity_inv_def)
qed

theorem exposure_bounded_witness:
  "0 \<le> ag_position_qty demo_terminal \<and> ag_position_qty demo_terminal \<le> tk_quantity (ag_ticket demo_terminal)
    \<and> ag_position_qty demo_terminal = 0"
proof -
  have "representable (tk_quantity (ag_ticket demo_terminal))" "phase_of (ag_status demo_terminal) = Settled"
    by (simp_all add: demo_terminal_def demo_runner_def demo_guarded_def demo_initial_def)
  then show ?thesis using exposure_bounded[OF demo_terminal_history] by blast
qed

text \<open>
  C3. Every order the reducer asks for that reduces a position has the size of the position left after
  the event (the take-profit leg strictly less, so that a runner remains): no stop, exit, replacement or
  flatten order can reverse the position or leave part of it behind.
\<close>

theorem closing_orders_fit_position:
  assumes "history a es fx" "valid_event e" "reduce_event (Some a) e = Inr (a', fx')"
    "x \<in> set fx'" "closing_quantity x = Some q"
  shows "0 < q \<and> (if is_take_profit x then q < ag_position_qty a' else q = ag_position_qty a')"
proof -
  have ok: "lifecycle_ok a" "valid_ticket (ag_ticket a)" using lc.history_inv[OF assms(1)] by blast+
  show ?thesis
    by (rule reduce_event_step[OF assms(2,3)]) (rule closing_quantity_step[OF ok _ _ assms(4,5)])
qed

theorem closing_orders_fit_position_witness:
  "0 < (1::decimal) \<and> (if is_take_profit (PrepareExitCommand ''t'' 1 ''x'')
     then 1 < ag_position_qty (demo_runner\<lparr>ag_status := EXIT_PENDING, ag_version := 10, ag_last_event_sequence := 10\<rparr>)
     else 1 = ag_position_qty (demo_runner\<lparr>ag_status := EXIT_PENDING, ag_version := 10, ag_last_event_sequence := 10\<rparr>))"
  by (rule closing_orders_fit_position[OF demo_runner_history,
        where e = "TicketEvent (demo_header 10) ''t'' (ExitRequested ''x'')"
          and fx' = "[PrepareExitCommand ''t'' 1 ''x'']"])
    (simp_all add: valid_demo_header normal_id_def reduce_event_Some_iff on_exit_requested_def
       demo_runner_def demo_guarded_def demo_initial_def)

text \<open>
  C4. The capital of a Ticket is released exactly once in its life, on entering a discarded or settled
  status, and only when it is flat with no protective order, no pending cancel and nothing protected.
\<close>

theorem capital_released_once_when_flat:
  assumes "history a es fx"
  shows "effect_count is_capital_release fx =
      (if phase_of (ag_status a) \<in> {Discarded, Settled} then 1 else 0)
    \<and> (0 < effect_count is_capital_release fx \<longrightarrow>
         ag_position_qty a = 0 \<and> ag_protected_qty a = 0 \<and> known_cleanup_order_ids a = []
         \<and> (phase_of (ag_status a) = Settled \<longrightarrow> ag_pending_cancel_exchange_order_id a = None))"
proof -
  have count: "effect_count is_capital_release fx =
      (if phase_of (ag_status a) \<in> {Discarded, Settled} then 1 else 0)"
    using capital.history_charge[OF assms] by (simp add: capital_charge_def)
  have ok: "lifecycle_ok a" using lc.history_inv[OF assms] by blast
  have "phase a \<in> {Discarded, Settled} \<Longrightarrow>
      ag_position_qty a = 0 \<and> ag_protected_qty a = 0 \<and> known_cleanup_order_ids a = []"
    using ok by (elim insertE) (simp_all add: ok_facts ok_stop_facts known_cleanup_empty)
  then show ?thesis using count ok by (auto simp: ok_stop_facts split: if_splits)
qed

theorem capital_released_once_when_flat_witness:
  "effect_count is_capital_release (demo_guarded_effects @ demo_runner_effects @ demo_exit_effects) = 1"
proof -
  have "phase demo_terminal = Settled" by (simp add: demo_terminal_def)
  then show ?thesis using capital_released_once_when_flat[OF demo_terminal_history] by simp
qed

text \<open>
  C5. The ENTRY lane is released at most once, exactly when the aggregate stops holding it, and it is
  held for as long as the exposure is not proven protected: through entry, Vacuum, partial fill, stop
  placement and the post-fill stress verdict.
\<close>

theorem entry_lane_ledger:
  assumes "history a es fx"
  shows "effect_count is_release_lane fx = (if ag_entry_lane_held a then 0 else 1)
    \<and> (phase_of (ag_status a) \<in> {Entering, Vacuum, Partial, Protecting}
         \<or> ag_status a = POST_FILL_RISK_PENDING \<longrightarrow> ag_entry_lane_held a)"
  using lane.history_charge[OF assms] lc.history_inv[OF assms]
  by (simp add: lane_charge_def lifecycle_ok_def lane_inv_def)

theorem entry_lane_ledger_witness:
  "effect_count is_release_lane demo_guarded_effects = 1"
  using entry_lane_ledger[OF demo_guarded_history] by (simp add: demo_guarded_def)

text \<open>
  At most one ENTRY command is ever prepared for a Ticket, and none while its leverage change is
  pending, unknown or rejected.
\<close>

theorem entry_prepared_at_most_once:
  assumes "history a es fx"
  shows "effect_count is_prepare_entry fx \<le>
    (if ag_status a \<in> {LEVERAGE_PENDING, LEVERAGE_OUTCOME_UNKNOWN, LEVERAGE_REJECTED} then 0 else 1)"
  using entry.history_bound[OF assms] by (simp add: entry_charge_def)

theorem entry_prepared_at_most_once_witness:
  "effect_count is_prepare_entry (demo_guarded_effects @ demo_runner_effects) \<le> 1"
  using entry_prepared_at_most_once[OF demo_runner_history] by (simp add: demo_runner_def)

text \<open>
  C6. The event log is gapless: the version and the last sequence equal the number of events, the events
  carry the sequences 1, 2, 3, \<dots>, the first one issued the Ticket the aggregate still carries, and every
  later one names that Ticket.
\<close>

theorem event_log_integrity:
  assumes "history a es fx"
  shows "ag_version a = int (length es) \<and> ag_last_event_sequence a = int (length es)
    \<and> map event_sequence es = map int [1..<Suc (length es)]
    \<and> (\<exists>h rest. es = TicketIssued h (ag_ticket a) # rest
        \<and> list_all (\<lambda>e. \<exists>h f. e = TicketEvent h (ti_ticket_id (tk_identity (ag_ticket a))) f) rest)
    \<and> ag_identity a = tk_identity (ag_ticket a)"
  by (rule history_log[OF assms])

theorem event_log_integrity_witness:
  "ag_version demo_runner = int (length (demo_events (demo_entry_facts @ demo_runner_facts)))"
  using event_log_integrity[OF demo_runner_history] by blast

text \<open>
  C7. The reducer refines the custody contract: every accepted event is a step of \<open>custody_step\<close> on the
  phase, the open quantity and the covered quantity. In particular custody never returns to an earlier
  phase.
\<close>

theorem reducer_refines_custody:
  assumes "history a es fx" "valid_event e" "reduce_event (Some a) e = Inr (a', fx')"
    "representable (tk_quantity (ag_ticket a))"
  shows "custody_step (custody_of a) (custody_of a')
    \<and> phase_rank (phase_of (ag_status a)) \<le> phase_rank (phase_of (ag_status a'))"
proof -
  have ok: "lifecycle_ok a" "valid_ticket (ag_ticket a)" using lc.history_inv[OF assms(1)] by blast+
  have "custody_step (custody_of a) (custody_of a')"
    by (rule reduce_event_step[OF assms(2,3)]) (rule custody_refines[OF ok assms(4)])
  then show ?thesis using custody_rank by (auto simp: custody_of_def)
qed

theorem reducer_refines_custody_witness:
  "custody_step (custody_of demo_runner)
     (custody_of (demo_runner\<lparr>ag_status := EXIT_PENDING, ag_version := 10, ag_last_event_sequence := 10\<rparr>))
   \<and> phase_rank (phase_of (ag_status demo_runner))
      \<le> phase_rank (phase_of (ag_status (demo_runner\<lparr>ag_status := EXIT_PENDING, ag_version := 10,
          ag_last_event_sequence := 10\<rparr>)))"
  by (rule reducer_refines_custody[OF demo_runner_history,
        where e = "TicketEvent (demo_header 10) ''t'' (ExitRequested ''x'')"
          and fx' = "[PrepareExitCommand ''t'' 1 ''x'']"])
    (simp_all add: valid_demo_header normal_id_def reduce_event_Some_iff on_exit_requested_def
       demo_runner_def demo_guarded_def demo_initial_def)

text \<open>
  C8. Every reachable lifecycle can be brought to closure: unless it is in one of the dead ends \<open>stuck\<close>
  names, some continuation of validated events is accepted and ends in a discarded or settled status.
\<close>

theorem reachable_can_close:
  assumes "history a es fx" "\<not> stuck a"
  shows "\<exists>es' b fx'. list_all valid_event es' \<and> replay_from (Some a) es' = Inr (Some b, fx')
    \<and> phase_of (ag_status b) \<in> {Discarded, Settled}"
  using live_can_close[OF history_live[OF assms(1)] assms(2)] by (simp add: can_close_def)

theorem reachable_can_close_witness:
  "\<exists>es' b fx'. list_all valid_event es' \<and> replay_from (Some demo_guarded) es' = Inr (Some b, fx')
    \<and> phase_of (ag_status b) \<in> {Discarded, Settled}"
  by (rule reachable_can_close[OF demo_guarded_history]) (simp add: stuck_def demo_guarded_def)



text \<open>
  C23. Once the runner has a stop of its own, the active stop price never loosens: over any continuation,
  the price of the active stop is the same or strictly better (higher for a long, lower for a short
  position).
\<close>

theorem runner_stop_never_loosens:
  assumes "history a es fx" "ag_runner_stop_watermark_ms a \<noteq> None"
    "list_all valid_event es'" "replay_from (Some a) es' = Inr (Some b, fx')"
    "ag_active_stop_price b = Some q'"
  shows "\<exists>q. ag_active_stop_price a = Some q
    \<and> (q' = q \<or> stop_improves (nd_position_side (ti_netting_domain (ag_identity a))) q' q)"
  using runner_stop_trace[OF assms(4,3) _ _ assms(2,5)] rn.history_inv[OF assms(1)] by blast

theorem runner_stop_never_loosens_witness:
  "\<exists>q. ag_active_stop_price demo_runner = Some q
    \<and> (101 = q \<or> stop_improves (nd_position_side (ti_netting_domain (ag_identity demo_runner))) 101 q)"
  by (rule runner_stop_never_loosens[OF demo_runner_history, where es' = "[]" and b = demo_runner])
    (simp_all add: demo_runner_def)

text \<open>
  A submission whose outcome is unknown is never prepared again before its absence is proven: in a
  status that waits for the outcome of a command kind, only a reconciled absence makes the reducer
  prepare that kind. The ENTRY, the leverage change, the initial stop, the exit and the flatten are not
  prepared again at all from there.
\<close>

theorem unknown_outcome_not_resubmitted:
  assumes "reduce_event (Some a) e = Inr (a', fx)" "unknown_kind (ag_status a) = Some k"
    "x \<in> set fx" "submitted_kind x = Some k"
  shows "(\<exists>h t c. e = TicketEvent h t (TakeProfitAbsenceConfirmed c) \<and> k = TAKE_PROFIT)
    \<or> (\<exists>h t c. e = TicketEvent h t (ProtectionReplacementAbsenceConfirmed c) \<and> k = REPLACE_PROTECTION)"
proof -
  obtain h f where e: "e = TicketEvent h (agg_ticket_id a) f" "reduce_fact a h f = Inr (a', fx)"
    using assms(1) by (auto simp: reduce_event_Some_iff)
  have "is_absence_proof f" using unknown_kind_step[OF e(2) assms(2-4)] .
  then show ?thesis
    using e assms(2) by (cases f) (auto simp: step_simps)
qed

theorem unknown_outcome_not_resubmitted_witness:
  "let a = demo_guarded\<lparr>ag_status := TP1_OUTCOME_UNKNOWN\<rparr>;
       e = TicketEvent (demo_header 7) ''t'' (TakeProfitAbsenceConfirmed ''x'')
   in (\<exists>a' fx. reduce_event (Some a) e = Inr (a', fx) \<and> PrepareTakeProfitCommand ''t'' 1 120 \<in> set fx)
    \<and> ((\<exists>h t c. e = TicketEvent h t (TakeProfitAbsenceConfirmed c) \<and> TAKE_PROFIT = TAKE_PROFIT)
       \<or> (\<exists>h t c. e = TicketEvent h t (ProtectionReplacementAbsenceConfirmed c)
            \<and> TAKE_PROFIT = REPLACE_PROTECTION))"
proof -
  let ?a = "demo_guarded\<lparr>ag_status := TP1_OUTCOME_UNKNOWN\<rparr>"
  let ?e = "TicketEvent (demo_header 7) ''t'' (TakeProfitAbsenceConfirmed ''x'')"
  let ?x = "PrepareTakeProfitCommand ''t'' 1 120"
  have r: "\<exists>a'. reduce_event (Some ?a) ?e
      = Inr (a', [ResolveIncident ''t'' ''take_profit_outcome_unknown'', ?x])"
    by (simp add: reduce_event_Some_iff on_take_profit_absence_confirmed_def demo_guarded_def demo_initial_def)
  then show ?thesis
    using unknown_outcome_not_resubmitted[of ?a ?e _ _ TAKE_PROFIT ?x] by (fastforce simp: Let_def)
qed

text \<open>
  Before take profit the exposure has passed the post-fill gate: from \<open>POST_FILL_RISK_PENDING\<close> the
  reducer prepares a take-profit order only on a stress assessment whose validated evidence passed and
  matches the Ticket's policy, fill, stop and account, and kept exposure always has the disposition
  NORMAL.
\<close>

theorem take_profit_requires_passed_stress:
  assumes "history a es fx" "ag_status a = POST_FILL_RISK_PENDING" "valid_event e"
    "reduce_event (Some a) e = Inr (a', fx')" "x \<in> set fx'" "is_take_profit x"
  shows "ag_post_fill_disposition a = Some NORMAL
    \<and> (\<exists>h t s. e = TicketEvent h t (PostFillStressAssessed s)
        \<and> valid_stress_evidence (ps_evidence s) \<and> sf_status (se_proof (ps_evidence s)) = PASSED
        \<and> stress_identity_matches a s \<and> stress_evidence_matches a s)"
proof -
  have "ag_post_fill_disposition a = Some NORMAL"
    using lc.history_inv[OF assms(1)] assms(2) by (simp add: ok_order_facts)
  moreover obtain h f where e: "e = TicketEvent h (agg_ticket_id a) f"
      "valid_fact (eh_occurred_at_ms h) f" "reduce_fact a h f = Inr (a', fx')"
    using assms(3,4) by (auto elim: reduce_event_step)
  moreover have "\<exists>s. f = PostFillStressAssessed s"
    using e(3) assms(2,5,6) by (cases f) (auto simp: step_simps resolve_if_def split: step_splits)
  ultimately show ?thesis
    using assms(2,5,6) by (auto simp: step_simps assessment_ok_def split: step_splits)
qed

theorem take_profit_requires_passed_stress_witness:
  "\<exists>a e a' fx' x. ag_status a = POST_FILL_RISK_PENDING \<and> reduce_event (Some a) e = Inr (a', fx')
     \<and> x \<in> set fx' \<and> is_take_profit x \<and> ag_post_fill_disposition a = Some NORMAL"
proof -
  let ?fs = "[EntryAccepted ''in'', EntryFilled demo_fill, InitialStopConfirmed ''stop'' 2]"
  let ?e = "TicketEvent (demo_header 5) ''t'' (PostFillStressAssessed demo_assessment)"
  let ?a = "demo_guarded\<lparr>ag_status := POST_FILL_RISK_PENDING, ag_version := 4, ag_last_event_sequence := 4,
      ag_entry_lane_held := True, ag_post_fill_stress_status := None,
      ag_post_fill_stress_proof_digest := None, ag_tp1_exchange_order_id := None, ag_tp1_target_qty := 0\<rparr>"
  let ?b = "demo_guarded\<lparr>ag_status := TP1_PENDING, ag_version := 5, ag_last_event_sequence := 5,
      ag_tp1_exchange_order_id := None\<rparr>"
  let ?fx = "[ReleaseEntryLane ''t'', PrepareTakeProfitCommand ''t'' 1 120]"
  have "\<exists>fx. replay_from None (demo_events ?fs) = Inr (Some ?a, fx)"
    by (simp add: demo_events_def demo_guarded_def demo_initial_def demo_fill_def new_aggregate_def demo_eval)
  moreover have "list_all valid_event (demo_events ?fs)" by (rule valid_demo_events) simp
  ultimately obtain fx where hist: "history ?a (demo_events ?fs) fx" using replay_history by blast
  have valid: "valid_event ?e"
    using valid_demo_facts(1)[of 5] valid_demo_header[of 5] by (simp add: demo_entry_facts_def normal_id_def)
  have red: "reduce_event (Some ?a) ?e = Inr (?b, ?fx)"
    by (simp add: demo_guarded_def demo_initial_def demo_assessment_def stress_identity_matches_def
      stress_evidence_matches_def demo_evidence_def demo_request_def demo_snapshot_def demo_snapshot0_def
      demo_ticket_def tp1_leg_def new_aggregate_def demo_eval)
  have "ag_post_fill_disposition ?a = Some NORMAL"
    using take_profit_requires_passed_stress[OF hist _ valid red, of "PrepareTakeProfitCommand ''t'' 1 120"]
    by simp
  then show ?thesis
    using red by (intro exI[of _ ?a] exI[of _ ?e] exI[of _ ?b] exI[of _ ?fx]
        exI[of _ "PrepareTakeProfitCommand ''t'' 1 120"]) simp
qed

text \<open>
  A Ticket can end its life with the ENTRY lane still held: a take-profit confirmation is accepted
  before the stress verdict, and a flat position seen at the venue then leads to \<open>TERMINAL\<close> without any
  effect that releases the lane.
\<close>

theorem terminal_with_lane_held:
  "\<exists>a es fx. history a es fx \<and> ag_status a = TERMINAL \<and> ag_entry_lane_held a
     \<and> effect_count is_release_lane fx = 0"
proof -
  obtain fx where h: "history demo_early_tp (demo_events demo_early_tp_facts) fx"
    using demo_early_tp_history by blast
  have "ag_status demo_early_tp = TERMINAL" "ag_entry_lane_held demo_early_tp"
    by (simp_all add: demo_early_tp_def demo_initial_def)
  moreover have "effect_count is_release_lane fx = 0"
    using lane.history_charge[OF h] calculation(2) by (simp add: lane_charge_def)
  ultimately show ?thesis using h by blast
qed


end
