(* ===== verification/Cleanup_Termination.thy ===== *)
theory Cleanup_Termination
  imports Lifecycle_Properties
begin

text \<open>
  The clean-up loop of a flat position: the reconciler confirms, order by order, that nothing the Ticket owned
  remains at the venue. The loop ends: every accepted confirmation lowers the measure \<open>cleanup_work\<close>, and a
  Ticket with work left always accepts one more.
\<close>

definition cleanup_work :: "trade_aggregate \<Rightarrow> nat" where
  "cleanup_work a = owned_orders a + (if ag_pending_cancel_exchange_order_id a = None then 0 else 1)"

text \<open>The confirmations of the loop, and its closing event.\<close>

fun confirms_cleanup :: "trade_event \<Rightarrow> bool" where
  "confirms_cleanup (TicketEvent h t (OwnedOrderAbsenceConfirmed i)) = True"
| "confirms_cleanup (TicketEvent h t (OwnedOrphanCancelConfirmed i)) = True"
| "confirms_cleanup _ = False"

lemma cleanup_step:
  assumes "reduce_event (Some a) e = Inr (b, fx)" "confirms_cleanup e"
  shows "cleanup_work b < cleanup_work a" "ag_status b = RECONCILIATION_PENDING" "fx = []"
  using assms
  by (cases e rule: confirms_cleanup.cases;
      auto simp: reduce_event_Some_iff on_owned_order_absence_confirmed_def on_owned_orphan_cancel_confirmed_def
        cleanup_work_def owned_orders_def known_cleanup_iff)+

lemma cleanup_run:
  assumes "replay_from (Some a) cs = Inr (Some b, fx)" "list_all confirms_cleanup cs" "ag_status a = RECONCILIATION_PENDING"
  shows "length cs + cleanup_work b \<le> cleanup_work a \<and> ag_status b = RECONCILIATION_PENDING \<and> fx = []"
  using assms
proof (induction cs arbitrary: a fx)
  case (Cons e cs)
  then obtain c gx hx where c: "reduce_event (Some a) e = Inr (c, gx)" "replay_from (Some c) cs = Inr (Some b, hx)" "fx = gx @ hx"
    by auto
  note s = cleanup_step[OF c(1)]
  show ?case using Cons.IH[OF c(2)] Cons.prems(2) s c(3) by fastforce
qed auto

lemma replay_stays: "replay_from (Some a) es = Inr (x, fx) \<Longrightarrow> \<exists>b. x = Some b"
  by (induction es arbitrary: a fx) auto

text \<open>With work left, the loop has a next confirmation.\<close>

lemma cleanup_progress:
  assumes "live_ok a" "ag_status a = RECONCILIATION_PENDING" "cleanup_work a \<noteq> 0"
  shows "\<exists>f b. confirms_cleanup (TicketEvent h t f) \<and> valid_fact 1 f \<and> reduce_fact a (next_header a) f = Inr (b, [])"
proof (cases "known_cleanup_order_ids a")
  case Nil
  then have "owned_orders a = 0" by (simp add: owned_orders_def known_cleanup_empty)
  then obtain i where i: "ag_pending_cancel_exchange_order_id a = Some i"
    using assms(3) by (auto simp: cleanup_work_def split: if_splits)
  then have "non_blank i" using assms(1) ok_ids(5) normal_non_blank live_lifecycle by blast
  then show ?thesis
    using assms(2) i by (intro exI[of _ "OwnedOrphanCancelConfirmed i"])
      (auto simp: on_owned_orphan_cancel_confirmed_def transition_def)
next
  case (Cons i ids)
  then have i: "i \<in> set (known_cleanup_order_ids a)" by simp
  then have "non_blank i" using known_cleanup_normal[OF live_lifecycle[OF assms(1)]] normal_non_blank by blast
  then show ?thesis
    using assms(2) i by (intro exI[of _ "OwnedOrderAbsenceConfirmed i"])
      (auto simp: on_owned_order_absence_confirmed_def transition_def)
qed

text \<open>Following confirmations until no work is left ends in settlement.\<close>

lemma cleanup_completes:
  assumes "live_ok a" "ag_status a = RECONCILIATION_PENDING"
  shows "\<exists>cs m b fx. list_all valid_event (cs @ [m]) \<and> list_all confirms_cleanup cs
    \<and> replay_from (Some a) (cs @ [m]) = Inr (Some b, fx) \<and> ag_status b = SETTLEMENT_PENDING"
  using assms
proof (induction "cleanup_work a" arbitrary: a rule: less_induct)
  case less
  have id: "normal_id (agg_ticket_id a)"
    using less.prems(1) valid_ticket_id[of "ag_ticket a"] by (auto simp: live_ok_def normal_id_def)
  let ?event = "TicketEvent (next_header a) (agg_ticket_id a)"
  show ?case
  proof (cases "cleanup_work a")
    case 0
    then have z: "known_cleanup_order_ids a = []" "ag_pending_cancel_exchange_order_id a = None"
      by (auto simp: cleanup_work_def owned_orders_def known_cleanup_empty split: if_splits)
    then have "ag_protected_qty a = 0"
      using less.prems live_lifecycle[OF less.prems(1)] known_cleanup_empty[of a] by (simp add: ok_stop_facts)
    then have "\<exists>b fx. reduce_fact a (next_header a) (ReconciliationMatched None) = Inr (b, fx) \<and> ag_status b = SETTLEMENT_PENDING"
      using z less.prems(2) by (auto simp: on_reconciliation_matched_def Let_def transition_def)
    then obtain b fx where "reduce_event (Some a) (?event (ReconciliationMatched None)) = Inr (b, fx)"
        "ag_status b = SETTLEMENT_PENDING" by (auto simp: reduce_event_Some_iff)
    moreover have "valid_event (?event (ReconciliationMatched None))" using id valid_next_header[OF less.prems(1)] by simp
    ultimately show ?thesis by (intro exI[of _ "[]"] exI[of _ "?event (ReconciliationMatched None)"]) auto
  next
    case (Suc n)
    obtain f b where f: "confirms_cleanup (?event f)" "valid_fact 1 f" "reduce_fact a (next_header a) f = Inr (b, [])"
      using cleanup_progress[OF less.prems, of "next_header a" "agg_ticket_id a"] Suc by auto
    have r: "reduce_event (Some a) (?event f) = Inr (b, [])" using f(3) by (simp add: reduce_event_Some_iff)
    have "valid_event (?event f)" using f(2) id valid_next_header[OF less.prems(1)] by simp
    moreover obtain cs m c fx where "list_all valid_event (cs @ [m])" "list_all confirms_cleanup cs"
        "replay_from (Some b) (cs @ [m]) = Inr (Some c, fx)" "ag_status c = SETTLEMENT_PENDING"
      using less.hyps[OF cleanup_step(1)[OF r f(1)] live_ok_step[OF less.prems(1) f(2,3)] cleanup_step(2)[OF r f(1)]] by blast
    ultimately show ?thesis
      using r f(1) by (intro exI[of _ "?event f # cs"] exI[of _ m]) auto
  qed
qed

text \<open>
  C17. Clean-up terminates. From any Ticket awaiting reconciliation, a stream of accepted clean-up confirmations
  is at most as long as the orders and the cancel still open, and issues no further command; and some stream of
  confirmations, followed by one last event, is accepted and brings the Ticket to settlement.
\<close>

theorem cleanup_terminates:
  assumes "history a es fx" "ag_status a = RECONCILIATION_PENDING"
  shows "(list_all confirms_cleanup cs \<and> replay_from (Some a) cs = Inr (Some b, gx)
      \<longrightarrow> length cs + cleanup_work b \<le> cleanup_work a \<and> gx = [])
    \<and> (\<exists>cs m b gx. list_all valid_event (cs @ [m]) \<and> list_all confirms_cleanup cs \<and> length cs \<le> cleanup_work a
        \<and> replay_from (Some a) (cs @ [m]) = Inr (Some b, gx) \<and> ag_status b = SETTLEMENT_PENDING)"
proof (intro conjI impI)
  show "length cs + cleanup_work b \<le> cleanup_work a" "gx = []"
    if "list_all confirms_cleanup cs \<and> replay_from (Some a) cs = Inr (Some b, gx)"
    using cleanup_run[of a cs b gx] that assms(2) by simp_all
  obtain cs m b gx where c: "list_all valid_event (cs @ [m])" "list_all confirms_cleanup cs"
      "replay_from (Some a) (cs @ [m]) = Inr (Some b, gx)" "ag_status b = SETTLEMENT_PENDING"
    using cleanup_completes[OF history_live[OF assms(1)] assms(2)] by blast
  obtain d hx where "replay_from (Some a) cs = Inr (Some d, hx)"
    using c(3) unfolding replay_from_append by (cases "replay_from (Some a) cs") (auto dest: replay_stays)
  then have "length cs \<le> cleanup_work a" using cleanup_run[OF _ c(2) assms(2)] by fastforce
  then show "\<exists>cs m b gx. list_all valid_event (cs @ [m]) \<and> list_all confirms_cleanup cs \<and> length cs \<le> cleanup_work a
        \<and> replay_from (Some a) (cs @ [m]) = Inr (Some b, gx) \<and> ag_status b = SETTLEMENT_PENDING"
    using c by blast
qed

text \<open>The demonstration run at the point where its position is flat: one stop and its cancel are still open.\<close>

definition demo_flat :: trade_aggregate where
  "demo_flat = demo_runner\<lparr>ag_status := RECONCILIATION_PENDING, ag_version := 12, ag_last_event_sequence := 12,
     ag_position_qty := 0, ag_exit_exchange_order_id := Some ''out'', ag_pending_cancel_exchange_order_id := Some ''run''\<rparr>"

lemma demo_flat_history:
  "\<exists>fx. history demo_flat (demo_events (demo_entry_facts @ demo_runner_facts @ take 3 demo_exit_facts)) fx"
proof -
  have "\<exists>fx. replay_from (Some demo_runner) (demo_stream 10 (take 3 demo_exit_facts)) = Inr (Some demo_flat, fx)"
    by (simp add: demo_exit_facts_def demo_flat_def demo_runner_def demo_guarded_def demo_initial_def new_aggregate_def demo_eval)
  moreover have "demo_events (demo_entry_facts @ demo_runner_facts @ take 3 demo_exit_facts)
      = demo_events demo_entry_facts @ demo_stream 7 demo_runner_facts @ demo_stream 10 (take 3 demo_exit_facts)"
    by (simp add: demo_events_def demo_stream_append) (simp add: demo_entry_facts_def demo_runner_facts_def)
  ultimately have "\<exists>fx. replay_from None (demo_events (demo_entry_facts @ demo_runner_facts @ take 3 demo_exit_facts))
      = Inr (Some demo_flat, fx)"
    by (auto simp: replay_from_append demo_guarded_run demo_runner_run)
  moreover have "list_all (valid_fact t) (demo_entry_facts @ demo_runner_facts @ take 3 demo_exit_facts)" for t
    using valid_demo_facts[of t] by (auto simp: list_all_iff dest: in_set_takeD)
  ultimately show ?thesis using valid_demo_events replay_history by metis
qed

theorem cleanup_terminates_witness:
  "cleanup_work demo_flat = 2
    \<and> (\<exists>cs m b gx. list_all confirms_cleanup cs \<and> length cs \<le> 2
        \<and> replay_from (Some demo_flat) (cs @ [m]) = Inr (Some b, gx) \<and> ag_status b = SETTLEMENT_PENDING)"
proof -
  have w: "cleanup_work demo_flat = 2"
    by (simp add: cleanup_work_def owned_orders_def demo_flat_def demo_runner_def demo_guarded_def demo_initial_def)
  obtain fx where h: "history demo_flat (demo_events (demo_entry_facts @ demo_runner_facts @ take 3 demo_exit_facts)) fx"
    using demo_flat_history by blast
  have "ag_status demo_flat = RECONCILIATION_PENDING" by (simp add: demo_flat_def)
  from cleanup_terminates[OF h this] show ?thesis using w by metis
qed

end
