(* ===== verification/Margin_Stress_Properties.thy ===== *)
theory Margin_Stress_Properties
  imports Lifecycle_Demo
begin

text \<open>
  The stress decision of \<open>Cross_Margin_Stress\<close>: it is total on validated requests, it passes exactly when
  every evaluated price leaves a positive surplus, and checking finitely many prices is enough. For the
  last point, the maintenance requirement of a valid bracket schedule is the upper envelope of its affine
  pieces, so the surplus is concave in the price: positive at the mark and at the stress price, it is
  positive in between.
\<close>

section \<open>The decision is total\<close>

lemma stress_price_nonneg:
  assumes "valid_stress_request r"
  shows "0 \<le> fst (stress_boundary r)"
  using assms
  by (auto simp: stress_boundary_def Let_def valid_stress_request_def dec_add_def dec_mul_def)

lemma evaluation_points_set:
  "{as_mark_price (sr_account_snapshot r), sr_initial_stop_price r, sp} \<subseteq> set (evaluation_points r sp)"
  "set (evaluation_points r sp) \<subseteq> {as_mark_price (sr_account_snapshot r), sr_initial_stop_price r, sp}
     \<union> {p. min (as_mark_price (sr_account_snapshot r)) sp \<le> p}"
  unfolding evaluation_points_def Let_def set_sort set_remdups set_append set_filter by auto

lemma evaluation_points_nonneg:
  assumes "valid_stress_request r" "0 \<le> sp" "p \<in> set (evaluation_points r sp)"
  shows "0 \<le> p"
proof -
  have fixed: "0 < as_mark_price (sr_account_snapshot r)" "0 < sr_initial_stop_price r"
    using assms(1) by (auto simp: valid_stress_request_def valid_snapshot_def)
  have "min (as_mark_price (sr_account_snapshot r)) sp \<le> p
      \<or> p \<in> {as_mark_price (sr_account_snapshot r), sr_initial_stop_price r, sp}"
    using assms(3) evaluation_points_set(2)[of r sp] by auto
  then show ?thesis using fixed assms(2) by auto
qed

lemma accumulate_ok:
  assumes "list_all (\<lambda>p. bracket_for bs (dec_mul (sp_quantity p) price) \<noteq> None) ps"
  shows "\<exists>x. accumulate_positions bs price ps u m = Inr x"
  using assms
proof (induction ps arbitrary: u m)
  case (Cons p ps)
  then obtain b where "bracket_for bs (dec_mul (sp_quantity p) price) = Some b" by auto
  then show ?case using Cons by (auto simp: Let_def)
qed simp

lemma surplus_ok:
  assumes "projected_notionals_are_covered r points" "p \<in> set points"
  shows "\<exists>s. margin_surplus r p bal maint = Inr s"
proof -
  have "list_all (\<lambda>q. bracket_for (sr_maintenance_margin_brackets r) (dec_mul (sp_quantity q) p) \<noteq> None)
      (sr_projected_instrument_positions r)"
    using assms by (auto simp: projected_notionals_are_covered_def list_all_iff)
  then obtain x where "accumulate_positions (sr_maintenance_margin_brackets r) p
      (sr_projected_instrument_positions r) 0 0 = Inr x"
    using accumulate_ok by blast
  then show ?thesis by (cases x) (simp add: margin_surplus_def)
qed

lemma surplus_by_price_ok:
  assumes "\<And>p. p \<in> set points \<Longrightarrow> \<exists>s. margin_surplus r p bal maint = Inr s"
  shows "\<exists>pairs. surplus_by_price r bal maint points = Inr pairs"
  using assms by (induction points) fastforce+

lemma surplus_by_price_spec:
  "surplus_by_price r bal maint points = Inr pairs \<Longrightarrow>
     map fst pairs = points \<and> (\<forall>(p, s) \<in> set pairs. margin_surplus r p bal maint = Inr s)"
  by (induction points arbitrary: pairs) auto

text \<open>\<open>min_surplus\<close> returns an element with the least surplus.\<close>

lemma min_surplus_spec:
  "min_surplus b xs \<in> set (b # xs) \<and> (\<forall>x \<in> set (b # xs). snd (min_surplus b xs) \<le> snd x)"
proof (induction b xs rule: min_surplus.induct)
  case (2 p s p' s' rest)
  then show ?case by (auto split: if_splits intro: order_trans)
qed auto

lemma pairs_nonempty:
  assumes "surplus_by_price r bal maint (evaluation_points r sp) = Inr pairs"
  shows "pairs \<noteq> []"
proof
  assume "pairs = []"
  then have "evaluation_points r sp = []" using surplus_by_price_spec[OF assms] by simp
  then show False using evaluation_points_set(1)[of r sp] by simp
qed

lemma evidence_valid:
  assumes "valid_stress_request r" "0 \<le> sp"
    "if status = FACTS_CONTRADICTORY
     then surplus = None \<and> surplus_price = None \<and> count = 0 \<and> (\<exists>c. reason = Some c \<and> c \<noteq> [])
     else (\<exists>s q. surplus = Some s \<and> surplus_price = Some q \<and> 0 \<le> q \<and> (status = PASSED \<longrightarrow> 0 < s))
          \<and> 0 < count \<and> reason = None"
  shows "\<exists>e. mk_proof_evidence r status sp clamped surplus surplus_price count reason = Inr e
    \<and> valid_stress_evidence e \<and> se_request e = r \<and> sf_status (se_proof e) = status
    \<and> sf_stress_price (se_proof e) = sp \<and> sf_minimum_margin_surplus (se_proof e) = surplus"
proof -
  have "is_sha256_digest (as_snapshot_digest (sr_account_snapshot r))"
    "is_sha256_digest (sr_maintenance_margin_brackets_digest r)"
    using assms(1) by (simp_all add: valid_stress_request_def valid_snapshot_def)
  then show ?thesis
    using assms by (auto simp: mk_proof_evidence_def Let_def valid_stress_evidence_def valid_stress_proof_def
        split: if_splits)
qed

section \<open>The four refusals and the verdict\<close>

text \<open>The request reaches the evaluation of prices.\<close>

definition facts_consistent :: "stress_request \<Rightarrow> bool" where
  "facts_consistent r \<longleftrightarrow>
     sr_notional_coefficient_certified r
     \<and> bracket_schedule_is_structurally_valid (sr_maintenance_margin_brackets r)
     \<and> projected_notionals_are_covered r (evaluation_points r (fst (stress_boundary r)))
     \<and> 0 \<le> base_maintenance_margin r"

definition surplus_positive_at :: "stress_request \<Rightarrow> decimal \<Rightarrow> bool" where
  "surplus_positive_at r p \<longleftrightarrow>
     (case margin_surplus r p (base_margin_balance r) (base_maintenance_margin r) of
        Inl _ \<Rightarrow> False | Inr s \<Rightarrow> 0 < s)"

lemma contradictory_result:
  assumes "valid_stress_request r" "0 \<le> sp" "reason \<noteq> []"
  shows "\<exists>e. contradictory r sp clamped reason = Inr e
    \<and> valid_stress_evidence e \<and> se_request e = r \<and> sf_status (se_proof e) = FACTS_CONTRADICTORY"
  using evidence_valid[OF assms(1,2), of FACTS_CONTRADICTORY None None 0 "Some reason" clamped] assms(3)
  by (auto simp: contradictory_def)

lemma evaluate_inconsistent:
  assumes "valid_stress_request r" "\<not> facts_consistent r"
  shows "\<exists>e. evaluate_cross_margin_stress r = Inr e
    \<and> valid_stress_evidence e \<and> se_request e = r \<and> sf_status (se_proof e) = FACTS_CONTRADICTORY"
proof -
  obtain sp clamped where b: "stress_boundary r = (sp, clamped)" by fastforce
  then have sp: "0 \<le> sp" using stress_price_nonneg[OF assms(1)] by simp
  show ?thesis
    using assms(2) contradictory_result[OF assms(1) sp, of _ clamped]
    by (auto simp: evaluate_cross_margin_stress_def facts_consistent_def b Let_def not_le)
qed

lemma evaluate_consistent:
  assumes "valid_stress_request r" "facts_consistent r"
  shows "\<exists>e. evaluate_cross_margin_stress r = Inr e \<and> valid_stress_evidence e \<and> se_request e = r
    \<and> sf_status (se_proof e) =
        (if mark_is_protected r
            \<and> list_all (surplus_positive_at r) (evaluation_points r (fst (stress_boundary r)))
         then PASSED else FAILED)"
proof -
  obtain sp clamped where b: "stress_boundary r = (sp, clamped)" by fastforce
  then have sp: "0 \<le> sp" using stress_price_nonneg[OF assms(1)] by simp
  let ?points = "evaluation_points r sp"
  let ?bal = "base_margin_balance r" and ?maint = "base_maintenance_margin r"
  have cov: "projected_notionals_are_covered r ?points" using assms(2) b by (simp add: facts_consistent_def)
  obtain pairs where pairs: "surplus_by_price r ?bal ?maint ?points = Inr pairs"
    using surplus_by_price_ok[of ?points] surplus_ok[OF cov] by blast
  have spec: "map fst pairs = ?points" "\<forall>(p, s) \<in> set pairs. margin_surplus r p ?bal ?maint = Inr s"
    using surplus_by_price_spec[OF pairs] by auto
  obtain x xs where xs: "pairs = x # xs" using pairs_nonempty[OF pairs] by (cases pairs) auto
  obtain mp ms where m: "min_surplus x xs = (mp, ms)" by fastforce
  have least: "(mp, ms) \<in> set pairs" "\<forall>y \<in> set pairs. ms \<le> snd y"
    using min_surplus_spec[of x xs] m xs by auto
  have "mp \<in> set ?points" using least(1) spec(1) by (metis fst_conv imageI list.set_map)
  then have mp: "0 \<le> mp" using evaluation_points_nonneg[OF assms(1) sp] by blast
  have "list_all (surplus_positive_at r) ?points \<longleftrightarrow> (\<forall>y \<in> set pairs. 0 < snd y)"
    unfolding spec(1)[symmetric] using spec(2)
    by (force simp: list_all_iff surplus_positive_at_def split: sum.splits)
  also have "\<dots> \<longleftrightarrow> 0 < ms" using least by force
  finally have verdict: "list_all (surplus_positive_at r) ?points \<longleftrightarrow> 0 < ms" .
  let ?status = "if mark_is_protected r \<and> 0 < ms then PASSED else FAILED"
  have count: "0 < length ?points" using spec(1) xs by (metis length_greater_0_conv list.map_disc_iff list.simps(3))
  have "evaluate_cross_margin_stress r =
      mk_proof_evidence r ?status sp clamped (Some ms) (Some mp) (int (length ?points)) None"
    using assms(2) pairs xs m
    by (simp add: evaluate_cross_margin_stress_def facts_consistent_def b Let_def not_less)
  then show ?thesis
    using evidence_valid[OF assms(1) sp, of ?status "Some ms" "Some mp" "int (length ?points)" None clamped]
      mp count verdict b by (auto split: if_splits)
qed

section \<open>Exact arithmetic between the mark and the stress price\<close>

text \<open>
  The requirement and the surplus without context rounding, at any price. \<open>exact_at\<close> says that the
  computation of the code agrees with them at one price, and \<open>schedule_arith_exact\<close> that the comparison
  of adjacent brackets does; both hold whenever the operands have few enough digits.
\<close>

definition affine_margin :: "maintenance_margin_bracket \<Rightarrow> rat \<Rightarrow> rat" where
  "affine_margin b n = n * mb_maintenance_margin_rate b - mb_maintenance_amount b"

definition exact_maintenance :: "maintenance_margin_bracket list \<Rightarrow> rat \<Rightarrow> rat" where
  "exact_maintenance bs n = (case bracket_for bs n of None \<Rightarrow> 0 | Some b \<Rightarrow> affine_margin b n)"

definition exact_pnl :: "stress_position \<Rightarrow> rat \<Rightarrow> rat" where
  "exact_pnl q p = (if sp_position_side q = Long
     then sp_quantity q * (p - sp_average_entry_price q)
     else sp_quantity q * (sp_average_entry_price q - p))"

definition position_surplus :: "maintenance_margin_bracket list \<Rightarrow> rat \<Rightarrow> stress_position \<Rightarrow> rat" where
  "position_surplus bs p q = exact_pnl q p - exact_maintenance bs (sp_quantity q * p)"

definition exact_surplus :: "stress_request \<Rightarrow> rat \<Rightarrow> rat" where
  "exact_surplus r p = base_margin_balance r - base_maintenance_margin r
     + sum_list (map (position_surplus (sr_maintenance_margin_brackets r) p)
         (sr_projected_instrument_positions r))"

definition exact_at :: "stress_request \<Rightarrow> decimal \<Rightarrow> bool" where
  "exact_at r p \<longleftrightarrow>
     list_all (\<lambda>q. dec_mul (sp_quantity q) p = sp_quantity q * p) (sr_projected_instrument_positions r)
     \<and> margin_surplus r p (base_margin_balance r) (base_maintenance_margin r) = Inr (exact_surplus r p)"

fun schedule_arith_exact :: "maintenance_margin_bracket list \<Rightarrow> bool" where
  "schedule_arith_exact (b # c # rest) \<longleftrightarrow>
     (let n = mb_notional_floor c in
        dec_sub (dec_mul n (mb_maintenance_margin_rate b)) (mb_maintenance_amount b) = affine_margin b n
        \<and> dec_sub (dec_mul n (mb_maintenance_margin_rate c)) (mb_maintenance_amount c) = affine_margin c n)
     \<and> schedule_arith_exact (c # rest)"
| "schedule_arith_exact _ \<longleftrightarrow> True"

text \<open>A schedule whose adjacent pieces meet at their boundary, with rates that do not fall.\<close>

fun convex_chain :: "maintenance_margin_bracket list \<Rightarrow> bool" where
  "convex_chain (b # c # rest) \<longleftrightarrow>
     mb_notional_cap b = Some (mb_notional_floor c)
     \<and> mb_maintenance_margin_rate b \<le> mb_maintenance_margin_rate c
     \<and> affine_margin b (mb_notional_floor c) = affine_margin c (mb_notional_floor c)
     \<and> convex_chain (c # rest)"
| "convex_chain _ \<longleftrightarrow> True"

lemma chain_convex: "bracket_chain_ok bs \<Longrightarrow> schedule_arith_exact bs \<Longrightarrow> convex_chain bs"
  by (induction bs rule: convex_chain.induct) (auto simp: Let_def split: if_splits)

lemma affine_margin_order:
  assumes "mb_maintenance_margin_rate b \<le> mb_maintenance_margin_rate c" "affine_margin b f = affine_margin c f"
  shows "n \<le> f \<Longrightarrow> affine_margin c n \<le> affine_margin b n"
    and "f \<le> n \<Longrightarrow> affine_margin b n \<le> affine_margin c n"
proof -
  have diff: "affine_margin c n - affine_margin b n
      = (mb_maintenance_margin_rate c - mb_maintenance_margin_rate b) * (n - f)"
    using assms(2) by (simp add: affine_margin_def algebra_simps)
  show "n \<le> f \<Longrightarrow> affine_margin c n \<le> affine_margin b n"
    using diff assms(1) by (simp add: mult_nonneg_nonpos flip: diff_le_0_iff_le[of "affine_margin c n"])
  show "f \<le> n \<Longrightarrow> affine_margin b n \<le> affine_margin c n"
    using diff assms(1) by (simp add: flip: diff_ge_0_iff_ge[of "affine_margin c n"])
qed

lemma later_pieces_below:
  assumes "convex_chain (b # rest)" "list_all valid_bracket (b # rest)"
    "case mb_notional_cap b of None \<Rightarrow> True | Some k \<Rightarrow> n \<le> k" "d \<in> set rest"
  shows "affine_margin d n \<le> affine_margin b n"
  using assms
proof (induction rest arbitrary: b)
  case (Cons c rest)
  have le: "affine_margin c n \<le> affine_margin b n"
    using Cons.prems affine_margin_order(1)[of b c "mb_notional_floor c" n] by simp
  have "case mb_notional_cap c of None \<Rightarrow> True | Some k \<Rightarrow> n \<le> k"
    using Cons.prems by (auto simp: valid_bracket_def split: option.splits)
  then have "d \<in> set rest \<Longrightarrow> affine_margin d n \<le> affine_margin c n"
    using Cons.prems Cons.IH[of c] by auto
  then show ?case using Cons.prems(4) le by auto
qed simp

lemma bracket_for_Cons:
  "bracket_for (b # bs) n =
     (if mb_notional_floor b \<le> n \<and> (case mb_notional_cap b of None \<Rightarrow> True | Some k \<Rightarrow> n < k)
      then Some b else bracket_for bs n)"
  by (simp add: bracket_for_def)

text \<open>The bracket the code selects is the largest of the affine pieces.\<close>

lemma selected_piece_is_envelope:
  assumes "convex_chain (b # rest)" "list_all valid_bracket (b # rest)" "mb_notional_floor b \<le> n"
    "bracket_for (b # rest) n = Some c" "d \<in> set (b # rest)"
  shows "affine_margin d n \<le> affine_margin c n"
  using assms
proof (induction rest arbitrary: b d)
  case Nil
  then show ?case by (simp add: bracket_for_def split: if_splits)
next
  case (Cons b' rest)
  show ?case
  proof (cases "n < mb_notional_floor b'")
    case True
    then have c: "c = b" using Cons.prems by (simp add: bracket_for_Cons)
    show ?thesis
      using later_pieces_below[of b "b' # rest" n d] Cons.prems True c by auto
  next
    case False
    then have sel: "bracket_for (b' # rest) n = Some c"
      using Cons.prems by (simp add: bracket_for_Cons[of b])
    have "affine_margin b n \<le> affine_margin b' n"
      using False Cons.prems affine_margin_order(2)[of b b' "mb_notional_floor b'" n] by simp
    moreover have "e \<in> set (b' # rest) \<Longrightarrow> affine_margin e n \<le> affine_margin c n" for e
      using Cons.IH[of b' e] Cons.prems False sel by simp
    ultimately show ?thesis using Cons.prems(5) by fastforce
  qed
qed

lemma selected_in_schedule: "bracket_for bs n = Some c \<Longrightarrow> c \<in> set bs"
  by (auto simp: bracket_for_def find_Some_iff)

lemma coverage_downward:
  assumes "convex_chain (b # rest)" "mb_notional_floor b \<le> n" "n \<le> m" "bracket_for (b # rest) m \<noteq> None"
  shows "bracket_for (b # rest) n \<noteq> None"
  using assms
proof (induction rest arbitrary: b)
  case Nil
  then show ?case by (auto simp: bracket_for_def split: if_splits option.splits)
next
  case (Cons c rest)
  show ?case
  proof (cases "n < mb_notional_floor c")
    case True
    then show ?thesis using Cons.prems by (simp add: bracket_for_Cons[of b])
  next
    case False
    then have "bracket_for (c # rest) m \<noteq> None" using Cons.prems by (simp add: bracket_for_Cons[of b])
    then have "bracket_for (c # rest) n \<noteq> None" using Cons.IH[of c] Cons.prems False by simp
    then show ?thesis by (simp add: bracket_for_Cons[of b])
  qed
qed

text \<open>So the requirement is convex, and the surplus of a position is concave, on the covered range.\<close>

lemma exact_maintenance_convex:
  assumes chain: "convex_chain bs" "list_all valid_bracket bs" "bs \<noteq> []" "mb_notional_floor (hd bs) = 0"
    and n: "0 \<le> n1" "0 \<le> n2" "bracket_for bs n1 \<noteq> None" "bracket_for bs n2 \<noteq> None"
    and t: "0 \<le> t" "t \<le> 1" "n = (1 - t) * n1 + t * n2"
  shows "bracket_for bs n \<noteq> None"
    and "exact_maintenance bs n \<le> (1 - t) * exact_maintenance bs n1 + t * exact_maintenance bs n2"
proof -
  obtain b rest where bs: "bs = b # rest" using chain(3) by (cases bs) auto
  have nonneg: "0 \<le> n" using n t by simp
  have "n \<le> max n1 n2"
  proof -
    have "n \<le> (1 - t) * max n1 n2 + t * max n1 n2"
      unfolding t(3) using t(1,2) by (intro add_mono mult_left_mono) auto
    then show ?thesis by (simp add: algebra_simps)
  qed
  moreover have "bracket_for bs (max n1 n2) \<noteq> None" using n by (simp add: max_def)
  ultimately show cov: "bracket_for bs n \<noteq> None"
    using coverage_downward[of b rest n "max n1 n2"] chain nonneg bs by simp
  obtain c c1 c2 where c: "bracket_for bs n = Some c" "bracket_for bs n1 = Some c1" "bracket_for bs n2 = Some c2"
    using cov n by auto
  have "affine_margin c n1 \<le> affine_margin c1 n1" "affine_margin c n2 \<le> affine_margin c2 n2"
    using selected_piece_is_envelope[of b rest] selected_in_schedule[OF c(1)] chain c n bs by auto
  moreover have "affine_margin c n = (1 - t) * affine_margin c n1 + t * affine_margin c n2"
    by (simp add: affine_margin_def t(3) algebra_simps)
  ultimately show "exact_maintenance bs n \<le> (1 - t) * exact_maintenance bs n1 + t * exact_maintenance bs n2"
    using t(1,2) by (simp add: exact_maintenance_def c add_mono mult_left_mono)
qed

lemma position_surplus_concave:
  assumes chain: "convex_chain bs" "list_all valid_bracket bs" "bs \<noteq> []" "mb_notional_floor (hd bs) = 0"
    and q: "valid_stress_position q" "bracket_for bs (sp_quantity q * p1) \<noteq> None"
      "bracket_for bs (sp_quantity q * p2) \<noteq> None"
    and p: "0 \<le> p1" "0 \<le> p2" "0 \<le> t" "t \<le> 1" "p = (1 - t) * p1 + t * p2"
  shows "bracket_for bs (sp_quantity q * p) \<noteq> None"
    and "(1 - t) * position_surplus bs p1 q + t * position_surplus bs p2 q \<le> position_surplus bs p q"
proof -
  have n: "sp_quantity q * p = (1 - t) * (sp_quantity q * p1) + t * (sp_quantity q * p2)"
    by (simp add: p(5) algebra_simps)
  have pos: "0 \<le> sp_quantity q * p1" "0 \<le> sp_quantity q * p2"
    using q(1) p by (simp_all add: valid_stress_position_def)
  note convex = exact_maintenance_convex[OF chain pos q(2,3) p(3,4) n]
  show "bracket_for bs (sp_quantity q * p) \<noteq> None" by (rule convex(1))
  have "exact_pnl q p = (1 - t) * exact_pnl q p1 + t * exact_pnl q p2"
    by (simp add: exact_pnl_def p(5) algebra_simps)
  then show "(1 - t) * position_surplus bs p1 q + t * position_surplus bs p2 q \<le> position_surplus bs p q"
    using convex(2) by (simp add: position_surplus_def algebra_simps)
qed

lemma weighted_sum_list_le:
  fixes f g h :: "'a \<Rightarrow> rat"
  assumes "\<And>x. x \<in> set xs \<Longrightarrow> s * f x + t * g x \<le> h x"
  shows "s * sum_list (map f xs) + t * sum_list (map g xs) \<le> sum_list (map h xs)"
  using assms
proof (induction xs)
  case (Cons x xs)
  have "s * f x + t * g x \<le> h x" "s * sum_list (map f xs) + t * sum_list (map g xs) \<le> sum_list (map h xs)"
    using Cons by auto
  then show ?case by (simp add: algebra_simps)
qed simp

lemma exact_surplus_concave:
  assumes chain: "convex_chain bs" "list_all valid_bracket bs" "bs \<noteq> []" "mb_notional_floor (hd bs) = 0"
    and bs: "bs = sr_maintenance_margin_brackets r"
    and q: "\<And>q. q \<in> set (sr_projected_instrument_positions r) \<Longrightarrow> valid_stress_position q
      \<and> bracket_for bs (sp_quantity q * p1) \<noteq> None \<and> bracket_for bs (sp_quantity q * p2) \<noteq> None"
    and p: "0 \<le> p1" "0 \<le> p2" "0 \<le> t" "t \<le> 1" "p = (1 - t) * p1 + t * p2"
  shows "(1 - t) * exact_surplus r p1 + t * exact_surplus r p2 \<le> exact_surplus r p"
proof -
  have "(1 - t) * position_surplus bs p1 q + t * position_surplus bs p2 q \<le> position_surplus bs p q"
    if "q \<in> set (sr_projected_instrument_positions r)" for q
    using position_surplus_concave(2)[OF chain _ _ _ p] q[OF that] by blast
  from weighted_sum_list_le[OF this] show ?thesis
    by (simp add: exact_surplus_def bs[symmetric] algebra_simps)
qed

text \<open>A price between two prices is a weighted mean of them.\<close>

lemma between_convex:
  fixes p a b :: rat
  assumes "min a b \<le> p" "p \<le> max a b"
  shows "\<exists>t. 0 \<le> t \<and> t \<le> 1 \<and> p = (1 - t) * a + t * b"
proof (cases "a = b")
  case True
  then show ?thesis using assms by (intro exI[of _ 0]) simp
next
  case False
  define t where "t = (p - a) / (b - a)"
  have "t * (b - a) = p - a" using False by (simp add: t_def)
  then have "p = (1 - t) * a + t * b" by (simp add: algebra_simps)
  moreover have "0 \<le> t \<and> t \<le> 1"
    using False assms by (auto simp: t_def min_def max_def divide_le_eq zero_le_divide_iff split: if_splits)
  ultimately show ?thesis by blast
qed

section \<open>Properties\<close>

lemma evaluated_points_members:
  "as_mark_price (sr_account_snapshot r) \<in> set (evaluation_points r sp)" "sp \<in> set (evaluation_points r sp)"
  using evaluation_points_set(1)[of r sp] by auto

lemma covered_exactly:
  assumes "projected_notionals_are_covered r points" "p \<in> set points" "exact_at r p"
    "q \<in> set (sr_projected_instrument_positions r)"
  shows "bracket_for (sr_maintenance_margin_brackets r) (sp_quantity q * p) \<noteq> None"
  using assms by (auto simp: projected_notionals_are_covered_def exact_at_def list_all_iff)

lemma structurally_valid_convex:
  assumes "bracket_schedule_is_structurally_valid bs" "schedule_arith_exact bs"
  shows "convex_chain bs" "bs \<noteq> []" "mb_notional_floor (hd bs) = 0"
  using assms chain_convex[of bs]
  by (auto simp: bracket_schedule_is_structurally_valid_def split: list.splits if_splits)

lemma exact_positive:
  "exact_at r p \<Longrightarrow> surplus_positive_at r p \<longleftrightarrow> 0 < exact_surplus r p"
  by (simp add: exact_at_def surplus_positive_at_def)

lemma interval_positive:
  assumes valid: "valid_stress_request r" and facts: "facts_consistent r"
    and positive: "list_all (surplus_positive_at r) (evaluation_points r (fst (stress_boundary r)))"
    and exact: "schedule_arith_exact (sr_maintenance_margin_brackets r)"
      "exact_at r (as_mark_price (sr_account_snapshot r))" "exact_at r (fst (stress_boundary r))"
    and between: "min (as_mark_price (sr_account_snapshot r)) (fst (stress_boundary r)) \<le> p"
      "p \<le> max (as_mark_price (sr_account_snapshot r)) (fst (stress_boundary r))"
  shows "0 < exact_surplus r p"
    and "q \<in> set (sr_projected_instrument_positions r) \<Longrightarrow>
      bracket_for (sr_maintenance_margin_brackets r) (sp_quantity q * p) \<noteq> None"
proof -
  let ?mark = "as_mark_price (sr_account_snapshot r)" and ?sp = "fst (stress_boundary r)"
  let ?bs = "sr_maintenance_margin_brackets r"
  obtain t where t: "0 \<le> t" "t \<le> 1" "p = (1 - t) * ?mark + t * ?sp"
    using between_convex[OF between] by blast
  have brackets: "list_all valid_bracket ?bs" using valid by (simp add: valid_stress_request_def)
  have nonneg: "0 \<le> ?mark" "0 \<le> ?sp"
    using valid stress_price_nonneg[OF valid] by (simp_all add: valid_stress_request_def valid_snapshot_def)
  note chain = structurally_valid_convex[of ?bs]
  have sv: "bracket_schedule_is_structurally_valid ?bs" using facts by (simp add: facts_consistent_def)
  have cov: "valid_stress_position q \<and> bracket_for ?bs (sp_quantity q * ?mark) \<noteq> None
      \<and> bracket_for ?bs (sp_quantity q * ?sp) \<noteq> None"
    if "q \<in> set (sr_projected_instrument_positions r)" for q
    using that covered_exactly[of r "evaluation_points r ?sp" _ q] evaluated_points_members[where r=r and sp="?sp"] exact
      facts valid
    by (auto simp: facts_consistent_def valid_stress_request_def list_all_iff)
  have ends: "0 < exact_surplus r ?mark" "0 < exact_surplus r ?sp"
    using positive evaluated_points_members[where r=r and sp="?sp"] exact_positive exact(2,3)
    by (auto simp: list_all_iff)
  have mix: "0 < (1 - t) * exact_surplus r ?mark + t * exact_surplus r ?sp"
    using ends t(1,2) by (cases "t = 1") (auto intro: add_pos_nonneg)
  show "0 < exact_surplus r p"
    using exact_surplus_concave[OF chain(1)[OF sv exact(1)] brackets chain(2,3)[OF sv exact(1)] refl cov nonneg t] mix
    by linarith
  show "bracket_for ?bs (sp_quantity q * p) \<noteq> None" if "q \<in> set (sr_projected_instrument_positions r)"
    using position_surplus_concave(1)[OF chain(1)[OF sv exact(1)] brackets chain(2,3)[OF sv exact(1)] _ _ _ nonneg t]
      cov[OF that] by blast
qed

lemmas demo_stress_defs = demo_request_def demo_snapshot_def demo_snapshot0_def demo_brackets_def

lemma demo_stress_boundary: "stress_boundary demo_request = (80, False)"
  by (simp add: stress_boundary_def demo_request_def dec_ops)

lemma demo_points: "set (evaluation_points demo_request 80) = {80, 90, 100}"
  by (auto simp: evaluation_points_def demo_stress_defs bracket_boundaries_def dec_ops)

lemma demo_bases: "base_margin_balance demo_request = 1000" "base_maintenance_margin demo_request = 0"
  by (simp_all add: base_margin_balance_def base_maintenance_margin_def demo_stress_defs dec_ops dec_sum_def)

lemma demo_exact: "p \<in> {80, 90, 100} \<Longrightarrow> exact_at demo_request p \<and> 0 < exact_surplus demo_request p"
  unfolding exact_at_def margin_surplus_def exact_surplus_def position_surplus_def exact_maintenance_def
    exact_pnl_def affine_margin_def demo_bases
  by (auto simp: demo_stress_defs dec_ops bracket_for_def)

lemma demo_schedule:
  "schedule_arith_exact (sr_maintenance_margin_brackets demo_request)"
  "bracket_schedule_is_structurally_valid (sr_maintenance_margin_brackets demo_request)"
  by (simp_all add: demo_stress_defs affine_margin_def dec_ops bracket_schedule_is_structurally_valid_def)

lemma demo_stress_facts:
  "facts_consistent demo_request" "mark_is_protected demo_request"
  "list_all (surplus_positive_at demo_request) (evaluation_points demo_request (fst (stress_boundary demo_request)))"
proof -
  have "projected_notionals_are_covered demo_request (evaluation_points demo_request 80)"
    unfolding projected_notionals_are_covered_def list_all_iff[of _ "evaluation_points _ _"] demo_points
    by (simp add: demo_stress_defs bracket_for_def dec_ops)
  moreover have "sr_notional_coefficient_certified demo_request" by (simp add: demo_request_def)
  ultimately show "facts_consistent demo_request"
    using demo_schedule by (simp add: facts_consistent_def demo_stress_boundary demo_bases)
  show "mark_is_protected demo_request" by (simp add: mark_is_protected_def demo_stress_defs)
  show "list_all (surplus_positive_at demo_request) (evaluation_points demo_request (fst (stress_boundary demo_request)))"
    unfolding list_all_iff demo_stress_boundary fst_conv demo_points using demo_exact exact_positive by blast
qed

text \<open>
  The stop-stress decision is total on validated requests: it always returns evidence that passes the
  evidence validator and carries the request it was asked about. The verdict is
  \<open>facts_contradictory\<close> exactly when the coefficient is not certified, the bracket schedule is not
  continuous and progressive, a projected notional is not covered, or the instrument's maintenance
  exceeds the account's; otherwise it is \<open>passed\<close> exactly when the mark is on the safe side of the
  stop and the margin surplus is positive at every evaluated price.
\<close>

theorem stress_verdict:
  assumes "valid_stress_request r"
  shows "\<exists>e. evaluate_cross_margin_stress r = Inr e \<and> valid_stress_evidence e \<and> se_request e = r
    \<and> sf_status (se_proof e) =
        (if \<not> facts_consistent r then FACTS_CONTRADICTORY
         else if mark_is_protected r
            \<and> list_all (surplus_positive_at r) (evaluation_points r (fst (stress_boundary r)))
         then PASSED else FAILED)"
  using evaluate_inconsistent[OF assms] evaluate_consistent[OF assms] by (cases "facts_consistent r") auto

theorem stress_verdict_witness:
  "valid_stress_request demo_request \<and> facts_consistent demo_request
   \<and> (\<exists>e. evaluate_cross_margin_stress demo_request = Inr e \<and> valid_stress_evidence e
        \<and> se_request e = demo_request \<and> sf_status (se_proof e) = PASSED)"
  using stress_verdict[OF valid_demo_request] valid_demo_request demo_stress_facts by auto

text \<open>
  C18. Checking finitely many prices is enough. When the decision passes and its arithmetic was exact on the
  bracket boundaries, at the mark and at the stress price, then at every price from the mark to the
  stress price the schedule covers every projected position and the exact margin surplus of the account
  is positive: there is no liquidation between the mark and the stressed stop, even at prices the code
  did not evaluate.
\<close>

theorem passed_stress_covers_every_price:
  assumes "valid_stress_request r" "evaluate_cross_margin_stress r = Inr e" "sf_status (se_proof e) = PASSED"
    and "schedule_arith_exact (sr_maintenance_margin_brackets r)"
      "exact_at r (as_mark_price (sr_account_snapshot r))" "exact_at r (fst (stress_boundary r))"
    and "min (as_mark_price (sr_account_snapshot r)) (fst (stress_boundary r)) \<le> p"
      "p \<le> max (as_mark_price (sr_account_snapshot r)) (fst (stress_boundary r))"
  shows "0 < exact_surplus r p
    \<and> list_all (\<lambda>q. bracket_for (sr_maintenance_margin_brackets r) (sp_quantity q * p) \<noteq> None)
        (sr_projected_instrument_positions r)"
proof -
  have facts: "facts_consistent r"
    using evaluate_inconsistent[OF assms(1)] assms(2,3) by auto
  then have "list_all (surplus_positive_at r) (evaluation_points r (fst (stress_boundary r)))"
    using evaluate_consistent[OF assms(1)] assms(2,3) by (auto split: if_splits)
  from interval_positive[OF assms(1) facts this assms(4-8)] show ?thesis by (auto simp: list_all_iff)
qed

theorem passed_stress_covers_every_price_witness:
  "\<exists>e. evaluate_cross_margin_stress demo_request = Inr e \<and> sf_status (se_proof e) = PASSED
    \<and> 0 < exact_surplus demo_request (85 + 1/3)
    \<and> list_all (\<lambda>q. bracket_for (sr_maintenance_margin_brackets demo_request) (sp_quantity q * (85 + 1/3)) \<noteq> None)
        (sr_projected_instrument_positions demo_request)"
proof -
  obtain e where e: "evaluate_cross_margin_stress demo_request = Inr e" "sf_status (se_proof e) = PASSED"
    using evaluate_consistent[OF valid_demo_request demo_stress_facts(1)] demo_stress_facts by auto
  have mark: "as_mark_price (sr_account_snapshot demo_request) = 100" by (simp add: demo_stress_defs)
  have "exact_at demo_request 100" "exact_at demo_request 80" using demo_exact by auto
  then show ?thesis
    using passed_stress_covers_every_price[OF valid_demo_request e demo_schedule(1), of "85 + 1/3"] e mark
      demo_stress_boundary by auto
qed

end
