(* ===== verification/Capacity.thy ===== *)
theory Capacity
  imports Commands Cross_Margin_Stress
begin

text \<open>
  \<open>domain/capacity.py\<close>: the immutable capacity authority of one Ticket. \<open>mk_capacity_claim\<close> is the
  validated construction of \<open>CapacityClaim\<close>, \<open>freeze_capacity_claim\<close> quantizes the facts to the
  storage grid of 18 decimals, computes the decision digest and identity and validates the result, and
  \<open>to_ticket\<close> issues the Ticket. \<open>capacity_policy\<close>, \<open>capacity_usage\<close> and \<open>instrument_rules\<close> are
  the typed inputs with their validators.
\<close>

section \<open>Policies, usage and rules\<close>

datatype capacity_claim_status =
    CC_CLAIMED
  | CC_SIGNAL_INVALID_OR_STALE
  | CC_SCOPE_OR_POLICY_MISMATCH
  | CC_ACTION_FACTS_INVALID_OR_STALE
  | CC_ACCOUNT_MODE_INVALID
  | CC_INSTRUMENT_RULES_INVALID
  | CC_NETTING_DOMAIN_OCCUPIED
  | CC_BUDGET_EXHAUSTED
  | CC_EXPOSURE_FAMILY_CAPACITY_EXHAUSTED
  | CC_STRATEGY_SIDE_CAPACITY_EXHAUSTED
  | CC_DIRECTIONAL_RISK_EXHAUSTED
  | CC_PROTECTION_UNAVAILABLE
  | CC_EXIT_LEG_MATERIALIZATION_UNMET

record family_ticket_limits =
  fl_long_continuation :: int
  fl_opening_range :: int
  fl_rally_failure_short :: int

definition valid_family_limits :: "family_ticket_limits \<Rightarrow> bool" where
  "valid_family_limits l \<longleftrightarrow>
     0 < fl_long_continuation l \<and> 0 < fl_opening_range l \<and> 0 < fl_rally_failure_short l"

fun for_family :: "family_ticket_limits \<Rightarrow> exposure_family \<Rightarrow> int" where
  "for_family l long_continuation = fl_long_continuation l"
| "for_family l opening_range = fl_opening_range l"
| "for_family l rally_failure_short = fl_rally_failure_short l"

record capacity_policy =
  cp_owner_policy_id :: string
  cp_policy_version :: int
  cp_max_concurrent_tickets :: int
  cp_max_same_strategy_side :: "int option"
  cp_family_ticket_limits :: family_ticket_limits
  cp_max_ticket_stop_risk_fraction :: decimal
  cp_max_gross_stop_risk_fraction :: decimal
  cp_max_ticket_initial_margin_fraction :: decimal
  cp_max_gross_initial_margin_utilization :: decimal
  cp_directional_stop_risk_limit_fraction :: decimal
  cp_min_materialization_ratio :: decimal
  cp_max_leverage :: int
  cp_supported_margin_mode :: string
  cp_post_stop_stress_multiple :: decimal
  cp_max_post_fill_stop_risk_overrun_fraction :: decimal

definition valid_capacity_policy :: "capacity_policy \<Rightarrow> bool" where
  "valid_capacity_policy p \<longleftrightarrow>
     cp_owner_policy_id p \<noteq> [] \<and> py_strip (cp_owner_policy_id p) = cp_owner_policy_id p
     \<and> 0 < cp_policy_version p \<and> 0 < cp_max_concurrent_tickets p \<and> 0 < cp_max_leverage p
     \<and> valid_family_limits (cp_family_ticket_limits p)
     \<and> list_all (\<lambda>v. 0 < v \<and> v \<le> 1) [cp_max_ticket_stop_risk_fraction p,
         cp_max_gross_stop_risk_fraction p, cp_directional_stop_risk_limit_fraction p,
         cp_max_ticket_initial_margin_fraction p, cp_max_gross_initial_margin_utilization p,
         cp_min_materialization_ratio p]
     \<and> 0 < cp_post_stop_stress_multiple p
     \<and> (case cp_max_same_strategy_side p of None \<Rightarrow> True | Some n \<Rightarrow> 0 < n)
     \<and> 0 \<le> cp_max_post_fill_stop_risk_overrun_fraction p
     \<and> cp_max_post_fill_stop_risk_overrun_fraction p < 1
     \<and> cp_supported_margin_mode p = ''cross''"

record capacity_usage =
  cu_gross_notional :: decimal
  cu_gross_risk_at_stop :: decimal
  cu_current_reserved_margin :: decimal
  cu_active_ticket_count :: int
  cu_active_family_ticket_count :: int
  cu_active_strategy_side_ticket_count :: int
  cu_directional_risk_at_stop :: decimal

definition valid_capacity_usage :: "capacity_usage \<Rightarrow> bool" where
  "valid_capacity_usage u \<longleftrightarrow>
     0 \<le> cu_gross_notional u \<and> 0 \<le> cu_gross_risk_at_stop u \<and> 0 \<le> cu_current_reserved_margin u
     \<and> 0 \<le> cu_directional_risk_at_stop u \<and> 0 \<le> cu_active_ticket_count u
     \<and> 0 \<le> cu_active_family_ticket_count u \<and> 0 \<le> cu_active_strategy_side_ticket_count u"

record instrument_rules =
  ir_venue_id :: string
  ir_exchange_instrument_id :: string
  ir_quantity_step :: decimal
  ir_price_tick :: decimal
  ir_min_quantity :: decimal
  ir_min_notional :: decimal
  ir_exchange_max_leverage :: int
  ir_maintenance_margin_brackets :: "maintenance_margin_bracket list"
  ir_maintenance_margin_brackets_digest :: string
  ir_notional_coefficient :: decimal
  ir_notional_coefficient_certified :: bool
  ir_projection_version :: int
  ir_observed_at_ms :: int
  ir_valid_until_ms :: int

definition valid_instrument_rules :: "instrument_rules \<Rightarrow> bool" where
  "valid_instrument_rules r \<longleftrightarrow>
     0 < ir_quantity_step r \<and> 0 < ir_price_tick r \<and> 0 < ir_min_quantity r \<and> 0 < ir_min_notional r
     \<and> 0 < ir_notional_coefficient r
     \<and> list_all valid_bracket (ir_maintenance_margin_brackets r)
     \<and> 0 < ir_projection_version r \<and> 0 < ir_observed_at_ms r \<and> ir_observed_at_ms r < ir_valid_until_ms r
     \<and> 0 < ir_exchange_max_leverage r \<and> ir_maintenance_margin_brackets r \<noteq> []
     \<and> is_sha256_digest (ir_maintenance_margin_brackets_digest r)"

section \<open>The claim\<close>

record capacity_claim =
  cc_capacity_claim_id :: string
  cc_ticket_identity :: ticket_identity
  cc_owner_policy_id :: string
  cc_owner_policy_version :: int
  cc_runtime_scope_id :: string
  cc_runtime_scope_version :: int
  cc_universe_version_id :: string
  cc_universe_semantic_digest :: string
  cc_fact_digest :: string
  cc_exit_policy_id :: string
  cc_exit_policy_semantic_hash :: string
  cc_exit_binding_id :: "string option"
  cc_exit_binding_semantic_hash :: "string option"
  cc_exit_binding_authority_version :: "int option"
  cc_entry_admission_snapshot_digest :: string
  cc_account_entry_health_digest :: string
  cc_instrument_entry_health_digest :: string
  cc_instrument_rules_projection_version :: int
  cc_account_capacity_domain_key :: string
  cc_leverage_domain_key :: string
  cc_total_wallet_balance_at_claim :: decimal
  cc_total_margin_balance_at_claim :: decimal
  cc_total_initial_margin_at_claim :: decimal
  cc_total_maintenance_margin_at_claim :: decimal
  cc_available_margin_at_claim :: decimal
  cc_mark_price_at_claim :: decimal
  cc_position_mode_at_claim :: string
  cc_margin_mode_at_claim :: string
  cc_active_ticket_count_at_claim :: int
  cc_remaining_slots_at_claim :: int
  cc_exposure_family :: exposure_family
  cc_active_family_ticket_count_at_claim :: int
  cc_family_ticket_limit :: int
  cc_max_same_strategy_side :: "int option"
  cc_active_strategy_side_ticket_count_at_claim :: "int option"
  cc_remaining_family_slots_at_claim :: int
  cc_gross_risk_at_stop_at_claim :: decimal
  cc_directional_risk_at_stop_at_claim :: decimal
  cc_current_reserved_margin_at_claim :: decimal
  cc_max_ticket_stop_risk_fraction :: decimal
  cc_max_gross_stop_risk_fraction :: decimal
  cc_directional_stop_risk_limit_fraction :: decimal
  cc_max_ticket_initial_margin_fraction :: decimal
  cc_max_gross_initial_margin_utilization :: decimal
  cc_min_materialization_ratio :: decimal
  cc_minimum_stop_risk_budget :: decimal
  cc_planned_stop_risk_budget :: decimal
  cc_max_post_fill_stop_risk_overrun_fraction :: decimal
  cc_post_fill_stop_risk_limit :: decimal
  cc_post_stop_stress_multiple :: decimal
  cc_ticket_margin_budget :: decimal
  cc_required_leverage :: int
  cc_selected_leverage :: int
  cc_configured_leverage_at_claim :: int
  cc_leverage_change_required :: bool
  cc_exchange_max_leverage :: int
  cc_reserved_margin :: decimal
  cc_cross_margin_stress_evidence :: stress_evidence
  cc_created_at_ms :: int
  cc_expires_at_ms :: int
  cc_entry_reference_price :: decimal
  cc_quantity :: decimal
  cc_notional :: decimal
  cc_risk_at_stop :: decimal
  cc_entry_order_type :: entry_order_type
  cc_entry_limit_price :: "decimal option"
  cc_initial_stop_price :: decimal
  cc_pre_tp1_reclaim_price :: "decimal option"
  cc_exposure_session_end_ms :: "int option"
  cc_take_profit_prices :: "decimal list"
  cc_take_profit_quantities :: "decimal list"
  cc_decision_digest :: string
  cc_selection_authority_id :: "string option"

fun family_value :: "exposure_family \<Rightarrow> string" where
  "family_value long_continuation = ''long_continuation''"
| "family_value opening_range = ''opening_range''"
| "family_value rally_failure_short = ''rally_failure_short''"

fun order_type_value :: "entry_order_type \<Rightarrow> string" where
  "order_type_value MARKET = ''market''"
| "order_type_value LIMIT = ''limit''"

definition ticket_identity_json :: "ticket_identity \<Rightarrow> json" where
  "ticket_identity_json t = JObj
     [(''ticket_id'', JStr (ti_ticket_id t)),
      (''exposure_episode_id'', JStr (ti_exposure_episode_id t)),
      (''signal_event_id'', JStr (ti_signal_event_id t)),
      (''runtime'', JObj
        [(''runtime_profile_id'', JStr (ri_runtime_profile_id (ti_runtime t))),
         (''strategy_group_id'', JStr (ri_strategy_group_id (ti_runtime t))),
         (''strategy_version_id'', JStr (ri_strategy_version_id (ti_runtime t))),
         (''event_spec_id'', JStr (ri_event_spec_id (ti_runtime t)))]),
      (''netting_domain'', JObj
        [(''venue_id'', JStr (nd_venue_id (ti_netting_domain t))),
         (''account_id'', JStr (nd_account_id (ti_netting_domain t))),
         (''exchange_instrument_id'', JStr (nd_exchange_instrument_id (ti_netting_domain t))),
         (''position_side'', JStr (side_value (nd_position_side (ti_netting_domain t))))])]"

definition stress_evidence_json :: "stress_evidence \<Rightarrow> json" where
  "stress_evidence_json e = JObj
     [(''request'', stress_request_json (se_request e)),
      (''proof'', (case stress_proof_payload (se_proof e) of
          JObj kvs \<Rightarrow> JObj (kvs @ [(''proof_digest'', JStr (sf_proof_digest (se_proof e)))])
        | j \<Rightarrow> j))]"

definition claim_payload :: "capacity_claim \<Rightarrow> (string \<times> json) list" where
  "claim_payload c =
     [
      (''ticket_identity'', ticket_identity_json (cc_ticket_identity c)),
      (''owner_policy_id'', JStr (cc_owner_policy_id c)),
      (''owner_policy_version'', JInt (cc_owner_policy_version c)),
      (''runtime_scope_id'', JStr (cc_runtime_scope_id c)),
      (''runtime_scope_version'', JInt (cc_runtime_scope_version c)),
      (''universe_version_id'', JStr (cc_universe_version_id c)),
      (''universe_semantic_digest'', JStr (cc_universe_semantic_digest c)),
      (''fact_digest'', JStr (cc_fact_digest c)),
      (''exit_policy_id'', JStr (cc_exit_policy_id c)),
      (''exit_policy_semantic_hash'', JStr (cc_exit_policy_semantic_hash c)),
      (''entry_admission_snapshot_digest'', JStr (cc_entry_admission_snapshot_digest c)),
      (''account_entry_health_digest'', JStr (cc_account_entry_health_digest c)),
      (''instrument_entry_health_digest'', JStr (cc_instrument_entry_health_digest c)),
      (''instrument_rules_projection_version'', JInt (cc_instrument_rules_projection_version c)),
      (''account_capacity_domain_key'', JStr (cc_account_capacity_domain_key c)),
      (''leverage_domain_key'', JStr (cc_leverage_domain_key c)),
      (''total_wallet_balance_at_claim'', json_decimal (cc_total_wallet_balance_at_claim c)),
      (''total_margin_balance_at_claim'', json_decimal (cc_total_margin_balance_at_claim c)),
      (''total_initial_margin_at_claim'', json_decimal (cc_total_initial_margin_at_claim c)),
      (''total_maintenance_margin_at_claim'', json_decimal (cc_total_maintenance_margin_at_claim c)),
      (''available_margin_at_claim'', json_decimal (cc_available_margin_at_claim c)),
      (''mark_price_at_claim'', json_decimal (cc_mark_price_at_claim c)),
      (''position_mode_at_claim'', JStr (cc_position_mode_at_claim c)),
      (''margin_mode_at_claim'', JStr (cc_margin_mode_at_claim c)),
      (''active_ticket_count_at_claim'', JInt (cc_active_ticket_count_at_claim c)),
      (''remaining_slots_at_claim'', JInt (cc_remaining_slots_at_claim c)),
      (''exposure_family'', JStr (family_value (cc_exposure_family c))),
      (''active_family_ticket_count_at_claim'', JInt (cc_active_family_ticket_count_at_claim c)),
      (''family_ticket_limit'', JInt (cc_family_ticket_limit c)),
      (''remaining_family_slots_at_claim'', JInt (cc_remaining_family_slots_at_claim c)),
      (''gross_risk_at_stop_at_claim'', json_decimal (cc_gross_risk_at_stop_at_claim c)),
      (''directional_risk_at_stop_at_claim'', json_decimal (cc_directional_risk_at_stop_at_claim c)),
      (''current_reserved_margin_at_claim'', json_decimal (cc_current_reserved_margin_at_claim c)),
      (''max_ticket_stop_risk_fraction'', json_decimal (cc_max_ticket_stop_risk_fraction c)),
      (''max_gross_stop_risk_fraction'', json_decimal (cc_max_gross_stop_risk_fraction c)),
      (''directional_stop_risk_limit_fraction'', json_decimal (cc_directional_stop_risk_limit_fraction c)),
      (''max_ticket_initial_margin_fraction'', json_decimal (cc_max_ticket_initial_margin_fraction c)),
      (''max_gross_initial_margin_utilization'', json_decimal (cc_max_gross_initial_margin_utilization c)),
      (''min_materialization_ratio'', json_decimal (cc_min_materialization_ratio c)),
      (''minimum_stop_risk_budget'', json_decimal (cc_minimum_stop_risk_budget c)),
      (''planned_stop_risk_budget'', json_decimal (cc_planned_stop_risk_budget c)),
      (''max_post_fill_stop_risk_overrun_fraction'', json_decimal (cc_max_post_fill_stop_risk_overrun_fraction c)),
      (''post_fill_stop_risk_limit'', json_decimal (cc_post_fill_stop_risk_limit c)),
      (''post_stop_stress_multiple'', json_decimal (cc_post_stop_stress_multiple c)),
      (''ticket_margin_budget'', json_decimal (cc_ticket_margin_budget c)),
      (''required_leverage'', JInt (cc_required_leverage c)),
      (''selected_leverage'', JInt (cc_selected_leverage c)),
      (''configured_leverage_at_claim'', JInt (cc_configured_leverage_at_claim c)),
      (''leverage_change_required'', JBool (cc_leverage_change_required c)),
      (''exchange_max_leverage'', JInt (cc_exchange_max_leverage c)),
      (''reserved_margin'', json_decimal (cc_reserved_margin c)),
      (''cross_margin_stress_evidence'', stress_evidence_json (cc_cross_margin_stress_evidence c)),
      (''created_at_ms'', JInt (cc_created_at_ms c)),
      (''expires_at_ms'', JInt (cc_expires_at_ms c)),
      (''entry_reference_price'', json_decimal (cc_entry_reference_price c)),
      (''quantity'', json_decimal (cc_quantity c)),
      (''notional'', json_decimal (cc_notional c)),
      (''risk_at_stop'', json_decimal (cc_risk_at_stop c)),
      (''entry_order_type'', JStr (order_type_value (cc_entry_order_type c))),
      (''entry_limit_price'', json_option json_decimal (cc_entry_limit_price c)),
      (''initial_stop_price'', json_decimal (cc_initial_stop_price c)),
      (''pre_tp1_reclaim_price'', json_option json_decimal (cc_pre_tp1_reclaim_price c)),
      (''exposure_session_end_ms'', json_option JInt (cc_exposure_session_end_ms c)),
      (''take_profit_prices'', JList (map json_decimal (cc_take_profit_prices c))),
      (''take_profit_quantities'', JList (map json_decimal (cc_take_profit_quantities c)))]"

text \<open>\<open>build_capacity_claim_digest\<close>: absent optional authorities are left out of the payload.\<close>

definition build_capacity_claim_digest :: "capacity_claim \<Rightarrow> string" where
  "build_capacity_claim_digest c = canonical_digest (JObj (claim_payload c
     @ (if cc_selection_authority_id c = None then []
        else [(''selection_authority_id'', json_option JStr (cc_selection_authority_id c))])
     @ (if cc_max_same_strategy_side c = None \<and> cc_active_strategy_side_ticket_count_at_claim c = None then []
        else [(''max_same_strategy_side'', json_option JInt (cc_max_same_strategy_side c)),
              (''active_strategy_side_ticket_count_at_claim'', json_option JInt (cc_active_strategy_side_ticket_count_at_claim c))])
     @ (if cc_exit_binding_id c = None then []
        else [(''exit_binding_id'', json_option JStr (cc_exit_binding_id c)),
              (''exit_binding_semantic_hash'', json_option JStr (cc_exit_binding_semantic_hash c)),
              (''exit_binding_authority_version'', json_option JInt (cc_exit_binding_authority_version c))])))"

definition claim_id_of_digest :: "string \<Rightarrow> string" where
  "claim_id_of_digest digest = ''claim:'' @ take 32 (drop 7 digest)"

section \<open>Validation\<close>

text \<open>The \<open>mode="before"\<close> validators.\<close>

definition normalize_claim :: "capacity_claim \<Rightarrow> capacity_claim" where
  "normalize_claim c =
     c\<lparr>cc_capacity_claim_id := py_strip (cc_capacity_claim_id c),
       cc_owner_policy_id := py_strip (cc_owner_policy_id c),
       cc_runtime_scope_id := py_strip (cc_runtime_scope_id c),
       cc_universe_version_id := py_strip (cc_universe_version_id c),
       cc_exit_policy_id := py_strip (cc_exit_policy_id c),
       cc_selection_authority_id := blank_to_none (py_strip_opt (cc_selection_authority_id c)),
       cc_exit_binding_id := blank_to_none (py_strip_opt (cc_exit_binding_id c))\<rparr>"

definition claim_fields_ok :: "capacity_claim \<Rightarrow> bool" where
  "claim_fields_ok c \<longleftrightarrow>
     list_all (\<lambda>v. v \<noteq> []) [cc_capacity_claim_id c, cc_owner_policy_id c, cc_runtime_scope_id c,
         cc_universe_version_id c, cc_exit_policy_id c]
     \<and> list_all is_sha256_digest [cc_fact_digest c, cc_universe_semantic_digest c, cc_entry_admission_snapshot_digest c,
         cc_account_entry_health_digest c, cc_instrument_entry_health_digest c,
         cc_decision_digest c, cc_exit_policy_semantic_hash c]
     \<and> (case cc_exit_binding_semantic_hash c of None \<Rightarrow> True | Some h \<Rightarrow> is_sha256_digest h)
     \<and> (case cc_exit_binding_authority_version c of None \<Rightarrow> True | Some v \<Rightarrow> 0 < v)
     \<and> list_all (\<lambda>v. 0 < v) [cc_entry_reference_price c, cc_quantity c, cc_notional c, cc_initial_stop_price c,
         cc_total_wallet_balance_at_claim c, cc_total_margin_balance_at_claim c,
         cc_available_margin_at_claim c, cc_mark_price_at_claim c,
         cc_max_ticket_stop_risk_fraction c, cc_max_gross_stop_risk_fraction c,
         cc_directional_stop_risk_limit_fraction c, cc_max_ticket_initial_margin_fraction c,
         cc_max_gross_initial_margin_utilization c, cc_min_materialization_ratio c,
         cc_planned_stop_risk_budget c, cc_post_fill_stop_risk_limit c,
         cc_post_stop_stress_multiple c, cc_ticket_margin_budget c, cc_reserved_margin c]
     \<and> list_all (\<lambda>v. 0 \<le> v) [cc_total_initial_margin_at_claim c, cc_total_maintenance_margin_at_claim c,
         cc_gross_risk_at_stop_at_claim c, cc_directional_risk_at_stop_at_claim c,
         cc_current_reserved_margin_at_claim c]
     \<and> 0 \<le> cc_risk_at_stop c
     \<and> (case cc_pre_tp1_reclaim_price c of None \<Rightarrow> True | Some p \<Rightarrow> 0 < p)
     \<and> list_all (\<lambda>v. 0 \<le> v) [cc_active_ticket_count_at_claim c, cc_active_family_ticket_count_at_claim c,
         cc_remaining_family_slots_at_claim c]
     \<and> list_all (\<lambda>v. 0 < v) [cc_remaining_slots_at_claim c, cc_family_ticket_limit c, cc_required_leverage c,
         cc_selected_leverage c, cc_configured_leverage_at_claim c, cc_exchange_max_leverage c]
     \<and> (cc_position_mode_at_claim c = ''independent_sides'' \<or> cc_position_mode_at_claim c = ''one_way'')
     \<and> (cc_margin_mode_at_claim c = ''cross'' \<or> cc_margin_mode_at_claim c = ''isolated'')"

text \<open>\<open>_validate_claim\<close>, in four parts: shape, risk limits, margin limits, stress evidence.\<close>

definition claim_shape_ok :: "capacity_claim \<Rightarrow> bool" where
  "claim_shape_ok c \<longleftrightarrow>
     (case (cc_max_same_strategy_side c, cc_active_strategy_side_ticket_count_at_claim c) of
        (None, None) \<Rightarrow> True
      | (Some limit, Some count) \<Rightarrow> 0 < limit \<and> 0 \<le> count \<and> count < limit
      | _ \<Rightarrow> False)
     \<and> ((cc_exit_binding_id c = None \<and> cc_exit_binding_semantic_hash c = None
          \<and> cc_exit_binding_authority_version c = None)
        \<or> (cc_exit_binding_id c \<noteq> None \<and> cc_exit_binding_semantic_hash c \<noteq> None
          \<and> cc_exit_binding_authority_version c \<noteq> None))
     \<and> 0 < cc_owner_policy_version c \<and> 0 < cc_runtime_scope_version c
     \<and> 0 < cc_instrument_rules_projection_version c \<and> 0 < cc_created_at_ms c
     \<and> cc_created_at_ms c < cc_expires_at_ms c
     \<and> cc_remaining_family_slots_at_claim c
         = cc_family_ticket_limit c - cc_active_family_ticket_count_at_claim c
     \<and> (if cc_entry_order_type c = MARKET then cc_entry_limit_price c = None
        else (case cc_entry_limit_price c of None \<Rightarrow> False | Some p \<Rightarrow> 0 < p))
     \<and> (cc_pre_tp1_reclaim_price c = None) = (cc_exposure_session_end_ms c = None)
     \<and> (case cc_exposure_session_end_ms c of None \<Rightarrow> True | Some e \<Rightarrow> 0 < e)
     \<and> length (cc_take_profit_prices c) = length (cc_take_profit_quantities c)
     \<and> list_all (\<lambda>v. 0 < v) (cc_take_profit_prices c)
     \<and> list_all (\<lambda>v. 0 < v) (cc_take_profit_quantities c)
     \<and> dec_sum (cc_take_profit_quantities c) < cc_quantity c
     \<and> cc_selected_leverage c \<le> cc_exchange_max_leverage c"

definition claim_risk_ok :: "capacity_claim \<Rightarrow> bool" where
  "claim_risk_ok c \<longleftrightarrow>
     cc_risk_at_stop c \<le> cc_planned_stop_risk_budget c
     \<and> cc_planned_stop_risk_budget c \<le> cc_post_fill_stop_risk_limit c
     \<and> cc_planned_stop_risk_budget c
         \<le> dec_mul (cc_total_wallet_balance_at_claim c) (cc_max_ticket_stop_risk_fraction c)
     \<and> cc_planned_stop_risk_budget c
         \<le> dec_sub (dec_mul (cc_total_wallet_balance_at_claim c) (cc_max_gross_stop_risk_fraction c))
             (cc_gross_risk_at_stop_at_claim c)
     \<and> cc_planned_stop_risk_budget c
         \<le> dec_sub (dec_mul (cc_total_wallet_balance_at_claim c) (cc_directional_stop_risk_limit_fraction c))
             (cc_directional_risk_at_stop_at_claim c)
     \<and> cc_minimum_stop_risk_budget c =
         dec_mul (dec_mul (cc_total_wallet_balance_at_claim c) (cc_max_ticket_stop_risk_fraction c))
           (cc_min_materialization_ratio c)
     \<and> cc_minimum_stop_risk_budget c \<le> cc_risk_at_stop c"

definition claim_margin_ok :: "capacity_claim \<Rightarrow> bool" where
  "claim_margin_ok c \<longleftrightarrow>
     cc_ticket_margin_budget c
       \<le> dec_mul (cc_total_margin_balance_at_claim c) (cc_max_ticket_initial_margin_fraction c)
     \<and> cc_reserved_margin c \<le> cc_ticket_margin_budget c
     \<and> cc_ticket_margin_budget c
         \<le> dec_sub (dec_mul (cc_total_margin_balance_at_claim c) (cc_max_gross_initial_margin_utilization c))
             (max (cc_total_initial_margin_at_claim c) (cc_current_reserved_margin_at_claim c))"

definition claim_stress_ok :: "capacity_claim \<Rightarrow> bool" where
  "claim_stress_ok c \<longleftrightarrow>
     (let r = se_request (cc_cross_margin_stress_evidence c);
          account = sr_account_snapshot r;
          domain = ti_netting_domain (cc_ticket_identity c)
      in sf_status (se_proof (cc_cross_margin_stress_evidence c)) = PASSED
       \<and> sr_post_stop_stress_multiple r = cc_post_stop_stress_multiple c
       \<and> sr_evaluated_side r = nd_position_side domain
       \<and> as_exchange_instrument_id account = nd_exchange_instrument_id domain
       \<and> as_total_wallet_balance account = cc_total_wallet_balance_at_claim c
       \<and> as_total_margin_balance account = cc_total_margin_balance_at_claim c
       \<and> as_total_initial_margin account = cc_total_initial_margin_at_claim c
       \<and> as_total_maintenance_margin account = cc_total_maintenance_margin_at_claim c
       \<and> as_available_margin account = cc_available_margin_at_claim c
       \<and> as_mark_price account = cc_mark_price_at_claim c
       \<and> as_configured_leverage account = cc_configured_leverage_at_claim c
       \<and> sr_reference_entry_price r = cc_entry_reference_price c
       \<and> sr_initial_stop_price r = cc_initial_stop_price c
       \<and> (case List.find (\<lambda>p. sp_position_side p = nd_position_side domain)
              (sr_projected_instrument_positions r) of
            None \<Rightarrow> False
          | Some p \<Rightarrow> sp_quantity p = cc_quantity c \<and> sp_average_entry_price p = cc_entry_reference_price c))"

definition claim_digest_ok :: "capacity_claim \<Rightarrow> bool" where
  "claim_digest_ok c \<longleftrightarrow>
     build_capacity_claim_digest c = cc_decision_digest c
     \<and> cc_capacity_claim_id c = claim_id_of_digest (build_capacity_claim_digest c)"

definition valid_claim :: "capacity_claim \<Rightarrow> bool" where
  "valid_claim c \<longleftrightarrow>
     mk_ticket_identity (cc_ticket_identity c) = Inr (cc_ticket_identity c)
     \<and> valid_stress_evidence (cc_cross_margin_stress_evidence c)
     \<and> normalize_claim c = c \<and> claim_fields_ok c \<and> claim_shape_ok c \<and> claim_risk_ok c
     \<and> claim_margin_ok c \<and> claim_stress_ok c \<and> claim_digest_ok c"

definition mk_capacity_claim :: "capacity_claim \<Rightarrow> capacity_claim result" where
  "mk_capacity_claim c =
     bind_result (mk_ticket_identity (cc_ticket_identity c)) (\<lambda>identity.
       let c' = normalize_claim (c\<lparr>cc_ticket_identity := identity\<rparr>)
       in if valid_stress_evidence (cc_cross_margin_stress_evidence c') \<and> claim_fields_ok c'
             \<and> claim_shape_ok c' \<and> claim_risk_ok c' \<and> claim_margin_ok c' \<and> claim_stress_ok c'
             \<and> claim_digest_ok c'
          then Inr c' else Inl ValidationError)"

text \<open>\<open>CapacityClaimDecision\<close>.\<close>

record capacity_claim_decision =
  ccd_status :: capacity_claim_status
  ccd_claim :: "capacity_claim option"

definition valid_claim_decision :: "capacity_claim_decision \<Rightarrow> bool" where
  "valid_claim_decision d \<longleftrightarrow> (ccd_status d = CC_CLAIMED) = (ccd_claim d \<noteq> None)"

section \<open>Issuing the Ticket\<close>

definition claim_ticket :: "capacity_claim \<Rightarrow> trade_ticket" where
  "claim_ticket c =
     \<lparr>tk_identity = cc_ticket_identity c,
      tk_owner_policy_id = cc_owner_policy_id c,
      tk_owner_policy_version = cc_owner_policy_version c,
      tk_runtime_scope_id = cc_runtime_scope_id c,
      tk_runtime_scope_version = cc_runtime_scope_version c,
      tk_universe_version_id = cc_universe_version_id c,
      tk_universe_semantic_digest = cc_universe_semantic_digest c,
      tk_fact_digest = cc_fact_digest c,
      tk_exposure_family = cc_exposure_family c,
      tk_active_family_ticket_count_at_claim = cc_active_family_ticket_count_at_claim c,
      tk_family_ticket_limit = cc_family_ticket_limit c,
      tk_directional_risk_at_stop_at_claim = cc_directional_risk_at_stop_at_claim c,
      tk_directional_stop_risk_limit_fraction = cc_directional_stop_risk_limit_fraction c,
      tk_min_materialization_ratio = cc_min_materialization_ratio c,
      tk_minimum_stop_risk_budget = cc_minimum_stop_risk_budget c,
      tk_exit_policy_id = cc_exit_policy_id c,
      tk_exit_policy_semantic_hash = cc_exit_policy_semantic_hash c,
      tk_exit_binding_id = cc_exit_binding_id c,
      tk_exit_binding_semantic_hash = cc_exit_binding_semantic_hash c,
      tk_exit_binding_authority_version = cc_exit_binding_authority_version c,
      tk_capacity_claim_id = cc_capacity_claim_id c,
      tk_created_at_ms = cc_created_at_ms c,
      tk_expires_at_ms = cc_expires_at_ms c,
      tk_entry_reference_price = cc_entry_reference_price c,
      tk_quantity = cc_quantity c,
      tk_notional = cc_notional c,
      tk_planned_stop_risk_budget = cc_planned_stop_risk_budget c,
      tk_post_fill_stop_risk_limit = cc_post_fill_stop_risk_limit c,
      tk_selected_leverage = cc_selected_leverage c,
      tk_leverage_change_required = cc_leverage_change_required c,
      tk_reserved_margin = cc_reserved_margin c,
      tk_risk_reservation_basis = ''planned_stop_distance'',
      tk_margin_mode = cc_margin_mode_at_claim c,
      tk_cross_margin_stress_model_id = sf_model_id (se_proof (cc_cross_margin_stress_evidence c)),
      tk_post_stop_stress_multiple = cc_post_stop_stress_multiple c,
      tk_claim_stress_proof_digest = sf_proof_digest (se_proof (cc_cross_margin_stress_evidence c)),
      tk_risk_at_stop = cc_risk_at_stop c,
      tk_entry_order_type = cc_entry_order_type c,
      tk_entry_limit_price = cc_entry_limit_price c,
      tk_initial_stop_price = cc_initial_stop_price c,
      tk_pre_tp1_reclaim_price = cc_pre_tp1_reclaim_price c,
      tk_exposure_session_end_ms = cc_exposure_session_end_ms c,
      tk_take_profit_prices = cc_take_profit_prices c,
      tk_take_profit_quantities = cc_take_profit_quantities c,
      tk_status = T_ISSUED,
      tk_selection_authority_id = cc_selection_authority_id c\<rparr>"

definition to_ticket :: "capacity_claim \<Rightarrow> trade_ticket result" where
  "to_ticket c =
     (if cc_margin_mode_at_claim c \<noteq> ''cross''
      then Inl (ValueError ''Ticket issuance requires the supported cross margin mode'')
      else if cc_exit_binding_id c = None \<or> cc_exit_binding_semantic_hash c = None
              \<or> cc_exit_binding_authority_version c = None
      then Inl (ValueError ''new Ticket issuance requires exact Binding lineage'')
      else mk_ticket (claim_ticket c))"

section \<open>Freezing at the storage boundary\<close>

text \<open>
  \<open>_quantize_storage_decimal\<close>: 18 decimals, rounded down or up in a context of 60 digits, which traps
  when the result needs more digits. The fields are quantized independently of each other, so the order
  in which the source visits them only decides which of two exceptions is seen first; here a negative
  value is reported before an overflow.
\<close>

definition quantum :: rat where
  "quantum = 1 / 10 ^ 18"

definition quantize_floor :: "decimal \<Rightarrow> decimal" where
  "quantize_floor v = of_int \<lfloor>v / quantum\<rfloor> * quantum"

definition quantize_ceiling :: "decimal \<Rightarrow> decimal" where
  "quantize_ceiling v = of_int \<lceil>v / quantum\<rceil> * quantum"

definition floor_values :: "capacity_claim \<Rightarrow> decimal list" where
  "floor_values c =
     [cc_total_wallet_balance_at_claim c, cc_total_margin_balance_at_claim c,
      cc_available_margin_at_claim c, cc_ticket_margin_budget c,
      cc_max_ticket_stop_risk_fraction c, cc_max_gross_stop_risk_fraction c,
      cc_max_ticket_initial_margin_fraction c, cc_max_gross_initial_margin_utilization c,
      cc_post_stop_stress_multiple c, cc_max_post_fill_stop_risk_overrun_fraction c,
      cc_quantity c, cc_mark_price_at_claim c, cc_entry_reference_price c,
      cc_initial_stop_price c]
     @ (case cc_entry_limit_price c of None \<Rightarrow> [] | Some p \<Rightarrow> [p])
     @ cc_take_profit_prices c @ cc_take_profit_quantities c"

definition ceiling_values :: "capacity_claim \<Rightarrow> decimal list" where
  "ceiling_values c =
     [cc_total_initial_margin_at_claim c, cc_total_maintenance_margin_at_claim c,
      cc_gross_risk_at_stop_at_claim c, cc_directional_risk_at_stop_at_claim c,
      cc_current_reserved_margin_at_claim c, cc_minimum_stop_risk_budget c,
      cc_planned_stop_risk_budget c, cc_post_fill_stop_risk_limit c, cc_reserved_margin c,
      cc_notional c, cc_risk_at_stop c]"

definition quantize_claim :: "capacity_claim \<Rightarrow> capacity_claim" where
  "quantize_claim c =
     c\<lparr>cc_total_wallet_balance_at_claim := quantize_floor (cc_total_wallet_balance_at_claim c),
       cc_total_margin_balance_at_claim := quantize_floor (cc_total_margin_balance_at_claim c),
       cc_available_margin_at_claim := quantize_floor (cc_available_margin_at_claim c),
       cc_ticket_margin_budget := quantize_floor (cc_ticket_margin_budget c),
       cc_max_ticket_stop_risk_fraction := quantize_floor (cc_max_ticket_stop_risk_fraction c),
       cc_max_gross_stop_risk_fraction := quantize_floor (cc_max_gross_stop_risk_fraction c),
       cc_max_ticket_initial_margin_fraction := quantize_floor (cc_max_ticket_initial_margin_fraction c),
       cc_max_gross_initial_margin_utilization := quantize_floor (cc_max_gross_initial_margin_utilization c),
       cc_post_stop_stress_multiple := quantize_floor (cc_post_stop_stress_multiple c),
       cc_max_post_fill_stop_risk_overrun_fraction := quantize_floor (cc_max_post_fill_stop_risk_overrun_fraction c),
       cc_quantity := quantize_floor (cc_quantity c),
       cc_mark_price_at_claim := quantize_floor (cc_mark_price_at_claim c),
       cc_entry_reference_price := quantize_floor (cc_entry_reference_price c),
       cc_initial_stop_price := quantize_floor (cc_initial_stop_price c),
       cc_total_initial_margin_at_claim := quantize_ceiling (cc_total_initial_margin_at_claim c),
       cc_total_maintenance_margin_at_claim := quantize_ceiling (cc_total_maintenance_margin_at_claim c),
       cc_gross_risk_at_stop_at_claim := quantize_ceiling (cc_gross_risk_at_stop_at_claim c),
       cc_directional_risk_at_stop_at_claim := quantize_ceiling (cc_directional_risk_at_stop_at_claim c),
       cc_current_reserved_margin_at_claim := quantize_ceiling (cc_current_reserved_margin_at_claim c),
       cc_minimum_stop_risk_budget := quantize_ceiling (cc_minimum_stop_risk_budget c),
       cc_planned_stop_risk_budget := quantize_ceiling (cc_planned_stop_risk_budget c),
       cc_post_fill_stop_risk_limit := quantize_ceiling (cc_post_fill_stop_risk_limit c),
       cc_reserved_margin := quantize_ceiling (cc_reserved_margin c),
       cc_notional := quantize_ceiling (cc_notional c),
       cc_risk_at_stop := quantize_ceiling (cc_risk_at_stop c),
       cc_entry_limit_price := map_option quantize_floor (cc_entry_limit_price c),
       cc_take_profit_prices := map quantize_floor (cc_take_profit_prices c),
       cc_take_profit_quantities := map quantize_floor (cc_take_profit_quantities c)\<rparr>"

definition normalize_claim_decimals_for_storage :: "capacity_claim \<Rightarrow> capacity_claim result" where
  "normalize_claim_decimals_for_storage c =
     (if \<not> list_all (\<lambda>v. 0 \<le> v) (floor_values c @ ceiling_values c)
      then Inl (ValueError ''CapacityClaim financial values must be finite and nonnegative'')
      else if list_ex (\<lambda>v. 10 ^ 60 \<le> \<lfloor>v / quantum\<rfloor>) (floor_values c)
              \<or> list_ex (\<lambda>v. 10 ^ 60 \<le> \<lceil>v / quantum\<rceil>) (ceiling_values c)
      then Inl DecimalInvalidOperation
      else Inr (quantize_claim c))"

text \<open>
  \<open>freeze_capacity_claim\<close>: the argument carries the facts of the call; its identity and digest fields
  are ignored.
\<close>

definition freeze_capacity_claim :: "capacity_claim \<Rightarrow> capacity_claim result" where
  "freeze_capacity_claim facts =
     bind_result (normalize_claim_decimals_for_storage
        (facts\<lparr>cc_capacity_claim_id := ''claim:pending'',
               cc_decision_digest := ''sha256:'' @ replicate 64 (CHR ''0'')\<rparr>))
      (\<lambda>provisional.
         let decision_digest = build_capacity_claim_digest provisional
         in mk_capacity_claim (provisional\<lparr>cc_capacity_claim_id := claim_id_of_digest decision_digest,
                                           cc_decision_digest := decision_digest\<rparr>))"

section \<open>Lemmas\<close>

lemma normalize_claim_idem [simp]: "normalize_claim (normalize_claim c) = normalize_claim c"
  by (simp add: normalize_claim_def)

lemma mk_capacity_claim_valid: "mk_capacity_claim c = Inr c' \<Longrightarrow> valid_claim c'"
  by (auto simp: mk_capacity_claim_def valid_claim_def Let_def normalize_claim_def
      dest: mk_ticket_identity_idem split: if_splits)

lemma valid_claim_mk: "valid_claim c \<Longrightarrow> mk_capacity_claim c = Inr c"
  by (auto simp: mk_capacity_claim_def valid_claim_def)

lemma reservation_basis_strip [simp]: "py_strip ''planned_stop_distance'' = ''planned_stop_distance''"
  by code_simp

lemma claim_minimum_pos:
  assumes "claim_fields_ok c" "claim_risk_ok c"
  shows "0 < cc_minimum_stop_risk_budget c"
  using assms by (simp add: claim_fields_ok_def claim_risk_ok_def dec_mul_def)

lemma claim_ticket_fields:
  assumes "valid_claim c" "cc_margin_mode_at_claim c = ''cross''"
  shows "ticket_fields_ok (claim_ticket c)"
proof -
  have "valid_stress_proof (se_proof (cc_cross_margin_stress_evidence c))"
    using assms(1) by (simp add: valid_claim_def valid_stress_evidence_def)
  then show ?thesis
    using assms claim_minimum_pos[of c]
    by (simp add: ticket_fields_ok_def claim_ticket_def valid_claim_def claim_fields_ok_def claim_shape_ok_def
        valid_stress_proof_def)
qed

lemma claim_ticket_normal:
  assumes "valid_claim c"
  shows "normalize_ticket (claim_ticket c) = claim_ticket c"
proof -
  have n: "normalize_claim c = c" using assms by (simp add: valid_claim_def)
  have ids: "py_strip (cc_capacity_claim_id c) = cc_capacity_claim_id c"
      "py_strip (cc_owner_policy_id c) = cc_owner_policy_id c"
      "py_strip (cc_runtime_scope_id c) = cc_runtime_scope_id c"
      "py_strip (cc_universe_version_id c) = cc_universe_version_id c"
      "py_strip (cc_exit_policy_id c) = cc_exit_policy_id c"
      "blank_to_none (py_strip_opt (cc_selection_authority_id c)) = cc_selection_authority_id c"
      "blank_to_none (py_strip_opt (cc_exit_binding_id c)) = cc_exit_binding_id c"
    using arg_cong[OF n, of cc_capacity_claim_id] arg_cong[OF n, of cc_owner_policy_id]
      arg_cong[OF n, of cc_runtime_scope_id] arg_cong[OF n, of cc_universe_version_id]
      arg_cong[OF n, of cc_exit_policy_id] arg_cong[OF n, of cc_selection_authority_id]
      arg_cong[OF n, of cc_exit_binding_id]
    by (simp_all add: normalize_claim_def)
  have "is_sha256_digest (cc_fact_digest c)" "is_sha256_digest (cc_universe_semantic_digest c)"
      "is_sha256_digest (cc_exit_policy_semantic_hash c)"
      "is_sha256_digest (sf_proof_digest (se_proof (cc_cross_margin_stress_evidence c)))"
    using assms by (simp_all add: valid_claim_def claim_fields_ok_def valid_stress_evidence_def
        valid_stress_proof_def)
  then show ?thesis
    by (simp add: normalize_ticket_def claim_ticket_def ids sha256_digest_strip)
qed

lemma claim_ticket_shape:
  assumes "valid_claim c"
  shows "ticket_shape_ok (claim_ticket c) \<longleftrightarrow> 0 < cc_remaining_family_slots_at_claim c"
proof -
  have "claim_shape_ok c" "claim_risk_ok c" using assms by (simp_all add: valid_claim_def)
  then show ?thesis
    by (cases "cc_entry_order_type c")
       (auto simp: ticket_shape_ok_def claim_ticket_def claim_shape_ok_def claim_risk_ok_def
         split: option.splits)
qed

lemma to_ticket_iff:
  assumes "valid_claim c"
  shows "to_ticket c = Inr t \<longleftrightarrow>
    cc_margin_mode_at_claim c = ''cross'' \<and> cc_exit_binding_id c \<noteq> None
    \<and> 0 < cc_remaining_family_slots_at_claim c \<and> t = claim_ticket c"
proof -
  have lineage: "(cc_exit_binding_id c = None \<or> cc_exit_binding_semantic_hash c = None
      \<or> cc_exit_binding_authority_version c = None) = (cc_exit_binding_id c = None)"
    using assms by (auto simp: valid_claim_def claim_shape_ok_def)
  have identity: "mk_ticket_identity (tk_identity (claim_ticket c)) = Inr (tk_identity (claim_ticket c))"
    using assms by (simp add: valid_claim_def claim_ticket_def)
  show ?thesis
  proof (cases "cc_margin_mode_at_claim c = ''cross''")
    case True
    have "mk_ticket (claim_ticket c) =
        (if 0 < cc_remaining_family_slots_at_claim c then Inr (claim_ticket c) else Inl ValidationError)"
      using identity claim_ticket_normal[OF assms] claim_ticket_fields[OF assms True] claim_ticket_shape[OF assms]
      by (simp add: mk_ticket_def Let_def)
    then show ?thesis by (auto simp: to_ticket_def lineage True)
  qed (simp add: to_ticket_def)
qed

lemma claim_ticket_valid:
  assumes "valid_claim c" "to_ticket c = Inr t"
  shows "valid_ticket t"
  using mk_ticket_valid assms(2) by (auto simp: to_ticket_def split: if_splits)

text \<open>Quantized values lie on the grid, and quantizing again changes nothing.\<close>

definition storage_exact :: "decimal \<Rightarrow> bool" where
  "storage_exact v \<longleftrightarrow> of_int \<lfloor>v / quantum\<rfloor> * quantum = v"

lemma quantum_pos: "0 < quantum"
  by (simp add: quantum_def)

lemma quantize_grid [simp]:
  "storage_exact (quantize_floor v)" "storage_exact (quantize_ceiling v)"
  using quantum_pos by (simp_all add: storage_exact_def quantize_floor_def quantize_ceiling_def)

lemma quantize_exact:
  assumes "storage_exact v"
  shows "quantize_floor v = v" "quantize_ceiling v = v"
proof -
  obtain n where v: "v = of_int n * quantum" using assms by (metis storage_exact_def)
  show "quantize_floor v = v" "quantize_ceiling v = v"
    using quantum_pos by (simp_all add: v quantize_floor_def quantize_ceiling_def)
qed

lemma quantize_bounds:
  "quantize_floor v \<le> v" "v - quantum < quantize_floor v"
  "v \<le> quantize_ceiling v" "quantize_ceiling v < v + quantum"
proof -
  have v: "v = v / quantum * quantum" using quantum_pos by simp
  show "quantize_floor v \<le> v"
    using mult_right_mono[of "of_int \<lfloor>v / quantum\<rfloor>" "v / quantum" quantum] quantum_pos v
    by (simp add: quantize_floor_def)
  show "v \<le> quantize_ceiling v"
    using mult_right_mono[of "v / quantum" "of_int \<lceil>v / quantum\<rceil>" quantum] quantum_pos v
    by (simp add: quantize_ceiling_def)
  have "v / quantum < of_int \<lfloor>v / quantum\<rfloor> + 1" "of_int \<lceil>v / quantum\<rceil> < v / quantum + 1"
    by linarith+
  then show "v - quantum < quantize_floor v" "quantize_ceiling v < v + quantum"
    using quantum_pos by (simp_all add: quantize_floor_def quantize_ceiling_def field_simps)
qed

lemma quantize_nonneg: "0 \<le> v \<Longrightarrow> 0 \<le> quantize_floor v" "0 \<le> v \<Longrightarrow> 0 \<le> quantize_ceiling v"
  using quantum_pos quantize_bounds(3)[of v] by (simp_all add: quantize_floor_def)

lemma quantized_values:
  "floor_values (quantize_claim c) = map quantize_floor (floor_values c)"
  "ceiling_values (quantize_claim c) = map quantize_ceiling (ceiling_values c)"
  by (simp_all add: floor_values_def ceiling_values_def quantize_claim_def split: option.splits)

lemma quantize_claim_exact:
  assumes "list_all storage_exact (floor_values c @ ceiling_values c)"
  shows "quantize_claim c = c"
proof -
  have list: "list_all storage_exact xs \<Longrightarrow> map quantize_floor xs = xs" for xs
    by (simp add: list_all_iff map_idI quantize_exact)
  have "map_option quantize_floor (cc_entry_limit_price c) = cc_entry_limit_price c"
    using assms by (auto simp: floor_values_def quantize_exact split: option.splits)
  moreover have "map quantize_floor (cc_take_profit_prices c) = cc_take_profit_prices c"
      "map quantize_floor (cc_take_profit_quantities c) = cc_take_profit_quantities c"
    using assms by (simp_all add: floor_values_def list)
  ultimately show ?thesis
    using assms quantize_exact
    by (simp add: floor_values_def ceiling_values_def quantize_claim_def)
qed

text \<open>The payload, and so the digest, does not depend on the identity and digest fields.\<close>

lemma digest_ignores_identity [simp]:
  "build_capacity_claim_digest (c\<lparr>cc_capacity_claim_id := i, cc_decision_digest := d\<rparr>)
     = build_capacity_claim_digest c"
  by (simp add: build_capacity_claim_digest_def claim_payload_def)

lemma values_ignore_identity [simp]:
  "floor_values (c\<lparr>cc_capacity_claim_id := i, cc_decision_digest := d\<rparr>) = floor_values c"
  "ceiling_values (c\<lparr>cc_capacity_claim_id := i, cc_decision_digest := d\<rparr>) = ceiling_values c"
  by (simp_all add: floor_values_def ceiling_values_def)

lemma mk_claim_values:
  assumes "mk_capacity_claim c = Inr c'"
  shows "floor_values c' = floor_values c" "ceiling_values c' = ceiling_values c"
  using assms
  by (auto simp: mk_capacity_claim_def Let_def normalize_claim_def floor_values_def ceiling_values_def
      split: if_splits)

text \<open>A frozen claim is valid, and its values are the quantized ones.\<close>

lemma freeze_values:
  assumes "freeze_capacity_claim c = Inr c'"
  shows "valid_claim c'"
    "floor_values c' = map quantize_floor (floor_values c)"
    "ceiling_values c' = map quantize_ceiling (ceiling_values c)"
    "list_all (\<lambda>v. 0 \<le> v \<and> \<lfloor>v / quantum\<rfloor> < 10 ^ 60) (floor_values c)"
    "list_all (\<lambda>v. 0 \<le> v \<and> \<lceil>v / quantum\<rceil> < 10 ^ 60) (ceiling_values c)"
proof -
  let ?c = "c\<lparr>cc_capacity_claim_id := ''claim:pending'',
               cc_decision_digest := ''sha256:'' @ replicate 64 (CHR ''0'')\<rparr>"
  obtain p where p: "normalize_claim_decimals_for_storage ?c = Inr p"
      "mk_capacity_claim (p\<lparr>cc_capacity_claim_id := claim_id_of_digest (build_capacity_claim_digest p),
         cc_decision_digest := build_capacity_claim_digest p\<rparr>) = Inr c'"
    using assms unfolding freeze_capacity_claim_def Let_def by (auto simp only: bind_result_Inr_iff)
  have q: "p = quantize_claim ?c"
    and sized: "list_all (\<lambda>v. 0 \<le> v) (floor_values ?c @ ceiling_values ?c)"
      "\<not> list_ex (\<lambda>v. 10 ^ 60 \<le> \<lfloor>v / quantum\<rfloor>) (floor_values ?c)"
      "\<not> list_ex (\<lambda>v. 10 ^ 60 \<le> \<lceil>v / quantum\<rceil>) (ceiling_values ?c)"
    using p(1) by (simp_all only: normalize_claim_decimals_for_storage_def split: if_splits) simp_all
  show "valid_claim c'" using mk_capacity_claim_valid[OF p(2)] .
  show "floor_values c' = map quantize_floor (floor_values c)"
      "ceiling_values c' = map quantize_ceiling (ceiling_values c)"
    by (simp_all only: mk_claim_values[OF p(2)] values_ignore_identity q quantized_values)
  show "list_all (\<lambda>v. 0 \<le> v \<and> \<lfloor>v / quantum\<rfloor> < 10 ^ 60) (floor_values c)"
      "list_all (\<lambda>v. 0 \<le> v \<and> \<lceil>v / quantum\<rceil> < 10 ^ 60) (ceiling_values c)"
    using sized unfolding values_ignore_identity list_all_iff list_ex_iff set_append
    by (meson UnCI not_le)+
qed

lemma quantize_steps [simp]:
  "\<lfloor>quantize_floor v / quantum\<rfloor> = \<lfloor>v / quantum\<rfloor>" "\<lceil>quantize_ceiling v / quantum\<rceil> = \<lceil>v / quantum\<rceil>"
  using quantum_pos by (simp_all add: quantize_floor_def quantize_ceiling_def)

lemma frozen_storable:
  assumes "freeze_capacity_claim c = Inr c'"
  shows "list_all storage_exact (floor_values c' @ ceiling_values c')"
    "normalize_claim_decimals_for_storage (c'\<lparr>cc_capacity_claim_id := i, cc_decision_digest := d\<rparr>)
       = Inr (c'\<lparr>cc_capacity_claim_id := i, cc_decision_digest := d\<rparr>)"
proof -
  note f = freeze_values[OF assms]
  show exact: "list_all storage_exact (floor_values c' @ ceiling_values c')"
    by (auto simp: f(2,3) list_all_iff)
  have "quantize_claim (c'\<lparr>cc_capacity_claim_id := i, cc_decision_digest := d\<rparr>)
      = c'\<lparr>cc_capacity_claim_id := i, cc_decision_digest := d\<rparr>"
    by (rule quantize_claim_exact) (simp only: values_ignore_identity exact)
  moreover have "list_all (\<lambda>v. 0 \<le> v) (floor_values c' @ ceiling_values c')"
    using f(4,5) quantize_nonneg by (auto simp: f(2,3) list_all_iff)
  moreover have "\<not> list_ex (\<lambda>v. 10 ^ 60 \<le> \<lfloor>v / quantum\<rfloor>) (floor_values c')"
    using f(4) unfolding f(2) list_all_iff list_ex_iff set_map by (metis imageE not_le quantize_steps(1))
  moreover have "\<not> list_ex (\<lambda>v. 10 ^ 60 \<le> \<lceil>v / quantum\<rceil>) (ceiling_values c')"
    using f(5) unfolding f(3) list_all_iff list_ex_iff set_map by (metis imageE not_le quantize_steps(2))
  ultimately show "normalize_claim_decimals_for_storage (c'\<lparr>cc_capacity_claim_id := i, cc_decision_digest := d\<rparr>)
       = Inr (c'\<lparr>cc_capacity_claim_id := i, cc_decision_digest := d\<rparr>)"
    by (simp add: normalize_claim_decimals_for_storage_def del: list_all_append)
qed

lemma refreeze:
  assumes "freeze_capacity_claim c = Inr c'"
  shows "freeze_capacity_claim c' = Inr c'"
proof -
  note v = freeze_values(1)[OF assms]
  have "build_capacity_claim_digest c' = cc_decision_digest c'"
      "claim_id_of_digest (build_capacity_claim_digest c') = cc_capacity_claim_id c'"
    using v by (simp_all add: valid_claim_def claim_digest_ok_def)
  then show ?thesis
    using valid_claim_mk[OF v] frozen_storable(2)[OF assms]
    by (simp add: freeze_capacity_claim_def Let_def)
qed

end
