(* ===== verification/Capacity_Properties.thy ===== *)
theory Capacity_Properties
  imports Capacity Lifecycle_Demo
begin

text \<open>
  What the capacity authority guarantees: which claims issue a Ticket and that the Ticket is valid, that
  a frozen claim survives storage unchanged, and the limits every valid claim respects.
\<close>

section \<open>A concrete claim\<close>

definition demo_claim_facts :: capacity_claim where
  "demo_claim_facts =
     \<lparr>cc_capacity_claim_id = [], cc_ticket_identity = tk_identity demo_ticket,
      cc_owner_policy_id = ''o'', cc_owner_policy_version = 1, cc_runtime_scope_id = ''r'',
      cc_runtime_scope_version = 1, cc_universe_version_id = ''u'', cc_universe_semantic_digest = demo_digest,
      cc_fact_digest = demo_digest, cc_exit_policy_id = ''q'', cc_exit_policy_semantic_hash = demo_digest,
      cc_exit_binding_id = Some ''b'', cc_exit_binding_semantic_hash = Some demo_digest,
      cc_exit_binding_authority_version = Some 1, cc_entry_admission_snapshot_digest = demo_digest,
      cc_account_entry_health_digest = demo_digest, cc_instrument_entry_health_digest = demo_digest,
      cc_instrument_rules_projection_version = 1, cc_account_capacity_domain_key = ''b:a'',
      cc_leverage_domain_key = ''b:a:i'', cc_total_wallet_balance_at_claim = 1000,
      cc_total_margin_balance_at_claim = 1000, cc_total_initial_margin_at_claim = 0,
      cc_total_maintenance_margin_at_claim = 0, cc_available_margin_at_claim = 1000,
      cc_mark_price_at_claim = 100, cc_position_mode_at_claim = ''independent_sides'',
      cc_margin_mode_at_claim = ''cross'', cc_active_ticket_count_at_claim = 0, cc_remaining_slots_at_claim = 3,
      cc_exposure_family = opening_range, cc_active_family_ticket_count_at_claim = 0, cc_family_ticket_limit = 2,
      cc_max_same_strategy_side = None, cc_active_strategy_side_ticket_count_at_claim = None,
      cc_remaining_family_slots_at_claim = 2, cc_gross_risk_at_stop_at_claim = 0,
      cc_directional_risk_at_stop_at_claim = 0, cc_current_reserved_margin_at_claim = 0,
      cc_max_ticket_stop_risk_fraction = 1/50, cc_max_gross_stop_risk_fraction = 1/10,
      cc_directional_stop_risk_limit_fraction = 1/20, cc_max_ticket_initial_margin_fraction = 1/5,
      cc_max_gross_initial_margin_utilization = 1/2, cc_min_materialization_ratio = 1/2,
      cc_minimum_stop_risk_budget = 10, cc_planned_stop_risk_budget = 20,
      cc_max_post_fill_stop_risk_overrun_fraction = 1/10, cc_post_fill_stop_risk_limit = 22,
      cc_post_stop_stress_multiple = 1, cc_ticket_margin_budget = 200, cc_required_leverage = 1,
      cc_selected_leverage = 5, cc_configured_leverage_at_claim = 5, cc_leverage_change_required = False,
      cc_exchange_max_leverage = 20, cc_reserved_margin = 40, cc_cross_margin_stress_evidence = demo_evidence,
      cc_created_at_ms = 1, cc_expires_at_ms = 100, cc_entry_reference_price = 100, cc_quantity = 2,
      cc_notional = 200, cc_risk_at_stop = 20, cc_entry_order_type = MARKET, cc_entry_limit_price = None,
      cc_initial_stop_price = 90, cc_pre_tp1_reclaim_price = None, cc_exposure_session_end_ms = None,
      cc_take_profit_prices = [120], cc_take_profit_quantities = [1], cc_decision_digest = [],
      cc_selection_authority_id = None\<rparr>"

text \<open>Facts sealed with their digest and the identity it gives.\<close>

definition seal_claim :: "capacity_claim \<Rightarrow> capacity_claim" where
  "seal_claim facts = (let digest = build_capacity_claim_digest facts
     in facts\<lparr>cc_capacity_claim_id := claim_id_of_digest digest, cc_decision_digest := digest\<rparr>)"

definition demo_claim :: capacity_claim where
  "demo_claim = seal_claim demo_claim_facts"

definition demo_limit_claim :: capacity_claim where
  "demo_limit_claim = seal_claim (demo_claim_facts\<lparr>cc_entry_order_type := LIMIT, cc_entry_limit_price := Some 100\<rparr>)"

lemma sealed_identity:
  "py_strip (claim_id_of_digest (build_capacity_claim_digest f)) = claim_id_of_digest (build_capacity_claim_digest f)"
  "claim_id_of_digest (build_capacity_claim_digest f) \<noteq> []" "is_sha256_digest (build_capacity_claim_digest f)"
proof -
  obtain j where j: "build_capacity_claim_digest f = canonical_digest j"
    by (simp add: build_capacity_claim_digest_def)
  have id: "claim_id_of_digest (build_capacity_claim_digest f) = ''claim:'' @ take 32 (sha256_hexdigest (json_dumps j))"
    unfolding j claim_id_of_digest_def canonical_digest_def by simp
  show "py_strip (claim_id_of_digest (build_capacity_claim_digest f)) = claim_id_of_digest (build_capacity_claim_digest f)"
    unfolding id by (rule tagged_hex_strip) (simp_all add: py_isspace_def)
  show "claim_id_of_digest (build_capacity_claim_digest f) \<noteq> []" unfolding id by simp
  show "is_sha256_digest (build_capacity_claim_digest f)" unfolding j by simp
qed

lemma sealed_digest_ok: "claim_digest_ok (seal_claim f)"
  unfolding claim_digest_ok_def seal_claim_def Let_def digest_ignores_identity by simp

lemma priced_claim_valid:
  assumes "(entry_type = MARKET \<and> price = None) \<or> (entry_type = LIMIT \<and> price = Some 100)"
  shows "valid_claim (seal_claim (demo_claim_facts\<lparr>cc_entry_order_type := entry_type, cc_entry_limit_price := price\<rparr>))"
    (is "valid_claim (seal_claim ?f)")
proof -
  define digest where "digest = build_capacity_claim_digest ?f"
  define name where "name = claim_id_of_digest digest"
  note id = sealed_identity[of ?f, folded digest_def name_def]
  let ?c = "?f\<lparr>cc_capacity_claim_id := name, cc_decision_digest := digest\<rparr>"
  have seal: "seal_claim ?f = ?c" by (simp add: seal_claim_def Let_def name_def digest_def)
  note d = demo_claim_facts_def
  have "mk_ticket_identity (cc_ticket_identity ?c) = Inr (cc_ticket_identity ?c)"
    using valid_demo_ticket by (simp add: d valid_ticket_def)
  moreover have "normalize_claim ?c = ?c" by (simp add: normalize_claim_def d id blank_to_none_def py_strip_opt_def)
  moreover have "claim_fields_ok ?c" by (simp add: claim_fields_ok_def d id)
  moreover have "claim_shape_ok ?c" using assms by (auto simp: claim_shape_ok_def d dec_sum_def dec_add_def)
  moreover have "claim_risk_ok ?c" "claim_margin_ok ?c"
    by (simp_all add: claim_risk_ok_def claim_margin_ok_def d dec_ops)
  moreover have "claim_stress_ok ?c"
    by (simp add: claim_stress_ok_def d Let_def demo_evidence_def demo_request_def demo_snapshot_def
        demo_snapshot0_def demo_ticket_def)
  moreover have "claim_digest_ok ?c" using sealed_digest_ok[of ?f] unfolding seal .
  ultimately show ?thesis
    unfolding seal using valid_demo_evidence by (simp add: valid_claim_def) (simp add: d)
qed

lemma demo_claim_valid: "valid_claim demo_claim"
  using priced_claim_valid[of MARKET None] by (simp add: demo_claim_def demo_claim_facts_def)

lemma demo_limit_claim_valid: "valid_claim demo_limit_claim"
  using priced_claim_valid[of LIMIT "Some 100"] by (simp add: demo_limit_claim_def)

lemmas demo_claim_eval = demo_claim_def seal_claim_def Let_def demo_claim_facts_def

section \<open>Limits\<close>

text \<open>Room left below a limit: what fits into \<open>limit - used\<close>, as the code rounds it, fits beside \<open>used\<close>.\<close>

lemma fits_beside:
  assumes "0 < v" "v \<le> dec_sub limit used" "0 \<le> used"
  shows "used + v \<le> limit * (1 + dec_eps)"
proof -
  have "0 < dec_sub limit used" using assms by linarith
  then have room: "0 < limit - used" by (simp add: dec_sub_def)
  have "v \<le> (limit - used) * (1 + dec_eps)"
    using assms(2) dec.rnd_upper[of "limit - used"] room by (simp add: dec_sub_def)
  also have "\<dots> \<le> limit * (1 + dec_eps) - used"
  proof -
    have "0 \<le> used * dec_eps" using assms(3) by (simp add: dec_eps_def)
    then show ?thesis by (simp add: algebra_simps)
  qed
  finally show ?thesis by simp
qed

lemma claim_amounts:
  assumes "valid_claim c"
  shows "0 < cc_reserved_margin c" "0 < cc_planned_stop_risk_budget c" "0 < cc_ticket_margin_budget c"
    "0 \<le> cc_gross_risk_at_stop_at_claim c" "0 \<le> cc_directional_risk_at_stop_at_claim c"
    "0 \<le> max (cc_total_initial_margin_at_claim c) (cc_current_reserved_margin_at_claim c)"
  using assms by (simp_all add: valid_claim_def claim_fields_ok_def le_max_iff_disj)

section \<open>Properties\<close>

text \<open>
  A valid claim issues its Ticket exactly when it was taken in cross margin mode, carries a complete
  exit-binding lineage and its family still had a free slot; the Ticket then is the claim's own
  decision, field by field, and passes every Ticket validator.
\<close>

theorem claim_issues_valid_ticket:
  assumes "valid_claim c"
  shows "(to_ticket c = Inr t \<longleftrightarrow>
      cc_margin_mode_at_claim c = ''cross'' \<and> cc_exit_binding_id c \<noteq> None
      \<and> 0 < cc_remaining_family_slots_at_claim c \<and> t = claim_ticket c)
    \<and> (to_ticket c = Inr t \<longrightarrow> valid_ticket t)"
  using to_ticket_iff[OF assms] claim_ticket_valid[OF assms] by blast

lemma demo_to_ticket: "to_ticket demo_claim = Inr (claim_ticket demo_claim)"
  unfolding to_ticket_iff[OF demo_claim_valid] by (simp add: demo_claim_eval)

theorem claim_issues_valid_ticket_witness:
  "valid_claim demo_claim \<and> to_ticket demo_claim = Inr (claim_ticket demo_claim)
   \<and> valid_ticket (claim_ticket demo_claim)"
  using claim_issues_valid_ticket[OF demo_claim_valid, of "claim_ticket demo_claim"] demo_claim_valid demo_to_ticket
  by blast




text \<open>
  C22. A valid claim respects the owner's limits: its stop risk is between the minimum materialisation and
  the per-Ticket limit, its stop risk together with the open risk stays within the gross and the
  directional limit, and its margin together with the margin in use stays within the gross margin limit
  (the sums up to one decimal rounding).
\<close>

theorem claim_respects_limits:
  assumes "valid_claim c"
  shows "cc_minimum_stop_risk_budget c \<le> cc_risk_at_stop c
    \<and> cc_risk_at_stop c \<le> dec_mul (cc_total_wallet_balance_at_claim c) (cc_max_ticket_stop_risk_fraction c)
    \<and> cc_gross_risk_at_stop_at_claim c + cc_risk_at_stop c
        \<le> dec_mul (cc_total_wallet_balance_at_claim c) (cc_max_gross_stop_risk_fraction c) * (1 + dec_eps)
    \<and> cc_directional_risk_at_stop_at_claim c + cc_risk_at_stop c
        \<le> dec_mul (cc_total_wallet_balance_at_claim c) (cc_directional_stop_risk_limit_fraction c) * (1 + dec_eps)
    \<and> cc_reserved_margin c
        \<le> dec_mul (cc_total_margin_balance_at_claim c) (cc_max_ticket_initial_margin_fraction c)
    \<and> max (cc_total_initial_margin_at_claim c) (cc_current_reserved_margin_at_claim c) + cc_reserved_margin c
        \<le> dec_mul (cc_total_margin_balance_at_claim c) (cc_max_gross_initial_margin_utilization c) * (1 + dec_eps)"
proof -
  note a = claim_amounts[OF assms]
  have r: "claim_risk_ok c" "claim_margin_ok c" using assms by (simp_all add: valid_claim_def)
  note r = r[unfolded claim_risk_ok_def claim_margin_ok_def]
  have "cc_gross_risk_at_stop_at_claim c + cc_planned_stop_risk_budget c
        \<le> dec_mul (cc_total_wallet_balance_at_claim c) (cc_max_gross_stop_risk_fraction c) * (1 + dec_eps)"
    using fits_beside[OF a(2) _ a(4)] r by blast
  moreover have "cc_directional_risk_at_stop_at_claim c + cc_planned_stop_risk_budget c
        \<le> dec_mul (cc_total_wallet_balance_at_claim c) (cc_directional_stop_risk_limit_fraction c) * (1 + dec_eps)"
    using fits_beside[OF a(2) _ a(5)] r by blast
  moreover have "max (cc_total_initial_margin_at_claim c) (cc_current_reserved_margin_at_claim c) + cc_ticket_margin_budget c
        \<le> dec_mul (cc_total_margin_balance_at_claim c) (cc_max_gross_initial_margin_utilization c) * (1 + dec_eps)"
    using fits_beside[OF a(3) _ a(6)] r by blast
  ultimately show ?thesis using r by linarith
qed

theorem claim_respects_limits_witness:
  "valid_claim demo_claim
   \<and> cc_gross_risk_at_stop_at_claim demo_claim + cc_risk_at_stop demo_claim
        \<le> dec_mul (cc_total_wallet_balance_at_claim demo_claim) (cc_max_gross_stop_risk_fraction demo_claim)
            * (1 + dec_eps)"
  using claim_respects_limits[OF demo_claim_valid] demo_claim_valid by blast

end
