(* ===== verification/Kernel_Store.thy ===== *)
theory Kernel_Store
  imports Reducer Capacity
begin

text \<open>
  The durable state of the kernel: the PostgreSQL tables the capital path reads and writes
  (\<open>infrastructure/pg_models.py\<close>) and the repository operations on them
  (\<open>infrastructure/pg_repositories.py\<close>, records of \<open>application/ports.py\<close>).

  A table is the list of its rows in insertion order. An \<open>INSERT\<close> that violates a primary key or unique
  constraint is the error \<open>IntegrityError\<close>; an \<open>UPDATE \<dots> WHERE\<close> maps over the matching rows and its
  \<open>rowcount\<close> is their number. Operations return the next store or the exception the method raises; a
  unit of work that raises is rolled back, so an \<open>Inl\<close> leaves the store as it was.

  Amounts are kept exactly: the rounding of \<open>NUMERIC(38, 18)\<close> on write is not modelled (frozen claims
  are on that grid already, see \<open>Capacity\<close>). Foreign keys, row locks and the two scheduling columns of
  the aggregate table are left out, as are rows of earlier schema versions. The columns of an aggregate
  row are those of the aggregate without identity and Ticket, which a read rebuilds from the Ticket row.
\<close>

section \<open>Rows\<close>

record ticket_row =
  tr_ticket :: trade_ticket
  tr_active_netting_domain_key :: "string option"
  tr_terminal_at_ms :: "int option"

text \<open>What \<open>result_payload\<close> holds.\<close>

datatype command_outcome =
    OrderResult exchange_command_result
  | LeverageResult set_leverage_result
  | SupersededResult string int
  | ReconciledAcceptedResult string int
  | ReconciledAbsentResult string int

record command_row =
  co_command :: exchange_command
  co_result_payload :: "command_outcome option"
  co_claim_owner :: "string option"
  co_lease_until_ms :: "int option"
  co_completed_at_ms :: "int option"

record budget_row =
  br_budget_reservation_id :: string
  br_ticket_id :: string
  br_owner_policy_id :: string
  br_venue_id :: string
  br_account_id :: string
  br_reserved_notional :: decimal
  br_reserved_risk :: decimal
  br_reserved_margin :: decimal
  br_planned_stop_risk_budget :: decimal
  br_risk_reservation_basis :: string
  br_status :: string
  br_created_at_ms :: int
  br_released_at_ms :: "int option"

record incident_row =
  in_incident_id :: string
  in_ticket_id :: "string option"
  in_incident_kind :: string
  in_status :: string
  in_first_blocker :: string
  in_entry_block_scope :: entry_block_scope
  in_entry_block_key :: "string option"
  in_event_id :: string
  in_opened_at_ms :: int
  in_resolved_at_ms :: "int option"

text \<open>\<open>RuntimeIncidentRecord._validate_entry_block_identity\<close>.\<close>

definition valid_incident :: "incident_row \<Rightarrow> bool" where
  "valid_incident i =
     (if in_entry_block_scope i = NO_BLOCK then in_entry_block_key i = None
      else if in_entry_block_scope i = RUNTIME then in_entry_block_key i = Some ''global''
      else (case in_entry_block_key i of None \<Rightarrow> False | Some k \<Rightarrow> k \<noteq> []))"

record exposure_row =
  ex_venue_id :: string
  ex_account_id :: string
  ex_gross_notional :: decimal
  ex_gross_risk_at_stop :: decimal
  ex_current_reserved_margin :: decimal
  ex_active_ticket_count :: int
  ex_projection_version :: int
  ex_updated_at_ms :: int

record lane_row =
  ln_ticket_id :: "string option"
  ln_signal_event_id :: "string option"
  ln_status :: string
  ln_claimed_at_ms :: "int option"
  ln_lease_until_ms :: "int option"
  ln_claim_owner :: "string option"
  ln_version :: int

datatype monitor_owner_status =
    NOT_ENABLED | RUNNING | WAITING_FOR_OPPORTUNITY | PROCESSING | TEMPORARILY_UNAVAILABLE
  | NEEDS_INTERVENTION | PAUSED | COMPLETED

record monitor_row =
  mo_monitor_key :: string
  mo_owner_status :: monitor_owner_status
  mo_summary :: string
  mo_intervention :: string
  mo_ticket_id :: "string option"
  mo_incident_id :: "string option"
  mo_updated_at_ms :: int
  mo_projection_version :: int

record kernel_store =
  ks_tickets :: "ticket_row list"
  ks_aggregates :: "trade_aggregate list"
  ks_events :: "trade_event list"
  ks_commands :: "command_row list"
  ks_budgets :: "budget_row list"
  ks_claims :: "capacity_claim list"
  ks_incidents :: "incident_row list"
  ks_exposures :: "exposure_row list"
  ks_lane :: "lane_row option"
  ks_monitors :: "monitor_row list"

definition empty_store :: kernel_store where
  "empty_store = \<lparr>ks_tickets = [], ks_aggregates = [], ks_events = [], ks_commands = [], ks_budgets = [],
     ks_claims = [], ks_incidents = [], ks_exposures = [], ks_lane = None, ks_monitors = []\<rparr>"

section \<open>Rows and row counts\<close>

definition rowcount :: "('r \<Rightarrow> bool) \<Rightarrow> 'r list \<Rightarrow> nat" where
  "rowcount P rows = length (filter P rows)"

definition update_where :: "('r \<Rightarrow> bool) \<Rightarrow> ('r \<Rightarrow> 'r) \<Rightarrow> 'r list \<Rightarrow> 'r list" where
  "update_where P f rows = map (\<lambda>r. if P r then f r else r) rows"

text \<open>An update that must touch exactly one row.\<close>

definition update_one :: "string \<Rightarrow> ('r \<Rightarrow> bool) \<Rightarrow> ('r \<Rightarrow> 'r) \<Rightarrow> 'r list \<Rightarrow> 'r list result" where
  "update_one message P f rows =
     (if rowcount P rows = 1 then Inr (update_where P f rows)
      else Inl (AggregateVersionConflict message))"

text \<open>An insert against the unique constraints: \<open>conflicts r\<close> says that an existing row excludes the new one.\<close>

definition insert_row :: "('r \<Rightarrow> bool) \<Rightarrow> 'r \<Rightarrow> 'r list \<Rightarrow> 'r list result" where
  "insert_row conflicts row rows = (if list_ex conflicts rows then Inl IntegrityError else Inr (rows @ [row]))"

section \<open>Tickets\<close>

abbreviation row_ticket_id :: "ticket_row \<Rightarrow> string" where
  "row_ticket_id r \<equiv> ti_ticket_id (tk_identity (tr_ticket r))"

abbreviation row_domain :: "ticket_row \<Rightarrow> netting_domain" where
  "row_domain r \<equiv> ti_netting_domain (tk_identity (tr_ticket r))"

definition tickets_add :: "trade_ticket \<Rightarrow> kernel_store \<Rightarrow> kernel_store result" where
  "tickets_add ticket s =
     (let key = netting_domain_key (ti_netting_domain (tk_identity ticket))
      in bind_result (insert_row
           (\<lambda>r. row_ticket_id r = ti_ticket_id (tk_identity ticket)
              \<or> ti_signal_event_id (tk_identity (tr_ticket r)) = ti_signal_event_id (tk_identity ticket)
              \<or> tr_active_netting_domain_key r = Some key)
           \<lparr>tr_ticket = ticket, tr_active_netting_domain_key = Some key, tr_terminal_at_ms = None\<rparr>
           (ks_tickets s))
         (\<lambda>rows. Inr (s\<lparr>ks_tickets := rows\<rparr>)))"

definition tickets_get :: "string \<Rightarrow> kernel_store \<Rightarrow> trade_ticket option" where
  "tickets_get ticket_id s = map_option tr_ticket (List.find (\<lambda>r. row_ticket_id r = ticket_id) (ks_tickets s))"

definition tickets_mark_terminal ::
  "string \<Rightarrow> ticket_status \<Rightarrow> int \<Rightarrow> kernel_store \<Rightarrow> kernel_store result" where
  "tickets_mark_terminal ticket_id status terminal_at_ms s =
     bind_result (update_one ''Ticket missing during terminalization''
        (\<lambda>r. row_ticket_id r = ticket_id)
        (\<lambda>r. r\<lparr>tr_ticket := (tr_ticket r)\<lparr>tk_status := status\<rparr>, tr_terminal_at_ms := Some terminal_at_ms,
               tr_active_netting_domain_key := None\<rparr>)
        (ks_tickets s))
      (\<lambda>rows. Inr (s\<lparr>ks_tickets := rows\<rparr>))"

definition tickets_release_active_netting_domain ::
  "string \<Rightarrow> string \<Rightarrow> kernel_store \<Rightarrow> kernel_store result" where
  "tickets_release_active_netting_domain ticket_id key s =
     bind_result (update_one ''active Netting Domain is missing during release''
        (\<lambda>r. row_ticket_id r = ticket_id \<and> tr_active_netting_domain_key r = Some key)
        (\<lambda>r. r\<lparr>tr_active_netting_domain_key := None\<rparr>)
        (ks_tickets s))
      (\<lambda>rows. Inr (s\<lparr>ks_tickets := rows\<rparr>))"

section \<open>Aggregates and events\<close>

definition aggregates_add :: "trade_aggregate \<Rightarrow> kernel_store \<Rightarrow> kernel_store result" where
  "aggregates_add a s =
     (if ag_version a \<noteq> 1 \<or> ag_last_event_sequence a \<noteq> 1
      then Inl (AggregateVersionConflict ''new aggregate must start at version one'')
      else bind_result (insert_row (\<lambda>r. agg_ticket_id r = agg_ticket_id a) a (ks_aggregates s))
        (\<lambda>rows. Inr (s\<lparr>ks_aggregates := rows\<rparr>)))"

definition aggregates_get :: "string \<Rightarrow> kernel_store \<Rightarrow> trade_aggregate option result" where
  "aggregates_get ticket_id s =
     (case List.find (\<lambda>r. agg_ticket_id r = ticket_id) (ks_aggregates s) of
        None \<Rightarrow> Inr None
      | Some a \<Rightarrow>
          (case tickets_get ticket_id s of
             None \<Rightarrow> Inl (RuntimeError ''aggregate exists without immutable Ticket'')
           | Some t \<Rightarrow> Inr (Some (a\<lparr>ag_identity := tk_identity t, ag_ticket := t\<rparr>))))"

definition aggregates_save :: "trade_aggregate \<Rightarrow> int \<Rightarrow> kernel_store \<Rightarrow> kernel_store result" where
  "aggregates_save a expected_version s =
     bind_result (aggregates_get (agg_ticket_id a) s) (\<lambda>current.
       case current of
         None \<Rightarrow> Inl (AggregateVersionConflict ''aggregate does not exist'')
       | Some c \<Rightarrow>
           if ag_version c \<noteq> expected_version
           then Inl (AggregateVersionConflict (''expected aggregate version '' @ show_int expected_version
                  @ '', found '' @ show_int (ag_version c)))
           else if ag_version a \<noteq> expected_version + 1
           then Inl (AggregateVersionConflict ''next aggregate version must increment once'')
           else if ag_last_event_sequence a \<le> ag_last_event_sequence c
           then Inl (AggregateVersionConflict ''event sequence must advance monotonically'')
           else bind_result (update_one ''aggregate changed during save''
                  (\<lambda>r. agg_ticket_id r = agg_ticket_id a \<and> ag_version r = expected_version) (\<lambda>_. a)
                  (ks_aggregates s))
                (\<lambda>rows. Inr (s\<lparr>ks_aggregates := rows\<rparr>)))"

fun event_ticket_id :: "trade_event \<Rightarrow> string" where
  "event_ticket_id (TicketIssued h t) = ti_ticket_id (tk_identity t)"
| "event_ticket_id (TicketEvent h ticket_id f) = ticket_id"

definition events_append :: "trade_event \<Rightarrow> kernel_store \<Rightarrow> kernel_store result" where
  "events_append e s =
     bind_result (insert_row
        (\<lambda>r. eh_event_id (event_header_of r) = eh_event_id (event_header_of e)
           \<or> (event_ticket_id r = event_ticket_id e \<and> event_sequence r = event_sequence e)) e (ks_events s))
      (\<lambda>rows. Inr (s\<lparr>ks_events := rows\<rparr>))"

definition events_list_for_ticket :: "string \<Rightarrow> kernel_store \<Rightarrow> trade_event list" where
  "events_list_for_ticket ticket_id s =
     sort_key event_sequence (filter (\<lambda>e. event_ticket_id e = ticket_id) (ks_events s))"

section \<open>Exchange commands\<close>

abbreviation row_command_ticket :: "command_row \<Rightarrow> string" where
  "row_command_ticket r \<equiv> ti_ticket_id (ec_ticket_identity (co_command r))"

abbreviation row_status :: "command_row \<Rightarrow> exchange_command_status" where
  "row_status r \<equiv> ec_status (co_command r)"

definition set_status :: "exchange_command_status \<Rightarrow> command_row \<Rightarrow> command_row" where
  "set_status status r = r\<lparr>co_command := (co_command r)\<lparr>ec_status := status\<rparr>\<rparr>"

definition commands_add :: "exchange_command \<Rightarrow> kernel_store \<Rightarrow> kernel_store result" where
  "commands_add c s =
     bind_result (insert_row
        (\<lambda>r. ec_command_id (co_command r) = ec_command_id c
           \<or> ec_idempotency_key (co_command r) = ec_idempotency_key c
           \<or> (ec_venue_client_order_id c \<noteq> None
              \<and> ec_venue_client_order_id (co_command r) = ec_venue_client_order_id c)
           \<or> (row_command_ticket r = ti_ticket_id (ec_ticket_identity c)
              \<and> ec_kind (co_command r) = ec_kind c \<and> ec_generation (co_command r) = ec_generation c))
        \<lparr>co_command = c, co_result_payload = None, co_claim_owner = None, co_lease_until_ms = None,
         co_completed_at_ms = None\<rparr>
        (ks_commands s))
      (\<lambda>rows. Inr (s\<lparr>ks_commands := rows\<rparr>))"

definition commands_get :: "string \<Rightarrow> kernel_store \<Rightarrow> exchange_command option" where
  "commands_get command_id s =
     map_option co_command (List.find (\<lambda>r. ec_command_id (co_command r) = command_id) (ks_commands s))"

text \<open>\<open>ORDER BY created_at_ms, command_id\<close>: two stable sorts.\<close>

definition order_rows :: "(command_row \<Rightarrow> int) \<Rightarrow> command_row list \<Rightarrow> command_row list" where
  "order_rows key rows = sort_key key (sort_key (\<lambda>r. ec_command_id (co_command r)) rows)"

definition commands_list_for_ticket :: "string \<Rightarrow> kernel_store \<Rightarrow> exchange_command list" where
  "commands_list_for_ticket ticket_id s =
     map co_command (order_rows (\<lambda>r. ec_created_at_ms (co_command r))
        (filter (\<lambda>r. row_command_ticket r = ticket_id) (ks_commands s)))"

definition commands_next_generation :: "string \<Rightarrow> exchange_command_kind \<Rightarrow> kernel_store \<Rightarrow> int" where
  "commands_next_generation ticket_id kind s =
     fold max (map (\<lambda>r. ec_generation (co_command r))
        (filter (\<lambda>r. row_command_ticket r = ticket_id \<and> ec_kind (co_command r) = kind) (ks_commands s))) 0 + 1"

text \<open>The common filter of the queue reads: one Ticket, some kinds.\<close>

definition command_scope :: "string option \<Rightarrow> exchange_command_kind list \<Rightarrow> command_row \<Rightarrow> bool" where
  "command_scope ticket_id kinds r \<longleftrightarrow>
     (case ticket_id of None \<Rightarrow> True | Some t \<Rightarrow> row_command_ticket r = t)
     \<and> (kinds = [] \<or> ec_kind (co_command r) \<in> set kinds)"

definition first_command :: "(command_row \<Rightarrow> int) \<Rightarrow> (command_row \<Rightarrow> bool) \<Rightarrow> kernel_store \<Rightarrow> string option" where
  "first_command key P s =
     (case order_rows key (filter P (ks_commands s)) of
        [] \<Rightarrow> None | r # _ \<Rightarrow> Some (ec_command_id (co_command r)))"

definition commands_claim_one_prepared ::
  "string \<Rightarrow> int \<Rightarrow> int \<Rightarrow> string option \<Rightarrow> exchange_command_kind list \<Rightarrow> kernel_store
   \<Rightarrow> kernel_store \<times> exchange_command option" where
  "commands_claim_one_prepared worker_id now_ms lease_until_ms ticket_id kinds s =
     (case first_command (\<lambda>r. ec_created_at_ms (co_command r))
             (\<lambda>r. row_status r = PREPARED \<and> now_ms < ec_deadline_at_ms (co_command r)
                  \<and> command_scope ticket_id kinds r) s of
        None \<Rightarrow> (s, None)
      | Some command_id \<Rightarrow>
          let P = (\<lambda>r. ec_command_id (co_command r) = command_id \<and> row_status r = PREPARED);
              s' = s\<lparr>ks_commands := update_where P
                (\<lambda>r. (set_status CLAIMED r)\<lparr>co_claim_owner := Some worker_id,
                        co_lease_until_ms := Some lease_until_ms\<rparr>) (ks_commands s)\<rparr>
          in if rowcount P (ks_commands s) = 1 then (s', commands_get command_id s') else (s', None))"

text \<open>An update of one command row selected by id and status.\<close>

definition update_command ::
  "string \<Rightarrow> string \<Rightarrow> (command_row \<Rightarrow> bool) \<Rightarrow> (command_row \<Rightarrow> command_row) \<Rightarrow> kernel_store
   \<Rightarrow> kernel_store result" where
  "update_command message command_id P f s =
     bind_result (update_one message (\<lambda>r. ec_command_id (co_command r) = command_id \<and> P r) f (ks_commands s))
       (\<lambda>rows. Inr (s\<lparr>ks_commands := rows\<rparr>))"

definition complete ::
  "exchange_command_status \<Rightarrow> command_outcome \<Rightarrow> int \<Rightarrow> command_row \<Rightarrow> command_row" where
  "complete status outcome completed_at_ms r =
     (set_status status r)\<lparr>co_result_payload := Some outcome, co_completed_at_ms := Some completed_at_ms\<rparr>"

definition commands_record_result ::
  "string \<Rightarrow> string \<Rightarrow> exchange_command_result \<Rightarrow> kernel_store \<Rightarrow> kernel_store result" where
  "commands_record_result command_id worker_id result s =
     update_command ''command claim changed before result'' command_id
       (\<lambda>r. row_status r = CLAIMED \<and> co_claim_owner r = Some worker_id)
       (\<lambda>r. (complete (er_status result) (OrderResult result) (er_observed_at_ms result) r)
              \<lparr>co_lease_until_ms := None\<rparr>) s"

definition commands_record_leverage_result ::
  "string \<Rightarrow> string \<Rightarrow> set_leverage_result \<Rightarrow> kernel_store \<Rightarrow> kernel_store result" where
  "commands_record_leverage_result command_id worker_id result s =
     update_command ''leverage command claim changed before result'' command_id
       (\<lambda>r. ec_kind (co_command r) = SET_LEVERAGE \<and> row_status r = CLAIMED \<and> co_claim_owner r = Some worker_id)
       (\<lambda>r. (complete ACCEPTED (LeverageResult result) (lr_leverage_verified_at_ms result) r)
              \<lparr>co_lease_until_ms := None\<rparr>) s"

definition commands_mark_claimed_superseded ::
  "string \<Rightarrow> string \<Rightarrow> int \<Rightarrow> string \<Rightarrow> kernel_store \<Rightarrow> kernel_store result" where
  "commands_mark_claimed_superseded command_id worker_id observed_at_ms reason s =
     (if \<not> non_blank reason then Inl (ValueError ''superseded command requires a reason'')
      else update_command ''command claim changed before supersession'' command_id
        (\<lambda>r. row_status r = CLAIMED \<and> co_claim_owner r = Some worker_id)
        (\<lambda>r. (complete SUPERSEDED (SupersededResult (py_strip reason) observed_at_ms) observed_at_ms r)
               \<lparr>co_lease_until_ms := None\<rparr>) s)"

definition commands_mark_prepared_superseded ::
  "string \<Rightarrow> int \<Rightarrow> string \<Rightarrow> kernel_store \<Rightarrow> kernel_store result" where
  "commands_mark_prepared_superseded command_id observed_at_ms reason s =
     (if \<not> non_blank reason then Inl (ValueError ''superseded command requires a reason'')
      else update_command ''prepared command changed before supersession'' command_id
        (\<lambda>r. row_status r = PREPARED)
        (complete SUPERSEDED (SupersededResult (py_strip reason) observed_at_ms) observed_at_ms) s)"

definition commands_get_one_expired_claim ::
  "int \<Rightarrow> string option \<Rightarrow> exchange_command_kind list \<Rightarrow> kernel_store \<Rightarrow> exchange_command option" where
  "commands_get_one_expired_claim now_ms ticket_id kinds s =
     Option.bind (first_command (\<lambda>r. case co_lease_until_ms r of None \<Rightarrow> 0 | Some l \<Rightarrow> l)
       (\<lambda>r. row_status r = CLAIMED \<and> (case co_lease_until_ms r of None \<Rightarrow> False | Some l \<Rightarrow> l \<le> now_ms)
            \<and> command_scope ticket_id kinds r) s)
      (\<lambda>command_id. commands_get command_id s)"

text \<open>\<open>NULL\<close> completion times sort last; a command with unknown outcome always has one.\<close>

definition commands_get_one_unknown :: "kernel_store \<Rightarrow> exchange_command option" where
  "commands_get_one_unknown s =
     Option.bind (first_command (\<lambda>r. case co_completed_at_ms r of None \<Rightarrow> 0 | Some m \<Rightarrow> m)
       (\<lambda>r. row_status r = OUTCOME_UNKNOWN) s)
      (\<lambda>command_id. commands_get command_id s)"

definition commands_record_expired_claim_unknown ::
  "string \<Rightarrow> exchange_command_result \<Rightarrow> kernel_store \<Rightarrow> kernel_store result" where
  "commands_record_expired_claim_unknown command_id result s =
     (if er_status result \<noteq> OUTCOME_UNKNOWN
      then Inl (ValueError ''expired claim recovery requires unknown outcome'')
      else update_command ''expired command claim changed'' command_id
        (\<lambda>r. row_status r = CLAIMED
           \<and> (case co_lease_until_ms r of None \<Rightarrow> False | Some l \<Rightarrow> l \<le> er_observed_at_ms result))
        (\<lambda>r. (complete (er_status result) (OrderResult result) (er_observed_at_ms result) r)
               \<lparr>co_lease_until_ms := None\<rparr>) s)"

definition cancels_order :: "string \<Rightarrow> command_row \<Rightarrow> bool" where
  "cancels_order exchange_order_id r =
     (case ec_payload (co_command r) of
        CancelCommandPayload p \<Rightarrow> cp_exchange_order_id p = exchange_order_id | _ \<Rightarrow> False)"

definition commands_mark_cancel_reconciled_absent ::
  "string \<Rightarrow> string \<Rightarrow> int \<Rightarrow> kernel_store \<Rightarrow> kernel_store result" where
  "commands_mark_cancel_reconciled_absent ticket_id exchange_order_id observed_at_ms s =
     bind_result (update_one ''unknown cancel command was not available for absence reconciliation''
        (\<lambda>r. row_command_ticket r = ticket_id \<and> ec_kind (co_command r) = CANCEL_ORDER
           \<and> row_status r = OUTCOME_UNKNOWN \<and> cancels_order exchange_order_id r)
        (\<lambda>r. (set_status RECONCILED_ABSENT r)\<lparr>co_completed_at_ms := Some observed_at_ms\<rparr>)
        (ks_commands s))
      (\<lambda>rows. Inr (s\<lparr>ks_commands := rows\<rparr>))"

definition commands_reconcile_unknown_submitted ::
  "string \<Rightarrow> string \<Rightarrow> int \<Rightarrow> kernel_store \<Rightarrow> kernel_store result" where
  "commands_reconcile_unknown_submitted command_id exchange_order_id observed_at_ms s =
     update_command ''unknown command changed before submitted reconciliation'' command_id
       (\<lambda>r. row_status r = OUTCOME_UNKNOWN)
       (complete RECONCILED_ACCEPTED (ReconciledAcceptedResult exchange_order_id observed_at_ms)
          observed_at_ms) s"

definition commands_reconcile_unknown_leverage_confirmed ::
  "string \<Rightarrow> set_leverage_result \<Rightarrow> kernel_store \<Rightarrow> kernel_store result" where
  "commands_reconcile_unknown_leverage_confirmed command_id result s =
     update_command ''unknown leverage command changed before confirmation reconciliation'' command_id
       (\<lambda>r. ec_kind (co_command r) = SET_LEVERAGE \<and> row_status r = OUTCOME_UNKNOWN)
       (complete RECONCILED_ACCEPTED (LeverageResult result) (lr_leverage_verified_at_ms result)) s"

definition commands_reconcile_unknown_absent ::
  "string \<Rightarrow> int \<Rightarrow> string \<Rightarrow> kernel_store \<Rightarrow> kernel_store result" where
  "commands_reconcile_unknown_absent command_id observed_at_ms reason s =
     update_command ''unknown command changed before absence reconciliation'' command_id
       (\<lambda>r. row_status r = OUTCOME_UNKNOWN)
       (complete RECONCILED_ABSENT (ReconciledAbsentResult reason observed_at_ms) observed_at_ms) s"

section \<open>Budgets, claims and incidents\<close>

definition budgets_add :: "budget_row \<Rightarrow> kernel_store \<Rightarrow> kernel_store result" where
  "budgets_add b s =
     bind_result (insert_row (\<lambda>r. br_budget_reservation_id r = br_budget_reservation_id b
        \<or> br_ticket_id r = br_ticket_id b) b (ks_budgets s))
      (\<lambda>rows. Inr (s\<lparr>ks_budgets := rows\<rparr>))"

definition budgets_get_for_ticket :: "string \<Rightarrow> kernel_store \<Rightarrow> budget_row option" where
  "budgets_get_for_ticket ticket_id s = List.find (\<lambda>r. br_ticket_id r = ticket_id) (ks_budgets s)"

definition budgets_release :: "string \<Rightarrow> int \<Rightarrow> kernel_store \<Rightarrow> kernel_store result" where
  "budgets_release ticket_id released_at_ms s =
     bind_result (update_one ''active budget reservation is missing''
        (\<lambda>r. br_ticket_id r = ticket_id \<and> br_status r = ''active'')
        (\<lambda>r. r\<lparr>br_status := ''released'', br_released_at_ms := Some released_at_ms\<rparr>)
        (ks_budgets s))
      (\<lambda>rows. Inr (s\<lparr>ks_budgets := rows\<rparr>))"

text \<open>\<open>brc_capacity_claims\<close>: unique by claim, by signal, by Ticket and by digest.\<close>

definition capacity_claims_add :: "capacity_claim \<Rightarrow> kernel_store \<Rightarrow> kernel_store result" where
  "capacity_claims_add c s =
     bind_result (insert_row (\<lambda>r. cc_capacity_claim_id r = cc_capacity_claim_id c
        \<or> ti_signal_event_id (cc_ticket_identity r) = ti_signal_event_id (cc_ticket_identity c)
        \<or> ti_ticket_id (cc_ticket_identity r) = ti_ticket_id (cc_ticket_identity c)
        \<or> cc_decision_digest r = cc_decision_digest c) c (ks_claims s))
      (\<lambda>rows. Inr (s\<lparr>ks_claims := rows\<rparr>))"

definition capacity_claims_get :: "string \<Rightarrow> kernel_store \<Rightarrow> capacity_claim option" where
  "capacity_claims_get capacity_claim_id s =
     List.find (\<lambda>r. cc_capacity_claim_id r = capacity_claim_id) (ks_claims s)"

definition incidents_add :: "incident_row \<Rightarrow> kernel_store \<Rightarrow> kernel_store result" where
  "incidents_add i s =
     (if \<not> valid_incident i then Inl ValidationError
      else Inr (if list_ex (\<lambda>r. in_incident_id r = in_incident_id i) (ks_incidents s) then s
                else s\<lparr>ks_incidents := ks_incidents s @ [i]\<rparr>))"

text \<open>The newest open incident, by \<open>opened_at_ms\<close> and then \<open>incident_id\<close>, both descending.\<close>

fun newest_incident :: "incident_row list \<Rightarrow> incident_row option" where
  "newest_incident [] = None"
| "newest_incident (i # rest) =
     (case newest_incident rest of
        None \<Rightarrow> Some i
      | Some j \<Rightarrow> if in_opened_at_ms j < in_opened_at_ms i
                    \<or> (in_opened_at_ms j = in_opened_at_ms i \<and> in_incident_id j \<le> in_incident_id i)
                 then Some i else Some j)"

definition incidents_get_open_for_ticket_kind ::
  "string \<Rightarrow> string \<Rightarrow> kernel_store \<Rightarrow> incident_row option" where
  "incidents_get_open_for_ticket_kind ticket_id kind s =
     newest_incident (filter (\<lambda>r. in_ticket_id r = Some ticket_id \<and> in_incident_kind r = kind
        \<and> in_status r = ''open'') (ks_incidents s))"

definition resolved :: "int \<Rightarrow> incident_row \<Rightarrow> incident_row" where
  "resolved resolved_at_ms r = r\<lparr>in_status := ''resolved'', in_resolved_at_ms := Some resolved_at_ms\<rparr>"

definition incidents_resolve :: "string \<Rightarrow> int \<Rightarrow> kernel_store \<Rightarrow> kernel_store" where
  "incidents_resolve incident_id resolved_at_ms s =
     s\<lparr>ks_incidents := update_where (\<lambda>r. in_incident_id r = incident_id) (resolved resolved_at_ms)
        (ks_incidents s)\<rparr>"

definition incidents_resolve_all_open_for_ticket :: "string \<Rightarrow> int \<Rightarrow> kernel_store \<Rightarrow> kernel_store" where
  "incidents_resolve_all_open_for_ticket ticket_id resolved_at_ms s =
     s\<lparr>ks_incidents := update_where (\<lambda>r. in_ticket_id r = Some ticket_id \<and> in_status r = ''open'')
        (resolved resolved_at_ms) (ks_incidents s)\<rparr>"

section \<open>Monitors\<close>

definition monitors_get :: "string \<Rightarrow> kernel_store \<Rightarrow> monitor_row option" where
  "monitors_get key s = List.find (\<lambda>r. mo_monitor_key r = key) (ks_monitors s)"

definition same_monitor_state :: "monitor_row \<Rightarrow> monitor_row \<Rightarrow> bool" where
  "same_monitor_state current requested \<longleftrightarrow>
     mo_owner_status current = mo_owner_status requested \<and> mo_summary current = mo_summary requested
     \<and> mo_intervention current = mo_intervention requested \<and> mo_ticket_id current = mo_ticket_id requested
     \<and> mo_incident_id current = mo_incident_id requested"

text \<open>The audit row of \<open>brc_monitor_events\<close> written with a changed state is not kept.\<close>

definition monitors_save_if_changed :: "monitor_row \<Rightarrow> kernel_store \<Rightarrow> kernel_store" where
  "monitors_save_if_changed state s =
     (case monitors_get (mo_monitor_key state) s of
        None \<Rightarrow> s\<lparr>ks_monitors := ks_monitors s @ [state\<lparr>mo_projection_version := 1\<rparr>]\<rparr>
      | Some current \<Rightarrow>
          if same_monitor_state current state
          then (if mo_updated_at_ms state \<le> mo_updated_at_ms current then s
                else s\<lparr>ks_monitors := update_where (\<lambda>r. mo_monitor_key r = mo_monitor_key state)
                        (\<lambda>r. r\<lparr>mo_updated_at_ms := mo_updated_at_ms state\<rparr>) (ks_monitors s)\<rparr>)
          else s\<lparr>ks_monitors := update_where (\<lambda>r. mo_monitor_key r = mo_monitor_key state)
                  (\<lambda>_. state\<lparr>mo_projection_version := mo_projection_version current + 1\<rparr>) (ks_monitors s)\<rparr>)"

section \<open>Entry admission\<close>

definition idle_lane :: lane_row where
  "idle_lane = \<lparr>ln_ticket_id = None, ln_signal_event_id = None, ln_status = ''idle'', ln_claimed_at_ms = None,
     ln_lease_until_ms = None, ln_claim_owner = None, ln_version = 0\<rparr>"

definition lock_global_lane :: "kernel_store \<Rightarrow> kernel_store \<times> lane_row" where
  "lock_global_lane s =
     (case ks_lane s of None \<Rightarrow> (s\<lparr>ks_lane := Some idle_lane\<rparr>, idle_lane) | Some l \<Rightarrow> (s, l))"

definition claim_global_lane ::
  "string \<Rightarrow> string \<Rightarrow> string \<Rightarrow> int \<Rightarrow> int \<Rightarrow> int \<Rightarrow> kernel_store \<Rightarrow> kernel_store result" where
  "claim_global_lane ticket_id signal_event_id claim_owner claimed_at_ms lease_until_ms expected_version s =
     (case ks_lane s of
        Some l \<Rightarrow>
          if ln_status l = ''idle'' \<and> ln_version l = expected_version
          then Inr (s\<lparr>ks_lane := Some \<lparr>ln_ticket_id = Some ticket_id, ln_signal_event_id = Some signal_event_id,
                 ln_status = ''claimed'', ln_claimed_at_ms = Some claimed_at_ms,
                 ln_lease_until_ms = Some lease_until_ms, ln_claim_owner = Some claim_owner,
                 ln_version = expected_version + 1\<rparr>\<rparr>)
          else Inl (AggregateVersionConflict ''global entry lane changed during claim'')
      | None \<Rightarrow> Inl (AggregateVersionConflict ''global entry lane changed during claim''))"

definition release_global_lane :: "string \<Rightarrow> kernel_store \<Rightarrow> kernel_store result" where
  "release_global_lane ticket_id s =
     (case ks_lane s of
        Some l \<Rightarrow>
          if ln_ticket_id l = Some ticket_id \<and> ln_status l = ''claimed''
          then Inr (s\<lparr>ks_lane := Some (idle_lane\<lparr>ln_version := ln_version l + 1\<rparr>)\<rparr>)
          else Inl (AggregateVersionConflict ''global entry lane ownership mismatch'')
      | None \<Rightarrow> Inl (AggregateVersionConflict ''global entry lane ownership mismatch''))"

abbreviation account_row :: "string \<Rightarrow> string \<Rightarrow> exposure_row \<Rightarrow> bool" where
  "account_row venue_id account_id r \<equiv> ex_venue_id r = venue_id \<and> ex_account_id r = account_id"

definition get_account_exposure :: "string \<Rightarrow> string \<Rightarrow> kernel_store \<Rightarrow> exposure_row option" where
  "get_account_exposure venue_id account_id s = List.find (account_row venue_id account_id) (ks_exposures s)"

definition reserve_account_exposure ::
  "string \<Rightarrow> string \<Rightarrow> decimal \<Rightarrow> decimal \<Rightarrow> decimal \<Rightarrow> int option \<Rightarrow> int \<Rightarrow> kernel_store \<Rightarrow> kernel_store result" where
  "reserve_account_exposure venue_id account_id notional risk_at_stop reserved_margin expected_version now s =
     (case expected_version of
        None \<Rightarrow>
          bind_result (insert_row (account_row venue_id account_id)
             \<lparr>ex_venue_id = venue_id, ex_account_id = account_id, ex_gross_notional = notional,
              ex_gross_risk_at_stop = risk_at_stop, ex_current_reserved_margin = reserved_margin,
              ex_active_ticket_count = 1, ex_projection_version = 1, ex_updated_at_ms = now\<rparr> (ks_exposures s))
           (\<lambda>rows. Inr (s\<lparr>ks_exposures := rows\<rparr>))
      | Some version \<Rightarrow>
          bind_result (update_one ''account exposure changed during reserve''
             (\<lambda>r. account_row venue_id account_id r \<and> ex_projection_version r = version)
             (\<lambda>r. r\<lparr>ex_gross_notional := ex_gross_notional r + notional,
                    ex_gross_risk_at_stop := ex_gross_risk_at_stop r + risk_at_stop,
                    ex_current_reserved_margin := ex_current_reserved_margin r + reserved_margin,
                    ex_active_ticket_count := ex_active_ticket_count r + 1,
                    ex_projection_version := version + 1, ex_updated_at_ms := now\<rparr>) (ks_exposures s))
           (\<lambda>rows. Inr (s\<lparr>ks_exposures := rows\<rparr>)))"

definition release_account_exposure ::
  "string \<Rightarrow> string \<Rightarrow> decimal \<Rightarrow> decimal \<Rightarrow> decimal \<Rightarrow> int \<Rightarrow> kernel_store \<Rightarrow> kernel_store result" where
  "release_account_exposure venue_id account_id notional risk_at_stop reserved_margin now s =
     (case get_account_exposure venue_id account_id s of
        None \<Rightarrow> Inl (AggregateVersionConflict ''account exposure is missing during release'')
      | Some c \<Rightarrow>
          if ex_active_ticket_count c \<le> 0
          then Inl (AggregateVersionConflict ''account exposure is missing during release'')
          else if ex_gross_notional c < notional \<or> ex_gross_risk_at_stop c < risk_at_stop
                  \<or> ex_current_reserved_margin c < reserved_margin
          then Inl (AggregateVersionConflict ''account exposure release would become negative'')
          else bind_result (update_one ''account exposure changed during release''
             (\<lambda>r. account_row venue_id account_id r \<and> ex_projection_version r = ex_projection_version c)
             (\<lambda>r. r\<lparr>ex_gross_notional := dec_sub (ex_gross_notional c) notional,
                    ex_gross_risk_at_stop := dec_sub (ex_gross_risk_at_stop c) risk_at_stop,
                    ex_current_reserved_margin := dec_sub (ex_current_reserved_margin c) reserved_margin,
                    ex_active_ticket_count := ex_active_ticket_count c - 1,
                    ex_projection_version := ex_projection_version c + 1, ex_updated_at_ms := now\<rparr>)
             (ks_exposures s))
           (\<lambda>rows. Inr (s\<lparr>ks_exposures := rows\<rparr>)))"

definition has_active_ticket_in_domain :: "string \<Rightarrow> kernel_store \<Rightarrow> bool" where
  "has_active_ticket_in_domain key s = list_ex (\<lambda>r. tr_active_netting_domain_key r = Some key) (ks_tickets s)"

definition has_ticket_for_signal :: "string \<Rightarrow> kernel_store \<Rightarrow> bool" where
  "has_ticket_for_signal signal_event_id s =
     list_ex (\<lambda>r. ti_signal_event_id (tk_identity (tr_ticket r)) = signal_event_id) (ks_tickets s)"

abbreviation account_ticket :: "string \<Rightarrow> string \<Rightarrow> ticket_row \<Rightarrow> bool" where
  "account_ticket venue_id account_id r \<equiv>
     nd_venue_id (row_domain r) = venue_id \<and> nd_account_id (row_domain r) = account_id"

definition count_active_family_tickets :: "string \<Rightarrow> string \<Rightarrow> exposure_family \<Rightarrow> kernel_store \<Rightarrow> int" where
  "count_active_family_tickets venue_id account_id family s =
     int (rowcount (\<lambda>r. account_ticket venue_id account_id r \<and> tk_exposure_family (tr_ticket r) = family
        \<and> tr_terminal_at_ms r = None) (ks_tickets s))"

text \<open>
  A Ticket is held when it is not terminal, owns its netting domain, has an active budget in the account or
  a command that may still act. The status \<open>dispatch_started\<close> the query lists is never written.
\<close>

definition ticket_held :: "string \<Rightarrow> string \<Rightarrow> kernel_store \<Rightarrow> ticket_row \<Rightarrow> bool" where
  "ticket_held venue_id account_id s r \<longleftrightarrow>
     tr_terminal_at_ms r = None \<or> tr_active_netting_domain_key r \<noteq> None
     \<or> list_ex (\<lambda>b. br_ticket_id b = row_ticket_id r \<and> br_venue_id b = venue_id \<and> br_account_id b = account_id
          \<and> br_status b = ''active'') (ks_budgets s)
     \<or> list_ex (\<lambda>c. row_command_ticket c = row_ticket_id r
          \<and> row_status c \<in> {PREPARED, CLAIMED, OUTCOME_UNKNOWN}) (ks_commands s)"

definition count_active_strategy_side_tickets ::
  "string \<Rightarrow> string \<Rightarrow> string \<Rightarrow> position_side \<Rightarrow> kernel_store \<Rightarrow> int" where
  "count_active_strategy_side_tickets venue_id account_id strategy_group_id side s =
     int (rowcount (\<lambda>r. account_ticket venue_id account_id r
        \<and> ri_strategy_group_id (ti_runtime (tk_identity (tr_ticket r))) = strategy_group_id
        \<and> nd_position_side (row_domain r) = side \<and> ticket_held venue_id account_id s r) (ks_tickets s))"

definition sum_active_directional_stop_risk ::
  "string \<Rightarrow> string \<Rightarrow> position_side \<Rightarrow> kernel_store \<Rightarrow> decimal" where
  "sum_active_directional_stop_risk venue_id account_id side s =
     sum_list (map (\<lambda>r. tk_risk_at_stop (tr_ticket r))
       (filter (\<lambda>r. account_ticket venue_id account_id r \<and> nd_position_side (row_domain r) = side
          \<and> tr_terminal_at_ms r = None) (ks_tickets s)))"

text \<open>\<open>read_admission_ownership\<close>, the open incident scopes that fence one instrument of one account.\<close>

definition open_incident_scopes ::
  "string \<Rightarrow> string \<Rightarrow> string \<Rightarrow> kernel_store \<Rightarrow> entry_block_scope list result" where
  "open_incident_scopes venue_id account_id exchange_instrument_id s =
     bind_result (canonical_entry_block_key ACCOUNT_CAPACITY venue_id account_id None) (\<lambda>account_key.
     bind_result (canonical_entry_block_key LEVERAGE_DOMAIN venue_id account_id (Some exchange_instrument_id))
       (\<lambda>leverage_key.
          Inr (map in_entry_block_scope (filter (\<lambda>i. in_status i = ''open''
             \<and> (in_entry_block_scope i = RUNTIME
                \<or> (in_entry_block_scope i = ACCOUNT_CAPACITY \<and> in_entry_block_key i = account_key)
                \<or> (in_entry_block_scope i = LEVERAGE_DOMAIN \<and> in_entry_block_key i = leverage_key)))
             (ks_incidents s)))))"

end
