(* ===== verification/Unit_Of_Work.thy ===== *)
theory Unit_Of_Work
  imports Kernel_Store
begin

text \<open>
  \<open>infrastructure/pg_unit_of_work.py\<close>: one transaction per state reduction. \<open>commit_reduction\<close> checks and
  writes the aggregate, appends the event, materialises every effect of the reduction as durable commands,
  incidents and releases, and closes the Ticket row when the aggregate is final. The command builders are
  the module functions of the source. An error anywhere leaves the store unchanged, as the rollback of the
  transaction does.
\<close>

section \<open>Command builders\<close>

definition closing_side :: "trade_aggregate \<Rightarrow> order_side" where
  "closing_side a = (if nd_position_side (ti_netting_domain (ag_identity a)) = Long then Sell else Buy)"

text \<open>An order payload with the defaults of \<open>OrderCommandPayload\<close>.\<close>

definition plain_order :: "order_side \<Rightarrow> decimal \<Rightarrow> venue_order_type \<Rightarrow> bool \<Rightarrow> order_payload" where
  "plain_order side quantity order_type reduce_only =
     \<lparr>op_side = side, op_quantity = quantity, op_order_type = order_type, op_reduce_only = reduce_only,
      op_limit_price = None, op_time_in_force = None, op_stop_price = None,
      op_replaces_exchange_order_id = None, op_source_watermark_ms = None,
      op_required_configured_leverage = None, op_leverage_verification_digest = None\<rparr>"

definition entry_command :: "trade_ticket \<Rightarrow> string \<Rightarrow> int \<Rightarrow> exchange_command result" where
  "entry_command ticket leverage_verification_digest occurred_at_ms =
     bind_result (build_command_id (ti_ticket_id (tk_identity ticket)) ENTRY 1) (\<lambda>command_id.
     bind_result (build_venue_client_order_id command_id) (\<lambda>client_id.
     bind_result (mk_order_payload
        ((plain_order (if nd_position_side (ti_netting_domain (tk_identity ticket)) = Long then Buy else Sell)
           (tk_quantity ticket) (if tk_entry_order_type ticket = MARKET then OT_market else OT_limit) False)
         \<lparr>op_limit_price := tk_entry_limit_price ticket,
          op_required_configured_leverage := Some (tk_selected_leverage ticket),
          op_leverage_verification_digest := Some leverage_verification_digest\<rparr>)) (\<lambda>payload.
     mk_exchange_command
       \<lparr>ec_command_id = command_id, ec_ticket_identity = tk_identity ticket, ec_kind = ENTRY,
        ec_generation = 1, ec_idempotency_key = command_id, ec_venue_client_order_id = Some client_id,
        ec_payload = OrderCommandPayload payload, ec_status = PREPARED, ec_created_at_ms = occurred_at_ms,
        ec_deadline_at_ms = tk_expires_at_ms ticket\<rparr>)))"

definition initial_leverage_fact_digest :: "capacity_claim \<Rightarrow> string" where
  "initial_leverage_fact_digest claim = canonical_digest (JObj
     [(''entry_admission_snapshot_digest'', JStr (cc_entry_admission_snapshot_digest claim)),
      (''instrument_facts'', JObj
        [(''exchange_instrument_id'',
            JStr (nd_exchange_instrument_id (ti_netting_domain (cc_ticket_identity claim)))),
         (''mark_price'', json_decimal (cc_mark_price_at_claim claim)),
         (''configured_leverage'', JInt (cc_configured_leverage_at_claim claim))])])"

definition set_leverage_command ::
  "trade_ticket \<Rightarrow> string \<Rightarrow> string \<Rightarrow> int \<Rightarrow> exchange_command result" where
  "set_leverage_command ticket entry_admission_snapshot_digest leverage_fact_digest occurred_at_ms =
     bind_result (build_command_id (ti_ticket_id (tk_identity ticket)) SET_LEVERAGE 1) (\<lambda>command_id.
     bind_result (mk_set_leverage_payload
        \<lparr>lp_desired_leverage = tk_selected_leverage ticket,
         lp_owner_policy_version = tk_owner_policy_version ticket,
         lp_entry_admission_snapshot_digest = entry_admission_snapshot_digest,
         lp_leverage_fact_digest = leverage_fact_digest\<rparr>) (\<lambda>payload.
     mk_exchange_command
       \<lparr>ec_command_id = command_id, ec_ticket_identity = tk_identity ticket, ec_kind = SET_LEVERAGE,
        ec_generation = 1, ec_idempotency_key = command_id, ec_venue_client_order_id = None,
        ec_payload = SetLeverageCommandPayload payload, ec_status = PREPARED,
        ec_created_at_ms = occurred_at_ms, ec_deadline_at_ms = tk_expires_at_ms ticket\<rparr>))"

definition build_command ::
  "trade_aggregate \<Rightarrow> exchange_command_kind \<Rightarrow> int \<Rightarrow> command_payload result \<Rightarrow> int
   \<Rightarrow> exchange_command result" where
  "build_command a kind generation payload_result occurred_at_ms =
     bind_result (build_command_id (agg_ticket_id a) kind generation) (\<lambda>command_id.
     bind_result (build_venue_client_order_id command_id) (\<lambda>client_id.
     bind_result payload_result (\<lambda>payload.
     mk_exchange_command
       \<lparr>ec_command_id = command_id, ec_ticket_identity = ag_identity a, ec_kind = kind,
        ec_generation = generation, ec_idempotency_key = command_id,
        ec_venue_client_order_id = Some client_id, ec_payload = payload, ec_status = PREPARED,
        ec_created_at_ms = occurred_at_ms, ec_deadline_at_ms = occurred_at_ms + 30000\<rparr>)))"

definition order_command ::
  "trade_aggregate \<Rightarrow> exchange_command_kind \<Rightarrow> int \<Rightarrow> order_payload \<Rightarrow> int \<Rightarrow> exchange_command result" where
  "order_command a kind generation payload occurred_at_ms =
     bind_result (mk_order_payload payload)
       (\<lambda>p. build_command a kind generation (Inr (OrderCommandPayload p)) occurred_at_ms)"

definition initial_stop_command :: "trade_aggregate \<Rightarrow> decimal \<Rightarrow> decimal \<Rightarrow> int \<Rightarrow> exchange_command result" where
  "initial_stop_command a quantity stop_price =
     order_command a INITIAL_STOP 1
       ((plain_order (closing_side a) quantity OT_stop_market True)\<lparr>op_stop_price := Some stop_price\<rparr>)"

definition exit_command :: "trade_aggregate \<Rightarrow> decimal \<Rightarrow> int \<Rightarrow> int \<Rightarrow> exchange_command result" where
  "exit_command a quantity generation =
     order_command a EXIT generation (plain_order (closing_side a) quantity OT_market True)"

definition take_profit_command ::
  "trade_aggregate \<Rightarrow> decimal \<Rightarrow> decimal \<Rightarrow> int \<Rightarrow> int \<Rightarrow> exchange_command result" where
  "take_profit_command a quantity limit_price generation =
     order_command a TAKE_PROFIT generation
       ((plain_order (closing_side a) quantity OT_limit True)
        \<lparr>op_limit_price := Some limit_price, op_time_in_force := Some GTX\<rparr>)"

definition protection_replacement_command ::
  "trade_aggregate \<Rightarrow> decimal \<Rightarrow> decimal \<Rightarrow> string \<Rightarrow> int \<Rightarrow> int \<Rightarrow> int \<Rightarrow> exchange_command result" where
  "protection_replacement_command a quantity stop_price replaces watermark generation =
     order_command a REPLACE_PROTECTION generation
       ((plain_order (closing_side a) quantity OT_stop_market True)
        \<lparr>op_stop_price := Some stop_price, op_replaces_exchange_order_id := Some replaces,
         op_source_watermark_ms := Some watermark\<rparr>)"

definition controlled_flatten_command :: "trade_aggregate \<Rightarrow> decimal \<Rightarrow> int \<Rightarrow> exchange_command result" where
  "controlled_flatten_command a quantity =
     order_command a CONTROLLED_FLATTEN 1 (plain_order (closing_side a) quantity OT_market True)"

definition cancel_protection_command ::
  "trade_aggregate \<Rightarrow> string \<Rightarrow> order_namespace \<Rightarrow> cancel_purpose \<Rightarrow> string option \<Rightarrow> int \<Rightarrow> int
   \<Rightarrow> exchange_command result" where
  "cancel_protection_command a exchange_order_id namespace purpose entry_vacuum_id generation occurred_at_ms =
     build_command a CANCEL_ORDER generation
       (bind_result (mk_cancel_payload
          \<lparr>cp_exchange_order_id = exchange_order_id, cp_order_namespace = namespace, cp_purpose = purpose,
           cp_entry_vacuum_id = entry_vacuum_id\<rparr>) (\<lambda>p. Inr (CancelCommandPayload p)))
       occurred_at_ms"

definition incident_entry_block_scope :: "string \<Rightarrow> entry_block_scope" where
  "incident_entry_block_scope kind =
     (if kind = ''external_flat'' then NO_BLOCK
      else if kind = ''leverage_outcome_unknown'' then LEVERAGE_DOMAIN
      else ACCOUNT_CAPACITY)"

section \<open>Generations and claims\<close>

text \<open>The command of a kind with the greatest generation; the first of equals, as \<open>max\<close> returns it.\<close>

fun latest_generation :: "exchange_command list \<Rightarrow> exchange_command option" where
  "latest_generation [] = None"
| "latest_generation (c # cs) =
     (case latest_generation cs of
        None \<Rightarrow> Some c
      | Some d \<Rightarrow> if ec_generation d \<le> ec_generation c then Some c else Some d)"

definition prior_command ::
  "trade_aggregate \<Rightarrow> exchange_command_kind \<Rightarrow> kernel_store \<Rightarrow> exchange_command result" where
  "prior_command a kind s =
     (case latest_generation (filter (\<lambda>c. ec_kind c = kind) (commands_list_for_ticket (agg_ticket_id a) s)) of
        None \<Rightarrow> Inl (ValueError ''max() arg is an empty sequence'')
      | Some c \<Rightarrow> Inr c)"

definition next_retryable_generation ::
  "trade_aggregate \<Rightarrow> exchange_command_kind \<Rightarrow> kernel_store \<Rightarrow> int result" where
  "next_retryable_generation a kind s =
     (let generation = commands_next_generation (agg_ticket_id a) kind s
      in if generation = 1 then Inr generation
         else bind_result (prior_command a kind s) (\<lambda>prior.
              bind_result (require_next_generation_allowed kind (ec_status prior) generation) (\<lambda>_.
              Inr generation)))"

text \<open>
  The generation of a cleanup cancel: the retry rule applies only when the latest cancel names the same
  order.
\<close>

definition next_cancel_generation :: "trade_aggregate \<Rightarrow> string \<Rightarrow> kernel_store \<Rightarrow> int result" where
  "next_cancel_generation a exchange_order_id s =
     (let generation = commands_next_generation (agg_ticket_id a) CANCEL_ORDER s
      in if generation \<le> 1 then Inr generation
         else bind_result (prior_command a CANCEL_ORDER s) (\<lambda>prior.
              if (case ec_payload prior of
                    CancelCommandPayload p \<Rightarrow> cp_exchange_order_id p = exchange_order_id | _ \<Rightarrow> False)
              then bind_result (require_next_generation_allowed CANCEL_ORDER (ec_status prior) generation)
                     (\<lambda>_. Inr generation)
              else Inr generation))"

definition initial_command_claim :: "trade_ticket \<Rightarrow> kernel_store \<Rightarrow> capacity_claim result" where
  "initial_command_claim ticket s =
     (case capacity_claims_get (tk_capacity_claim_id ticket) s of
        None \<Rightarrow> Inl (UnsupportedKernelEffect ''initial command requires its immutable CapacityClaim'')
      | Some claim \<Rightarrow>
          if cc_capacity_claim_id claim \<noteq> tk_capacity_claim_id ticket
             \<or> cc_ticket_identity claim \<noteq> tk_identity ticket
             \<or> cc_owner_policy_id claim \<noteq> tk_owner_policy_id ticket
             \<or> cc_owner_policy_version claim \<noteq> tk_owner_policy_version ticket
             \<or> cc_runtime_scope_id claim \<noteq> tk_runtime_scope_id ticket
             \<or> cc_runtime_scope_version claim \<noteq> tk_runtime_scope_version ticket
             \<or> cc_selected_leverage claim \<noteq> tk_selected_leverage ticket
             \<or> cc_leverage_change_required claim \<noteq> tk_leverage_change_required ticket
          then Inl (UnsupportedKernelEffect ''initial command Claim differs from immutable Ticket authority'')
          else if tk_leverage_change_required ticket
                    = (cc_configured_leverage_at_claim claim = tk_selected_leverage ticket)
          then Inl (UnsupportedKernelEffect ''initial command Claim has contradictory leverage-change evidence'')
          else Inr claim)"

section \<open>Materialising one effect\<close>

definition add_command :: "exchange_command result \<Rightarrow> kernel_store \<Rightarrow> kernel_store result" where
  "add_command command s = bind_result command (\<lambda>c. commands_add c s)"

text \<open>The two texts of \<open>derive_terminal_owner_projection\<close>, as UTF-8 bytes.\<close>

definition terminal_summary :: string where
  "terminal_summary = map char_of [230, 156, 172, 230, 172, 161, 228, 186, 164, 230, 152, 147, 229, 183, 178,
     229, 174, 140, 230, 136, 144 :: nat]"

definition terminal_intervention :: string where
  "terminal_intervention = map char_of [230, 151, 160, 233, 156, 128, 230, 147, 141, 228, 189, 156 :: nat]"

definition owner_ticket_monitor_key :: "string \<Rightarrow> string result" where
  "owner_ticket_monitor_key ticket_id =
     (if \<not> non_blank ticket_id then Inl (ValueError ''Ticket identity must be non-blank'')
      else Inr (''owner:ticket:'' @ py_strip ticket_id))"

definition derive_terminal_owner_projection :: "string \<Rightarrow> int \<Rightarrow> monitor_row result" where
  "derive_terminal_owner_projection ticket_id updated_at_ms =
     bind_result (owner_ticket_monitor_key ticket_id) (\<lambda>key.
       Inr \<lparr>mo_monitor_key = key, mo_owner_status = COMPLETED, mo_summary = terminal_summary,
            mo_intervention = terminal_intervention, mo_ticket_id = Some ticket_id, mo_incident_id = None,
            mo_updated_at_ms = updated_at_ms, mo_projection_version = 0\<rparr>)"

definition resolve_reconciliation_wait :: "string \<Rightarrow> int \<Rightarrow> kernel_store \<Rightarrow> kernel_store" where
  "resolve_reconciliation_wait key now_ms s =
     (case monitors_get key s of
        None \<Rightarrow> s
      | Some previous \<Rightarrow>
          if mo_owner_status previous = COMPLETED then s
          else monitors_save_if_changed
            (previous\<lparr>mo_owner_status := COMPLETED, mo_summary := ''reconciliation_progress_restored'',
                      mo_intervention := ''none'', mo_updated_at_ms := now_ms\<rparr>) s)"

definition open_incident ::
  "trade_aggregate \<Rightarrow> event_header \<Rightarrow> string \<Rightarrow> string \<Rightarrow> kernel_store \<Rightarrow> kernel_store result" where
  "open_incident a h ticket_id kind s =
     (let scope = incident_entry_block_scope kind;
          domain = ti_netting_domain (tk_identity (ag_ticket a))
      in bind_result (canonical_entry_block_key scope (nd_venue_id domain) (nd_account_id domain)
            (Some (nd_exchange_instrument_id domain))) (\<lambda>key.
         incidents_add
           \<lparr>in_incident_id = ''incident:'' @ ticket_id @ '':'' @ show_int (ag_last_event_sequence a),
            in_ticket_id = Some ticket_id, in_incident_kind = kind, in_status = ''open'',
            in_first_blocker = kind, in_entry_block_scope = scope, in_entry_block_key = key,
            in_event_id = eh_event_id h, in_opened_at_ms = eh_occurred_at_ms h, in_resolved_at_ms = None\<rparr> s))"

definition resolve_incident :: "string \<Rightarrow> string \<Rightarrow> int \<Rightarrow> kernel_store \<Rightarrow> kernel_store result" where
  "resolve_incident ticket_id kind now_ms s =
     (case incidents_get_open_for_ticket_kind ticket_id kind s of
        None \<Rightarrow> Inl (UnsupportedKernelEffect ''expected runtime incident is missing during resolution'')
      | Some i \<Rightarrow> Inr (incidents_resolve (in_incident_id i) now_ms s))"

definition release_budget :: "trade_aggregate \<Rightarrow> string \<Rightarrow> int \<Rightarrow> kernel_store \<Rightarrow> kernel_store result" where
  "release_budget a ticket_id now_ms s =
     (let t = ag_ticket a; domain = ti_netting_domain (tk_identity t)
      in bind_result (budgets_release ticket_id now_ms s)
           (release_account_exposure (nd_venue_id domain) (nd_account_id domain) (tk_notional t)
              (tk_risk_at_stop t) (tk_reserved_margin t) now_ms))"

definition release_capital :: "trade_aggregate \<Rightarrow> capital_release \<Rightarrow> kernel_store \<Rightarrow> kernel_store result" where
  "release_capital a r s =
     (let t = ag_ticket a; domain = ti_netting_domain (tk_identity t)
      in bind_result (budgets_release (cr_ticket_id r) (cr_released_at_ms r) s) (\<lambda>s1.
         bind_result (release_account_exposure (nd_venue_id domain) (nd_account_id domain) (cr_notional r)
              (cr_risk_at_stop r) (tk_reserved_margin t) (cr_released_at_ms r) s1)
           (tickets_release_active_netting_domain (cr_ticket_id r) (cr_netting_domain_key r))))"

definition project_terminal :: "string \<Rightarrow> int \<Rightarrow> kernel_store \<Rightarrow> kernel_store result" where
  "project_terminal ticket_id now_ms s =
     bind_result (derive_terminal_owner_projection ticket_id now_ms) (\<lambda>m.
       let s1 = monitors_save_if_changed m s;
           s2 = resolve_reconciliation_wait (''reconciliation-mismatch:'' @ ticket_id) now_ms s1;
           s3 = resolve_reconciliation_wait (''reconciliation-closure:'' @ ticket_id) now_ms s2
       in Inr (resolve_reconciliation_wait (''reconciliation-overdue:'' @ ticket_id) now_ms s3))"

text \<open>One iteration of the effect loop; \<open>a\<close> is the reduced aggregate and \<open>h\<close> the header of the event.\<close>

fun materialize_effect ::
  "trade_aggregate \<Rightarrow> event_header \<Rightarrow> kernel_effect \<Rightarrow> kernel_store \<Rightarrow> kernel_store result" where
  "materialize_effect a h (PrepareEntryCommand ticket digest) s =
     bind_result (initial_command_claim ticket s) (\<lambda>claim.
       add_command (entry_command ticket
         (case digest of None \<Rightarrow> initial_leverage_fact_digest claim
          | Some d \<Rightarrow> if d = [] then initial_leverage_fact_digest claim else d) (eh_occurred_at_ms h)) s)"
| "materialize_effect a h (PrepareSetLeverageCommand ticket) s =
     bind_result (initial_command_claim ticket s) (\<lambda>claim.
       add_command (set_leverage_command ticket (cc_entry_admission_snapshot_digest claim)
         (initial_leverage_fact_digest claim) (eh_occurred_at_ms h)) s)"
| "materialize_effect a h (PrepareInitialStopCommand t quantity stop_price) s =
     add_command (initial_stop_command a quantity stop_price (eh_occurred_at_ms h)) s"
| "materialize_effect a h (PrepareTakeProfitCommand t quantity limit_price) s =
     bind_result (next_retryable_generation a TAKE_PROFIT s) (\<lambda>g.
       add_command (take_profit_command a quantity limit_price g (eh_occurred_at_ms h)) s)"
| "materialize_effect a h (PrepareProtectionReplacementCommand t quantity stop_price replaces watermark) s =
     bind_result (next_retryable_generation a REPLACE_PROTECTION s) (\<lambda>g.
       add_command (protection_replacement_command a quantity stop_price replaces watermark g
         (eh_occurred_at_ms h)) s)"
| "materialize_effect a h (PrepareExitCommand t quantity reason) s =
     bind_result (next_retryable_generation a EXIT s) (\<lambda>g.
       add_command (exit_command a quantity g (eh_occurred_at_ms h)) s)"
| "materialize_effect a h (CancelEntryRemainder t) s =
     (case ag_entry_exchange_order_id a of
        None \<Rightarrow> Inl (UnsupportedKernelEffect ''partial fill has no authoritative ENTRY order identity'')
      | Some order_id \<Rightarrow>
          add_command (cancel_protection_command a order_id Regular entry_remainder None
            (commands_next_generation (agg_ticket_id a) CANCEL_ORDER s) (eh_occurred_at_ms h)) s)"
| "materialize_effect a h (CancelVacuumEntryOrder t order_id vacuum_id) s =
     (if ag_entry_exchange_order_id a \<noteq> Some order_id
      then Inl (UnsupportedKernelEffect ''Vacuum cancel differs from authoritative ENTRY order'')
      else add_command (cancel_protection_command a order_id Regular selection_vacuum_entry (Some vacuum_id)
             (commands_next_generation (agg_ticket_id a) CANCEL_ORDER s) (eh_occurred_at_ms h)) s)"
| "materialize_effect a h (RequestControlledFlatten t quantity) s =
     (if ag_status a \<noteq> PARTIAL_FILL_INCIDENT \<or> ag_position_qty a \<noteq> quantity
      then Inl (UnsupportedKernelEffect ''controlled flatten intent differs from partial exposure'')
      else Inr s)"
| "materialize_effect a h (PrepareControlledFlattenCommand t quantity) s =
     add_command (controlled_flatten_command a quantity (eh_occurred_at_ms h)) s"
| "materialize_effect a h (CancelProtectionOrders t order_id namespace purpose) s =
     bind_result (next_cancel_generation a order_id s) (\<lambda>g.
       add_command (cancel_protection_command a order_id namespace purpose None g (eh_occurred_at_ms h)) s)"
| "materialize_effect a h (MarkCancelCommandReconciledAbsent t order_id) s =
     commands_mark_cancel_reconciled_absent t order_id (eh_occurred_at_ms h) s"
| "materialize_effect a h (OpenIncident t kind) s = open_incident a h t kind s"
| "materialize_effect a h (ResolveIncident t kind) s = resolve_incident t kind (eh_occurred_at_ms h) s"
| "materialize_effect a h (ResolveTicketIncidentsAtClosure t) s =
     Inr (incidents_resolve_all_open_for_ticket t (eh_occurred_at_ms h) s)"
| "materialize_effect a h (ReleaseEntryLane t) s = release_global_lane t s"
| "materialize_effect a h (ReleaseCapitalAuthorities r) s = release_capital a r s"
| "materialize_effect a h (ReleaseBudget t) s = release_budget a t (eh_occurred_at_ms h) s"
| "materialize_effect a h (ProjectTerminalOwnerState t) s = project_terminal t (eh_occurred_at_ms h) s"

fun materialize_effects ::
  "trade_aggregate \<Rightarrow> event_header \<Rightarrow> kernel_effect list \<Rightarrow> kernel_store \<Rightarrow> kernel_store result" where
  "materialize_effects a h [] s = Inr s"
| "materialize_effects a h (e # es) s =
     bind_result (materialize_effect a h e s) (materialize_effects a h es)"

section \<open>The transaction\<close>

definition terminal_ticket_status :: "aggregate_status \<Rightarrow> ticket_status option" where
  "terminal_ticket_status status =
     (if status = LEVERAGE_REJECTED then Some T_LEVERAGE_REJECTED
      else if status = ENTRY_REJECTED then Some T_ENTRY_REJECTED
      else if status = ENTRY_RECONCILED_ABSENT then Some T_ENTRY_RECONCILED_ABSENT
      else if status = TERMINAL then Some T_TERMINAL
      else None)"

text \<open>The aggregate row of a first or a later event, with the version checks.\<close>

definition commit_aggregate ::
  "trade_event \<Rightarrow> trade_aggregate \<Rightarrow> int \<Rightarrow> kernel_store \<Rightarrow> kernel_store result" where
  "commit_aggregate event a expected_version s =
     bind_result (aggregates_get (agg_ticket_id a) s) (\<lambda>current.
       if expected_version = 0
       then (if current \<noteq> None then Inl (AggregateVersionConflict ''Ticket aggregate already exists'')
             else case event of
               TicketEvent _ _ _ \<Rightarrow> Inl (AggregateVersionConflict ''new aggregate requires TicketIssued'')
             | TicketIssued _ _ \<Rightarrow>
                 if ag_version a \<noteq> 1 \<or> ag_last_event_sequence a \<noteq> 1
                 then Inl (AggregateVersionConflict ''new aggregate must start at one'')
                 else bind_result (tickets_add (ag_ticket a) s) (aggregates_add a))
       else (if current = None then Inl (AggregateVersionConflict ''aggregate does not exist'')
             else aggregates_save a expected_version s))"

definition close_ticket :: "trade_event \<Rightarrow> trade_aggregate \<Rightarrow> kernel_store \<Rightarrow> kernel_store result" where
  "close_ticket event a s =
     (case terminal_ticket_status (ag_status a) of
        None \<Rightarrow> Inr s
      | Some status \<Rightarrow>
          tickets_mark_terminal (agg_ticket_id a) status (eh_occurred_at_ms (event_header_of event)) s)"

definition commit_reduction ::
  "trade_event \<Rightarrow> reduction \<Rightarrow> int \<Rightarrow> kernel_store \<Rightarrow> kernel_store result" where
  "commit_reduction event reduction expected_version s =
     (let (a, effects) = reduction in
      bind_result (commit_aggregate event a expected_version s) (\<lambda>s1.
        if event_sequence event \<noteq> ag_last_event_sequence a
        then Inl (AggregateVersionConflict ''event sequence differs from reduction'')
        else if event_ticket_id event \<noteq> agg_ticket_id a
        then Inl (AggregateVersionConflict ''event Ticket differs from reduction'')
        else bind_result (events_append event s1) (\<lambda>s2.
             bind_result (materialize_effects a (event_header_of event) effects s2)
               (close_ticket event a))))"

end
