(* ===== verification/Owner_Authority.thy ===== *)
theory Owner_Authority
  imports Capacity
begin

text \<open>
  The authority an ENTRY needs besides its claim: the owner policy and its Event-to-Profile scope
  (\<open>domain/owner_policy.py\<close>), the owner's control states (\<open>domain/owner_control.py\<close>), the strategy registry
  check (\<open>application/strategy_authority.py\<close>), the Vacuum state machine that fences a strategy
  (\<open>domain/strategy_entry_vacuum.py\<close>) and the snapshots of \<open>application/ports.py\<close> they are read from.
\<close>

section \<open>Owner policy scope\<close>

record event_runtime_profile =
  ep_event_spec_id :: string
  ep_runtime_profile_id :: string

definition mk_event_runtime_profile :: "event_runtime_profile \<Rightarrow> event_runtime_profile result" where
  "mk_event_runtime_profile p =
     (if non_blank (ep_event_spec_id p) \<and> non_blank (ep_runtime_profile_id p)
      then Inr \<lparr>ep_event_spec_id = py_strip (ep_event_spec_id p),
                ep_runtime_profile_id = py_strip (ep_runtime_profile_id p)\<rparr>
      else Inl ValidationError)"

text \<open>\<open>OwnerPolicyScope\<close>: one to 64 profiles, sorted by Event and unique.\<close>

type_synonym owner_policy_scope = "event_runtime_profile list"

definition valid_policy_scope :: "owner_policy_scope \<Rightarrow> bool" where
  "valid_policy_scope scope \<longleftrightarrow>
     1 \<le> length scope \<and> length scope \<le> 64
     \<and> sorted (map ep_event_spec_id scope) \<and> distinct (map ep_event_spec_id scope)"

fun runtime_profile_for :: "owner_policy_scope \<Rightarrow> string \<Rightarrow> string option" where
  "runtime_profile_for [] event_spec_id = None"
| "runtime_profile_for (p # ps) event_spec_id =
     (if ep_event_spec_id p = event_spec_id then Some (ep_runtime_profile_id p)
      else runtime_profile_for ps event_spec_id)"

definition authorizes :: "owner_policy_scope \<Rightarrow> string \<Rightarrow> string \<Rightarrow> bool" where
  "authorizes scope event_spec_id runtime_profile_id \<longleftrightarrow>
     runtime_profile_for scope event_spec_id = Some runtime_profile_id"

record owner_policy_snapshot =
  ps_owner_policy_id :: string
  ps_policy_version :: int
  ps_enabled :: bool
  ps_new_entry_submit_enabled :: bool
  ps_priority_rank :: int
  ps_max_concurrent_tickets :: int
  ps_max_same_strategy_side :: "int option"
  ps_family_ticket_limits :: family_ticket_limits
  ps_max_ticket_stop_risk_fraction :: decimal
  ps_max_gross_stop_risk_fraction :: decimal
  ps_max_ticket_initial_margin_fraction :: decimal
  ps_max_gross_initial_margin_utilization :: decimal
  ps_directional_stop_risk_limit_fraction :: decimal
  ps_min_materialization_ratio :: decimal
  ps_max_leverage :: int
  ps_supported_margin_mode :: string
  ps_post_stop_stress_multiple :: decimal
  ps_max_post_fill_stop_risk_overrun_fraction :: decimal
  ps_scope :: "owner_policy_scope option"

section \<open>Owner control\<close>

datatype strategy_entry_state = ENTRY_ENABLED | ENTRY_PAUSED

record strategy_entry_control =
  sc_strategy_group_id :: string
  sc_entry_state :: strategy_entry_state
  sc_control_version :: int
  sc_last_event_id :: string
  sc_reason :: string
  sc_updated_at_ms :: int

definition mk_strategy_entry_control :: "strategy_entry_control \<Rightarrow> strategy_entry_control result" where
  "mk_strategy_entry_control c =
     (if non_blank (sc_strategy_group_id c) \<and> non_blank (sc_last_event_id c) \<and> non_blank (sc_reason c)
         \<and> 0 < sc_control_version c \<and> 0 < sc_updated_at_ms c
      then Inr (c\<lparr>sc_strategy_group_id := py_strip (sc_strategy_group_id c),
                  sc_last_event_id := py_strip (sc_last_event_id c), sc_reason := py_strip (sc_reason c)\<rparr>)
      else Inl ValidationError)"

definition transition_strategy_entry_control ::
  "strategy_entry_control \<Rightarrow> strategy_entry_state \<Rightarrow> string \<Rightarrow> string \<Rightarrow> int \<Rightarrow> strategy_entry_control result" where
  "transition_strategy_entry_control current target event_id reason now_ms =
     (if sc_entry_state current = target then Inr current
      else mk_strategy_entry_control
        \<lparr>sc_strategy_group_id = sc_strategy_group_id current, sc_entry_state = target,
         sc_control_version = sc_control_version current + 1, sc_last_event_id = event_id,
         sc_reason = reason, sc_updated_at_ms = now_ms\<rparr>)"

text \<open>\<open>application/owner_control.py\<close>: fail closed unless one explicit enabled authority exists.\<close>

definition strategy_entry_is_enabled :: "strategy_entry_control option \<Rightarrow> bool" where
  "strategy_entry_is_enabled control =
     (case control of None \<Rightarrow> False
      | Some c \<Rightarrow> sc_strategy_group_id c \<noteq> ''SOR-001'' \<and> sc_entry_state c = ENTRY_ENABLED)"

datatype control_operation_state =
    OP_VALIDATING | OP_PENDING | OP_CLAIMED | OP_EXITS_REQUESTED | OP_EXIT_IN_PROGRESS
  | OP_RECONCILIATION_PENDING | OP_SETTLEMENT_PENDING | OP_REVIEW_PENDING | OP_COMPLETED | OP_BLOCKED
  | OP_NEEDS_INTERVENTION

fun operation_state_value :: "control_operation_state \<Rightarrow> string" where
  "operation_state_value OP_VALIDATING = ''validating''"
| "operation_state_value OP_PENDING = ''pending''"
| "operation_state_value OP_CLAIMED = ''claimed''"
| "operation_state_value OP_EXITS_REQUESTED = ''exits_requested''"
| "operation_state_value OP_EXIT_IN_PROGRESS = ''exit_in_progress''"
| "operation_state_value OP_RECONCILIATION_PENDING = ''reconciliation_pending''"
| "operation_state_value OP_SETTLEMENT_PENDING = ''settlement_pending''"
| "operation_state_value OP_REVIEW_PENDING = ''review_pending''"
| "operation_state_value OP_COMPLETED = ''completed''"
| "operation_state_value OP_BLOCKED = ''blocked''"
| "operation_state_value OP_NEEDS_INTERVENTION = ''needs_intervention''"

fun allowed_operation_transitions :: "control_operation_state \<Rightarrow> control_operation_state list" where
  "allowed_operation_transitions OP_VALIDATING = [OP_PENDING, OP_BLOCKED, OP_COMPLETED]"
| "allowed_operation_transitions OP_PENDING = [OP_CLAIMED, OP_BLOCKED]"
| "allowed_operation_transitions OP_CLAIMED = [OP_EXITS_REQUESTED, OP_BLOCKED]"
| "allowed_operation_transitions OP_EXITS_REQUESTED =
     [OP_EXIT_IN_PROGRESS, OP_RECONCILIATION_PENDING, OP_NEEDS_INTERVENTION]"
| "allowed_operation_transitions OP_EXIT_IN_PROGRESS = [OP_RECONCILIATION_PENDING, OP_NEEDS_INTERVENTION]"
| "allowed_operation_transitions OP_RECONCILIATION_PENDING = [OP_SETTLEMENT_PENDING, OP_NEEDS_INTERVENTION]"
| "allowed_operation_transitions OP_SETTLEMENT_PENDING = [OP_REVIEW_PENDING, OP_NEEDS_INTERVENTION]"
| "allowed_operation_transitions OP_REVIEW_PENDING = [OP_COMPLETED, OP_NEEDS_INTERVENTION]"
| "allowed_operation_transitions OP_NEEDS_INTERVENTION = [OP_COMPLETED]"
| "allowed_operation_transitions OP_COMPLETED = []"
| "allowed_operation_transitions OP_BLOCKED = []"

definition advance_control_operation ::
  "control_operation_state \<Rightarrow> control_operation_state \<Rightarrow> control_operation_state result" where
  "advance_control_operation current target =
     (if current = target then Inr current
      else if target \<in> set (allowed_operation_transitions current) then Inr target
      else Inl (ValueError (''invalid control operation transition: '' @ operation_state_value current
             @ ''->'' @ operation_state_value target)))"

section \<open>Strategy registry\<close>

record strategy_group_snapshot =
  sg_strategy_group_id :: string
  sg_active_version_id :: "string option"
  sg_status :: string

record strategy_version_snapshot =
  sv_strategy_version_id :: string
  sv_strategy_group_id :: string
  sv_status :: string

record event_spec_snapshot =
  es_event_spec_id :: string
  es_strategy_version_id :: string
  es_position_side :: position_side
  es_entry_order_type :: string
  es_status :: string

definition strategy_authority_matches_ticket ::
  "strategy_group_snapshot option \<Rightarrow> strategy_version_snapshot option \<Rightarrow> event_spec_snapshot option
   \<Rightarrow> trade_ticket \<Rightarrow> bool" where
  "strategy_authority_matches_ticket strategy_group strategy_version event_spec ticket =
     (let runtime = ti_runtime (tk_identity ticket) in
      (case strategy_group of None \<Rightarrow> False
       | Some g \<Rightarrow> sg_status g = ''active'' \<and> sg_strategy_group_id g = ri_strategy_group_id runtime
           \<and> sg_active_version_id g = Some (ri_strategy_version_id runtime))
      \<and> (case strategy_version of None \<Rightarrow> False
         | Some v \<Rightarrow> sv_status v = ''active'' \<and> sv_strategy_group_id v = ri_strategy_group_id runtime
             \<and> sv_strategy_version_id v = ri_strategy_version_id runtime)
      \<and> (case event_spec of None \<Rightarrow> False
         | Some e \<Rightarrow> es_status e = ''active'' \<and> es_event_spec_id e = ri_event_spec_id runtime
             \<and> es_strategy_version_id e = ri_strategy_version_id runtime
             \<and> es_position_side e = nd_position_side (ti_netting_domain (tk_identity ticket))
             \<and> es_entry_order_type e = order_type_value (tk_entry_order_type ticket)))"

section \<open>Strategy entry Vacuum\<close>

datatype vacuum_state =
    VAC_OPEN | VAC_DRAINING_ENTRY | VAC_RECONFIGURING | VAC_RECOVERY_PENDING | VAC_RESOLVED_ACTIVE
  | VAC_RESOLVED_FALLBACK | VAC_RESOLVED_CONTINUITY | VAC_VALID_EMPTY | VAC_OWNER_PAUSED | VAC_SUPERSEDED
  | VAC_FAILED_CLOSED

definition blocks_new_entry :: "vacuum_state \<Rightarrow> bool" where
  "blocks_new_entry state \<longleftrightarrow>
     state \<notin> {VAC_RESOLVED_ACTIVE, VAC_RESOLVED_FALLBACK, VAC_RESOLVED_CONTINUITY}"

fun vacuum_state_value :: "vacuum_state \<Rightarrow> string" where
  "vacuum_state_value VAC_OPEN = ''OPEN''"
| "vacuum_state_value VAC_DRAINING_ENTRY = ''DRAINING_ENTRY''"
| "vacuum_state_value VAC_RECONFIGURING = ''RECONFIGURING''"
| "vacuum_state_value VAC_RECOVERY_PENDING = ''RECOVERY_PENDING''"
| "vacuum_state_value VAC_RESOLVED_ACTIVE = ''RESOLVED_ACTIVE''"
| "vacuum_state_value VAC_RESOLVED_FALLBACK = ''RESOLVED_FALLBACK''"
| "vacuum_state_value VAC_RESOLVED_CONTINUITY = ''RESOLVED_CONTINUITY''"
| "vacuum_state_value VAC_VALID_EMPTY = ''VALID_EMPTY''"
| "vacuum_state_value VAC_OWNER_PAUSED = ''OWNER_PAUSED''"
| "vacuum_state_value VAC_SUPERSEDED = ''SUPERSEDED''"
| "vacuum_state_value VAC_FAILED_CLOSED = ''FAILED_CLOSED''"

fun legal_vacuum_transitions :: "vacuum_state \<Rightarrow> vacuum_state list" where
  "legal_vacuum_transitions VAC_OPEN =
     [VAC_DRAINING_ENTRY, VAC_OWNER_PAUSED, VAC_SUPERSEDED, VAC_FAILED_CLOSED]"
| "legal_vacuum_transitions VAC_DRAINING_ENTRY =
     [VAC_RECONFIGURING, VAC_RECOVERY_PENDING, VAC_VALID_EMPTY, VAC_OWNER_PAUSED, VAC_SUPERSEDED,
      VAC_FAILED_CLOSED]"
| "legal_vacuum_transitions VAC_RECONFIGURING =
     [VAC_RESOLVED_ACTIVE, VAC_RESOLVED_FALLBACK, VAC_OWNER_PAUSED, VAC_SUPERSEDED, VAC_FAILED_CLOSED]"
| "legal_vacuum_transitions VAC_RECOVERY_PENDING =
     [VAC_DRAINING_ENTRY, VAC_RECONFIGURING, VAC_RESOLVED_CONTINUITY, VAC_OWNER_PAUSED, VAC_SUPERSEDED,
      VAC_FAILED_CLOSED]"
| "legal_vacuum_transitions VAC_OWNER_PAUSED =
     [VAC_RECONFIGURING, VAC_VALID_EMPTY, VAC_SUPERSEDED, VAC_FAILED_CLOSED]"
| "legal_vacuum_transitions VAC_SUPERSEDED =
     [VAC_DRAINING_ENTRY, VAC_RECONFIGURING, VAC_VALID_EMPTY, VAC_OWNER_PAUSED, VAC_FAILED_CLOSED]"
| "legal_vacuum_transitions VAC_RESOLVED_ACTIVE = []"
| "legal_vacuum_transitions VAC_RESOLVED_FALLBACK = []"
| "legal_vacuum_transitions VAC_RESOLVED_CONTINUITY = []"
| "legal_vacuum_transitions VAC_VALID_EMPTY = []"
| "legal_vacuum_transitions VAC_FAILED_CLOSED = []"

definition transition_strategy_entry_vacuum :: "vacuum_state \<Rightarrow> vacuum_state \<Rightarrow> vacuum_state result" where
  "transition_strategy_entry_vacuum current target =
     (if current = target then Inr current
      else if target \<in> set (legal_vacuum_transitions current) then Inr target
      else Inl (ValueError (''invalid Strategy Entry Vacuum transition: '' @ vacuum_state_value current
             @ '' -> '' @ vacuum_state_value target)))"

end
