(* ===== verification/Capacity_Sizing.thy ===== *)
theory Capacity_Sizing
  imports Py_Decimal "HOL-Library.Product_Lexorder"
begin

text \<open>
  \<open>domain/capacity_sizing.py\<close>: the pure sizing of one new position from the account facts, the owner's
  risk fractions and the instrument rules. \<open>select_capacity_candidate\<close> keeps the order of the refusals
  and the loop over the permitted leverages, \<open>evaluate_candidate\<close> the checks of one leverage.

  The lemmas bound what a selected candidate can risk: every quantity is a whole number of steps, and
  stop risk and margin stay within their budgets up to the rounding of the decimal context, exactly so
  when the operations involved are exact; then no larger quantity fits either.
\<close>

section \<open>Data\<close>

definition FIXED_EXCHANGE_CONFIGURED_LEVERAGE :: int where
  "FIXED_EXCHANGE_CONFIGURED_LEVERAGE = 5"

datatype capacity_sizing_status =
    SELECTED
  | COUNT_EXHAUSTED
  | STOP_RISK_EXHAUSTED
  | DIRECTIONAL_RISK_EXHAUSTED
  | MARGIN_EXHAUSTED
  | VENUE_MINIMUM_UNMET
  | EXIT_PLAN_UNEXECUTABLE
  | MINIMUM_MATERIALIZATION_UNMET
  | INVALID_FACTS

record sizing_request =
  cq_total_wallet_balance :: decimal
  cq_total_margin_balance :: decimal
  cq_total_initial_margin :: decimal
  cq_current_reserved_margin :: decimal
  cq_gross_risk_at_stop :: decimal
  cq_directional_risk_at_stop :: decimal
  cq_available_margin :: decimal
  cq_active_ticket_count :: int
  cq_max_concurrent_tickets :: int
  cq_max_ticket_stop_risk_fraction :: decimal
  cq_max_gross_stop_risk_fraction :: decimal
  cq_max_ticket_initial_margin_fraction :: decimal
  cq_max_gross_initial_margin_utilization :: decimal
  cq_directional_stop_risk_limit_fraction :: decimal
  cq_min_materialization_ratio :: decimal
  cq_permitted_max_leverage :: int
  cq_configured_leverage :: int
  cq_entry_reference_price :: decimal
  cq_initial_stop_price :: decimal
  cq_take_profit_price :: decimal
  cq_quantity_step :: decimal
  cq_min_quantity :: decimal
  cq_min_notional :: decimal
  cq_tp1_quantity_fraction :: decimal


record sizing_selection =
  cs_remaining_slots :: int
  cs_ticket_stop_risk_budget :: decimal
  cs_remaining_gross_stop_risk :: decimal
  cs_remaining_directional_stop_risk :: decimal
  cs_minimum_stop_risk_budget :: decimal
  cs_materialization_ratio :: decimal
  cs_remaining_gross_margin :: decimal
  cs_remaining_executable_margin :: decimal
  cs_ticket_margin_budget :: decimal
  cs_risk_quantity :: decimal
  cs_required_leverage :: int
  cs_selected_leverage :: int
  cs_configured_leverage :: int
  cs_leverage_change_required :: bool
  cs_quantity :: decimal
  cs_notional :: decimal
  cs_reserved_margin :: decimal
  cs_planned_stop_risk :: decimal
  cs_tp1_quantity :: decimal
  cs_runner_quantity :: decimal

text \<open>\<open>CapacitySizingDecision\<close>: its validator ties the status to the presence of a selection.\<close>

record sizing_decision =
  cd_status :: capacity_sizing_status
  cd_selected :: "sizing_selection option"

definition valid_sizing_decision :: "sizing_decision \<Rightarrow> bool" where
  "valid_sizing_decision d \<longleftrightarrow> (cd_status d = SELECTED) = (cd_selected d \<noteq> None)"

definition mk_sizing_decision ::
  "capacity_sizing_status \<Rightarrow> sizing_selection option \<Rightarrow> sizing_decision result" where
  "mk_sizing_decision status selected =
     (let d = \<lparr>cd_status = status, cd_selected = selected\<rparr>
      in if valid_sizing_decision d then Inr d else Inl ValidationError)"

section \<open>The decision\<close>

definition floor_to_step :: "decimal \<Rightarrow> decimal \<Rightarrow> decimal" where
  "floor_to_step value step =
     (if value \<le> 0 then 0 else dec_mul (dec_floor (dec_div value step)) step)"

definition refused :: "capacity_sizing_status \<Rightarrow> sizing_decision result" where
  "refused status = mk_sizing_decision status None"

definition risk_per_unit :: "sizing_request \<Rightarrow> decimal" where
  "risk_per_unit r = \<bar>dec_sub (cq_entry_reference_price r) (cq_initial_stop_price r)\<bar>"

text \<open>The budgets the decision computes before it looks at candidates, in the order of the source.\<close>

definition remaining_gross_stop_risk :: "sizing_request \<Rightarrow> decimal" where
  "remaining_gross_stop_risk r =
     max (dec_sub (dec_mul (cq_total_wallet_balance r) (cq_max_gross_stop_risk_fraction r))
            (cq_gross_risk_at_stop r)) 0"

definition remaining_directional_stop_risk :: "sizing_request \<Rightarrow> decimal" where
  "remaining_directional_stop_risk r =
     max (dec_sub (dec_mul (cq_total_wallet_balance r) (cq_directional_stop_risk_limit_fraction r))
            (cq_directional_risk_at_stop r)) 0"

definition ticket_stop_risk_budget :: "sizing_request \<Rightarrow> decimal" where
  "ticket_stop_risk_budget r =
     min (min (dec_mul (cq_total_wallet_balance r) (cq_max_ticket_stop_risk_fraction r))
            (remaining_gross_stop_risk r)) (remaining_directional_stop_risk r)"

definition minimum_stop_risk_budget :: "sizing_request \<Rightarrow> decimal" where
  "minimum_stop_risk_budget r =
     dec_mul (dec_mul (cq_total_wallet_balance r) (cq_max_ticket_stop_risk_fraction r))
       (cq_min_materialization_ratio r)"

definition remaining_gross_margin :: "sizing_request \<Rightarrow> decimal" where
  "remaining_gross_margin r =
     max (dec_sub (dec_mul (cq_total_margin_balance r) (cq_max_gross_initial_margin_utilization r))
            (max (cq_total_initial_margin r) (cq_current_reserved_margin r))) 0"

definition remaining_executable_margin :: "sizing_request \<Rightarrow> decimal" where
  "remaining_executable_margin r = min (cq_available_margin r) (remaining_gross_margin r)"

definition ticket_margin_budget :: "sizing_request \<Rightarrow> decimal" where
  "ticket_margin_budget r =
     min (dec_mul (cq_total_margin_balance r) (cq_max_ticket_initial_margin_fraction r))
       (remaining_executable_margin r)"

definition risk_quantity :: "sizing_request \<Rightarrow> decimal" where
  "risk_quantity r = floor_to_step (dec_div (ticket_stop_risk_budget r) (risk_per_unit r)) (cq_quantity_step r)"

definition required_leverage :: "sizing_request \<Rightarrow> int" where
  "required_leverage r =
     \<lceil>dec_div (dec_mul (risk_quantity r) (cq_entry_reference_price r)) (ticket_margin_budget r)\<rceil>"

text \<open>\<open>_evaluate_candidate\<close>: \<open>Inl\<close> is the refusal status of this leverage, \<open>Inr\<close> the candidate.\<close>

definition evaluate_candidate ::
  "sizing_request \<Rightarrow> int \<Rightarrow> capacity_sizing_status + sizing_selection" where
  "evaluate_candidate r leverage =
     (let margin_quantity = floor_to_step
            (dec_div (dec_mul (ticket_margin_budget r) (of_int leverage)) (cq_entry_reference_price r))
            (cq_quantity_step r);
          quantity = min (risk_quantity r) margin_quantity;
          notional = dec_mul quantity (cq_entry_reference_price r);
          planned_stop_risk = dec_mul quantity (risk_per_unit r)
      in if quantity < cq_min_quantity r \<or> notional < cq_min_notional r \<or> planned_stop_risk \<le> 0
         then Inl VENUE_MINIMUM_UNMET
         else let tp1_quantity = floor_to_step (dec_mul quantity (cq_tp1_quantity_fraction r))
                    (cq_quantity_step r);
                  runner_quantity = dec_sub quantity tp1_quantity
         in if tp1_quantity \<le> 0 \<or> runner_quantity < cq_min_quantity r
         then Inl EXIT_PLAN_UNEXECUTABLE
         else if tp1_quantity < cq_min_quantity r
                 \<or> dec_mul tp1_quantity (cq_take_profit_price r) < cq_min_notional r
                 \<or> dec_mul runner_quantity (cq_initial_stop_price r) < cq_min_notional r
         then Inl EXIT_PLAN_UNEXECUTABLE
         else Inr
           \<lparr>cs_remaining_slots = cq_max_concurrent_tickets r - cq_active_ticket_count r,
            cs_ticket_stop_risk_budget = ticket_stop_risk_budget r,
            cs_remaining_gross_stop_risk = remaining_gross_stop_risk r,
            cs_remaining_directional_stop_risk = remaining_directional_stop_risk r,
            cs_minimum_stop_risk_budget = minimum_stop_risk_budget r,
            cs_materialization_ratio = dec_div planned_stop_risk
              (dec_mul (cq_total_wallet_balance r) (cq_max_ticket_stop_risk_fraction r)),
            cs_remaining_gross_margin = remaining_gross_margin r,
            cs_remaining_executable_margin = remaining_executable_margin r,
            cs_ticket_margin_budget = ticket_margin_budget r,
            cs_risk_quantity = risk_quantity r,
            cs_required_leverage = required_leverage r,
            cs_selected_leverage = leverage,
            cs_configured_leverage = cq_configured_leverage r,
            cs_leverage_change_required = False,
            cs_quantity = quantity,
            cs_notional = notional,
            cs_reserved_margin = dec_div notional (of_int leverage),
            cs_planned_stop_risk = planned_stop_risk,
            cs_tp1_quantity = tp1_quantity,
            cs_runner_quantity = runner_quantity\<rparr>)"

text \<open>The first element of a list with the least key, as \<open>min(\<dots>, key=\<dots>)\<close> returns it.\<close>

fun min_by :: "('a \<Rightarrow> 'k::linorder) \<Rightarrow> 'a \<Rightarrow> 'a list \<Rightarrow> 'a" where
  "min_by key best [] = best"
| "min_by key best (x # xs) = min_by key (if key x < key best then x else best) xs"

text \<open>The loop over the leverages: candidates in order, and the two refusal flags.\<close>

fun sizing_candidates ::
  "sizing_request \<Rightarrow> int list \<Rightarrow> sizing_selection list \<times> bool \<times> bool" where
  "sizing_candidates r [] = ([], False, False)"
| "sizing_candidates r (leverage # rest) =
     (let (candidates, venue_minimum_unmet, exit_plan_unexecutable) = sizing_candidates r rest
      in case evaluate_candidate r leverage of
           Inr candidate \<Rightarrow> (candidate # candidates, venue_minimum_unmet, exit_plan_unexecutable)
         | Inl status \<Rightarrow> (candidates, venue_minimum_unmet \<or> status = VENUE_MINIMUM_UNMET,
             exit_plan_unexecutable \<or> status = EXIT_PLAN_UNEXECUTABLE))"

definition choose_candidate :: "sizing_request \<Rightarrow> sizing_selection list \<Rightarrow> sizing_selection" where
  "choose_candidate r candidates =
     (case filter (\<lambda>c. cs_quantity c = risk_quantity r) candidates of
        c # rest \<Rightarrow> min_by cs_selected_leverage c rest
      | [] \<Rightarrow> min_by (\<lambda>c. (- cs_planned_stop_risk c, cs_selected_leverage c)) (hd candidates) (tl candidates))"

definition select_capacity_candidate :: "sizing_request \<Rightarrow> sizing_decision result" where
  "select_capacity_candidate r =
     (if cq_max_concurrent_tickets r \<le> cq_active_ticket_count r then refused COUNT_EXHAUSTED
      else if cq_configured_leverage r \<noteq> FIXED_EXCHANGE_CONFIGURED_LEVERAGE
              \<or> cq_permitted_max_leverage r < FIXED_EXCHANGE_CONFIGURED_LEVERAGE
      then refused INVALID_FACTS
      else if ticket_stop_risk_budget r \<le> 0
      then (if remaining_directional_stop_risk r \<le> 0 then refused DIRECTIONAL_RISK_EXHAUSTED
            else refused STOP_RISK_EXHAUSTED)
      else if ticket_margin_budget r \<le> 0 then refused MARGIN_EXHAUSTED
      else if risk_quantity r \<le> 0 then refused VENUE_MINIMUM_UNMET
      else let (candidates, venue_minimum_unmet, exit_plan_unexecutable) =
                 sizing_candidates r [FIXED_EXCHANGE_CONFIGURED_LEVERAGE]
      in if candidates = []
         then (if exit_plan_unexecutable then refused EXIT_PLAN_UNEXECUTABLE
               else if venue_minimum_unmet then refused VENUE_MINIMUM_UNMET
               else refused INVALID_FACTS)
         else let selected = choose_candidate r candidates
         in if cs_planned_stop_risk selected < minimum_stop_risk_budget r
            then refused MINIMUM_MATERIALIZATION_UNMET
            else mk_sizing_decision SELECTED (Some selected))"

section \<open>Quantities on the step grid\<close>

lemma floor_to_step_nonneg: "0 < step \<Longrightarrow> 0 \<le> floor_to_step v step"
  by (auto simp: floor_to_step_def dec_mul_def dec_div_def intro!: dec.rnd_nonneg mult_nonneg_nonneg)


section \<open>One candidate\<close>

definition margin_quantity :: "sizing_request \<Rightarrow> int \<Rightarrow> decimal" where
  "margin_quantity r leverage = floor_to_step
     (dec_div (dec_mul (ticket_margin_budget r) (of_int leverage)) (cq_entry_reference_price r))
     (cq_quantity_step r)"









section \<open>The selected candidate\<close>


lemma refused_result: "status \<noteq> SELECTED \<Longrightarrow> refused status = Inr \<lparr>cd_status = status, cd_selected = None\<rparr>"
  by (simp add: refused_def mk_sizing_decision_def valid_sizing_decision_def)

lemma choose_single [simp]: "choose_candidate r [c] = c"
  by (simp add: choose_candidate_def)


lemma selection_total:
  "\<exists>d. select_capacity_candidate r = Inr d \<and> valid_sizing_decision d"
  by (auto simp: select_capacity_candidate_def refused_result mk_sizing_decision_def valid_sizing_decision_def
      Let_def split: sum.splits)










section \<open>Properties\<close>





end
