(* ===== verification/Issue_Ticket.thy ===== *)
theory Issue_Ticket
  imports Unit_Of_Work Owner_Authority Capacity_Sizing
begin

text \<open>
  \<open>application/issue_ticket.py\<close>: one immutable Ticket through the globally serialized ENTRY lane, in one
  transaction. The handler is written with its checks in source order; a refusal commits the transaction
  with nothing but the lane row, an exception rolls it back.

  What the handler reads from the owner, strategy and selection tables, which no other operation of this
  development writes, is one record \<open>issue_authority\<close>: the snapshots the reads return, and, when the strategy
  has a selection control, the state of its current entry Vacuum, the selection authority of the stored
  signal and the verdict of \<open>resolve_selection_entry_authority\<close>. Tickets, aggregates, claims, budgets,
  exposures, incidents and the lane are read from the store.
\<close>

datatype issue_ticket_status =
    ISSUED | NO_READY_SIGNAL | SIGNAL_INVALID_OR_STALE | SCOPE_OR_POLICY_MISMATCH | ACCOUNT_MODE_INVALID
  | INSTRUMENT_RULES_INVALID | SCHEMA_IDENTITY_MISMATCH | ENTRY_LANE_OCCUPIED | FACTS_EXPIRED
  | ACTIVE_NETTING_DOMAIN | DUPLICATE_SIGNAL | POLICY_MISSING_OR_STALE | POLICY_DISABLED | STRATEGY_PAUSED
  | BUDGET_EXHAUSTED | EXPOSURE_FAMILY_CAPACITY_EXHAUSTED | STRATEGY_SIDE_CAPACITY_EXHAUSTED
  | PROTECTION_UNAVAILABLE | CAPACITY_CLAIM_MISSING | ADMISSION_INCIDENT_OPEN | PRODUCT_ENTRY_BLOCKED
  | SELECTION_ENTRY_VACUUM | SELECTION_AUTHORITY_INVALID | SELECTION_TRIGGER_SUPPRESSED
  | EXIT_BINDING_CHANGED | EXIT_LEG_MATERIALIZATION_UNMET

record issue_request =
  iq_capacity_claim :: capacity_claim
  iq_now_ms :: int
  iq_claim_owner :: string

definition mk_issue_request :: "issue_request \<Rightarrow> issue_request result" where
  "mk_issue_request q =
     bind_result (mk_capacity_claim (iq_capacity_claim q)) (\<lambda>claim.
       if 0 < iq_now_ms q \<and> non_blank (iq_claim_owner q)
       then Inr (q\<lparr>iq_capacity_claim := claim, iq_claim_owner := py_strip (iq_claim_owner q)\<rparr>)
       else Inl ValidationError)"

section \<open>Authority read from other subsystems\<close>

datatype selection_entry_status =
    SELECTION_VALID | VACUUM_OPEN | AUTHORITY_INVALID | TRIGGER_SUPPRESSED | OWNER_OR_POLICY_BLOCKED

record selection_gate =
  sl_vacuum :: "vacuum_state option"
  sl_signal_authority :: "string option option"
  sl_decision :: selection_entry_status

record active_universe_snapshot =
  au_event_spec_id :: string
  au_universe_version_id :: string
  au_semantic_digest :: string
  au_exchange_instrument_id :: string

record runtime_scope_snapshot =
  rs_runtime_scope_id :: string
  rs_strategy_group_id :: string
  rs_strategy_version_id :: string
  rs_event_spec_id :: string
  rs_runtime_profile_id :: string
  rs_owner_policy_id :: string
  rs_exchange_instrument_id :: string
  rs_position_side :: position_side
  rs_universe_version_id :: string
  rs_universe_semantic_digest :: string
  rs_lifecycle_state :: string
  rs_entry_enabled :: bool
  rs_scope_version :: int

record current_exit_binding =
  eb_event_spec_id :: string
  eb_exit_binding_id :: string
  eb_binding_semantic_hash :: string
  eb_projection_version :: int
  eb_activated_at_ms :: int

record issue_authority =
  ia_policy :: "owner_policy_snapshot option"
  ia_strategy_control :: "strategy_entry_control option"
  ia_selection :: "selection_gate option"
  ia_universe :: "active_universe_snapshot option"
  ia_scope :: "runtime_scope_snapshot option"
  ia_strategy_group :: "strategy_group_snapshot option"
  ia_strategy_version :: "strategy_version_snapshot option"
  ia_event_spec :: "event_spec_snapshot option"
  ia_exit_binding :: "current_exit_binding option"

definition scope_matches_ticket :: "runtime_scope_snapshot option \<Rightarrow> trade_ticket \<Rightarrow> bool" where
  "scope_matches_ticket scope ticket =
     (case scope of None \<Rightarrow> False
      | Some s \<Rightarrow>
          let identity = tk_identity ticket; runtime = ti_runtime identity
          in rs_lifecycle_state s = ''active'' \<and> rs_entry_enabled s
             \<and> rs_runtime_scope_id s = tk_runtime_scope_id ticket
             \<and> rs_scope_version s = tk_runtime_scope_version ticket
             \<and> rs_strategy_group_id s = ri_strategy_group_id runtime
             \<and> rs_strategy_version_id s = ri_strategy_version_id runtime
             \<and> rs_event_spec_id s = ri_event_spec_id runtime
             \<and> rs_runtime_profile_id s = ri_runtime_profile_id runtime
             \<and> rs_owner_policy_id s = tk_owner_policy_id ticket
             \<and> rs_universe_version_id s = tk_universe_version_id ticket
             \<and> rs_universe_semantic_digest s = tk_universe_semantic_digest ticket
             \<and> rs_exchange_instrument_id s = nd_exchange_instrument_id (ti_netting_domain identity)
             \<and> rs_position_side s = nd_position_side (ti_netting_domain identity))"

fun selection_issue_status :: "selection_entry_status \<Rightarrow> issue_ticket_status" where
  "selection_issue_status VACUUM_OPEN = SELECTION_ENTRY_VACUUM"
| "selection_issue_status TRIGGER_SUPPRESSED = SELECTION_TRIGGER_SUPPRESSED"
| "selection_issue_status OWNER_OR_POLICY_BLOCKED = SCOPE_OR_POLICY_MISMATCH"
| "selection_issue_status AUTHORITY_INVALID = SELECTION_AUTHORITY_INVALID"
| "selection_issue_status SELECTION_VALID = SELECTION_AUTHORITY_INVALID"

section \<open>The checks\<close>

text \<open>Refusals before the registry is read: expiry, owner policy, strategy control, Vacuum, frozen limits.\<close>

definition policy_refusal ::
  "issue_authority \<Rightarrow> capacity_claim \<Rightarrow> trade_ticket \<Rightarrow> int \<Rightarrow> issue_ticket_status option" where
  "policy_refusal A claim ticket now_ms =
     (if cc_expires_at_ms claim \<le> now_ms then Some FACTS_EXPIRED
      else case ia_policy A of
        None \<Rightarrow> Some POLICY_MISSING_OR_STALE
      | Some policy \<Rightarrow>
          if ps_policy_version policy \<noteq> tk_owner_policy_version ticket then Some POLICY_MISSING_OR_STALE
          else if \<not> ps_enabled policy \<or> \<not> ps_new_entry_submit_enabled policy then Some POLICY_DISABLED
          else if (case ps_scope policy of None \<Rightarrow> True
                   | Some scope \<Rightarrow> \<not> authorizes scope (ri_event_spec_id (ti_runtime (tk_identity ticket)))
                       (ri_runtime_profile_id (ti_runtime (tk_identity ticket))))
          then Some SCOPE_OR_POLICY_MISMATCH
          else if \<not> strategy_entry_is_enabled (ia_strategy_control A) then Some STRATEGY_PAUSED
          else if (case ia_selection A of None \<Rightarrow> False
                   | Some g \<Rightarrow> (case sl_vacuum g of None \<Rightarrow> False | Some v \<Rightarrow> blocks_new_entry v))
          then Some SELECTION_ENTRY_VACUUM
          else if for_family (ps_family_ticket_limits policy) (tk_exposure_family ticket)
                    \<noteq> cc_family_ticket_limit claim
                  \<or> ps_max_same_strategy_side policy \<noteq> cc_max_same_strategy_side claim
                  \<or> ps_directional_stop_risk_limit_fraction policy
                      \<noteq> cc_directional_stop_risk_limit_fraction claim
                  \<or> ps_min_materialization_ratio policy \<noteq> cc_min_materialization_ratio claim
          then Some POLICY_MISSING_OR_STALE
          else if tk_selected_leverage ticket \<noteq> FIXED_EXCHANGE_CONFIGURED_LEVERAGE
                  \<or> cc_configured_leverage_at_claim claim \<noteq> FIXED_EXCHANGE_CONFIGURED_LEVERAGE
                  \<or> tk_leverage_change_required ticket
          then Some SCOPE_OR_POLICY_MISMATCH
          else None)"

text \<open>Refusals by universe, scope, selection, registry and exit binding.\<close>

definition selection_refusal ::
  "issue_authority \<Rightarrow> capacity_claim \<Rightarrow> trade_ticket \<Rightarrow> issue_ticket_status option" where
  "selection_refusal A claim ticket =
     (case ia_selection A of None \<Rightarrow> None
      | Some g \<Rightarrow>
          (case sl_signal_authority g of None \<Rightarrow> Some SELECTION_AUTHORITY_INVALID
           | Some authority_id \<Rightarrow>
               if authority_id \<noteq> cc_selection_authority_id claim
                  \<or> authority_id \<noteq> tk_selection_authority_id ticket
               then Some SELECTION_AUTHORITY_INVALID
               else if sl_decision g \<noteq> SELECTION_VALID then Some (selection_issue_status (sl_decision g))
               else None))"

definition exit_binding_matches :: "current_exit_binding option \<Rightarrow> capacity_claim \<Rightarrow> trade_ticket \<Rightarrow> bool" where
  "exit_binding_matches binding claim ticket =
     (case binding of None \<Rightarrow> False
      | Some b \<Rightarrow>
          cc_exit_binding_id claim = Some (eb_exit_binding_id b)
          \<and> cc_exit_binding_semantic_hash claim = Some (eb_binding_semantic_hash b)
          \<and> cc_exit_binding_authority_version claim = Some (eb_projection_version b)
          \<and> tk_exit_binding_id ticket = cc_exit_binding_id claim
          \<and> tk_exit_binding_semantic_hash ticket = cc_exit_binding_semantic_hash claim
          \<and> tk_exit_binding_authority_version ticket = cc_exit_binding_authority_version claim)"

definition registry_refusal ::
  "issue_authority \<Rightarrow> capacity_claim \<Rightarrow> trade_ticket \<Rightarrow> issue_ticket_status option" where
  "registry_refusal A claim ticket =
     (if (case ia_universe A of None \<Rightarrow> True
          | Some u \<Rightarrow> au_universe_version_id u \<noteq> tk_universe_version_id ticket
              \<or> au_semantic_digest u \<noteq> tk_universe_semantic_digest ticket)
      then Some SCOPE_OR_POLICY_MISMATCH
      else if \<not> scope_matches_ticket (ia_scope A) ticket then Some SCOPE_OR_POLICY_MISMATCH
      else case selection_refusal A claim ticket of
        Some status \<Rightarrow> Some status
      | None \<Rightarrow>
          if \<not> strategy_authority_matches_ticket (ia_strategy_group A) (ia_strategy_version A)
                 (ia_event_spec A) ticket
          then Some SCOPE_OR_POLICY_MISMATCH
          else if \<not> exit_binding_matches (ia_exit_binding A) claim ticket then Some EXIT_BINDING_CHANGED
          else None)"

text \<open>The budget guard on the exposure of the account.\<close>

definition budget_exhausted ::
  "owner_policy_snapshot \<Rightarrow> capacity_claim \<Rightarrow> trade_ticket \<Rightarrow> exposure_row option \<Rightarrow> decimal \<Rightarrow> bool" where
  "budget_exhausted policy claim ticket exposure directional_risk \<longleftrightarrow>
     (let tickets = (case exposure of None \<Rightarrow> 0 | Some x \<Rightarrow> ex_active_ticket_count x);
          gross_risk = (case exposure of None \<Rightarrow> 0 | Some x \<Rightarrow> ex_gross_risk_at_stop x);
          reserved_margin = (case exposure of None \<Rightarrow> 0 | Some x \<Rightarrow> ex_current_reserved_margin x);
          wallet = cc_total_wallet_balance_at_claim claim;
          margin = cc_total_margin_balance_at_claim claim
      in ps_max_concurrent_tickets policy \<le> tickets
         \<or> ps_max_leverage policy < tk_selected_leverage ticket
         \<or> tk_margin_mode ticket \<noteq> ps_supported_margin_mode policy
         \<or> tk_planned_stop_risk_budget ticket < tk_risk_at_stop ticket
         \<or> tk_post_fill_stop_risk_limit ticket < tk_planned_stop_risk_budget ticket
         \<or> ps_max_ticket_stop_risk_fraction policy \<noteq> cc_max_ticket_stop_risk_fraction claim
         \<or> ps_max_gross_stop_risk_fraction policy \<noteq> cc_max_gross_stop_risk_fraction claim
         \<or> ps_max_ticket_initial_margin_fraction policy \<noteq> cc_max_ticket_initial_margin_fraction claim
         \<or> ps_max_gross_initial_margin_utilization policy \<noteq> cc_max_gross_initial_margin_utilization claim
         \<or> ps_directional_stop_risk_limit_fraction policy \<noteq> cc_directional_stop_risk_limit_fraction claim
         \<or> ps_min_materialization_ratio policy \<noteq> cc_min_materialization_ratio claim
         \<or> dec_mul wallet (ps_max_ticket_stop_risk_fraction policy) < tk_risk_at_stop ticket
         \<or> dec_mul wallet (ps_max_gross_stop_risk_fraction policy)
             < dec_add gross_risk (tk_risk_at_stop ticket)
         \<or> dec_mul wallet (ps_directional_stop_risk_limit_fraction policy)
             < dec_add directional_risk (tk_risk_at_stop ticket)
         \<or> tk_risk_at_stop ticket < cc_minimum_stop_risk_budget claim
         \<or> dec_mul margin (ps_max_ticket_initial_margin_fraction policy) < tk_reserved_margin ticket
         \<or> dec_mul margin (ps_max_gross_initial_margin_utilization policy)
             < dec_add reserved_margin (tk_reserved_margin ticket))"

text \<open>Refusals by the durable state: incidents, domain, signal, family, strategy side and budget.\<close>

definition capacity_refusal ::
  "issue_authority \<Rightarrow> capacity_claim \<Rightarrow> trade_ticket \<Rightarrow> kernel_store \<Rightarrow> issue_ticket_status option result" where
  "capacity_refusal A claim ticket s =
     (let domain = ti_netting_domain (tk_identity ticket); venue_id = nd_venue_id domain;
          account_id = nd_account_id domain;
          strategy_side_count = count_active_strategy_side_tickets venue_id account_id
            (ri_strategy_group_id (ti_runtime (tk_identity ticket))) (nd_position_side domain) s
      in bind_result (open_incident_scopes venue_id account_id (nd_exchange_instrument_id domain) s) (\<lambda>scopes.
         Inr (if scopes \<noteq> [] then Some ADMISSION_INCIDENT_OPEN
              else if has_active_ticket_in_domain (netting_domain_key domain) s then Some ACTIVE_NETTING_DOMAIN
              else if has_ticket_for_signal (ti_signal_event_id (tk_identity ticket)) s
              then Some DUPLICATE_SIGNAL
              else if tk_family_ticket_limit ticket
                        \<le> count_active_family_tickets venue_id account_id (tk_exposure_family ticket) s
              then Some EXPOSURE_FAMILY_CAPACITY_EXHAUSTED
              else if (case Option.bind (ia_policy A) ps_max_same_strategy_side of None \<Rightarrow> False
                       | Some limit \<Rightarrow> limit \<le> strategy_side_count)
              then Some STRATEGY_SIDE_CAPACITY_EXHAUSTED
              else if (case ia_policy A of None \<Rightarrow> False
                       | Some policy \<Rightarrow> budget_exhausted policy claim ticket
                           (get_account_exposure venue_id account_id s)
                           (sum_active_directional_stop_risk venue_id account_id (nd_position_side domain) s))
              then Some BUDGET_EXHAUSTED
              else None)))"

section \<open>The transaction\<close>

definition issue_budget :: "trade_ticket \<Rightarrow> int \<Rightarrow> budget_row" where
  "issue_budget ticket now_ms =
     (let id = ti_ticket_id (tk_identity ticket); domain = ti_netting_domain (tk_identity ticket)
      in \<lparr>br_budget_reservation_id = ''budget:'' @ id, br_ticket_id = id,
          br_owner_policy_id = tk_owner_policy_id ticket, br_venue_id = nd_venue_id domain,
          br_account_id = nd_account_id domain, br_reserved_notional = tk_notional ticket,
          br_reserved_risk = tk_risk_at_stop ticket, br_reserved_margin = tk_reserved_margin ticket,
          br_planned_stop_risk_budget = tk_planned_stop_risk_budget ticket,
          br_risk_reservation_basis = tk_risk_reservation_basis ticket, br_status = ''active'',
          br_created_at_ms = now_ms, br_released_at_ms = None\<rparr>)"

definition event_id_for :: "string \<Rightarrow> int \<Rightarrow> string" where
  "event_id_for ticket_id sequence = ''event:'' @ ticket_id @ '':'' @ show_int sequence"

definition issue_event :: "trade_ticket \<Rightarrow> int \<Rightarrow> trade_event" where
  "issue_event ticket now_ms =
     TicketIssued \<lparr>eh_event_id = event_id_for (ti_ticket_id (tk_identity ticket)) 1, eh_sequence = 1,
                   eh_occurred_at_ms = now_ms\<rparr> ticket"

text \<open>The writes, after every check has passed.\<close>

definition reserve_and_issue ::
  "capacity_claim \<Rightarrow> trade_ticket \<Rightarrow> int \<Rightarrow> string \<Rightarrow> lane_row \<Rightarrow> kernel_store \<Rightarrow> kernel_store result" where
  "reserve_and_issue claim ticket now_ms claim_owner lane s =
     (let id = ti_ticket_id (tk_identity ticket); domain = ti_netting_domain (tk_identity ticket);
          exposure = get_account_exposure (nd_venue_id domain) (nd_account_id domain) s;
          event = issue_event ticket now_ms
      in bind_result (capacity_claims_add claim s) (\<lambda>s1.
         bind_result (budgets_add (issue_budget ticket now_ms) s1) (\<lambda>s2.
         bind_result (reserve_account_exposure (nd_venue_id domain) (nd_account_id domain)
              (tk_notional ticket) (tk_risk_at_stop ticket) (tk_reserved_margin ticket)
              (map_option ex_projection_version exposure) now_ms s2) (\<lambda>s3.
         bind_result (claim_global_lane id (ti_signal_event_id (tk_identity ticket)) claim_owner now_ms
              (tk_expires_at_ms ticket) (ln_version lane) s3) (\<lambda>s4.
         bind_result (reduce_event None event) (\<lambda>r. commit_reduction event r 0 s4))))))"

definition issue_ticket_request ::
  "issue_authority \<Rightarrow> issue_request \<Rightarrow> kernel_store \<Rightarrow> (kernel_store \<times> issue_ticket_status) result" where
  "issue_ticket_request A q s0 =
     (let claim = iq_capacity_claim q; now_ms = iq_now_ms q
      in bind_result (to_ticket claim) (\<lambda>ticket.
         let (s, lane) = lock_global_lane s0
         in if ln_status lane \<noteq> ''idle'' then Inr (s, ENTRY_LANE_OCCUPIED)
            else case policy_refusal A claim ticket now_ms of
              Some status \<Rightarrow> Inr (s, status)
            | None \<Rightarrow>
                (case registry_refusal A claim ticket of
                   Some status \<Rightarrow> Inr (s, status)
                 | None \<Rightarrow>
                     bind_result (capacity_refusal A claim ticket s) (\<lambda>refusal.
                       case refusal of
                         Some status \<Rightarrow> Inr (s, status)
                       | None \<Rightarrow>
                           bind_result (reserve_and_issue claim ticket now_ms (iq_claim_owner q) lane s)
                             (\<lambda>s'. Inr (s', ISSUED))))))"

end
