(* ===== verification/Store_Views.thy ===== *)
theory Store_Views
  imports Issue_Ticket Lifecycle_Liveness
begin

text \<open>
  What a transaction does to each part of the store. The locale \<open>unique_key\<close> carries the laws of a table with
  a key no two rows share; \<open>effect_view\<close> carries a projection of the store through the loop that materialises
  the effects of a reduction. Both are interpreted on the tables and effects of the kernel.
\<close>

section \<open>Rows\<close>

lemma insert_row_iff [simp]:
  "insert_row conflicts row rows = Inr rows' \<longleftrightarrow> (\<forall>r\<in>set rows. \<not> conflicts r) \<and> rows' = rows @ [row]"
  by (auto simp: insert_row_def list_ex_iff)

lemma update_one_iff [simp]:
  "update_one message P f rows = Inr rows' \<longleftrightarrow> rowcount P rows = 1 \<and> rows' = update_where P f rows"
  by (auto simp: update_one_def)

lemma update_where_map: "(\<And>r. P r \<Longrightarrow> g (f r) = g r) \<Longrightarrow> map g (update_where P f rows) = map g rows"
  by (auto simp: update_where_def)

lemma rowcount_pos: "rowcount P rows = 1 \<Longrightarrow> \<exists>r\<in>set rows. P r"
  by (metis One_nat_def filter_empty_conv length_0_conv rowcount_def zero_neq_one)

lemma set_update_where: "x \<in> set (update_where P f rows) \<longleftrightarrow>
    (\<exists>r\<in>set rows. P r \<and> x = f r) \<or> (x \<in> set rows \<and> \<not> P x)"
  by (auto simp: update_where_def image_iff)

lemma find_append: "List.find P (xs @ ys) = (case List.find P xs of None \<Rightarrow> List.find P ys | Some x \<Rightarrow> Some x)"
  by (induction xs) auto

lemma find_None: "List.find P xs = None \<longleftrightarrow> (\<forall>x\<in>set xs. \<not> P x)"
  by (induction xs) auto

lemma find_Some_set: "List.find P xs = Some x \<Longrightarrow> x \<in> set xs \<and> P x"
  by (induction xs) (auto split: if_splits)

lemma find_distinct:
  "distinct (map key rows) \<Longrightarrow> List.find (\<lambda>r. key r = k) rows = Some r \<longleftrightarrow> r \<in> set rows \<and> key r = k"
  by (induction rows) auto

text \<open>A table with a unique key: \<open>conflicts r x\<close> says that the stored row \<open>x\<close> excludes the new row \<open>r\<close>.\<close>

locale unique_key =
  fixes key :: "'r \<Rightarrow> 'k" and conflicts :: "'r \<Rightarrow> 'r \<Rightarrow> bool"
  assumes same_key: "key x = key r \<Longrightarrow> conflicts r x"
begin

lemma insert_distinct:
  "insert_row (conflicts r) r rows = Inr rows' \<Longrightarrow> distinct (map key rows) \<Longrightarrow> distinct (map key rows')"
  using same_key by auto

lemma insert_find:
  assumes "insert_row (conflicts r) r rows = Inr rows'"
  shows "List.find (\<lambda>x. key x = k) rows' = (if k = key r then Some r else List.find (\<lambda>x. key x = k) rows)"
proof (cases "k = key r")
  case True
  then have "List.find (\<lambda>x. key x = k) rows = None"
    using assms same_key by (auto simp: find_None)
  then show ?thesis using assms True by (simp add: find_append)
qed (use assms in \<open>simp add: find_append split: option.split\<close>)

lemma update_keys:
  assumes "\<And>x. P x \<Longrightarrow> key (f x) = key x"
  shows "map key (update_where P f rows) = map key rows"
  using assms by (rule update_where_map)

lemma update_find:
  assumes "\<And>x. P x \<Longrightarrow> key (f x) = key x"
  shows "List.find (\<lambda>x. key x = k) (update_where P f rows)
      = map_option (\<lambda>x. if P x then f x else x) (List.find (\<lambda>x. key x = k) rows)"
  using assms by (induction rows) (auto simp: update_where_def)

end

interpretation ticket_table: unique_key row_ticket_id
  "\<lambda>r x. row_ticket_id x = row_ticket_id r
     \<or> ti_signal_event_id (tk_identity (tr_ticket x)) = ti_signal_event_id (tk_identity (tr_ticket r))
     \<or> tr_active_netting_domain_key x = Some (netting_domain_key (row_domain r))"
  by unfold_locales simp

interpretation aggregate_table: unique_key agg_ticket_id "\<lambda>r x. agg_ticket_id x = agg_ticket_id r"
  by unfold_locales simp

interpretation budget_table: unique_key br_ticket_id
  "\<lambda>r x. br_budget_reservation_id x = br_budget_reservation_id r \<or> br_ticket_id x = br_ticket_id r"
  by unfold_locales simp

interpretation exposure_table: unique_key "\<lambda>x. (ex_venue_id x, ex_account_id x)"
  "\<lambda>r x. account_row (ex_venue_id r) (ex_account_id r) x"
  by unfold_locales simp

section \<open>Effects\<close>

text \<open>Every effect of a reduction concerns the Ticket of its aggregate.\<close>

fun effect_ticket :: "kernel_effect \<Rightarrow> string" where
  "effect_ticket (PrepareEntryCommand t _) = ti_ticket_id (tk_identity t)"
| "effect_ticket (PrepareSetLeverageCommand t) = ti_ticket_id (tk_identity t)"
| "effect_ticket (PrepareInitialStopCommand t _ _) = t"
| "effect_ticket (PrepareTakeProfitCommand t _ _) = t"
| "effect_ticket (PrepareProtectionReplacementCommand t _ _ _ _) = t"
| "effect_ticket (PrepareExitCommand t _ _) = t"
| "effect_ticket (CancelEntryRemainder t) = t"
| "effect_ticket (CancelVacuumEntryOrder t _ _) = t"
| "effect_ticket (RequestControlledFlatten t _) = t"
| "effect_ticket (PrepareControlledFlattenCommand t _) = t"
| "effect_ticket (CancelProtectionOrders t _ _ _) = t"
| "effect_ticket (MarkCancelCommandReconciledAbsent t _) = t"
| "effect_ticket (OpenIncident t _) = t"
| "effect_ticket (ResolveIncident t _) = t"
| "effect_ticket (ResolveTicketIncidentsAtClosure t) = t"
| "effect_ticket (ReleaseEntryLane t) = t"
| "effect_ticket (ReleaseCapitalAuthorities r) = cr_ticket_id r"
| "effect_ticket (ReleaseBudget t) = t"
| "effect_ticket (ProjectTerminalOwnerState t) = t"

lemma release_lane_form: "is_release_lane e \<Longrightarrow> e = ReleaseEntryLane (effect_ticket e)"
  by (cases e) simp_all

lemma capital_release_form: "is_capital_release e \<Longrightarrow>
    e = ReleaseBudget (effect_ticket e) \<or> (\<exists>r. e = ReleaseCapitalAuthorities r \<and> cr_ticket_id r = effect_ticket e)"
  by (cases e) simp_all

lemma own_effects_base [simp]:
  "list_all (\<lambda>e. effect_ticket e = agg_ticket_id a) (resolve_if b a k)"
  "list_all (\<lambda>e. effect_ticket e = agg_ticket_id a) (release_all a)"
  by (simp_all add: resolve_if_def release_all_def)

lemma reduce_fact_own_effects:
  assumes "reduce_fact a h f = Inr (a', fx)" "tk_identity (ag_ticket a) = ag_identity a"
  shows "list_all (\<lambda>e. effect_ticket e = agg_ticket_id a) fx"
  using assms by (cases f) (auto simp: step_simps split: step_splits option.split)

text \<open>
  A projection of the store that only the effects satisfying \<open>moves\<close> change. A reduction with one such effect
  changes the projection exactly as that effect does.
\<close>

lemma materialize_effects_append:
  "materialize_effects a h (fx @ gx) s = bind_result (materialize_effects a h fx s) (materialize_effects a h gx)"
proof (induction fx arbitrary: s)
  case (Cons e fx)
  then show ?case by (cases "materialize_effect a h e s") simp_all
qed simp

lemma effect_count_zero: "effect_count P fx = 0 \<longleftrightarrow> (\<forall>e\<in>set fx. \<not> P e)"
  by (simp add: effect_count_def filter_empty_conv)

lemma effect_count_one:
  assumes "effect_count P fx = 1"
  obtains fx1 e fx2 where "fx = fx1 @ e # fx2" "P e" "effect_count P fx1 = 0" "effect_count P fx2 = 0"
proof -
  have "\<exists>e\<in>set fx. P e" using assms by (metis effect_count_zero zero_neq_one)
  then obtain fx1 e fx2 where fx: "fx = fx1 @ e # fx2" "P e" "\<forall>y\<in>set fx1. \<not> P y"
    using split_list_first_prop by metis
  then have "effect_count P fx1 = 0" by (simp add: effect_count_zero)
  then show thesis using that fx assms by simp
qed

locale effect_view =
  fixes view :: "kernel_store \<Rightarrow> 'v" and moves :: "kernel_effect \<Rightarrow> bool"
  assumes still: "materialize_effect a h e s = Inr s' \<Longrightarrow> \<not> moves e \<Longrightarrow> view s' = view s"
begin

lemma effects_still: "materialize_effects a h fx s = Inr s' \<Longrightarrow> effect_count moves fx = 0 \<Longrightarrow> view s' = view s"
proof (induction fx arbitrary: s)
  case (Cons e fx)
  then show ?case using still by (fastforce split: if_splits)
qed simp

lemma effects_once:
  assumes "materialize_effects a h fx s = Inr s'" "effect_count moves fx = 1"
  obtains e s1 s2 where "e \<in> set fx" "moves e" "view s1 = view s" "materialize_effect a h e s1 = Inr s2"
    "view s' = view s2"
proof -
  obtain fx1 e fx2 where fx: "fx = fx1 @ e # fx2" "moves e" "effect_count moves fx1 = 0" "effect_count moves fx2 = 0"
    using effect_count_one[OF assms(2)] .
  then obtain s1 s2 where "materialize_effects a h fx1 s = Inr s1" "materialize_effect a h e s1 = Inr s2"
      "materialize_effects a h fx2 s2 = Inr s'"
    using assms(1) by (auto simp: materialize_effects_append)
  then show thesis using that[of e s1 s2] fx effects_still by fastforce
qed

end

text \<open>
  A quiet step changes commands, incidents and monitors only. All effects are quiet but the three releases.
\<close>

definition quiet :: "kernel_store \<Rightarrow> kernel_store \<Rightarrow> bool" where
  "quiet s s' \<longleftrightarrow> ks_tickets s' = ks_tickets s \<and> ks_aggregates s' = ks_aggregates s \<and> ks_events s' = ks_events s
     \<and> ks_budgets s' = ks_budgets s \<and> ks_claims s' = ks_claims s \<and> ks_exposures s' = ks_exposures s
     \<and> ks_lane s' = ks_lane s"

lemma quiet_refl [simp, intro]: "quiet s s"
  by (simp add: quiet_def)

lemma quiet_trans: "quiet s s1 \<Longrightarrow> quiet s1 s2 \<Longrightarrow> quiet s s2"
  by (simp add: quiet_def)

lemma quiet_commands:
  "add_command c s = Inr s' \<Longrightarrow> quiet s s'"
  "commands_mark_cancel_reconciled_absent t i n s = Inr s' \<Longrightarrow> quiet s s'"
  by (auto simp: quiet_def add_command_def commands_add_def commands_mark_cancel_reconciled_absent_def)

lemma quiet_incidents:
  "incidents_add i s = Inr s' \<Longrightarrow> quiet s s'"
  "resolve_incident t k n s = Inr s' \<Longrightarrow> quiet s s'"
  "quiet s (incidents_resolve j n s)"
  "quiet s (incidents_resolve_all_open_for_ticket t n s)"
  by (auto simp: quiet_def incidents_add_def resolve_incident_def incidents_resolve_def
      incidents_resolve_all_open_for_ticket_def split: option.splits if_splits)

lemma quiet_open_incident: "open_incident a h t k s = Inr s' \<Longrightarrow> quiet s s'"
  by (auto simp: open_incident_def Let_def dest: quiet_incidents(1))

lemma quiet_monitors: "quiet s (monitors_save_if_changed m s)"
  by (simp add: quiet_def monitors_save_if_changed_def split: option.split)

lemma quiet_reconciliation_wait: "quiet s (resolve_reconciliation_wait k n s)"
  using quiet_monitors by (simp add: resolve_reconciliation_wait_def split: option.split)

lemma quiet_project_terminal: "project_terminal t n s = Inr s' \<Longrightarrow> quiet s s'"
  by (auto simp: project_terminal_def Let_def
      intro: quiet_trans[OF quiet_trans[OF quiet_trans[OF quiet_monitors quiet_reconciliation_wait]
          quiet_reconciliation_wait] quiet_reconciliation_wait])

lemma materialize_effect_quiet:
  assumes "materialize_effect a h e s = Inr s'" "\<not> is_release_lane e" "\<not> is_capital_release e"
  shows "quiet s s'"
  using assms
  by (cases e) (auto dest: quiet_commands quiet_incidents(2) quiet_open_incident quiet_project_terminal
      intro: quiet_incidents(4) split: option.splits if_splits)

lemma budgets_release_writes:
  "budgets_release t n s = Inr s' \<Longrightarrow> s' = s\<lparr>ks_budgets := update_where
      (\<lambda>r. br_ticket_id r = t \<and> br_status r = ''active'')
      (\<lambda>r. r\<lparr>br_status := ''released'', br_released_at_ms := Some n\<rparr>) (ks_budgets s)\<rparr>"
  by (auto simp: budgets_release_def)

lemma release_exposure_writes:
  "release_account_exposure v c x y z n s = Inr s' \<Longrightarrow> \<exists>rows. s' = s\<lparr>ks_exposures := rows\<rparr>"
  by (auto simp: release_account_exposure_def split: option.splits if_splits)

lemma release_lane_writes:
  "release_global_lane t s = Inr s' \<Longrightarrow> \<exists>l. ks_lane s = Some l \<and> ln_ticket_id l = Some t \<and> ln_status l = ''claimed''
     \<and> s' = s\<lparr>ks_lane := Some (idle_lane\<lparr>ln_version := ln_version l + 1\<rparr>)\<rparr>"
  by (auto simp: release_global_lane_def split: option.splits if_splits)

text \<open>Aggregates, events, claims and the immutable part of the Ticket rows are not touched by effects.\<close>

definition spine :: "kernel_store \<Rightarrow> trade_aggregate list \<times> trade_event list \<times> capacity_claim list \<times> trade_ticket list" where
  "spine s = (ks_aggregates s, ks_events s, ks_claims s, map tr_ticket (ks_tickets s))"

lemma release_writes:
  assumes "materialize_effect a h e s = Inr s'" "is_capital_release e"
  shows "spine s' = spine s \<and> ks_lane s' = ks_lane s"
  using assms
  by (cases e) (auto simp: spine_def release_budget_def release_capital_def Let_def update_where_map
      tickets_release_active_netting_domain_def dest!: budgets_release_writes release_exposure_writes)

lemma lane_writes:
  assumes "materialize_effect a h e s = Inr s'" "is_release_lane e"
  shows "spine s' = spine s \<and> ks_tickets s' = ks_tickets s \<and> ks_budgets s' = ks_budgets s
    \<and> ks_exposures s' = ks_exposures s"
  using assms by (cases e) (auto simp: spine_def dest!: release_lane_writes)

lemma spine_effect: "materialize_effect a h e s = Inr s' \<Longrightarrow> spine s' = spine s"
  using release_writes lane_writes materialize_effect_quiet by (fastforce simp: quiet_def spine_def)

interpretation spine_view: effect_view spine "\<lambda>_. False"
  by unfold_locales (rule spine_effect)

interpretation lane_view: effect_view ks_lane is_release_lane
  by unfold_locales (use release_writes materialize_effect_quiet in \<open>fastforce simp: quiet_def\<close>)

interpretation capital_view: effect_view "\<lambda>s. (ks_tickets s, ks_budgets s, ks_exposures s)" is_capital_release
  by unfold_locales (use lane_writes materialize_effect_quiet in \<open>fastforce simp: quiet_def\<close>)

lemma effects_spine: "materialize_effects a h fx s = Inr s' \<Longrightarrow> spine s' = spine s"
  by (rule spine_view.effects_still) (simp_all add: effect_count_def)

end
