(* ===== verification/Kernel_System.thy ===== *)
theory Kernel_System
  imports Store_Views
begin

text \<open>
  The kernel as a transition system over its durable store. A step is one committed transaction: a Ticket is
  issued, a validated event is reduced and committed, or a worker, monitor or incident operation changes the
  tables around the lifecycle.
\<close>

section \<open>Loading an aggregate\<close>

abbreviation ticket_key :: "trade_ticket \<Rightarrow> string" where
  "ticket_key t \<equiv> ti_ticket_id (tk_identity t)"

definition stored :: "string \<Rightarrow> kernel_store \<Rightarrow> trade_aggregate option" where
  "stored t s = (case aggregates_get t s of Inr loaded \<Rightarrow> loaded | Inl _ \<Rightarrow> None)"

lemma loaded_stored: "aggregates_get t s = Inr (Some a) \<longleftrightarrow> stored t s = Some a"
  by (auto simp: stored_def split: sum.splits)

definition loaded_with :: "trade_ticket \<Rightarrow> trade_aggregate \<Rightarrow> trade_aggregate" where
  "loaded_with k a = a\<lparr>ag_identity := tk_identity k, ag_ticket := k\<rparr>"

lemma loaded_with_sel [simp]:
  "ag_identity (loaded_with k a) = tk_identity k" "ag_ticket (loaded_with k a) = k"
  "ag_status (loaded_with k a) = ag_status a" "ag_version (loaded_with k a) = ag_version a"
  "ag_entry_lane_held (loaded_with k a) = ag_entry_lane_held a"
  "ag_last_event_sequence (loaded_with k a) = ag_last_event_sequence a"
  by (simp_all add: loaded_with_def)

lemma find_map: "List.find P (map f xs) = map_option f (List.find (\<lambda>x. P (f x)) xs)"
  by (induction xs) auto

lemma tickets_get_map:
  "tickets_get t s = List.find (\<lambda>k. ticket_key k = t) (map tr_ticket (ks_tickets s))"
  by (simp add: tickets_get_def find_map)

lemma stored_lookup:
  "stored t s = Option.bind (List.find (\<lambda>a. agg_ticket_id a = t) (ks_aggregates s))
     (\<lambda>a. map_option (\<lambda>k. loaded_with k a) (tickets_get t s))"
  by (simp add: stored_def aggregates_get_def loaded_with_def split: option.split)

lemma stored_key: "stored t s = Some a \<Longrightarrow> agg_ticket_id a = t"
  by (auto simp: stored_lookup tickets_get_map bind_eq_Some_conv dest!: find_Some_set)

lemma stored_row: "stored t s = Some a \<Longrightarrow> t \<in> set (map row_ticket_id (ks_tickets s))"
  by (force simp: stored_lookup tickets_get_map bind_eq_Some_conv dest!: find_Some_set)

lemma stored_cong:
  "ks_aggregates s' = ks_aggregates s \<Longrightarrow> map tr_ticket (ks_tickets s') = map tr_ticket (ks_tickets s)
   \<Longrightarrow> stored t s' = stored t s"
  unfolding stored_lookup tickets_get_map by simp

text \<open>What closing writes into the Ticket row.\<close>

definition closed_ticket :: "aggregate_status \<Rightarrow> trade_ticket \<Rightarrow> trade_ticket" where
  "closed_ticket status k = (case terminal_ticket_status status of None \<Rightarrow> k | Some st \<Rightarrow> k\<lparr>tk_status := st\<rparr>)"

lemma closed_ticket_sel [simp]: "tk_identity (closed_ticket status k) = tk_identity k"
  by (simp add: closed_ticket_def split: option.split)

lemma close_ticket_writes:
  assumes "close_ticket e a s = Inr s'"
  shows "ks_aggregates s' = ks_aggregates s" "ks_events s' = ks_events s" "ks_claims s' = ks_claims s"
    "ks_budgets s' = ks_budgets s" "ks_exposures s' = ks_exposures s" "ks_lane s' = ks_lane s"
    "ks_commands s' = ks_commands s" "ks_incidents s' = ks_incidents s"
    "map tr_ticket (ks_tickets s')
       = map (\<lambda>k. if ticket_key k = agg_ticket_id a then closed_ticket (ag_status a) k else k)
           (map tr_ticket (ks_tickets s))"
    "map row_ticket_id (ks_tickets s') = map row_ticket_id (ks_tickets s)"
  using assms
  by (auto simp: close_ticket_def tickets_mark_terminal_def closed_ticket_def update_where_def
      split: option.splits)

text \<open>The netting domains the Ticket rows hold.\<close>

definition domain_view :: "ticket_row \<Rightarrow> string \<times> netting_domain \<times> string option" where
  "domain_view r = (row_ticket_id r, row_domain r, tr_active_netting_domain_key r)"

lemma close_ticket_domains:
  assumes "close_ticket e a s = Inr s'"
  shows "map domain_view (ks_tickets s') = map (\<lambda>(i, d, k). (i, d,
      if i = agg_ticket_id a \<and> terminal_ticket_status (ag_status a) \<noteq> None then None else k))
      (map domain_view (ks_tickets s))"
  using assms
  by (auto simp: close_ticket_def tickets_mark_terminal_def domain_view_def update_where_def split: option.splits)

section \<open>One commit\<close>

lemma commit_reductionE:
  assumes "commit_reduction e (a, fx) v s = Inr s'"
  obtains s1 s2 s3 where "commit_aggregate e a v s = Inr s1" "event_sequence e = ag_last_event_sequence a"
    "event_ticket_id e = agg_ticket_id a" "events_append e s1 = Inr s2"
    "materialize_effects a (event_header_of e) fx s2 = Inr s3" "close_ticket e a s3 = Inr s'"
  using assms by (auto simp: commit_reduction_def split: if_splits)

lemma events_append_writes: "events_append e s = Inr s' \<Longrightarrow> s' = s\<lparr>ks_events := ks_events s @ [e]\<rparr>"
  by (auto simp: events_append_def)

lemma commit_later_writes:
  assumes "commit_aggregate e a v s = Inr s'" "v \<noteq> 0"
  shows "s' = s\<lparr>ks_aggregates := update_where (\<lambda>r. agg_ticket_id r = agg_ticket_id a \<and> ag_version r = v)
           (\<lambda>_. a) (ks_aggregates s)\<rparr>"
    and "\<exists>c. stored (agg_ticket_id a) s = Some c \<and> ag_version c = v"
  using assms by (auto simp: commit_aggregate_def aggregates_save_def stored_def split: if_splits option.splits)

lemma commit_first_writes:
  assumes "commit_aggregate e a 0 s = Inr s'"
  shows "s' = s\<lparr>ks_tickets := ks_tickets s @ [\<lparr>tr_ticket = ag_ticket a,
           tr_active_netting_domain_key = Some (netting_domain_key (ti_netting_domain (tk_identity (ag_ticket a)))),
           tr_terminal_at_ms = None\<rparr>],
         ks_aggregates := ks_aggregates s @ [a]\<rparr>"
    and "\<forall>r\<in>set (ks_tickets s). row_ticket_id r \<noteq> ticket_key (ag_ticket a)
           \<and> tr_active_netting_domain_key r
               \<noteq> Some (netting_domain_key (ti_netting_domain (tk_identity (ag_ticket a))))"
    and "\<forall>b\<in>set (ks_aggregates s). agg_ticket_id b \<noteq> agg_ticket_id a"
  using assms
  by (auto simp: commit_aggregate_def tickets_add_def aggregates_add_def Let_def
      split: if_splits trade_event.splits)

text \<open>The aggregate a commit leaves behind, and that no other Ticket is touched.\<close>

lemma commit_later:
  assumes "commit_reduction e (a, fx) v s = Inr s'" "v \<noteq> 0"
  shows "ks_events s' = ks_events s @ [e]" "ks_claims s' = ks_claims s"
    and "map row_ticket_id (ks_tickets s') = map row_ticket_id (ks_tickets s)"
    and "map agg_ticket_id (ks_aggregates s') = map agg_ticket_id (ks_aggregates s)"
    and "stored t s' = (if t = agg_ticket_id a
           then map_option (\<lambda>c. loaded_with (closed_ticket (ag_status a) (ag_ticket c)) a) (stored t s)
           else stored t s)"
proof -
  obtain s1 s2 s3 where c: "commit_aggregate e a v s = Inr s1" "events_append e s1 = Inr s2"
    "materialize_effects a (event_header_of e) fx s2 = Inr s3" "close_ticket e a s3 = Inr s'"
    using commit_reductionE[OF assms(1)] .
  note w = commit_later_writes[OF c(1) assms(2)] events_append_writes[OF c(2)]
    effects_spine[OF c(3), unfolded spine_def] close_ticket_writes[OF c(4)]
  show "ks_events s' = ks_events s @ [e]" "ks_claims s' = ks_claims s" using w by simp_all
  have tickets: "map tr_ticket (ks_tickets s3) = map tr_ticket (ks_tickets s)"
    and aggregates: "ks_aggregates s3 = ks_aggregates s1"
    using w by simp_all
  have "map ticket_key (map tr_ticket (ks_tickets s3)) = map ticket_key (map tr_ticket (ks_tickets s))"
    unfolding tickets ..
  then show "map row_ticket_id (ks_tickets s') = map row_ticket_id (ks_tickets s)"
    unfolding close_ticket_writes(10)[OF c(4)] by (simp add: comp_def)
  have aggs: "ks_aggregates s' = update_where (\<lambda>r. agg_ticket_id r = agg_ticket_id a \<and> ag_version r = v)
      (\<lambda>_. a) (ks_aggregates s)"
    unfolding close_ticket_writes(1)[OF c(4)] aggregates w(1) by simp
  show "map agg_ticket_id (ks_aggregates s') = map agg_ticket_id (ks_aggregates s)"
    unfolding aggs by (rule aggregate_table.update_keys) simp
  have agg: "List.find (\<lambda>b. agg_ticket_id b = t) (ks_aggregates s')
      = map_option (\<lambda>b. if agg_ticket_id b = agg_ticket_id a \<and> ag_version b = v then a else b)
          (List.find (\<lambda>b. agg_ticket_id b = t) (ks_aggregates s))" for t
    unfolding aggs by (rule aggregate_table.update_find) simp
  have tic: "tickets_get t s' = map_option (\<lambda>k. if ticket_key k = agg_ticket_id a
        then closed_ticket (ag_status a) k else k) (tickets_get t s)" for t
    unfolding tickets_get_map close_ticket_writes(9)[OF c(4)] tickets find_map[of _ "\<lambda>k. if ticket_key k = _ then _ k else k"]
    by (simp add: if_distrib[of tk_identity] cong: if_cong)
  show "stored t s' = (if t = agg_ticket_id a
           then map_option (\<lambda>c. loaded_with (closed_ticket (ag_status a) (ag_ticket c)) a) (stored t s)
           else stored t s)"
  proof (cases "t = agg_ticket_id a")
    case True
    obtain y k where y: "List.find (\<lambda>b. agg_ticket_id b = agg_ticket_id a) (ks_aggregates s) = Some y"
        "tickets_get (agg_ticket_id a) s = Some k" "ag_version y = v"
      using w(2) by (auto simp: stored_lookup bind_eq_Some_conv)
    moreover have "agg_ticket_id y = agg_ticket_id a" using find_Some_set[OF y(1)] by simp
    moreover have "ticket_key k = agg_ticket_id a"
      using y(2) find_Some_set unfolding tickets_get_map by fastforce
    ultimately show ?thesis using True unfolding stored_lookup agg tic by simp
  next
    case False
    then have "List.find (\<lambda>b. agg_ticket_id b = t) (ks_aggregates s') = List.find (\<lambda>b. agg_ticket_id b = t) (ks_aggregates s)"
      unfolding agg by (cases "List.find (\<lambda>b. agg_ticket_id b = t) (ks_aggregates s)") (auto dest!: find_Some_set)
    moreover have "tickets_get t s' = tickets_get t s"
      unfolding tic using False by (cases "tickets_get t s") (auto simp: tickets_get_map dest!: find_Some_set)
    ultimately show ?thesis using False by (simp add: stored_lookup)
  qed
qed

lemma commit_first:
  assumes "commit_reduction e (a, fx) 0 s = Inr s'" "ag_identity a = tk_identity (ag_ticket a)"
  shows "ks_events s' = ks_events s @ [e]" "ks_claims s' = ks_claims s"
    and "map row_ticket_id (ks_tickets s') = map row_ticket_id (ks_tickets s) @ [agg_ticket_id a]"
    and "map agg_ticket_id (ks_aggregates s') = map agg_ticket_id (ks_aggregates s) @ [agg_ticket_id a]"
    and "stored t s' = (if t = agg_ticket_id a
           then Some (loaded_with (closed_ticket (ag_status a) (ag_ticket a)) a) else stored t s)"
    and "agg_ticket_id a \<notin> set (map row_ticket_id (ks_tickets s))"
proof -
  obtain s1 s2 s3 where c: "commit_aggregate e a 0 s = Inr s1" "events_append e s1 = Inr s2"
    "materialize_effects a (event_header_of e) fx s2 = Inr s3" "close_ticket e a s3 = Inr s'"
    using commit_reductionE[OF assms(1)] .
  note w = commit_first_writes[OF c(1)] events_append_writes[OF c(2)]
    effects_spine[OF c(3), unfolded spine_def] close_ticket_writes[OF c(4)]
  show "agg_ticket_id a \<notin> set (map row_ticket_id (ks_tickets s))" using w(2) assms(2) by auto
  show "ks_events s' = ks_events s @ [e]" "ks_claims s' = ks_claims s" using w by simp_all
  have tickets: "map tr_ticket (ks_tickets s3) = map tr_ticket (ks_tickets s) @ [ag_ticket a]"
    and aggs: "ks_aggregates s' = ks_aggregates s @ [a]"
    using w by simp_all
  have "map ticket_key (map tr_ticket (ks_tickets s3)) = map ticket_key (map tr_ticket (ks_tickets s)) @ [agg_ticket_id a]"
    unfolding tickets using assms(2) by simp
  then show "map row_ticket_id (ks_tickets s') = map row_ticket_id (ks_tickets s) @ [agg_ticket_id a]"
    unfolding close_ticket_writes(10)[OF c(4)] by (simp add: comp_def)
  show "map agg_ticket_id (ks_aggregates s') = map agg_ticket_id (ks_aggregates s) @ [agg_ticket_id a]"
    unfolding aggs by simp
  let ?close = "\<lambda>k. if ticket_key k = agg_ticket_id a then closed_ticket (ag_status a) k else k"
  have tic: "tickets_get t s' = map_option ?close (List.find (\<lambda>k. ticket_key k = t) (map tr_ticket (ks_tickets s3)))" for t
    unfolding tickets_get_map close_ticket_writes(9)[OF c(4)] find_map[of _ ?close]
    by (simp add: if_distrib[of tk_identity] cong: if_cong)
  show "stored t s' = (if t = agg_ticket_id a
           then Some (loaded_with (closed_ticket (ag_status a) (ag_ticket a)) a) else stored t s)"
  proof (cases "t = agg_ticket_id a")
    case True
    then have "List.find (\<lambda>k. ticket_key k = t) (map tr_ticket (ks_tickets s)) = None"
      "List.find (\<lambda>b. agg_ticket_id b = t) (ks_aggregates s) = None"
      using w(2,3) assms(2) by (auto simp: find_None)
    then show ?thesis
      using True assms(2) unfolding stored_lookup tic tickets aggs by (simp add: find_append)
  next
    case False
    then have "tickets_get t s' = tickets_get t s"
      using assms(2) unfolding tic tickets tickets_get_map[of t s]
      by (cases "List.find (\<lambda>k. ticket_key k = t) (map tr_ticket (ks_tickets s))")
        (auto simp: find_append dest: find_Some_set)
    then show ?thesis using False unfolding stored_lookup aggs by (simp add: find_append split: option.split)
  qed
qed

section \<open>The transition system\<close>

text \<open>Transactions of the workers, monitors and incident services around the lifecycle.\<close>

inductive worker_step :: "kernel_store \<Rightarrow> kernel_store \<Rightarrow> bool" where
  claim: "commands_claim_one_prepared worker now lease t kinds s = (s', c) \<Longrightarrow> worker_step s s'"
| result: "valid_command_result r \<Longrightarrow> commands_record_result i worker r s = Inr s' \<Longrightarrow> worker_step s s'"
| leverage_result: "valid_set_leverage_result l \<Longrightarrow> commands_record_leverage_result i worker l s = Inr s' \<Longrightarrow> worker_step s s'"
| claimed_superseded: "commands_mark_claimed_superseded i worker now reason s = Inr s' \<Longrightarrow> worker_step s s'"
| prepared_superseded: "commands_mark_prepared_superseded i now reason s = Inr s' \<Longrightarrow> worker_step s s'"
| expired: "valid_command_result r \<Longrightarrow> commands_record_expired_claim_unknown i r s = Inr s' \<Longrightarrow> worker_step s s'"
| submitted: "commands_reconcile_unknown_submitted i order_id now s = Inr s' \<Longrightarrow> worker_step s s'"
| leverage_confirmed: "valid_set_leverage_result l \<Longrightarrow> commands_reconcile_unknown_leverage_confirmed i l s = Inr s' \<Longrightarrow> worker_step s s'"
| absent: "commands_reconcile_unknown_absent i now reason s = Inr s' \<Longrightarrow> worker_step s s'"
| monitor: "worker_step s (monitors_save_if_changed m s)"
| incident_opened: "incidents_add j s = Inr s' \<Longrightarrow> worker_step s s'"
| incident_resolved: "worker_step s (incidents_resolve k now s)"

inductive kernel_step :: "kernel_store \<Rightarrow> kernel_store \<Rightarrow> bool" where
  issue: "mk_issue_request q = Inr q' \<Longrightarrow> issue_ticket_request A q' s = Inr (s', status) \<Longrightarrow> kernel_step s s'"
| commit: "aggregates_get t s = Inr (Some a) \<Longrightarrow> valid_event e \<Longrightarrow> reduce_event (Some a) e = Inr r
    \<Longrightarrow> commit_reduction e r (ag_version a) s = Inr s' \<Longrightarrow> kernel_step s s'"
| worker: "worker_step s s' \<Longrightarrow> kernel_step s s'"

inductive reachable_store :: "kernel_store \<Rightarrow> bool" where
  start: "reachable_store empty_store"
| step: "reachable_store s \<Longrightarrow> kernel_step s s' \<Longrightarrow> reachable_store s'"

lemma worker_quiet: "worker_step s s' \<Longrightarrow> quiet s s'"
proof (induction rule: worker_step.induct)
  case (monitor s m)
  then show ?case by (rule quiet_monitors)
next
  case (incident_opened j s s')
  then show ?case by (rule quiet_incidents)
next
  case (incident_resolved s k now)
  then show ?case by (rule quiet_incidents)
qed (auto simp: quiet_def commands_claim_one_prepared_def commands_record_result_def commands_record_leverage_result_def
    commands_mark_claimed_superseded_def commands_mark_prepared_superseded_def commands_record_expired_claim_unknown_def
    commands_reconcile_unknown_submitted_def commands_reconcile_unknown_leverage_confirmed_def
    commands_reconcile_unknown_absent_def update_command_def Let_def split: option.splits if_splits)

section \<open>Issuing\<close>

text \<open>A request is refused with nothing written but the lane row, or passes every check and writes.\<close>

lemma refusals_not_issued:
  "policy_refusal A c k n \<noteq> Some ISSUED" "registry_refusal A c k \<noteq> Some ISSUED"
  "capacity_refusal A c k s \<noteq> Inr (Some ISSUED)"
proof -
  have sel: "selection_issue_status d \<noteq> ISSUED" for d by (cases d) simp_all
  then have "selection_refusal A c k \<noteq> Some ISSUED"
    by (auto simp: selection_refusal_def split: option.splits)
  then show "registry_refusal A c k \<noteq> Some ISSUED"
    by (auto simp: registry_refusal_def split: option.splits)
  show "policy_refusal A c k n \<noteq> Some ISSUED" by (simp add: policy_refusal_def split: option.split)
  show "capacity_refusal A c k s \<noteq> Inr (Some ISSUED)" by (auto simp: capacity_refusal_def Let_def split: if_splits)
qed

lemma issue_ticket_cases:
  assumes "issue_ticket_request A q s = Inr (s', status)"
  obtains (refused) ticket where "to_ticket (iq_capacity_claim q) = Inr ticket" "status \<noteq> ISSUED"
      "s' = fst (lock_global_lane s)"
  | (issued) ticket where "to_ticket (iq_capacity_claim q) = Inr ticket" "status = ISSUED"
      "ln_status (snd (lock_global_lane s)) = ''idle''"
      "policy_refusal A (iq_capacity_claim q) ticket (iq_now_ms q) = None"
      "registry_refusal A (iq_capacity_claim q) ticket = None"
      "capacity_refusal A (iq_capacity_claim q) ticket (fst (lock_global_lane s)) = Inr None"
      "reserve_and_issue (iq_capacity_claim q) ticket (iq_now_ms q) (iq_claim_owner q)
         (snd (lock_global_lane s)) (fst (lock_global_lane s)) = Inr s'"
proof -
  obtain s0 lane where l: "lock_global_lane s = (s0, lane)" by (cases "lock_global_lane s")
  obtain k where k: "to_ticket (iq_capacity_claim q) = Inr k"
    using assms by (auto simp: issue_ticket_request_def Let_def)
  let ?c = "iq_capacity_claim q"
  note d = assms[unfolded issue_ticket_request_def Let_def k l]
  have no: thesis if "s' = s0" "status \<noteq> ISSUED" using refused[OF k] that l by simp
  show thesis
  proof (cases "ln_status lane = ''idle''")
    case idle: True
    show thesis
    proof (cases "policy_refusal A ?c k (iq_now_ms q)")
      case p: None
      show thesis
      proof (cases "registry_refusal A ?c k")
        case r: None
        obtain x where x: "capacity_refusal A ?c k s0 = Inr x" using d idle p r by auto
        show thesis
        proof (cases x)
          case None
          then show thesis using d issued[OF k] l idle p r x by simp
        next
          case (Some st)
          then show thesis using d no idle p r x refusals_not_issued(3) by fastforce
        qed
      next
        case (Some st)
        then show thesis using d no idle p refusals_not_issued(2) by fastforce
      qed
    next
      case (Some st)
      then show thesis using d no idle refusals_not_issued(1) by fastforce
    qed
  next
    case False
    then show thesis using d no by simp
  qed
qed

lemma reserve_and_issueE:
  assumes "reserve_and_issue claim ticket now owner lane s = Inr s'"
  obtains s3 where
    "reserve_account_exposure (nd_venue_id (ti_netting_domain (tk_identity ticket)))
       (nd_account_id (ti_netting_domain (tk_identity ticket))) (tk_notional ticket) (tk_risk_at_stop ticket)
       (tk_reserved_margin ticket) (map_option ex_projection_version (get_account_exposure
          (nd_venue_id (ti_netting_domain (tk_identity ticket)))
          (nd_account_id (ti_netting_domain (tk_identity ticket))) s)) now
       (s\<lparr>ks_claims := ks_claims s @ [claim], ks_budgets := ks_budgets s @ [issue_budget ticket now]\<rparr>) = Inr s3"
    "\<forall>b\<in>set (ks_budgets s). br_ticket_id b \<noteq> ticket_key ticket"
    "ks_lane s3 \<noteq> None"
    "commit_reduction (issue_event ticket now)
       (new_aggregate ticket (if tk_leverage_change_required ticket then LEVERAGE_PENDING else ENTRY_PENDING) 1 1,
        [if tk_leverage_change_required ticket then PrepareSetLeverageCommand ticket
         else PrepareEntryCommand ticket None]) 0
       (s3\<lparr>ks_lane := Some \<lparr>ln_ticket_id = Some (ticket_key ticket),
          ln_signal_event_id = Some (ti_signal_event_id (tk_identity ticket)), ln_status = ''claimed'',
          ln_claimed_at_ms = Some now, ln_lease_until_ms = Some (tk_expires_at_ms ticket),
          ln_claim_owner = Some owner, ln_version = ln_version lane + 1\<rparr>\<rparr>) = Inr s'"
  using assms
  by (auto simp: reserve_and_issue_def Let_def capacity_claims_add_def budgets_add_def issue_budget_def
      claim_global_lane_def issue_event_def reduce_event_def split: option.splits if_splits)

lemma issue_event_sel [simp]:
  "event_ticket_id (issue_event k n) = ticket_key k" "event_sequence (issue_event k n) = 1"
  by (simp_all add: issue_event_def event_sequence_def)

lemma valid_issue_event: "valid_ticket k \<Longrightarrow> 0 < n \<Longrightarrow> valid_event (issue_event k n)"
proof -
  have "show_int 1 = ''1''" by code_simp
  then have "normal_id (event_id_for t 1)" for t
    unfolding event_id_for_def normal_id_def by (auto intro!: py_strip_id simp: py_isspace_def)
  then show "valid_ticket k \<Longrightarrow> 0 < n \<Longrightarrow> valid_event (issue_event k n)"
    by (simp add: issue_event_def valid_header_def)
qed

end
