(* ===== verification/Stored_Lifecycles.thy ===== *)
theory Stored_Lifecycles
  imports Kernel_System
begin

text \<open>
  Every reachable store is event sourced: each stored aggregate is the replay of the stored events of its
  Ticket, up to the status that closing writes into the Ticket row. The locale \<open>store_invariant\<close> carries
  further predicates over reachable stores; this theory interprets it for the log itself and for the ENTRY lane.
\<close>

section \<open>Event sourcing\<close>

definition log_of :: "string \<Rightarrow> kernel_store \<Rightarrow> trade_event list" where
  "log_of t s = filter (\<lambda>e. event_ticket_id e = t) (ks_events s)"

text \<open>The loaded form of an aggregate: its Ticket carries the status of a closed Ticket row.\<close>

definition as_stored :: "trade_aggregate \<Rightarrow> trade_aggregate" where
  "as_stored b = loaded_with (closed_ticket (ag_status b) (ag_ticket b)) b"

definition log_ok :: "kernel_store \<Rightarrow> bool" where
  "log_ok s \<longleftrightarrow> distinct (map row_ticket_id (ks_tickets s))
     \<and> map agg_ticket_id (ks_aggregates s) = map row_ticket_id (ks_tickets s)
     \<and> (\<forall>e\<in>set (ks_events s). event_ticket_id e \<in> set (map row_ticket_id (ks_tickets s)))
     \<and> (\<forall>t a. stored t s = Some a \<longrightarrow> (\<exists>b fx. history b (log_of t s) fx \<and> a = as_stored b))"

lemma log_ok_events:
  "log_ok s \<Longrightarrow> e \<in> set (ks_events s) \<Longrightarrow> event_ticket_id e \<in> set (map row_ticket_id (ks_tickets s))"
  by (simp add: log_ok_def)

lemma as_stored_open:
  assumes "terminal_ticket_status (ag_status b) = None" "ag_identity b = tk_identity (ag_ticket b)"
  shows "as_stored b = b"
  using assms by (simp add: as_stored_def closed_ticket_def loaded_with_def)

text \<open>A closed Ticket accepts a revised review only, and the status of its row plays no part.\<close>

lemma closed_step:
  assumes "reduce_fact (loaded_with k b) h f = Inr (a', fx)" "terminal_ticket_status (ag_status b) \<noteq> None"
    "tk_identity k = ag_identity b"
  shows "\<exists>b'. reduce_fact b h f = Inr (b', fx) \<and> a' = loaded_with k b' \<and> ag_status b' = TERMINAL
    \<and> ag_status b = TERMINAL"
  using assms by (cases f)
    (auto simp: step_simps loaded_with_def terminal_ticket_status_def split: step_splits)

lemma as_stored_step:
  assumes "reduce_event (Some (as_stored b)) e = Inr (a', fx)" "ag_identity b = tk_identity (ag_ticket b)"
  shows "\<exists>b'. reduce_event (Some b) e = Inr (b', fx)
    \<and> loaded_with (closed_ticket (ag_status a') (ag_ticket (as_stored b))) a' = as_stored b'"
proof (cases "terminal_ticket_status (ag_status b)")
  case None
  have "reduce_event (Some b) e = Inr (a', fx)" using assms(1) as_stored_open[OF None assms(2)] by simp
  moreover have "ag_ticket a' = ag_ticket b"
    using reduce_fact_frame calculation by (auto simp: reduce_event_Some_iff)
  ultimately show ?thesis using as_stored_open[OF None assms(2)] by (auto simp: as_stored_def)
next
  case (Some st)
  let ?k = "closed_ticket (ag_status b) (ag_ticket b)"
  obtain h f where e: "e = TicketEvent h (agg_ticket_id b) f" "eh_sequence h = ag_last_event_sequence b + 1"
      "reduce_fact (loaded_with ?k b) h f = Inr (a', fx)"
    using assms by (auto simp: reduce_event_Some_iff as_stored_def)
  then obtain b' where b': "reduce_fact b h f = Inr (b', fx)" "a' = loaded_with ?k b'" "ag_status b' = TERMINAL"
      "ag_status b = TERMINAL"
    using closed_step[OF e(3)] Some assms(2) by auto
  moreover have "ag_ticket b' = ag_ticket b" using reduce_fact_frame[OF b'(1)] by simp
  ultimately show ?thesis
    using e(1,2) assms(2)
    by (auto simp: reduce_event_Some_iff as_stored_def closed_ticket_def loaded_with_def terminal_ticket_status_def)
qed

lemma reduce_event_ids:
  assumes "reduce_event (Some a) e = Inr (a', fx)"
  shows "agg_ticket_id a' = agg_ticket_id a" "event_ticket_id e = agg_ticket_id a"
  using assms reduce_fact_frame by (auto simp: reduce_event_Some_iff)

lemma log_ok_facts:
  assumes "log_ok s" "stored t s = Some a"
  obtains b fx where "history b (log_of t s) fx" "a = as_stored b" "ag_identity b = tk_identity (ag_ticket b)"
    "ag_version a = int (length (log_of t s))" "log_of t s \<noteq> []" "agg_ticket_id a = t"
proof -
  obtain b fx where b: "history b (log_of t s) fx" "a = as_stored b" using assms unfolding log_ok_def by blast
  moreover have "log_of t s \<noteq> []" using b(1) by (auto elim: history_Nil)
  ultimately show thesis using that history_log[OF b(1)] stored_key[OF assms(2)] by (simp add: as_stored_def)
qed

lemma log_ok_commit:
  assumes "log_ok s" "stored t s = Some a" "valid_event e" "reduce_event (Some a) e = Inr (a', fx)"
    "commit_reduction e (a', fx) (ag_version a) s = Inr s'"
  shows "log_ok s'"
proof -
  obtain b gx where b: "history b (log_of t s) gx" "a = as_stored b" "ag_identity b = tk_identity (ag_ticket b)"
      "ag_version a = int (length (log_of t s))" "log_of t s \<noteq> []" "agg_ticket_id a = t"
    using log_ok_facts[OF assms(1,2)] .
  have v: "ag_version a \<noteq> 0" using b(4,5) by simp
  note c = commit_later[OF assms(5) v] and i = reduce_event_ids[OF assms(4)]
  obtain b' where b': "reduce_event (Some b) e = Inr (b', fx)"
      "loaded_with (closed_ticket (ag_status a') (ag_ticket a)) a' = as_stored b'"
    using as_stored_step assms(4) b(2,3) by blast
  have log: "log_of u s' = (if u = t then log_of u s @ [e] else log_of u s)" for u
    unfolding log_of_def c(1) using i b(6) by simp
  have "\<exists>b fx. history b (log_of u s') fx \<and> x = as_stored b" if x: "stored u s' = Some x" for u x
  proof (cases "u = t")
    case True
    then have "x = as_stored b'" using x c(5)[of u] i b(6) assms(2) b'(2) by simp
    moreover have "history b' (log_of u s') (gx @ fx)"
      unfolding log using True history.step[OF b(1) assms(3) b'(1)] by simp
    ultimately show ?thesis by blast
  next
    case False
    then show ?thesis using x c(5)[of u] i b(6) assms(1) log by (simp add: log_ok_def)
  qed
  moreover have "\<forall>x\<in>set (ks_events s'). event_ticket_id x \<in> set (map row_ticket_id (ks_tickets s'))"
    using assms(1) stored_row[OF assms(2)] i b(6) unfolding c(1,3) log_ok_def by auto
  ultimately show ?thesis
    using assms(1) unfolding log_ok_def c(3,4) by blast
qed

text \<open>Issuing a Ticket starts a new history.\<close>

lemma reserve_writes:
  "reserve_account_exposure v c x y z w n s = Inr s' \<Longrightarrow> \<exists>rows. s' = s\<lparr>ks_exposures := rows\<rparr>"
  by (auto simp: reserve_account_exposure_def split: option.splits)

lemma log_ok_issue:
  assumes "log_ok s" "valid_ticket k" "0 < now" "reserve_and_issue claim k now owner lane s = Inr s'"
  shows "log_ok s'"
proof -
  let ?e = "issue_event k now" and ?st = "if tk_leverage_change_required k then LEVERAGE_PENDING else ENTRY_PENDING"
  let ?a = "new_aggregate k ?st 1 1" and ?fx = "[if tk_leverage_change_required k then PrepareSetLeverageCommand k
         else PrepareEntryCommand k None]"
  obtain s3 lane' where s3: "\<exists>rows. s3 = s\<lparr>ks_claims := ks_claims s @ [claim], ks_budgets := ks_budgets s @ [issue_budget k now],
       ks_exposures := rows\<rparr>" and c: "commit_reduction ?e (?a, ?fx) 0 (s3\<lparr>ks_lane := Some lane'\<rparr>) = Inr s'"
    using reserve_and_issueE[OF assms(4)] reserve_writes by metis
  let ?s = "s3\<lparr>ks_lane := Some lane'\<rparr>"
  note c = commit_first[OF c, unfolded new_aggregate_sel, OF refl]
  have same: "ks_events ?s = ks_events s" "map row_ticket_id (ks_tickets ?s) = map row_ticket_id (ks_tickets s)"
    "map agg_ticket_id (ks_aggregates ?s) = map agg_ticket_id (ks_aggregates s)" "stored t ?s = stored t s" for t
    using s3 by (auto intro: stored_cong)
  have new: "ticket_key k \<notin> set (map row_ticket_id (ks_tickets s))" using c(6) unfolding same(2) .
  have log: "log_of u s' = (if u = ticket_key k then [?e] else log_of u s)" for u
  proof -
    have "\<forall>x\<in>set (ks_events s). event_ticket_id x \<noteq> ticket_key k"
      using new log_ok_events[OF assms(1)] by metis
    then show ?thesis using c(1) same(1) by (auto simp: log_of_def filter_empty_conv)
  qed
  have "history ?a [?e] ?fx"
    using valid_issue_event[OF assms(2,3)]
    by (intro history.issued) (simp_all add: reduce_event_def issue_event_def)
  moreover have "stored u s' = (if u = ticket_key k then Some (as_stored ?a) else stored u s)" for u
    unfolding c(5)[of u] same(4) by (simp add: as_stored_def)
  ultimately have "\<exists>b fx. history b (log_of u s') fx \<and> x = as_stored b" if "stored u s' = Some x" for u x
    using that assms(1) unfolding log log_ok_def by (auto split: if_splits)
  moreover have "\<forall>x\<in>set (ks_events s'). event_ticket_id x \<in> set (map row_ticket_id (ks_tickets s'))"
    using log_ok_events[OF assms(1)] unfolding c(1,3) same by auto
  moreover have "distinct (map row_ticket_id (ks_tickets s'))"
      "map agg_ticket_id (ks_aggregates s') = map row_ticket_id (ks_tickets s')"
    using assms(1) new unfolding c(3,4) same log_ok_def by simp_all
  ultimately show ?thesis unfolding log_ok_def by blast
qed

lemma log_ok_frame:
  assumes "log_ok s" "ks_tickets s' = ks_tickets s" "ks_aggregates s' = ks_aggregates s" "ks_events s' = ks_events s"
  shows "log_ok s'"
  using assms stored_cong[of s' s] by (simp add: log_ok_def log_of_def)

lemma lock_global_lane_writes:
  "fst (lock_global_lane s) = s\<lparr>ks_lane := Some (snd (lock_global_lane s))\<rparr>"
  by (auto simp: lock_global_lane_def split: option.split)

lemma request_ticket_valid:
  assumes "mk_issue_request q = Inr q'" "to_ticket (iq_capacity_claim q') = Inr k"
  shows "valid_claim (iq_capacity_claim q')" "valid_ticket k" "0 < iq_now_ms q'"
proof -
  show c: "valid_claim (iq_capacity_claim q')"
    using assms(1) mk_capacity_claim_valid by (auto simp: mk_issue_request_def split: if_splits)
  show "valid_ticket k" using assms(2) to_ticket_iff[OF c] claim_ticket_valid[OF c] by auto
  show "0 < iq_now_ms q'" using assms(1) by (auto simp: mk_issue_request_def split: if_splits)
qed

section \<open>Invariants of the store\<close>

text \<open>
  The proof obligations of a predicate that every transaction keeps, each of which may rely on the event log;
  with the empty store it becomes an invariant of the reachable stores.
\<close>

locale store_step_invariant =
  fixes inv :: "kernel_store \<Rightarrow> bool"
  assumes inv_lane: "inv s \<Longrightarrow> log_ok s \<Longrightarrow> inv (s\<lparr>ks_lane := Some (snd (lock_global_lane s))\<rparr>)"
    and inv_worker: "inv s \<Longrightarrow> log_ok s \<Longrightarrow> worker_step s s' \<Longrightarrow> inv s'"
    and inv_issue: "inv s \<Longrightarrow> log_ok s \<Longrightarrow> ks_lane s = Some lane \<Longrightarrow> ln_status lane = ''idle'' \<Longrightarrow> valid_claim claim
      \<Longrightarrow> to_ticket claim = Inr k \<Longrightarrow> valid_ticket k \<Longrightarrow> 0 < now
      \<Longrightarrow> reserve_and_issue claim k now owner lane s = Inr s' \<Longrightarrow> inv s'"
    and inv_commit: "inv s \<Longrightarrow> log_ok s \<Longrightarrow> stored t s = Some a \<Longrightarrow> valid_event e \<Longrightarrow> reduce_event (Some a) e = Inr (a', fx)
      \<Longrightarrow> commit_reduction e (a', fx) (ag_version a) s = Inr s' \<Longrightarrow> inv s'"
begin

lemma step_inv:
  assumes "inv s" "log_ok s" "kernel_step s s'"
  shows "inv s'"
  using assms(3)
proof cases
  case (issue q q' A status)
  from issue(2) show ?thesis
  proof (cases rule: issue_ticket_cases)
    case (refused k)
    then show ?thesis using inv_lane[OF assms(1,2)] lock_global_lane_writes by metis
  next
    case (issued k)
    have i: "inv (fst (lock_global_lane s))" and l: "log_ok (fst (lock_global_lane s))"
      unfolding lock_global_lane_writes using inv_lane[OF assms(1,2)] log_ok_frame[OF assms(2)] by simp_all
    have lane: "ks_lane (fst (lock_global_lane s)) = Some (snd (lock_global_lane s))"
      unfolding lock_global_lane_writes by simp
    note v = request_ticket_valid[OF issue(1) issued(1)]
    show ?thesis by (rule inv_issue[OF i l lane issued(3) v(1) issued(1) v(2,3) issued(7)])
  qed
next
  case (commit t a e r)
  then show ?thesis
    using inv_commit[OF assms(1,2), of t a e "fst r" "snd r"] by (simp add: stored_def)
next
  case worker
  then show ?thesis using inv_worker[OF assms(1,2)] by blast
qed

end

locale store_invariant = store_step_invariant +
  assumes inv_start: "inv empty_store"

interpretation log: store_invariant log_ok
proof
  show "log_ok empty_store"
    by (simp add: log_ok_def empty_store_def stored_lookup)
next
  fix s s' assume "log_ok s" "worker_step s s'"
  then show "log_ok s'" using worker_quiet[of s s'] by (auto intro: log_ok_frame[of s] simp: quiet_def)
next
  fix s assume "log_ok s"
  then show "log_ok (s\<lparr>ks_lane := Some (snd (lock_global_lane s))\<rparr>)" by (rule log_ok_frame) simp_all
qed (blast intro: log_ok_commit log_ok_issue)+

lemma reachable_log: "reachable_store s \<Longrightarrow> log_ok s"
  by (induction rule: reachable_store.induct) (auto intro: log.inv_start log.step_inv)

context store_invariant
begin

lemma reachable_inv: "reachable_store s \<Longrightarrow> inv s"
  by (induction rule: reachable_store.induct) (auto intro: inv_start step_inv reachable_log)

end

section \<open>What a commit does\<close>

text \<open>
  A commit in terms of the history behind the loaded aggregate: the reducer takes the replayed aggregate \<open>b\<close> to
  \<open>b'\<close>, which is what the Ticket loads as afterwards; no other Ticket changes.
\<close>

lemma commit_step:
  assumes "log_ok s" "stored t s = Some a" "valid_event e" "reduce_event (Some a) e = Inr (a', fx)"
    "commit_reduction e (a', fx) (ag_version a) s = Inr s'"
  obtains b b' h f gx where "a = as_stored b" "history b (log_of t s) gx" "lifecycle_ok b" "valid_ticket (ag_ticket b)"
    "ag_identity b = tk_identity (ag_ticket b)" "agg_ticket_id b = t" "e = TicketEvent h t f"
    "valid_fact (eh_occurred_at_ms h) f" "reduce_fact b h f = Inr (b', fx)"
    "\<And>u. stored u s' = (if u = t then Some (as_stored b') else stored u s)" "agg_ticket_id a' = t"
    "ag_status a' = ag_status b'" "tk_identity (ag_ticket a') = ag_identity b"
    "list_all (\<lambda>x. effect_ticket x = t) fx"
proof -
  obtain b gx where b: "history b (log_of t s) gx" "a = as_stored b" "ag_identity b = tk_identity (ag_ticket b)"
      "ag_version a = int (length (log_of t s))" "log_of t s \<noteq> []" "agg_ticket_id a = t"
    using log_ok_facts[OF assms(1,2)] .
  obtain b' where b': "reduce_event (Some b) e = Inr (b', fx)"
      "loaded_with (closed_ticket (ag_status a') (ag_ticket a)) a' = as_stored b'"
    using as_stored_step assms(4) b(2,3) by blast
  note i = reduce_event_ids[OF assms(4)] lc.history_inv[OF b(1)]
  have bt: "agg_ticket_id b = t" using b(2,3,6) by (simp add: as_stored_def)
  obtain h f where f: "e = TicketEvent h t f" "reduce_fact b h f = Inr (b', fx)"
    using b'(1) bt by (auto simp: reduce_event_Some_iff)
  have "ag_version a \<noteq> 0" using b(4,5) by simp
  then have "stored u s' = (if u = t then Some (as_stored b') else stored u s)" for u
    using commit_later(5)[OF assms(5), of u] i(1) b(6) assms(2) b'(2) by simp
  moreover have "ag_status a' = ag_status b'"
    using arg_cong[OF b'(2), of ag_status] by (simp add: as_stored_def)
  moreover have "tk_identity (ag_ticket a') = ag_identity b"
    using assms(4) b(2,3) by (auto simp: reduce_event_Some_iff as_stored_def dest: reduce_fact_frame)
  moreover have "list_all (\<lambda>x. effect_ticket x = t) fx"
    using reduce_fact_own_effects[OF f(2)] b(3) bt by simp
  ultimately show thesis using that b bt f i assms(3) by auto
qed

text \<open>The stages of a commit and what each leaves alone.\<close>

lemma commit_stages:
  assumes "commit_reduction e (a', fx) v s = Inr s'" "v \<noteq> 0"
  obtains s2 s3 where "materialize_effects a' (event_header_of e) fx s2 = Inr s3" "close_ticket e a' s3 = Inr s'"
    "ks_lane s2 = ks_lane s" "ks_lane s' = ks_lane s3" "ks_tickets s2 = ks_tickets s" "ks_budgets s2 = ks_budgets s"
    "ks_budgets s' = ks_budgets s3" "ks_exposures s2 = ks_exposures s" "ks_exposures s' = ks_exposures s3"
    "ks_commands s2 = ks_commands s" "ks_commands s' = ks_commands s3"
    "ks_incidents s2 = ks_incidents s" "ks_incidents s' = ks_incidents s3"
proof -
  obtain s1 s2 s3 where c: "commit_aggregate e a' v s = Inr s1" "events_append e s1 = Inr s2"
    "materialize_effects a' (event_header_of e) fx s2 = Inr s3" "close_ticket e a' s3 = Inr s'"
    using commit_reductionE[OF assms(1)] .
  have "s2 = s1\<lparr>ks_events := ks_events s1 @ [e]\<rparr>" "\<exists>x. s1 = s\<lparr>ks_aggregates := x\<rparr>"
    using events_append_writes[OF c(2)] commit_later_writes(1)[OF c(1) assms(2)] by auto
  then show thesis using that[OF c(3,4)] close_ticket_writes[OF c(4)] by auto
qed

section \<open>The ENTRY lane\<close>

definition holders :: "kernel_store \<Rightarrow> string set" where
  "holders s = {t. \<exists>a. stored t s = Some a \<and> ag_entry_lane_held a}"

definition lane_owner :: "lane_row option \<Rightarrow> string set" where
  "lane_owner lane = (case lane of None \<Rightarrow> {} | Some l \<Rightarrow> if ln_status l = ''claimed'' then set_option (ln_ticket_id l) else {})"

definition lane_ok :: "kernel_store \<Rightarrow> bool" where
  "lane_ok s \<longleftrightarrow> holders s = lane_owner (ks_lane s)
     \<and> (case ks_lane s of None \<Rightarrow> True
        | Some l \<Rightarrow> ln_status l = ''idle'' \<or> (ln_status l = ''claimed'' \<and> ln_ticket_id l \<noteq> None))"

lemma as_stored_held [simp]: "ag_entry_lane_held (as_stored b) = ag_entry_lane_held b"
  by (simp add: as_stored_def)

lemma lane_ok_commit:
  assumes "lane_ok s" "log_ok s" "stored t s = Some a" "valid_event e" "reduce_event (Some a) e = Inr (a', fx)"
    "commit_reduction e (a', fx) (ag_version a) s = Inr s'"
  shows "lane_ok s'"
proof -
  obtain b b' h f gx where b: "a = as_stored b" "history b (log_of t s) gx" "lifecycle_ok b"
      "valid_ticket (ag_ticket b)" "reduce_fact b h f = Inr (b', fx)"
      "\<And>u. stored u s' = (if u = t then Some (as_stored b') else stored u s)" "list_all (\<lambda>x. effect_ticket x = t) fx"
    using commit_step[OF assms(2-6)] by metis
  have v: "ag_version a \<noteq> 0" using log_ok_facts[OF assms(2,3)] by (metis length_0_conv of_nat_eq_0_iff)
  obtain s2 s3 where c: "materialize_effects a' (event_header_of e) fx s2 = Inr s3"
      "ks_lane s2 = ks_lane s" "ks_lane s' = ks_lane s3"
    using commit_stages[OF assms(6) v] .
  have charge: "lane_charge b' = lane_charge b + effect_count is_release_lane fx" by (rule lane_charge_step[OF b(3,5)])
  have holders: "holders s' = (if ag_entry_lane_held b' then insert t (holders s) else holders s - {t})"
    unfolding holders_def b(6) by (auto split: if_splits)
  show ?thesis
  proof (cases "effect_count is_release_lane fx = 0")
    case True
    then have "ag_entry_lane_held b' = ag_entry_lane_held b" using charge by (auto simp: lane_charge_def split: if_splits)
    moreover have "t \<in> holders s \<longleftrightarrow> ag_entry_lane_held b" using assms(3) b(1) by (simp add: holders_def)
    ultimately have "holders s' = holders s" unfolding holders by auto
    moreover have "ks_lane s' = ks_lane s" using lane_view.effects_still[OF c(1) True] c(2,3) by simp
    ultimately show ?thesis using assms(1) by (simp add: lane_ok_def)
  next
    case False
    then have one: "effect_count is_release_lane fx = 1" "\<not> ag_entry_lane_held b'"
      using charge by (auto simp: lane_charge_def split: if_splits)
    obtain x s4 s5 where x: "x \<in> set fx" "is_release_lane x" "ks_lane s4 = ks_lane s2"
        "materialize_effect a' (event_header_of e) x s4 = Inr s5" "ks_lane s3 = ks_lane s5"
      using lane_view.effects_once[OF c(1) one(1)] .
    have "x = ReleaseEntryLane t" using x(1) release_lane_form[OF x(2)] b(7) by (simp add: list_all_iff)
    then have "release_global_lane t s4 = Inr s5" using x(4) by simp
    from release_lane_writes[OF this] obtain l where "ks_lane s4 = Some l" "ln_ticket_id l = Some t"
        "ln_status l = ''claimed''" "ks_lane s5 = Some (idle_lane\<lparr>ln_version := ln_version l + 1\<rparr>)" by auto
    then have l: "ks_lane s = Some l" "ln_ticket_id l = Some t" "ln_status l = ''claimed''"
        "ks_lane s' = Some (idle_lane\<lparr>ln_version := ln_version l + 1\<rparr>)"
      using x(3,5) c(2,3) by simp_all
    have "holders s = {t}" using assms(1) l(1-3) by (simp add: lane_ok_def lane_owner_def)
    then have "holders s' = {}" unfolding holders using one(2) by simp
    then show ?thesis using l(4) by (simp add: lane_ok_def lane_owner_def idle_lane_def)
  qed
qed

text \<open>The stages of issuing: reservations, then the first commit, whose effect only prepares a command.\<close>

lemma issue_stages:
  assumes "reserve_and_issue claim k now owner lane s = Inr s'"
  obtains rows where "ks_exposures s' = rows"
    "reserve_account_exposure (nd_venue_id (ti_netting_domain (tk_identity k)))
       (nd_account_id (ti_netting_domain (tk_identity k))) (tk_notional k) (tk_risk_at_stop k)
       (tk_reserved_margin k) (map_option ex_projection_version (get_account_exposure
          (nd_venue_id (ti_netting_domain (tk_identity k))) (nd_account_id (ti_netting_domain (tk_identity k))) s)) now
       s = Inr (s\<lparr>ks_exposures := rows\<rparr>)"
    "ks_budgets s' = ks_budgets s @ [issue_budget k now]" "\<forall>b\<in>set (ks_budgets s). br_ticket_id b \<noteq> ticket_key k"
    "ks_tickets s' = ks_tickets s @ [\<lparr>tr_ticket = k,
       tr_active_netting_domain_key = Some (netting_domain_key (ti_netting_domain (tk_identity k))),
       tr_terminal_at_ms = None\<rparr>]"
    "\<forall>r\<in>set (ks_tickets s). tr_active_netting_domain_key r \<noteq> Some (netting_domain_key (ti_netting_domain (tk_identity k)))"
    "\<exists>l. ks_lane s' = Some l \<and> ln_status l = ''claimed'' \<and> ln_ticket_id l = Some (ticket_key k)"
    "\<And>u. stored u s' = (if u = ticket_key k then Some (new_aggregate k
        (if tk_leverage_change_required k then LEVERAGE_PENDING else ENTRY_PENDING) 1 1) else stored u s)"
    "ticket_key k \<notin> set (map row_ticket_id (ks_tickets s))"
proof -
  let ?st = "if tk_leverage_change_required k then LEVERAGE_PENDING else ENTRY_PENDING"
  let ?a = "new_aggregate k ?st 1 1" and ?fx = "[if tk_leverage_change_required k then PrepareSetLeverageCommand k
         else PrepareEntryCommand k None]"
  let ?d = "ti_netting_domain (tk_identity k)"
  let ?reserve = "reserve_account_exposure (nd_venue_id ?d) (nd_account_id ?d) (tk_notional k) (tk_risk_at_stop k)
       (tk_reserved_margin k) (map_option ex_projection_version (get_account_exposure (nd_venue_id ?d) (nd_account_id ?d) s)) now"
  obtain s3 lane' where r: "?reserve (s\<lparr>ks_claims := ks_claims s @ [claim], ks_budgets := ks_budgets s @ [issue_budget k now]\<rparr>) = Inr s3"
      "\<forall>b\<in>set (ks_budgets s). br_ticket_id b \<noteq> ticket_key k"
    and l: "ln_status lane' = ''claimed''" "ln_ticket_id lane' = Some (ticket_key k)"
    and c: "commit_reduction (issue_event k now) (?a, ?fx) 0 (s3\<lparr>ks_lane := Some lane'\<rparr>) = Inr s'"
    using reserve_and_issueE[OF assms] by (metis lane_row.select_convs(1,3))
  obtain rows where s3: "s3 = s\<lparr>ks_claims := ks_claims s @ [claim], ks_budgets := ks_budgets s @ [issue_budget k now],
       ks_exposures := rows\<rparr>" using reserve_writes[OF r(1)] by auto
  have res: "?reserve s = Inr (s\<lparr>ks_exposures := rows\<rparr>)"
    using r(1) unfolding s3 by (auto simp: reserve_account_exposure_def split: option.splits
        dest!: arg_cong[of _ _ ks_exposures])
  obtain s4 s5 s6 where st: "commit_aggregate (issue_event k now) ?a 0 (s3\<lparr>ks_lane := Some lane'\<rparr>) = Inr s4"
      "events_append (issue_event k now) s4 = Inr s5" "materialize_effects ?a (event_header_of (issue_event k now)) ?fx s5 = Inr s6"
      "close_ticket (issue_event k now) ?a s6 = Inr s'"
    using commit_reductionE[OF c] .
  have "s' = s6" using st(4) by (simp add: close_ticket_def terminal_ticket_status_def split: if_splits)
  moreover have "quiet s5 s6"
    using st(3) materialize_effect_quiet by (auto split: if_splits)
  ultimately have q: "quiet s5 s'" by simp
  have w: "ks_tickets s' = ks_tickets s @ [\<lparr>tr_ticket = k, tr_active_netting_domain_key = Some (netting_domain_key ?d),
       tr_terminal_at_ms = None\<rparr>]" "ks_budgets s' = ks_budgets s @ [issue_budget k now]" "ks_exposures s' = rows"
      "ks_lane s' = Some lane'"
    using q commit_first_writes(1)[OF st(1)] events_append_writes[OF st(2)] s3 unfolding quiet_def by auto
  have as: "loaded_with (closed_ticket ?st k) ?a = ?a"
    by (simp add: closed_ticket_def terminal_ticket_status_def loaded_with_def new_aggregate_def)
  have "stored u s' = (if u = ticket_key k then Some ?a else stored u s)" for u
  proof -
    have "stored u (s3\<lparr>ks_lane := Some lane'\<rparr>) = stored u s" unfolding s3 by (rule stored_cong) simp_all
    then show ?thesis using commit_first(5)[OF c, of u] as by simp
  qed
  moreover have "\<forall>r\<in>set (ks_tickets s). tr_active_netting_domain_key r \<noteq> Some (netting_domain_key ?d)"
      "ticket_key k \<notin> set (map row_ticket_id (ks_tickets s))"
    using commit_first_writes(2)[OF st(1)] s3 by auto
  ultimately show thesis
    using that[OF w(3) res w(2) r(2) w(1)] w(4) l by blast
qed

lemma lane_ok_issue:
  assumes "lane_ok s" "ks_lane s = Some lane" "ln_status lane = ''idle''"
    "reserve_and_issue claim k now owner lane s = Inr s'"
  shows "lane_ok s'"
proof -
  obtain l where l: "ks_lane s' = Some l" "ln_status l = ''claimed''" "ln_ticket_id l = Some (ticket_key k)"
    and st: "\<And>u. stored u s' = (if u = ticket_key k then Some (new_aggregate k
        (if tk_leverage_change_required k then LEVERAGE_PENDING else ENTRY_PENDING) 1 1) else stored u s)"
    using issue_stages[OF assms(4)] by metis
  have "holders s = {}" using assms(1-3) by (simp add: lane_ok_def lane_owner_def)
  then have "holders s' = {ticket_key k}" unfolding holders_def st by (auto split: if_splits)
  then show ?thesis using l by (simp add: lane_ok_def lane_owner_def)
qed

lemma holders_cong: "quiet s s' \<Longrightarrow> holders s' = holders s"
  by (simp add: quiet_def holders_def stored_cong[of s' s])

interpretation entry_lane: store_invariant lane_ok
proof
  show "lane_ok empty_store" by (simp add: lane_ok_def holders_def stored_lookup lane_owner_def empty_store_def)
next
  fix s assume a: "lane_ok s"
  have "holders (s\<lparr>ks_lane := x\<rparr>) = holders s" for x
    by (simp add: holders_def stored_cong[of "s\<lparr>ks_lane := x\<rparr>" s])
  then show "lane_ok (s\<lparr>ks_lane := Some (snd (lock_global_lane s))\<rparr>)"
    using a by (auto simp: lane_ok_def lock_global_lane_def lane_owner_def idle_lane_def split: option.splits)
next
  fix s s' assume "lane_ok s" "worker_step s s'"
  then show "lane_ok s'" using worker_quiet[of s s'] holders_cong[of s s'] by (simp add: lane_ok_def quiet_def)
qed (blast intro: lane_ok_commit lane_ok_issue)+

end
