(* ===== verification/Stored_Capital.thy ===== *)
theory Stored_Capital
  imports Stored_Lifecycles
begin

text \<open>
  Capital in every reachable store: the active budget reservations are exactly those of the Tickets whose
  capital is not released, each account counts them, and each such Ticket owns its netting domain alone.
\<close>

section \<open>Counting rows\<close>

lemma rowcount_append [simp]: "rowcount P (xs @ ys) = rowcount P xs + rowcount P ys"
  "rowcount P [] = 0" "rowcount P [x] = (if P x then 1 else 0)"
  by (simp_all add: rowcount_def)

lemma rowcount_zero: "rowcount P rows = 0 \<longleftrightarrow> (\<forall>r\<in>set rows. \<not> P r)"
  by (simp add: rowcount_def filter_empty_conv)

text \<open>Rows that an update takes out of a count.\<close>

lemma rowcount_update:
  assumes "\<And>r. r \<in> set rows \<Longrightarrow> P r \<Longrightarrow> \<not> Q (f r)"
  shows "rowcount Q (update_where P f rows) + rowcount (\<lambda>r. Q r \<and> P r) rows = rowcount Q rows"
  using assms by (induction rows) (auto simp: rowcount_def update_where_def)

lemma rowcount_cong: "(\<And>r. r \<in> set rows \<Longrightarrow> P r = Q r) \<Longrightarrow> rowcount P rows = rowcount Q rows"
  unfolding rowcount_def by (metis (mono_tags, lifting) filter_cong)

section \<open>Budgets and account exposure\<close>

abbreviation active_budget :: "budget_row \<Rightarrow> bool" where
  "active_budget b \<equiv> br_status b = ''active''"

abbreviation account_budget :: "string \<Rightarrow> string \<Rightarrow> budget_row \<Rightarrow> bool" where
  "account_budget v c b \<equiv> active_budget b \<and> br_venue_id b = v \<and> br_account_id b = c"

abbreviation exposure_key :: "exposure_row \<Rightarrow> string \<times> string" where
  "exposure_key x \<equiv> (ex_venue_id x, ex_account_id x)"

definition exposure_count :: "exposure_row \<Rightarrow> (string \<times> string) \<times> int" where
  "exposure_count x = (exposure_key x, ex_active_ticket_count x)"

definition capital_open :: "kernel_store \<Rightarrow> string \<Rightarrow> bool" where
  "capital_open s t \<longleftrightarrow> (\<exists>a. stored t s = Some a \<and> capital_charge a = 0)"

definition budget_ok :: "kernel_store \<Rightarrow> bool" where
  "budget_ok s \<longleftrightarrow> distinct (map br_ticket_id (ks_budgets s)) \<and> distinct (map exposure_key (ks_exposures s))
     \<and> (\<forall>t. (\<exists>b\<in>set (ks_budgets s). br_ticket_id b = t \<and> active_budget b) \<longleftrightarrow> capital_open s t)
     \<and> (\<forall>b\<in>set (ks_budgets s). \<forall>a. stored (br_ticket_id b) s = Some a
          \<longrightarrow> br_venue_id b = nd_venue_id (agg_domain a) \<and> br_account_id b = nd_account_id (agg_domain a))
     \<and> (\<forall>x\<in>set (ks_exposures s). ex_active_ticket_count x
          = int (rowcount (account_budget (ex_venue_id x) (ex_account_id x)) (ks_budgets s)))
     \<and> (\<forall>b\<in>set (ks_budgets s). active_budget b
          \<longrightarrow> (br_venue_id b, br_account_id b) \<in> set (map exposure_key (ks_exposures s)))"

lemma as_stored_capital [simp]: "capital_charge (as_stored b) = capital_charge b"
  by (simp add: capital_charge_def as_stored_def)

lemma as_stored_domain [simp]:
  "ag_identity b = tk_identity (ag_ticket b) \<Longrightarrow> ag_identity (as_stored b) = ag_identity b"
  by (simp add: as_stored_def)

text \<open>One release of the exposure of an account, given that accounts are unique.\<close>

lemma release_exposure_counts:
  assumes "release_account_exposure v c x y z n s = Inr s'" "distinct (map exposure_key (ks_exposures s))"
  shows "map exposure_count (ks_exposures s')
      = map (\<lambda>(k, m). (k, if k = (v, c) then m - 1 else m)) (map exposure_count (ks_exposures s))"
    and "(v, c) \<in> set (map exposure_key (ks_exposures s))"
proof -
  obtain d where d: "List.find (account_row v c) (ks_exposures s) = Some d"
    using assms(1) by (auto simp: release_account_exposure_def get_account_exposure_def split: option.splits)
  then have dd: "d \<in> set (ks_exposures s)" "account_row v c d" using find_Some_set by fastforce+
  then show "(v, c) \<in> set (map exposure_key (ks_exposures s))" by (auto intro!: image_eqI[of _ _ d])
  have u: "account_row v c r \<longleftrightarrow> r = d" if "r \<in> set (ks_exposures s)" for r
    using assms(2) that dd by (auto simp: distinct_map inj_on_def)
  have "ks_exposures s' = update_where (\<lambda>r. account_row v c r \<and> ex_projection_version r = ex_projection_version d)
      (\<lambda>r. r\<lparr>ex_gross_notional := dec_sub (ex_gross_notional d) x, ex_gross_risk_at_stop := dec_sub (ex_gross_risk_at_stop d) y,
         ex_current_reserved_margin := dec_sub (ex_current_reserved_margin d) z,
         ex_active_ticket_count := ex_active_ticket_count d - 1, ex_projection_version := ex_projection_version d + 1,
         ex_updated_at_ms := n\<rparr>) (ks_exposures s)"
    using assms(1) d by (auto simp: release_account_exposure_def get_account_exposure_def split: if_splits)
  then show "map exposure_count (ks_exposures s')
      = map (\<lambda>(k, m). (k, if k = (v, c) then m - 1 else m)) (map exposure_count (ks_exposures s))"
    using u by (auto simp: update_where_def exposure_count_def)
qed

text \<open>What a capital release does to budgets and exposures, whichever of the two effects it is.\<close>

lemma capital_release_writes:
  assumes "materialize_effect a h e s = Inr s'" "is_capital_release e" "effect_ticket e = t"
    "distinct (map exposure_key (ks_exposures s))"
  shows "\<exists>n. ks_budgets s' = update_where (\<lambda>r. br_ticket_id r = t \<and> active_budget r)
      (\<lambda>r. r\<lparr>br_status := ''released'', br_released_at_ms := Some n\<rparr>) (ks_budgets s)
     \<and> rowcount (\<lambda>r. br_ticket_id r = t \<and> active_budget r) (ks_budgets s) = 1"
    and "map exposure_count (ks_exposures s')
      = map (\<lambda>(k, m). (k, if k = (nd_venue_id (ti_netting_domain (tk_identity (ag_ticket a))),
                                  nd_account_id (ti_netting_domain (tk_identity (ag_ticket a)))) then m - 1 else m))
          (map exposure_count (ks_exposures s))"
proof -
  let ?d = "ti_netting_domain (tk_identity (ag_ticket a))"
  have "\<exists>s1 s2 n x y z. budgets_release t n s = Inr s1
      \<and> release_account_exposure (nd_venue_id ?d) (nd_account_id ?d) x y z n s1 = Inr s2
      \<and> ks_budgets s' = ks_budgets s2 \<and> ks_exposures s' = ks_exposures s2"
  proof (cases e)
    case (ReleaseBudget u)
    then obtain s1 where "budgets_release t (eh_occurred_at_ms h) s = Inr s1"
        "release_account_exposure (nd_venue_id ?d) (nd_account_id ?d) (tk_notional (ag_ticket a))
           (tk_risk_at_stop (ag_ticket a)) (tk_reserved_margin (ag_ticket a)) (eh_occurred_at_ms h) s1 = Inr s'"
      using assms(1,3) by (auto simp: release_budget_def Let_def)
    then show ?thesis by blast
  next
    case (ReleaseCapitalAuthorities r)
    then obtain s1 s2 where "budgets_release t (cr_released_at_ms r) s = Inr s1"
        "release_account_exposure (nd_venue_id ?d) (nd_account_id ?d) (cr_notional r) (cr_risk_at_stop r)
           (tk_reserved_margin (ag_ticket a)) (cr_released_at_ms r) s1 = Inr s2"
        "tickets_release_active_netting_domain (cr_ticket_id r) (cr_netting_domain_key r) s2 = Inr s'"
      using assms(1,3) by (auto simp: release_capital_def Let_def)
    then show ?thesis by (force simp: tickets_release_active_netting_domain_def)
  qed (use assms(2) in simp_all)
  then obtain s1 s2 n x y z where r: "budgets_release t n s = Inr s1"
      "release_account_exposure (nd_venue_id ?d) (nd_account_id ?d) x y z n s1 = Inr s2"
      "ks_budgets s' = ks_budgets s2" "ks_exposures s' = ks_exposures s2"
    by blast
  have "ks_exposures s1 = ks_exposures s" using budgets_release_writes[OF r(1)] by simp
  then show "map exposure_count (ks_exposures s')
      = map (\<lambda>(k, m). (k, if k = (nd_venue_id ?d, nd_account_id ?d) then m - 1 else m)) (map exposure_count (ks_exposures s))"
    using release_exposure_counts(1)[OF r(2)] assms(4) r(4) by simp
  have "ks_budgets s2 = ks_budgets s1" using release_exposure_writes[OF r(2)] by auto
  then show "\<exists>n. ks_budgets s' = update_where (\<lambda>r. br_ticket_id r = t \<and> active_budget r)
      (\<lambda>r. r\<lparr>br_status := ''released'', br_released_at_ms := Some n\<rparr>) (ks_budgets s)
     \<and> rowcount (\<lambda>r. br_ticket_id r = t \<and> active_budget r) (ks_budgets s) = 1"
    using r(1,3) by (auto simp: budgets_release_def)
qed

text \<open>The keys of the account rows are the first components of the counted view.\<close>

lemma exposure_keys: "map exposure_key rows = map fst (map exposure_count rows)"
  by (simp add: exposure_count_def)

lemma exposure_counts_iff:
  "(\<forall>x\<in>set rows. ex_active_ticket_count x = f (ex_venue_id x) (ex_account_id x))
     \<longleftrightarrow> (\<forall>((v, c), m)\<in>set (map exposure_count rows). m = f v c)"
  by (auto simp: exposure_count_def)

lemma budget_ok_alt:
  "budget_ok s \<longleftrightarrow> distinct (map br_ticket_id (ks_budgets s)) \<and> distinct (map fst (map exposure_count (ks_exposures s)))
     \<and> (\<forall>t. (\<exists>b\<in>set (ks_budgets s). br_ticket_id b = t \<and> active_budget b) \<longleftrightarrow> capital_open s t)
     \<and> (\<forall>b\<in>set (ks_budgets s). \<forall>a. stored (br_ticket_id b) s = Some a
          \<longrightarrow> br_venue_id b = nd_venue_id (agg_domain a) \<and> br_account_id b = nd_account_id (agg_domain a))
     \<and> (\<forall>((v, c), m)\<in>set (map exposure_count (ks_exposures s)). m = int (rowcount (account_budget v c) (ks_budgets s)))
     \<and> (\<forall>b\<in>set (ks_budgets s). active_budget b
          \<longrightarrow> (br_venue_id b, br_account_id b) \<in> set (map fst (map exposure_count (ks_exposures s))))"
  unfolding budget_ok_def exposure_keys
    exposure_counts_iff[of _ "\<lambda>v c. int (rowcount (account_budget v c) (ks_budgets s))", symmetric] ..

lemma set_map_pairs: "(k, m) \<in> set (map (\<lambda>(k, m). (k, g k m)) xs) \<Longrightarrow> \<exists>m0. (k, m0) \<in> set xs \<and> m = g k m0"
  by auto

lemma budget_ok_kept:
  assumes "budget_ok s" "ks_budgets s' = ks_budgets s" "ks_exposures s' = ks_exposures s"
    "\<And>t. capital_open s' t = capital_open s t"
    "\<And>t x. stored t s' = Some x \<Longrightarrow> \<exists>y. stored t s = Some y \<and> agg_domain y = agg_domain x"
  shows "budget_ok s'"
proof -
  note ok = assms(1)[unfolded budget_ok_def]
  have "\<forall>b\<in>set (ks_budgets s). \<forall>a. stored (br_ticket_id b) s' = Some a
      \<longrightarrow> br_venue_id b = nd_venue_id (agg_domain a) \<and> br_account_id b = nd_account_id (agg_domain a)"
    using ok assms(5) by fastforce
  then show ?thesis using ok unfolding budget_ok_def assms(2-4) by blast
qed

text \<open>The active budgets of an account after the one active budget of \<open>t\<close>, in account \<open>(v0, c0)\<close>, is released.\<close>

lemma released_count:
  assumes "\<forall>r\<in>set rows. br_ticket_id r = t \<longrightarrow> (br_venue_id r, br_account_id r) = (v0, c0)"
    and once: "rowcount (\<lambda>r. br_ticket_id r = t \<and> active_budget r) rows = 1"
  shows "rowcount (account_budget v c) (update_where (\<lambda>r. br_ticket_id r = t \<and> active_budget r)
      (\<lambda>r. r\<lparr>br_status := ''released'', br_released_at_ms := Some n\<rparr>) rows) + (if (v, c) = (v0, c0) then 1 else 0)
    = rowcount (account_budget v c) rows" (is "rowcount ?Q (update_where ?P ?f rows) + _ = _")
proof -
  have "rowcount (\<lambda>r. ?Q r \<and> ?P r) rows = (if (v, c) = (v0, c0) then 1 else 0)"
  proof (cases "(v, c) = (v0, c0)")
    case True
    then have "rowcount (\<lambda>r. ?Q r \<and> ?P r) rows = rowcount ?P rows"
      using assms(1) by (intro rowcount_cong) auto
    then show ?thesis unfolding if_P[OF True] using once by simp
  next
    case False
    then have "\<not> (?Q r \<and> ?P r)" if "r \<in> set rows" for r using assms(1) that by auto
    then show ?thesis unfolding if_not_P[OF False] rowcount_zero by blast
  qed
  moreover have "rowcount ?Q (update_where ?P ?f rows) + rowcount (\<lambda>r. ?Q r \<and> ?P r) rows = rowcount ?Q rows"
    by (rule rowcount_update) simp
  ultimately show ?thesis by simp
qed

text \<open>Releasing the capital of one Ticket keeps the accounts balanced.\<close>

lemma budget_ok_release:
  assumes ok: "budget_ok s" and t: "stored t s = Some a"
    and budgets: "ks_budgets s' = update_where (\<lambda>r. br_ticket_id r = t \<and> active_budget r)
      (\<lambda>r. r\<lparr>br_status := ''released'', br_released_at_ms := Some n\<rparr>) (ks_budgets s)"
    and once: "rowcount (\<lambda>r. br_ticket_id r = t \<and> active_budget r) (ks_budgets s) = 1"
    and counts: "map exposure_count (ks_exposures s')
      = map (\<lambda>(k, m). (k, if k = (nd_venue_id (agg_domain a), nd_account_id (agg_domain a)) then m - 1 else m))
          (map exposure_count (ks_exposures s))"
    and after: "\<And>u. stored u s' = (if u = t then Some a' else stored u s)" "capital_charge a' \<noteq> 0"
      "agg_domain a' = agg_domain a"
  shows "budget_ok s'"
proof -
  let ?P = "\<lambda>r. br_ticket_id r = t \<and> active_budget r" and ?D = "(nd_venue_id (agg_domain a), nd_account_id (agg_domain a))"
  note ok = ok[unfolded budget_ok_alt]
  have active: "(\<exists>b\<in>set (ks_budgets s). br_ticket_id b = u \<and> active_budget b) \<longleftrightarrow> capital_open s u" for u
    using ok by blast
  have keys: "map fst (map exposure_count (ks_exposures s')) = map fst (map exposure_count (ks_exposures s))"
    unfolding counts by (simp add: case_prod_beta comp_def)
  have row: "\<exists>r\<in>set (ks_budgets s). br_ticket_id x = br_ticket_id r \<and> br_venue_id x = br_venue_id r
      \<and> br_account_id x = br_account_id r \<and> (active_budget x \<longrightarrow> x = r \<and> br_ticket_id r \<noteq> t)"
    if "x \<in> set (ks_budgets s')" for x
    using that unfolding budgets set_update_where by auto
  have kept: "x \<in> set (ks_budgets s')" if "x \<in> set (ks_budgets s)" "br_ticket_id x \<noteq> t" for x
    using that unfolding budgets set_update_where by auto
  have ids: "map br_ticket_id (ks_budgets s') = map br_ticket_id (ks_budgets s)"
    unfolding budgets by (rule budget_table.update_keys) simp
  have open': "capital_open s' u \<longleftrightarrow> capital_open s u \<and> u \<noteq> t" for u
    using after by (auto simp: capital_open_def)
  have count: "m = int (rowcount (account_budget v c) (ks_budgets s'))"
    if m: "((v, c), m) \<in> set (map exposure_count (ks_exposures s'))" for v c m
  proof -
    obtain m0 where m0: "((v, c), m0) \<in> set (map exposure_count (ks_exposures s))"
        "m = (if (v, c) = ?D then m0 - 1 else m0)"
      using set_map_pairs[OF m[unfolded counts]] by blast
    have "m0 = int (rowcount (account_budget v c) (ks_budgets s))" using ok m0(1) by auto
    moreover have "\<forall>r\<in>set (ks_budgets s). br_ticket_id r = t \<longrightarrow> (br_venue_id r, br_account_id r) = ?D"
      using ok t by auto
    ultimately show ?thesis
      using released_count[OF _ once, of "fst ?D" "snd ?D" v c n, folded budgets] m0(2) by (auto split: if_splits)
  qed
  show ?thesis
    unfolding budget_ok_alt keys ids
  proof (intro conjI)
    show "\<forall>u. (\<exists>x\<in>set (ks_budgets s'). br_ticket_id x = u \<and> active_budget x) = capital_open s' u"
    proof (intro allI iffI)
      fix u assume "\<exists>x\<in>set (ks_budgets s'). br_ticket_id x = u \<and> active_budget x"
      then obtain x where x: "x \<in> set (ks_budgets s')" "br_ticket_id x = u" "active_budget x" by blast
      then have "x \<in> set (ks_budgets s)" "u \<noteq> t" using row[OF x(1)] by auto
      then show "capital_open s' u" using active[of u] x unfolding open' by blast
    next
      fix u assume "capital_open s' u"
      then show "\<exists>x\<in>set (ks_budgets s'). br_ticket_id x = u \<and> active_budget x"
        using active[of u] kept unfolding open' by blast
    qed
    show "\<forall>x\<in>set (ks_budgets s'). \<forall>y. stored (br_ticket_id x) s' = Some y
        \<longrightarrow> br_venue_id x = nd_venue_id (agg_domain y) \<and> br_account_id x = nd_account_id (agg_domain y)"
    proof (intro ballI allI impI)
      fix x y assume x: "x \<in> set (ks_budgets s')" "stored (br_ticket_id x) s' = Some y"
      obtain r where r: "r \<in> set (ks_budgets s)" "br_ticket_id x = br_ticket_id r" "br_venue_id x = br_venue_id r"
          "br_account_id x = br_account_id r" using row[OF x(1)] by blast
      obtain z where z: "stored (br_ticket_id r) s = Some z" "agg_domain y = agg_domain z"
        using x(2) t after(3) r(2) unfolding after(1) by (auto split: if_splits)
      have "br_venue_id r = nd_venue_id (agg_domain z) \<and> br_account_id r = nd_account_id (agg_domain z)"
        using ok r(1) z(1) by blast
      then show "br_venue_id x = nd_venue_id (agg_domain y) \<and> br_account_id x = nd_account_id (agg_domain y)"
        using r z(2) by simp
    qed
    show "\<forall>x\<in>set (ks_budgets s'). active_budget x
        \<longrightarrow> (br_venue_id x, br_account_id x) \<in> set (map fst (map exposure_count (ks_exposures s)))"
    proof (intro ballI impI)
      fix x assume x: "x \<in> set (ks_budgets s')" "active_budget x"
      then have "x \<in> set (ks_budgets s)" using row[OF x(1)] by auto
      then show "(br_venue_id x, br_account_id x) \<in> set (map fst (map exposure_count (ks_exposures s)))"
        using ok x(2) by blast
    qed
    show "\<forall>((v, c), m)\<in>set (map exposure_count (ks_exposures s')). m = int (rowcount (account_budget v c) (ks_budgets s'))"
      using count by (simp only: Ball_def split_paired_All prod.case) blast
  qed (use ok in blast)+
qed

lemma budget_ok_commit:
  assumes "budget_ok s" "log_ok s" "stored t s = Some a" "valid_event e" "reduce_event (Some a) e = Inr (a', fx)"
    "commit_reduction e (a', fx) (ag_version a) s = Inr s'"
  shows "budget_ok s'"
proof -
  obtain b b' h f gx where b: "a = as_stored b" "ag_identity b = tk_identity (ag_ticket b)" "agg_ticket_id b = t"
      "reduce_fact b h f = Inr (b', fx)" "\<And>u. stored u s' = (if u = t then Some (as_stored b') else stored u s)"
      "tk_identity (ag_ticket a') = ag_identity b" "list_all (\<lambda>x. effect_ticket x = t) fx"
    using commit_step[OF assms(2-6)] by metis
  have v: "ag_version a \<noteq> 0" using log_ok_facts[OF assms(2,3)] by (metis length_0_conv of_nat_eq_0_iff)
  obtain s2 s3 where c: "materialize_effects a' (event_header_of e) fx s2 = Inr s3"
      "ks_tickets s2 = ks_tickets s" "ks_budgets s2 = ks_budgets s" "ks_budgets s' = ks_budgets s3"
      "ks_exposures s2 = ks_exposures s" "ks_exposures s' = ks_exposures s3"
    using commit_stages[OF assms(6) v] .
  have frame: "ag_identity b' = ag_identity b" "ag_ticket b' = ag_ticket b" using reduce_fact_frame[OF b(4)] by simp_all
  have kept: "\<exists>y. stored u s = Some y \<and> agg_domain y = agg_domain x" if "stored u s' = Some x" for u x
    using that assms(3) b(1,2,5) frame by (auto split: if_splits)
  have charge: "capital_charge b' = capital_charge b + effect_count is_capital_release fx"
    by (rule capital_charge_step[OF b(4)])
  show ?thesis
  proof (cases "effect_count is_capital_release fx = 0")
    case True
    show ?thesis
    proof (rule budget_ok_kept[OF assms(1) _ _ _ kept])
      show "ks_budgets s' = ks_budgets s" "ks_exposures s' = ks_exposures s"
        using capital_view.effects_still[OF c(1) True] c by simp_all
      show "capital_open s' u = capital_open s u" for u
        using charge True b(1,5) assms(3) by (auto simp: capital_open_def)
    qed
  next
    case False
    then have one: "effect_count is_capital_release fx = 1" "capital_charge b' \<noteq> 0"
      using charge by (auto simp: capital_charge_def split: if_splits)
    obtain x s4 s5 where x: "x \<in> set fx" "is_capital_release x" "ks_budgets s4 = ks_budgets s2"
        "ks_exposures s4 = ks_exposures s2" "materialize_effect a' (event_header_of e) x s4 = Inr s5"
        "ks_budgets s3 = ks_budgets s5" "ks_exposures s3 = ks_exposures s5"
      using capital_view.effects_once[OF c(1) one(1)] by (metis prod.inject)
    have tx: "effect_ticket x = t" using x(1) b(7) by (simp add: list_all_iff)
    have dom: "ti_netting_domain (tk_identity (ag_ticket a')) = agg_domain a" using b(1,2,6) by simp
    note w = capital_release_writes[OF x(5,2) tx, unfolded x(3,4) c(3,5) dom]
    have dx: "distinct (map exposure_key (ks_exposures s))" using assms(1) by (simp add: budget_ok_def)
    obtain n where n: "ks_budgets s5 = update_where (\<lambda>r. br_ticket_id r = t \<and> active_budget r)
        (\<lambda>r. r\<lparr>br_status := ''released'', br_released_at_ms := Some n\<rparr>) (ks_budgets s)"
        "rowcount (\<lambda>r. br_ticket_id r = t \<and> active_budget r) (ks_budgets s) = 1"
      using w(1)[OF dx] by blast
    show ?thesis
    proof (rule budget_ok_release[OF assms(1,3)])
      show "capital_charge (as_stored b') \<noteq> 0" "agg_domain (as_stored b') = agg_domain a"
        using one(2) b(1,2) frame by simp_all
    qed (use n w(2)[OF dx] c(4,6) x(6,7) b(5) in simp_all)
  qed
qed

text \<open>One reservation, in a known or in a new account.\<close>

lemma reserve_counts:
  assumes "reserve_account_exposure v c x y z (map_option ex_projection_version (get_account_exposure v c s)) n s
      = Inr (s\<lparr>ks_exposures := rows\<rparr>)" "distinct (map exposure_key (ks_exposures s))"
  shows "map exposure_count rows = (if (v, c) \<in> set (map exposure_key (ks_exposures s))
      then map (\<lambda>(k, m). (k, if k = (v, c) then m + 1 else m)) (map exposure_count (ks_exposures s))
      else map exposure_count (ks_exposures s) @ [((v, c), 1)])"
proof (cases "get_account_exposure v c s")
  case None
  then have "\<forall>r\<in>set (ks_exposures s). \<not> account_row v c r" unfolding get_account_exposure_def find_None .
  then have new: "(v, c) \<notin> set (map exposure_key (ks_exposures s))" by auto
  have "rows = ks_exposures s @ [\<lparr>ex_venue_id = v, ex_account_id = c, ex_gross_notional = x, ex_gross_risk_at_stop = y,
      ex_current_reserved_margin = z, ex_active_ticket_count = 1, ex_projection_version = 1, ex_updated_at_ms = n\<rparr>]"
    using assms(1) None by (auto simp: reserve_account_exposure_def dest: arg_cong[of _ _ ks_exposures])
  then show ?thesis using new by (simp add: exposure_count_def)
next
  case (Some d)
  then have dd: "d \<in> set (ks_exposures s)" "account_row v c d"
    unfolding get_account_exposure_def using find_Some_set by fastforce+
  have u: "account_row v c r \<longleftrightarrow> r = d" if "r \<in> set (ks_exposures s)" for r
    using assms(2) that dd by (auto simp: distinct_map inj_on_def)
  have "rows = update_where (\<lambda>r. account_row v c r \<and> ex_projection_version r = ex_projection_version d)
      (\<lambda>r. r\<lparr>ex_gross_notional := ex_gross_notional r + x, ex_gross_risk_at_stop := ex_gross_risk_at_stop r + y,
         ex_current_reserved_margin := ex_current_reserved_margin r + z,
         ex_active_ticket_count := ex_active_ticket_count r + 1, ex_projection_version := ex_projection_version d + 1,
         ex_updated_at_ms := n\<rparr>) (ks_exposures s)"
    using assms(1) Some by (auto simp: reserve_account_exposure_def dest: arg_cong[of _ _ ks_exposures])
  moreover have "(v, c) \<in> set (map exposure_key (ks_exposures s))" using dd by (auto intro!: image_eqI[of _ _ d])
  ultimately show ?thesis using u by (auto simp: update_where_def exposure_count_def)
qed

lemma issue_budget_sel [simp]:
  "br_ticket_id (issue_budget k n) = ticket_key k" "br_status (issue_budget k n) = ''active''"
  "br_venue_id (issue_budget k n) = nd_venue_id (ti_netting_domain (tk_identity k))"
  "br_account_id (issue_budget k n) = nd_account_id (ti_netting_domain (tk_identity k))"
  by (simp_all add: issue_budget_def Let_def)

lemma stored_absent: "t \<notin> set (map row_ticket_id (ks_tickets s)) \<Longrightarrow> stored t s = None"
  using stored_row by (cases "stored t s") blast+

lemma budget_ok_issue:
  assumes "budget_ok s" "reserve_and_issue claim k now owner lane s = Inr s'"
  shows "budget_ok s'"
proof -
  let ?D = "ti_netting_domain (tk_identity k)" and ?a = "new_aggregate k
        (if tk_leverage_change_required k then LEVERAGE_PENDING else ENTRY_PENDING) 1 1"
  obtain rows where r: "ks_exposures s' = rows"
      "reserve_account_exposure (nd_venue_id ?D) (nd_account_id ?D) (tk_notional k) (tk_risk_at_stop k)
         (tk_reserved_margin k) (map_option ex_projection_version (get_account_exposure (nd_venue_id ?D) (nd_account_id ?D) s))
         now s = Inr (s\<lparr>ks_exposures := rows\<rparr>)"
      "ks_budgets s' = ks_budgets s @ [issue_budget k now]" "\<forall>b\<in>set (ks_budgets s). br_ticket_id b \<noteq> ticket_key k"
      and st: "\<And>u. stored u s' = (if u = ticket_key k then Some ?a else stored u s)"
      and new: "ticket_key k \<notin> set (map row_ticket_id (ks_tickets s))"
    by (rule issue_stages[OF assms(2)]) (rule that, assumption+)
  note r = r st new
  note ok = assms(1)[unfolded budget_ok_alt]
  let ?key = "(nd_venue_id ?D, nd_account_id ?D)" and ?counts = "map exposure_count (ks_exposures s)"
  have counts: "map exposure_count (ks_exposures s') = (if ?key \<in> set (map fst ?counts)
      then map (\<lambda>(k, m). (k, if k = ?key then m + 1 else m)) ?counts else ?counts @ [(?key, 1)])"
    using reserve_counts[OF r(2)] assms(1) r(1) unfolding budget_ok_def exposure_keys by simp
  have keys: "map fst (map exposure_count (ks_exposures s'))
      = (if ?key \<in> set (map fst ?counts) then map fst ?counts else map fst ?counts @ [?key])"
    unfolding counts by (simp add: case_prod_beta comp_def)
  have open': "capital_open s' u \<longleftrightarrow> capital_open s u \<or> u = ticket_key k" for u
    using r(5) stored_absent[OF r(6)] by (auto simp: capital_open_def capital_charge_def)
  have known: "(br_venue_id b, br_account_id b) \<in> set (map fst ?counts)" if "b \<in> set (ks_budgets s)" "active_budget b" for b
    using ok that by blast
  have count: "m = int (rowcount (account_budget v c) (ks_budgets s'))"
    if m: "((v, c), m) \<in> set (map exposure_count (ks_exposures s'))" for v c m
  proof (cases "?key \<in> set (map fst ?counts)")
    case True
    then obtain m0 where "((v, c), m0) \<in> set ?counts" "m = (if (v, c) = ?key then m0 + 1 else m0)"
      using set_map_pairs[OF m[unfolded counts if_P[OF True]]] by blast
    moreover have "m0 = int (rowcount (account_budget v c) (ks_budgets s))" using ok calculation(1) by auto
    ultimately show ?thesis using r(3) by auto
  next
    case False
    then have "rowcount (account_budget (nd_venue_id ?D) (nd_account_id ?D)) (ks_budgets s) = 0"
      unfolding rowcount_zero using known False by (metis (no_types, lifting))
    moreover have "((v, c), m) \<in> set ?counts \<or> (v = nd_venue_id ?D \<and> c = nd_account_id ?D \<and> m = 1)"
      using m unfolding counts if_not_P[OF False] by auto
    moreover have "m = int (rowcount (account_budget v c) (ks_budgets s))" if "((v, c), m) \<in> set ?counts"
      using ok that by auto
    moreover have "(v, c) \<noteq> ?key" if "((v, c), m) \<in> set ?counts"
      using that False by (metis fst_conv image_eqI list.set_map)
    ultimately show ?thesis using r(3) by auto
  qed
  show ?thesis
    unfolding budget_ok_alt keys open' r(3)
  proof (intro conjI)
    show "\<forall>((v, c), m)\<in>set (map exposure_count (ks_exposures s')). m = int (rowcount (account_budget v c) (ks_budgets s @ [issue_budget k now]))"
      using count unfolding r(3) by (simp only: Ball_def split_paired_All prod.case) blast
    show "\<forall>b\<in>set (ks_budgets s @ [issue_budget k now]). \<forall>a. stored (br_ticket_id b) s' = Some a
        \<longrightarrow> br_venue_id b = nd_venue_id (agg_domain a) \<and> br_account_id b = nd_account_id (agg_domain a)"
      using ok r(4) unfolding r(5) by auto
    show "distinct (map br_ticket_id (ks_budgets s @ [issue_budget k now]))" using ok r(4) by auto
    show "distinct (if ?key \<in> set (map fst ?counts) then map fst ?counts else map fst ?counts @ [?key])"
      using ok by simp
  qed (use ok in auto)
qed

lemma budget_ok_frame:
  assumes "budget_ok s" "ks_tickets s' = ks_tickets s" "ks_aggregates s' = ks_aggregates s"
    "ks_budgets s' = ks_budgets s" "ks_exposures s' = ks_exposures s"
  shows "budget_ok s'"
  by (rule budget_ok_kept[OF assms(1,4,5)]) (use stored_cong[of s' s] assms(2,3) in \<open>simp_all add: capital_open_def\<close>)

interpretation budgets: store_invariant budget_ok
proof
  show "budget_ok empty_store"
    by (simp add: budget_ok_def empty_store_def capital_open_def stored_lookup)
next
  fix s assume "budget_ok s"
  then show "budget_ok (s\<lparr>ks_lane := Some (snd (lock_global_lane s))\<rparr>)" by (rule budget_ok_frame) simp_all
next
  fix s s' assume "budget_ok s" "worker_step s s'"
  then show "budget_ok s'" using worker_quiet[of s s'] by (auto intro: budget_ok_frame[of s] simp: quiet_def)
qed (blast intro: budget_ok_commit budget_ok_issue)+

section \<open>Netting domains\<close>

definition domain_ok :: "kernel_store \<Rightarrow> bool" where
  "domain_ok s \<longleftrightarrow>
     (\<forall>t a. stored t s = Some a \<longrightarrow> capital_charge a = 0
        \<longrightarrow> (t, agg_domain a, Some (netting_domain_key (agg_domain a))) \<in> set (map domain_view (ks_tickets s)))
     \<and> (\<forall>i d j d' k. (i, d, Some k) \<in> set (map domain_view (ks_tickets s))
        \<longrightarrow> (j, d', Some k) \<in> set (map domain_view (ks_tickets s)) \<longrightarrow> i = j)"

text \<open>Giving up the domain of one Ticket, or of none.\<close>

lemma set_map_triples:
  "(i, d, x) \<in> set (map (\<lambda>(i, d, k). (i, d, g i k)) xs) \<Longrightarrow> \<exists>k0. (i, d, k0) \<in> set xs \<and> g i k0 = x"
  by auto

lemma map_triples: "(i, d, k) \<in> set xs \<Longrightarrow> (i, d, g i k) \<in> set (map (\<lambda>(i, d, k). (i, d, g i k)) xs)"
  by force

lemma domain_ok_update:
  assumes "domain_ok s" "map domain_view (ks_tickets s') = map (\<lambda>(i, d, k). (i, d, g i k)) (map domain_view (ks_tickets s))"
    "\<And>i k. g i k = k \<or> g i k = None"
    "\<And>u x. stored u s' = Some x \<Longrightarrow> capital_charge x = 0
        \<Longrightarrow> \<exists>y. stored u s = Some y \<and> capital_charge y = 0 \<and> agg_domain y = agg_domain x \<and> (\<forall>k. g u k = k)"
  shows "domain_ok s'"
proof -
  have prior: "(i, d, Some k) \<in> set (map domain_view (ks_tickets s))" if row: "(i, d, Some k) \<in> set (map domain_view (ks_tickets s'))" for i d k
  proof -
    obtain k0 where "(i, d, k0) \<in> set (map domain_view (ks_tickets s))" "g i k0 = Some k"
      using set_map_triples[OF row[unfolded assms(2)]] by blast
    then show ?thesis using assms(3)[of i k0] by auto
  qed
  have forth: "(i, d, g i k) \<in> set (map domain_view (ks_tickets s'))" if "(i, d, k) \<in> set (map domain_view (ks_tickets s))" for i d k
    unfolding assms(2) using that by (rule map_triples)
  have "(u, agg_domain x, Some (netting_domain_key (agg_domain x))) \<in> set (map domain_view (ks_tickets s'))"
    if x: "stored u s' = Some x" "capital_charge x = 0" for u x
  proof -
    obtain y where y: "stored u s = Some y" "capital_charge y = 0" "agg_domain y = agg_domain x" "\<forall>k. g u k = k"
      using assms(4)[OF x] by blast
    then have "(u, agg_domain x, Some (netting_domain_key (agg_domain x))) \<in> set (map domain_view (ks_tickets s))"
      using assms(1) unfolding domain_ok_def by metis
    from forth[OF this] y(4) show ?thesis by simp
  qed
  then show ?thesis using assms(1) prior unfolding domain_ok_def by blast
qed

lemma closing_releases_capital: "terminal_ticket_status (ag_status b) \<noteq> None \<Longrightarrow> capital_charge b \<noteq> 0"
  by (simp add: terminal_ticket_status_def capital_charge_def split: if_splits)

lemma effect_domains:
  assumes "materialize_effect a h e s = Inr s'" "is_capital_release e" "effect_ticket e = t"
  shows "\<exists>g. map domain_view (ks_tickets s') = map (\<lambda>(i, d, k). (i, d, g i k)) (map domain_view (ks_tickets s))
    \<and> (\<forall>i k. g i k = k \<or> (g i k = None \<and> i = t))"
proof (cases e)
  case (ReleaseBudget u)
  then have "ks_tickets s' = ks_tickets s"
    using assms(1) by (auto simp: release_budget_def Let_def dest!: budgets_release_writes release_exposure_writes)
  then show ?thesis by (intro exI[of _ "\<lambda>_ k. k"]) simp
next
  case (ReleaseCapitalAuthorities r)
  then have "ks_tickets s' = update_where (\<lambda>r'. row_ticket_id r' = t \<and> tr_active_netting_domain_key r' = Some (cr_netting_domain_key r))
      (\<lambda>r. r\<lparr>tr_active_netting_domain_key := None\<rparr>) (ks_tickets s)"
    using assms by (auto simp: release_capital_def Let_def tickets_release_active_netting_domain_def
        dest!: budgets_release_writes release_exposure_writes)
  then show ?thesis
    by (intro exI[of _ "\<lambda>i k. if i = t \<and> k = Some (cr_netting_domain_key r) then None else k"])
      (simp add: update_where_def domain_view_def)
qed (use assms(2) in simp_all)

lemma domain_ok_commit:
  assumes "domain_ok s" "log_ok s" "stored t s = Some a" "valid_event e" "reduce_event (Some a) e = Inr (a', fx)"
    "commit_reduction e (a', fx) (ag_version a) s = Inr s'"
  shows "domain_ok s'"
proof -
  obtain b b' h f gx where b: "a = as_stored b" "ag_identity b = tk_identity (ag_ticket b)" "agg_ticket_id b = t"
      "reduce_fact b h f = Inr (b', fx)" "\<And>u. stored u s' = (if u = t then Some (as_stored b') else stored u s)"
      "agg_ticket_id a' = t" "ag_status a' = ag_status b'" "list_all (\<lambda>x. effect_ticket x = t) fx"
    using commit_step[OF assms(2-6)] by metis
  have v: "ag_version a \<noteq> 0" using log_ok_facts[OF assms(2,3)] by (metis length_0_conv of_nat_eq_0_iff)
  obtain s2 s3 where c: "materialize_effects a' (event_header_of e) fx s2 = Inr s3" "close_ticket e a' s3 = Inr s'"
      "ks_tickets s2 = ks_tickets s"
    using commit_stages[OF assms(6) v] .
  have frame: "ag_identity b' = ag_identity b" "ag_ticket b' = ag_ticket b" using reduce_fact_frame[OF b(4)] by simp_all
  have charge: "capital_charge b' = capital_charge b + effect_count is_capital_release fx"
    by (rule capital_charge_step[OF b(4)])
  obtain g where g: "map domain_view (ks_tickets s3) = map (\<lambda>(i, d, k). (i, d, g i k)) (map domain_view (ks_tickets s))"
      "\<And>i k. g i k = k \<or> (g i k = None \<and> i = t \<and> capital_charge b' \<noteq> 0)"
  proof (cases "effect_count is_capital_release fx = 0")
    case True
    then have "ks_tickets s3 = ks_tickets s" using capital_view.effects_still[OF c(1)] c(3) by simp
    then show thesis using that[of "\<lambda>_ k. k"] by simp
  next
    case False
    then have one: "effect_count is_capital_release fx = 1" "capital_charge b' \<noteq> 0"
      using charge by (auto simp: capital_charge_def split: if_splits)
    obtain x s4 s5 where x: "x \<in> set fx" "is_capital_release x" "ks_tickets s4 = ks_tickets s2"
        "materialize_effect a' (event_header_of e) x s4 = Inr s5" "ks_tickets s3 = ks_tickets s5"
      using capital_view.effects_once[OF c(1) one(1)] by (metis prod.inject)
    have "effect_ticket x = t" using x(1) b(8) by (simp add: list_all_iff)
    from effect_domains[OF x(4,2) this] obtain g where
        "map domain_view (ks_tickets s5) = map (\<lambda>(i, d, k). (i, d, g i k)) (map domain_view (ks_tickets s4))"
        "\<forall>i k. g i k = k \<or> (g i k = None \<and> i = t)" by blast
    then show thesis using that[of g] one(2) x(3,5) c(3) by simp
  qed
  let ?g = "\<lambda>i k. if i = t \<and> terminal_ticket_status (ag_status a') \<noteq> None then None else g i k"
  show ?thesis
  proof (rule domain_ok_update[OF assms(1), of _ ?g])
    show "map domain_view (ks_tickets s') = map (\<lambda>(i, d, k). (i, d, ?g i k)) (map domain_view (ks_tickets s))"
      unfolding close_ticket_domains[OF c(2)] g(1) b(6) by (simp add: case_prod_beta)
    show "?g i k = k \<or> ?g i k = None" for i k using g(2)[of i k] by auto
    fix u x assume x: "stored u s' = Some x" "capital_charge x = 0"
    show "\<exists>y. stored u s = Some y \<and> capital_charge y = 0 \<and> agg_domain y = agg_domain x \<and> (\<forall>k. ?g u k = k)"
    proof (cases "u = t")
      case True
      then have xb: "x = as_stored b'" using x(1) b(5) by simp
      moreover have "capital_charge b' = 0" using x(2) unfolding xb by simp
      moreover have "terminal_ticket_status (ag_status a') = None"
        using closing_releases_capital[of b'] calculation(2) b(7) by fastforce
      ultimately show ?thesis using True assms(3) b(1,2) frame charge g(2) by auto
    next
      case False
      then have "stored u s = Some x" "g u k = k" for k using x b(5) g(2)[of u k] by simp_all
      then show ?thesis using x False by auto
    qed
  qed
qed

lemma domain_ok_issue:
  assumes "domain_ok s" "reserve_and_issue claim k now owner lane s = Inr s'"
  shows "domain_ok s'"
proof -
  let ?D = "ti_netting_domain (tk_identity k)" and ?a = "new_aggregate k
        (if tk_leverage_change_required k then LEVERAGE_PENDING else ENTRY_PENDING) 1 1"
  obtain r where r: "ks_tickets s' = ks_tickets s @ [r]" "domain_view r = (ticket_key k, ?D, Some (netting_domain_key ?D))"
      "\<forall>r\<in>set (ks_tickets s). tr_active_netting_domain_key r \<noteq> Some (netting_domain_key ?D)"
      and st: "\<And>u. stored u s' = (if u = ticket_key k then Some ?a else stored u s)"
    by (rule issue_stages[OF assms(2)]) (rule that, assumption, simp_all add: domain_view_def)
  have rows: "set (map domain_view (ks_tickets s'))
      = insert (ticket_key k, ?D, Some (netting_domain_key ?D)) (set (map domain_view (ks_tickets s)))"
    unfolding r(1) using r(2) by simp
  have fresh: "(i, d, Some (netting_domain_key ?D)) \<notin> set (map domain_view (ks_tickets s))" for i d
    using r(3) by (auto simp: domain_view_def)
  show ?thesis
    using assms(1) fresh unfolding domain_ok_def rows st by auto
qed

lemma domain_ok_frame:
  assumes "domain_ok s" "ks_tickets s' = ks_tickets s" "ks_aggregates s' = ks_aggregates s"
  shows "domain_ok s'"
  using assms stored_cong[of s' s] by (simp add: domain_ok_def)

interpretation domains: store_invariant domain_ok
proof
  show "domain_ok empty_store"
    by (simp add: domain_ok_def empty_store_def stored_lookup)
next
  fix s assume "domain_ok s"
  then show "domain_ok (s\<lparr>ks_lane := Some (snd (lock_global_lane s))\<rparr>)" by (rule domain_ok_frame) simp_all
next
  fix s s' assume "domain_ok s" "worker_step s s'"
  then show "domain_ok s'" using worker_quiet[of s s'] by (auto intro: domain_ok_frame[of s] simp: quiet_def)
qed (blast intro: domain_ok_commit domain_ok_issue)+

text \<open>An open position keeps its capital and its domain.\<close>

lemma stored_lifecycle_ok:
  assumes "log_ok s" "stored t s = Some a"
  obtains b fx where "history b (log_of t s) fx" "a = as_stored b" "lifecycle_ok b" "ag_position_qty a = ag_position_qty b"
    "ag_status a = ag_status b"
proof -
  obtain b fx where b: "history b (log_of t s) fx" "a = as_stored b" using log_ok_facts[OF assms] .
  then show thesis using that[OF b] lc.history_inv[OF b(1)] by (simp add: as_stored_def loaded_with_def)
qed

lemma exposed_capital_open:
  assumes "log_ok s" "stored t s = Some a" "0 < ag_position_qty a"
  shows "capital_charge a = 0"
proof -
  obtain b where "lifecycle_ok b" "ag_position_qty a = ag_position_qty b" "ag_status a = ag_status b"
    using stored_lifecycle_ok[OF assms(1,2)] .
  then show ?thesis using assms(3) ok_facts(5,6)[of b] by (auto simp: capital_charge_def)
qed

end
