(* ===== verification/Stored_Commands.thy ===== *)
theory Stored_Commands
  imports Stored_Lifecycles
begin

text \<open>
  The durable commands in every reachable store. The commands of one Ticket and kind are the generations
  \<open>1, 2, \<dots>\<close> in the order they were written, and apart from cancels a generation is written only after every
  earlier one has come to an end that permits a retry. Every command is sound: it passes its own validators,
  ENTRY opens the Ticket's side, and every other order is reduce-only on the closing side.
\<close>

section \<open>Commands of one Ticket and kind\<close>

definition commands_of :: "string \<Rightarrow> exchange_command_kind \<Rightarrow> command_row list \<Rightarrow> command_row list" where
  "commands_of t k rows = filter (\<lambda>r. row_command_ticket r = t \<and> ec_kind (co_command r) = k) rows"

definition live :: "command_row \<Rightarrow> bool" where
  "live r \<longleftrightarrow> row_status r \<in> {PREPARED, CLAIMED, OUTCOME_UNKNOWN}"

definition retry_allowed :: "exchange_command_kind \<Rightarrow> exchange_command_status \<Rightarrow> bool" where
  "retry_allowed k status \<longleftrightarrow> status \<in> {REJECTED, RECONCILED_ABSENT}
     \<or> (k = REPLACE_PROTECTION \<and> status \<in> {ACCEPTED, RECONCILED_ACCEPTED})"

definition commands_ok :: "command_row list \<Rightarrow> bool" where
  "commands_ok rows \<longleftrightarrow> (\<forall>t k.
     map (\<lambda>r. ec_generation (co_command r)) (commands_of t k rows) = map int [1..<Suc (length (commands_of t k rows))]
     \<and> (k \<noteq> CANCEL_ORDER \<longrightarrow> (\<forall>r\<in>set (butlast (commands_of t k rows)). retry_allowed k (row_status r))))"

text \<open>An update of live rows that keeps the identity of each command and never prepares it again.\<close>

definition same_command :: "command_row \<Rightarrow> command_row \<Rightarrow> bool" where
  "same_command r r' \<longleftrightarrow> (co_command r')\<lparr>ec_status := PREPARED\<rparr> = (co_command r)\<lparr>ec_status := PREPARED\<rparr>"

definition live_update :: "command_row list \<Rightarrow> command_row list \<Rightarrow> bool" where
  "live_update rows rows' \<longleftrightarrow> (\<exists>P f. rows' = update_where P f rows \<and> (\<forall>r. P r \<longrightarrow> live r
     \<and> same_command r (f r) \<and> row_status (f r) \<noteq> PREPARED))"

lemma same_command_sel:
  assumes "same_command r r'"
  shows "ec_ticket_identity (co_command r') = ec_ticket_identity (co_command r)"
    "ec_kind (co_command r') = ec_kind (co_command r)" "ec_generation (co_command r') = ec_generation (co_command r)"
proof -
  from assms have e: "(co_command r')\<lparr>ec_status := PREPARED\<rparr> = (co_command r)\<lparr>ec_status := PREPARED\<rparr>"
    by (simp add: same_command_def)
  show "ec_ticket_identity (co_command r') = ec_ticket_identity (co_command r)"
    using arg_cong[OF e, of ec_ticket_identity] by simp
  show "ec_kind (co_command r') = ec_kind (co_command r)" using arg_cong[OF e, of ec_kind] by simp
  show "ec_generation (co_command r') = ec_generation (co_command r)" using arg_cong[OF e, of ec_generation] by simp
qed

lemma live_update_refl [simp]: "live_update rows rows"
  by (auto simp: live_update_def update_where_def intro!: exI[of _ "\<lambda>_. False"])

lemma filter_update_where:
  "(\<And>r. P r \<Longrightarrow> Q (f r) = Q r) \<Longrightarrow> filter Q (update_where P f rows) = update_where P f (filter Q rows)"
  by (induction rows) (auto simp: update_where_def)

lemma commands_ok_update:
  assumes "commands_ok rows" "live_update rows rows'"
  shows "commands_ok rows'"
proof -
  obtain P f where u: "rows' = update_where P f rows" "\<And>r. P r \<Longrightarrow> live r \<and> same_command r (f r)"
    using assms(2) by (auto simp: live_update_def)
  have keep: "ec_ticket_identity (co_command (f r)) = ec_ticket_identity (co_command r)"
      "ec_kind (co_command (f r)) = ec_kind (co_command r)" "ec_generation (co_command (f r)) = ec_generation (co_command r)"
    if "P r" for r using u(2)[OF that] same_command_sel by blast+
  have of: "commands_of t k rows' = update_where P f (commands_of t k rows)" for t k
    unfolding commands_of_def u(1) by (rule filter_update_where) (simp add: keep)
  have gens: "map (\<lambda>r. ec_generation (co_command r)) (commands_of t k rows')
      = map (\<lambda>r. ec_generation (co_command r)) (commands_of t k rows)" for t k
    unfolding of by (rule update_where_map) (rule keep)
  have len: "length (commands_of t k rows') = length (commands_of t k rows)" for t k
    unfolding of by (simp add: update_where_def)
  have "retry_allowed k (row_status r)" if kind: "k \<noteq> CANCEL_ORDER" and mem: "r \<in> set (butlast (commands_of t k rows'))" for t k r
  proof -
    obtain x where x: "x \<in> set (butlast (commands_of t k rows))" "r = (if P x then f x else x)"
      using mem unfolding of update_where_def map_butlast[symmetric] by auto
    have a: "retry_allowed k (row_status x)" using assms(1) kind x(1) unfolding commands_ok_def by blast
    then have "\<not> P x" using u(2)[of x] by (auto simp: retry_allowed_def live_def)
    then show ?thesis using a x(2) by simp
  qed
  then show ?thesis using assms(1) unfolding commands_ok_def gens len by blast
qed

section \<open>Adding a command\<close>

text \<open>The next command of its Ticket and kind.\<close>

definition next_in_line :: "exchange_command \<Rightarrow> kernel_store \<Rightarrow> bool" where
  "next_in_line c s \<longleftrightarrow> (let t = ti_ticket_id (ec_ticket_identity c) in
     ec_generation c = 1
     \<or> (ec_generation c = commands_next_generation t (ec_kind c) s
        \<and> (ec_kind c \<noteq> CANCEL_ORDER \<longrightarrow>
            (\<exists>p. latest_generation (filter (\<lambda>d. ec_kind d = ec_kind c) (commands_list_for_ticket t s)) = Some p
                 \<and> retry_allowed (ec_kind c) (ec_status p)))))"

lemma fold_max_range: "fold max (map int [1..<Suc n]) 0 = int n"
  by (induction n) auto

lemma next_generation_length:
  assumes "commands_ok (ks_commands s)"
  shows "commands_next_generation t k s = int (length (commands_of t k (ks_commands s))) + 1"
proof -
  have "map (\<lambda>r. ec_generation (co_command r)) (filter (\<lambda>r. row_command_ticket r = t \<and> ec_kind (co_command r) = k) (ks_commands s))
      = map int [1..<Suc (length (commands_of t k (ks_commands s)))]"
    using assms unfolding commands_ok_def commands_of_def by blast
  then show ?thesis unfolding commands_next_generation_def using fold_max_range by simp
qed

lemma latest_generation_max:
  "latest_generation cs = Some c \<Longrightarrow> c \<in> set cs \<and> (\<forall>d\<in>set cs. ec_generation d \<le> ec_generation c)"
proof (induction cs arbitrary: c)
  case (Cons x cs)
  show ?case
  proof (cases "latest_generation cs")
    case None
    then have "cs = []" by (cases cs) (auto split: option.splits if_splits)
    then show ?thesis using Cons.prems by simp
  next
    case (Some d)
    then show ?thesis using Cons.IH[OF Some] Cons.prems by (auto split: if_splits)
  qed
qed simp

lemma set_commands_list:
  "set (filter (\<lambda>d. ec_kind d = k) (commands_list_for_ticket t s)) = co_command ` set (commands_of t k (ks_commands s))"
  by (auto simp: commands_list_for_ticket_def order_rows_def commands_of_def)

text \<open>The command with the greatest generation is the one written last.\<close>

lemma latest_is_last:
  assumes "commands_ok (ks_commands s)"
    "latest_generation (filter (\<lambda>d. ec_kind d = k) (commands_list_for_ticket t s)) = Some p"
  shows "commands_of t k (ks_commands s) \<noteq> [] \<and> co_command (last (commands_of t k (ks_commands s))) = p"
proof -
  let ?rows = "commands_of t k (ks_commands s)"
  have p: "p \<in> co_command ` set ?rows" "\<forall>d\<in>co_command ` set ?rows. ec_generation d \<le> ec_generation p"
    using latest_generation_max[OF assms(2)] unfolding set_commands_list by auto
  have gens: "ec_generation (co_command (?rows ! i)) = int i + 1" if "i < length ?rows" for i
  proof -
    have "map (\<lambda>r. ec_generation (co_command r)) ?rows ! i = map int [1..<Suc (length ?rows)] ! i"
      using assms(1) unfolding commands_ok_def by metis
    then show ?thesis using that by (simp del: upt_Suc)
  qed
  obtain i where i: "i < length ?rows" "co_command (?rows ! i) = p" using p(1) by (auto simp: in_set_conv_nth)
  then have ne: "?rows \<noteq> []" by auto
  have "last ?rows = ?rows ! (length ?rows - 1)" using ne by (rule last_conv_nth)
  then have "int (length ?rows - 1) + 1 \<le> int i + 1"
    using p(2) gens[of "length ?rows - 1"] gens[OF i(1)] i(2) ne by (metis diff_less image_eqI last_in_set length_greater_0_conv zero_less_one)
  then have "i = length ?rows - 1" using i(1) by linarith
  then show ?thesis using i(2) ne by (simp add: last_conv_nth)
qed

lemma commands_ok_add:
  assumes "commands_ok (ks_commands s)" "commands_add c s = Inr s'" "next_in_line c s"
  shows "commands_ok (ks_commands s')"
proof -
  let ?t = "ti_ticket_id (ec_ticket_identity c)" and ?k = "ec_kind c"
  let ?rows = "commands_of ?t ?k (ks_commands s)"
  define row where "row = \<lparr>co_command = c, co_result_payload = None, co_claim_owner = None,
    co_lease_until_ms = None, co_completed_at_ms = None\<rparr>"
  have row: "co_command row = c" "ks_commands s' = ks_commands s @ [row]"
    and new: "\<forall>r\<in>set (ks_commands s). \<not> (row_command_ticket r = ?t \<and> ec_kind (co_command r) = ?k
        \<and> ec_generation (co_command r) = ec_generation c)"
    using assms(2) by (auto simp: commands_add_def row_def)
  have of: "commands_of t k (ks_commands s') = commands_of t k (ks_commands s) @ (if t = ?t \<and> k = ?k then [row] else [])" for t k
    using row by (auto simp: commands_of_def)
  have gens: "map (\<lambda>r. ec_generation (co_command r)) ?rows = map int [1..<Suc (length ?rows)]"
    using assms(1) unfolding commands_ok_def by blast
  have gen: "ec_generation c = int (length ?rows) + 1 \<and> (?k \<noteq> CANCEL_ORDER \<longrightarrow> (\<forall>r\<in>set ?rows. retry_allowed ?k (row_status r)))"
  proof (cases "?rows = []")
    case True
    then show ?thesis
      using assms(3) next_generation_length[OF assms(1), of ?t ?k] by (auto simp: next_in_line_def Let_def)
  next
    case False
    then have "1 \<le> length ?rows" by (simp add: Suc_le_eq)
    then have "1 \<in> set (map (\<lambda>r. ec_generation (co_command r)) ?rows)"
      unfolding gens by (auto simp del: upt_Suc intro!: image_eqI[of _ _ 1])
    then have "ec_generation c \<noteq> 1" using new by (auto simp: commands_of_def)
    then have g: "ec_generation c = int (length ?rows) + 1" "?k \<noteq> CANCEL_ORDER \<Longrightarrow>
        (\<exists>p. latest_generation (filter (\<lambda>d. ec_kind d = ?k) (commands_list_for_ticket ?t s)) = Some p
           \<and> retry_allowed ?k (ec_status p))"
      using assms(3) next_generation_length[OF assms(1), of ?t ?k] by (auto simp: next_in_line_def Let_def)
    have "retry_allowed ?k (row_status r)" if "?k \<noteq> CANCEL_ORDER" "r \<in> set ?rows" for r
    proof (cases "r = last ?rows")
      case True
      then show ?thesis using g(2)[OF that(1)] latest_is_last[OF assms(1), of ?k ?t] by auto
    next
      case False
      then have "r \<in> set (butlast ?rows)" using that(2) by (metis append_butlast_last_id in_set_butlastD
            insert_iff list.set(1) list.simps(15) rotate1.simps(2) set_append set_rotate1 Un_iff empty_iff empty_set)
      then show ?thesis using assms(1) that(1) unfolding commands_ok_def by blast
    qed
    then show ?thesis using g(1) by blast
  qed
  show ?thesis
    unfolding commands_ok_def
  proof (intro allI conjI impI)
    fix t k
    show "map (\<lambda>r. ec_generation (co_command r)) (commands_of t k (ks_commands s'))
        = map int [1..<Suc (length (commands_of t k (ks_commands s')))]"
      using assms(1) gen gens row(1) unfolding of commands_ok_def by auto
    assume "k \<noteq> CANCEL_ORDER"
    then show "\<forall>r\<in>set (butlast (commands_of t k (ks_commands s'))). retry_allowed k (row_status r)"
      using assms(1) gen unfolding of commands_ok_def by (auto simp: butlast_append)
  qed
qed

section \<open>Sound commands\<close>

definition sound_payload :: "ticket_identity \<Rightarrow> exchange_command_kind \<Rightarrow> command_payload \<Rightarrow> bool" where
  "sound_payload i k p = (let long = nd_position_side (ti_netting_domain i) = Long in
     case p of
       OrderCommandPayload x \<Rightarrow> valid_order_payload x
         \<and> (if k = ENTRY then \<not> op_reduce_only x \<and> op_side x = (if long then Buy else Sell)
            else op_reduce_only x \<and> op_side x = (if long then Sell else Buy))
     | CancelCommandPayload x \<Rightarrow> mk_cancel_payload x = Inr x
     | SetLeverageCommandPayload x \<Rightarrow> mk_set_leverage_payload x = Inr x)"

definition sound_command :: "exchange_command \<Rightarrow> bool" where
  "sound_command c \<longleftrightarrow> mk_exchange_command c = Inr c \<and> sound_payload (ec_ticket_identity c) (ec_kind c) (ec_payload c)"

lemma mk_order_payload_iff: "mk_order_payload p = Inr q \<longleftrightarrow> q = p \<and> valid_order_payload p"
  by (auto simp: mk_order_payload_def)

lemma mk_sound:
  assumes "mk_exchange_command c0 = Inr c" "sound_payload (ec_ticket_identity c0) (ec_kind c0) (ec_payload c0)"
  shows "sound_command c"
  unfolding sound_command_def using assms mk_exchange_command_facts[OF assms(1)] by simp

lemma order_command_sound:
  assumes "order_command a k g p n = Inr c" "op_reduce_only p" "op_side p = closing_side a" "k \<noteq> ENTRY"
  shows "sound_command c"
  using assms by (auto simp: order_command_def build_command_def mk_order_payload_iff sound_payload_def closing_side_def
      elim!: mk_sound)

lemma cancel_command_sound: "cancel_protection_command a i ns q v g n = Inr c \<Longrightarrow> sound_command c"
  by (auto simp: cancel_protection_command_def build_command_def sound_payload_def mk_cancel_payload_idem elim!: mk_sound)

lemma initial_command_sound:
  "entry_command k d n = Inr c \<Longrightarrow> sound_command c" "set_leverage_command k x y n = Inr c \<Longrightarrow> sound_command c"
   by (auto simp: entry_command_def mk_order_payload_iff sound_payload_def plain_order_def elim!: mk_sound)
     (auto simp: set_leverage_command_def sound_payload_def mk_set_leverage_payload_def elim!: mk_sound split: if_splits)

text \<open>The status of a command plays no part.\<close>

lemma sound_same: "same_command r r' \<Longrightarrow> sound_command (co_command r') = sound_command (co_command r)"
proof -
  have st: "sound_command (c\<lparr>ec_status := x\<rparr>) = sound_command c" for c x
  proof -
    have "normalize_command (c\<lparr>ec_status := x\<rparr>) = c\<lparr>ec_status := x\<rparr> \<longleftrightarrow> normalize_command c = c"
      by (cases c) (simp add: normalize_command_def)
    moreover have "command_fields_ok (c\<lparr>ec_status := x\<rparr>) = command_fields_ok c"
      by (simp add: command_fields_ok_def payload_matches_kind_def split: command_payload.split)
    ultimately show ?thesis by (auto simp: sound_command_def mk_exchange_command_iff eq_commute)
  qed
  show "same_command r r' \<Longrightarrow> sound_command (co_command r') = sound_command (co_command r)"
    unfolding same_command_def using st by metis
qed

section \<open>Commands of an effect\<close>

lemma build_command_sel:
  assumes "build_command a k g p n = Inr c"
  shows "ec_kind c = k" "ec_generation c = g" "ec_ticket_identity c = ag_identity a"
  using assms mk_exchange_command_facts(7-9) by (fastforce simp: build_command_def)+

lemma order_command_sel:
  assumes "order_command a k g p n = Inr c"
  shows "ec_kind c = k" "ec_generation c = g" "ec_ticket_identity c = ag_identity a"
  using assms build_command_sel by (fastforce simp: order_command_def)+

lemma initial_command_sel:
  "entry_command k d n = Inr c \<Longrightarrow> ec_generation c = 1"
  "set_leverage_command k x y n = Inr c \<Longrightarrow> ec_generation c = 1"
  using mk_exchange_command_facts(8) by (fastforce simp: entry_command_def set_leverage_command_def)+

lemma next_retryable_facts:
  assumes "next_retryable_generation a k s = Inr g"
  shows "g = 1 \<or> (g = commands_next_generation (agg_ticket_id a) k s
    \<and> (\<exists>p. latest_generation (filter (\<lambda>d. ec_kind d = k) (commands_list_for_ticket (agg_ticket_id a) s)) = Some p
          \<and> retry_allowed k (ec_status p)))"
proof -
  have allowed: "retry_allowed k st" if "require_next_generation_allowed k st g' = Inr u" for st g' u
    using that next_generation_allowed_iff[of k st g'] by (auto simp: retry_allowed_def)
  show ?thesis
    using assms by (auto simp: next_retryable_generation_def prior_command_def Let_def dest: allowed
        split: if_splits option.splits)
qed

lemma next_cancel_facts: "next_cancel_generation a i s = Inr g \<Longrightarrow> g = commands_next_generation (agg_ticket_id a) CANCEL_ORDER s"
  by (auto simp: next_cancel_generation_def Let_def split: if_splits)

text \<open>An effect updates live commands in place or adds the next command of its Ticket and kind.\<close>

lemma retryable_effect:
  assumes "bind_result (next_retryable_generation a k s) (\<lambda>g. add_command (order_command a k g (p g) n) s) = Inr s'"
    "k \<noteq> CANCEL_ORDER" "k \<noteq> ENTRY" "\<And>g. op_reduce_only (p g) \<and> op_side (p g) = closing_side a"
  shows "\<exists>c. commands_add c s = Inr s' \<and> next_in_line c s \<and> sound_command c"
proof -
  obtain g c where g: "next_retryable_generation a k s = Inr g" "order_command a k g (p g) n = Inr c" "commands_add c s = Inr s'"
    using assms(1) by (auto simp: add_command_def)
  show ?thesis
    using g(3) next_retryable_facts[OF g(1)] order_command_sel[OF g(2)] order_command_sound[OF g(2)] assms(3,4)
    by (auto simp: next_in_line_def Let_def)
qed

lemma cancel_effect:
  assumes "add_command (cancel_protection_command a i ns q v (commands_next_generation (agg_ticket_id a) CANCEL_ORDER s) n) s = Inr s'"
  shows "\<exists>c. commands_add c s = Inr s' \<and> next_in_line c s \<and> sound_command c"
proof -
  obtain c where c: "cancel_protection_command a i ns q v (commands_next_generation (agg_ticket_id a) CANCEL_ORDER s) n = Inr c"
      "commands_add c s = Inr s'" using assms by (auto simp: add_command_def)
  then show ?thesis using build_command_sel[OF c(1)[unfolded cancel_protection_command_def]] cancel_command_sound[OF c(1)]
    by (auto simp: next_in_line_def Let_def)
qed

lemma first_effect:
  assumes "add_command r s = Inr s'" "\<And>c. r = Inr c \<Longrightarrow> ec_generation c = 1 \<and> sound_command c"
  shows "\<exists>c. commands_add c s = Inr s' \<and> next_in_line c s \<and> sound_command c"
  using assms by (auto simp: add_command_def next_in_line_def)

lemma quiet_commands_kept:
  "open_incident a h t k s = Inr s' \<Longrightarrow> ks_commands s' = ks_commands s"
  "resolve_incident t k n s = Inr s' \<Longrightarrow> ks_commands s' = ks_commands s"
  "ks_commands (incidents_resolve_all_open_for_ticket t n s) = ks_commands s"
  "release_global_lane t s = Inr s' \<Longrightarrow> ks_commands s' = ks_commands s"
  "release_budget a t n s = Inr s' \<Longrightarrow> ks_commands s' = ks_commands s"
  "release_capital a r s = Inr s' \<Longrightarrow> ks_commands s' = ks_commands s"
  by (auto simp: open_incident_def incidents_add_def resolve_incident_def incidents_resolve_def Let_def
      incidents_resolve_all_open_for_ticket_def release_budget_def release_capital_def
      tickets_release_active_netting_domain_def dest!: release_lane_writes budgets_release_writes
      release_exposure_writes split: option.splits if_splits)

lemma monitor_commands_kept: "ks_commands (monitors_save_if_changed m s) = ks_commands s"
  by (simp add: monitors_save_if_changed_def split: option.split)

lemma project_commands_kept: "project_terminal t n s = Inr s' \<Longrightarrow> ks_commands s' = ks_commands s"
proof -
  have "ks_commands (resolve_reconciliation_wait k n s) = ks_commands s" for k s
    using monitor_commands_kept by (simp add: resolve_reconciliation_wait_def split: option.split)
  then show "project_terminal t n s = Inr s' \<Longrightarrow> ks_commands s' = ks_commands s"
    using monitor_commands_kept by (auto simp: project_terminal_def Let_def)
qed

lemma mark_cancel_update:
  "commands_mark_cancel_reconciled_absent t i n s = Inr s' \<Longrightarrow> live_update (ks_commands s) (ks_commands s')"
  by (auto simp: commands_mark_cancel_reconciled_absent_def live_update_def live_def same_command_def set_status_def
      intro!: exI)

lemma effect_commands:
  assumes "materialize_effect a h e s = Inr s'"
  shows "live_update (ks_commands s) (ks_commands s') \<or> (\<exists>c. commands_add c s = Inr s' \<and> next_in_line c s \<and> sound_command c)"
proof (cases e)
  case (PrepareEntryCommand k d)
  then show ?thesis using assms initial_command_sel(1) initial_command_sound(1) by (auto intro!: first_effect)
next
  case (PrepareSetLeverageCommand k)
  then show ?thesis using assms initial_command_sel(2) initial_command_sound(2) by (auto intro!: first_effect)
next
  case (PrepareInitialStopCommand t q p)
  then have "add_command (initial_stop_command a q p (eh_occurred_at_ms h)) s = Inr s'" using assms by simp
  then show ?thesis unfolding initial_stop_command_def
    using order_command_sel(2) order_command_sound
    by (intro disjI2 first_effect) (auto simp: plain_order_def)
next
  case (PrepareControlledFlattenCommand t q)
  then have "add_command (controlled_flatten_command a q (eh_occurred_at_ms h)) s = Inr s'" using assms by simp
  then show ?thesis unfolding controlled_flatten_command_def
    using order_command_sel(2) order_command_sound
    by (intro disjI2 first_effect) (auto simp: plain_order_def)
next
  case (PrepareTakeProfitCommand t q p)
  show ?thesis
    using retryable_effect[OF assms[unfolded PrepareTakeProfitCommand materialize_effect.simps take_profit_command_def]] by (simp add: plain_order_def)
next
  case (PrepareProtectionReplacementCommand t q p i w)
  show ?thesis
    using retryable_effect[OF assms[unfolded PrepareProtectionReplacementCommand materialize_effect.simps protection_replacement_command_def]] by (simp add: plain_order_def)
next
  case (PrepareExitCommand t q r)
  show ?thesis
    using retryable_effect[OF assms[unfolded PrepareExitCommand materialize_effect.simps exit_command_def]] by (simp add: plain_order_def)
next
  case (CancelEntryRemainder t)
  then show ?thesis using assms by (auto split: option.splits intro!: cancel_effect)
next
  case (CancelVacuumEntryOrder t i v)
  then show ?thesis using assms by (auto split: if_splits intro!: cancel_effect)
next
  case (CancelProtectionOrders t i ns q)
  then show ?thesis using assms by (auto dest!: next_cancel_facts intro!: cancel_effect)
next
  case (MarkCancelCommandReconciledAbsent t i)
  then show ?thesis using assms mark_cancel_update by auto
next
  case (RequestControlledFlatten t q)
  then show ?thesis using assms by (auto split: if_splits)
qed (use assms quiet_commands_kept project_commands_kept in \<open>fastforce+\<close>)

section \<open>Commands of the workers\<close>

lemma update_command_live:
  assumes "update_command m i P f s = Inr s'" "\<And>r. P r \<Longrightarrow> live r" "\<And>r. same_command r (f r)"
    "\<And>r. row_status (f r) \<noteq> PREPARED"
  shows "live_update (ks_commands s) (ks_commands s')"
  using assms by (auto simp: update_command_def live_update_def intro!: exI)

lemma same_command_complete [simp]:
  "same_command r (complete st out n r)" "same_command r ((complete st out n r)\<lparr>co_lease_until_ms := l\<rparr>)"
  "same_command r ((set_status st r)\<lparr>co_claim_owner := w, co_lease_until_ms := l\<rparr>)"
  by (simp_all add: same_command_def complete_def set_status_def)

lemma status_complete [simp]: "row_status (complete st out n r) = st" "row_status (set_status st r) = st"
  by (simp_all add: complete_def set_status_def)

lemma valid_result_status [simp]: "valid_command_result r \<Longrightarrow> er_status r \<noteq> PREPARED"
  by (auto simp: valid_command_result_def)

lemma worker_commands: "worker_step s s' \<Longrightarrow> live_update (ks_commands s) (ks_commands s')"
proof (induction rule: worker_step.induct)
  case (claim worker now lease t kinds s s' c)
  show ?case
  proof (cases "first_command (\<lambda>r. ec_created_at_ms (co_command r)) (\<lambda>r. row_status r = PREPARED
      \<and> now < ec_deadline_at_ms (co_command r) \<and> command_scope t kinds r) s")
    case (Some i)
    let ?P = "\<lambda>r. ec_command_id (co_command r) = i \<and> row_status r = PREPARED"
    let ?f = "\<lambda>r. (set_status CLAIMED r)\<lparr>co_claim_owner := Some worker, co_lease_until_ms := Some lease\<rparr>"
    have "ks_commands s' = update_where ?P ?f (ks_commands s)"
      using claim Some by (auto simp: commands_claim_one_prepared_def Let_def split: if_splits)
    then show ?thesis unfolding live_update_def by (intro exI[of _ ?P] exI[of _ ?f]) (simp add: live_def)
  qed (use claim in \<open>simp add: commands_claim_one_prepared_def\<close>)
next
  case (result r i worker s s')
  then show ?case unfolding commands_record_result_def
    by (elim update_command_live) (simp_all add: live_def)
next
  case (leverage_result l i worker s s')
  then show ?case unfolding commands_record_leverage_result_def
    by (elim update_command_live) (simp_all add: live_def)
next
  case (claimed_superseded i worker now reason s s')
  then show ?case unfolding commands_mark_claimed_superseded_def
    by (simp split: if_splits) (erule update_command_live, simp_all add: live_def)
next
  case (prepared_superseded i now reason s s')
  then show ?case unfolding commands_mark_prepared_superseded_def
    by (simp split: if_splits) (erule update_command_live, simp_all add: live_def)
next
  case (expired r i s s')
  then show ?case unfolding commands_record_expired_claim_unknown_def
    by (simp split: if_splits) (erule update_command_live, simp_all add: live_def)
next
  case (submitted i order_id now s s')
  then show ?case unfolding commands_reconcile_unknown_submitted_def by (elim update_command_live) (simp_all add: live_def)
next
  case (leverage_confirmed l i s s')
  then show ?case unfolding commands_reconcile_unknown_leverage_confirmed_def
    by (elim update_command_live) (simp_all add: live_def)
next
  case (absent i now reason s s')
  then show ?case unfolding commands_reconcile_unknown_absent_def by (elim update_command_live) (simp_all add: live_def)
next
  case (monitor s m)
  then show ?case by (simp add: monitor_commands_kept)
next
  case (incident_opened j s s')
  then show ?case by (auto simp: incidents_add_def split: if_splits)
next
  case (incident_resolved s k now)
  then show ?case by (simp add: incidents_resolve_def)
qed

section \<open>Invariants of the command table\<close>

text \<open>
  The obligations of a predicate over the command table: every update of live commands keeps it, and so does
  adding a sound command next in line; as an invariant it also holds of no commands.
\<close>

locale command_step_invariant =
  fixes table :: "command_row list \<Rightarrow> bool"
  assumes updated: "table rows \<Longrightarrow> live_update rows rows' \<Longrightarrow> table rows'"
    and added: "table (ks_commands s) \<Longrightarrow> commands_add c s = Inr s' \<Longrightarrow> next_in_line c s \<Longrightarrow> sound_command c
      \<Longrightarrow> table (ks_commands s')"
begin

lemma effects_commands:
  "table (ks_commands s) \<Longrightarrow> materialize_effects a h fx s = Inr s' \<Longrightarrow> table (ks_commands s')"
proof (induction fx arbitrary: s)
  case (Cons e fx)
  then obtain s1 where s1: "materialize_effect a h e s = Inr s1" "materialize_effects a h fx s1 = Inr s'" by auto
  have "table (ks_commands s1)"
    using effect_commands[OF s1(1)] Cons.prems(1) added updated by blast
  then show ?case using Cons.IH s1(2) by blast
qed simp

end

sublocale command_step_invariant \<subseteq> store_step_invariant "\<lambda>s. table (ks_commands s)"
proof
  fix s s' assume "table (ks_commands s)" "worker_step s s'"
  then show "table (ks_commands s')" using worker_commands updated by blast
next
  fix s lane claim k now owner s'
  assume ok: "table (ks_commands s)" and r: "reserve_and_issue claim k now owner lane s = Inr s'"
  obtain s3 lane' where s3: "ks_commands s3 = ks_commands s"
    and c: "commit_reduction (issue_event k now) (new_aggregate k
        (if tk_leverage_change_required k then LEVERAGE_PENDING else ENTRY_PENDING) 1 1,
        [if tk_leverage_change_required k then PrepareSetLeverageCommand k else PrepareEntryCommand k None]) 0
       (s3\<lparr>ks_lane := Some lane'\<rparr>) = Inr s'"
    by (rule reserve_and_issueE[OF r]) (rule that[rotated], assumption, auto dest!: reserve_writes)
  obtain s4 s5 s6 a fx where st: "commit_aggregate (issue_event k now) a 0 (s3\<lparr>ks_lane := Some lane'\<rparr>) = Inr s4"
      "events_append (issue_event k now) s4 = Inr s5" "materialize_effects a (event_header_of (issue_event k now)) fx s5 = Inr s6"
      "close_ticket (issue_event k now) a s6 = Inr s'"
    using commit_reductionE[OF c] by metis
  have "ks_commands s5 = ks_commands s"
    using commit_first_writes(1)[OF st(1)] events_append_writes[OF st(2)] s3 by simp
  then show "table (ks_commands s')"
    using effects_commands[OF _ st(3)] ok close_ticket_writes(7)[OF st(4)] by simp
next
  fix s t a e a' fx s'
  assume ok: "table (ks_commands s)" and l: "log_ok s" "stored t s = Some a"
    and c: "commit_reduction e (a', fx) (ag_version a) s = Inr s'"
  have "ag_version a \<noteq> 0" using log_ok_facts[OF l] by (metis length_0_conv of_nat_eq_0_iff)
  then show "table (ks_commands s')"
    using commit_stages[OF c] effects_commands ok by metis
qed simp

locale command_invariant = command_step_invariant +
  assumes none: "table []"

sublocale command_invariant \<subseteq> store_invariant "\<lambda>s. table (ks_commands s)"
  by unfold_locales (simp add: none empty_store_def)

interpretation command_log: command_invariant commands_ok
  by unfold_locales (erule (1) commands_ok_update, erule (2) commands_ok_add, simp add: commands_ok_def commands_of_def)

interpretation sound_commands: command_invariant "list_all (\<lambda>r. sound_command (co_command r))"
proof
  fix rows rows' assume ok: "list_all (\<lambda>r. sound_command (co_command r)) rows" and "live_update rows rows'"
  then obtain P f where u: "rows' = update_where P f rows" "\<And>r. P r \<Longrightarrow> same_command r (f r)"
    by (auto simp: live_update_def)
  have "sound_command (co_command (f r))" if "r \<in> set rows" "P r" for r
    using ok that sound_same[OF u(2)[OF that(2)]] by (simp add: list_all_iff)
  then show "list_all (\<lambda>r. sound_command (co_command r)) rows'"
    using ok unfolding u(1) by (auto simp: list_all_iff set_update_where)
qed (auto simp: commands_add_def)

end
