(* ===== verification/Store_Demo.thy ===== *)
theory Store_Demo
  imports Stored_Capital Stored_Commands Capacity_Properties
begin

text \<open>
  A concrete run of the durable kernel: the demonstration claim is issued into the empty store, and its
  ENTRY order is accepted. The runs give the properties of the store concrete instances.
\<close>

definition demo_policy :: owner_policy_snapshot where
  "demo_policy =
     \<lparr>ps_owner_policy_id = ''o'', ps_policy_version = 1, ps_enabled = True, ps_new_entry_submit_enabled = True,
      ps_priority_rank = 1, ps_max_concurrent_tickets = 3, ps_max_same_strategy_side = None,
      ps_family_ticket_limits = \<lparr>fl_long_continuation = 2, fl_opening_range = 2, fl_rally_failure_short = 2\<rparr>,
      ps_max_ticket_stop_risk_fraction = 1/50, ps_max_gross_stop_risk_fraction = 1/10,
      ps_max_ticket_initial_margin_fraction = 1/5, ps_max_gross_initial_margin_utilization = 1/2,
      ps_directional_stop_risk_limit_fraction = 1/20, ps_min_materialization_ratio = 1/2, ps_max_leverage = 20,
      ps_supported_margin_mode = ''cross'', ps_post_stop_stress_multiple = 1,
      ps_max_post_fill_stop_risk_overrun_fraction = 1/10,
      ps_scope = Some [\<lparr>ep_event_spec_id = ri_event_spec_id (ti_runtime (tk_identity demo_ticket)),
        ep_runtime_profile_id = ri_runtime_profile_id (ti_runtime (tk_identity demo_ticket))\<rparr>]\<rparr>"

definition demo_authority :: issue_authority where
  "demo_authority =
     (let d = ti_netting_domain (tk_identity demo_ticket); r = ti_runtime (tk_identity demo_ticket)
      in \<lparr>ia_policy = Some demo_policy,
      ia_strategy_control = Some \<lparr>sc_strategy_group_id = ri_strategy_group_id r, sc_entry_state = ENTRY_ENABLED,
        sc_control_version = 1, sc_last_event_id = ''e'', sc_reason = ''r'', sc_updated_at_ms = 1\<rparr>,
      ia_selection = None,
      ia_universe = Some \<lparr>au_event_spec_id = ri_event_spec_id r, au_universe_version_id = ''u'',
        au_semantic_digest = demo_digest, au_exchange_instrument_id = nd_exchange_instrument_id d\<rparr>,
      ia_scope = Some \<lparr>rs_runtime_scope_id = ''r'', rs_strategy_group_id = ri_strategy_group_id r,
        rs_strategy_version_id = ri_strategy_version_id r, rs_event_spec_id = ri_event_spec_id r,
        rs_runtime_profile_id = ri_runtime_profile_id r, rs_owner_policy_id = ''o'',
        rs_exchange_instrument_id = nd_exchange_instrument_id d, rs_position_side = nd_position_side d,
        rs_universe_version_id = ''u'', rs_universe_semantic_digest = demo_digest,
        rs_lifecycle_state = ''active'', rs_entry_enabled = True, rs_scope_version = 1\<rparr>,
      ia_strategy_group = Some \<lparr>sg_strategy_group_id = ri_strategy_group_id r,
        sg_active_version_id = Some (ri_strategy_version_id r), sg_status = ''active''\<rparr>,
      ia_strategy_version = Some \<lparr>sv_strategy_version_id = ri_strategy_version_id r,
        sv_strategy_group_id = ri_strategy_group_id r, sv_status = ''active''\<rparr>,
      ia_event_spec = Some \<lparr>es_event_spec_id = ri_event_spec_id r, es_strategy_version_id = ri_strategy_version_id r,
        es_position_side = nd_position_side d, es_entry_order_type = ''market'', es_status = ''active''\<rparr>,
      ia_exit_binding = Some \<lparr>eb_event_spec_id = ri_event_spec_id r, eb_exit_binding_id = ''b'',
        eb_binding_semantic_hash = demo_digest, eb_projection_version = 1, eb_activated_at_ms = 1\<rparr>\<rparr>)"

definition demo_issue :: issue_request where
  "demo_issue = \<lparr>iq_capacity_claim = demo_claim, iq_now_ms = 1, iq_claim_owner = ''w''\<rparr>"

lemma demo_issue_valid: "mk_issue_request demo_issue = Inr demo_issue"
  using valid_claim_mk[OF demo_claim_valid]
  by (simp add: mk_issue_request_def demo_issue_def non_blank_def py_strip_def py_isspace_def)

abbreviation demo_ct :: trade_ticket where
  "demo_ct \<equiv> claim_ticket demo_claim"

lemma demo_ct_sel:
  "tk_identity demo_ct = tk_identity demo_ticket" "tk_leverage_change_required demo_ct = False"
  by (simp_all add: claim_ticket_def demo_claim_eval)

lemma demo_policy_passes: "policy_refusal demo_authority demo_claim demo_ct 1 = None"
  by (simp add: policy_refusal_def demo_authority_def Let_def demo_policy_def demo_claim_eval
      claim_ticket_def demo_ticket_def authorizes_def strategy_entry_is_enabled_def FIXED_EXCHANGE_CONFIGURED_LEVERAGE_def)

lemma demo_registry_passes: "registry_refusal demo_authority demo_claim demo_ct = None"
  by (simp add: registry_refusal_def demo_authority_def Let_def demo_claim_eval
      claim_ticket_def demo_ticket_def scope_matches_ticket_def selection_refusal_def
      strategy_authority_matches_ticket_def exit_binding_matches_def)

definition demo_idle :: kernel_store where
  "demo_idle = empty_store\<lparr>ks_lane := Some idle_lane\<rparr>"

lemma demo_capacity_passes: "capacity_refusal demo_authority demo_claim demo_ct demo_idle = Inr None"
  by (simp add: capacity_refusal_def Let_def demo_idle_def empty_store_def open_incident_scopes_def
      canonical_entry_block_key_def demo_claim_eval claim_ticket_def demo_ticket_def
      has_active_ticket_in_domain_def has_ticket_for_signal_def count_active_family_tickets_def rowcount_def
      demo_authority_def demo_policy_def budget_exhausted_def get_account_exposure_def
      sum_active_directional_stop_risk_def dec_ops)

text \<open>A valid market Ticket always yields its ENTRY command.\<close>

lemma blank_to_none_Some: "v \<noteq> [] \<Longrightarrow> blank_to_none v = Some v"
  by (simp add: blank_to_none_def)

lemma entry_command_market:
  assumes "valid_ticket k" "tk_entry_order_type k = MARKET" "is_sha256_digest d" "0 < n" "n < tk_expires_at_ms k"
  shows "\<exists>c. entry_command k d n = Inr c \<and> ec_kind c = ENTRY \<and> ec_status c = PREPARED
    \<and> ec_ticket_identity c = tk_identity k"
proof -
  have f: "0 < tk_quantity k" "tk_entry_limit_price k = None" "0 < tk_selected_leverage k" "non_blank (ticket_key k)"
    using assms(1,2) valid_ticket_id[OF assms(1)]
    by (simp_all add: valid_ticket_def ticket_fields_ok_def ticket_shape_ok_def non_blank_def)
  obtain i where i: "build_command_id (ticket_key k) ENTRY 1 = Inr i"
    using build_command_id_ok[of "ticket_key k" ENTRY 1] f(4) by (auto simp: ok_iff)
  note si = build_command_id_strip[OF i]
  obtain v where v: "build_venue_client_order_id i = Inr v"
    using si by (auto simp: build_venue_client_order_id_def Let_def)
  note sv = build_venue_client_order_id_shape[OF v]
  have "v \<noteq> []" using sv(1) by auto
  then show ?thesis
    using assms f si sv
    by (simp add: entry_command_def i v mk_order_payload_def valid_order_payload_def plain_order_def positive_opt_def
        mk_exchange_command_def normalize_command_def py_strip_opt_def blank_to_none_Some command_fields_ok_def payload_matches_kind_def)
qed

lemma demo_entry: "\<exists>c. entry_command demo_ct (initial_leverage_fact_digest demo_claim) 1 = Inr c \<and> ec_kind c = ENTRY
    \<and> ec_status c = PREPARED \<and> ec_ticket_identity c = tk_identity demo_ct"
proof (rule entry_command_market)
  show "valid_ticket demo_ct"
    using claim_ticket_valid[OF demo_claim_valid] demo_to_ticket to_ticket_iff[OF demo_claim_valid] by blast
  show "is_sha256_digest (initial_leverage_fact_digest demo_claim)"
    unfolding initial_leverage_fact_digest_def by (rule canonical_digest_is_digest)
qed (simp_all add: claim_ticket_def demo_claim_eval)


definition demo_command :: exchange_command where
  "demo_command = (case entry_command demo_ct (initial_leverage_fact_digest demo_claim) 1 of Inr c \<Rightarrow> c | Inl _ \<Rightarrow> undefined)"

lemma demo_command_sel:
  "entry_command demo_ct (initial_leverage_fact_digest demo_claim) 1 = Inr demo_command"
  "ec_kind demo_command = ENTRY" "ec_status demo_command = PREPARED" "ec_ticket_identity demo_command = tk_identity demo_ticket"
  "ec_generation demo_command = 1"
  using demo_entry initial_command_sel(1) by (auto simp: demo_command_def demo_ct_sel)

text \<open>The store after the demonstration claim is issued into an empty database.\<close>

definition demo_store :: kernel_store where
  "demo_store = demo_idle\<lparr>
     ks_tickets := [\<lparr>tr_ticket = demo_ct, tr_active_netting_domain_key = Some ''b:a:i:long'', tr_terminal_at_ms = None\<rparr>],
     ks_aggregates := [new_aggregate demo_ct ENTRY_PENDING 1 1], ks_events := [issue_event demo_ct 1],
     ks_commands := [\<lparr>co_command = demo_command, co_result_payload = None, co_claim_owner = None,
        co_lease_until_ms = None, co_completed_at_ms = None\<rparr>],
     ks_budgets := [issue_budget demo_ct 1], ks_claims := [demo_claim],
     ks_exposures := [\<lparr>ex_venue_id = ''b'', ex_account_id = ''a'', ex_gross_notional = 200,
        ex_gross_risk_at_stop = 20, ex_current_reserved_margin = 40, ex_active_ticket_count = 1,
        ex_projection_version = 1, ex_updated_at_ms = 1\<rparr>],
     ks_lane := Some \<lparr>ln_ticket_id = Some ''t'', ln_signal_event_id = Some ''s'', ln_status = ''claimed'',
        ln_claimed_at_ms = Some 1, ln_lease_until_ms = Some 100, ln_claim_owner = Some ''w'', ln_version = 1\<rparr>\<rparr>"

lemma demo_domain: "netting_domain_key (ti_netting_domain (tk_identity demo_ticket)) = ''b:a:i:long''"
  by (simp add: demo_ticket_def netting_domain_key_def)

lemma demo_ct_more:
  "tk_capacity_claim_id demo_ct = cc_capacity_claim_id demo_claim" "tk_notional demo_ct = 200" "tk_risk_at_stop demo_ct = 20"
  "tk_reserved_margin demo_ct = 40" "tk_expires_at_ms demo_ct = 100"
  by (simp_all add: claim_ticket_def demo_claim_eval)

lemma demo_issued: "issue_ticket_request demo_authority demo_issue empty_store = Inr (demo_store, ISSUED)"
proof -
  have claim: "initial_command_claim demo_ct s = Inr demo_claim" if "ks_claims s = [demo_claim]" for s
    using that by (simp add: initial_command_claim_def capacity_claims_get_def claim_ticket_def demo_claim_eval)
  have reserve: "reserve_and_issue demo_claim demo_ct 1 ''w'' idle_lane demo_idle = Inr demo_store"
    by (simp add: reserve_and_issue_def Let_def capacity_claims_add_def budgets_add_def insert_row_def
        get_account_exposure_def reserve_account_exposure_def claim_global_lane_def reduce_event_def issue_event_def
        commit_reduction_def commit_aggregate_def aggregates_get_def tickets_add_def aggregates_add_def
        events_append_def claim demo_command_sel add_command_def commands_add_def close_ticket_def
        terminal_ticket_status_def demo_idle_def empty_store_def demo_store_def demo_ct_sel demo_ct_more
        demo_domain event_sequence_def new_aggregate_def)
       (simp add: demo_ticket_def idle_lane_def)
  have lock: "lock_global_lane empty_store = (demo_idle, idle_lane)"
    by (simp add: lock_global_lane_def empty_store_def demo_idle_def)
  show ?thesis
    using demo_policy_passes demo_registry_passes demo_capacity_passes reserve demo_to_ticket
    by (simp add: issue_ticket_request_def Let_def lock demo_issue_def) (simp add: idle_lane_def)
qed

lemma demo_reachable: "reachable_store demo_store"
  using reachable_store.step[OF reachable_store.start kernel_step.issue[OF demo_issue_valid demo_issued]] .

end
