(* ===== verification/Store_Properties.thy ===== *)
theory Store_Properties
  imports Store_Demo
begin

text \<open>
  The correctness properties of the durable kernel, stated over every store its transactions reach from an
  empty database, with an instance of each on a concrete store.
\<close>

section \<open>Helpers\<close>

text \<open>The rows of one Ticket are written in sequence order, so the query's sort changes nothing.\<close>

lemma sorted_int_range: "sorted (map int [m..<n])"
  by (induction n) (auto simp: sorted_append)

lemma listed_log:
  assumes "history b (log_of t s) fx"
  shows "events_list_for_ticket t s = log_of t s"
proof -
  have "sorted (map event_sequence (log_of t s))" using history_log[OF assms] sorted_int_range by metis
  then show ?thesis unfolding events_list_for_ticket_def log_of_def by (rule sort_key_id_if_sorted)
qed

lemma closed_valid:
  "valid_ticket (closed_ticket st k) = valid_ticket k" "tk_quantity (closed_ticket st k) = tk_quantity k"
proof -
  have "normalize_ticket (k\<lparr>tk_status := x\<rparr>) = k\<lparr>tk_status := x\<rparr> \<longleftrightarrow> normalize_ticket k = k" for x
    by (cases k) (simp add: normalize_ticket_def)
  then show "valid_ticket (closed_ticket st k) = valid_ticket k"
    by (simp add: closed_ticket_def valid_ticket_def ticket_fields_ok_def ticket_shape_ok_def split: option.split)
qed (simp add: closed_ticket_def split: option.split)

lemma rowcount_one:
  assumes "distinct (map key rows)" "x \<in> set rows" "P x" "\<And>r. P r \<Longrightarrow> key r = key x"
  shows "rowcount P rows = 1"
proof -
  have "set (filter P rows) = {x}" using assms by (auto simp: distinct_map inj_on_def)
  moreover have "distinct (filter P rows)" using assms(1) by (simp add: distinct_map)
  ultimately show ?thesis unfolding rowcount_def by (metis distinct_card is_singletonI is_singleton_altdef)
qed

text \<open>The Tickets of an account whose capital is still committed are counted by its active budgets.\<close>

definition committed :: "kernel_store \<Rightarrow> trade_aggregate \<Rightarrow> bool" where
  "committed s a \<longleftrightarrow> aggregates_get (agg_ticket_id a) s = Inr (Some a) \<and> phase a \<notin> {Discarded, Settled}"

lemma capital_open_iff: "capital_open s t \<longleftrightarrow> (\<exists>a. committed s a \<and> agg_ticket_id a = t)"
  unfolding capital_open_def committed_def loaded_stored
  by (auto simp: capital_charge_def dest: stored_key split: if_splits)

lemma account_budgets_card:
  assumes "budget_ok s"
  shows "rowcount (account_budget v c) (ks_budgets s)
    = card {t. \<exists>a. committed s a \<and> agg_ticket_id a = t \<and> nd_venue_id (agg_domain a) = v \<and> nd_account_id (agg_domain a) = c}"
proof -
  note ok = assms[unfolded budget_ok_def]
  have active: "(\<exists>b\<in>set (ks_budgets s). br_ticket_id b = t \<and> active_budget b) \<longleftrightarrow> (\<exists>a. committed s a \<and> agg_ticket_id a = t)" for t
    using ok unfolding capital_open_iff by blast
  have dom: "br_venue_id b = nd_venue_id (agg_domain a) \<and> br_account_id b = nd_account_id (agg_domain a)"
    if "b \<in> set (ks_budgets s)" "committed s a" "agg_ticket_id a = br_ticket_id b" for a b
    using ok that unfolding committed_def loaded_stored by metis
  have set: "{t. \<exists>a. committed s a \<and> agg_ticket_id a = t \<and> nd_venue_id (agg_domain a) = v \<and> nd_account_id (agg_domain a) = c}
      = br_ticket_id ` set (filter (account_budget v c) (ks_budgets s))" (is "?L = ?R")
  proof (intro equalityI subsetI)
    fix t assume "t \<in> ?L"
    then obtain a where a: "committed s a" "agg_ticket_id a = t" "nd_venue_id (agg_domain a) = v" "nd_account_id (agg_domain a) = c"
      by blast
    then obtain b where "b \<in> set (ks_budgets s)" "br_ticket_id b = t" "active_budget b" using active by blast
    then show "t \<in> ?R" using dom[of b a] a by (auto intro!: image_eqI[of _ _ b])
  next
    fix t assume "t \<in> ?R"
    then obtain b where b: "b \<in> set (ks_budgets s)" "account_budget v c b" "br_ticket_id b = t" by auto
    then obtain a where a: "committed s a" "agg_ticket_id a = t" using active[of t] by blast
    moreover have "nd_venue_id (agg_domain a) = v" "nd_account_id (agg_domain a) = c"
      using dom[OF b(1) a(1)] a(2) b(2,3) by simp_all
    ultimately show "t \<in> ?L" by blast
  qed
  have "distinct (map br_ticket_id (filter (account_budget v c) (ks_budgets s)))"
    using ok distinct_map_filter by blast
  from distinct_card[OF this] show ?thesis unfolding set rowcount_def by simp
qed


lemma demo_loaded: "aggregates_get ''t'' demo_store = Inr (Some (new_aggregate demo_ct ENTRY_PENDING 1 1))"
  by (simp add: aggregates_get_def tickets_get_def demo_store_def demo_ct_sel new_aggregate_def)

section \<open>Properties\<close>



text \<open>
  C10. The ENTRY lane serialises entries: the Tickets whose aggregate holds the lane are exactly the owner
  recorded in the claimed lane row, so there is at most one, and an idle or missing lane row has none.
\<close>

theorem lane_serializes_entries:
  assumes "reachable_store s"
  shows "{t. \<exists>a. aggregates_get t s = Inr (Some a) \<and> ag_entry_lane_held a}
    = (case ks_lane s of None \<Rightarrow> {}
       | Some l \<Rightarrow> if ln_status l = ''claimed'' then set_option (ln_ticket_id l) else {})"
proof -
  have "holders s = {t. \<exists>a. aggregates_get t s = Inr (Some a) \<and> ag_entry_lane_held a}"
    by (simp add: holders_def loaded_stored)
  then show ?thesis using entry_lane.reachable_inv[OF assms] by (simp add: lane_ok_def lane_owner_def)
qed

theorem lane_serializes_entries_witness:
  "{t. \<exists>a. aggregates_get t demo_store = Inr (Some a) \<and> ag_entry_lane_held a} = {''t''}"
  using lane_serializes_entries[OF demo_reachable] by (simp add: demo_store_def)

text \<open>
  C12. The exposure projection of an account counts its Tickets with committed capital exactly: the account rows
  are unique, the active Ticket count of each is the number of stored Tickets of that account that are neither
  discarded nor settled, and every such Ticket has exactly one active budget reservation.
\<close>

theorem accounts_balance:
  assumes "reachable_store s"
  shows "distinct (map exposure_key (ks_exposures s))
    \<and> list_all (\<lambda>x. ex_active_ticket_count x = int (card {t. \<exists>a. committed s a \<and> agg_ticket_id a = t
         \<and> nd_venue_id (agg_domain a) = ex_venue_id x \<and> nd_account_id (agg_domain a) = ex_account_id x})) (ks_exposures s)
    \<and> (\<forall>a. committed s a \<longrightarrow> rowcount (\<lambda>b. br_ticket_id b = agg_ticket_id a \<and> active_budget b) (ks_budgets s) = 1)"
proof (intro conjI allI impI)
  note b = budgets.reachable_inv[OF assms]
  then show "distinct (map exposure_key (ks_exposures s))" by (simp add: budget_ok_def)
  show "list_all (\<lambda>x. ex_active_ticket_count x = int (card {t. \<exists>a. committed s a \<and> agg_ticket_id a = t
         \<and> nd_venue_id (agg_domain a) = ex_venue_id x \<and> nd_account_id (agg_domain a) = ex_account_id x})) (ks_exposures s)"
    using b account_budgets_card[OF b] by (simp add: budget_ok_def list_all_iff)
  fix a assume a: "committed s a"
  have "capital_open s (agg_ticket_id a)" using a capital_open_iff by blast
  then obtain x where x: "x \<in> set (ks_budgets s)" "br_ticket_id x = agg_ticket_id a" "active_budget x"
    using b unfolding budget_ok_def by blast
  then show "rowcount (\<lambda>r. br_ticket_id r = agg_ticket_id a \<and> active_budget r) (ks_budgets s) = 1"
    using b by (intro rowcount_one[of br_ticket_id _ x]) (simp_all add: budget_ok_def)
qed

theorem accounts_balance_witness:
  "card {t. \<exists>a. committed demo_store a \<and> agg_ticket_id a = t
     \<and> nd_venue_id (agg_domain a) = ''b'' \<and> nd_account_id (agg_domain a) = ''a''} = 1"
  using accounts_balance[OF demo_reachable] by (simp add: demo_store_def)

text \<open>
  C11. One position per netting domain: two Tickets whose capital is committed, or which have a position open,
  never share venue, account, instrument and side.
\<close>

theorem netting_domain_exclusive:
  assumes "reachable_store s"
  shows "\<exists>owner. \<forall>t a. aggregates_get t s = Inr (Some a) \<and> (phase a \<notin> {Discarded, Settled} \<or> 0 < ag_position_qty a)
    \<longrightarrow> owner (netting_domain_key (agg_domain a)) = t"
proof -
  have d: "domain_ok s" and l: "log_ok s" using domains.reachable_inv[OF assms] reachable_log[OF assms] .
  let ?held = "\<lambda>t k. \<exists>a. stored t s = Some a \<and> (phase a \<notin> {Discarded, Settled} \<or> 0 < ag_position_qty a)
    \<and> k = netting_domain_key (agg_domain a)"
  have row: "\<exists>d. (t, d, Some k) \<in> set (map domain_view (ks_tickets s))" if h: "?held t k" for t k
  proof -
    obtain a where a: "stored t s = Some a" "k = netting_domain_key (agg_domain a)"
        "phase a \<notin> {Discarded, Settled} \<or> 0 < ag_position_qty a"
      using h by blast
    then have "capital_charge a = 0"
      using exposed_capital_open[OF l a(1)] by (auto simp: capital_charge_def)
    then show ?thesis using d a unfolding domain_ok_def by blast
  qed
  have "t = u" if "?held t k" "?held u k" for t u k
    using row[OF that(1)] row[OF that(2)] d unfolding domain_ok_def by blast
  then have "(SOME u. ?held u k) = t" if "?held t k" for t k
    using that someI[of "\<lambda>u. ?held u k" t] by blast
  then show ?thesis unfolding loaded_stored by (intro exI[of _ "\<lambda>k. SOME u. ?held u k"]) blast
qed

theorem netting_domain_exclusive_witness:
  "\<exists>owner. owner ''b:a:i:long'' = ''t'' \<and> aggregates_get (owner ''b:a:i:long'') demo_store
     = Inr (Some (new_aggregate demo_ct ENTRY_PENDING 1 1))"
proof -
  have "phase (new_aggregate demo_ct ENTRY_PENDING 1 1) \<notin> {Discarded, Settled}"
    "netting_domain_key (agg_domain (new_aggregate demo_ct ENTRY_PENDING 1 1)) = ''b:a:i:long''"
    using demo_domain by (simp_all add: demo_ct_sel)
  then show ?thesis using netting_domain_exclusive[OF demo_reachable] demo_loaded by metis
qed

text \<open>
  C13. Exactly-once command generations: the commands of one Ticket and kind are the generations one, two, \<open>\<dots>\<close>
  without gap or repetition in the order they were written, and apart from cancels every generation but the
  last was rejected, found absent, or was an accepted stop replacement before the next one was written. So at
  most one submission of a kind is ever outstanding, and an unknown outcome is never submitted again.
\<close>

theorem command_generations_exact:
  assumes "reachable_store s"
  shows "map (\<lambda>r. ec_generation (co_command r)) (commands_of t k (ks_commands s))
      = map int [1..<Suc (length (commands_of t k (ks_commands s)))]
    \<and> (k \<noteq> CANCEL_ORDER \<longrightarrow> length (filter live (commands_of t k (ks_commands s))) \<le> 1
        \<and> list_all (\<lambda>r. retry_allowed k (row_status r)) (butlast (commands_of t k (ks_commands s))))"
proof -
  let ?rows = "commands_of t k (ks_commands s)"
  have ok: "map (\<lambda>r. ec_generation (co_command r)) ?rows = map int [1..<Suc (length ?rows)]"
    "k \<noteq> CANCEL_ORDER \<Longrightarrow> \<forall>r\<in>set (butlast ?rows). retry_allowed k (row_status r)"
    using command_log.reachable_inv[OF assms] unfolding commands_ok_def by blast+
  have "length (filter live ?rows) \<le> 1" if "k \<noteq> CANCEL_ORDER"
  proof (cases "?rows = []")
    case False
    have "filter live (butlast ?rows) = []"
      using ok(2)[OF that] by (auto simp: filter_empty_conv retry_allowed_def live_def)
    then have "filter live (butlast ?rows @ [last ?rows]) = filter live [last ?rows]" by simp
    then show ?thesis unfolding append_butlast_last_id[OF False] by simp
  qed simp
  then show ?thesis using ok by (simp add: list_all_iff)
qed

theorem command_generations_exact_witness:
  "length (filter live (commands_of ''t'' ENTRY (ks_commands demo_store))) = 1
    \<and> map (\<lambda>r. ec_generation (co_command r)) (commands_of ''t'' ENTRY (ks_commands demo_store)) = [1]"
proof -
  have "commands_of ''t'' ENTRY (ks_commands demo_store)
      = [\<lparr>co_command = demo_command, co_result_payload = None, co_claim_owner = None,
          co_lease_until_ms = None, co_completed_at_ms = None\<rparr>]"
    by (simp add: commands_of_def demo_store_def demo_command_sel)
  then show ?thesis
    using command_generations_exact[OF demo_reachable, of "''t''" ENTRY] by (simp add: live_def demo_command_sel)
qed

text \<open>
  C14. Every stored command passes its own validators, and its order cannot add exposure except to enter: an
  ENTRY order opens the side of its Ticket, and every other order is reduce-only on the closing side.
\<close>

theorem stored_commands_sound:
  assumes "reachable_store s" "r \<in> set (ks_commands s)"
  shows "mk_exchange_command (co_command r) = Inr (co_command r)
    \<and> sound_payload (ec_ticket_identity (co_command r)) (ec_kind (co_command r)) (ec_payload (co_command r))"
  using sound_commands.reachable_inv[OF assms(1)] assms(2) by (simp add: list_all_iff sound_command_def)

theorem stored_commands_sound_witness:
  "mk_exchange_command demo_command = Inr demo_command
    \<and> sound_payload (tk_identity demo_ticket) ENTRY (ec_payload demo_command)"
  using stored_commands_sound[OF demo_reachable, of "hd (ks_commands demo_store)"]
  by (simp add: demo_store_def demo_command_sel)

text \<open>
  C16. Loading never fails on a reachable store: for every identity the aggregate read returns, nothing when no
  Ticket row has it, and otherwise an aggregate whose Ticket passes the Ticket validators, whose identity is
  the Ticket's, whose version is the number of its events and whose position is not negative and, for a
  quantity of at most 28 digits, within the Ticket quantity.
\<close>

theorem loaded_aggregates_well_typed:
  assumes "reachable_store s"
  shows "case aggregates_get t s of
      Inl _ \<Rightarrow> False
    | Inr None \<Rightarrow> t \<notin> set (map row_ticket_id (ks_tickets s))
    | Inr (Some a) \<Rightarrow> t \<in> set (map row_ticket_id (ks_tickets s)) \<and> valid_ticket (ag_ticket a)
        \<and> ag_identity a = tk_identity (ag_ticket a) \<and> agg_ticket_id a = t 
        \<and> ag_version a = int (length (events_list_for_ticket t s)) \<and> 0 < ag_version a \<and> 0 \<le> ag_position_qty a
        \<and> (representable (tk_quantity (ag_ticket a)) \<longrightarrow> ag_position_qty a \<le> tk_quantity (ag_ticket a))"
proof (cases "List.find (\<lambda>b. agg_ticket_id b = t) (ks_aggregates s)")
  case None
  have "map agg_ticket_id (ks_aggregates s) = map row_ticket_id (ks_tickets s)"
    using reachable_log[OF assms] by (simp add: log_ok_def)
  then have "set (map row_ticket_id (ks_tickets s)) = set (map agg_ticket_id (ks_aggregates s))" by simp
  then have "t \<notin> set (map row_ticket_id (ks_tickets s))" using None by (auto simp: find_None)
  then show ?thesis using None by (simp add: aggregates_get_def)
next
  case (Some b)
  have l: "log_ok s" by (rule reachable_log[OF assms])
  have "set (map agg_ticket_id (ks_aggregates s)) = set (map row_ticket_id (ks_tickets s))"
    using l by (simp add: log_ok_def)
  moreover have "b \<in> set (ks_aggregates s)" "agg_ticket_id b = t" using find_Some_set[OF Some] by simp_all
  ultimately have "t \<in> set (map row_ticket_id (ks_tickets s))" by auto
  then obtain k where k: "tickets_get t s = Some k"
    by (cases "tickets_get t s") (auto simp: tickets_get_def find_None)
  then obtain a where a: "aggregates_get t s = Inr (Some a)" using Some by (simp add: aggregates_get_def)
  then have st: "stored t s = Some a" by (simp add: loaded_stored)
  obtain c fx where c: "history c (log_of t s) fx" "a = as_stored c" "ag_identity c = tk_identity (ag_ticket c)"
      "ag_version a = int (length (log_of t s))" "log_of t s \<noteq> []" "agg_ticket_id a = t"
    using log_ok_facts[OF l st] .
  have "ag_position_qty (as_stored c) = ag_position_qty c" by (simp add: as_stored_def loaded_with_def)
  moreover have "lifecycle_ok c" "valid_ticket (ag_ticket c)" using lc.history_inv[OF c(1)] by blast+
  ultimately show ?thesis
    using a c(2-6) stored_row[OF st] ok_facts(1,19)[of c] listed_log[OF c(1)] by (simp add: as_stored_def closed_valid)
qed

theorem loaded_aggregates_well_typed_witness:
  "valid_ticket demo_ct \<and> 0 \<le> ag_position_qty (new_aggregate demo_ct ENTRY_PENDING 1 1)
    \<and> length (events_list_for_ticket ''t'' demo_store) = 1"
  using loaded_aggregates_well_typed[OF demo_reachable, of "''t''"] by (simp add: demo_loaded)



text \<open>
  A LIMIT entry cannot be submitted: the ENTRY builder sets a limit price but no time in force, which the
  order payload requires, so it raises for every LIMIT Ticket, and no issue request for one succeeds.
\<close>

theorem limit_entry_never_issued:
  assumes "tk_entry_order_type k = LIMIT" "to_ticket (iq_capacity_claim q) = Inr k"
  shows "\<not> ok (entry_command k d n) \<and> issue_ticket_request A q s \<noteq> Inr (s', ISSUED)"
proof
  show e: "\<not> ok (entry_command k d n)" for d n
    using assms(1) by (auto simp: entry_command_def ok_iff mk_order_payload_iff valid_order_payload_def plain_order_def)
  show "issue_ticket_request A q s \<noteq> Inr (s', ISSUED)"
  proof
    assume "issue_ticket_request A q s = Inr (s', ISSUED)"
    then show False
    proof (cases rule: issue_ticket_cases)
      case (issued j)
      then have flat: "\<not> tk_leverage_change_required k" and r: "reserve_and_issue (iq_capacity_claim q) k (iq_now_ms q)
          (iq_claim_owner q) (snd (lock_global_lane s)) (fst (lock_global_lane s)) = Inr s'"
        using assms(2) by (auto simp: policy_refusal_def split: option.splits if_splits)
      have "\<exists>a s3. commit_reduction (issue_event k (iq_now_ms q)) (a, [PrepareEntryCommand k None]) 0 s3 = Inr s'"
        by (rule reserve_and_issueE[OF r]) (use flat in auto)
      then obtain a s3 where c: "commit_reduction (issue_event k (iq_now_ms q)) (a, [PrepareEntryCommand k None]) 0 s3 = Inr s'"
        by blast
      obtain s4 s5 where "materialize_effects a (event_header_of (issue_event k (iq_now_ms q))) [PrepareEntryCommand k None] s4 = Inr s5"
        by (rule commit_reductionE[OF c])
      then show False using e by (auto simp: add_command_def ok_iff)
    qed simp
  qed
qed

theorem limit_entry_never_issued_witness:
  "valid_claim demo_limit_claim \<and> to_ticket demo_limit_claim = Inr (claim_ticket demo_limit_claim)
    \<and> \<not> ok (entry_command (claim_ticket demo_limit_claim) demo_digest 1)
    \<and> issue_ticket_request demo_authority (demo_issue\<lparr>iq_capacity_claim := demo_limit_claim\<rparr>) empty_store
        \<noteq> Inr (demo_store, ISSUED)"
proof -
  have k: "to_ticket demo_limit_claim = Inr (claim_ticket demo_limit_claim)"
    unfolding to_ticket_iff[OF demo_limit_claim_valid] by (simp add: demo_limit_claim_def demo_claim_eval)
  moreover have "tk_entry_order_type (claim_ticket demo_limit_claim) = LIMIT"
    by (simp add: claim_ticket_def demo_limit_claim_def demo_claim_eval)
  ultimately show ?thesis
    using limit_entry_never_issued[of "claim_ticket demo_limit_claim" "demo_issue\<lparr>iq_capacity_claim := demo_limit_claim\<rparr>"]
      demo_limit_claim_valid by simp
qed

text \<open>
  A partial fill observed before the ENTRY order was acknowledged cannot be recorded: the reducer accepts the
  event, but its effect to cancel the remainder has no order identity to cancel, so the transaction raises and
  the exposure stays out of the store.
\<close>

theorem unacknowledged_partial_fill_not_recorded:
  assumes "reduce_event (Some a) (TicketEvent h t (EntryPartiallyFilled q n p)) = Inr r"
    "ag_entry_exchange_order_id a = None"
  shows "\<not> ok (commit_reduction (TicketEvent h t (EntryPartiallyFilled q n p)) r v s)"
proof
  let ?e = "TicketEvent h t (EntryPartiallyFilled q n p)"
  assume "ok (commit_reduction ?e r v s)"
  then obtain s' where s': "commit_reduction ?e r v s = Inr s'" by (auto simp: ok_iff)
  obtain b where b: "r = (b, [OpenIncident (agg_ticket_id a) ''unsupported_partial_entry_fill'',
      CancelEntryRemainder (agg_ticket_id a), RequestControlledFlatten (agg_ticket_id a) q])" "ag_entry_exchange_order_id b = None"
    using assms by (cases r) (auto simp: reduce_event_Some_iff on_entry_partially_filled_def)
  obtain s2 s3 where "materialize_effects b (event_header_of ?e) [OpenIncident (agg_ticket_id a) ''unsupported_partial_entry_fill'',
      CancelEntryRemainder (agg_ticket_id a), RequestControlledFlatten (agg_ticket_id a) q] s2 = Inr s3"
    by (rule commit_reductionE[OF s'[unfolded b(1)]])
  then show False using b(2) by auto
qed

theorem unacknowledged_partial_fill_not_recorded_witness:
  "\<exists>r. reduce_event (Some (new_aggregate demo_ct ENTRY_PENDING 1 1)) (TicketEvent (demo_header 2) ''t'' (EntryPartiallyFilled 1 2 100)) = Inr r
    \<and> \<not> ok (commit_reduction (TicketEvent (demo_header 2) ''t'' (EntryPartiallyFilled 1 2 100)) r 1 demo_store)"
proof -
  have "tk_quantity demo_ct = 2" by (simp add: claim_ticket_def demo_claim_eval)
  then have "\<exists>r. reduce_event (Some (new_aggregate demo_ct ENTRY_PENDING 1 1))
      (TicketEvent (demo_header 2) ''t'' (EntryPartiallyFilled 1 2 100)) = Inr r"
    by (auto simp: reduce_event_def demo_eval demo_ct_sel event_sequence_def new_aggregate_def)
  then show ?thesis using unacknowledged_partial_fill_not_recorded by fastforce
qed

end
