(* ===== verification/Lane_Blockage.thy ===== *)
theory Lane_Blockage
  imports Store_Properties
begin

text \<open>
  What a lane that outlives its Ticket does to the whole kernel. Only the reduction of the owning Ticket gives
  the ENTRY lane back, so a settled Ticket that still holds it refuses every later entry of every strategy.
\<close>

definition lane_orphaned :: "string \<Rightarrow> kernel_store \<Rightarrow> bool" where
  "lane_orphaned t s \<longleftrightarrow> log_ok s \<and> lane_ok s \<and> (\<exists>a. stored t s = Some a \<and> phase a = Settled \<and> ag_entry_lane_held a)"

lemma orphaned_row:
  "lane_orphaned t s \<Longrightarrow> \<exists>l. ks_lane s = Some l \<and> ln_status l = ''claimed'' \<and> ln_ticket_id l = Some t"
proof -
  assume o: "lane_orphaned t s"
  then have "t \<in> lane_owner (ks_lane s)" by (auto simp: lane_orphaned_def lane_ok_def holders_def)
  then show ?thesis by (auto simp: lane_owner_def split: option.splits if_splits)
qed

text \<open>Nothing a settled Ticket accepts gives the lane back.\<close>

lemma settled_step:
  "reduce_fact a h f = Inr (b, fx) \<Longrightarrow> phase a = Settled \<Longrightarrow> phase b = Settled \<and> ag_entry_lane_held b = ag_entry_lane_held a"
  by (cases f) (auto simp: step_simps split: step_splits)

lemma as_stored_phase [simp]: "ag_status (as_stored b) = ag_status b"
  by (simp add: as_stored_def)

lemma orphaned_step:
  assumes "lane_orphaned t s" "kernel_step s s'"
  shows "lane_orphaned t s'"
proof -
  obtain a where a: "log_ok s" "lane_ok s" "stored t s = Some a" "phase a = Settled" "ag_entry_lane_held a"
    using assms(1) by (auto simp: lane_orphaned_def)
  have ok: "log_ok s'" "lane_ok s'" using a(1,2) assms(2) log.step_inv entry_lane.step_inv by blast+
  have "\<exists>a. stored t s' = Some a \<and> phase a = Settled \<and> ag_entry_lane_held a"
    using assms(2)
  proof cases
    case (issue q q' A status)
    from issue(2) show ?thesis
    proof (cases rule: issue_ticket_cases)
      case (refused k)
      then have "stored t s' = stored t s" unfolding lock_global_lane_writes by (intro stored_cong) simp_all
      then show ?thesis using a by simp
    next
      case (issued k)
      then show ?thesis using orphaned_row[OF assms(1)] by (auto simp: lock_global_lane_def)
    qed
  next
    case (commit u c e r)
    obtain c' fx where r: "r = (c', fx)" by (cases r)
    have st: "stored u s = Some c" using commit(1) by (simp add: loaded_stored)
    obtain b b' h f where b: "c = as_stored b" "reduce_fact b h f = Inr (b', fx)"
        "\<And>v. stored v s' = (if v = u then Some (as_stored b') else stored v s)"
      using commit_step[OF a(1) st commit(2) commit(3)[unfolded r] commit(4)[unfolded r]] by metis
    show ?thesis
      using a(3-5) b(1,3) st settled_step[OF b(2)] by (cases "t = u") auto
  next
    case worker
    then have "quiet s s'" by (rule worker_quiet)
    then have "stored t s' = stored t s" by (intro stored_cong) (simp_all add: quiet_def)
    then show ?thesis using a by simp
  qed
  then show ?thesis using ok by (simp add: lane_orphaned_def)
qed

lemma orphaned_forever: "kernel_step\<^sup>*\<^sup>* s s' \<Longrightarrow> lane_orphaned t s \<Longrightarrow> lane_orphaned t s'"
  by (induction rule: rtranclp_induct) (auto intro: orphaned_step)

text \<open>
  C26. A lane held by a settled Ticket is lost for good: in a store that satisfies the log and lane invariants of
  every reachable store, if a settled Ticket still holds the ENTRY lane then after any sequence of kernel
  transactions the lane is still claimed by it, and every further issue request is refused as occupied.
\<close>

theorem orphaned_lane_blocks_entries:
  assumes "log_ok s" "lane_ok s" "aggregates_get t s = Inr (Some a)" "phase_of (ag_status a) = Settled" "ag_entry_lane_held a"
    "kernel_step\<^sup>*\<^sup>* s s'"
  shows "(\<exists>l. ks_lane s' = Some l \<and> ln_status l = ''claimed'' \<and> ln_ticket_id l = Some t)
    \<and> (issue_ticket_request A q s' = Inr (s'', status) \<longrightarrow> status = ENTRY_LANE_OCCUPIED \<and> s'' = s')"
proof -
  have "lane_orphaned t s" using assms by (auto simp: lane_orphaned_def loaded_stored)
  then obtain l where l: "ks_lane s' = Some l" "ln_status l = ''claimed''" "ln_ticket_id l = Some t"
    using orphaned_row orphaned_forever[OF assms(6)] by blast
  then show ?thesis by (auto simp: issue_ticket_request_def Let_def lock_global_lane_def)
qed

text \<open>The store of the run that settles with the lane held.\<close>

definition demo_orphan :: kernel_store where
  "demo_orphan = empty_store\<lparr>
     ks_tickets := [\<lparr>tr_ticket = closed_ticket TERMINAL demo_ticket, tr_active_netting_domain_key = None,
        tr_terminal_at_ms = Some 11\<rparr>],
     ks_aggregates := [demo_early_tp], ks_events := demo_events demo_early_tp_facts,
     ks_lane := Some \<lparr>ln_ticket_id = Some ''t'', ln_signal_event_id = Some ''s'', ln_status = ''claimed'',
        ln_claimed_at_ms = Some 1, ln_lease_until_ms = Some 2, ln_claim_owner = Some ''w'', ln_version = 1\<rparr>\<rparr>"

lemma demo_orphan_stored: "stored u demo_orphan = (if u = ''t'' then Some (as_stored demo_early_tp) else None)"
  by (simp add: stored_def aggregates_get_def tickets_get_def demo_orphan_def empty_store_def as_stored_def
      demo_early_tp_def demo_initial_def loaded_with_def)

lemma demo_orphan_ok: "log_ok demo_orphan" "lane_ok demo_orphan"
proof -
  have ids: "list_all (\<lambda>e. event_ticket_id e = ''t'') (demo_stream n fs)" for n fs
    by (induction fs arbitrary: n) simp_all
  then have own: "list_all (\<lambda>e. event_ticket_id e = ''t'') (ks_events demo_orphan)"
    by (simp add: demo_orphan_def demo_events_def)
  then have "log_of ''t'' demo_orphan = demo_events demo_early_tp_facts"
    by (simp add: log_of_def list_all_iff demo_orphan_def filter_id_conv)
  then have "\<exists>fx. history demo_early_tp (log_of ''t'' demo_orphan) fx" using demo_early_tp_history by simp
  moreover have "agg_ticket_id demo_early_tp = ''t''" by (simp add: demo_early_tp_def demo_initial_def)
  moreover have "\<forall>e\<in>set (ks_events demo_orphan). event_ticket_id e = ''t''" using own by (simp add: list_all_iff)
  ultimately show "log_ok demo_orphan"
    unfolding log_ok_def demo_orphan_stored by (auto simp: demo_orphan_def)
  have "holders demo_orphan = {''t''}"
    by (auto simp: holders_def demo_orphan_stored demo_early_tp_def demo_initial_def split: if_splits)
  then show "lane_ok demo_orphan" by (simp add: lane_ok_def lane_owner_def) (simp add: demo_orphan_def)
qed

theorem orphaned_lane_blocks_entries_witness:
  "issue_ticket_request demo_authority demo_issue demo_orphan = Inr (demo_orphan, ENTRY_LANE_OCCUPIED)"
proof -
  have "aggregates_get ''t'' demo_orphan = Inr (Some (as_stored demo_early_tp))"
    by (simp add: loaded_stored demo_orphan_stored)
  moreover have "phase (as_stored demo_early_tp) = Settled" "ag_entry_lane_held (as_stored demo_early_tp)"
    by (simp_all add: demo_early_tp_def demo_initial_def)
  moreover obtain s status where i: "issue_ticket_request demo_authority demo_issue demo_orphan = Inr (s, status)"
    using demo_to_ticket by (simp add: issue_ticket_request_def Let_def lock_global_lane_def demo_orphan_def demo_issue_def)
  ultimately show ?thesis
    using orphaned_lane_blocks_entries[OF demo_orphan_ok, of "''t''" _ demo_orphan] by auto
qed

end
