(* ===== verification/Entry_Health.thy ===== *)
theory Entry_Health
  imports Kernel_Store
begin

text \<open>
  The facts an ENTRY is admitted on: one frozen observation of the venue account
  (\<open>domain/entry_admission_snapshot.py\<close>), what the kernel owns there
  (\<open>PgEntryAdmissionRepository.read_admission_ownership\<close>), and the two classifications of the one against the
  other, of the whole account (\<open>domain/account_entry_health.py\<close>) and of the requested instrument
  (\<open>domain/instrument_entry_health.py\<close>).
\<close>

section \<open>The admission snapshot\<close>

record admission_order =
  ao_exchange_order_id :: string
  ao_venue_client_order_id :: "string option"
  ao_exchange_instrument_id :: string
  ao_position_side :: position_side
  ao_reduce_only :: bool
  ao_order_namespace :: order_namespace
  ao_order_side :: "order_side option"
  ao_quantity :: "decimal option"
  ao_trigger_price :: "decimal option"
  ao_limit_price :: "decimal option"

definition mk_admission_order :: "admission_order \<Rightarrow> admission_order result" where
  "mk_admission_order o' =
     (if non_blank (ao_exchange_order_id o') \<and> non_blank (ao_exchange_instrument_id o')
         \<and> positive_opt (ao_quantity o') \<and> positive_opt (ao_trigger_price o') \<and> positive_opt (ao_limit_price o')
      then Inr (o'\<lparr>ao_exchange_order_id := py_strip (ao_exchange_order_id o'),
                   ao_exchange_instrument_id := py_strip (ao_exchange_instrument_id o'),
                   ao_venue_client_order_id := blank_to_none (py_strip_opt (ao_venue_client_order_id o'))\<rparr>)
      else Inl ValidationError)"

record owned_position_projection =
  ow_netting_domain_key :: string
  ow_quantity :: decimal

definition mk_owned_position :: "owned_position_projection \<Rightarrow> owned_position_projection result" where
  "mk_owned_position p =
     (if non_blank (ow_netting_domain_key p) \<and> 0 \<le> ow_quantity p
      then Inr (p\<lparr>ow_netting_domain_key := py_strip (ow_netting_domain_key p)\<rparr>) else Inl ValidationError)"

record admission_ownership =
  aw_owned_position_domain_keys :: "string list"
  aw_owned_position_projections :: "owned_position_projection list"
  aw_owned_exchange_order_ids :: "string list"
  aw_open_incident_scopes :: "entry_block_scope list"
  aw_unknown_command_outcome_ticket_ids :: "string list"

text \<open>
  The validators of \<open>AdmissionOwnership\<close>: three tuples of identities, stripped, non-blank and unique, and one
  projection per owned domain.
\<close>

definition unique_identities :: "string list \<Rightarrow> bool" where
  "unique_identities ids \<longleftrightarrow> list_all (\<lambda>i. i \<noteq> []) ids \<and> distinct ids"

definition mk_admission_ownership :: "admission_ownership \<Rightarrow> admission_ownership result" where
  "mk_admission_ownership w =
     (let w' = w\<lparr>aw_owned_position_domain_keys := map py_strip (aw_owned_position_domain_keys w),
                 aw_owned_exchange_order_ids := map py_strip (aw_owned_exchange_order_ids w),
                 aw_unknown_command_outcome_ticket_ids := map py_strip (aw_unknown_command_outcome_ticket_ids w)\<rparr>;
          projection_keys = map ow_netting_domain_key (aw_owned_position_projections w')
      in if unique_identities (aw_owned_position_domain_keys w')
            \<and> unique_identities (aw_owned_exchange_order_ids w')
            \<and> unique_identities (aw_unknown_command_outcome_ticket_ids w')
            \<and> distinct projection_keys \<and> set projection_keys = set (aw_owned_position_domain_keys w')
         then Inr w' else Inl ValidationError)"

definition projected_position_quantity :: "admission_ownership \<Rightarrow> string \<Rightarrow> decimal option" where
  "projected_position_quantity w key =
     map_option ow_quantity (List.find (\<lambda>p. ow_netting_domain_key p = key) (aw_owned_position_projections w))"

record entry_admission_snapshot =
  en_account_risk_snapshot :: account_risk_snapshot
  en_best_bid_price :: decimal
  en_best_ask_price :: decimal
  en_open_orders :: "admission_order list"
  en_observed_at_ms :: int
  en_valid_until_ms :: int

text \<open>The validators of \<open>EntryAdmissionSnapshot\<close> on validated parts.\<close>

definition valid_admission_snapshot :: "entry_admission_snapshot \<Rightarrow> bool" where
  "valid_admission_snapshot n \<longleftrightarrow>
     valid_snapshot (en_account_risk_snapshot n)
     \<and> 0 < en_best_bid_price n \<and> 0 < en_best_ask_price n
     \<and> list_all (\<lambda>x. mk_admission_order x = Inr x) (en_open_orders n)
     \<and> 0 < en_observed_at_ms n \<and> en_observed_at_ms n < en_valid_until_ms n
     \<and> as_observed_at_ms (en_account_risk_snapshot n) = en_observed_at_ms n
     \<and> as_valid_until_ms (en_account_risk_snapshot n) = en_valid_until_ms n
     \<and> en_best_bid_price n \<le> en_best_ask_price n
     \<and> distinct (map ao_exchange_order_id (en_open_orders n))"

fun order_side_value :: "order_side \<Rightarrow> string" where
  "order_side_value Buy = ''buy''"
| "order_side_value Sell = ''sell''"

fun namespace_value :: "order_namespace \<Rightarrow> string" where
  "namespace_value Regular = ''regular''"
| "namespace_value Conditional = ''conditional''"

definition admission_order_json :: "admission_order \<Rightarrow> json" where
  "admission_order_json x = JObj
     [(''exchange_order_id'', JStr (ao_exchange_order_id x)),
      (''venue_client_order_id'', json_option JStr (ao_venue_client_order_id x)),
      (''exchange_instrument_id'', JStr (ao_exchange_instrument_id x)),
      (''position_side'', JStr (side_value (ao_position_side x))),
      (''reduce_only'', JBool (ao_reduce_only x)),
      (''order_namespace'', JStr (namespace_value (ao_order_namespace x))),
      (''order_side'', json_option (\<lambda>v. JStr (order_side_value v)) (ao_order_side x)),
      (''quantity'', json_option json_decimal (ao_quantity x)),
      (''trigger_price'', json_option json_decimal (ao_trigger_price x)),
      (''limit_price'', json_option json_decimal (ao_limit_price x))]"

definition admission_digest :: "entry_admission_snapshot \<Rightarrow> string" where
  "admission_digest n = canonical_digest (JObj
     [(''account_risk_snapshot'', snapshot_json (en_account_risk_snapshot n)),
      (''best_bid_price'', json_decimal (en_best_bid_price n)),
      (''best_ask_price'', json_decimal (en_best_ask_price n)),
      (''open_orders'', JList (map admission_order_json (en_open_orders n))),
      (''observed_at_ms'', JInt (en_observed_at_ms n)),
      (''valid_until_ms'', JInt (en_valid_until_ms n))])"

definition position_domain_key :: "entry_admission_snapshot \<Rightarrow> account_risk_position \<Rightarrow> string" where
  "position_domain_key n p =
     as_venue_id (en_account_risk_snapshot n) @ '':'' @ as_account_id (en_account_risk_snapshot n) @ '':''
     @ ap_exchange_instrument_id p @ '':'' @ side_value (ap_position_side p)"

section \<open>What the kernel owns\<close>

fun scope_value :: "entry_block_scope \<Rightarrow> string" where
  "scope_value RUNTIME = ''runtime''"
| "scope_value ACCOUNT_CAPACITY = ''account_capacity''"
| "scope_value LEVERAGE_DOMAIN = ''leverage_domain''"
| "scope_value NO_BLOCK = ''none''"

text \<open>Aggregate rows joined with the Ticket rows of one account that hold a netting domain, with its key.\<close>

definition active_aggregates ::
  "string \<Rightarrow> string \<Rightarrow> kernel_store \<Rightarrow> (string \<times> trade_aggregate) list" where
  "active_aggregates venue_id account_id s =
     concat (map (\<lambda>r. case tr_active_netting_domain_key r of
           None \<Rightarrow> []
         | Some key \<Rightarrow>
             if account_ticket venue_id account_id r
             then map (Pair key) (filter (\<lambda>a. agg_ticket_id a = row_ticket_id r) (ks_aggregates s))
             else []) (ks_tickets s))"

definition owned_order_ids :: "trade_aggregate \<Rightarrow> string option list" where
  "owned_order_ids a =
     [ag_entry_exchange_order_id a, ag_initial_stop_exchange_order_id a, ag_active_stop_exchange_order_id a,
      ag_tp1_exchange_order_id a, ag_pending_replaced_stop_exchange_order_id a,
      ag_pending_cancel_exchange_order_id a, ag_exit_exchange_order_id a]"

definition present_ids :: "string option list \<Rightarrow> string list" where
  "present_ids ids = concat (map (\<lambda>v. case v of None \<Rightarrow> [] | Some i \<Rightarrow> if non_blank i then [i] else []) ids)"

definition unknown_outcome_tickets :: "string \<Rightarrow> string \<Rightarrow> kernel_store \<Rightarrow> string list" where
  "unknown_outcome_tickets venue_id account_id s =
     map row_command_ticket (filter (\<lambda>c. row_status c = OUTCOME_UNKNOWN
        \<and> list_ex (\<lambda>r. row_ticket_id r = row_command_ticket c \<and> account_ticket venue_id account_id r
             \<and> tr_active_netting_domain_key r \<noteq> None) (ks_tickets s)) (ks_commands s))"

definition read_admission_ownership ::
  "string \<Rightarrow> string \<Rightarrow> string \<Rightarrow> kernel_store \<Rightarrow> admission_ownership result" where
  "read_admission_ownership venue_id account_id exchange_instrument_id s =
     (let domains = sort_key fst (active_aggregates venue_id account_id s)
      in bind_result (open_incident_scopes venue_id account_id exchange_instrument_id s) (\<lambda>scopes.
         mk_admission_ownership
           \<lparr>aw_owned_position_domain_keys = map fst domains,
            aw_owned_position_projections = map (\<lambda>(key, a). \<lparr>ow_netting_domain_key = key,
               ow_quantity = ag_position_qty a\<rparr>) domains,
            aw_owned_exchange_order_ids = sort (remdups (concat (map (\<lambda>(key, a).
               present_ids (owned_order_ids a)) domains))),
            aw_open_incident_scopes = sort_key scope_value (remdups scopes),
            aw_unknown_command_outcome_ticket_ids =
               sort (remdups (unknown_outcome_tickets venue_id account_id s))\<rparr>))"

section \<open>Health of the account\<close>

datatype account_health_status =
    AH_HEALTHY | AH_RUNTIME_FENCED | AH_ACCOUNT_INCIDENT | AH_UNKNOWN_COMMAND_OUTCOME | AH_UNOWNED_POSITION
  | AH_UNOWNED_ORDER

fun account_health_value :: "account_health_status \<Rightarrow> string" where
  "account_health_value AH_HEALTHY = ''healthy''"
| "account_health_value AH_RUNTIME_FENCED = ''runtime_fenced''"
| "account_health_value AH_ACCOUNT_INCIDENT = ''account_incident''"
| "account_health_value AH_UNKNOWN_COMMAND_OUTCOME = ''unknown_command_outcome''"
| "account_health_value AH_UNOWNED_POSITION = ''unowned_position''"
| "account_health_value AH_UNOWNED_ORDER = ''unowned_order''"

record account_entry_health =
  ah_status :: account_health_status
  ah_entry_block_scope :: entry_block_scope
  ah_entry_block_key :: "string option"
  ah_entry_admission_snapshot_digest :: string
  ah_decision_digest :: string

definition account_health ::
  "entry_admission_snapshot \<Rightarrow> account_health_status \<Rightarrow> entry_block_scope \<Rightarrow> account_entry_health result" where
  "account_health n status scope =
     bind_result (canonical_entry_block_key scope (as_venue_id (en_account_risk_snapshot n))
        (as_account_id (en_account_risk_snapshot n)) None) (\<lambda>key.
       Inr \<lparr>ah_status = status, ah_entry_block_scope = scope, ah_entry_block_key = key,
            ah_entry_admission_snapshot_digest = admission_digest n,
            ah_decision_digest = canonical_digest (JObj
              [(''status'', JStr (account_health_value status)),
               (''entry_block_scope'', JStr (scope_value scope)),
               (''entry_block_key'', json_option JStr key),
               (''entry_admission_snapshot_digest'', JStr (admission_digest n))])\<rparr>)"

text \<open>A position that no owned netting domain explains, an order that no aggregate names.\<close>

definition unowned_position ::
  "entry_admission_snapshot \<Rightarrow> admission_ownership \<Rightarrow> account_risk_position \<Rightarrow> bool" where
  "unowned_position n w p \<longleftrightarrow>
     0 < ap_quantity p \<and> position_domain_key n p \<notin> set (aw_owned_position_domain_keys w)"

definition unowned_order :: "admission_ownership \<Rightarrow> admission_order \<Rightarrow> bool" where
  "unowned_order w x \<longleftrightarrow> ao_exchange_order_id x \<notin> set (aw_owned_exchange_order_ids w)"

definition classify_account_entry_health ::
  "entry_admission_snapshot \<Rightarrow> admission_ownership \<Rightarrow> account_entry_health result" where
  "classify_account_entry_health n w =
     (if RUNTIME \<in> set (aw_open_incident_scopes w) then account_health n AH_RUNTIME_FENCED RUNTIME
      else if aw_unknown_command_outcome_ticket_ids w \<noteq> []
      then account_health n AH_UNKNOWN_COMMAND_OUTCOME ACCOUNT_CAPACITY
      else if ACCOUNT_CAPACITY \<in> set (aw_open_incident_scopes w)
      then account_health n AH_ACCOUNT_INCIDENT ACCOUNT_CAPACITY
      else if list_ex (unowned_position n w) (as_account_positions (en_account_risk_snapshot n))
      then account_health n AH_UNOWNED_POSITION ACCOUNT_CAPACITY
      else if list_ex (unowned_order w) (en_open_orders n)
      then account_health n AH_UNOWNED_ORDER ACCOUNT_CAPACITY
      else account_health n AH_HEALTHY NO_BLOCK)"

section \<open>Health of the instrument\<close>

datatype instrument_health_status =
    IH_HEALTHY_FLAT | IH_HEALTHY_OPPOSITE_SIDE | IH_SAME_DIRECTION_OCCUPIED | IH_RUNTIME_FENCED
  | IH_UNKNOWN_COMMAND_OUTCOME | IH_UNOWNED_POSITION | IH_UNOWNED_ORDER | IH_OWNED_RESIDUAL_ORDER
  | IH_LEVERAGE_DOMAIN_INCIDENT

fun instrument_health_value :: "instrument_health_status \<Rightarrow> string" where
  "instrument_health_value IH_HEALTHY_FLAT = ''healthy_flat''"
| "instrument_health_value IH_HEALTHY_OPPOSITE_SIDE = ''healthy_opposite_side''"
| "instrument_health_value IH_SAME_DIRECTION_OCCUPIED = ''same_direction_occupied''"
| "instrument_health_value IH_RUNTIME_FENCED = ''runtime_fenced''"
| "instrument_health_value IH_UNKNOWN_COMMAND_OUTCOME = ''unknown_command_outcome''"
| "instrument_health_value IH_UNOWNED_POSITION = ''unowned_position''"
| "instrument_health_value IH_UNOWNED_ORDER = ''unowned_order''"
| "instrument_health_value IH_OWNED_RESIDUAL_ORDER = ''owned_residual_order''"
| "instrument_health_value IH_LEVERAGE_DOMAIN_INCIDENT = ''leverage_domain_incident''"

record instrument_entry_health =
  ih_status :: instrument_health_status
  ih_configured_leverage :: int
  ih_leverage_change_allowed :: bool
  ih_entry_block_scope :: entry_block_scope
  ih_entry_block_key :: "string option"
  ih_entry_admission_snapshot_digest :: string
  ih_decision_digest :: string

definition instrument_health ::
  "entry_admission_snapshot \<Rightarrow> string \<Rightarrow> instrument_health_status \<Rightarrow> bool \<Rightarrow> entry_block_scope
   \<Rightarrow> instrument_entry_health result" where
  "instrument_health n instrument status change_allowed scope =
     (let leverage = as_configured_leverage (en_account_risk_snapshot n)
      in bind_result (canonical_entry_block_key scope (as_venue_id (en_account_risk_snapshot n))
           (as_account_id (en_account_risk_snapshot n)) (Some instrument)) (\<lambda>key.
         Inr \<lparr>ih_status = status, ih_configured_leverage = leverage, ih_leverage_change_allowed = change_allowed,
              ih_entry_block_scope = scope, ih_entry_block_key = key,
              ih_entry_admission_snapshot_digest = admission_digest n,
              ih_decision_digest = canonical_digest (JObj
                [(''status'', JStr (instrument_health_value status)),
                 (''configured_leverage'', JInt leverage),
                 (''leverage_change_allowed'', JBool change_allowed),
                 (''entry_block_scope'', JStr (scope_value scope)),
                 (''entry_block_key'', json_option JStr key),
                 (''entry_admission_snapshot_digest'', JStr (admission_digest n))])\<rparr>))"

definition exact_positions :: "entry_admission_snapshot \<Rightarrow> string \<Rightarrow> account_risk_position list" where
  "exact_positions n instrument =
     filter (\<lambda>p. ap_exchange_instrument_id p = instrument) (as_account_positions (en_account_risk_snapshot n))"

definition exact_orders :: "entry_admission_snapshot \<Rightarrow> string \<Rightarrow> admission_order list" where
  "exact_orders n instrument = filter (\<lambda>x. ao_exchange_instrument_id x = instrument) (en_open_orders n)"

definition classify_instrument_entry_health ::
  "entry_admission_snapshot \<Rightarrow> admission_ownership \<Rightarrow> string \<Rightarrow> position_side
   \<Rightarrow> instrument_entry_health result" where
  "classify_instrument_entry_health n w instrument side =
     (let positions = exact_positions n instrument; orders = exact_orders n instrument
      in if as_exchange_instrument_id (en_account_risk_snapshot n) \<noteq> instrument
         then Inl (ValueError ''admission account risk instrument identity mismatch'')
         else if RUNTIME \<in> set (aw_open_incident_scopes w)
         then instrument_health n instrument IH_RUNTIME_FENCED False RUNTIME
         else if aw_unknown_command_outcome_ticket_ids w \<noteq> []
         then instrument_health n instrument IH_UNKNOWN_COMMAND_OUTCOME False ACCOUNT_CAPACITY
         else if LEVERAGE_DOMAIN \<in> set (aw_open_incident_scopes w)
         then instrument_health n instrument IH_LEVERAGE_DOMAIN_INCIDENT False LEVERAGE_DOMAIN
         else if list_ex (unowned_position n w) positions
         then instrument_health n instrument IH_UNOWNED_POSITION False ACCOUNT_CAPACITY
         else if list_ex (unowned_order w) orders
         then instrument_health n instrument IH_UNOWNED_ORDER False ACCOUNT_CAPACITY
         else if list_ex (\<lambda>p. 0 < ap_quantity p \<and> ap_position_side p = side) positions
         then instrument_health n instrument IH_SAME_DIRECTION_OCCUPIED False NO_BLOCK
         else if orders \<noteq> [] \<and> \<not> list_ex (\<lambda>p. 0 < ap_quantity p) positions
         then instrument_health n instrument IH_OWNED_RESIDUAL_ORDER False LEVERAGE_DOMAIN
         else if list_ex (\<lambda>p. 0 < ap_quantity p) positions
         then instrument_health n instrument IH_HEALTHY_OPPOSITE_SIDE False NO_BLOCK
         else instrument_health n instrument IH_HEALTHY_FLAT True NO_BLOCK)"

section \<open>What the classifications mean\<close>

lemma account_health_sel:
  assumes "account_health n status scope = Inr h"
  shows "ah_status h = status" "ah_entry_block_scope h = scope"
    "ah_entry_admission_snapshot_digest h = admission_digest n"
  using assms by (auto simp: account_health_def)

lemma instrument_health_sel:
  assumes "instrument_health n i status c scope = Inr h"
  shows "ih_status h = status" "ih_entry_block_scope h = scope"
    "ih_entry_admission_snapshot_digest h = admission_digest n"
  using assms by (auto simp: instrument_health_def Let_def)

text \<open>The account is healthy only when nothing fences it and everything at the venue is explained.\<close>

lemma account_healthy:
  assumes "classify_account_entry_health n w = Inr h" "ah_status h = AH_HEALTHY"
  shows "RUNTIME \<notin> set (aw_open_incident_scopes w)" "ACCOUNT_CAPACITY \<notin> set (aw_open_incident_scopes w)"
    "aw_unknown_command_outcome_ticket_ids w = []"
    "\<not> list_ex (unowned_position n w) (as_account_positions (en_account_risk_snapshot n))"
    "\<not> list_ex (unowned_order w) (en_open_orders n)"
  using assms account_health_sel(1)
  by (auto simp: classify_account_entry_health_def split: if_splits)

lemma instrument_healthy:
  assumes "classify_instrument_entry_health n w i side = Inr h"
    "ih_status h \<in> {IH_HEALTHY_FLAT, IH_HEALTHY_OPPOSITE_SIDE}"
  shows "as_exchange_instrument_id (en_account_risk_snapshot n) = i"
    "LEVERAGE_DOMAIN \<notin> set (aw_open_incident_scopes w)"
    "\<not> list_ex (\<lambda>p. 0 < ap_quantity p \<and> ap_position_side p = side) (exact_positions n i)"
  using assms instrument_health_sel(1)
  by (auto simp: classify_instrument_entry_health_def Let_def split: if_splits)

text \<open>A snapshot of a validated account classifies without error.\<close>

lemma entry_block_key_total:
  assumes "venue_id \<noteq> []" "account_id \<noteq> []" "scope = LEVERAGE_DOMAIN \<Longrightarrow> instrument \<noteq> None \<and> instrument \<noteq> Some []"
  shows "\<exists>key. canonical_entry_block_key scope venue_id account_id instrument = Inr key"
  using assms by (cases scope) (auto simp: canonical_entry_block_key_def)

lemma snapshot_identity:
  "valid_admission_snapshot n \<Longrightarrow> as_venue_id (en_account_risk_snapshot n) \<noteq> []
     \<and> as_account_id (en_account_risk_snapshot n) \<noteq> [] \<and> as_exchange_instrument_id (en_account_risk_snapshot n) \<noteq> []"
  by (simp add: valid_admission_snapshot_def valid_snapshot_def)

lemma account_health_total:
  assumes "valid_admission_snapshot n" "scope \<noteq> LEVERAGE_DOMAIN"
  shows "\<exists>h. account_health n status scope = Inr h"
  using entry_block_key_total[of "as_venue_id (en_account_risk_snapshot n)" "as_account_id (en_account_risk_snapshot n)" scope None]
    snapshot_identity[OF assms(1)] assms(2)
  by (auto simp: account_health_def)

lemma instrument_health_total:
  assumes "valid_admission_snapshot n" "i = as_exchange_instrument_id (en_account_risk_snapshot n)"
  shows "\<exists>h. instrument_health n i status c scope = Inr h"
  using entry_block_key_total[of "as_venue_id (en_account_risk_snapshot n)" "as_account_id (en_account_risk_snapshot n)" scope "Some i"]
    snapshot_identity[OF assms(1)] assms(2)
  by (auto simp: instrument_health_def Let_def)

lemma classify_account_total:
  "valid_admission_snapshot n \<Longrightarrow> \<exists>h. classify_account_entry_health n w = Inr h"
  unfolding classify_account_entry_health_def using account_health_total by (simp split: if_split)

lemma classify_instrument_total:
  "valid_admission_snapshot n \<Longrightarrow> as_exchange_instrument_id (en_account_risk_snapshot n) = i
   \<Longrightarrow> \<exists>h. classify_instrument_entry_health n w i side = Inr h"
  unfolding classify_instrument_entry_health_def Let_def using instrument_health_total[of n i] by (simp split: if_split)

end
