(* ===== verification/Product_Entry.thy ===== *)
theory Product_Entry
  imports Py_Decimal
begin

text \<open>
  \<open>domain/product.py\<close>: the immutable product contract of an Event and an instrument, the current session facts
  of an equity perpetual, and the decision whether an ENTRY may be sent for the product now. The literal types of
  the source are datatypes; \<open>margin_asset\<close> has the one value \<open>USDT\<close> in every model and is kept as a string.
  The semantic digests of the models are not used by the decisions and are left out.
\<close>

datatype product_family = CryptoPerpetual | TradfiEquityPerpetual
datatype asset_class = AssetCrypto | AssetEquity
datatype contract_type = CT_PERPETUAL | CT_TRADIFI_PERPETUAL
datatype underlying_type = UT_CRYPTO | UT_EQUITY
datatype entry_session_policy = SessionContinuous | SessionRegularOnly | SessionReferenceOnly
datatype product_profile_status = ProfileCandidate | ProfileReference | ProfileActive | ProfileRetired
datatype product_status = ProductActive | ProductInactive | ProductTemporarilyUnavailable
datatype session_state =
    PreMarket | RegularSession | AfterMarket | Overnight | NoTrading | SessionUnavailable
datatype corporate_event_status = CorporateClear | CorporateBlocked | CorporateUnavailable

datatype product_entry_status =
    PE_ALLOWED | PE_PROFILE_NOT_ENTRY_CAPABLE | PE_IDENTITY_MISMATCH | PE_PRODUCT_UNAVAILABLE
  | PE_SESSION_NOT_REGULAR | PE_SNAPSHOT_STALE | PE_MARKET_FACTS_MISSING | PE_SPREAD_TOO_WIDE
  | PE_MARK_INDEX_DEVIATION_TOO_WIDE | PE_CORPORATE_EVENT_BLOCKED

record product_compatibility =
  pc_event_spec_id :: string
  pc_product_family :: product_family
  pc_asset_class :: asset_class
  pc_contract_type :: contract_type
  pc_underlying_type :: underlying_type
  pc_margin_asset :: string

record instrument_product_profile =
  pp_exchange_instrument_id :: string
  pp_product_family :: product_family
  pp_asset_class :: asset_class
  pp_contract_type :: contract_type
  pp_underlying_type :: underlying_type
  pp_margin_asset :: string
  pp_entry_session_policy :: entry_session_policy
  pp_status :: product_profile_status
  pp_max_entry_spread_bps :: "decimal option"
  pp_max_mark_index_deviation_bps :: "decimal option"

definition above_zero :: "decimal option \<Rightarrow> bool" where
  "above_zero v = (case v of None \<Rightarrow> True | Some x \<Rightarrow> 0 < x)"

text \<open>The field validators of \<open>InstrumentProductProfile\<close>.\<close>

definition mk_product_profile :: "instrument_product_profile \<Rightarrow> instrument_product_profile result" where
  "mk_product_profile p =
     (let instrument = py_strip (pp_exchange_instrument_id p)
      in if py_startswith instrument ''binance-usdm:'' \<and> pp_margin_asset p = ''USDT''
            \<and> above_zero (pp_max_entry_spread_bps p) \<and> above_zero (pp_max_mark_index_deviation_bps p)
         then Inr (p\<lparr>pp_exchange_instrument_id := instrument\<rparr>) else Inl ValidationError)"

record product_session_snapshot =
  pn_exchange_instrument_id :: string
  pn_product_family :: product_family
  pn_product_status :: product_status
  pn_session_state :: session_state
  pn_regular_session_open_ms :: "int option"
  pn_regular_session_close_ms :: "int option"
  pn_mark_price :: "decimal option"
  pn_index_price :: "decimal option"
  pn_funding_rate :: "decimal option"
  pn_best_bid :: "decimal option"
  pn_best_ask :: "decimal option"
  pn_best_bid_quantity :: "decimal option"
  pn_best_ask_quantity :: "decimal option"
  pn_corporate_event_status :: corporate_event_status
  pn_observed_at_ms :: int
  pn_valid_until_ms :: int
  pn_source_ref :: string

text \<open>\<open>ProductSessionSnapshot\<close>: identities, the validity window, paired session times, positive prices.\<close>

definition session_snapshot_ok :: "product_session_snapshot \<Rightarrow> bool" where
  "session_snapshot_ok p \<longleftrightarrow>
     pn_exchange_instrument_id p \<noteq> [] \<and> pn_source_ref p \<noteq> []
     \<and> 0 < pn_observed_at_ms p \<and> pn_observed_at_ms p < pn_valid_until_ms p
     \<and> (case (pn_regular_session_open_ms p, pn_regular_session_close_ms p) of
          (None, None) \<Rightarrow> True | (Some open_ms, Some close_ms) \<Rightarrow> open_ms < close_ms | _ \<Rightarrow> False)
     \<and> list_all above_zero [pn_mark_price p, pn_index_price p, pn_best_bid p, pn_best_ask p]
     \<and> (case (pn_best_bid p, pn_best_ask p) of (Some b, Some a) \<Rightarrow> b \<le> a | _ \<Rightarrow> True)
     \<and> list_all (\<lambda>q. case q of None \<Rightarrow> True | Some x \<Rightarrow> 0 \<le> x)
          [pn_best_bid_quantity p, pn_best_ask_quantity p]"

definition mk_session_snapshot :: "product_session_snapshot \<Rightarrow> product_session_snapshot result" where
  "mk_session_snapshot p =
     (let p' = p\<lparr>pn_exchange_instrument_id := py_strip (pn_exchange_instrument_id p),
                 pn_source_ref := py_strip (pn_source_ref p)\<rparr>
      in if session_snapshot_ok p' then Inr p' else Inl ValidationError)"

definition usable_for_regular_observation :: "product_session_snapshot \<Rightarrow> int \<Rightarrow> bool" where
  "usable_for_regular_observation p trigger_ms \<longleftrightarrow>
     pn_product_family p = TradfiEquityPerpetual \<and> pn_product_status p = ProductActive
     \<and> pn_session_state p = RegularSession
     \<and> pn_observed_at_ms p \<le> trigger_ms \<and> trigger_ms < pn_valid_until_ms p
     \<and> pn_regular_session_open_ms p \<noteq> None \<and> pn_regular_session_close_ms p \<noteq> None"

record product_entry_decision =
  pd_status :: product_entry_status
  pd_spread_bps :: "decimal option"
  pd_mark_index_deviation_bps :: "decimal option"
  pd_corporate_event_warning :: bool

abbreviation plain_product_decision :: "product_entry_status \<Rightarrow> product_entry_decision" where
  "plain_product_decision status \<equiv> \<lparr>pd_status = status, pd_spread_bps = None,
     pd_mark_index_deviation_bps = None, pd_corporate_event_warning = False\<rparr>"

section \<open>The product decision\<close>

text \<open>The basis points of the spread and of the mark price's distance from the index, in decimal arithmetic.\<close>

definition spread_bps :: "decimal \<Rightarrow> decimal \<Rightarrow> decimal" where
  "spread_bps bid ask = dec_mul (dec_div (dec_sub ask bid) (dec_div (dec_add bid ask) 2)) 10000"

definition mark_index_deviation_bps :: "decimal \<Rightarrow> decimal \<Rightarrow> decimal" where
  "mark_index_deviation_bps mark index = dec_mul (dec_div \<bar>dec_sub mark index\<bar> index) 10000"

text \<open>The last gates, on a quote that is complete.\<close>

definition quote_decision ::
  "decimal \<Rightarrow> decimal \<Rightarrow> product_session_snapshot \<Rightarrow> decimal \<Rightarrow> decimal \<Rightarrow> product_entry_decision" where
  "quote_decision max_spread max_deviation snapshot spread deviation =
     (let decision = (\<lambda>status. \<lparr>pd_status = status, pd_spread_bps = Some spread,
            pd_mark_index_deviation_bps = Some deviation, pd_corporate_event_warning = False\<rparr>)
      in if max_spread < spread then decision PE_SPREAD_TOO_WIDE
         else if max_deviation < deviation then decision PE_MARK_INDEX_DEVIATION_TOO_WIDE
         else if pn_corporate_event_status snapshot = CorporateBlocked
         then decision PE_CORPORATE_EVENT_BLOCKED
         else (decision PE_ALLOWED)\<lparr>pd_corporate_event_warning :=
                 pn_corporate_event_status snapshot = CorporateUnavailable\<rparr>)"

definition evaluate_product_entry ::
  "instrument_product_profile \<Rightarrow> product_session_snapshot option \<Rightarrow> int \<Rightarrow> product_entry_decision result" where
  "evaluate_product_entry profile snapshot now_ms =
     (if now_ms \<le> 0 then Inl (ValueError ''Product Entry evaluation time must be positive'')
      else case (pp_max_entry_spread_bps profile, pp_max_mark_index_deviation_bps profile) of
        (Some max_spread, Some max_deviation) \<Rightarrow>
          if pp_product_family profile \<noteq> TradfiEquityPerpetual
             \<or> pp_entry_session_policy profile \<noteq> SessionRegularOnly
             \<or> pp_status profile \<in> {ProfileReference, ProfileRetired}
          then Inr (plain_product_decision PE_PROFILE_NOT_ENTRY_CAPABLE)
          else (case snapshot of
            None \<Rightarrow> Inr (plain_product_decision PE_IDENTITY_MISMATCH)
          | Some n \<Rightarrow>
              if pn_exchange_instrument_id n \<noteq> pp_exchange_instrument_id profile
                 \<or> pn_product_family n \<noteq> pp_product_family profile
              then Inr (plain_product_decision PE_IDENTITY_MISMATCH)
              else if pn_product_status n \<noteq> ProductActive
              then Inr (plain_product_decision PE_PRODUCT_UNAVAILABLE)
              else if pn_session_state n \<noteq> RegularSession
              then Inr (plain_product_decision PE_SESSION_NOT_REGULAR)
              else if \<not> (pn_observed_at_ms n \<le> now_ms \<and> now_ms < pn_valid_until_ms n)
              then Inr (plain_product_decision PE_SNAPSHOT_STALE)
              else (case (pn_regular_session_open_ms n, pn_regular_session_close_ms n, pn_mark_price n,
                          pn_index_price n, pn_best_bid n, pn_best_ask n, pn_best_bid_quantity n,
                          pn_best_ask_quantity n) of
                  (Some open_ms, Some close_ms, Some mark, Some index, Some bid, Some ask, Some bid_qty, Some ask_qty) \<Rightarrow>
                    if \<not> (open_ms \<le> now_ms \<and> now_ms < close_ms) \<or> bid_qty \<le> 0 \<or> ask_qty \<le> 0
                    then Inr (plain_product_decision PE_MARKET_FACTS_MISSING)
                    else Inr (quote_decision max_spread max_deviation n (spread_bps bid ask)
                           (mark_index_deviation_bps mark index))
                | _ \<Rightarrow> Inr (plain_product_decision PE_MARKET_FACTS_MISSING)))
      | _ \<Rightarrow> Inr (plain_product_decision PE_PROFILE_NOT_ENTRY_CAPABLE))"

text \<open>\<open>require_product_compatibility\<close> raises exactly when this predicate is false.\<close>

definition product_compatible :: "product_compatibility \<Rightarrow> instrument_product_profile \<Rightarrow> bool" where
  "product_compatible compatibility profile \<longleftrightarrow>
     pp_product_family profile = pc_product_family compatibility
     \<and> pp_asset_class profile = pc_asset_class compatibility
     \<and> pp_contract_type profile = pc_contract_type compatibility
     \<and> pp_underlying_type profile = pc_underlying_type compatibility
     \<and> pp_margin_asset profile = pc_margin_asset compatibility
     \<and> pp_status profile \<notin> {ProfileReference, ProfileRetired}
     \<and> pp_entry_session_policy profile \<noteq> SessionReferenceOnly"

definition evaluate_event_product_entry ::
  "product_compatibility \<Rightarrow> instrument_product_profile option \<Rightarrow> product_session_snapshot option \<Rightarrow> int
   \<Rightarrow> product_entry_decision result" where
  "evaluate_event_product_entry compatibility profile snapshot now_ms =
     (case profile of
        None \<Rightarrow> Inr (plain_product_decision PE_IDENTITY_MISMATCH)
      | Some p \<Rightarrow>
          if \<not> product_compatible compatibility p then Inr (plain_product_decision PE_IDENTITY_MISMATCH)
          else if pc_product_family compatibility = TradfiEquityPerpetual
          then evaluate_product_entry p snapshot now_ms
          else Inr (plain_product_decision PE_ALLOWED))"

section \<open>The registered Events\<close>

definition crypto_events :: "string list" where
  "crypto_events =
     [''event_spec:CPM-RO-001:CPM-LONG:v3'', ''event_spec:MPG-001:MPG-LONG:v3'',
      ''event_spec:MI-001:MI-LONG:v3'', ''event_spec:SOR-001:SOR-LONG:v4'',
      ''event_spec:SOR-001:SOR-SHORT:v4'', ''event_spec:SOR-1H-001:SOR-1H-LONG:v1'',
      ''event_spec:SOR-1H-001:SOR-1H-SHORT:v1'', ''event_spec:BRF2-001:BRF2-SHORT:v3'']"

definition tradfi_events :: "string list" where
  "tradfi_events =
     [''event_spec:SOR-US-EQ-PERP-001:SOR-US-LONG-15M:v1'',
      ''event_spec:SOR-US-EQ-PERP-001:SOR-US-SHORT-15M:v1'']"

definition registered_product_compatibilities :: "product_compatibility list" where
  "registered_product_compatibilities =
     map (\<lambda>e. \<lparr>pc_event_spec_id = e, pc_product_family = CryptoPerpetual, pc_asset_class = AssetCrypto,
        pc_contract_type = CT_PERPETUAL, pc_underlying_type = UT_CRYPTO, pc_margin_asset = ''USDT''\<rparr>) crypto_events
     @ map (\<lambda>e. \<lparr>pc_event_spec_id = e, pc_product_family = TradfiEquityPerpetual, pc_asset_class = AssetEquity,
        pc_contract_type = CT_TRADIFI_PERPETUAL, pc_underlying_type = UT_EQUITY, pc_margin_asset = ''USDT''\<rparr>)
        tradfi_events"

definition product_compatibility_for :: "string \<Rightarrow> product_compatibility result" where
  "product_compatibility_for event_spec_id =
     (case filter (\<lambda>c. pc_event_spec_id c = event_spec_id) registered_product_compatibilities of
        [c] \<Rightarrow> Inr c
      | _ \<Rightarrow> Inl (ValueError ''Event must resolve exactly one Product Compatibility''))"

section \<open>Lemmas\<close>

text \<open>An equity product is entered only in its regular session, on a fresh quote inside both thresholds.\<close>

lemma evaluate_product_entry_allowed:
  assumes "evaluate_product_entry p (Some n) now = Inr d" "pd_status d = PE_ALLOWED"
  shows "pn_product_status n = ProductActive" "pn_session_state n = RegularSession"
    "pn_observed_at_ms n \<le> now" "now < pn_valid_until_ms n"
    "pn_corporate_event_status n \<noteq> CorporateBlocked"
    "\<exists>bid ask max. pn_best_bid n = Some bid \<and> pn_best_ask n = Some ask
       \<and> pp_max_entry_spread_bps p = Some max \<and> spread_bps bid ask \<le> max"
  using assms
  by (auto simp: evaluate_product_entry_def quote_decision_def Let_def split: option.splits if_splits prod.splits)

lemma product_compatibility_for_event:
  "product_compatibility_for e = Inr c \<Longrightarrow> pc_event_spec_id c = e \<and> c \<in> set registered_product_compatibilities"
proof -
  assume "product_compatibility_for e = Inr c"
  then have "filter (\<lambda>c. pc_event_spec_id c = e) registered_product_compatibilities = [c]"
    by (auto simp: product_compatibility_for_def split: list.splits)
  then have "c \<in> set (filter (\<lambda>c. pc_event_spec_id c = e) registered_product_compatibilities)" by simp
  then show ?thesis by auto
qed

end
