(* ===== verification/Entry_Preflight.thy ===== *)
theory Entry_Preflight
  imports Issue_Ticket Entry_Health Product_Entry
begin

text \<open>
  \<open>application/revalidate_entry_dispatch.py\<close>: the last decision before a new-entry command is sent to the venue.
  A frozen Ticket is checked against its claim, the current owner policy, registry and runtime, and one fresh
  observation of the account; it is allowed as it is or refused, never resized or repriced. The checks are
  grouped in source order; a check that raises is an \<open>Inl\<close>.
\<close>

datatype preflight_status =
    PF_ALLOWED | PF_COMMAND_MISMATCH | PF_DEADLINE_EXPIRED | PF_POLICY_DRIFT | PF_NEW_ENTRY_DISABLED
  | PF_STRATEGY_PAUSED | PF_SELECTION_ENTRY_VACUUM | PF_SELECTION_AUTHORITY_INVALID | PF_SCOPE_DRIFT
  | PF_RUNTIME_FENCED | PF_STALE_SNAPSHOT | PF_ACCOUNT_MODE_INVALID | PF_INCIDENT_FENCED
  | PF_OWNERSHIP_CONFLICT | PF_WALLET_RISK_DRIFT | PF_MARGIN_DRIFT | PF_EXPOSURE_FAMILY_CAPACITY_EXHAUSTED
  | PF_STRATEGY_SIDE_CAPACITY_EXHAUSTED | PF_QUOTE_RISK | PF_PRODUCT_ENTRY_BLOCKED | PF_STRESS_FAILED
  | PF_LEVERAGE_MISMATCH

fun preflight_value :: "preflight_status \<Rightarrow> string" where
  "preflight_value PF_ALLOWED = ''allowed''"
| "preflight_value PF_COMMAND_MISMATCH = ''command_mismatch''"
| "preflight_value PF_DEADLINE_EXPIRED = ''deadline_expired''"
| "preflight_value PF_POLICY_DRIFT = ''policy_drift''"
| "preflight_value PF_NEW_ENTRY_DISABLED = ''new_entry_disabled''"
| "preflight_value PF_STRATEGY_PAUSED = ''strategy_paused''"
| "preflight_value PF_SELECTION_ENTRY_VACUUM = ''selection_entry_vacuum''"
| "preflight_value PF_SELECTION_AUTHORITY_INVALID = ''selection_authority_invalid''"
| "preflight_value PF_SCOPE_DRIFT = ''scope_drift''"
| "preflight_value PF_RUNTIME_FENCED = ''runtime_fenced''"
| "preflight_value PF_STALE_SNAPSHOT = ''stale_snapshot''"
| "preflight_value PF_ACCOUNT_MODE_INVALID = ''account_mode_invalid''"
| "preflight_value PF_INCIDENT_FENCED = ''incident_fenced''"
| "preflight_value PF_OWNERSHIP_CONFLICT = ''ownership_conflict''"
| "preflight_value PF_WALLET_RISK_DRIFT = ''wallet_risk_drift''"
| "preflight_value PF_MARGIN_DRIFT = ''margin_drift''"
| "preflight_value PF_EXPOSURE_FAMILY_CAPACITY_EXHAUSTED = ''exposure_family_capacity_exhausted''"
| "preflight_value PF_STRATEGY_SIDE_CAPACITY_EXHAUSTED = ''strategy_side_capacity_exhausted''"
| "preflight_value PF_QUOTE_RISK = ''quote_risk''"
| "preflight_value PF_PRODUCT_ENTRY_BLOCKED = ''product_entry_blocked''"
| "preflight_value PF_STRESS_FAILED = ''stress_failed''"
| "preflight_value PF_LEVERAGE_MISMATCH = ''leverage_mismatch''"

section \<open>Facts\<close>

record runtime_capability_snapshot =
  rc_capability_key :: string
  rc_enabled :: bool
  rc_certified_commit :: string
  rc_schema_revision :: string

text \<open>\<open>application/runtime_facts.py\<close>: the instrument rules read for the decision.\<close>

record instrument_rules_facts =
  rf_exchange_instrument_id :: string
  rf_quantity_step :: decimal
  rf_price_tick :: decimal
  rf_min_quantity :: decimal
  rf_min_notional :: decimal
  rf_exchange_max_leverage :: int
  rf_maintenance_margin_brackets :: "maintenance_margin_bracket list"
  rf_maintenance_margin_brackets_digest :: string
  rf_notional_coefficient :: decimal
  rf_notional_coefficient_certified :: bool
  rf_observed_at_ms :: int
  rf_valid_until_ms :: int

text \<open>The digest is only checked for its length and prefix here.\<close>

definition valid_rules_facts :: "instrument_rules_facts \<Rightarrow> bool" where
  "valid_rules_facts r \<longleftrightarrow>
     rf_exchange_instrument_id r \<noteq> [] \<and> py_strip (rf_exchange_instrument_id r) = rf_exchange_instrument_id r
     \<and> 0 < rf_quantity_step r \<and> 0 < rf_price_tick r \<and> 0 < rf_min_quantity r \<and> 0 < rf_min_notional r
     \<and> 0 < rf_notional_coefficient r \<and> 0 < rf_exchange_max_leverage r
     \<and> py_strip (rf_maintenance_margin_brackets_digest r) = rf_maintenance_margin_brackets_digest r
     \<and> length (rf_maintenance_margin_brackets_digest r) = 71
     \<and> py_startswith (rf_maintenance_margin_brackets_digest r) ''sha256:''
     \<and> 0 < rf_observed_at_ms r \<and> rf_observed_at_ms r < rf_valid_until_ms r
     \<and> list_all valid_bracket (rf_maintenance_margin_brackets r) \<and> rf_maintenance_margin_brackets r \<noteq> []"

record preflight_request =
  pr_command :: exchange_command
  pr_ticket :: trade_ticket
  pr_capacity_claim :: capacity_claim
  pr_owner_policy :: "owner_policy_snapshot option"
  pr_runtime_scope :: "runtime_scope_snapshot option"
  pr_active_universe :: "active_universe_snapshot option"
  pr_strategy_group :: "strategy_group_snapshot option"
  pr_strategy_version :: "strategy_version_snapshot option"
  pr_event_spec :: "event_spec_snapshot option"
  pr_runtime_capability :: "runtime_capability_snapshot option"
  pr_runtime_commit :: string
  pr_schema_revision :: string
  pr_admission_snapshot :: entry_admission_snapshot
  pr_instrument_rules :: instrument_rules_facts
  pr_account_entry_health :: account_entry_health
  pr_instrument_entry_health :: instrument_entry_health
  pr_active_family_ticket_count :: int
  pr_active_strategy_side_ticket_count :: int
  pr_active_directional_risk_at_stop :: decimal
  pr_now_ms :: int
  pr_product_entry_decision :: "product_entry_decision option"
  pr_strategy_entry_enabled :: bool
  pr_selection_entry_vacuum_open :: bool
  pr_selection_authority_valid :: bool

definition mk_preflight_request :: "preflight_request \<Rightarrow> preflight_request result" where
  "mk_preflight_request q =
     (if non_blank (pr_runtime_commit q) \<and> non_blank (pr_schema_revision q)
         \<and> 0 \<le> pr_active_family_ticket_count q \<and> 0 \<le> pr_active_strategy_side_ticket_count q
         \<and> 0 \<le> pr_active_directional_risk_at_stop q \<and> 0 < pr_now_ms q
      then Inr (q\<lparr>pr_runtime_commit := py_strip (pr_runtime_commit q),
                  pr_schema_revision := py_strip (pr_schema_revision q)\<rparr>)
      else Inl ValidationError)"

section \<open>Checks\<close>

definition command_matches_ticket_and_claim ::
  "exchange_command \<Rightarrow> trade_ticket \<Rightarrow> capacity_claim \<Rightarrow> bool result" where
  "command_matches_ticket_and_claim command ticket claim =
     (if ec_kind command \<notin> {SET_LEVERAGE, ENTRY} then Inr False
      else if ec_status command \<noteq> CLAIMED \<or> ec_generation command \<noteq> 1 then Inr False
      else if ec_ticket_identity command \<noteq> tk_identity ticket then Inr False
      else bind_result (to_ticket claim) (\<lambda>frozen.
        if frozen \<noteq> ticket then Inr False
        else if tk_capacity_claim_id ticket \<noteq> cc_capacity_claim_id claim then Inr False
        else if ec_kind command = SET_LEVERAGE
        then Inr (case ec_payload command of
               SetLeverageCommandPayload p \<Rightarrow> lp_desired_leverage p = tk_selected_leverage ticket
                 \<and> lp_owner_policy_version p = tk_owner_policy_version ticket
             | _ \<Rightarrow> False)
        else Inr (case ec_payload command of
               OrderCommandPayload p \<Rightarrow> tk_selected_leverage ticket = FIXED_EXCHANGE_CONFIGURED_LEVERAGE
                 \<and> op_required_configured_leverage p = Some FIXED_EXCHANGE_CONFIGURED_LEVERAGE
             | _ \<Rightarrow> False)))"

definition policy_matches ::
  "owner_policy_snapshot option \<Rightarrow> trade_ticket \<Rightarrow> capacity_claim \<Rightarrow> bool" where
  "policy_matches policy ticket claim =
     (case policy of None \<Rightarrow> False
      | Some p \<Rightarrow>
          ps_owner_policy_id p = tk_owner_policy_id ticket
          \<and> ps_policy_version p = tk_owner_policy_version ticket
          \<and> ps_enabled p
          \<and> tk_selected_leverage ticket \<le> ps_max_leverage p
          \<and> tk_margin_mode ticket = ps_supported_margin_mode p
          \<and> cc_family_ticket_limit claim = for_family (ps_family_ticket_limits p) (tk_exposure_family ticket)
          \<and> cc_max_same_strategy_side claim = ps_max_same_strategy_side p
          \<and> cc_max_ticket_stop_risk_fraction claim = ps_max_ticket_stop_risk_fraction p
          \<and> cc_max_gross_stop_risk_fraction claim = ps_max_gross_stop_risk_fraction p
          \<and> cc_max_ticket_initial_margin_fraction claim = ps_max_ticket_initial_margin_fraction p
          \<and> cc_max_gross_initial_margin_utilization claim = ps_max_gross_initial_margin_utilization p
          \<and> cc_directional_stop_risk_limit_fraction claim = ps_directional_stop_risk_limit_fraction p
          \<and> cc_min_materialization_ratio claim = ps_min_materialization_ratio p
          \<and> tk_minimum_stop_risk_budget ticket = cc_minimum_stop_risk_budget claim)"

definition dispatch_scope_matches :: "runtime_scope_snapshot option \<Rightarrow> trade_ticket \<Rightarrow> bool" where
  "dispatch_scope_matches scope ticket =
     (case scope of None \<Rightarrow> False
      | Some s \<Rightarrow>
          if rs_lifecycle_state s \<noteq> ''active'' \<or> \<not> rs_entry_enabled s then False
          else let identity = tk_identity ticket
               in rs_runtime_scope_id s = tk_runtime_scope_id ticket
                  \<and> rs_scope_version s = tk_runtime_scope_version ticket
                  \<and> rs_strategy_group_id s = ri_strategy_group_id (ti_runtime identity)
                  \<and> rs_strategy_version_id s = ri_strategy_version_id (ti_runtime identity)
                  \<and> rs_event_spec_id s = ri_event_spec_id (ti_runtime identity)
                  \<and> rs_runtime_profile_id s = ri_runtime_profile_id (ti_runtime identity)
                  \<and> rs_owner_policy_id s = tk_owner_policy_id ticket
                  \<and> rs_universe_version_id s = tk_universe_version_id ticket
                  \<and> rs_universe_semantic_digest s = tk_universe_semantic_digest ticket
                  \<and> rs_exchange_instrument_id s = nd_exchange_instrument_id (ti_netting_domain identity)
                  \<and> rs_position_side s = nd_position_side (ti_netting_domain identity))"

definition active_universe_matches :: "active_universe_snapshot option \<Rightarrow> trade_ticket \<Rightarrow> bool" where
  "active_universe_matches universe ticket =
     (case universe of None \<Rightarrow> False
      | Some u \<Rightarrow> au_event_spec_id u = ri_event_spec_id (ti_runtime (tk_identity ticket))
          \<and> au_universe_version_id u = tk_universe_version_id ticket
          \<and> au_semantic_digest u = tk_universe_semantic_digest ticket
          \<and> au_exchange_instrument_id u = nd_exchange_instrument_id (ti_netting_domain (tk_identity ticket)))"

definition runtime_is_certified :: "runtime_capability_snapshot option \<Rightarrow> string \<Rightarrow> string \<Rightarrow> bool" where
  "runtime_is_certified capability runtime_commit schema_revision =
     (case capability of None \<Rightarrow> False
      | Some c \<Rightarrow> rc_capability_key c = ''exchange_commands'' \<and> rc_enabled c
          \<and> rc_certified_commit c = runtime_commit \<and> rc_schema_revision c = schema_revision)"

definition snapshot_and_rules_are_current :: "preflight_request \<Rightarrow> bool" where
  "snapshot_and_rules_are_current q \<longleftrightarrow>
     (let snapshot = pr_admission_snapshot q; rules = pr_instrument_rules q
      in en_observed_at_ms snapshot \<le> pr_now_ms q \<and> pr_now_ms q < en_valid_until_ms snapshot
         \<and> rf_exchange_instrument_id rules
             = nd_exchange_instrument_id (ti_netting_domain (tk_identity (pr_ticket q)))
         \<and> rf_observed_at_ms rules \<le> pr_now_ms q \<and> pr_now_ms q < rf_valid_until_ms rules
         \<and> tk_selected_leverage (pr_ticket q) \<le> rf_exchange_max_leverage rules)"

definition health_digest_matches :: "preflight_request \<Rightarrow> bool" where
  "health_digest_matches q \<longleftrightarrow>
     (let digest = admission_digest (pr_admission_snapshot q)
      in ah_entry_admission_snapshot_digest (pr_account_entry_health q) = digest
         \<and> ih_entry_admission_snapshot_digest (pr_instrument_entry_health q) = digest)"

definition netting_domain_is_flat_and_order_free ::
  "entry_admission_snapshot \<Rightarrow> trade_ticket \<Rightarrow> bool" where
  "netting_domain_is_flat_and_order_free snapshot ticket \<longleftrightarrow>
     (let domain = ti_netting_domain (tk_identity ticket)
      in \<not> list_ex (\<lambda>p. ap_exchange_instrument_id p = nd_exchange_instrument_id domain
             \<and> ap_position_side p = nd_position_side domain \<and> 0 < ap_quantity p)
             (as_account_positions (en_account_risk_snapshot snapshot))
         \<and> \<not> list_ex (\<lambda>x. ao_exchange_instrument_id x = nd_exchange_instrument_id domain
             \<and> ao_position_side x = nd_position_side domain) (en_open_orders snapshot))"

definition quote_preserves_protection :: "trade_ticket \<Rightarrow> decimal \<Rightarrow> bool" where
  "quote_preserves_protection ticket entry_price =
     (if nd_position_side (ti_netting_domain (tk_identity ticket)) = Long
      then tk_initial_stop_price ticket < entry_price else entry_price < tk_initial_stop_price ticket)"

definition entry_price_for :: "trade_ticket \<Rightarrow> entry_admission_snapshot \<Rightarrow> decimal" where
  "entry_price_for ticket snapshot =
     (if nd_position_side (ti_netting_domain (tk_identity ticket)) = Long
      then en_best_ask_price snapshot else en_best_bid_price snapshot)"

text \<open>\<open>CrossMarginStressRequest(\<dots>)\<close>: the projected positions are sorted by side, then everything is validated.\<close>

definition mk_stress_request :: "stress_request \<Rightarrow> stress_request result" where
  "mk_stress_request r =
     (let r' = r\<lparr>sr_projected_instrument_positions :=
                   sort_key (\<lambda>p. side_value (sp_position_side p)) (sr_projected_instrument_positions r)\<rparr>
      in if valid_stress_request r' then Inr r' else Inl ValidationError)"

text \<open>The stress of the account as it would be after the fill: the instrument's positions and the new one.\<close>

definition dispatch_stress_request ::
  "trade_ticket \<Rightarrow> entry_admission_snapshot \<Rightarrow> instrument_rules_facts \<Rightarrow> stress_request result" where
  "dispatch_stress_request ticket snapshot rules =
     (let risk = en_account_risk_snapshot snapshot; domain = ti_netting_domain (tk_identity ticket)
      in mk_stress_request
        \<lparr>sr_account_snapshot = risk,
         sr_maintenance_margin_brackets = rf_maintenance_margin_brackets rules,
         sr_maintenance_margin_brackets_digest = rf_maintenance_margin_brackets_digest rules,
         sr_notional_coefficient = rf_notional_coefficient rules,
         sr_notional_coefficient_certified = rf_notional_coefficient_certified rules,
         sr_evaluated_side = nd_position_side domain,
         sr_reference_entry_price = entry_price_for ticket snapshot,
         sr_initial_stop_price = tk_initial_stop_price ticket,
         sr_post_stop_stress_multiple = tk_post_stop_stress_multiple ticket,
         sr_projected_instrument_positions =
           map (\<lambda>p. \<lparr>sp_position_side = ap_position_side p, sp_quantity = ap_quantity p,
                      sp_average_entry_price = ap_average_entry_price p\<rparr>)
             (filter (\<lambda>p. ap_exchange_instrument_id p = nd_exchange_instrument_id domain)
                (as_account_positions risk))
           @ [\<lparr>sp_position_side = nd_position_side domain, sp_quantity = tk_quantity ticket,
               sp_average_entry_price = entry_price_for ticket snapshot\<rparr>]\<rparr>)"

definition cross_margin_stress_passes ::
  "trade_ticket \<Rightarrow> entry_admission_snapshot \<Rightarrow> instrument_rules_facts \<Rightarrow> bool result" where
  "cross_margin_stress_passes ticket snapshot rules =
     (if as_exchange_instrument_id (en_account_risk_snapshot snapshot)
           \<noteq> nd_exchange_instrument_id (ti_netting_domain (tk_identity ticket)) then Inr False
      else bind_result (dispatch_stress_request ticket snapshot rules) (\<lambda>r.
           bind_result (evaluate_cross_margin_stress r) (\<lambda>evidence.
           Inr (sf_status (se_proof evidence) = PASSED))))"

section \<open>The decision\<close>

text \<open>Expiry, policy, owner control, Vacuum, selection and the ticket counts.\<close>

definition dispatch_policy_refusal :: "preflight_request \<Rightarrow> preflight_status option" where
  "dispatch_policy_refusal q =
     (let ticket = pr_ticket q; claim = pr_capacity_claim q
      in if ec_deadline_at_ms (pr_command q) \<le> pr_now_ms q \<or> cc_expires_at_ms claim \<le> pr_now_ms q
         then Some PF_DEADLINE_EXPIRED
         else if \<not> policy_matches (pr_owner_policy q) ticket claim then Some PF_POLICY_DRIFT
         else case pr_owner_policy q of
           None \<Rightarrow> Some PF_POLICY_DRIFT
         | Some policy \<Rightarrow>
             if (case ps_scope policy of None \<Rightarrow> True
                 | Some scope \<Rightarrow> \<not> authorizes scope (ri_event_spec_id (ti_runtime (tk_identity ticket)))
                     (ri_runtime_profile_id (ti_runtime (tk_identity ticket))))
             then Some PF_POLICY_DRIFT
             else if \<not> ps_new_entry_submit_enabled policy then Some PF_NEW_ENTRY_DISABLED
             else if \<not> pr_strategy_entry_enabled q then Some PF_STRATEGY_PAUSED
             else if pr_selection_entry_vacuum_open q then Some PF_SELECTION_ENTRY_VACUUM
             else if \<not> pr_selection_authority_valid q then Some PF_SELECTION_AUTHORITY_INVALID
             else if tk_family_ticket_limit ticket < pr_active_family_ticket_count q
             then Some PF_EXPOSURE_FAMILY_CAPACITY_EXHAUSTED
             else if (case ps_max_same_strategy_side policy of None \<Rightarrow> False
                      | Some limit \<Rightarrow> limit < pr_active_strategy_side_ticket_count q)
             then Some PF_STRATEGY_SIDE_CAPACITY_EXHAUSTED
             else None)"

text \<open>Scope, universe, registry, runtime certification, freshness, product and account mode.\<close>

definition dispatch_registry_refusal :: "preflight_request \<Rightarrow> preflight_status option" where
  "dispatch_registry_refusal q =
     (let ticket = pr_ticket q; risk = en_account_risk_snapshot (pr_admission_snapshot q);
          domain = ti_netting_domain (tk_identity ticket)
      in if \<not> dispatch_scope_matches (pr_runtime_scope q) ticket then Some PF_SCOPE_DRIFT
         else if \<not> active_universe_matches (pr_active_universe q) ticket then Some PF_SCOPE_DRIFT
         else if \<not> strategy_authority_matches_ticket (pr_strategy_group q) (pr_strategy_version q)
                    (pr_event_spec q) ticket then Some PF_SCOPE_DRIFT
         else if \<not> runtime_is_certified (pr_runtime_capability q) (pr_runtime_commit q)
                    (pr_schema_revision q) then Some PF_RUNTIME_FENCED
         else if \<not> snapshot_and_rules_are_current q then Some PF_STALE_SNAPSHOT
         else if (case pr_product_entry_decision q of None \<Rightarrow> False | Some d \<Rightarrow> pd_status d \<noteq> PE_ALLOWED)
         then Some PF_PRODUCT_ENTRY_BLOCKED
         else if as_venue_id risk \<noteq> nd_venue_id domain \<or> as_account_id risk \<noteq> nd_account_id domain
                 \<or> as_position_mode risk \<noteq> ''independent_sides''
                 \<or> Some (as_margin_mode risk) \<noteq> map_option ps_supported_margin_mode (pr_owner_policy q)
         then Some PF_ACCOUNT_MODE_INVALID
         else None)"

text \<open>Ownership of what the snapshot shows.\<close>

definition dispatch_health_refusal :: "preflight_request \<Rightarrow> preflight_status option" where
  "dispatch_health_refusal q =
     (if \<not> health_digest_matches q then Some PF_STALE_SNAPSHOT
      else if ah_status (pr_account_entry_health q) \<noteq> AH_HEALTHY
      then Some (if ah_entry_block_scope (pr_account_entry_health q) \<noteq> NO_BLOCK then PF_INCIDENT_FENCED
                 else PF_OWNERSHIP_CONFLICT)
      else if ih_status (pr_instrument_entry_health q) \<notin> {IH_HEALTHY_FLAT, IH_HEALTHY_OPPOSITE_SIDE}
      then Some (if ih_entry_block_scope (pr_instrument_entry_health q) \<noteq> NO_BLOCK then PF_INCIDENT_FENCED
                 else PF_OWNERSHIP_CONFLICT)
      else if \<not> netting_domain_is_flat_and_order_free (pr_admission_snapshot q) (pr_ticket q)
      then Some PF_OWNERSHIP_CONFLICT
      else None)"

text \<open>Wallet risk, margin and quote, on the balances observed now.\<close>

definition dispatch_margin_limit :: "owner_policy_snapshot \<Rightarrow> capacity_claim \<Rightarrow> account_risk_snapshot \<Rightarrow> decimal" where
  "dispatch_margin_limit policy claim risk =
     min (min (dec_mul (as_total_margin_balance risk) (ps_max_ticket_initial_margin_fraction policy))
              (as_available_margin risk))
         (max (dec_sub (dec_mul (as_total_margin_balance risk) (ps_max_gross_initial_margin_utilization policy))
                 (max (as_total_initial_margin risk) (cc_current_reserved_margin_at_claim claim))) 0)"

definition dispatch_risk_refusal :: "preflight_request \<Rightarrow> owner_policy_snapshot \<Rightarrow> preflight_status option" where
  "dispatch_risk_refusal q policy =
     (let ticket = pr_ticket q; claim = pr_capacity_claim q;
          risk = en_account_risk_snapshot (pr_admission_snapshot q);
          wallet = as_total_wallet_balance risk;
          entry_price = entry_price_for ticket (pr_admission_snapshot q)
      in if dec_mul wallet (ps_max_ticket_stop_risk_fraction policy) < tk_risk_at_stop ticket
            \<or> dec_mul wallet (ps_max_gross_stop_risk_fraction policy)
                < dec_add (cc_gross_risk_at_stop_at_claim claim) (tk_risk_at_stop ticket)
         then Some PF_WALLET_RISK_DRIFT
         else if dec_mul wallet (ps_directional_stop_risk_limit_fraction policy)
                   < pr_active_directional_risk_at_stop q
         then Some PF_WALLET_RISK_DRIFT
         else if dispatch_margin_limit policy claim risk < tk_reserved_margin ticket then Some PF_MARGIN_DRIFT
         else if \<not> quote_preserves_protection ticket entry_price then Some PF_QUOTE_RISK
         else if tk_post_fill_stop_risk_limit ticket
                   < dec_mul (tk_quantity ticket) \<bar>dec_sub entry_price (tk_initial_stop_price ticket)\<bar>
         then Some PF_QUOTE_RISK
         else None)"

definition first_refusal :: "preflight_status option list \<Rightarrow> preflight_status option" where
  "first_refusal refusals = (case filter (\<lambda>r. r \<noteq> None) refusals of [] \<Rightarrow> None | r # _ \<Rightarrow> r)"

definition revalidate_entry_dispatch :: "preflight_request \<Rightarrow> preflight_status result" where
  "revalidate_entry_dispatch q =
     (let ticket = pr_ticket q; claim = pr_capacity_claim q; snapshot = pr_admission_snapshot q;
          risk = en_account_risk_snapshot snapshot
      in if tk_selected_leverage ticket \<noteq> FIXED_EXCHANGE_CONFIGURED_LEVERAGE
            \<or> cc_configured_leverage_at_claim claim \<noteq> FIXED_EXCHANGE_CONFIGURED_LEVERAGE
            \<or> as_configured_leverage risk \<noteq> FIXED_EXCHANGE_CONFIGURED_LEVERAGE
         then Inr PF_LEVERAGE_MISMATCH
         else bind_result (command_matches_ticket_and_claim (pr_command q) ticket claim) (\<lambda>matches.
           if \<not> matches then Inr PF_COMMAND_MISMATCH
           else case first_refusal ([dispatch_policy_refusal q, dispatch_registry_refusal q, dispatch_health_refusal q]
                    @ (case pr_owner_policy q of None \<Rightarrow> [] | Some policy \<Rightarrow> [dispatch_risk_refusal q policy])) of
             Some status \<Rightarrow> Inr status
           | None \<Rightarrow>
               bind_result (cross_margin_stress_passes ticket snapshot (pr_instrument_rules q)) (\<lambda>passes.
                 if \<not> passes then Inr PF_STRESS_FAILED
                 else if as_exchange_instrument_id risk
                           \<noteq> nd_exchange_instrument_id (ti_netting_domain (tk_identity ticket))
                 then Inr PF_SCOPE_DRIFT
                 else if ec_kind (pr_command q) = SET_LEVERAGE then Inr PF_LEVERAGE_MISMATCH
                 else Inr PF_ALLOWED)))"

section \<open>What an allowed dispatch means\<close>

lemma first_refusal_None: "first_refusal rs = None \<longleftrightarrow> (\<forall>r\<in>set rs. r = None)"
  by (auto simp: first_refusal_def filter_empty_conv split: list.splits dest: filter_eq_ConsD)

lemma first_refusal_Some: "first_refusal rs = Some st \<Longrightarrow> Some st \<in> set rs"
  by (auto simp: first_refusal_def split: list.splits dest: filter_eq_ConsD)

lemma refusals_refuse:
  "dispatch_policy_refusal q \<noteq> Some PF_ALLOWED" "dispatch_registry_refusal q \<noteq> Some PF_ALLOWED"
  "dispatch_health_refusal q \<noteq> Some PF_ALLOWED" "dispatch_risk_refusal q p \<noteq> Some PF_ALLOWED"
proof -
  show "dispatch_policy_refusal q \<noteq> Some PF_ALLOWED"
    by (simp add: dispatch_policy_refusal_def Let_def split: option.split)
  show "dispatch_registry_refusal q \<noteq> Some PF_ALLOWED" by (simp add: dispatch_registry_refusal_def Let_def)
  show "dispatch_health_refusal q \<noteq> Some PF_ALLOWED" by (simp add: dispatch_health_refusal_def)
  show "dispatch_risk_refusal q p \<noteq> Some PF_ALLOWED" by (simp add: dispatch_risk_refusal_def Let_def)
qed

text \<open>The two transcriptions of the scope check agree.\<close>

lemma dispatch_scope_matches_iff: "dispatch_scope_matches scope ticket = scope_matches_ticket scope ticket"
  by (auto simp: dispatch_scope_matches_def scope_matches_ticket_def Let_def split: option.splits)

text \<open>The refusals of the decision in order; the last group needs the policy that the first has found.\<close>

definition all_refusals :: "preflight_request \<Rightarrow> preflight_status option list" where
  "all_refusals q = [dispatch_policy_refusal q, dispatch_registry_refusal q, dispatch_health_refusal q]
     @ (case pr_owner_policy q of None \<Rightarrow> [] | Some policy \<Rightarrow> [dispatch_risk_refusal q policy])"

lemma all_refusals_refuse: "Some PF_ALLOWED \<notin> set (all_refusals q)"
  using refusals_refuse[of q] by (cases "pr_owner_policy q") (simp_all add: all_refusals_def eq_commute)

lemma preflight_stages:
  assumes "revalidate_entry_dispatch q = Inr PF_ALLOWED"
  shows "command_matches_ticket_and_claim (pr_command q) (pr_ticket q) (pr_capacity_claim q) = Inr True"
    "first_refusal (all_refusals q) = None"
    "cross_margin_stress_passes (pr_ticket q) (pr_admission_snapshot q) (pr_instrument_rules q) = Inr True"
    "ec_kind (pr_command q) \<noteq> SET_LEVERAGE"
    "as_configured_leverage (en_account_risk_snapshot (pr_admission_snapshot q)) = FIXED_EXCHANGE_CONFIGURED_LEVERAGE"
proof -
  note d = assms[unfolded revalidate_entry_dispatch_def Let_def, folded all_refusals_def]
  have lev: "\<not> (tk_selected_leverage (pr_ticket q) \<noteq> FIXED_EXCHANGE_CONFIGURED_LEVERAGE
      \<or> cc_configured_leverage_at_claim (pr_capacity_claim q) \<noteq> FIXED_EXCHANGE_CONFIGURED_LEVERAGE
      \<or> as_configured_leverage (en_account_risk_snapshot (pr_admission_snapshot q)) \<noteq> FIXED_EXCHANGE_CONFIGURED_LEVERAGE)"
  proof
    assume "tk_selected_leverage (pr_ticket q) \<noteq> FIXED_EXCHANGE_CONFIGURED_LEVERAGE
      \<or> cc_configured_leverage_at_claim (pr_capacity_claim q) \<noteq> FIXED_EXCHANGE_CONFIGURED_LEVERAGE
      \<or> as_configured_leverage (en_account_risk_snapshot (pr_admission_snapshot q)) \<noteq> FIXED_EXCHANGE_CONFIGURED_LEVERAGE"
    from d[unfolded if_P[OF this]] show False by simp
  qed
  then show "as_configured_leverage (en_account_risk_snapshot (pr_admission_snapshot q)) = FIXED_EXCHANGE_CONFIGURED_LEVERAGE"
    by simp
  note d1 = d[unfolded if_not_P[OF lev] bind_result_Inr_iff]
  then show m: "command_matches_ticket_and_claim (pr_command q) (pr_ticket q) (pr_capacity_claim q) = Inr True"
    by (auto split: if_split_asm)
  show none: "first_refusal (all_refusals q) = None"
  proof (cases "first_refusal (all_refusals q)")
    case (Some st)
    then have "st \<noteq> PF_ALLOWED" using first_refusal_Some[OF Some] all_refusals_refuse by metis
    then show ?thesis using d1 m Some by (auto split: if_split_asm)
  qed
  show "cross_margin_stress_passes (pr_ticket q) (pr_admission_snapshot q) (pr_instrument_rules q) = Inr True"
    "ec_kind (pr_command q) \<noteq> SET_LEVERAGE"
    using d1 m none by (auto split: if_split_asm)
qed

lemma preflight_allowedE:
  assumes "revalidate_entry_dispatch q = Inr PF_ALLOWED"
  obtains policy r evidence where
    "pr_owner_policy q = Some policy"
    "command_matches_ticket_and_claim (pr_command q) (pr_ticket q) (pr_capacity_claim q) = Inr True"
    "ec_kind (pr_command q) = ENTRY"
    "dispatch_policy_refusal q = None" "dispatch_registry_refusal q = None" "dispatch_health_refusal q = None"
    "dispatch_risk_refusal q policy = None"
    "dispatch_stress_request (pr_ticket q) (pr_admission_snapshot q) (pr_instrument_rules q) = Inr r"
    "evaluate_cross_margin_stress r = Inr evidence" "sf_status (se_proof evidence) = PASSED"
    "as_configured_leverage (en_account_risk_snapshot (pr_admission_snapshot q)) = FIXED_EXCHANGE_CONFIGURED_LEVERAGE"
proof -
  note st = preflight_stages[OF assms]
  have parts: "dispatch_policy_refusal q = None" "dispatch_registry_refusal q = None" "dispatch_health_refusal q = None"
      "\<And>p. pr_owner_policy q = Some p \<Longrightarrow> dispatch_risk_refusal q p = None"
    using st(2) unfolding first_refusal_None all_refusals_def by auto
  obtain p where p: "pr_owner_policy q = Some p"
    using parts(1) by (cases "pr_owner_policy q") (simp_all add: dispatch_policy_refusal_def Let_def split: if_split_asm)
  have "ec_kind (pr_command q) = ENTRY"
    using st(1,4) by (auto simp: command_matches_ticket_and_claim_def split: if_split_asm)
  moreover obtain r e where "dispatch_stress_request (pr_ticket q) (pr_admission_snapshot q) (pr_instrument_rules q) = Inr r"
      "evaluate_cross_margin_stress r = Inr e" "sf_status (se_proof e) = PASSED"
    using st(3) by (auto simp: cross_margin_stress_passes_def split: if_split_asm)
  ultimately show thesis using that[OF p st(1)] p parts st(5) by simp
qed

text \<open>A request to change the leverage is refused whatever the facts are.\<close>

lemma set_leverage_never_allowed:
  "ec_kind (pr_command q) = SET_LEVERAGE \<Longrightarrow> revalidate_entry_dispatch q \<noteq> Inr PF_ALLOWED"
  by (auto elim!: preflight_allowedE)

end
