(* ===== verification/Dispatch.thy ===== *)
theory Dispatch
  imports Entry_Preflight Kernel_System
begin

text \<open>
  \<open>application/dispatch_exchange_command.py\<close>: one durable command is claimed, checked, sent to the venue and its
  result recorded, without a database transaction open during the venue call. Each transaction of
  \<open>dispatch_one_command\<close> is one definition; the last section composes them as the source does. A transaction
  that raises leaves the store as it was, so a run is a store, the requests sent to the venue, and a result or an
  exception.

  Parameters stand for what is read outside the store: \<open>V\<close> gives the current entry Vacuum of a strategy group (the
  selection tables), \<open>dispatch_facts\<close> what the entry facts source and the owner, registry, product and selection
  tables return, and \<open>venue\<close> what the venue port answers or raises.
\<close>

section \<open>Requests and results\<close>

datatype dispatch_status = DS_NO_COMMAND | DS_SUPERSEDED | DS_ACCEPTED | DS_REJECTED | DS_OUTCOME_UNKNOWN

record dispatch_request =
  dq_worker_id :: string
  dq_ticket_id :: "string option"
  dq_command_kinds :: "exchange_command_kind list"
  dq_now_ms :: int
  dq_lease_until_ms :: int
  dq_timeout_seconds :: rat
  dq_runtime_commit :: "string option"
  dq_schema_revision :: "string option"
  dq_admission_snapshot_validity_ms :: "int option"

definition mk_dispatch_request :: "dispatch_request \<Rightarrow> dispatch_request result" where
  "mk_dispatch_request q =
     (if non_blank (dq_worker_id q)
         \<and> (case dq_ticket_id q of None \<Rightarrow> True | Some t \<Rightarrow> non_blank t)
         \<and> 0 < dq_now_ms q \<and> 0 < dq_lease_until_ms q \<and> 0 < dq_timeout_seconds q
         \<and> dq_now_ms q < dq_lease_until_ms q
      then Inr (q\<lparr>dq_worker_id := py_strip (dq_worker_id q), dq_ticket_id := map_option py_strip (dq_ticket_id q)\<rparr>)
      else Inl ValidationError)"

record dispatch_result =
  dr_status :: dispatch_status
  dr_command_id :: "string option"

record entry_vacuum =
  ev_entry_vacuum_id :: string
  ev_state :: vacuum_state

type_synonym vacuum_reader = "string \<Rightarrow> entry_vacuum option"

text \<open>What a dispatch ends with: a result of the order port or a confirmed leverage.\<close>

datatype dispatch_outcome = OrderOutcome exchange_command_result | LeverageOutcome set_leverage_result

fun outcome_at_ms :: "dispatch_outcome \<Rightarrow> int" where
  "outcome_at_ms (OrderOutcome r) = er_observed_at_ms r"
| "outcome_at_ms (LeverageOutcome l) = lr_leverage_verified_at_ms l"

definition unresolved_result :: "exchange_command_status \<Rightarrow> int \<Rightarrow> string \<Rightarrow> exchange_command_result" where
  "unresolved_result status observed_at_ms reason =
     \<lparr>er_status = status, er_observed_at_ms = observed_at_ms, er_exchange_order_id = None, er_reason = Some reason\<rparr>"

section \<open>Applicability\<close>

fun cancel_status :: "cancel_purpose \<Rightarrow> aggregate_status" where
  "cancel_status entry_remainder = PARTIAL_FILL_INCIDENT"
| "cancel_status selection_vacuum_entry = ENTRY_VACUUM_CANCEL_PENDING"
| "cancel_status runner_old_stop = RUNNER_OLD_STOP_CANCEL_PENDING"
| "cancel_status reconciliation_cleanup = RECONCILIATION_PENDING"

fun applicable_statuses :: "exchange_command_kind \<Rightarrow> aggregate_status list" where
  "applicable_statuses SET_LEVERAGE = [LEVERAGE_PENDING]"
| "applicable_statuses ENTRY = [ENTRY_PENDING, LEVERAGE_CONFIRMED]"
| "applicable_statuses INITIAL_STOP = [PROTECTION_PENDING]"
| "applicable_statuses TAKE_PROFIT = [TP1_PENDING]"
| "applicable_statuses REPLACE_PROTECTION = [RUNNER_REPLACEMENT_PENDING]"
| "applicable_statuses EXIT = [EXIT_PENDING]"
| "applicable_statuses CONTROLLED_FLATTEN = [CONTROLLED_FLATTEN_PENDING]"
| "applicable_statuses CANCEL_ORDER =
     [PARTIAL_FILL_INCIDENT, ENTRY_VACUUM_CANCEL_PENDING, RUNNER_OLD_STOP_CANCEL_PENDING, RECONCILIATION_PENDING]"

definition command_is_applicable :: "exchange_command \<Rightarrow> aggregate_status \<Rightarrow> bool" where
  "command_is_applicable command status =
     (if ec_kind command \<noteq> CANCEL_ORDER then status \<in> set (applicable_statuses (ec_kind command))
      else case ec_payload command of
        CancelCommandPayload p \<Rightarrow> status = cancel_status (cp_purpose p)
      | _ \<Rightarrow> False)"

section \<open>Events\<close>

text \<open>
  The next event of an aggregate, with the validators of the event class. Python's strip leaves the identities of
  a stored aggregate as they are.
\<close>

definition next_event :: "trade_aggregate \<Rightarrow> int \<Rightarrow> lifecycle_fact \<Rightarrow> trade_event result" where
  "next_event a occurred_at_ms f =
     (let sequence = ag_last_event_sequence a + 1;
          e = TicketEvent \<lparr>eh_event_id = event_id_for (agg_ticket_id a) sequence, eh_sequence = sequence,
                eh_occurred_at_ms = occurred_at_ms\<rparr> (agg_ticket_id a) f
      in if valid_event e then Inr e else Inl ValidationError)"

text \<open>\<open>str(value)\<close> of an optional text.\<close>

definition py_str :: "string option \<Rightarrow> string" where
  "py_str v = (case v of None \<Rightarrow> ''None'' | Some s \<Rightarrow> s)"

fun cancel_confirmed :: "cancel_purpose \<Rightarrow> string \<Rightarrow> lifecycle_fact" where
  "cancel_confirmed selection_vacuum_entry i = EntryVacuumCancelConfirmed i"
| "cancel_confirmed entry_remainder i = EntryRemainderCancelConfirmed i"
| "cancel_confirmed runner_old_stop i = ProtectionCancelConfirmed i"
| "cancel_confirmed reconciliation_cleanup i = OwnedOrphanCancelConfirmed i"

fun cancel_rejected :: "cancel_purpose \<Rightarrow> string \<Rightarrow> string \<Rightarrow> lifecycle_fact" where
  "cancel_rejected selection_vacuum_entry i r = EntryVacuumCancelRejected i r"
| "cancel_rejected entry_remainder i r = EntryRemainderCancelRejected i r"
| "cancel_rejected runner_old_stop i r = ProtectionCancelRejected i r"
| "cancel_rejected reconciliation_cleanup i r = CancelOrderRejected i r"

fun cancel_unknown :: "cancel_purpose \<Rightarrow> string \<Rightarrow> string \<Rightarrow> lifecycle_fact" where
  "cancel_unknown selection_vacuum_entry i r = EntryVacuumCancelOutcomeUnknown i r"
| "cancel_unknown entry_remainder i r = EntryRemainderCancelOutcomeUnknown i r"
| "cancel_unknown runner_old_stop i r = ProtectionCancelOutcomeUnknown i r"
| "cancel_unknown reconciliation_cleanup i r = CancelOrderOutcomeUnknown i r"

definition cancel_result_fact ::
  "cancel_payload \<Rightarrow> aggregate_status \<Rightarrow> exchange_command_result \<Rightarrow> lifecycle_fact result" where
  "cancel_result_fact payload status result =
     (if status \<noteq> cancel_status (cp_purpose payload)
      then Inl (RuntimeError ''cancel purpose is incompatible with aggregate state'')
      else if er_status result = ACCEPTED
      then Inr (cancel_confirmed (cp_purpose payload) (cp_exchange_order_id payload))
      else if er_status result = REJECTED
      then Inr (cancel_rejected (cp_purpose payload) (cp_exchange_order_id payload) (py_str (er_reason result)))
      else if er_status result = OUTCOME_UNKNOWN
      then Inr (cancel_unknown (cp_purpose payload) (cp_exchange_order_id payload) (py_str (er_reason result)))
      else Inl (RuntimeError ''cancel command has an unsupported result status''))"

text \<open>The result of a replaced stop, which needs the complete payload whatever the result is.\<close>

definition replacement_result_fact :: "order_payload \<Rightarrow> exchange_command_result \<Rightarrow> lifecycle_fact result" where
  "replacement_result_fact payload result =
     (case (op_stop_price payload, op_replaces_exchange_order_id payload, op_source_watermark_ms payload) of
        (None, _, _) \<Rightarrow> Inl (RuntimeError ''protection replacement stop price is missing'')
      | (Some _, None, _) \<Rightarrow> Inl (RuntimeError ''protection replacement prior order is missing'')
      | (Some _, Some _, None) \<Rightarrow> Inl (RuntimeError ''protection replacement watermark is missing'')
      | (Some price, Some prior, Some watermark) \<Rightarrow>
          if er_status result = ACCEPTED
          then Inr (ProtectionReplacementConfirmed
                 \<lparr>rc_exchange_order_id = py_str (er_exchange_order_id result),
                  rc_protected_qty = op_quantity payload, rc_stop_price = price,
                  rc_replaces_exchange_order_id = prior, rc_source_watermark_ms = watermark\<rparr>)
          else if er_status result = REJECTED
          then Inr (ProtectionReplacementRejected (py_str (er_reason result)))
          else if er_status result = OUTCOME_UNKNOWN
          then Inr (ProtectionReplacementOutcomeUnknown (py_str (er_reason result)))
          else Inl (RuntimeError (''unsupported replace_protection result status: ''
                 @ command_status_value (er_status result))))"

definition order_result_fact ::
  "exchange_command \<Rightarrow> trade_aggregate \<Rightarrow> exchange_command_result \<Rightarrow> lifecycle_fact result" where
  "order_result_fact command a result =
     (let order_id = py_str (er_exchange_order_id result); reason = py_str (er_reason result);
          unsupported = Inl (RuntimeError (''unsupported '' @ command_kind_value (ec_kind command)
            @ '' result status: '' @ command_status_value (er_status result)));
          decide = (\<lambda>accepted rejected unknown.
            if er_status result = ACCEPTED then Inr accepted
            else if er_status result = REJECTED then Inr rejected
            else if er_status result = OUTCOME_UNKNOWN then Inr unknown
            else unsupported)
      in case ec_kind command of
           ENTRY \<Rightarrow> decide (EntryAccepted order_id) (EntryRejected reason) (EntryOutcomeUnknown reason)
         | EXIT \<Rightarrow> decide (ExitAccepted order_id) (ExitRejected reason) (ExitOutcomeUnknown reason)
         | INITIAL_STOP \<Rightarrow> decide (InitialStopConfirmed order_id (ag_position_qty a))
             (InitialStopRejected reason) (InitialStopOutcomeUnknown reason)
         | CONTROLLED_FLATTEN \<Rightarrow> decide (ControlledFlattenAccepted order_id)
             (ControlledFlattenRejected reason) (ControlledFlattenOutcomeUnknown reason)
         | TAKE_PROFIT \<Rightarrow>
             (case ec_payload command of
                OrderCommandPayload p \<Rightarrow> decide (TakeProfitConfirmed order_id (op_quantity p))
                  (TakeProfitRejected reason) (TakeProfitOutcomeUnknown reason)
              | _ \<Rightarrow> Inl (RuntimeError ''TP1 command payload is invalid''))
         | REPLACE_PROTECTION \<Rightarrow>
             (case ec_payload command of
                OrderCommandPayload p \<Rightarrow> replacement_result_fact p result
              | _ \<Rightarrow> Inl (RuntimeError ''protection replacement payload is invalid''))
         | CANCEL_ORDER \<Rightarrow>
             (case ec_payload command of
                CancelCommandPayload p \<Rightarrow> cancel_result_fact p (ag_status a) result
              | _ \<Rightarrow> Inl (RuntimeError ''cancel command payload is invalid''))
         | SET_LEVERAGE \<Rightarrow>
             if er_status result = REJECTED then Inr (LeverageRejected (py_strip reason))
             else if er_status result = OUTCOME_UNKNOWN then Inr (LeverageOutcomeUnknown (py_strip reason))
             else Inl (RuntimeError ''SET_LEVERAGE result is invalid''))"

fun command_result_fact :: "exchange_command \<Rightarrow> trade_aggregate \<Rightarrow> dispatch_outcome \<Rightarrow> lifecycle_fact result" where
  "command_result_fact command a (OrderOutcome r) = order_result_fact command a r"
| "command_result_fact command a (LeverageOutcome l) =
     (if ec_kind command = SET_LEVERAGE
      then Inr (LeverageConfirmed (lr_exchange_configured_leverage l) (lr_leverage_verified_at_ms l)
             (lr_leverage_verification_digest l))
      else Inl (TypeError ''order command result is invalid''))"

definition command_result_event ::
  "exchange_command \<Rightarrow> trade_aggregate \<Rightarrow> dispatch_outcome \<Rightarrow> trade_event result" where
  "command_result_event command a outcome =
     bind_result (command_result_fact command a outcome) (next_event a (outcome_at_ms outcome))"

text \<open>\<open>commit_reduction(event, reduce_event(aggregate, event), aggregate.version)\<close>.\<close>

definition commit_event :: "trade_aggregate \<Rightarrow> trade_event \<Rightarrow> kernel_store \<Rightarrow> kernel_store result" where
  "commit_event a e s = bind_result (reduce_event (Some a) e) (\<lambda>r. commit_reduction e r (ag_version a) s)"

definition required_aggregate :: "string \<Rightarrow> string \<Rightarrow> kernel_store \<Rightarrow> trade_aggregate result" where
  "required_aggregate message ticket_id s =
     bind_result (aggregates_get ticket_id s) (\<lambda>a.
       case a of None \<Rightarrow> Inl (RuntimeError message) | Some x \<Rightarrow> Inr x)"

abbreviation command_ticket :: "exchange_command \<Rightarrow> string" where
  "command_ticket c \<equiv> ti_ticket_id (ec_ticket_identity c)"

section \<open>Transactions\<close>

text \<open>The first transaction: a claim whose lease has run out has an unknown outcome.\<close>

definition recover_expired_claim ::
  "dispatch_request \<Rightarrow> kernel_store \<Rightarrow> (kernel_store \<times> dispatch_result option) result" where
  "recover_expired_claim q s =
     (case commands_get_one_expired_claim (dq_now_ms q) (dq_ticket_id q) (dq_command_kinds q) s of
        None \<Rightarrow> Inr (s, None)
      | Some expired \<Rightarrow>
          let result = unresolved_result OUTCOME_UNKNOWN (dq_now_ms q) ''stale_claim_after_restart''
          in bind_result (required_aggregate ''expired command has no Ticket aggregate'' (command_ticket expired) s)
               (\<lambda>a. bind_result (command_result_event expired a (OrderOutcome result)) (\<lambda>event.
                 bind_result (commands_record_expired_claim_unknown (ec_command_id expired) result s) (\<lambda>s1.
                 bind_result (commit_event a event s1) (\<lambda>s2.
                 Inr (s2, Some \<lparr>dr_status = DS_OUTCOME_UNKNOWN, dr_command_id = Some (ec_command_id expired)\<rparr>))))))"

text \<open>A claimed new-entry command is superseded by an open Vacuum, with its event.\<close>

definition supersede_by_vacuum ::
  "entry_vacuum \<Rightarrow> string \<Rightarrow> trade_aggregate \<Rightarrow> string \<Rightarrow> int \<Rightarrow> kernel_store \<Rightarrow> kernel_store result" where
  "supersede_by_vacuum vacuum command_id a worker_id now_ms s =
     bind_result (commands_mark_claimed_superseded command_id worker_id now_ms
        (''selection_entry_vacuum:'' @ ev_entry_vacuum_id vacuum) s) (\<lambda>s1.
     bind_result (next_event a now_ms (EntryVacuumSuperseded (ev_entry_vacuum_id vacuum) command_id)) (\<lambda>event.
     commit_event a event s1))"

definition blocking_vacuum :: "vacuum_reader \<Rightarrow> trade_aggregate \<Rightarrow> entry_vacuum option" where
  "blocking_vacuum V a =
     (case V (ri_strategy_group_id (ti_runtime (tk_identity (ag_ticket a)))) of
        None \<Rightarrow> None | Some v \<Rightarrow> if blocks_new_entry (ev_state v) then Some v else None)"

definition new_entry_kind :: "exchange_command_kind \<Rightarrow> bool" where
  "new_entry_kind kind \<longleftrightarrow> kind \<in> {SET_LEVERAGE, ENTRY}"

text \<open>The second transaction: claim one prepared command, unless its lifecycle has moved on.\<close>

definition claim_command ::
  "vacuum_reader \<Rightarrow> dispatch_request \<Rightarrow> kernel_store \<Rightarrow> (kernel_store \<times> (dispatch_result + exchange_command)) result" where
  "claim_command V q s =
     (case commands_claim_one_prepared (dq_worker_id q) (dq_now_ms q) (dq_lease_until_ms q) (dq_ticket_id q)
             (dq_command_kinds q) s of
        (s1, None) \<Rightarrow> Inr (s1, Inl \<lparr>dr_status = DS_NO_COMMAND, dr_command_id = None\<rparr>)
      | (s1, Some command) \<Rightarrow>
          let superseded = \<lparr>dr_status = DS_SUPERSEDED, dr_command_id = Some (ec_command_id command)\<rparr>
          in bind_result (required_aggregate ''claimed command has no Ticket aggregate'' (command_ticket command) s1)
               (\<lambda>a. if \<not> command_is_applicable command (ag_status a)
                    then bind_result (commands_mark_claimed_superseded (ec_command_id command) (dq_worker_id q)
                           (dq_now_ms q) (''aggregate_state_moved_on:'' @ status_value (ag_status a)) s1)
                           (\<lambda>s2. Inr (s2, Inl superseded))
                    else case (if new_entry_kind (ec_kind command) then blocking_vacuum V a else None) of
                      None \<Rightarrow> Inr (s1, Inr command)
                    | Some vacuum \<Rightarrow>
                        bind_result (supersede_by_vacuum vacuum (ec_command_id command) a (dq_worker_id q)
                            (dq_now_ms q) s1) (\<lambda>s2. Inr (s2, Inl superseded))))"

section \<open>Preflight of a new entry\<close>

record dispatch_facts =
  df_source_available :: bool
  df_snapshot :: "entry_admission_snapshot option"
  df_rules :: "instrument_rules_facts option"
  df_product_session :: "product_session_snapshot option"
  df_product_profile :: "instrument_product_profile option"
  df_current_product_profile :: "instrument_product_profile option"
  df_current_product_session :: "product_session_snapshot option"
  df_authority :: issue_authority
  df_capability :: "runtime_capability_snapshot option"

text \<open>
  \<open>asyncio.gather\<close> of the three reads; \<open>None\<close> when one of them raises or all of them take too long. The product
  session is read for equity products only.
\<close>

definition gathered_facts ::
  "dispatch_facts \<Rightarrow> product_compatibility
   \<Rightarrow> (entry_admission_snapshot \<times> instrument_rules_facts \<times> product_session_snapshot option) option" where
  "gathered_facts F compatibility =
     (case (df_snapshot F, df_rules F) of
        (Some snapshot, Some rules) \<Rightarrow>
          if pc_product_family compatibility = TradfiEquityPerpetual
          then (case df_product_session F of None \<Rightarrow> None | Some n \<Rightarrow> Some (snapshot, rules, Some n))
          else Some (snapshot, rules, None)
      | _ \<Rightarrow> None)"

text \<open>The verdict on the Selection authority of the stored signal.\<close>

definition selection_authority_valid :: "issue_authority \<Rightarrow> trade_ticket \<Rightarrow> capacity_claim \<Rightarrow> bool" where
  "selection_authority_valid A ticket claim =
     (case ia_selection A of
        None \<Rightarrow> True
      | Some g \<Rightarrow>
          (case sl_signal_authority g of
             None \<Rightarrow> False
           | Some authority_id \<Rightarrow>
               authority_id = tk_selection_authority_id ticket \<and> authority_id = cc_selection_authority_id claim
               \<and> ia_scope A \<noteq> None \<and> sl_decision g = SELECTION_VALID))"

definition capacity_claims_get_for_ticket :: "string \<Rightarrow> kernel_store \<Rightarrow> capacity_claim option" where
  "capacity_claims_get_for_ticket ticket_id s =
     List.find (\<lambda>c. ti_ticket_id (cc_ticket_identity c) = ticket_id) (ks_claims s)"

text \<open>The request of the decision, from one read transaction on the store.\<close>

definition dispatch_preflight_request ::
  "dispatch_facts \<Rightarrow> entry_admission_snapshot \<Rightarrow> instrument_rules_facts \<Rightarrow> product_entry_decision
   \<Rightarrow> exchange_command \<Rightarrow> trade_aggregate \<Rightarrow> capacity_claim \<Rightarrow> dispatch_request \<Rightarrow> kernel_store
   \<Rightarrow> preflight_request result" where
  "dispatch_preflight_request F snapshot rules product command a claim q s =
     (let ticket = ag_ticket a; domain = ti_netting_domain (ec_ticket_identity command);
          venue_id = nd_venue_id domain; account_id = nd_account_id domain;
          instrument = nd_exchange_instrument_id domain; A = df_authority F
      in bind_result (read_admission_ownership venue_id account_id instrument s) (\<lambda>ownership.
         bind_result (classify_account_entry_health snapshot ownership) (\<lambda>account_health.
         bind_result (classify_instrument_entry_health snapshot ownership instrument (nd_position_side domain))
           (\<lambda>instrument_health.
         mk_preflight_request
           \<lparr>pr_command = command, pr_ticket = ticket, pr_capacity_claim = claim, pr_owner_policy = ia_policy A,
            pr_runtime_scope = ia_scope A, pr_active_universe = ia_universe A,
            pr_strategy_group = ia_strategy_group A, pr_strategy_version = ia_strategy_version A,
            pr_event_spec = ia_event_spec A, pr_runtime_capability = df_capability F,
            pr_runtime_commit = py_str (dq_runtime_commit q), pr_schema_revision = py_str (dq_schema_revision q),
            pr_admission_snapshot = snapshot, pr_instrument_rules = rules,
            pr_account_entry_health = account_health, pr_instrument_entry_health = instrument_health,
            pr_active_family_ticket_count = count_active_family_tickets venue_id account_id
              (tk_exposure_family ticket) s,
            pr_active_strategy_side_ticket_count = count_active_strategy_side_tickets venue_id account_id
              (ri_strategy_group_id (ti_runtime (tk_identity ticket))) (nd_position_side domain) s,
            pr_active_directional_risk_at_stop = sum_active_directional_stop_risk venue_id account_id
              (nd_position_side domain) s,
            pr_now_ms = dq_now_ms q, pr_product_entry_decision = Some product,
            pr_strategy_entry_enabled = strategy_entry_is_enabled (ia_strategy_control A),
            pr_selection_entry_vacuum_open =
              (case Option.bind (ia_selection A) sl_vacuum of None \<Rightarrow> False | Some v \<Rightarrow> blocks_new_entry v),
            pr_selection_authority_valid = selection_authority_valid A ticket claim\<rparr>))))"

definition preflight_new_entry_mutation ::
  "dispatch_facts \<Rightarrow> exchange_command \<Rightarrow> dispatch_request \<Rightarrow> kernel_store \<Rightarrow> preflight_status result" where
  "preflight_new_entry_mutation F command q s =
     (if \<not> df_source_available F \<or> dq_runtime_commit q \<in> {None, Some []} \<or> dq_schema_revision q \<in> {None, Some []}
         \<or> (case dq_admission_snapshot_validity_ms q of None \<Rightarrow> True | Some v \<Rightarrow> v \<le> 0)
      then Inr PF_RUNTIME_FENCED
      else case product_compatibility_for (ri_event_spec_id (ti_runtime (ec_ticket_identity command))) of
        Inl _ \<Rightarrow> Inr PF_PRODUCT_ENTRY_BLOCKED
      | Inr compatibility \<Rightarrow>
          (case gathered_facts F compatibility of
             None \<Rightarrow> Inr PF_STALE_SNAPSHOT
           | Some (snapshot, rules, session) \<Rightarrow>
               bind_result (evaluate_event_product_entry compatibility (df_product_profile F) session (dq_now_ms q))
                 (\<lambda>source_decision.
               if pd_status source_decision = PE_IDENTITY_MISMATCH then Inr PF_PRODUCT_ENTRY_BLOCKED
               else bind_result (aggregates_get (command_ticket command) s) (\<lambda>aggregate.
               case (commands_get (ec_command_id command) s, aggregate,
                     capacity_claims_get_for_ticket (command_ticket command) s) of
                 (Some current, Some a, Some claim) \<Rightarrow>
                   bind_result (evaluate_event_product_entry compatibility (df_current_product_profile F)
                      (df_current_product_session F) (dq_now_ms q)) (\<lambda>product.
                   bind_result (dispatch_preflight_request F snapshot rules product current a claim q s)
                     revalidate_entry_dispatch)
               | _ \<Rightarrow> Inr PF_COMMAND_MISMATCH))))"

definition preflight_verdict ::
  "dispatch_facts \<Rightarrow> exchange_command \<Rightarrow> dispatch_request \<Rightarrow> kernel_store \<Rightarrow> preflight_status result" where
  "preflight_verdict F command q s =
     (if new_entry_kind (ec_kind command) then preflight_new_entry_mutation F command q s else Inr PF_ALLOWED)"

definition record_preflight_refusal ::
  "vacuum_reader \<Rightarrow> exchange_command \<Rightarrow> dispatch_request \<Rightarrow> preflight_status \<Rightarrow> kernel_store \<Rightarrow> kernel_store result" where
  "record_preflight_refusal V command q status s =
     (let result = unresolved_result REJECTED (dq_now_ms q) (''dispatch_preflight:'' @ preflight_value status)
      in case commands_get (ec_command_id command) s of
           None \<Rightarrow> Inl (RuntimeError ''claimed command changed before preflight refusal'')
         | Some current \<Rightarrow>
             bind_result (required_aggregate ''claimed command changed before preflight refusal''
                (command_ticket command) s) (\<lambda>a.
             if status = PF_SELECTION_ENTRY_VACUUM
             then (case blocking_vacuum V a of
                     None \<Rightarrow> Inl (RuntimeError ''Selection Entry Vacuum changed before dispatch supersession'')
                   | Some vacuum \<Rightarrow>
                       supersede_by_vacuum vacuum (ec_command_id current) a (dq_worker_id q) (dq_now_ms q) s)
             else bind_result (command_result_event current a (OrderOutcome result)) (\<lambda>event.
                  bind_result (commands_record_result (ec_command_id current) (dq_worker_id q) result s)
                    (commit_event a event))))"

section \<open>The venue call\<close>

record venue_order_request =
  vo_command_id :: string
  vo_kind :: exchange_command_kind
  vo_venue_id :: string
  vo_account_id :: string
  vo_exchange_instrument_id :: string
  vo_position_side :: position_side
  vo_venue_client_order_id :: "string option"
  vo_payload :: command_payload
  vo_deadline_at_ms :: int

record venue_leverage_request =
  ve_command_id :: string
  ve_venue_id :: string
  ve_account_id :: string
  ve_exchange_instrument_id :: string
  ve_payload :: set_leverage_payload
  ve_deadline_at_ms :: int

datatype venue_request = VenueCommandRequest venue_order_request | VenueSetLeverageRequest venue_leverage_request

text \<open>A SET_LEVERAGE command with another payload raises inside the guarded call, before anything is sent.\<close>

definition venue_request_of :: "exchange_command \<Rightarrow> venue_request option" where
  "venue_request_of command =
     (let domain = ti_netting_domain (ec_ticket_identity command)
      in if ec_kind command = SET_LEVERAGE
         then (case ec_payload command of
                 SetLeverageCommandPayload p \<Rightarrow> Some (VenueSetLeverageRequest
                   \<lparr>ve_command_id = ec_command_id command, ve_venue_id = nd_venue_id domain,
                    ve_account_id = nd_account_id domain,
                    ve_exchange_instrument_id = nd_exchange_instrument_id domain, ve_payload = p,
                    ve_deadline_at_ms = ec_deadline_at_ms command\<rparr>)
               | _ \<Rightarrow> None)
         else Some (VenueCommandRequest
                   \<lparr>vo_command_id = ec_command_id command, vo_kind = ec_kind command,
                    vo_venue_id = nd_venue_id domain, vo_account_id = nd_account_id domain,
                    vo_exchange_instrument_id = nd_exchange_instrument_id domain,
                    vo_position_side = nd_position_side domain,
                    vo_venue_client_order_id = ec_venue_client_order_id command,
                    vo_payload = ec_payload command, vo_deadline_at_ms = ec_deadline_at_ms command\<rparr>))"

text \<open>What the port returns or raises; an exception carries its class name, a failure its sanitized reason.\<close>

datatype venue_response =
    VenueOrderResult exchange_command_result
  | VenueLeverageResult set_leverage_result
  | VenueMutationRejected string
  | VenueMutationFailure string
  | VenueTimeout
  | VenueException string

fun response_outcome :: "int \<Rightarrow> venue_response \<Rightarrow> dispatch_outcome" where
  "response_outcome now_ms (VenueOrderResult r) = OrderOutcome r"
| "response_outcome now_ms (VenueLeverageResult l) = LeverageOutcome l"
| "response_outcome now_ms (VenueMutationRejected name) =
     OrderOutcome (unresolved_result REJECTED now_ms (''venue_rejected:'' @ name))"
| "response_outcome now_ms (VenueMutationFailure reason) =
     OrderOutcome (unresolved_result OUTCOME_UNKNOWN now_ms (''venue_error:'' @ reason))"
| "response_outcome now_ms VenueTimeout =
     OrderOutcome (unresolved_result OUTCOME_UNKNOWN now_ms ''venue_timeout'')"
| "response_outcome now_ms (VenueException name) =
     OrderOutcome (unresolved_result OUTCOME_UNKNOWN now_ms (''venue_error:'' @ name))"

text \<open>A confirmed leverage that differs from the one asked for is not a confirmation.\<close>

definition check_readback :: "exchange_command \<Rightarrow> dispatch_outcome \<Rightarrow> dispatch_outcome" where
  "check_readback command outcome =
     (case (outcome, ec_payload command) of
        (LeverageOutcome l, SetLeverageCommandPayload p) \<Rightarrow>
          if ec_kind command = SET_LEVERAGE \<and> lr_exchange_configured_leverage l \<noteq> lp_desired_leverage p
          then OrderOutcome (unresolved_result OUTCOME_UNKNOWN (lr_leverage_verified_at_ms l)
                 ''leverage_readback_mismatch'')
          else outcome
      | _ \<Rightarrow> outcome)"

text \<open>The call with every exception caught: what was sent and what it came to.\<close>

definition call_venue ::
  "(venue_request \<Rightarrow> venue_response) \<Rightarrow> exchange_command \<Rightarrow> dispatch_request \<Rightarrow> venue_request list \<times> dispatch_outcome" where
  "call_venue venue command q =
     (case venue_request_of command of
        None \<Rightarrow> ([], response_outcome (dq_now_ms q) (VenueException ''RuntimeError''))
      | Some r \<Rightarrow> ([r], check_readback command (response_outcome (dq_now_ms q) (venue r))))"

definition record_dispatch_result ::
  "exchange_command \<Rightarrow> dispatch_request \<Rightarrow> dispatch_outcome \<Rightarrow> kernel_store \<Rightarrow> kernel_store result" where
  "record_dispatch_result command q outcome s =
     bind_result (required_aggregate ''claimed command has no Ticket aggregate'' (command_ticket command) s) (\<lambda>a.
     bind_result (command_result_event command a outcome) (\<lambda>event.
     bind_result (case outcome of
          LeverageOutcome l \<Rightarrow> commands_record_leverage_result (ec_command_id command) (dq_worker_id q) l s
        | OrderOutcome r \<Rightarrow> commands_record_result (ec_command_id command) (dq_worker_id q) r s)
       (commit_event a event)))"

fun dispatch_status_of :: "dispatch_outcome \<Rightarrow> dispatch_status result" where
  "dispatch_status_of (LeverageOutcome l) = Inr DS_ACCEPTED"
| "dispatch_status_of (OrderOutcome r) =
     (case er_status r of
        ACCEPTED \<Rightarrow> Inr DS_ACCEPTED
      | REJECTED \<Rightarrow> Inr DS_REJECTED
      | OUTCOME_UNKNOWN \<Rightarrow> Inr DS_OUTCOME_UNKNOWN
      | SUPERSEDED \<Rightarrow> Inr DS_SUPERSEDED
      | status \<Rightarrow> Inl (ValueError (command_status_value status @ '' is not a valid DispatchCommandStatus'')))"

section \<open>One dispatch\<close>

record dispatch_run =
  run_store :: kernel_store
  run_sent :: "venue_request list"
  run_result :: "dispatch_result result"

text \<open>From a claimed command on.\<close>

definition dispatch_claimed ::
  "vacuum_reader \<Rightarrow> dispatch_facts \<Rightarrow> (venue_request \<Rightarrow> venue_response) \<Rightarrow> dispatch_request \<Rightarrow> exchange_command
   \<Rightarrow> kernel_store \<Rightarrow> dispatch_run" where
  "dispatch_claimed V F venue q command s =
     (case preflight_verdict F command q s of
        Inl e \<Rightarrow> \<lparr>run_store = s, run_sent = [], run_result = Inl e\<rparr>
      | Inr status \<Rightarrow>
          if status \<noteq> PF_ALLOWED
          then (case record_preflight_refusal V command q status s of
                  Inl e \<Rightarrow> \<lparr>run_store = s, run_sent = [], run_result = Inl e\<rparr>
                | Inr s1 \<Rightarrow> \<lparr>run_store = s1, run_sent = [], run_result = Inr
                    \<lparr>dr_status = DS_SUPERSEDED, dr_command_id = Some (ec_command_id command)\<rparr>\<rparr>)
          else let (sent, outcome) = call_venue venue command q
               in case record_dispatch_result command q outcome s of
                    Inl e \<Rightarrow> \<lparr>run_store = s, run_sent = sent, run_result = Inl e\<rparr>
                  | Inr s1 \<Rightarrow> \<lparr>run_store = s1, run_sent = sent, run_result =
                      bind_result (dispatch_status_of outcome) (\<lambda>status.
                        Inr \<lparr>dr_status = status, dr_command_id = Some (ec_command_id command)\<rparr>)\<rparr>)"

definition dispatch_one_command ::
  "vacuum_reader \<Rightarrow> dispatch_facts \<Rightarrow> (venue_request \<Rightarrow> venue_response) \<Rightarrow> dispatch_request \<Rightarrow> kernel_store
   \<Rightarrow> dispatch_run" where
  "dispatch_one_command V F venue q s =
     (case recover_expired_claim q s of
        Inl e \<Rightarrow> \<lparr>run_store = s, run_sent = [], run_result = Inl e\<rparr>
      | Inr (s1, Some r) \<Rightarrow> \<lparr>run_store = s1, run_sent = [], run_result = Inr r\<rparr>
      | Inr (s1, None) \<Rightarrow>
          (case claim_command V q s1 of
             Inl e \<Rightarrow> \<lparr>run_store = s1, run_sent = [], run_result = Inl e\<rparr>
           | Inr (s2, Inl r) \<Rightarrow> \<lparr>run_store = s2, run_sent = [], run_result = Inr r\<rparr>
           | Inr (s2, Inr command) \<Rightarrow> dispatch_claimed V F venue q command s2))"

section \<open>What an allowed preflight rests on\<close>

lemma dispatch_preflight_sel:
  assumes "dispatch_preflight_request F snapshot rules product d a claim q s = Inr p"
  obtains ownership where
    "pr_command p = d" "pr_ticket p = ag_ticket a" "pr_capacity_claim p = claim" "pr_admission_snapshot p = snapshot"
    "pr_instrument_rules p = rules" "pr_now_ms p = dq_now_ms q" "pr_owner_policy p = ia_policy (df_authority F)"
    "pr_strategy_entry_enabled p = strategy_entry_is_enabled (ia_strategy_control (df_authority F))"
    "pr_product_entry_decision p = Some product"
    "read_admission_ownership (nd_venue_id (ti_netting_domain (ec_ticket_identity d)))
       (nd_account_id (ti_netting_domain (ec_ticket_identity d)))
       (nd_exchange_instrument_id (ti_netting_domain (ec_ticket_identity d))) s = Inr ownership"
    "classify_account_entry_health snapshot ownership = Inr (pr_account_entry_health p)"
    "classify_instrument_entry_health snapshot ownership
       (nd_exchange_instrument_id (ti_netting_domain (ec_ticket_identity d)))
       (nd_position_side (ti_netting_domain (ec_ticket_identity d))) = Inr (pr_instrument_entry_health p)"
  using assms by (auto simp: dispatch_preflight_request_def Let_def mk_preflight_request_def split: if_split_asm)

lemma preflight_mutationE:
  assumes "preflight_new_entry_mutation F c q s = Inr PF_ALLOWED"
  obtains snapshot rules product d a claim p where
    "df_snapshot F = Some snapshot" "df_rules F = Some rules" "pd_status product = PE_ALLOWED"
    "commands_get (ec_command_id c) s = Some d" "aggregates_get (command_ticket c) s = Inr (Some a)"
    "capacity_claims_get_for_ticket (command_ticket c) s = Some claim"
    "dispatch_preflight_request F snapshot rules product d a claim q s = Inr p"
    "revalidate_entry_dispatch p = Inr PF_ALLOWED"
proof -
  obtain compatibility where comp: "product_compatibility_for (ri_event_spec_id (ti_runtime (ec_ticket_identity c))) = Inr compatibility"
    using assms by (auto simp: preflight_new_entry_mutation_def split: if_split_asm sum.splits)
  obtain snapshot rules session where g: "gathered_facts F compatibility = Some (snapshot, rules, session)"
    using assms comp by (auto simp: preflight_new_entry_mutation_def split: if_split_asm option.splits)
  note d0 = assms[unfolded preflight_new_entry_mutation_def comp g sum.case option.case prod.case]
  obtain x where x: "aggregates_get (command_ticket c) s = Inr x"
    using d0 by (auto split: if_split_asm)
  obtain a d claim where m: "aggregates_get (command_ticket c) s = Inr (Some a)" "commands_get (ec_command_id c) s = Some d"
      "capacity_claims_get_for_ticket (command_ticket c) s = Some claim"
    using d0 x
    by (cases x; cases "commands_get (ec_command_id c) s"; cases "capacity_claims_get_for_ticket (command_ticket c) s")
      (auto split: if_split_asm)
  obtain product p where p: "dispatch_preflight_request F snapshot rules product d a claim q s = Inr p" "revalidate_entry_dispatch p = Inr PF_ALLOWED"
    using d0 m by (auto split: if_split_asm)
  have facts: "df_snapshot F = Some snapshot" "df_rules F = Some rules"
    using g by (auto simp: gathered_facts_def split: option.splits if_split_asm)
  have "pr_product_entry_decision p = Some product" by (rule dispatch_preflight_sel[OF p(1)])
  then have "pd_status product = PE_ALLOWED"
    using p(2) by (auto elim!: preflight_allowedE simp: dispatch_registry_refusal_def Let_def split: if_split_asm)
  then show thesis by (rule that[OF facts _ m(2,1,3) p])
qed

end
