(* ===== verification/Dispatch_System.thy ===== *)
theory Dispatch_System
  imports Dispatch Stored_Commands
begin

text \<open>
  The dispatcher in the durable kernel. Every transaction of a dispatch is a sequence of kernel steps, so the
  stores stay reachable. Then the concurrent system: any number of dispatchers, each between two of its
  transactions at any time, interleaved with every other worker of the kernel, and able to die at any point. The
  venue log of the system records each command handed to the venue port.
\<close>

section \<open>Transactions are kernel steps\<close>

lemma next_event_valid: "next_event a n f = Inr e \<Longrightarrow> valid_event e"
  by (auto simp: next_event_def Let_def split: if_split_asm)

lemma result_event_valid: "command_result_event c a x = Inr e \<Longrightarrow> valid_event e"
  by (auto simp: command_result_event_def next_event_valid)

lemma quiet_aggregate: "quiet s s' \<Longrightarrow> aggregates_get t s' = aggregates_get t s"
  by (auto simp: aggregates_get_def tickets_get_def quiet_def split: option.split)

lemma worker_aggregate: "worker_step s s' \<Longrightarrow> aggregates_get t s' = aggregates_get t s"
  by (rule quiet_aggregate) (rule worker_quiet)

lemma commit_event_step:
  assumes "aggregates_get t s = Inr (Some a)" "valid_event e" "commit_event a e s = Inr s'"
  shows "kernel_step s s'"
  using assms by (auto simp: commit_event_def intro: kernel_step.commit)

lemma required_aggregate_iff: "required_aggregate m t s = Inr a \<longleftrightarrow> aggregates_get t s = Inr (Some a)"
  by (auto simp: required_aggregate_def split: option.splits)

lemma recorded_commit:
  assumes "worker_step s s1" "aggregates_get t s = Inr (Some a)" "valid_event e" "commit_event a e s1 = Inr s2"
  shows "kernel_step\<^sup>*\<^sup>* s s2"
  using commit_event_step[of t s1 a e s2] assms worker_aggregate[OF assms(1)]
  by (auto intro: converse_rtranclp_into_rtranclp kernel_step.worker)

lemma reachable_steps: "kernel_step\<^sup>*\<^sup>* s s' \<Longrightarrow> reachable_store s \<Longrightarrow> reachable_store s'"
  by (induction rule: rtranclp_induct) (auto intro: reachable_store.step)

text \<open>A result the dispatcher writes itself.\<close>

lemma non_blank_Cons: "\<not> py_isspace c \<Longrightarrow> non_blank (c # x)"
  by (auto simp: non_blank_def py_strip_def)

lemma unresolved_valid:
  assumes "0 < n" "st \<in> {REJECTED, OUTCOME_UNKNOWN}" "non_blank reason"
  shows "valid_command_result (unresolved_result st n reason)"
  using assms by (auto simp: valid_command_result_def unresolved_result_def py_strip_opt_def non_blank_def)

lemma request_times: "mk_dispatch_request q0 = Inr q \<Longrightarrow> 0 < dq_now_ms q"
  by (auto simp: mk_dispatch_request_def split: if_splits)

lemma literal_non_blank: "non_blank ''stale_claim_after_restart''" "non_blank ''venue_timeout''"
  "non_blank ''leverage_readback_mismatch''"
  by (simp_all add: non_blank_def py_strip_def py_isspace_def)

lemma recover_steps:
  assumes "recover_expired_claim q s = Inr (s', r)" "0 < dq_now_ms q"
  shows "kernel_step\<^sup>*\<^sup>* s s'"
proof (cases "commands_get_one_expired_claim (dq_now_ms q) (dq_ticket_id q) (dq_command_kinds q) s")
  case None
  then show ?thesis using assms by (simp add: recover_expired_claim_def)
next
  case (Some c)
  let ?result = "unresolved_result OUTCOME_UNKNOWN (dq_now_ms q) ''stale_claim_after_restart''"
  obtain a e s1 where st: "aggregates_get (command_ticket c) s = Inr (Some a)"
      "command_result_event c a (OrderOutcome ?result) = Inr e"
      "commands_record_expired_claim_unknown (ec_command_id c) ?result s = Inr s1" "commit_event a e s1 = Inr s'"
    using assms(1) Some by (auto simp: recover_expired_claim_def Let_def required_aggregate_iff)
  have "worker_step s s1"
    using st(3) unresolved_valid[OF assms(2) _ literal_non_blank(1)] by (auto intro: worker_step.expired)
  then show ?thesis using recorded_commit st(1,4) result_event_valid[OF st(2)] by blast
qed

lemma supersede_steps:
  assumes "supersede_by_vacuum v i a worker now s = Inr s'" "aggregates_get t s = Inr (Some a)"
  shows "kernel_step\<^sup>*\<^sup>* s s'"
proof -
  obtain s1 e where e: "commands_mark_claimed_superseded i worker now (''selection_entry_vacuum:'' @ ev_entry_vacuum_id v) s = Inr s1"
      "next_event a now (EntryVacuumSuperseded (ev_entry_vacuum_id v) i) = Inr e" "commit_event a e s1 = Inr s'"
    using assms(1) unfolding supersede_by_vacuum_def bind_result_Inr_iff by blast
  show ?thesis
    by (rule recorded_commit[OF worker_step.claimed_superseded[OF e(1)] assms(2) next_event_valid[OF e(2)] e(3)])
qed

lemma claim_steps:
  assumes "claim_command V q s = Inr (s', r)"
  shows "kernel_step\<^sup>*\<^sup>* s s'"
proof -
  obtain s1 c where c: "commands_claim_one_prepared (dq_worker_id q) (dq_now_ms q) (dq_lease_until_ms q)
      (dq_ticket_id q) (dq_command_kinds q) s = (s1, c)"
    by (cases "commands_claim_one_prepared (dq_worker_id q) (dq_now_ms q) (dq_lease_until_ms q)
        (dq_ticket_id q) (dq_command_kinds q) s")
  have first: "kernel_step s s1" using worker_step.claim[OF c] by (rule kernel_step.worker)
  note d = assms[unfolded claim_command_def c]
  have "kernel_step\<^sup>*\<^sup>* s1 s'"
  proof (cases c)
    case (Some x)
    obtain a where a: "aggregates_get (command_ticket x) s1 = Inr (Some a)"
      using d Some by (auto simp: Let_def required_aggregate_iff)
    consider "s' = s1" | m where "commands_mark_claimed_superseded (ec_command_id x) (dq_worker_id q) (dq_now_ms q) m s1 = Inr s'"
      | v where "supersede_by_vacuum v (ec_command_id x) a (dq_worker_id q) (dq_now_ms q) s1 = Inr s'"
      using d Some a by (auto simp: Let_def required_aggregate_def split: if_splits option.splits)
    then show ?thesis
      by cases (auto intro: supersede_steps[OF _ a] r_into_rtranclp kernel_step.worker worker_step.claimed_superseded)
  qed (use d in simp)
  then show ?thesis using first by (rule converse_rtranclp_into_rtranclp[rotated])
qed

lemma refusal_steps:
  assumes "record_preflight_refusal V c q st s = Inr s'" "0 < dq_now_ms q"
  shows "kernel_step\<^sup>*\<^sup>* s s'"
proof -
  let ?result = "unresolved_result REJECTED (dq_now_ms q) (''dispatch_preflight:'' @ preflight_value st)"
  obtain d a where d: "commands_get (ec_command_id c) s = Some d" "aggregates_get (command_ticket c) s = Inr (Some a)"
    using assms(1) by (auto simp: record_preflight_refusal_def Let_def required_aggregate_iff split: option.splits)
  show ?thesis
  proof (cases "st = PF_SELECTION_ENTRY_VACUUM")
    case True
    then obtain v where "supersede_by_vacuum v (ec_command_id d) a (dq_worker_id q) (dq_now_ms q) s = Inr s'"
      using assms(1) d by (auto simp: record_preflight_refusal_def Let_def required_aggregate_def split: option.splits)
    then show ?thesis using supersede_steps d(2) by blast
  next
    case False
    then obtain e s1 where e: "command_result_event d a (OrderOutcome ?result) = Inr e"
        "commands_record_result (ec_command_id d) (dq_worker_id q) ?result s = Inr s1" "commit_event a e s1 = Inr s'"
      using assms(1) d by (auto simp: record_preflight_refusal_def Let_def required_aggregate_def)
    have "valid_command_result ?result"
      by (rule unresolved_valid[OF assms(2)]) (auto intro!: non_blank_Cons simp: py_isspace_def)
    then show ?thesis
      using recorded_commit[OF worker_step.result d(2) result_event_valid[OF e(1)] e(3)] e(2) by blast
  qed
qed

text \<open>The documented contract of the venue port: a result it returns has passed the validators of its class.\<close>

fun response_ok :: "venue_response \<Rightarrow> bool" where
  "response_ok (VenueOrderResult r) = valid_command_result r"
| "response_ok (VenueLeverageResult l) = valid_set_leverage_result l"
| "response_ok _ = True"

fun outcome_ok :: "dispatch_outcome \<Rightarrow> bool" where
  "outcome_ok (OrderOutcome r) = valid_command_result r"
| "outcome_ok (LeverageOutcome l) = valid_set_leverage_result l"

lemma response_outcome_ok: "response_ok r \<Longrightarrow> 0 < n \<Longrightarrow> outcome_ok (response_outcome n r)"
  by (cases r) (auto intro!: unresolved_valid non_blank_Cons literal_non_blank simp: py_isspace_def)

lemma readback_ok: "outcome_ok x \<Longrightarrow> outcome_ok (check_readback c x)"
  by (auto simp: check_readback_def valid_set_leverage_result_def
      intro!: unresolved_valid literal_non_blank split: dispatch_outcome.split command_payload.split)

lemma call_venue_ok:
  assumes "call_venue venue c q = (sent, x)" "\<And>r. response_ok (venue r)" "0 < dq_now_ms q"
  shows "outcome_ok x"
  using assms response_outcome_ok[OF assms(2,3)] response_outcome_ok[of "VenueException ''RuntimeError''"]
  by (auto simp: call_venue_def readback_ok simp del: response_outcome.simps split: option.splits)

lemma record_steps:
  assumes "record_dispatch_result c q x s = Inr s'" "outcome_ok x"
  shows "kernel_step\<^sup>*\<^sup>* s s'"
proof -
  obtain a e s1 where a: "aggregates_get (command_ticket c) s = Inr (Some a)" "command_result_event c a x = Inr e"
      "commit_event a e s1 = Inr s'"
      "(case x of LeverageOutcome l \<Rightarrow> commands_record_leverage_result (ec_command_id c) (dq_worker_id q) l s
        | OrderOutcome r \<Rightarrow> commands_record_result (ec_command_id c) (dq_worker_id q) r s) = Inr s1"
    using assms(1) by (auto simp: record_dispatch_result_def required_aggregate_iff)
  have "worker_step s s1"
    using a(4) assms(2) by (cases x) (auto intro: worker_step.result worker_step.leverage_result)
  then show ?thesis using recorded_commit a(1,3) result_event_valid[OF a(2)] by blast
qed

lemma claimed_steps:
  assumes "0 < dq_now_ms q" "\<And>r. response_ok (venue r)"
  shows "kernel_step\<^sup>*\<^sup>* s (run_store (dispatch_claimed V F venue q c s))"
proof (cases "preflight_verdict F c q s")
  case (Inr st)
  obtain sent x where x: "call_venue venue c q = (sent, x)" by (cases "call_venue venue c q")
  note ok = call_venue_ok[OF x assms(2,1)]
  show ?thesis
  proof (cases "st = PF_ALLOWED")
    case True
    then show ?thesis
      using Inr x record_steps[OF _ ok] by (cases "record_dispatch_result c q x s") (simp_all add: dispatch_claimed_def)
  next
    case False
    then show ?thesis
      using Inr refusal_steps[OF _ assms(1)] by (cases "record_preflight_refusal V c q st s") (simp_all add: dispatch_claimed_def)
  qed
qed (simp add: dispatch_claimed_def)

lemma dispatch_steps:
  assumes "0 < dq_now_ms q" "\<And>r. response_ok (venue r)"
  shows "kernel_step\<^sup>*\<^sup>* s (run_store (dispatch_one_command V F venue q s))"
proof (cases "recover_expired_claim q s")
  case (Inr p)
  obtain s1 r where p: "recover_expired_claim q s = Inr (s1, r)" using Inr by (cases p) simp
  note first = recover_steps[OF p assms(1)]
  show ?thesis
  proof (cases r)
    case None
    show ?thesis
    proof (cases "claim_command V q s1")
      case (Inr p2)
      obtain s2 y where y: "claim_command V q s1 = Inr (s2, y)" using Inr by (cases p2) simp
      note second = rtranclp_trans[OF first claim_steps[OF y]]
      show ?thesis
      proof (cases y)
        case (Inr c)
        have e: "run_store (dispatch_one_command V F venue q s) = run_store (dispatch_claimed V F venue q c s2)"
          using Inr y None p by (simp add: dispatch_one_command_def)
        show ?thesis unfolding e by (rule rtranclp_trans[OF second claimed_steps[OF assms]])
      qed (use second y None p in \<open>simp add: dispatch_one_command_def\<close>)
    qed (use first None p in \<open>simp add: dispatch_one_command_def\<close>)
  qed (use first p in \<open>simp add: dispatch_one_command_def\<close>)
qed (simp add: dispatch_one_command_def)

section \<open>The concurrent system\<close>

text \<open>
  A flight is a dispatcher that has claimed a command and has not finished: before its preflight, refused by it,
  cleared to send, or with the venue's answer in hand.
\<close>

datatype flight_stage = FlightClaimed | FlightRefused preflight_status | FlightCleared | FlightAnswered dispatch_outcome

record flight =
  fl_request :: dispatch_request
  fl_command :: exchange_command
  fl_stage :: flight_stage

record dispatch_world =
  dw_store :: kernel_store
  dw_flights :: "flight list"
  dw_sent :: "exchange_command list"

definition empty_world :: dispatch_world where
  "empty_world = \<lparr>dw_store = empty_store, dw_flights = [], dw_sent = []\<rparr>"

text \<open>
  One transaction, one venue call, or the death of a dispatcher (a crash, or an exception in one of its later
  transactions). Every read outside the store (\<open>V\<close>, \<open>F\<close>) and every answer of the venue may differ from step to step.
\<close>

inductive dispatch_step :: "dispatch_world \<Rightarrow> dispatch_world \<Rightarrow> bool" where
  kernel: "kernel_step (dw_store w) s' \<Longrightarrow> dispatch_step w (w\<lparr>dw_store := s'\<rparr>)"
| recover: "mk_dispatch_request q0 = Inr q \<Longrightarrow> recover_expired_claim q (dw_store w) = Inr (s', r)
    \<Longrightarrow> dispatch_step w (w\<lparr>dw_store := s'\<rparr>)"
| idle: "mk_dispatch_request q0 = Inr q \<Longrightarrow> claim_command V q (dw_store w) = Inr (s', Inl r)
    \<Longrightarrow> dispatch_step w (w\<lparr>dw_store := s'\<rparr>)"
| claim: "mk_dispatch_request q0 = Inr q \<Longrightarrow> claim_command V q (dw_store w) = Inr (s', Inr c)
    \<Longrightarrow> dispatch_step w (w\<lparr>dw_store := s', dw_flights := \<lparr>fl_request = q, fl_command = c, fl_stage = FlightClaimed\<rparr> # dw_flights w\<rparr>)"
| verdict: "dw_flights w = fs @ f # gs \<Longrightarrow> fl_stage f = FlightClaimed
    \<Longrightarrow> preflight_verdict F (fl_command f) (fl_request f) (dw_store w) = Inr st
    \<Longrightarrow> dispatch_step w (w\<lparr>dw_flights := fs @ f\<lparr>fl_stage := if st = PF_ALLOWED then FlightCleared else FlightRefused st\<rparr> # gs\<rparr>)"
| refuse: "dw_flights w = fs @ f # gs \<Longrightarrow> fl_stage f = FlightRefused st
    \<Longrightarrow> record_preflight_refusal V (fl_command f) (fl_request f) st (dw_store w) = Inr s'
    \<Longrightarrow> dispatch_step w (w\<lparr>dw_store := s', dw_flights := fs @ gs\<rparr>)"
| submit: "dw_flights w = fs @ f # gs \<Longrightarrow> fl_stage f = FlightCleared \<Longrightarrow> (\<And>r. response_ok (venue r))
    \<Longrightarrow> call_venue venue (fl_command f) (fl_request f) = (sent, x)
    \<Longrightarrow> dispatch_step w (w\<lparr>dw_flights := fs @ f\<lparr>fl_stage := FlightAnswered x\<rparr> # gs,
         dw_sent := dw_sent w @ (if sent = [] then [] else [fl_command f])\<rparr>)"
| record_result: "dw_flights w = fs @ f # gs \<Longrightarrow> fl_stage f = FlightAnswered x
    \<Longrightarrow> record_dispatch_result (fl_command f) (fl_request f) x (dw_store w) = Inr s'
    \<Longrightarrow> dispatch_step w (w\<lparr>dw_store := s', dw_flights := fs @ gs\<rparr>)"
| crash: "dw_flights w = fs @ f # gs \<Longrightarrow> dispatch_step w (w\<lparr>dw_flights := fs @ gs\<rparr>)"

inductive reachable_world :: "dispatch_world \<Rightarrow> bool" where
  start: "reachable_world empty_world"
| step: "reachable_world w \<Longrightarrow> dispatch_step w w' \<Longrightarrow> reachable_world w'"

inductive_simps step_from_empty: "dispatch_step empty_world w"

section \<open>Commands that have left the queue\<close>

abbreviation row_id :: "command_row \<Rightarrow> string" where
  "row_id r \<equiv> ec_command_id (co_command r)"

text \<open>The command is stored, whatever its status, and will not be claimed again.\<close>

definition taken :: "exchange_command \<Rightarrow> command_row list \<Rightarrow> bool" where
  "taken c rows \<longleftrightarrow> (\<exists>r\<in>set rows. row_status r \<noteq> PREPARED \<and> (co_command r)\<lparr>ec_status := PREPARED\<rparr> = c\<lparr>ec_status := PREPARED\<rparr>)"

lemma taken_update:
  assumes "taken c rows" "live_update rows rows'" shows "taken c rows'"
proof -
  obtain P f where u: "rows' = update_where P f rows" "\<And>r. P r \<Longrightarrow> same_command r (f r) \<and> row_status (f r) \<noteq> PREPARED"
    using assms(2) by (auto simp: live_update_def)
  obtain r where r: "r \<in> set rows" "row_status r \<noteq> PREPARED" "(co_command r)\<lparr>ec_status := PREPARED\<rparr> = c\<lparr>ec_status := PREPARED\<rparr>"
    using assms(1) by (auto simp: taken_def)
  have "(if P r then f r else r) \<in> set rows'" using r(1) by (auto simp: u(1) update_where_def)
  moreover have "row_status (if P r then f r else r) \<noteq> PREPARED
      \<and> (co_command (if P r then f r else r))\<lparr>ec_status := PREPARED\<rparr> = c\<lparr>ec_status := PREPARED\<rparr>"
    using r(2,3) u(2)[of r] by (simp add: same_command_def)
  ultimately show ?thesis unfolding taken_def by blast
qed

interpretation taken_commands: command_step_invariant "taken c" for c
  by unfold_locales (erule (1) taken_update, auto simp: taken_def commands_add_def)

interpretation command_ids: command_invariant "\<lambda>rows. distinct (map row_id rows)"
proof
  fix rows rows' assume d: "distinct (map row_id rows)" and "live_update rows rows'"
  then obtain P f where u: "rows' = update_where P f rows" "\<And>r. P r \<Longrightarrow> same_command r (f r)"
    by (auto simp: live_update_def)
  have "row_id (f r) = row_id r" if "P r" for r
    using arg_cong[OF u(2)[OF that, unfolded same_command_def], of ec_command_id] by simp
  then have "map row_id rows' = map row_id rows" unfolding u(1) by (rule update_where_map)
  then show "distinct (map row_id rows')" using d by simp
next
  fix s c s' assume "distinct (map row_id (ks_commands s))" "commands_add c s = Inr s'"
  then show "distinct (map row_id (ks_commands s'))" by (auto simp: commands_add_def) blast
qed simp

lemma taken_steps:
  assumes "kernel_step\<^sup>*\<^sup>* s s'" "reachable_store s" "taken c (ks_commands s)"
  shows "taken c (ks_commands s')"
  using assms
proof (induction rule: rtranclp_induct)
  case (step y z)
  then have "reachable_store y" using reachable_steps by blast
  then show ?case using step taken_commands.step_inv reachable_log by blast
qed simp

text \<open>A claimed command is taken, and no taken command has its identity.\<close>

lemma claim_takes:
  assumes "commands_claim_one_prepared w n l t ks s = (s', Some c)"
  shows "taken c (ks_commands s')" "\<exists>r\<in>set (ks_commands s). row_id r = ec_command_id c \<and> row_status r = PREPARED"
proof -
  obtain i where i: "first_command (\<lambda>r. ec_created_at_ms (co_command r)) (\<lambda>r. row_status r = PREPARED
      \<and> n < ec_deadline_at_ms (co_command r) \<and> command_scope t ks r) s = Some i"
    using assms by (auto simp: commands_claim_one_prepared_def split: option.splits)
  let ?P = "\<lambda>r. row_id r = i \<and> row_status r = PREPARED"
  let ?f = "\<lambda>r. (set_status CLAIMED r)\<lparr>co_claim_owner := Some w, co_lease_until_ms := Some l\<rparr>"
  have one: "rowcount ?P (ks_commands s) = 1" and s': "ks_commands s' = update_where ?P ?f (ks_commands s)"
    and c: "commands_get i s' = Some c"
    using assms i by (auto simp: commands_claim_one_prepared_def Let_def split: if_splits)
  have "filter ?P (ks_commands s) \<noteq> []" using one by (auto simp: rowcount_def)
  then obtain r where r: "r \<in> set (ks_commands s)" "?P r" by (auto simp: filter_empty_conv)
  obtain y where y: "List.find (\<lambda>r. row_id r = i) (ks_commands s') = Some y" "c = co_command y"
    using c by (auto simp: commands_get_def)
  have yi: "y \<in> set (ks_commands s')" "row_id y = i" using find_Some_set[OF y(1)] by auto
  then obtain z where z: "z \<in> set (ks_commands s)" "y = (if ?P z then ?f z else z)"
    unfolding s' update_where_def by auto
  have "row_status y \<noteq> PREPARED"
    using z yi by (cases "?P z") (auto simp: set_status_def)
  then show "taken c (ks_commands s')" using yi y(2) by (auto simp: taken_def)
  show "\<exists>r\<in>set (ks_commands s). row_id r = ec_command_id c \<and> row_status r = PREPARED" using r yi y(2) by auto
qed

lemma same_but_status:
  assumes "x\<lparr>ec_status := PREPARED\<rparr> = c\<lparr>ec_status := PREPARED\<rparr>"
  shows "ec_command_id x = ec_command_id c" "ec_ticket_identity x = ec_ticket_identity c" "ec_kind x = ec_kind c"
    "ec_payload x = ec_payload c" "ec_generation x = ec_generation c"
  using assms by (cases x; cases c; simp)+

lemma taken_id: "taken c rows \<Longrightarrow> \<exists>r\<in>set rows. row_status r \<noteq> PREPARED \<and> row_id r = ec_command_id c"
  unfolding taken_def using same_but_status(1) by blast

lemma claim_fresh:
  assumes "commands_claim_one_prepared w n l t ks s = (s', Some c)" "distinct (map row_id (ks_commands s))"
    "taken d (ks_commands s)"
  shows "ec_command_id c \<noteq> ec_command_id d"
proof
  assume e: "ec_command_id c = ec_command_id d"
  obtain r where r: "r \<in> set (ks_commands s)" "row_id r = ec_command_id c" "row_status r = PREPARED"
    using claim_takes(2)[OF assms(1)] by blast
  obtain r' where r': "r' \<in> set (ks_commands s)" "row_status r' \<noteq> PREPARED" "row_id r' = ec_command_id d"
    using taken_id[OF assms(3)] by blast
  have "r = r'" using assms(2) r(1,2) r'(1,3) e by (metis (mono_tags, lifting) inj_on_eq_iff distinct_map)
  then show False using r(3) r'(2) by simp
qed

section \<open>The venue sees each command once\<close>

text \<open>A flight whose command has not been handed to the venue.\<close>

fun unsent :: "flight_stage \<Rightarrow> bool" where
  "unsent (FlightAnswered x) = False"
| "unsent _ = True"

definition waiting :: "flight list \<Rightarrow> exchange_command list" where
  "waiting fs = map fl_command (filter (\<lambda>f. unsent (fl_stage f)) fs)"

lemma waiting_simps [simp]:
  "waiting [] = []" "waiting (fs @ gs) = waiting fs @ waiting gs"
  "waiting (f # fs) = (if unsent (fl_stage f) then [fl_command f] else []) @ waiting fs"
  by (simp_all add: waiting_def)

definition flight_ok :: "flight \<Rightarrow> bool" where
  "flight_ok f \<longleftrightarrow> 0 < dq_now_ms (fl_request f)
     \<and> (case fl_stage f of FlightAnswered x \<Rightarrow> outcome_ok x | FlightCleared \<Rightarrow> ec_kind (fl_command f) \<noteq> SET_LEVERAGE | _ \<Rightarrow> True)"

definition world_ok :: "dispatch_world \<Rightarrow> bool" where
  "world_ok w \<longleftrightarrow> reachable_store (dw_store w) \<and> list_all flight_ok (dw_flights w)
     \<and> distinct (map ec_command_id (dw_sent w @ waiting (dw_flights w)))
     \<and> (\<forall>c\<in>set (dw_sent w @ waiting (dw_flights w)). taken c (ks_commands (dw_store w)))
     \<and> list_all (\<lambda>c. ec_kind c \<noteq> SET_LEVERAGE) (dw_sent w)"

lemma world_ok_store:
  assumes "world_ok w" "kernel_step\<^sup>*\<^sup>* (dw_store w) s'"
  shows "world_ok (w\<lparr>dw_store := s'\<rparr>)"
  using assms reachable_steps taken_steps by (auto simp: world_ok_def)

text \<open>Dropping a flight or moving one on keeps the ledger.\<close>

lemma world_ok_drop: "world_ok w \<Longrightarrow> dw_flights w = fs @ f # gs \<Longrightarrow> world_ok (w\<lparr>dw_flights := fs @ gs\<rparr>)"
  by (auto simp: world_ok_def split: if_splits)

lemma world_ok_move:
  assumes "world_ok w" "dw_flights w = fs @ f # gs" "unsent (fl_stage f)" "unsent st" "flight_ok (f\<lparr>fl_stage := st\<rparr>)"
  shows "world_ok (w\<lparr>dw_flights := fs @ f\<lparr>fl_stage := st\<rparr> # gs\<rparr>)"
  using assms by (simp add: world_ok_def)

lemma world_ok_send:
  assumes "world_ok w" "dw_flights w = fs @ f # gs" "fl_stage f = FlightCleared" "outcome_ok x"
  shows "world_ok (w\<lparr>dw_flights := fs @ f\<lparr>fl_stage := FlightAnswered x\<rparr> # gs,
    dw_sent := dw_sent w @ (if none then [] else [fl_command f])\<rparr>)"
proof -
  have ok: "reachable_store (dw_store w)" "list_all flight_ok (fs @ f # gs)" "list_all (\<lambda>c. ec_kind c \<noteq> SET_LEVERAGE) (dw_sent w)"
      "distinct (map ec_command_id (dw_sent w @ waiting fs @ fl_command f # waiting gs))"
      "\<forall>c\<in>set (dw_sent w @ waiting fs @ fl_command f # waiting gs). taken c (ks_commands (dw_store w))"
    using assms(1-3) by (simp_all add: world_ok_def)
  have f: "0 < dq_now_ms (fl_request f)" "ec_kind (fl_command f) \<noteq> SET_LEVERAGE"
    using ok(2) assms(3) by (simp_all add: flight_ok_def)
  then have flights: "list_all flight_ok (fs @ f\<lparr>fl_stage := FlightAnswered x\<rparr> # gs)"
    using ok(2) assms(4) by (simp add: flight_ok_def)
  show ?thesis
  proof (cases none)
    case True
    then show ?thesis using ok flights by (simp add: world_ok_def)
  next
    case False
    have "distinct (map ec_command_id (dw_sent w @ [fl_command f] @ waiting fs @ waiting gs))"
      using ok(4) by auto
    then show ?thesis using False ok f(2) flights by (simp add: world_ok_def)
  qed
qed

lemma claim_commandE:
  assumes "claim_command V q s = Inr (s', Inr c)"
  shows "commands_claim_one_prepared (dq_worker_id q) (dq_now_ms q) (dq_lease_until_ms q) (dq_ticket_id q)
    (dq_command_kinds q) s = (s', Some c)"
proof -
  obtain s1 y where y: "commands_claim_one_prepared (dq_worker_id q) (dq_now_ms q) (dq_lease_until_ms q)
      (dq_ticket_id q) (dq_command_kinds q) s = (s1, y)"
    by (cases "commands_claim_one_prepared (dq_worker_id q) (dq_now_ms q) (dq_lease_until_ms q)
        (dq_ticket_id q) (dq_command_kinds q) s")
  note d = assms[unfolded claim_command_def y]
  then obtain x where x: "y = Some x" by (cases y) auto
  obtain a where a: "(if \<not> command_is_applicable x (ag_status a)
        then bind_result (commands_mark_claimed_superseded (ec_command_id x) (dq_worker_id q) (dq_now_ms q)
               (''aggregate_state_moved_on:'' @ status_value (ag_status a)) s1)
               (\<lambda>s2. Inr (s2, Inl \<lparr>dr_status = DS_SUPERSEDED, dr_command_id = Some (ec_command_id x)\<rparr>))
        else case (if new_entry_kind (ec_kind x) then blocking_vacuum V a else None) of
          None \<Rightarrow> Inr (s1, Inr x)
        | Some vacuum \<Rightarrow> bind_result (supersede_by_vacuum vacuum (ec_command_id x) a (dq_worker_id q) (dq_now_ms q) s1)
            (\<lambda>s2. Inr (s2, Inl \<lparr>dr_status = DS_SUPERSEDED, dr_command_id = Some (ec_command_id x)\<rparr>))) = Inr (s', Inr c)"
    using d[unfolded x prod.case option.case Let_def bind_result_Inr_iff] by blast
  have "s' = s1 \<and> c = x"
  proof (cases "command_is_applicable x (ag_status a)")
    case True
    then show ?thesis using a by (cases "if new_entry_kind (ec_kind x) then blocking_vacuum V a else None") auto
  qed (use a in simp)
  then show ?thesis using x y by simp
qed

lemma world_ok_claim:
  assumes "world_ok w" "0 < dq_now_ms q" "claim_command V q (dw_store w) = Inr (s', Inr c)"
  shows "world_ok (w\<lparr>dw_store := s', dw_flights := \<lparr>fl_request = q, fl_command = c, fl_stage = FlightClaimed\<rparr> # dw_flights w\<rparr>)"
proof -
  note claim = claim_commandE[OF assms(3)]
  have ids: "distinct (map row_id (ks_commands (dw_store w)))"
    using assms(1) command_ids.reachable_inv by (simp add: world_ok_def)
  have new: "ec_command_id c \<notin> ec_command_id ` set (dw_sent w @ waiting (dw_flights w))"
    using claim_fresh[OF claim ids] assms(1) unfolding world_ok_def by blast
  have "world_ok (w\<lparr>dw_store := s'\<rparr>)" using world_ok_store[OF assms(1) claim_steps[OF assms(3)]] .
  then show ?thesis using new claim_takes(1)[OF claim] assms(2) by (auto simp: world_ok_def flight_ok_def)
qed

text \<open>The preflight looks at the stored command, which is the claimed one up to its status.\<close>

lemma current_command:
  assumes "taken c (ks_commands s)" "distinct (map row_id (ks_commands s))" "commands_get (ec_command_id c) s = Some d"
  shows "d\<lparr>ec_status := PREPARED\<rparr> = c\<lparr>ec_status := PREPARED\<rparr>"
proof -
  obtain r where r: "r \<in> set (ks_commands s)" "(co_command r)\<lparr>ec_status := PREPARED\<rparr> = c\<lparr>ec_status := PREPARED\<rparr>"
    using assms(1) by (auto simp: taken_def)
  obtain y where y: "List.find (\<lambda>r. row_id r = ec_command_id c) (ks_commands s) = Some y" "d = co_command y"
    using assms(3) by (auto simp: commands_get_def)
  have yi: "y \<in> set (ks_commands s)" "row_id y = ec_command_id c" using find_Some_set[OF y(1)] by auto
  have "y = r"
    using assms(2) yi r(1) same_but_status(1)[OF r(2)] by (metis (mono_tags, lifting) inj_on_eq_iff distinct_map)
  then show ?thesis using r(2) y(2) by simp
qed

lemma preflight_entry:
  assumes "preflight_new_entry_mutation F c q s = Inr PF_ALLOWED" "taken c (ks_commands s)" "distinct (map row_id (ks_commands s))"
  shows "ec_kind c = ENTRY"
proof -
  obtain snapshot rules product d a claim p where p: "commands_get (ec_command_id c) s = Some d"
      "dispatch_preflight_request F snapshot rules product d a claim q s = Inr p" "revalidate_entry_dispatch p = Inr PF_ALLOWED"
    by (rule preflight_mutationE[OF assms(1)])
  have "pr_command p = d" by (rule dispatch_preflight_sel[OF p(2)])
  moreover have "ec_kind (pr_command p) = ENTRY" by (rule preflight_allowedE[OF p(3)])
  ultimately show ?thesis using same_but_status(3)[OF current_command[OF assms(2,3) p(1)]] by simp
qed

lemma world_ok_verdict:
  assumes "world_ok w" "dw_flights w = fs @ f # gs" "fl_stage f = FlightClaimed"
    "preflight_verdict F (fl_command f) (fl_request f) (dw_store w) = Inr st"
  shows "world_ok (w\<lparr>dw_flights := fs @ f\<lparr>fl_stage := if st = PF_ALLOWED then FlightCleared else FlightRefused st\<rparr> # gs\<rparr>)"
proof (rule world_ok_move[OF assms(1,2)])
  have "taken (fl_command f) (ks_commands (dw_store w))" "distinct (map row_id (ks_commands (dw_store w)))"
    using assms(1-3) command_ids.reachable_inv by (simp_all add: world_ok_def)
  then have "ec_kind (fl_command f) \<noteq> SET_LEVERAGE" if "st = PF_ALLOWED"
    using assms(4) that preflight_entry by (auto simp: preflight_verdict_def new_entry_kind_def split: if_split_asm)
  then show "flight_ok (f\<lparr>fl_stage := if st = PF_ALLOWED then FlightCleared else FlightRefused st\<rparr>)"
    using assms(1,2) by (simp add: world_ok_def flight_ok_def)
qed (simp_all add: assms(3))

lemma dispatch_step_ok: "dispatch_step w w' \<Longrightarrow> world_ok w \<Longrightarrow> world_ok w'"
proof (induction rule: dispatch_step.induct)
  case (kernel w s')
  then show ?case using world_ok_store by blast
next
  case (recover q0 q w s' r)
  then show ?case using world_ok_store recover_steps request_times by blast
next
  case (idle q0 q V w s' r)
  then show ?case using world_ok_store claim_steps by blast
next
  case (claim q0 q V w s' c)
  then show ?case using world_ok_claim request_times by blast
next
  case (verdict w fs f gs F st)
  then show ?case using world_ok_verdict by blast
next
  case (refuse w fs f gs st V s')
  have "0 < dq_now_ms (fl_request f)" using refuse.prems refuse.hyps(1) by (simp add: world_ok_def flight_ok_def)
  then have "world_ok (w\<lparr>dw_store := s'\<rparr>)" using world_ok_store[OF refuse.prems] refusal_steps refuse.hyps(3) by blast
  then show ?case using world_ok_drop[of "w\<lparr>dw_store := s'\<rparr>" fs f gs] refuse.hyps(1) by simp
next
  case (submit w fs f gs venue sent x)
  have "0 < dq_now_ms (fl_request f)" using submit.prems submit.hyps(1) by (simp add: world_ok_def flight_ok_def)
  then have "outcome_ok x" using call_venue_ok[OF submit.hyps(4,3)] by blast
  then show ?case using world_ok_send[OF submit.prems submit.hyps(1,2)] by simp
next
  case (record_result w fs f gs x s')
  have "outcome_ok x" using record_result.prems record_result.hyps(1,2) by (simp add: world_ok_def flight_ok_def)
  then have "world_ok (w\<lparr>dw_store := s'\<rparr>)" using world_ok_store[OF record_result.prems] record_steps record_result.hyps(3) by blast
  then show ?case using world_ok_drop[of "w\<lparr>dw_store := s'\<rparr>" fs f gs] record_result.hyps(1) by simp
next
  case (crash w fs f gs)
  then show ?case using world_ok_drop by blast
qed

lemma reachable_world_ok: "reachable_world w \<Longrightarrow> world_ok w"
proof (induction rule: reachable_world.induct)
  case start
  then show ?case by (simp add: empty_world_def world_ok_def reachable_store.start)
next
  case (step w w')
  then show ?case using dispatch_step_ok by blast
qed

text \<open>A Ticket has at most one ENTRY command.\<close>

lemma one_entry_row:
  assumes "reachable_store s" "r \<in> set (commands_of t ENTRY (ks_commands s))" "r' \<in> set (commands_of t ENTRY (ks_commands s))"
  shows "r = r'"
proof -
  let ?rows = "commands_of t ENTRY (ks_commands s)"
  have gen: "ec_generation (co_command x) = 1" if "x \<in> set ?rows" for x
  proof -
    have "sound_command (co_command x)" "ec_kind (co_command x) = ENTRY"
      using sound_commands.reachable_inv[OF assms(1)] that by (auto simp: list_all_iff commands_of_def)
    then show ?thesis using mk_exchange_command_facts(2) by (auto simp: sound_command_def)
  qed
  have "map (\<lambda>r. ec_generation (co_command r)) ?rows = map int [1..<Suc (length ?rows)]"
    using command_log.reachable_inv[OF assms(1)] unfolding commands_ok_def by blast
  then have "distinct (map (\<lambda>r. ec_generation (co_command r)) ?rows)" by (simp add: distinct_map)
  then show ?thesis using gen assms(2,3) by (auto simp: distinct_map inj_on_def)
qed

end
