(* ===== verification/Stored_Entries.thy ===== *)
theory Stored_Entries
  imports Stored_Commands
begin

text \<open>
  Every stored ENTRY command is the order of a stored Ticket: its quantity, limit price and required leverage are
  the frozen ones, whatever has happened to the Ticket since.
\<close>

definition entry_order_for :: "trade_ticket \<Rightarrow> exchange_command \<Rightarrow> bool" where
  "entry_order_for k c \<longleftrightarrow> ec_ticket_identity c = tk_identity k
     \<and> (\<exists>p. ec_payload c = OrderCommandPayload p \<and> op_quantity p = tk_quantity k
          \<and> op_limit_price p = tk_entry_limit_price k
          \<and> op_required_configured_leverage p = Some (tk_selected_leverage k))"

lemma entry_command_order: "entry_command k d n = Inr c \<Longrightarrow> entry_order_for k c"
  using mk_exchange_command_facts(6,9)
  by (fastforce simp: entry_command_def entry_order_for_def mk_order_payload_iff plain_order_def)

definition entries_ok :: "kernel_store \<Rightarrow> bool" where
  "entries_ok s \<longleftrightarrow> (\<forall>r\<in>set (ks_commands s). ec_kind (co_command r) = ENTRY
     \<longrightarrow> (\<exists>k\<in>set (map tr_ticket (ks_tickets s)). entry_order_for k (co_command r)))"

section \<open>Where ENTRY commands come from\<close>

lemma same_command_order:
  assumes "same_command r r'"
  shows "entry_order_for k (co_command r') = entry_order_for k (co_command r)"
proof -
  have e: "(co_command r')\<lparr>ec_status := PREPARED\<rparr> = (co_command r)\<lparr>ec_status := PREPARED\<rparr>"
    using assms by (simp add: same_command_def)
  have "ec_payload (co_command r') = ec_payload (co_command r)" using arg_cong[OF e, of ec_payload] by simp
  then show ?thesis using same_command_sel(1)[OF assms] by (simp add: entry_order_for_def)
qed

text \<open>Each row of the later table is an earlier row up to its progress, or was written for a given Ticket.\<close>

definition entries_from :: "trade_ticket set \<Rightarrow> command_row list \<Rightarrow> command_row list \<Rightarrow> bool" where
  "entries_from K rows rows' \<longleftrightarrow> (\<forall>r'\<in>set rows'. ec_kind (co_command r') = ENTRY
     \<longrightarrow> (\<exists>r\<in>set rows. same_command r r') \<or> (\<exists>k\<in>K. entry_order_for k (co_command r')))"

lemma same_command_trans: "same_command r s \<Longrightarrow> same_command s t \<Longrightarrow> same_command r t"
  by (simp add: same_command_def)

lemma entries_from_refl [simp]: "entries_from K rows rows"
  by (auto simp: entries_from_def same_command_def)

lemma entries_from_trans:
  assumes "entries_from K xs ys" "entries_from K ys zs" shows "entries_from K xs zs"
  unfolding entries_from_def
proof (intro ballI impI)
  fix z assume z: "z \<in> set zs" "ec_kind (co_command z) = ENTRY"
  show "(\<exists>r\<in>set xs. same_command r z) \<or> (\<exists>k\<in>K. entry_order_for k (co_command z))"
  proof (cases "\<exists>k\<in>K. entry_order_for k (co_command z)")
    case False
    then obtain y where y: "y \<in> set ys" "same_command y z" using assms(2) z unfolding entries_from_def by blast
    have "ec_kind (co_command y) = ENTRY" using same_command_sel(2)[OF y(2)] z(2) by simp
    then have "(\<exists>r\<in>set xs. same_command r y) \<or> (\<exists>k\<in>K. entry_order_for k (co_command y))"
      using assms(1) y(1) unfolding entries_from_def by blast
    then show ?thesis using same_command_trans[OF _ y(2)] same_command_order[OF y(2)] by blast
  qed blast
qed

lemma live_update_entries: "live_update rows rows' \<Longrightarrow> entries_from K rows rows'"
proof -
  assume "live_update rows rows'"
  then obtain P f where u: "rows' = update_where P f rows" "\<And>r. P r \<Longrightarrow> same_command r (f r)"
    by (auto simp: live_update_def)
  have refl: "same_command r r" for r by (simp add: same_command_def)
  have "\<exists>r\<in>set rows. same_command r r'" if m: "r' \<in> set rows'" for r'
  proof -
    obtain r where "r \<in> set rows" "r' = (if P r then f r else r)" using m by (auto simp: u(1) update_where_def)
    then show ?thesis using u(2)[of r] refl by (intro bexI[of _ r]) auto
  qed
  then show ?thesis by (auto simp: entries_from_def)
qed

lemma add_entries:
  assumes "add_command x s = Inr s'" "\<And>c. x = Inr c \<Longrightarrow> ec_kind c = ENTRY \<Longrightarrow> \<exists>k\<in>K. entry_order_for k c"
  shows "entries_from K (ks_commands s) (ks_commands s')"
proof -
  obtain c where c: "x = Inr c" "commands_add c s = Inr s'" using assms(1) by (auto simp: add_command_def)
  have refl: "same_command r r" for r by (simp add: same_command_def)
  obtain row where "ks_commands s' = ks_commands s @ [row]" "co_command row = c" using c(2) by (auto simp: commands_add_def)
  then show ?thesis using assms(2)[OF c(1)] refl unfolding entries_from_def by auto
qed

lemma effect_entries:
  assumes "materialize_effect a h e s = Inr s'"
  shows "entries_from {k. \<exists>d. e = PrepareEntryCommand k d} (ks_commands s) (ks_commands s')" (is "entries_from ?K _ _")
proof -
  have order: "entries_from ?K (ks_commands s) (ks_commands s')"
    if "add_command (order_command a k g p n) s = Inr s'" "k \<noteq> ENTRY" for k g p n
    using that order_command_sel(1) by (auto intro!: add_entries)
  have cancel: "entries_from ?K (ks_commands s) (ks_commands s')"
    if "add_command (cancel_protection_command a i ns q v g n) s = Inr s'" for i ns q v g n
    using that build_command_sel(1) by (auto intro!: add_entries simp: cancel_protection_command_def)
  have lev: "ec_kind c \<noteq> ENTRY" if "set_leverage_command k x y n = Inr c" for k x y n c
    using that mk_exchange_command_facts(7) by (fastforce simp: set_leverage_command_def)
  show ?thesis
  proof (cases e)
    case (PrepareEntryCommand k d)
    then obtain dg where "add_command (entry_command k dg (eh_occurred_at_ms h)) s = Inr s'" using assms by auto
    then show ?thesis using entry_command_order PrepareEntryCommand by (auto intro!: add_entries)
  next
    case (PrepareSetLeverageCommand k)
    then show ?thesis using assms lev by (auto intro!: add_entries)
  next
    case (PrepareInitialStopCommand t q p)
    then show ?thesis using assms order by (simp add: initial_stop_command_def)
  next
    case (PrepareControlledFlattenCommand t q)
    then show ?thesis using assms order by (simp add: controlled_flatten_command_def)
  next
    case (PrepareTakeProfitCommand t q p)
    then show ?thesis using assms order by (auto simp: take_profit_command_def)
  next
    case (PrepareProtectionReplacementCommand t q p i w)
    then show ?thesis using assms order by (auto simp: protection_replacement_command_def)
  next
    case (PrepareExitCommand t q r)
    then show ?thesis using assms order by (auto simp: exit_command_def)
  next
    case (CancelEntryRemainder t)
    then show ?thesis using assms cancel by (auto split: option.splits)
  next
    case (CancelVacuumEntryOrder t i v)
    then show ?thesis using assms cancel by (auto split: if_splits)
  next
    case (CancelProtectionOrders t i ns q)
    then show ?thesis using assms cancel by auto
  next
    case (MarkCancelCommandReconciledAbsent t i)
    then show ?thesis using assms mark_cancel_update live_update_entries by auto
  next
    case (RequestControlledFlatten t q)
    then show ?thesis using assms by (auto split: if_splits)
  qed (use assms quiet_commands_kept project_commands_kept in \<open>fastforce+\<close>)
qed

lemma entries_from_mono: "entries_from K xs ys \<Longrightarrow> K \<subseteq> L \<Longrightarrow> entries_from L xs ys"
  unfolding entries_from_def by blast

lemma effects_entries:
  "materialize_effects a h fx s = Inr s' \<Longrightarrow> entries_from {k. \<exists>d. PrepareEntryCommand k d \<in> set fx} (ks_commands s) (ks_commands s')"
proof (induction fx arbitrary: s)
  case (Cons e fx)
  then obtain s1 where s1: "materialize_effect a h e s = Inr s1" "materialize_effects a h fx s1 = Inr s'" by auto
  let ?K = "{k. \<exists>d. PrepareEntryCommand k d \<in> set (e # fx)}"
  have "entries_from ?K (ks_commands s) (ks_commands s1)" by (rule entries_from_mono[OF effect_entries[OF s1(1)]]) auto
  moreover have "entries_from ?K (ks_commands s1) (ks_commands s')" by (rule entries_from_mono[OF Cons.IH[OF s1(2)]]) auto
  ultimately show ?case by (rule entries_from_trans)
qed simp

text \<open>The reducer prepares an ENTRY for the Ticket of its aggregate only.\<close>

lemma reduce_prepares_own_ticket:
  "reduce_fact a h f = Inr (a', fx) \<Longrightarrow> PrepareEntryCommand k d \<in> set fx \<Longrightarrow> k = ag_ticket a"
  by (cases f) (auto simp: step_simps resolve_if_def release_all_def split: step_splits if_splits)

section \<open>The invariant\<close>

lemma entries_ok_extend:
  assumes "entries_ok s" "entries_from K (ks_commands s) (ks_commands s')"
    "\<And>k. k \<in> set (map tr_ticket (ks_tickets s)) \<union> K
      \<Longrightarrow> \<exists>k'\<in>set (map tr_ticket (ks_tickets s')). \<forall>c. entry_order_for k c \<longrightarrow> entry_order_for k' c"
  shows "entries_ok s'"
  unfolding entries_ok_def
proof (intro ballI impI)
  fix r' assume r': "r' \<in> set (ks_commands s')" "ec_kind (co_command r') = ENTRY"
  have "\<exists>k\<in>set (map tr_ticket (ks_tickets s)) \<union> K. entry_order_for k (co_command r')"
  proof (cases "\<exists>k\<in>K. entry_order_for k (co_command r')")
    case False
    then obtain r where r: "r \<in> set (ks_commands s)" "same_command r r'"
      using assms(2) r' unfolding entries_from_def by blast
    then have "\<exists>k\<in>set (map tr_ticket (ks_tickets s)). entry_order_for k (co_command r)"
      using assms(1) r'(2) same_command_sel(2)[OF r(2)] unfolding entries_ok_def by simp
    then show ?thesis using same_command_order[OF r(2)] by blast
  qed blast
  then show "\<exists>k\<in>set (map tr_ticket (ks_tickets s')). entry_order_for k (co_command r')" using assms(3) by blast
qed

lemma closed_order: "entry_order_for (closed_ticket st k) c = entry_order_for k c"
  by (simp add: entry_order_for_def closed_ticket_def split: option.split)

lemma closed_map:
  assumes "x \<in> set ks"
  shows "\<exists>k'\<in>set (map (\<lambda>x. if ticket_key x = t then closed_ticket st x else x) ks). \<forall>c. entry_order_for x c \<longrightarrow> entry_order_for k' c"
proof -
  let ?f = "\<lambda>x. if ticket_key x = t then closed_ticket st x else x"
  have "?f x \<in> set (map ?f ks)" using assms by simp
  moreover have "\<forall>c. entry_order_for x c \<longrightarrow> entry_order_for (?f x) c" by (simp add: closed_order)
  ultimately show ?thesis by blast
qed

interpretation entry_orders: store_invariant entries_ok
proof
  show "entries_ok empty_store" by (simp add: entries_ok_def empty_store_def)
next
  fix s assume "entries_ok s"
  then show "entries_ok (s\<lparr>ks_lane := Some (snd (lock_global_lane s))\<rparr>)" by (simp add: entries_ok_def)
next
  fix s s' assume "entries_ok s" "worker_step s s'"
  then show "entries_ok s'"
    using worker_quiet[of s s'] live_update_entries[OF worker_commands, of s s' "{}"]
    by (auto simp: quiet_def intro!: entries_ok_extend[of s "{}"])
next
  fix s lane claim k now owner s'
  assume ok: "entries_ok s" and r: "reserve_and_issue claim k now owner lane s = Inr s'"
  let ?a = "new_aggregate k (if tk_leverage_change_required k then LEVERAGE_PENDING else ENTRY_PENDING) 1 1"
  let ?fx = "[if tk_leverage_change_required k then PrepareSetLeverageCommand k else PrepareEntryCommand k None]"
  obtain s3 lane' where s3: "ks_commands s3 = ks_commands s" "ks_tickets s3 = ks_tickets s"
    and c: "commit_reduction (issue_event k now) (?a, ?fx) 0 (s3\<lparr>ks_lane := Some lane'\<rparr>) = Inr s'"
    by (rule reserve_and_issueE[OF r]) (rule that[rotated -1], assumption, auto dest!: reserve_writes)
  obtain s4 s5 s6 where st: "commit_aggregate (issue_event k now) ?a 0 (s3\<lparr>ks_lane := Some lane'\<rparr>) = Inr s4"
      "events_append (issue_event k now) s4 = Inr s5" "materialize_effects ?a (event_header_of (issue_event k now)) ?fx s5 = Inr s6"
      "close_ticket (issue_event k now) ?a s6 = Inr s'"
    using commit_reductionE[OF c] .
  have w: "ks_commands s5 = ks_commands s" "map tr_ticket (ks_tickets s5) = map tr_ticket (ks_tickets s) @ [k]"
    using commit_first_writes(1)[OF st(1)] events_append_writes[OF st(2)] s3 by simp_all
  have t: "map tr_ticket (ks_tickets s') = map (\<lambda>x. if ticket_key x = agg_ticket_id ?a then closed_ticket (ag_status ?a) x else x)
      (map tr_ticket (ks_tickets s) @ [k])"
    using effects_spine[OF st(3)] w(2) unfolding close_ticket_writes(9)[OF st(4)] by (simp only: spine_def prod.inject)
  show "entries_ok s'"
  proof (rule entries_ok_extend[OF ok])
    show "entries_from {k} (ks_commands s) (ks_commands s')"
      using effects_entries[OF st(3)] close_ticket_writes(7)[OF st(4)] w(1)
      by (auto elim!: entries_from_mono split: if_splits)
    fix x assume "x \<in> set (map tr_ticket (ks_tickets s)) \<union> {k}"
    then have "x \<in> set (map tr_ticket (ks_tickets s) @ [k])" by auto
    then show "\<exists>k'\<in>set (map tr_ticket (ks_tickets s')). \<forall>c. entry_order_for x c \<longrightarrow> entry_order_for k' c"
      unfolding t by (rule closed_map)
  qed
next
  fix s t a e a' fx s'
  assume ok: "entries_ok s" and l: "log_ok s" "stored t s = Some a" and red: "reduce_event (Some a) e = Inr (a', fx)"
    and c: "commit_reduction e (a', fx) (ag_version a) s = Inr s'"
  have v: "ag_version a \<noteq> 0" using log_ok_facts[OF l] by (metis length_0_conv of_nat_eq_0_iff)
  have own: "\<forall>k d. PrepareEntryCommand k d \<in> set fx \<longrightarrow> k = ag_ticket a"
    using red reduce_prepares_own_ticket by (auto simp: reduce_event_Some_iff)
  obtain s2 s3 where st: "materialize_effects a' (event_header_of e) fx s2 = Inr s3" "close_ticket e a' s3 = Inr s'"
      "ks_tickets s2 = ks_tickets s" "ks_commands s2 = ks_commands s"
    by (rule commit_stages[OF c v]) (rule that, assumption+)
  have tick: "ag_ticket a \<in> set (map tr_ticket (ks_tickets s))"
    using l(2) find_Some_set by (fastforce simp: stored_lookup tickets_get_map bind_eq_Some_conv)
  have t: "map tr_ticket (ks_tickets s') = map (\<lambda>x. if ticket_key x = agg_ticket_id a' then closed_ticket (ag_status a') x else x)
      (map tr_ticket (ks_tickets s))"
    using effects_spine[OF st(1)] st(3) unfolding close_ticket_writes(9)[OF st(2)] by (simp only: spine_def prod.inject)
  show "entries_ok s'"
  proof (rule entries_ok_extend[OF ok])
    show "entries_from {ag_ticket a} (ks_commands s) (ks_commands s')"
      using effects_entries[OF st(1)] close_ticket_writes(7)[OF st(2)] st(4) own by (auto elim!: entries_from_mono)
    fix x assume "x \<in> set (map tr_ticket (ks_tickets s)) \<union> {ag_ticket a}"
    then have "x \<in> set (map tr_ticket (ks_tickets s))" using tick by auto
    then show "\<exists>k'\<in>set (map tr_ticket (ks_tickets s')). \<forall>c. entry_order_for x c \<longrightarrow> entry_order_for k' c"
      unfolding t by (rule closed_map)
  qed
qed

end
