(* ===== verification/Dispatch_Demo.thy ===== *)
theory Dispatch_Demo
  imports Dispatch_System Stored_Entries Margin_Stress_Properties Store_Demo
begin

text \<open>
  A concrete dispatch: the ENTRY order of the demonstration Ticket is claimed, passes its preflight on a flat
  account, and is handed to the venue.
\<close>

definition demo_dispatch :: dispatch_request where
  "demo_dispatch =
     \<lparr>dq_worker_id = ''w'', dq_ticket_id = None, dq_command_kinds = [SET_LEVERAGE, ENTRY], dq_now_ms = 1,
      dq_lease_until_ms = 50, dq_timeout_seconds = 1, dq_runtime_commit = Some ''e'', dq_schema_revision = Some ''e'',
      dq_admission_snapshot_validity_ms = Some 1\<rparr>"

lemma demo_dispatch_valid: "mk_dispatch_request demo_dispatch = Inr demo_dispatch"
  by (simp add: mk_dispatch_request_def demo_dispatch_def non_blank_def py_strip_def py_isspace_def)

lemma entry_command_times:
  "entry_command k d n = Inr c \<Longrightarrow> ec_deadline_at_ms c = tk_expires_at_ms k \<and> ec_created_at_ms c = n"
  by (clarsimp simp: entry_command_def mk_exchange_command_iff) (simp add: normalize_command_def)

lemma demo_command_times: "ec_deadline_at_ms demo_command = 100" "ec_created_at_ms demo_command = 1"
  using entry_command_times[OF demo_command_sel(1)] by (simp_all add: demo_ct_more)

lemma demo_identity:
  "nd_venue_id (ti_netting_domain (tk_identity demo_ticket)) = ''b''"
  "nd_account_id (ti_netting_domain (tk_identity demo_ticket)) = ''a''"
  "nd_exchange_instrument_id (ti_netting_domain (tk_identity demo_ticket)) = ''i''"
  "nd_position_side (ti_netting_domain (tk_identity demo_ticket)) = Long"
  "ri_event_spec_id (ti_runtime (tk_identity demo_ticket)) = ''event_spec:MPG-001:MPG-LONG:v3''"
  "ri_strategy_group_id (ti_runtime (tk_identity demo_ticket)) = ''g''"
  by (simp_all add: demo_ticket_def)

definition demo_claimed_command :: exchange_command where
  "demo_claimed_command = demo_command\<lparr>ec_status := CLAIMED\<rparr>"

definition demo_claimed :: kernel_store where
  "demo_claimed = demo_store\<lparr>ks_commands := [\<lparr>co_command = demo_claimed_command, co_result_payload = None,
     co_claim_owner = Some ''w'', co_lease_until_ms = Some 50, co_completed_at_ms = None\<rparr>]\<rparr>"

lemma demo_claimed_sel:
  "ks_aggregates demo_claimed = [new_aggregate demo_ct ENTRY_PENDING 1 1]"
  "ks_claims demo_claimed = [demo_claim]"
  "ks_tickets demo_claimed = [\<lparr>tr_ticket = demo_ct, tr_active_netting_domain_key = Some ''b:a:i:long'', tr_terminal_at_ms = None\<rparr>]"
  "ks_incidents demo_claimed = []" "ks_budgets demo_claimed = [issue_budget demo_ct 1]"
  "ks_events demo_claimed = [issue_event demo_ct 1]"
  by (simp_all add: demo_claimed_def demo_store_def demo_idle_def empty_store_def)

lemma demo_claimed_aggregate: "aggregates_get ''t'' demo_claimed = Inr (Some (new_aggregate demo_ct ENTRY_PENDING 1 1))"
  by (simp add: aggregates_get_def tickets_get_def demo_claimed_sel demo_ct_sel)

lemma demo_claim_one:
  "commands_claim_one_prepared ''w'' 1 50 None [SET_LEVERAGE, ENTRY] demo_store = (demo_claimed, Some demo_claimed_command)"
  by (simp add: commands_claim_one_prepared_def first_command_def demo_store_def demo_claimed_def command_scope_def
      demo_command_sel demo_command_times order_rows_def rowcount_def update_where_def set_status_def commands_get_def
      demo_claimed_command_def)

lemma demo_claim_command: "claim_command (\<lambda>g. None) demo_dispatch demo_store = Inr (demo_claimed, Inr demo_claimed_command)"
  using demo_claim_one demo_claimed_aggregate
  by (simp add: claim_command_def demo_dispatch_def required_aggregate_def command_is_applicable_def
      demo_claimed_command_def demo_command_sel blocking_vacuum_def)

section \<open>The facts of the preflight\<close>

definition demo_admission :: entry_admission_snapshot where
  "demo_admission =
     \<lparr>en_account_risk_snapshot = demo_snapshot, en_best_bid_price = 100, en_best_ask_price = 100, en_open_orders = [],
      en_observed_at_ms = 1, en_valid_until_ms = 2\<rparr>"

definition demo_rules :: instrument_rules_facts where
  "demo_rules =
     \<lparr>rf_exchange_instrument_id = ''i'', rf_quantity_step = 1, rf_price_tick = 1, rf_min_quantity = 1,
      rf_min_notional = 1, rf_exchange_max_leverage = 20, rf_maintenance_margin_brackets = demo_brackets,
      rf_maintenance_margin_brackets_digest = demo_digest, rf_notional_coefficient = 1,
      rf_notional_coefficient_certified = True, rf_observed_at_ms = 1, rf_valid_until_ms = 2\<rparr>"

definition demo_profile :: instrument_product_profile where
  "demo_profile =
     \<lparr>pp_exchange_instrument_id = ''i'', pp_product_family = CryptoPerpetual, pp_asset_class = AssetCrypto,
      pp_contract_type = CT_PERPETUAL, pp_underlying_type = UT_CRYPTO, pp_margin_asset = ''USDT'',
      pp_entry_session_policy = SessionContinuous, pp_status = ProfileActive,
      pp_max_entry_spread_bps = None, pp_max_mark_index_deviation_bps = None\<rparr>"

definition demo_facts :: dispatch_facts where
  "demo_facts =
     \<lparr>df_source_available = True, df_snapshot = Some demo_admission, df_rules = Some demo_rules,
      df_product_session = None, df_product_profile = Some demo_profile,
      df_current_product_profile = Some demo_profile, df_current_product_session = None,
      df_authority = demo_authority,
      df_capability = Some \<lparr>rc_capability_key = ''exchange_commands'', rc_enabled = True,
        rc_certified_commit = ''e'', rc_schema_revision = ''e''\<rparr>\<rparr>"

text \<open>The kernel owns the domain of the Ticket, at quantity zero, and no order.\<close>

definition demo_ownership :: admission_ownership where
  "demo_ownership =
     \<lparr>aw_owned_position_domain_keys = [''b:a:i:long''],
      aw_owned_position_projections = [\<lparr>ow_netting_domain_key = ''b:a:i:long'', ow_quantity = 0\<rparr>],
      aw_owned_exchange_order_ids = [], aw_open_incident_scopes = [], aw_unknown_command_outcome_ticket_ids = []\<rparr>"

lemma demo_reads_ownership: "read_admission_ownership ''b'' ''a'' ''i'' demo_claimed = Inr demo_ownership"
proof -
  have cmd: "ks_commands demo_claimed = [\<lparr>co_command = demo_claimed_command, co_result_payload = None,
     co_claim_owner = Some ''w'', co_lease_until_ms = Some 50, co_completed_at_ms = None\<rparr>]"
    by (simp add: demo_claimed_def)
  have strip: "py_strip ''b:a:i:long'' = ''b:a:i:long''" by code_simp
  have act: "active_aggregates ''b'' ''a'' demo_claimed = [(''b:a:i:long'', new_aggregate demo_ct ENTRY_PENDING 1 1)]"
    by (simp add: active_aggregates_def demo_claimed_sel demo_ct_sel demo_identity)
  have ids: "present_ids (owned_order_ids (new_aggregate demo_ct ENTRY_PENDING 1 1)) = []"
    by (simp add: present_ids_def owned_order_ids_def new_aggregate_def)
  have unk: "unknown_outcome_tickets ''b'' ''a'' demo_claimed = []"
    by (simp add: unknown_outcome_tickets_def cmd demo_claimed_command_def)
  have inc: "open_incident_scopes ''b'' ''a'' ''i'' demo_claimed = Inr []"
    by (simp add: open_incident_scopes_def demo_claimed_sel canonical_entry_block_key_def)
  have qty: "ag_position_qty (new_aggregate demo_ct ENTRY_PENDING 1 1) = 0" by (simp add: new_aggregate_def)
  show ?thesis
    by (simp add: read_admission_ownership_def act ids unk inc Let_def mk_admission_ownership_def strip
        unique_identities_def demo_ownership_def qty)
qed


text \<open>The current preflight request: the claimed command, the frozen claim and the facts above.\<close>

definition demo_preflight :: preflight_request where
  "demo_preflight =
     \<lparr>pr_command = demo_claimed_command, pr_ticket = demo_ct, pr_capacity_claim = demo_claim,
      pr_owner_policy = Some demo_policy, pr_runtime_scope = ia_scope demo_authority,
      pr_active_universe = ia_universe demo_authority, pr_strategy_group = ia_strategy_group demo_authority,
      pr_strategy_version = ia_strategy_version demo_authority, pr_event_spec = ia_event_spec demo_authority,
      pr_runtime_capability = df_capability demo_facts, pr_runtime_commit = ''e'', pr_schema_revision = ''e'',
      pr_admission_snapshot = demo_admission, pr_instrument_rules = demo_rules,
      pr_account_entry_health = (case account_health demo_admission AH_HEALTHY NO_BLOCK of Inr h \<Rightarrow> h | Inl _ \<Rightarrow> undefined),
      pr_instrument_entry_health =
        (case instrument_health demo_admission ''i'' IH_HEALTHY_FLAT True NO_BLOCK of Inr h \<Rightarrow> h | Inl _ \<Rightarrow> undefined),
      pr_active_family_ticket_count = 1, pr_active_strategy_side_ticket_count = 1,
      pr_active_directional_risk_at_stop = 20, pr_now_ms = 1,
      pr_product_entry_decision = Some (plain_product_decision PE_ALLOWED),
      pr_strategy_entry_enabled = True, pr_selection_entry_vacuum_open = False, pr_selection_authority_valid = True\<rparr>"

lemma demo_snapshot_sel:
  "as_venue_id demo_snapshot = ''b''" "as_account_id demo_snapshot = ''a''" "as_exchange_instrument_id demo_snapshot = ''i''"
  "as_account_positions demo_snapshot = []" "as_configured_leverage demo_snapshot = 5" "as_position_mode demo_snapshot = ''independent_sides''"
  "as_margin_mode demo_snapshot = ''cross''" "as_total_wallet_balance demo_snapshot = 1000" "as_total_margin_balance demo_snapshot = 1000"
  "as_available_margin demo_snapshot = 1000" "as_total_initial_margin demo_snapshot = 0"
  by (simp_all add: demo_snapshot_def demo_snapshot0_def)

lemma demo_health:
  "account_health demo_admission AH_HEALTHY NO_BLOCK = Inr (pr_account_entry_health demo_preflight)"
  "instrument_health demo_admission ''i'' IH_HEALTHY_FLAT True NO_BLOCK = Inr (pr_instrument_entry_health demo_preflight)"
  by (simp_all add: demo_preflight_def account_health_def instrument_health_def Let_def canonical_entry_block_key_def)

lemma demo_classified:
  "classify_account_entry_health demo_admission demo_ownership = Inr (pr_account_entry_health demo_preflight)"
  "classify_instrument_entry_health demo_admission demo_ownership ''i'' Long = Inr (pr_instrument_entry_health demo_preflight)"
  using demo_health
  by (simp_all add: classify_account_entry_health_def classify_instrument_entry_health_def Let_def demo_ownership_def
      demo_admission_def demo_snapshot_sel exact_positions_def exact_orders_def)

lemma demo_preflight_request:
  "dispatch_preflight_request demo_facts demo_admission demo_rules (plain_product_decision PE_ALLOWED) demo_claimed_command
     (new_aggregate demo_ct ENTRY_PENDING 1 1) demo_claim demo_dispatch demo_claimed = Inr demo_preflight"
proof -
  have id: "ec_ticket_identity demo_claimed_command = tk_identity demo_ticket"
    by (simp add: demo_claimed_command_def demo_command_sel)
  have counts: "count_active_family_tickets ''b'' ''a'' (tk_exposure_family demo_ct) demo_claimed = 1"
      "count_active_strategy_side_tickets ''b'' ''a'' ''g'' Long demo_claimed = 1"
      "sum_active_directional_stop_risk ''b'' ''a'' Long demo_claimed = 20"
    by (simp_all add: count_active_family_tickets_def count_active_strategy_side_tickets_def sum_active_directional_stop_risk_def
        demo_claimed_sel demo_ct_sel demo_identity rowcount_def demo_ct_more ticket_held_def issue_budget_def)
  have now: "dq_now_ms demo_dispatch = 1" "py_str (dq_runtime_commit demo_dispatch) = ''e''" "py_str (dq_schema_revision demo_dispatch) = ''e''"
    by (simp_all add: demo_dispatch_def py_str_def)
  have authority: "df_authority demo_facts = demo_authority" "ia_policy demo_authority = Some demo_policy"
      "strategy_entry_is_enabled (ia_strategy_control demo_authority)" "ia_selection demo_authority = None"
      "selection_authority_valid demo_authority demo_ct demo_claim"
    by (simp_all add: demo_facts_def demo_authority_def Let_def strategy_entry_is_enabled_def selection_authority_valid_def demo_identity)
  have ticket: "ag_ticket (new_aggregate demo_ct ENTRY_PENDING 1 1) = demo_ct" by (simp add: new_aggregate_def)
  show ?thesis
    unfolding dispatch_preflight_request_def Let_def id demo_identity ticket demo_ct_sel demo_reads_ownership
      demo_classified counts now authority
    by (simp add: demo_classified mk_preflight_request_def authority)
      (simp add: demo_preflight_def non_blank_def)
qed


section \<open>The preflight allows it\<close>

lemma demo_preflight_sel:
  "pr_command demo_preflight = demo_claimed_command" "pr_ticket demo_preflight = demo_ct" "pr_capacity_claim demo_preflight = demo_claim"
  "pr_owner_policy demo_preflight = Some demo_policy" "pr_admission_snapshot demo_preflight = demo_admission"
  "pr_instrument_rules demo_preflight = demo_rules" "pr_now_ms demo_preflight = 1"
  by (simp_all add: demo_preflight_def)

lemma demo_entry_price: "entry_price_for demo_ct demo_admission = 100"
  by (simp add: entry_price_for_def demo_ct_sel demo_identity demo_admission_def)

lemma demo_stress_request: "dispatch_stress_request demo_ct demo_admission demo_rules = Inr demo_request"
proof -
  have "tk_initial_stop_price demo_ct = 90" "tk_post_stop_stress_multiple demo_ct = 1" "tk_quantity demo_ct = 2"
    by (simp_all add: claim_ticket_def demo_claim_eval)
  then have "dispatch_stress_request demo_ct demo_admission demo_rules = mk_stress_request demo_request"
    unfolding dispatch_stress_request_def Let_def demo_entry_price demo_ct_sel demo_identity
    by (simp add: demo_admission_def demo_snapshot_sel demo_rules_def demo_request_def)
  moreover have "demo_request\<lparr>sr_projected_instrument_positions :=
      sort_key (\<lambda>p. side_value (sp_position_side p)) (sr_projected_instrument_positions demo_request)\<rparr> = demo_request"
    by (simp add: demo_request_def)
  ultimately show ?thesis using valid_demo_request by (simp add: mk_stress_request_def Let_def)
qed

lemma demo_matches: "command_matches_ticket_and_claim demo_claimed_command demo_ct demo_claim = Inr True"
proof -
  obtain p where p: "ec_payload demo_command = OrderCommandPayload p" "op_required_configured_leverage p = Some (tk_selected_leverage demo_ct)"
    using entry_command_order[OF demo_command_sel(1)] by (auto simp: entry_order_for_def)
  have "tk_selected_leverage demo_ct = 5" by (simp add: claim_ticket_def demo_claim_eval)
  then show ?thesis
    using p demo_to_ticket
    by (simp add: command_matches_ticket_and_claim_def demo_claimed_command_def demo_command_sel demo_ct_sel demo_ct_more
        FIXED_EXCHANGE_CONFIGURED_LEVERAGE_def)
qed

lemma demo_no_refusal:
  "dispatch_policy_refusal demo_preflight = None" "dispatch_registry_refusal demo_preflight = None"
  "dispatch_health_refusal demo_preflight = None" "dispatch_risk_refusal demo_preflight demo_policy = None"
proof -
  have deadline: "ec_deadline_at_ms demo_claimed_command = 100" by (simp add: demo_claimed_command_def demo_command_times)
  show "dispatch_policy_refusal demo_preflight = None"
    unfolding dispatch_policy_refusal_def Let_def demo_preflight_sel deadline
    by (simp add: demo_preflight_def demo_claim_eval policy_matches_def demo_policy_def authorizes_def claim_ticket_def)
  show "dispatch_registry_refusal demo_preflight = None"
    unfolding dispatch_registry_refusal_def Let_def demo_preflight_sel
    by (simp add: demo_preflight_def dispatch_scope_matches_def demo_authority_def Let_def active_universe_matches_def
        strategy_authority_matches_ticket_def runtime_is_certified_def demo_facts_def snapshot_and_rules_are_current_def
        demo_claim_eval claim_ticket_def demo_admission_def demo_rules_def demo_snapshot_sel demo_policy_def demo_identity)
  show "dispatch_health_refusal demo_preflight = None"
    using account_health_sel[OF demo_health(1)] instrument_health_sel[OF demo_health(2)]
    unfolding dispatch_health_refusal_def
    by (simp add: demo_preflight_sel health_digest_matches_def netting_domain_is_flat_and_order_free_def
        demo_admission_def demo_snapshot_sel)
  show "dispatch_risk_refusal demo_preflight demo_policy = None"
    unfolding dispatch_risk_refusal_def Let_def demo_preflight_sel demo_entry_price
    by (simp add: demo_admission_def demo_snapshot_sel demo_policy_def dispatch_margin_limit_def claim_ticket_def
        demo_claim_eval quote_preserves_protection_def demo_identity dec_ops demo_preflight_def)
qed

lemma demo_stress_passes: "cross_margin_stress_passes demo_ct demo_admission demo_rules = Inr True"
proof -
  obtain e where "evaluate_cross_margin_stress demo_request = Inr e" "sf_status (se_proof e) = PASSED"
    using evaluate_consistent[OF valid_demo_request demo_stress_facts(1)] demo_stress_facts by auto
  moreover have "as_exchange_instrument_id (en_account_risk_snapshot demo_admission) = ''i''"
    by (simp add: demo_admission_def demo_snapshot_sel)
  ultimately show ?thesis by (simp add: cross_margin_stress_passes_def demo_stress_request demo_ct_sel demo_identity)
qed

lemma demo_allowed: "revalidate_entry_dispatch demo_preflight = Inr PF_ALLOWED"
proof -
  have "tk_selected_leverage demo_ct = FIXED_EXCHANGE_CONFIGURED_LEVERAGE"
      "cc_configured_leverage_at_claim demo_claim = FIXED_EXCHANGE_CONFIGURED_LEVERAGE"
      "as_configured_leverage (en_account_risk_snapshot demo_admission) = FIXED_EXCHANGE_CONFIGURED_LEVERAGE"
      "as_exchange_instrument_id (en_account_risk_snapshot demo_admission) = ''i''"
    by (simp_all add: claim_ticket_def demo_claim_eval FIXED_EXCHANGE_CONFIGURED_LEVERAGE_def demo_admission_def demo_snapshot_sel)
  moreover have "ec_kind demo_claimed_command = ENTRY" by (simp add: demo_claimed_command_def demo_command_sel)
  ultimately show ?thesis
    unfolding revalidate_entry_dispatch_def Let_def demo_preflight_sel
    by (simp add: demo_matches demo_no_refusal first_refusal_def demo_stress_passes demo_ct_sel demo_identity)
qed

lemma demo_verdict: "preflight_verdict demo_facts demo_claimed_command demo_dispatch demo_claimed = Inr PF_ALLOWED"
proof -
  let ?compat = "\<lparr>pc_event_spec_id = ''event_spec:MPG-001:MPG-LONG:v3'', pc_product_family = CryptoPerpetual, pc_asset_class = AssetCrypto,
     pc_contract_type = CT_PERPETUAL, pc_underlying_type = UT_CRYPTO, pc_margin_asset = ''USDT''\<rparr>"
  have compat: "product_compatibility_for ''event_spec:MPG-001:MPG-LONG:v3'' = Inr ?compat" by code_simp
  have id: "ec_ticket_identity demo_claimed_command = tk_identity demo_ticket" "ec_kind demo_claimed_command = ENTRY"
    by (simp_all add: demo_claimed_command_def demo_command_sel)
  have product: "evaluate_event_product_entry ?compat (Some demo_profile) None 1 = Inr (plain_product_decision PE_ALLOWED)"
    by (simp add: evaluate_event_product_entry_def product_compatible_def demo_profile_def)
  have get: "commands_get (ec_command_id demo_claimed_command) demo_claimed = Some demo_claimed_command"
      "capacity_claims_get_for_ticket ''t'' demo_claimed = Some demo_claim"
    by (simp_all add: commands_get_def demo_claimed_def capacity_claims_get_for_ticket_def demo_store_def demo_claim_eval)
  have gathered: "gathered_facts demo_facts ?compat = Some (demo_admission, demo_rules, None)"
    by (simp add: gathered_facts_def demo_facts_def)
  have facts: "df_source_available demo_facts" "df_product_profile demo_facts = Some demo_profile"
      "df_current_product_profile demo_facts = Some demo_profile" "df_current_product_session demo_facts = None"
    by (simp_all add: demo_facts_def)
  have q: "dq_now_ms demo_dispatch = 1" "dq_runtime_commit demo_dispatch = Some ''e''" "dq_schema_revision demo_dispatch = Some ''e''"
      "dq_admission_snapshot_validity_ms demo_dispatch = Some 1"
    by (simp_all add: demo_dispatch_def)
  show ?thesis
    unfolding preflight_verdict_def preflight_new_entry_mutation_def id demo_identity compat sum.case gathered option.case
      prod.case facts q product get
    using get facts product demo_claimed_aggregate demo_preflight_request demo_allowed
    by (simp add: new_entry_kind_def q)
qed

text \<open>The world in which the order has been handed to the venue.\<close>

definition demo_sent_world :: dispatch_world where
  "demo_sent_world =
     \<lparr>dw_store = demo_claimed,
      dw_flights = [\<lparr>fl_request = demo_dispatch, fl_command = demo_claimed_command,
        fl_stage = FlightAnswered (OrderOutcome (unresolved_result OUTCOME_UNKNOWN 1 ''venue_timeout''))\<rparr>],
      dw_sent = [demo_claimed_command]\<rparr>"

lemma demo_sent_reachable: "reachable_world demo_sent_world"
proof -
  let ?f = "\<lparr>fl_request = demo_dispatch, fl_command = demo_claimed_command, fl_stage = FlightClaimed\<rparr>"
  have w1: "reachable_world (empty_world\<lparr>dw_store := demo_store\<rparr>)"
    using kernel_step.issue[OF demo_issue_valid demo_issued]
    by (intro reachable_world.step[OF reachable_world.start] dispatch_step.kernel) (simp add: empty_world_def)
  have w2: "reachable_world \<lparr>dw_store = demo_claimed, dw_flights = [?f], dw_sent = []\<rparr>"
    using reachable_world.step[OF w1 dispatch_step.claim[OF demo_dispatch_valid]] demo_claim_command by (simp add: empty_world_def)
  have w3: "reachable_world \<lparr>dw_store = demo_claimed, dw_flights = [?f\<lparr>fl_stage := FlightCleared\<rparr>], dw_sent = []\<rparr>"
    using reachable_world.step[OF w2 dispatch_step.verdict[of _ "[]" ?f "[]" demo_facts PF_ALLOWED]] demo_verdict by simp
  have "call_venue (\<lambda>r. VenueTimeout) demo_claimed_command demo_dispatch =
      ([the (venue_request_of demo_claimed_command)], OrderOutcome (unresolved_result OUTCOME_UNKNOWN 1 ''venue_timeout''))"
    by (simp add: call_venue_def venue_request_of_def Let_def demo_claimed_command_def demo_command_sel check_readback_def demo_dispatch_def)
  then show ?thesis
    using reachable_world.step[OF w3 dispatch_step.submit[of _ "[]" "?f\<lparr>fl_stage := FlightCleared\<rparr>" "[]" "\<lambda>r. VenueTimeout"]]
    by (simp add: demo_sent_world_def)
qed


section \<open>The order is acknowledged\<close>

lemma demo_claimed_reachable: "reachable_store demo_claimed"
  by (rule reachable_store.step[OF demo_reachable kernel_step.worker[OF worker_step.claim[OF demo_claim_one]]])

definition demo_accepted :: "int \<Rightarrow> trade_event" where
  "demo_accepted n = TicketEvent \<lparr>eh_event_id = event_id_for ''t'' 2, eh_sequence = 2, eh_occurred_at_ms = n\<rparr> ''t'' (EntryAccepted ''in'')"

definition demo_moved_on :: trade_aggregate where
  "demo_moved_on = (new_aggregate demo_ct ENTRY_PENDING 1 1)\<lparr>ag_status := ENTRY_ACCEPTED, ag_entry_exchange_order_id := Some ''in'',
     ag_version := 2, ag_last_event_sequence := 2\<rparr>"

lemma demo_accepted_valid: "0 < n \<Longrightarrow> valid_event (demo_accepted n)"
proof -
  have "normal_id (event_id_for ''t'' 2)" by code_simp
  then show "0 < n \<Longrightarrow> valid_event (demo_accepted n)" by (simp add: demo_accepted_def valid_header_def normal_id_def)
qed

lemma demo_accept_commits:
  assumes "ks_aggregates s = [new_aggregate demo_ct ENTRY_PENDING 1 1]" "ks_tickets s = ks_tickets demo_claimed"
    "ks_events s = [issue_event demo_ct 1]"
  shows "commit_event (new_aggregate demo_ct ENTRY_PENDING 1 1) (demo_accepted n) s
    = Inr (s\<lparr>ks_aggregates := [demo_moved_on], ks_events := [issue_event demo_ct 1, demo_accepted n]\<rparr>)"
proof -
  let ?a = "new_aggregate demo_ct ENTRY_PENDING 1 1"
  have id: "agg_ticket_id ?a = ''t''" "agg_ticket_id demo_moved_on = ''t''" "ag_version ?a = 1" "ag_last_event_sequence ?a = 1"
    by (simp_all add: new_aggregate_def demo_moved_on_def demo_ct_sel)
  have load: "aggregates_get ''t'' s = Inr (Some ?a)"
  proof -
    have "tickets_get ''t'' s = tickets_get ''t'' demo_claimed" by (simp add: tickets_get_def assms(2))
    then have "aggregates_get ''t'' s = aggregates_get ''t'' demo_claimed"
      unfolding aggregates_get_def assms(1) demo_claimed_sel(1) by simp
    then show ?thesis using demo_claimed_aggregate by simp
  qed
  have reduced: "reduce_event (Some ?a) (demo_accepted n) = Inr (demo_moved_on, [])"
    unfolding reduce_event_Some_iff id demo_accepted_def
    by (simp add: on_entry_accepted_def step_simps resolve_if_def non_blank_def)
      (simp add: new_aggregate_def demo_moved_on_def)
  have "aggregates_save demo_moved_on 1 s = Inr (s\<lparr>ks_aggregates := [demo_moved_on]\<rparr>)"
    by (simp add: aggregates_save_def id load assms(1) update_one_def update_where_def rowcount_def)
      (simp add: demo_moved_on_def demo_ct_sel)
  moreover have "event_id_for ''t'' 1 \<noteq> event_id_for ''t'' 2" by code_simp
  ultimately have "commit_reduction (demo_accepted n) (demo_moved_on, []) 1 s
      = Inr (s\<lparr>ks_aggregates := [demo_moved_on], ks_events := [issue_event demo_ct 1, demo_accepted n]\<rparr>)"
    using assms(3)
    by (simp add: commit_reduction_def commit_aggregate_def id load demo_accepted_def events_append_def
        insert_row_def issue_event_def event_sequence_def close_ticket_def demo_ct_sel)
      (simp add: demo_moved_on_def terminal_ticket_status_def)
  then show ?thesis by (simp add: commit_event_def reduced id)
qed

end
