(* ===== verification/Dispatch_Properties.thy ===== *)
theory Dispatch_Properties
  imports Dispatch_Demo
begin

text \<open>
  What the dispatcher guarantees: the venue sees no command twice, an ENTRY order leaves only for an account on
  which its Ticket is protected, and an expired claim whose lifecycle has moved on stops the queue it is in.
\<close>

lemma distinct_all_equal:
  assumes "distinct xs" "\<And>x y. x \<in> set xs \<Longrightarrow> y \<in> set xs \<Longrightarrow> x = y"
  shows "length xs \<le> 1"
proof (cases xs)
  case (Cons x ys)
  have "False" if y: "y \<in> set ys" for y
    using assms(1) assms(2)[of x y] y Cons by simp
  then show ?thesis using Cons by (cases ys) auto
qed simp

text \<open>
  C27. However dispatchers, workers and crashes interleave, and whatever the venue answers, no command is handed
  to the venue twice; a change of leverage is never handed to it; every command that was handed to it is stored
  with its identity and payload and has left the prepared state; and at most one ENTRY order is sent per Ticket.
\<close>

theorem venue_sees_each_command_once:
  assumes "reachable_world w"
  shows "distinct (map ec_command_id (dw_sent w))
    \<and> list_all (\<lambda>c. ec_kind c \<noteq> SET_LEVERAGE \<and> taken c (ks_commands (dw_store w))) (dw_sent w)
    \<and> length (filter (\<lambda>c. ec_kind c = ENTRY \<and> command_ticket c = t) (dw_sent w)) \<le> 1"
proof -
  have ok: "reachable_store (dw_store w)" "distinct (map ec_command_id (dw_sent w))"
      "list_all (\<lambda>c. ec_kind c \<noteq> SET_LEVERAGE \<and> taken c (ks_commands (dw_store w))) (dw_sent w)"
    using reachable_world_ok[OF assms] by (auto simp: world_ok_def list_all_iff)
  let ?P = "\<lambda>c. ec_kind c = ENTRY \<and> command_ticket c = t"
  have row: "\<exists>r\<in>set (commands_of t ENTRY (ks_commands (dw_store w))). ec_command_id c = row_id r"
    if c: "c \<in> set (filter ?P (dw_sent w))" for c
  proof -
    obtain r where r: "r \<in> set (ks_commands (dw_store w))" "(co_command r)\<lparr>ec_status := PREPARED\<rparr> = c\<lparr>ec_status := PREPARED\<rparr>"
      using ok(3) c by (auto simp: list_all_iff taken_def)
    then show ?thesis using same_but_status[OF r(2)] c by (auto simp: commands_of_def)
  qed
  have "length (map ec_command_id (filter ?P (dw_sent w))) \<le> 1"
  proof (rule distinct_all_equal)
    show "distinct (map ec_command_id (filter ?P (dw_sent w)))" using ok(2) by (rule distinct_map_filter)
    fix i j assume i: "i \<in> set (map ec_command_id (filter ?P (dw_sent w)))" and j: "j \<in> set (map ec_command_id (filter ?P (dw_sent w)))"
    obtain c d where c: "c \<in> set (filter ?P (dw_sent w))" "i = ec_command_id c" and d: "d \<in> set (filter ?P (dw_sent w))" "j = ec_command_id d"
      using i j unfolding set_map by blast
    obtain r where r: "r \<in> set (commands_of t ENTRY (ks_commands (dw_store w)))" "i = row_id r" using row[OF c(1)] c(2) by blast
    obtain r' where r': "r' \<in> set (commands_of t ENTRY (ks_commands (dw_store w)))" "j = row_id r'" using row[OF d(1)] d(2) by blast
    show "i = j" using one_entry_row[OF ok(1) r(1) r'(1)] r(2) r'(2) by simp
  qed
  then show ?thesis using ok(2,3) by simp
qed

theorem venue_sees_each_command_once_witness:
  "reachable_world demo_sent_world \<and> dw_sent demo_sent_world = [demo_claimed_command] \<and> taken demo_claimed_command (ks_commands demo_claimed)"
  using venue_sees_each_command_once[OF demo_sent_reachable] demo_sent_reachable by (simp add: demo_sent_world_def)


section \<open>What a sent ENTRY rests on\<close>

lemma sent_stages:
  assumes "run_sent (dispatch_one_command V F venue q s) = [x]"
  obtains s2 c where "claim_command V q s = Inr (s2, Inr c)" "preflight_verdict F c q s2 = Inr PF_ALLOWED" "venue_request_of c = Some x"
proof -
  obtain s1 where s1: "recover_expired_claim q s = Inr (s1, None)"
    using assms by (auto simp: dispatch_one_command_def split: sum.splits option.splits)
  have "s1 = s"
    using s1 by (auto simp: recover_expired_claim_def Let_def split: option.splits)
  then obtain s2 c where c: "claim_command V q s = Inr (s2, Inr c)" "run_sent (dispatch_claimed V F venue q c s2) = [x]"
    using assms s1 by (auto simp: dispatch_one_command_def split: sum.splits)
  have v: "preflight_verdict F c q s2 = Inr PF_ALLOWED"
  proof (cases "preflight_verdict F c q s2")
    case (Inr st)
    then show ?thesis
      using c(2) by (cases "st = PF_ALLOWED"; cases "record_preflight_refusal V c q st s2") (auto simp: dispatch_claimed_def)
  qed (use c(2) in \<open>simp add: dispatch_claimed_def\<close>)
  moreover have "fst (call_venue venue c q) = [x]"
    using c(2) v by (auto simp: dispatch_claimed_def split: prod.splits sum.splits)
  then have "venue_request_of c = Some x" by (auto simp: call_venue_def split: option.splits)
  ultimately show thesis using that c(1) by blast
qed

lemma claim_unblocked:
  assumes "claim_command V q s = Inr (s', Inr c)" "new_entry_kind (ec_kind c)"
  shows "\<exists>a. aggregates_get (command_ticket c) s' = Inr (Some a) \<and> command_is_applicable c (ag_status a) \<and> blocking_vacuum V a = None"
proof -
  note d = assms(1)[unfolded claim_command_def claim_commandE[OF assms(1)] prod.case option.case Let_def bind_result_Inr_iff required_aggregate_iff]
  then obtain a where a: "aggregates_get (command_ticket c) s' = Inr (Some a)"
      "(if \<not> command_is_applicable c (ag_status a)
        then bind_result (commands_mark_claimed_superseded (ec_command_id c) (dq_worker_id q) (dq_now_ms q)
               (''aggregate_state_moved_on:'' @ status_value (ag_status a)) s')
               (\<lambda>s2. Inr (s2, Inl \<lparr>dr_status = DS_SUPERSEDED, dr_command_id = Some (ec_command_id c)\<rparr>))
        else case (if new_entry_kind (ec_kind c) then blocking_vacuum V a else None) of
          None \<Rightarrow> Inr (s', Inr c)
        | Some vacuum \<Rightarrow> bind_result (supersede_by_vacuum vacuum (ec_command_id c) a (dq_worker_id q) (dq_now_ms q) s')
            (\<lambda>s2. Inr (s2, Inl \<lparr>dr_status = DS_SUPERSEDED, dr_command_id = Some (ec_command_id c)\<rparr>))) = Inr (s', Inr c)"
    by blast
  then show ?thesis using assms(2) by (cases "blocking_vacuum V a") (auto split: if_split_asm)
qed


lemma claim_quiet: "claim_command V q s = Inr (s', Inr c) \<Longrightarrow> ks_tickets s' = ks_tickets s"
  using worker_quiet[OF worker_step.claim[OF claim_commandE]] by (simp add: quiet_def)

text \<open>The Ticket an aggregate is loaded with is a stored one, and the stored ENTRY is its order.\<close>

lemma loaded_ticket_row:
  assumes "aggregates_get t s = Inr (Some a)"
  obtains r where "r \<in> set (ks_tickets s)" "row_ticket_id r = t" "ag_ticket a = tr_ticket r"
proof -
  obtain k where k: "tickets_get t s = Some k" "ag_ticket a = k"
    using assms by (auto simp: aggregates_get_def split: option.splits)
  then obtain r where "List.find (\<lambda>r. row_ticket_id r = t) (ks_tickets s) = Some r" "tr_ticket r = k"
    by (auto simp: tickets_get_def)
  then show thesis using find_Some_set[of _ "ks_tickets s" r] k(2) that by metis
qed

lemma entry_matches_ticket:
  assumes "reachable_store s" "taken c (ks_commands s)" "ec_kind c = ENTRY" "aggregates_get (command_ticket c) s = Inr (Some a)"
  shows "entry_order_for (ag_ticket a) c"
proof -
  obtain r where r: "r \<in> set (ks_commands s)" "(co_command r)\<lparr>ec_status := PREPARED\<rparr> = c\<lparr>ec_status := PREPARED\<rparr>"
    using assms(2) by (auto simp: taken_def)
  have same: "entry_order_for k (co_command r) = entry_order_for k c" for k
    using same_but_status[OF r(2)] by (simp add: entry_order_for_def)
  obtain k where k: "k \<in> set (map tr_ticket (ks_tickets s))" "entry_order_for k c"
    using entry_orders.reachable_inv[OF assms(1)] r(1) same_but_status(3)[OF r(2)] assms(3) same
    unfolding entries_ok_def by fastforce
  obtain x where x: "x \<in> set (ks_tickets s)" "tr_ticket x = k" using k(1) by auto
  obtain y where y: "y \<in> set (ks_tickets s)" "row_ticket_id y = command_ticket c" "ag_ticket a = tr_ticket y"
    by (rule loaded_ticket_row[OF assms(4)])
  have "row_ticket_id x = row_ticket_id y" using k(2) x(2) y(2) by (simp add: entry_order_for_def)
  moreover have "distinct (map row_ticket_id (ks_tickets s))" using reachable_log[OF assms(1)] by (simp add: log_ok_def)
  ultimately have "x = y" using x(1) y(1) by (simp add: distinct_map inj_on_def)
  then show ?thesis using k(2) x(2) y(3) by simp
qed

text \<open>A stress request the dispatcher builds is valid, so a passed one is positive at every price.\<close>

lemma passed_dispatch_stress:
  assumes "dispatch_stress_request k snapshot rules = Inr r" "evaluate_cross_margin_stress r = Inr e" "sf_status (se_proof e) = PASSED"
    and exact: "schedule_arith_exact (sr_maintenance_margin_brackets r)"
      "exact_at r (as_mark_price (sr_account_snapshot r))" "exact_at r (fst (stress_boundary r))"
    and between: "min (as_mark_price (sr_account_snapshot r)) (fst (stress_boundary r)) \<le> p"
      "p \<le> max (as_mark_price (sr_account_snapshot r)) (fst (stress_boundary r))"
  shows "0 < exact_surplus r p"
proof -
  have valid: "valid_stress_request r"
    using assms(1) by (auto simp: dispatch_stress_request_def mk_stress_request_def Let_def split: if_split_asm)
  have facts: "facts_consistent r" using evaluate_inconsistent[OF valid] assms(2,3) by auto
  then have "list_all (surplus_positive_at r) (evaluation_points r (fst (stress_boundary r)))"
    using evaluate_consistent[OF valid] assms(2,3) by (auto split: if_splits)
  from interval_positive(1)[OF valid facts this exact between] show ?thesis .
qed

text \<open>What an allowed preflight says of the Ticket and the facts it was decided on.\<close>

lemma allowed_entry_facts:
  assumes "dispatch_preflight_request F snapshot rules product d a claim q s = Inr p" "revalidate_entry_dispatch p = Inr PF_ALLOWED"
  obtains policy request e where
    "ia_policy (df_authority F) = Some policy" "ps_enabled policy" "ps_new_entry_submit_enabled policy"
    "strategy_entry_is_enabled (ia_strategy_control (df_authority F))"
    "en_observed_at_ms snapshot \<le> dq_now_ms q" "dq_now_ms q < en_valid_until_ms snapshot"
    "netting_domain_is_flat_and_order_free snapshot (ag_ticket a)"
    "quote_preserves_protection (ag_ticket a) (entry_price_for (ag_ticket a) snapshot)"
    "dec_mul (tk_quantity (ag_ticket a)) \<bar>dec_sub (entry_price_for (ag_ticket a) snapshot) (tk_initial_stop_price (ag_ticket a))\<bar>
       \<le> tk_post_fill_stop_risk_limit (ag_ticket a)"
    "dispatch_stress_request (ag_ticket a) snapshot rules = Inr request"
    "evaluate_cross_margin_stress request = Inr e" "sf_status (se_proof e) = PASSED"
proof -
  have sel: "pr_ticket p = ag_ticket a" "pr_admission_snapshot p = snapshot" "pr_instrument_rules p = rules"
      "pr_now_ms p = dq_now_ms q" "pr_owner_policy p = ia_policy (df_authority F)"
      "pr_strategy_entry_enabled p = strategy_entry_is_enabled (ia_strategy_control (df_authority F))"
    by (rule dispatch_preflight_sel[OF assms(1)], assumption)+
  obtain policy request e where al: "pr_owner_policy p = Some policy" "dispatch_policy_refusal p = None"
      "dispatch_registry_refusal p = None" "dispatch_health_refusal p = None" "dispatch_risk_refusal p policy = None"
      "dispatch_stress_request (pr_ticket p) (pr_admission_snapshot p) (pr_instrument_rules p) = Inr request"
      "evaluate_cross_margin_stress request = Inr e" "sf_status (se_proof e) = PASSED"
    by (rule preflight_allowedE[OF assms(2)])
  show thesis
  proof (rule that)
    show "ia_policy (df_authority F) = Some policy" using al(1) sel(5) by simp
    show "ps_enabled policy" "ps_new_entry_submit_enabled policy" "strategy_entry_is_enabled (ia_strategy_control (df_authority F))"
      using al(1,2) sel(6) by (auto simp: dispatch_policy_refusal_def policy_matches_def Let_def split: if_split_asm option.splits)
    show "en_observed_at_ms snapshot \<le> dq_now_ms q" "dq_now_ms q < en_valid_until_ms snapshot"
      using al(3) sel(2,4) by (auto simp: dispatch_registry_refusal_def snapshot_and_rules_are_current_def Let_def split: if_split_asm)
    show "netting_domain_is_flat_and_order_free snapshot (ag_ticket a)"
      using al(4) sel(1,2) by (auto simp: dispatch_health_refusal_def split: if_split_asm)
    show "quote_preserves_protection (ag_ticket a) (entry_price_for (ag_ticket a) snapshot)"
      "dec_mul (tk_quantity (ag_ticket a)) \<bar>dec_sub (entry_price_for (ag_ticket a) snapshot) (tk_initial_stop_price (ag_ticket a))\<bar>
         \<le> tk_post_fill_stop_risk_limit (ag_ticket a)"
      using al(5) sel(1,2) by (auto simp: dispatch_risk_refusal_def Let_def split: if_split_asm)
  qed (use al(6-8) sel(1-3) in simp_all)
qed

text \<open>
  C28. A dispatch that starts on a reachable store sends an ENTRY order only when all of this held at its preflight.
  The order is the one of a stored Ticket: its instrument, side, quantity and limit price. The admission snapshot
  was fresh, the owner policy and the strategy were enabled for new entries, no open Vacuum of the strategy group
  fenced it, and the snapshot showed neither a position nor an order in the netting domain of the Ticket. The quote was on the
  safe side of the stop, and the loss from the quote to the stop was within the post-fill limit of the Ticket. And
  the stress decision on the projected account passed, so with exact arithmetic at the ends the account keeps a
  positive margin surplus at every price from the mark to the stress price.
\<close>

theorem entry_sent_is_protected:
  assumes "reachable_store s" "run_sent (dispatch_one_command V F venue q s) = [VenueCommandRequest r]" "vo_kind r = ENTRY"
  shows "\<exists>k payload snapshot rules policy request e.
    k \<in> tr_ticket ` set (ks_tickets s)
    \<and> vo_exchange_instrument_id r = nd_exchange_instrument_id (ti_netting_domain (tk_identity k))
    \<and> vo_position_side r = nd_position_side (ti_netting_domain (tk_identity k))
    \<and> vo_payload r = OrderCommandPayload payload
    \<and> op_quantity payload = tk_quantity k \<and> op_limit_price payload = tk_entry_limit_price k
    \<and> df_snapshot F = Some snapshot \<and> en_observed_at_ms snapshot \<le> dq_now_ms q \<and> dq_now_ms q < en_valid_until_ms snapshot
    \<and> ia_policy (df_authority F) = Some policy \<and> ps_enabled policy \<and> ps_new_entry_submit_enabled policy
    \<and> strategy_entry_is_enabled (ia_strategy_control (df_authority F))
    \<and> (case V (ri_strategy_group_id (ti_runtime (tk_identity k))) of None \<Rightarrow> True | Some v \<Rightarrow> \<not> blocks_new_entry (ev_state v))
    \<and> netting_domain_is_flat_and_order_free snapshot k
    \<and> quote_preserves_protection k (entry_price_for k snapshot)
    \<and> dec_mul (tk_quantity k) \<bar>dec_sub (entry_price_for k snapshot) (tk_initial_stop_price k)\<bar> \<le> tk_post_fill_stop_risk_limit k
    \<and> df_rules F = Some rules \<and> dispatch_stress_request k snapshot rules = Inr request
    \<and> evaluate_cross_margin_stress request = Inr e \<and> sf_status (se_proof e) = PASSED
    \<and> (schedule_arith_exact (sr_maintenance_margin_brackets request)
        \<and> exact_at request (as_mark_price (sr_account_snapshot request)) \<and> exact_at request (fst (stress_boundary request))
        \<longrightarrow> (\<forall>p. min (as_mark_price (sr_account_snapshot request)) (fst (stress_boundary request)) \<le> p
              \<and> p \<le> max (as_mark_price (sr_account_snapshot request)) (fst (stress_boundary request))
              \<longrightarrow> 0 < exact_surplus request p))"
proof -
  obtain s2 c where c: "claim_command V q s = Inr (s2, Inr c)" "preflight_verdict F c q s2 = Inr PF_ALLOWED"
      "venue_request_of c = Some (VenueCommandRequest r)"
    by (rule sent_stages[OF assms(2)])
  note claim = claim_commandE[OF c(1)]
  have s2: "reachable_store s2" using reachable_steps[OF claim_steps[OF c(1)] assms(1)] .
  have tkn: "taken c (ks_commands s2)" and ids: "distinct (map row_id (ks_commands s2))"
    using claim_takes(1)[OF claim] command_ids.reachable_inv[OF s2] by auto
  have r: "ec_kind c = ENTRY" "vo_payload r = ec_payload c"
      "vo_exchange_instrument_id r = nd_exchange_instrument_id (ti_netting_domain (ec_ticket_identity c))"
      "vo_position_side r = nd_position_side (ti_netting_domain (ec_ticket_identity c))"
    using c(3) assms(3) by (auto simp: venue_request_of_def Let_def split: if_split_asm command_payload.splits)
  have "preflight_new_entry_mutation F c q s2 = Inr PF_ALLOWED"
    using c(2) r(1) by (simp add: preflight_verdict_def new_entry_kind_def)
  then obtain snapshot rules product d a claim p where m:
      "df_snapshot F = Some snapshot" "df_rules F = Some rules" "aggregates_get (command_ticket c) s2 = Inr (Some a)"
      "dispatch_preflight_request F snapshot rules product d a claim q s2 = Inr p" "revalidate_entry_dispatch p = Inr PF_ALLOWED"
    by (rule preflight_mutationE)
  obtain policy request e where al:
      "ia_policy (df_authority F) = Some policy" "ps_enabled policy" "ps_new_entry_submit_enabled policy"
      "strategy_entry_is_enabled (ia_strategy_control (df_authority F))"
      "en_observed_at_ms snapshot \<le> dq_now_ms q" "dq_now_ms q < en_valid_until_ms snapshot"
      "netting_domain_is_flat_and_order_free snapshot (ag_ticket a)"
      "quote_preserves_protection (ag_ticket a) (entry_price_for (ag_ticket a) snapshot)"
      "dec_mul (tk_quantity (ag_ticket a)) \<bar>dec_sub (entry_price_for (ag_ticket a) snapshot) (tk_initial_stop_price (ag_ticket a))\<bar>
         \<le> tk_post_fill_stop_risk_limit (ag_ticket a)"
      "dispatch_stress_request (ag_ticket a) snapshot rules = Inr request"
      "evaluate_cross_margin_stress request = Inr e" "sf_status (se_proof e) = PASSED"
    by (rule allowed_entry_facts[OF m(4,5)])
  let ?k = "ag_ticket a"
  have order: "entry_order_for ?k c" by (rule entry_matches_ticket[OF s2 tkn r(1) m(3)])
  obtain payload where pay: "ec_payload c = OrderCommandPayload payload" "op_quantity payload = tk_quantity ?k"
      "op_limit_price payload = tk_entry_limit_price ?k" "ec_ticket_identity c = tk_identity ?k"
    using order by (auto simp: entry_order_for_def)
  have row: "?k \<in> tr_ticket ` set (ks_tickets s)"
    by (rule loaded_ticket_row[OF m(3)]) (simp add: claim_quiet[OF c(1)])
  have vac: "case V (ri_strategy_group_id (ti_runtime (tk_identity ?k))) of None \<Rightarrow> True | Some v \<Rightarrow> \<not> blocks_new_entry (ev_state v)"
    using claim_unblocked[OF c(1)] r(1) m(3) by (auto simp: new_entry_kind_def blocking_vacuum_def split: option.splits if_split_asm)
  show ?thesis
    by (intro exI[of _ ?k] exI[of _ payload] exI[of _ snapshot] exI[of _ rules] exI[of _ policy] exI[of _ request] exI[of _ e] conjI
        row vac al m(1,2) pay(2,3) impI allI)
      (use r pay passed_dispatch_stress[OF al(10-12)] in simp_all)
qed

theorem entry_sent_is_protected_witness:
  "reachable_store demo_store
   \<and> (\<exists>r payload. run_sent (dispatch_one_command (\<lambda>g. None) demo_facts (\<lambda>r. VenueTimeout) demo_dispatch demo_store) = [VenueCommandRequest r]
        \<and> vo_kind r = ENTRY \<and> vo_payload r = OrderCommandPayload payload \<and> op_quantity payload = 2)"
proof -
  have expired: "recover_expired_claim demo_dispatch demo_store = Inr (demo_store, None)"
    by (simp add: recover_expired_claim_def commands_get_one_expired_claim_def first_command_def demo_store_def demo_command_sel
        order_rows_def)
  obtain r where r: "venue_request_of demo_claimed_command = Some (VenueCommandRequest r)" "vo_kind r = ENTRY"
    by (simp add: venue_request_of_def Let_def demo_claimed_command_def demo_command_sel)
  have sent: "run_sent (dispatch_one_command (\<lambda>g. None) demo_facts (\<lambda>r. VenueTimeout) demo_dispatch demo_store) = [VenueCommandRequest r]"
    using r(1) by (simp add: dispatch_one_command_def expired demo_claim_command dispatch_claimed_def demo_verdict call_venue_def split: sum.split)
  have "tr_ticket ` set (ks_tickets demo_store) = {demo_ct}" by (simp add: demo_store_def)
  then have "\<exists>payload. vo_payload r = OrderCommandPayload payload \<and> op_quantity payload = tk_quantity demo_ct"
    using entry_sent_is_protected[OF demo_reachable sent r(2)] by auto
  then show ?thesis using demo_reachable sent r(2) by (auto simp: claim_ticket_def demo_claim_eval)
qed

section \<open>Expired claims\<close>

text \<open>An unknown outcome is accepted by the reducer exactly in the states in which its command applies.\<close>

lemma unknown_applicable:
  assumes "command_result_fact c a (OrderOutcome (unresolved_result OUTCOME_UNKNOWN n reason)) = Inr f" "reduce_fact a h f = Inr x"
  shows "command_is_applicable c (ag_status a)"
proof (cases "ec_kind c = CANCEL_ORDER")
  case True
  then obtain p where p: "ec_payload c = CancelCommandPayload p" "cancel_result_fact p (ag_status a) (unresolved_result OUTCOME_UNKNOWN n reason) = Inr f"
    using assms(1) by (auto simp: order_result_fact_def Let_def split: command_payload.splits)
  then show ?thesis using True by (auto simp: command_is_applicable_def cancel_result_fact_def split: if_split_asm)
next
  case False
  then show ?thesis
    using assms
    by (cases "ec_kind c") (auto simp: order_result_fact_def replacement_result_fact_def unresolved_result_def command_is_applicable_def
        step_simps require_status_def Let_def split: command_payload.splits option.splits if_split_asm)
qed

text \<open>
  C29. The recovery of an expired claim does not ask whether the command still applies, as the claim of a prepared
  command does. When the oldest expired claim in the scope of a worker belongs to a lifecycle that has moved on
  (a position confirmed flat while its EXIT was in flight), every dispatch in that scope raises before it looks
  at any other command: the store stays as it is and nothing is sent.
\<close>

theorem inapplicable_expired_claim_blocks:
  assumes "commands_get_one_expired_claim (dq_now_ms q) (dq_ticket_id q) (dq_command_kinds q) s = Some c"
    "aggregates_get (command_ticket c) s = Inr (Some a)" "\<not> command_is_applicable c (ag_status a)"
  shows "\<exists>e. dispatch_one_command V F venue q s = \<lparr>run_store = s, run_sent = [], run_result = Inl e\<rparr>"
proof -
  let ?result = "unresolved_result OUTCOME_UNKNOWN (dq_now_ms q) ''stale_claim_after_restart''"
  have "\<exists>e. recover_expired_claim q s = Inl e"
  proof (rule ccontr)
    assume "\<nexists>e. recover_expired_claim q s = Inl e"
    then obtain s' r where "recover_expired_claim q s = Inr (s', r)" by (cases "recover_expired_claim q s") auto
    then obtain e s1 s2 where st: "command_result_event c a (OrderOutcome ?result) = Inr e" "commit_event a e s1 = Inr s2"
      using assms(1,2) by (auto simp: recover_expired_claim_def Let_def required_aggregate_def)
    obtain h f x where "e = TicketEvent h (agg_ticket_id a) f" "reduce_fact a h f = Inr x"
      using st(2) by (auto simp: commit_event_def reduce_event_Some_iff)
    moreover obtain f' where "command_result_fact c a (OrderOutcome ?result) = Inr f'" "next_event a (dq_now_ms q) f' = Inr e"
      using st(1) by (auto simp: command_result_event_def unresolved_result_def simp del: command_result_fact.simps)
    ultimately show False
      using unknown_applicable[of c a _ _ f h x] assms(3) by (auto simp: next_event_def Let_def simp del: command_result_fact.simps split: if_split_asm)
  qed
  then show ?thesis by (auto simp: dispatch_one_command_def)
qed

text \<open>The ENTRY of the demonstration Ticket is acknowledged while its claim is still open.\<close>

definition demo_stuck :: kernel_store where
  "demo_stuck = demo_claimed\<lparr>ks_aggregates := [demo_moved_on], ks_events := [issue_event demo_ct 1, demo_accepted 2]\<rparr>"

lemma demo_stuck_reachable: "reachable_store demo_stuck"
proof (rule reachable_store.step[OF demo_claimed_reachable])
  have "commit_event (new_aggregate demo_ct ENTRY_PENDING 1 1) (demo_accepted 2) demo_claimed = Inr demo_stuck"
    unfolding demo_stuck_def by (rule demo_accept_commits[OF demo_claimed_sel(1) refl demo_claimed_sel(6)])
  then show "kernel_step demo_claimed demo_stuck"
    by (rule commit_event_step[OF demo_claimed_aggregate demo_accepted_valid, rotated]) simp
qed

theorem inapplicable_expired_claim_blocks_witness:
  "reachable_store demo_stuck
   \<and> (\<exists>e. dispatch_one_command (\<lambda>g. None) demo_facts (\<lambda>r. VenueTimeout) (demo_dispatch\<lparr>dq_now_ms := 60, dq_lease_until_ms := 70\<rparr>) demo_stuck
        = \<lparr>run_store = demo_stuck, run_sent = [], run_result = Inl e\<rparr>)"
proof -
  let ?q = "demo_dispatch\<lparr>dq_now_ms := 60, dq_lease_until_ms := 70\<rparr>"
  have expired: "commands_get_one_expired_claim (dq_now_ms ?q) (dq_ticket_id ?q) (dq_command_kinds ?q) demo_stuck = Some demo_claimed_command"
    by (simp add: commands_get_one_expired_claim_def first_command_def demo_stuck_def demo_claimed_def order_rows_def command_scope_def
        commands_get_def demo_dispatch_def) (simp add: demo_claimed_command_def demo_command_sel)
  have t: "command_ticket demo_claimed_command = ''t''" by (simp add: demo_claimed_command_def demo_command_sel)
  have "aggregates_get (command_ticket demo_claimed_command) demo_stuck = Inr (Some demo_moved_on)"
    unfolding t by (simp add: aggregates_get_def tickets_get_def demo_stuck_def demo_claimed_sel)
      (simp add: demo_moved_on_def new_aggregate_def demo_ct_sel)
  moreover have "\<not> command_is_applicable demo_claimed_command (ag_status demo_moved_on)"
    by (simp add: command_is_applicable_def demo_claimed_command_def demo_command_sel demo_moved_on_def)
  ultimately show ?thesis using inapplicable_expired_claim_blocks[OF expired] demo_stuck_reachable by blast
qed

end
