(* ===== verification/Venue_Truth.thy ===== *)
theory Venue_Truth
  imports Commands
begin

text \<open>
  \<open>domain/venue_truth.py\<close>: what one lookup of an unresolved command at the venue shows, and the pure decision it
  leads to. The decision records a submission only for an order that agrees with the command, and an absence only
  after the visibility window and without any evidence of a submission.
\<close>

datatype venue_lookup_status = LK_VISIBLE | LK_ABSENT | LK_LOOKUP_FAILED

datatype unknown_recovery_status =
    UR_PENDING_VISIBILITY | UR_RECONCILED_SUBMITTED | UR_RECONCILED_ABSENT | UR_CANCEL_TARGET_STILL_OPEN
  | UR_IDENTITY_CONTRADICTION | UR_LOOKUP_FAILED

record venue_order_truth =
  vt_exchange_order_id :: string
  vt_venue_client_order_id :: string
  vt_exchange_instrument_id :: string
  vt_position_side :: position_side
  vt_order_side :: order_side
  vt_quantity :: decimal
  vt_reduce_only :: bool
  vt_order_namespace :: order_namespace
  vt_is_open :: bool

text \<open>The validators strip the identities; a value that was built is stripped.\<close>

definition valid_order_truth :: "venue_order_truth \<Rightarrow> bool" where
  "valid_order_truth t \<longleftrightarrow>
     list_all (\<lambda>i. py_strip i = i \<and> i \<noteq> [])
       [vt_exchange_order_id t, vt_venue_client_order_id t, vt_exchange_instrument_id t]
     \<and> 0 < vt_quantity t"

record venue_truth =
  vs_lookup_status :: venue_lookup_status
  vs_order :: "venue_order_truth option"
  vs_position_quantity :: decimal
  vs_matching_fill_quantity :: decimal
  vs_matching_fill_average_price :: "decimal option"
  vs_matching_fill_complete :: bool
  vs_regular_open_client_order_ids :: "string list"
  vs_conditional_open_client_order_ids :: "string list"
  vs_observed_at_ms :: int
  vs_reason :: "string option"

definition valid_venue_truth :: "venue_truth \<Rightarrow> bool" where
  "valid_venue_truth t \<longleftrightarrow>
     0 \<le> vs_position_quantity t \<and> 0 \<le> vs_matching_fill_quantity t \<and> 0 < vs_observed_at_ms t
     \<and> positive_opt (vs_matching_fill_average_price t)
     \<and> (vs_matching_fill_quantity t = 0 \<longrightarrow> vs_matching_fill_average_price t = None)
     \<and> (case vs_order t of None \<Rightarrow> True | Some x \<Rightarrow> valid_order_truth x)
     \<and> (case vs_lookup_status t of
          LK_VISIBLE \<Rightarrow> vs_order t \<noteq> None \<and> vs_reason t = None
        | LK_ABSENT \<Rightarrow> vs_order t = None \<and> vs_reason t = None
        | LK_LOOKUP_FAILED \<Rightarrow> vs_order t = None \<and> (case vs_reason t of None \<Rightarrow> False | Some r \<Rightarrow> non_blank r))"

record unknown_recovery_decision =
  ud_status :: unknown_recovery_status
  ud_observed_at_ms :: int
  ud_exchange_order_id :: "string option"
  ud_reason :: "string option"

definition mk_recovery_decision :: "unknown_recovery_decision \<Rightarrow> unknown_recovery_decision result" where
  "mk_recovery_decision d =
     (let present = (\<lambda>v. case v of None \<Rightarrow> False | Some x \<Rightarrow> non_blank x)
      in if (if ud_status d = UR_RECONCILED_SUBMITTED
             then present (ud_exchange_order_id d) \<and> ud_reason d = None
             else ud_exchange_order_id d = None \<and> present (ud_reason d))
         then Inr d else Inl ValidationError)"

text \<open>\<open>_decision\<close>: any outcome but a submission, with its reason.\<close>

definition recovery_decision :: "unknown_recovery_status \<Rightarrow> venue_truth \<Rightarrow> string \<Rightarrow> unknown_recovery_decision result" where
  "recovery_decision status truth reason = mk_recovery_decision
     \<lparr>ud_status = status, ud_observed_at_ms = vs_observed_at_ms truth, ud_exchange_order_id = None,
      ud_reason = Some reason\<rparr>"

section \<open>Comparing an order with its command\<close>

text \<open>The reason of the first comparison that does not match.\<close>

fun first_mismatch :: "(bool \<times> string) list \<Rightarrow> string option" where
  "first_mismatch [] = None"
| "first_mismatch ((matches, reason) # rest) = (if matches then first_mismatch rest else Some reason)"

definition identity_contradiction :: "exchange_command \<Rightarrow> venue_order_truth \<Rightarrow> string option" where
  "identity_contradiction command order =
     (let domain = ti_netting_domain (ec_ticket_identity command)
      in case first_mismatch
           [(Some (vt_venue_client_order_id order) = ec_venue_client_order_id command, ''client_order_id_mismatch''),
            (vt_exchange_instrument_id order = nd_exchange_instrument_id domain, ''instrument_mismatch''),
            (vt_position_side order = nd_position_side domain, ''position_side_mismatch'')] of
           Some reason \<Rightarrow> Some reason
         | None \<Rightarrow>
             (case ec_payload command of
                OrderCommandPayload p \<Rightarrow>
                  if vt_order_side order \<noteq> op_side p then Some ''order_side_mismatch''
                  else if vt_quantity order \<noteq> op_quantity p then Some ''quantity_mismatch''
                  else if vt_reduce_only order \<noteq> op_reduce_only p then Some ''reduce_only_mismatch''
                  else None
              | _ \<Rightarrow> Some ''command_kind_not_order_lookup''))"

text \<open>Any sign that the venue has the order although the lookup does not show it.\<close>

definition submission_evidence :: "exchange_command \<Rightarrow> venue_truth \<Rightarrow> bool" where
  "submission_evidence command truth \<longleftrightarrow>
     (ec_kind command = ENTRY \<and> 0 < vs_position_quantity truth)
     \<or> 0 < vs_matching_fill_quantity truth
     \<or> (case ec_venue_client_order_id command of
          None \<Rightarrow> False
        | Some i \<Rightarrow> i \<in> set (vs_regular_open_client_order_ids truth)
            \<or> i \<in> set (vs_conditional_open_client_order_ids truth))"

section \<open>The decision\<close>

definition decide_cancel_recovery ::
  "exchange_command \<Rightarrow> venue_truth \<Rightarrow> int \<Rightarrow> unknown_recovery_decision result" where
  "decide_cancel_recovery command truth visibility_deadline_ms =
     (case ec_payload command of
        CancelCommandPayload p \<Rightarrow>
          if vs_lookup_status truth = LK_VISIBLE
          then (case vs_order truth of
                  None \<Rightarrow> Inl (ValueError ''visible cancel target truth lacks order'')
                | Some order \<Rightarrow>
                    let domain = ti_netting_domain (ec_ticket_identity command)
                    in case first_mismatch
                         [(vt_exchange_order_id order = cp_exchange_order_id p, ''cancel_target_order_id_mismatch''),
                          (vt_exchange_instrument_id order = nd_exchange_instrument_id domain, ''instrument_mismatch''),
                          (vt_position_side order = nd_position_side domain, ''position_side_mismatch''),
                          (vt_order_namespace order = cp_order_namespace p, ''cancel_target_order_namespace_mismatch'')] of
                         Some reason \<Rightarrow> recovery_decision UR_IDENTITY_CONTRADICTION truth reason
                       | None \<Rightarrow>
                           if \<not> vt_is_open order
                           then recovery_decision UR_RECONCILED_ABSENT truth ''cancel_target_terminal''
                           else if visibility_deadline_ms \<le> vs_observed_at_ms truth
                           then recovery_decision UR_CANCEL_TARGET_STILL_OPEN truth
                                  ''cancel_target_still_open_after_visibility_window''
                           else recovery_decision UR_PENDING_VISIBILITY truth ''cancel_target_still_visible'')
          else if vs_observed_at_ms truth < visibility_deadline_ms
          then recovery_decision UR_PENDING_VISIBILITY truth ''visibility_window_open''
          else recovery_decision UR_RECONCILED_ABSENT truth ''cancel_target_absent_after_visibility_window''
      | _ \<Rightarrow> Inl (TypeError ''cancel recovery requires exact target order identity''))"

definition decide_unknown_recovery ::
  "exchange_command \<Rightarrow> venue_truth \<Rightarrow> int \<Rightarrow> unknown_recovery_decision result" where
  "decide_unknown_recovery command truth visibility_deadline_ms =
     (if ec_status command \<noteq> OUTCOME_UNKNOWN
      then Inl (ValueError ''only unknown commands may enter venue-truth recovery'')
      else if visibility_deadline_ms \<le> ec_created_at_ms command
      then Inl (ValueError ''visibility deadline must follow command creation'')
      else if vs_lookup_status truth = LK_LOOKUP_FAILED
      then recovery_decision UR_LOOKUP_FAILED truth (case vs_reason truth of None \<Rightarrow> ''None'' | Some r \<Rightarrow> r)
      else if ec_kind command = CANCEL_ORDER
      then decide_cancel_recovery command truth visibility_deadline_ms
      else if vs_lookup_status truth = LK_VISIBLE
      then (case vs_order truth of
              None \<Rightarrow> Inl (ValueError ''visible venue truth lacks order'')
            | Some order \<Rightarrow>
                (case identity_contradiction command order of
                   Some contradiction \<Rightarrow> recovery_decision UR_IDENTITY_CONTRADICTION truth contradiction
                 | None \<Rightarrow> mk_recovery_decision
                     \<lparr>ud_status = UR_RECONCILED_SUBMITTED, ud_observed_at_ms = vs_observed_at_ms truth,
                      ud_exchange_order_id = Some (vt_exchange_order_id order), ud_reason = None\<rparr>))
      else if submission_evidence command truth
      then recovery_decision UR_PENDING_VISIBILITY truth ''submission_evidence_without_order_identity''
      else if vs_observed_at_ms truth < visibility_deadline_ms
      then recovery_decision UR_PENDING_VISIBILITY truth ''visibility_window_open''
      else recovery_decision UR_RECONCILED_ABSENT truth ''authoritative_absence_after_visibility_window'')"

section \<open>What a decision means\<close>

lemma mk_recovery_decision_iff [simp]:
  "mk_recovery_decision d = Inr d' \<longleftrightarrow> d' = d \<and>
     (if ud_status d = UR_RECONCILED_SUBMITTED
      then (\<exists>i. ud_exchange_order_id d = Some i \<and> non_blank i) \<and> ud_reason d = None
      else ud_exchange_order_id d = None \<and> (\<exists>r. ud_reason d = Some r \<and> non_blank r))"
  by (auto simp: mk_recovery_decision_def Let_def split: option.splits)

lemma recovery_decision_sel:
  "recovery_decision st t r = Inr d \<Longrightarrow> ud_status d = st \<and> ud_observed_at_ms d = vs_observed_at_ms t \<and> ud_exchange_order_id d = None
     \<and> ud_reason d = Some r \<and> st \<noteq> UR_RECONCILED_SUBMITTED"
  by (auto simp: recovery_decision_def split: if_splits)

text \<open>The order of a submission agrees with the command in identity, instrument, sides, quantity and reduce-only flag.\<close>

definition order_agrees :: "exchange_command \<Rightarrow> venue_order_truth \<Rightarrow> bool" where
  "order_agrees c t \<longleftrightarrow> Some (vt_venue_client_order_id t) = ec_venue_client_order_id c
     \<and> vt_exchange_instrument_id t = nd_exchange_instrument_id (ti_netting_domain (ec_ticket_identity c))
     \<and> vt_position_side t = nd_position_side (ti_netting_domain (ec_ticket_identity c))
     \<and> (\<exists>p. ec_payload c = OrderCommandPayload p \<and> vt_order_side t = op_side p \<and> vt_quantity t = op_quantity p
          \<and> vt_reduce_only t = op_reduce_only p)"

lemma identity_contradiction_None: "identity_contradiction c t = None \<longleftrightarrow> order_agrees c t"
  by (auto simp: identity_contradiction_def order_agrees_def Let_def split: option.splits command_payload.splits if_splits)

lemma decided_submitted:
  assumes "decide_unknown_recovery c t dl = Inr d" "ud_status d = UR_RECONCILED_SUBMITTED"
  shows "\<exists>x. vs_lookup_status t = LK_VISIBLE \<and> vs_order t = Some x \<and> order_agrees c x \<and> ud_exchange_order_id d = Some (vt_exchange_order_id x)
    \<and> ec_kind c \<noteq> CANCEL_ORDER"
  using assms recovery_decision_sel
  by (fastforce simp: decide_unknown_recovery_def decide_cancel_recovery_def Let_def identity_contradiction_None
      split: if_split_asm option.splits command_payload.splits)

lemma decided_absent:
  assumes "decide_unknown_recovery c t dl = Inr d" "ud_status d = UR_RECONCILED_ABSENT"
  shows "ec_kind c \<noteq> CANCEL_ORDER \<Longrightarrow> vs_lookup_status t = LK_ABSENT \<and> \<not> submission_evidence c t \<and> dl \<le> vs_observed_at_ms t"
    "ec_kind c = CANCEL_ORDER \<Longrightarrow> (vs_lookup_status t = LK_ABSENT \<and> dl \<le> vs_observed_at_ms t)
       \<or> (\<exists>x. vs_lookup_status t = LK_VISIBLE \<and> vs_order t = Some x \<and> \<not> vt_is_open x)"
  using assms recovery_decision_sel
  by (cases "vs_lookup_status t"; fastforce simp: decide_unknown_recovery_def decide_cancel_recovery_def Let_def
      split: if_split_asm option.splits command_payload.splits)+

end
