(* ===== verification/Recover_Unknown.thy ===== *)
theory Recover_Unknown
  imports Venue_Truth Dispatch_System
begin

text \<open>
  \<open>application/recover_unknown_command.py\<close> and \<open>application/reconcile_leverage_command.py\<close>: a command whose outcome
  is unknown is looked up at the venue, outside any transaction, and what the lookup proves is recorded with its
  event in one transaction. A command is never sent again here. The answers of the truth port are a parameter.
\<close>

section \<open>Requests and answers\<close>

record recovery_request =
  rq_command_id :: string
  rq_now_ms :: int
  rq_visibility_deadline_ms :: int
  rq_timeout_seconds :: rat

definition mk_recovery_request :: "recovery_request \<Rightarrow> recovery_request result" where
  "mk_recovery_request q =
     (if non_blank (rq_command_id q) \<and> 0 < rq_now_ms q \<and> 0 < rq_visibility_deadline_ms q \<and> 0 < rq_timeout_seconds q
      then Inr (q\<lparr>rq_command_id := py_strip (rq_command_id q)\<rparr>) else Inl ValidationError)"

text \<open>\<open>VenueTruthRequest\<close> and \<open>LeverageTruthRequest\<close>.\<close>

record venue_truth_request =
  tq_command_id :: string
  tq_kind :: exchange_command_kind
  tq_venue_id :: string
  tq_account_id :: string
  tq_exchange_instrument_id :: string
  tq_position_side :: position_side
  tq_venue_client_order_id :: string
  tq_payload :: command_payload
  tq_observed_at_ms :: int

record leverage_truth_request =
  lq_command_id :: string
  lq_venue_id :: string
  lq_account_id :: string
  lq_exchange_instrument_id :: string
  lq_desired_leverage :: int
  lq_observed_at_ms :: int

record leverage_truth =
  lt_exchange_configured_leverage :: int
  lt_long_position_quantity :: decimal
  lt_short_position_quantity :: decimal
  lt_regular_open_order_ids :: "string list"
  lt_conditional_open_order_ids :: "string list"
  lt_observed_at_ms :: int

definition valid_leverage_truth :: "leverage_truth \<Rightarrow> bool" where
  "valid_leverage_truth t \<longleftrightarrow> 0 < lt_exchange_configured_leverage t
     \<and> 0 \<le> lt_long_position_quantity t \<and> 0 \<le> lt_short_position_quantity t \<and> 0 < lt_observed_at_ms t"

text \<open>What a lookup returns or raises; an exception carries its class name.\<close>

datatype truth_answer = TruthSnapshot venue_truth | TruthTimeout | TruthException string

datatype leverage_answer = LeverageTruthSnapshot leverage_truth | LeverageTruthException string

definition failed_lookup :: "int \<Rightarrow> string \<Rightarrow> venue_truth" where
  "failed_lookup now_ms reason =
     \<lparr>vs_lookup_status = LK_LOOKUP_FAILED, vs_order = None, vs_position_quantity = 0, vs_matching_fill_quantity = 0,
      vs_matching_fill_average_price = None, vs_matching_fill_complete = False, vs_regular_open_client_order_ids = [],
      vs_conditional_open_client_order_ids = [], vs_observed_at_ms = now_ms, vs_reason = Some reason\<rparr>"

fun answered_truth :: "int \<Rightarrow> truth_answer \<Rightarrow> venue_truth" where
  "answered_truth now_ms (TruthSnapshot t) = t"
| "answered_truth now_ms TruthTimeout = failed_lookup now_ms ''venue_truth_timeout''"
| "answered_truth now_ms (TruthException name) = failed_lookup now_ms (''venue_truth_error:'' @ name)"

definition truth_request_of :: "exchange_command \<Rightarrow> string \<Rightarrow> int \<Rightarrow> venue_truth_request" where
  "truth_request_of command client_id now_ms =
     (let domain = ti_netting_domain (ec_ticket_identity command)
      in \<lparr>tq_command_id = ec_command_id command, tq_kind = ec_kind command, tq_venue_id = nd_venue_id domain,
          tq_account_id = nd_account_id domain, tq_exchange_instrument_id = nd_exchange_instrument_id domain,
          tq_position_side = nd_position_side domain, tq_venue_client_order_id = client_id,
          tq_payload = ec_payload command, tq_observed_at_ms = now_ms\<rparr>)"

section \<open>The event of a recovery\<close>

definition submitted_fact :: "exchange_command \<Rightarrow> trade_aggregate \<Rightarrow> string \<Rightarrow> lifecycle_fact result" where
  "submitted_fact command a order_id =
     (case ec_kind command of
        ENTRY \<Rightarrow> Inr (EntryAccepted order_id)
      | INITIAL_STOP \<Rightarrow> Inr (InitialStopConfirmed order_id (ag_position_qty a))
      | TAKE_PROFIT \<Rightarrow>
          (case ec_payload command of
             OrderCommandPayload p \<Rightarrow> Inr (TakeProfitConfirmed order_id (op_quantity p))
           | _ \<Rightarrow> Inl (RuntimeError ''TP1 recovery payload is invalid''))
      | REPLACE_PROTECTION \<Rightarrow>
          (case ec_payload command of
             OrderCommandPayload p \<Rightarrow>
               (case (op_stop_price p, op_replaces_exchange_order_id p, op_source_watermark_ms p) of
                  (None, _, _) \<Rightarrow> Inl (RuntimeError ''replacement recovery payload is invalid'')
                | (Some _, None, _) \<Rightarrow> Inl (RuntimeError ''replacement recovery prior order is missing'')
                | (Some _, Some _, None) \<Rightarrow> Inl (RuntimeError ''replacement recovery watermark is missing'')
                | (Some price, Some prior, Some watermark) \<Rightarrow> Inr (ProtectionReplacementConfirmed
                     \<lparr>rc_exchange_order_id = order_id, rc_protected_qty = op_quantity p, rc_stop_price = price,
                      rc_replaces_exchange_order_id = prior, rc_source_watermark_ms = watermark\<rparr>))
           | _ \<Rightarrow> Inl (RuntimeError ''replacement recovery payload is invalid''))
      | EXIT \<Rightarrow> Inr (ExitAccepted order_id)
      | CONTROLLED_FLATTEN \<Rightarrow> Inr (ControlledFlattenAccepted order_id)
      | kind \<Rightarrow> Inl (RuntimeError (''submitted recovery is not mapped for '' @ command_kind_value kind)))"

text \<open>A cancel whose target is still open after the window: only two purposes have an event for it.\<close>

definition still_open_fact :: "exchange_command \<Rightarrow> trade_aggregate \<Rightarrow> lifecycle_fact result" where
  "still_open_fact command a =
     (case ec_payload command of
        CancelCommandPayload p \<Rightarrow>
          if cp_purpose p = selection_vacuum_entry
          then (if ag_status a \<noteq> ENTRY_VACUUM_CANCEL_OUTCOME_UNKNOWN
                then Inl (RuntimeError ''Vacuum cancel purpose is incompatible with aggregate state'')
                else Inr (EntryVacuumCancelRejected (cp_exchange_order_id p) ''cancel_target_still_open''))
          else if cp_purpose p \<noteq> reconciliation_cleanup
          then Inl (RuntimeError ''cancel purpose cannot enter generic still-open recovery'')
          else Inr (CancelOrderStillOpenConfirmed (cp_exchange_order_id p))
      | _ \<Rightarrow> Inl (RuntimeError ''cancel recovery payload is invalid''))"

fun cancel_unknown_status :: "cancel_purpose \<Rightarrow> aggregate_status" where
  "cancel_unknown_status entry_remainder = PARTIAL_FILL_CANCEL_OUTCOME_UNKNOWN"
| "cancel_unknown_status selection_vacuum_entry = ENTRY_VACUUM_CANCEL_OUTCOME_UNKNOWN"
| "cancel_unknown_status reconciliation_cleanup = CANCEL_OUTCOME_UNKNOWN"
| "cancel_unknown_status runner_old_stop = RUNNER_OLD_STOP_CANCEL_OUTCOME_UNKNOWN"

fun cancel_absent :: "cancel_purpose \<Rightarrow> string \<Rightarrow> lifecycle_fact" where
  "cancel_absent entry_remainder i = EntryRemainderCancelConfirmed i"
| "cancel_absent selection_vacuum_entry i = EntryVacuumCancelConfirmed i"
| "cancel_absent reconciliation_cleanup i = CancelOrderAbsenceConfirmed i"
| "cancel_absent runner_old_stop i = ProtectionCancelAbsenceConfirmed i"

definition absent_fact :: "exchange_command \<Rightarrow> trade_aggregate \<Rightarrow> lifecycle_fact result" where
  "absent_fact command a =
     (let i = ec_command_id command
      in case ec_kind command of
           ENTRY \<Rightarrow> Inr (EntryAbsenceConfirmed i)
         | INITIAL_STOP \<Rightarrow> Inr (InitialStopAbsenceConfirmed i)
         | TAKE_PROFIT \<Rightarrow> Inr (TakeProfitAbsenceConfirmed i)
         | REPLACE_PROTECTION \<Rightarrow> Inr (ProtectionReplacementAbsenceConfirmed i)
         | EXIT \<Rightarrow> Inr (ExitAbsenceConfirmed i)
         | CONTROLLED_FLATTEN \<Rightarrow> Inr (ControlledFlattenAbsenceConfirmed i)
         | CANCEL_ORDER \<Rightarrow>
             (case ec_payload command of
                CancelCommandPayload p \<Rightarrow>
                  if ag_status a \<noteq> cancel_unknown_status (cp_purpose p)
                  then Inl (RuntimeError (if cp_purpose p = selection_vacuum_entry
                         then ''Vacuum cancel purpose is incompatible with aggregate state''
                         else ''cancel purpose is incompatible with aggregate state''))
                  else Inr (cancel_absent (cp_purpose p) (cp_exchange_order_id p))
              | _ \<Rightarrow> Inl (RuntimeError ''cancel recovery payload is invalid''))
         | SET_LEVERAGE \<Rightarrow> Inl (RuntimeError ''absence recovery is not mapped for set_leverage''))"

definition recovery_fact ::
  "exchange_command \<Rightarrow> trade_aggregate \<Rightarrow> unknown_recovery_decision \<Rightarrow> lifecycle_fact result" where
  "recovery_fact command a decision =
     (if ud_status decision = UR_RECONCILED_SUBMITTED
      then submitted_fact command a (py_strip (case ud_exchange_order_id decision of None \<Rightarrow> [] | Some i \<Rightarrow> i))
      else if ud_status decision = UR_CANCEL_TARGET_STILL_OPEN \<and> ec_kind command = CANCEL_ORDER
      then still_open_fact command a
      else if ud_status decision \<noteq> UR_RECONCILED_ABSENT
      then Inl (RuntimeError ''non-terminal recovery decision cannot create an event'')
      else absent_fact command a)"

definition recovery_event ::
  "exchange_command \<Rightarrow> trade_aggregate \<Rightarrow> unknown_recovery_decision \<Rightarrow> trade_event result" where
  "recovery_event command a decision =
     bind_result (recovery_fact command a decision) (next_event a (ud_observed_at_ms decision))"

section \<open>Recording a recovery\<close>

text \<open>
  The incident of an order that contradicts its command. The details of a runtime incident are kept only as the
  event identity of the incidents the lifecycle opens; this one has none.
\<close>

definition contradiction_incident ::
  "trade_aggregate \<Rightarrow> unknown_recovery_decision \<Rightarrow> kernel_store \<Rightarrow> kernel_store result" where
  "contradiction_incident a decision s =
     (let domain = ti_netting_domain (ag_identity a)
      in bind_result (canonical_entry_block_key ACCOUNT_CAPACITY (nd_venue_id domain) (nd_account_id domain) None) (\<lambda>key.
         incidents_add
           \<lparr>in_incident_id = ''incident:'' @ agg_ticket_id a @ '':venue-identity:'' @ show_int (ud_observed_at_ms decision),
            in_ticket_id = Some (agg_ticket_id a), in_incident_kind = ''venue_identity_contradiction'',
            in_status = ''open'', in_first_blocker = ''hard_safety_stop'', in_entry_block_scope = ACCOUNT_CAPACITY,
            in_entry_block_key = key, in_event_id = [], in_opened_at_ms = ud_observed_at_ms decision,
            in_resolved_at_ms = None\<rparr> s))"

text \<open>The new status of the command; the absence of a cancelled order is written with the effects of its event.\<close>

definition settle_recovered ::
  "unknown_recovery_decision \<Rightarrow> exchange_command \<Rightarrow> kernel_store \<Rightarrow> kernel_store result" where
  "settle_recovered decision command s =
     (if ud_status decision = UR_RECONCILED_SUBMITTED
      then commands_reconcile_unknown_submitted (ec_command_id command) (py_str (ud_exchange_order_id decision))
             (ud_observed_at_ms decision) s
      else if ec_kind command \<noteq> CANCEL_ORDER \<or> ud_status decision = UR_CANCEL_TARGET_STILL_OPEN
      then commands_reconcile_unknown_absent (ec_command_id command) (ud_observed_at_ms decision)
             (py_str (ud_reason decision)) s
      else Inr s)"

definition record_recovery ::
  "unknown_recovery_decision \<Rightarrow> recovery_request \<Rightarrow> kernel_store \<Rightarrow> kernel_store result" where
  "record_recovery decision q s =
     (case commands_get (rq_command_id q) s of
        None \<Rightarrow> Inl (RuntimeError ''unknown command changed during venue lookup'')
      | Some current \<Rightarrow>
          if ec_status current \<noteq> OUTCOME_UNKNOWN
          then Inl (RuntimeError ''unknown command changed during venue lookup'')
          else bind_result (required_aggregate ''unknown command has no Ticket aggregate'' (command_ticket current) s)
            (\<lambda>a. if ud_status decision = UR_IDENTITY_CONTRADICTION then contradiction_incident a decision s
                 else bind_result (recovery_event current a decision) (\<lambda>event.
                   bind_result (settle_recovered decision current s) (commit_event a event))))"

section \<open>Leverage\<close>

datatype reconcile_leverage_status = RL_CONFIRMED | RL_REJECTED_MISMATCH | RL_BLOCKED_CONTRADICTION | RL_TRUTH_UNAVAILABLE

record leverage_recovery =
  rl_status :: reconcile_leverage_status
  rl_command_id :: string
  rl_reason :: "string option"

definition leverage_command_payload :: "exchange_command option \<Rightarrow> kernel_error \<Rightarrow> set_leverage_payload result" where
  "leverage_command_payload c changed =
     (case c of
        None \<Rightarrow> Inl changed
      | Some command \<Rightarrow>
          if ec_kind command \<noteq> SET_LEVERAGE \<or> ec_status command \<noteq> OUTCOME_UNKNOWN then Inl changed
          else (case ec_payload command of SetLeverageCommandPayload p \<Rightarrow> Inr p | _ \<Rightarrow> Inl changed))"

definition leverage_readback_digest :: "exchange_command \<Rightarrow> set_leverage_payload \<Rightarrow> leverage_truth \<Rightarrow> string" where
  "leverage_readback_digest command p truth = canonical_digest (JObj
     [(''command_id'', JStr (ec_command_id command)), (''desired_leverage'', JInt (lp_desired_leverage p)),
      (''exchange_configured_leverage'', JInt (lt_exchange_configured_leverage truth)),
      (''observed_at_ms'', JInt (lt_observed_at_ms truth))])"

text \<open>The transaction after the lookup: the leverage is confirmed, or the command is absent.\<close>

definition record_leverage_truth ::
  "leverage_truth \<Rightarrow> string \<Rightarrow> kernel_store \<Rightarrow> (kernel_store \<times> leverage_recovery) result" where
  "record_leverage_truth truth command_id s =
     (let changed = RuntimeError ''leverage command changed during truth lookup''
      in bind_result (leverage_command_payload (commands_get command_id s) changed) (\<lambda>p.
         case commands_get command_id s of
           None \<Rightarrow> Inl changed
         | Some current \<Rightarrow>
             bind_result (required_aggregate ''leverage command has no Ticket aggregate'' (command_ticket current) s) (\<lambda>a.
             let at_ms = lt_observed_at_ms truth; i = ec_command_id current
             in if lt_exchange_configured_leverage truth = lp_desired_leverage p
                then let l = \<lparr>lr_exchange_configured_leverage = lt_exchange_configured_leverage truth,
                              lr_leverage_verified_at_ms = at_ms,
                              lr_leverage_verification_digest = leverage_readback_digest current p truth\<rparr>
                     in if \<not> valid_set_leverage_result l then Inl ValidationError
                        else bind_result (next_event a at_ms (LeverageConfirmed (lr_exchange_configured_leverage l) at_ms
                               (lr_leverage_verification_digest l))) (\<lambda>event.
                             bind_result (commands_reconcile_unknown_leverage_confirmed i l s) (\<lambda>s1.
                             bind_result (commit_event a event s1) (\<lambda>s2.
                             Inr (s2, \<lparr>rl_status = RL_CONFIRMED, rl_command_id = i, rl_reason = None\<rparr>))))
                else bind_result (next_event a at_ms (LeverageRejected ''configured_leverage_mismatch'')) (\<lambda>event.
                     bind_result (commands_reconcile_unknown_absent i at_ms ''configured_leverage_mismatch'' s) (\<lambda>s1.
                     bind_result (commit_event a event s1) (\<lambda>s2.
                     Inr (s2, \<lparr>rl_status = RL_REJECTED_MISMATCH, rl_command_id = i, rl_reason = None\<rparr>)))))))"

definition leverage_truth_contradicts :: "leverage_truth \<Rightarrow> bool" where
  "leverage_truth_contradicts t \<longleftrightarrow> lt_long_position_quantity t \<noteq> 0 \<or> lt_short_position_quantity t \<noteq> 0
     \<or> lt_regular_open_order_ids t \<noteq> [] \<or> lt_conditional_open_order_ids t \<noteq> []"

definition reconcile_leverage_command ::
  "(leverage_truth_request \<Rightarrow> leverage_answer) \<Rightarrow> string \<Rightarrow> int \<Rightarrow> kernel_store
   \<Rightarrow> (kernel_store \<times> leverage_recovery) result" where
  "reconcile_leverage_command port command_id now_ms s =
     (case commands_get command_id s of
        None \<Rightarrow> Inl (ValueError ''leverage command does not exist'')
      | Some command \<Rightarrow>
          if ec_kind command \<noteq> SET_LEVERAGE then Inl (ValueError ''command is not SET_LEVERAGE'')
          else if ec_status command \<noteq> OUTCOME_UNKNOWN
          then Inl (ValueError ''leverage command is not in unknown-outcome state'')
          else (case ec_payload command of
             SetLeverageCommandPayload p \<Rightarrow>
               (let domain = ti_netting_domain (ec_ticket_identity command);
                    answer = port \<lparr>lq_command_id = ec_command_id command, lq_venue_id = nd_venue_id domain,
                      lq_account_id = nd_account_id domain,
                      lq_exchange_instrument_id = nd_exchange_instrument_id domain,
                      lq_desired_leverage = lp_desired_leverage p, lq_observed_at_ms = now_ms\<rparr>
                in case answer of
                     LeverageTruthException name \<Rightarrow> Inr (s, \<lparr>rl_status = RL_TRUTH_UNAVAILABLE,
                       rl_command_id = ec_command_id command, rl_reason = Some (''leverage_truth:'' @ name)\<rparr>)
                   | LeverageTruthSnapshot truth \<Rightarrow>
                       if leverage_truth_contradicts truth
                       then Inr (s, \<lparr>rl_status = RL_BLOCKED_CONTRADICTION, rl_command_id = ec_command_id command,
                              rl_reason = Some ''leverage_truth_contains_position_or_order''\<rparr>)
                       else record_leverage_truth truth command_id s)
           | _ \<Rightarrow> Inl (TypeError ''SET_LEVERAGE command payload is invalid'')))"

section \<open>One recovery\<close>

datatype recovery_outcome = RecoveredOrder unknown_recovery_decision | RecoveredLeverage leverage_recovery

definition recover_unknown_command ::
  "(venue_truth_request \<Rightarrow> truth_answer) \<Rightarrow> (leverage_truth_request \<Rightarrow> leverage_answer) \<Rightarrow> recovery_request
   \<Rightarrow> kernel_store \<Rightarrow> (kernel_store \<times> recovery_outcome) result" where
  "recover_unknown_command port leverage_port q s =
     (case commands_get (rq_command_id q) s of
        None \<Rightarrow> Inl (ValueError ''unknown recovery command does not exist'')
      | Some command \<Rightarrow>
          if ec_status command \<noteq> OUTCOME_UNKNOWN then Inl (ValueError ''command is not in unknown-outcome state'')
          else if ec_kind command = SET_LEVERAGE
          then bind_result (reconcile_leverage_command leverage_port (ec_command_id command) (rq_now_ms q) s)
                 (\<lambda>(s1, r). Inr (s1, RecoveredLeverage r))
          else (case ec_venue_client_order_id command of
             None \<Rightarrow> Inl (RuntimeError ''unknown order command lacks venue client order identity'')
           | Some client_id \<Rightarrow>
               (let truth = answered_truth (rq_now_ms q) (port (truth_request_of command client_id (rq_now_ms q)))
                in bind_result (decide_unknown_recovery command truth (rq_visibility_deadline_ms q)) (\<lambda>decision.
                   if ud_status decision \<in> {UR_PENDING_VISIBILITY, UR_LOOKUP_FAILED}
                   then Inr (s, RecoveredOrder decision)
                   else bind_result (record_recovery decision q s) (\<lambda>s1. Inr (s1, RecoveredOrder decision))))))"

end
