(* ===== verification/Recovery_Properties.thy ===== *)
theory Recovery_Properties
  imports Recover_Unknown Dispatch_Demo
begin

text \<open>
  What the recovery of an unknown outcome guarantees: the outcome of a command is final, and it is settled only on
  proof from the venue. And where it does not: a cancel whose target stays open has no recovery for two of its
  purposes.
\<close>

section \<open>Settled commands\<close>

definition settled_as :: "string \<Rightarrow> exchange_command_status \<Rightarrow> command_row list \<Rightarrow> bool" where
  "settled_as i st rows \<longleftrightarrow> (\<exists>r\<in>set rows. row_id r = i \<and> row_status r = st \<and> \<not> live r)"

interpretation settled: command_step_invariant "settled_as i st" for i st
proof
  fix rows rows' assume "settled_as i st rows" "live_update rows rows'"
  then obtain P f r where u: "rows' = update_where P f rows" "\<And>r. P r \<Longrightarrow> live r" and r: "r \<in> set rows" "row_id r = i" "row_status r = st" "\<not> live r"
    by (auto simp: live_update_def settled_as_def)
  have "r \<in> set rows'" using r(1,4) u(2)[of r] unfolding u(1) update_where_def set_map by (intro image_eqI[of _ _ r]) auto
  then show "settled_as i st rows'" using r by (auto simp: settled_as_def)
next
  fix s c s' assume "settled_as i st (ks_commands s)" "commands_add c s = Inr s'"
  then show "settled_as i st (ks_commands s')" by (auto simp: settled_as_def commands_add_def)
qed

lemma settled_steps:
  assumes "kernel_step\<^sup>*\<^sup>* s s'" "reachable_store s" "settled_as i st (ks_commands s)"
  shows "settled_as i st (ks_commands s')"
  using assms
proof (induction rule: rtranclp_induct)
  case (step y z)
  then have "reachable_store y" using reachable_steps by blast
  then show ?case using step settled.step_inv reachable_log by blast
qed simp

text \<open>What the table says of a command, given its unique row.\<close>

lemma commands_get_row:
  assumes "distinct (map row_id (ks_commands s))" "r \<in> set (ks_commands s)"
  shows "commands_get (row_id r) s = Some (co_command r)"
proof -
  have "List.find (\<lambda>x. row_id x = row_id r) (ks_commands s) = Some r"
    using assms
  proof (induction "ks_commands s" arbitrary: s)
    case (Cons x xs)
    show ?case
    proof (cases "row_id x = row_id r")
      case True
      then have "x = r" using Cons.prems Cons.hyps(2)[symmetric] by (auto simp: distinct_map inj_on_def)
      then show ?thesis by (simp add: Cons.hyps(2)[symmetric])
    next
      case False
      then have "List.find (\<lambda>x. row_id x = row_id r) xs = Some r"
        using Cons.hyps(1)[of "s\<lparr>ks_commands := xs\<rparr>"] Cons.prems Cons.hyps(2)[symmetric] by auto
      then show ?thesis using False by (simp add: Cons.hyps(2)[symmetric])
    qed
  qed simp
  then show ?thesis by (simp add: commands_get_def)
qed

lemma settled_get:
  assumes "reachable_store s" "settled_as i st (ks_commands s)"
  shows "\<exists>c. commands_get i s = Some c \<and> ec_status c = st"
proof -
  obtain r where r: "r \<in> set (ks_commands s)" "row_id r = i" "row_status r = st" using assms(2) by (auto simp: settled_as_def)
  then show ?thesis using commands_get_row[OF command_ids.reachable_inv[OF assms(1)] r(1)] by auto
qed

section \<open>Recording is a sequence of kernel steps\<close>

lemma recovery_event_valid: "recovery_event c a d = Inr e \<Longrightarrow> valid_event e"
  by (auto simp: recovery_event_def next_event_valid)

lemma record_recoveryE:
  assumes "record_recovery d q s = Inr s'" "commands_get (rq_command_id q) s = Some c"
  obtains (contradiction) a where "ec_status c = OUTCOME_UNKNOWN" "ud_status d = UR_IDENTITY_CONTRADICTION" "contradiction_incident a d s = Inr s'"
  | (settled) a e s1 where "ec_status c = OUTCOME_UNKNOWN" "ud_status d \<noteq> UR_IDENTITY_CONTRADICTION"
      "aggregates_get (command_ticket c) s = Inr (Some a)" "recovery_event c a d = Inr e"
      "settle_recovered d c s = Inr s1" "commit_event a e s1 = Inr s'"
proof (cases "ec_status c = OUTCOME_UNKNOWN")
  case True
  then obtain a where a: "aggregates_get (command_ticket c) s = Inr (Some a)"
      "(if ud_status d = UR_IDENTITY_CONTRADICTION then contradiction_incident a d s
        else bind_result (recovery_event c a d) (\<lambda>event. bind_result (settle_recovered d c s) (commit_event a event))) = Inr s'"
    using assms by (auto simp: record_recovery_def required_aggregate_iff)
  show thesis
  proof (cases "ud_status d = UR_IDENTITY_CONTRADICTION")
    case False
    then obtain e s1 where "recovery_event c a d = Inr e" "settle_recovered d c s = Inr s1" "commit_event a e s1 = Inr s'"
      using a(2) by auto
    then show thesis using settled[OF True False a(1)] by blast
  qed (use a(2) contradiction[OF True] in simp)
qed (use assms in \<open>simp add: record_recovery_def\<close>)

lemma settle_step: "settle_recovered d c s = Inr s1 \<Longrightarrow> s1 = s \<or> worker_step s s1"
  by (auto simp: settle_recovered_def split: if_split_asm intro: worker_step.submitted worker_step.absent)

lemma contradiction_step: "contradiction_incident a d s = Inr s' \<Longrightarrow> worker_step s s' \<and> ks_commands s' = ks_commands s"
  by (auto simp: contradiction_incident_def Let_def intro: worker_step.incident_opened) (auto simp: incidents_add_def split: if_splits)

lemma record_recovery_steps:
  assumes "record_recovery d q s = Inr s'"
  shows "kernel_step\<^sup>*\<^sup>* s s'"
proof -
  obtain c where c: "commands_get (rq_command_id q) s = Some c" using assms by (auto simp: record_recovery_def split: option.splits)
  from assms c show ?thesis
  proof (cases rule: record_recoveryE)
    case (contradiction a)
    then show ?thesis using contradiction_step[of a d s s'] by (auto intro!: r_into_rtranclp kernel_step.worker)
  next
    case (settled a e s1)
    note valid = recovery_event_valid[OF settled(4)]
    show ?thesis using settle_step[OF settled(5)]
    proof
      assume "s1 = s"
      then show ?thesis using commit_event_step[OF settled(3) valid] settled(6) by (auto intro!: r_into_rtranclp)
    next
      assume "worker_step s s1"
      then show ?thesis by (rule recorded_commit[OF _ settled(3) valid settled(6)])
    qed
  qed
qed

section \<open>The row of a recovered command\<close>

lemma reconcile_settles:
  assumes "update_command m i P (complete st out n) s = Inr s'" "st \<notin> {PREPARED, CLAIMED, OUTCOME_UNKNOWN}"
  shows "settled_as i st (ks_commands s')"
proof -
  have "rowcount (\<lambda>r. row_id r = i \<and> P r) (ks_commands s) = 1"
      and s': "ks_commands s' = update_where (\<lambda>r. row_id r = i \<and> P r) (complete st out n) (ks_commands s)"
    using assms(1) by (auto simp: update_command_def update_one_def split: if_splits)
  then have "filter (\<lambda>r. row_id r = i \<and> P r) (ks_commands s) \<noteq> []" by (auto simp: rowcount_def)
  then obtain x where x: "x \<in> set (ks_commands s)" "row_id x = i" "P x" by (auto simp: filter_empty_conv)
  have "complete st out n x \<in> set (ks_commands s')"
    using x unfolding s' update_where_def set_map by (intro image_eqI[of _ _ x]) auto
  moreover have "row_id (complete st out n x) = i" using x(2) by (simp add: complete_def set_status_def)
  moreover have "\<not> live (complete st out n x)" using assms(2) by (simp add: live_def)
  ultimately show ?thesis unfolding settled_as_def by (intro bexI[of _ "complete st out n x"]) auto
qed

lemma reconcile_settles_accepted:
  "update_command m i P (complete RECONCILED_ACCEPTED out n) s = Inr s' \<Longrightarrow> settled_as i RECONCILED_ACCEPTED (ks_commands s')"
  by (erule reconcile_settles) simp

lemma reconcile_settles_absent:
  "update_command m i P (complete RECONCILED_ABSENT out n) s = Inr s' \<Longrightarrow> settled_as i RECONCILED_ABSENT (ks_commands s')"
  by (erule reconcile_settles) simp

text \<open>An effect other than the reconciliation of a cancel only adds commands.\<close>

lemma effect_keeps_rows:
  assumes "materialize_effect a h e s = Inr s'" "\<And>t i. e \<noteq> MarkCancelCommandReconciledAbsent t i"
  shows "set (ks_commands s) \<subseteq> set (ks_commands s')"
proof -
  have add: "set (ks_commands s) \<subseteq> set (ks_commands s')" if "add_command x s = Inr s'" for x
    using that by (auto simp: add_command_def commands_add_def)
  show ?thesis
    by (cases e) (use assms add quiet_commands_kept project_commands_kept in \<open>fastforce split: option.splits if_splits\<close>)+
qed

text \<open>The reconciliation of a cancel settles the unknown cancel of its order.\<close>

lemma mark_cancel_settles:
  assumes "commands_mark_cancel_reconciled_absent t i n s = Inr s'" "r \<in> set (ks_commands s)" "row_command_ticket r = t"
    "ec_kind (co_command r) = CANCEL_ORDER" "row_status r = OUTCOME_UNKNOWN" "cancels_order i r"
  shows "settled_as (row_id r) RECONCILED_ABSENT (ks_commands s')"
proof -
  let ?P = "\<lambda>r. row_command_ticket r = t \<and> ec_kind (co_command r) = CANCEL_ORDER \<and> row_status r = OUTCOME_UNKNOWN \<and> cancels_order i r"
  let ?f = "\<lambda>r. (set_status RECONCILED_ABSENT r)\<lparr>co_completed_at_ms := Some n\<rparr>"
  have s': "ks_commands s' = update_where ?P ?f (ks_commands s)"
    using assms(1) by (auto simp: commands_mark_cancel_reconciled_absent_def update_one_def split: if_splits)
  have P: "?P r" using assms(3-6) by blast
  have "(if ?P r then ?f r else r) \<in> set (ks_commands s')"
    unfolding s' update_where_def set_map by (rule imageI[OF assms(2)])
  then have m: "?f r \<in> set (ks_commands s')" unfolding if_P[OF P] .
  show ?thesis unfolding settled_as_def by (rule bexI[OF _ m]) (simp add: set_status_def live_def)
qed

lemma effects_settle_cancel:
  assumes "materialize_effects a h fx s = Inr s'" "MarkCancelCommandReconciledAbsent t i \<in> set fx"
    "\<And>t' i'. MarkCancelCommandReconciledAbsent t' i' \<in> set fx \<Longrightarrow> t' = t \<and> i' = i"
    "r \<in> set (ks_commands s)" "row_command_ticket r = t" "ec_kind (co_command r) = CANCEL_ORDER" "row_status r = OUTCOME_UNKNOWN"
    "cancels_order i r"
  shows "settled_as (row_id r) RECONCILED_ABSENT (ks_commands s')"
  using assms(1-4)
proof (induction fx arbitrary: s)
  case (Cons e fx)
  obtain s1 where s1: "materialize_effect a h e s = Inr s1" "materialize_effects a h fx s1 = Inr s'" using Cons.prems(1) by auto
  show ?case
  proof (cases "e = MarkCancelCommandReconciledAbsent t i")
    case True
    then have "settled_as (row_id r) RECONCILED_ABSENT (ks_commands s1)"
      using s1(1) mark_cancel_settles[OF _ Cons.prems(4) assms(5-8)] by auto
    then show ?thesis using settled.effects_commands s1(2) by blast
  next
    case False
    have other: "e \<noteq> MarkCancelCommandReconciledAbsent t' i'" for t' i' using False Cons.prems(3)[of t' i'] by auto
    have "r \<in> set (ks_commands s1)" using effect_keeps_rows[OF s1(1) other] Cons.prems(4) by blast
    moreover have "MarkCancelCommandReconciledAbsent t i \<in> set fx" using Cons.prems(2) False by simp
    moreover have "\<And>t' i'. MarkCancelCommandReconciledAbsent t' i' \<in> set fx \<Longrightarrow> t' = t \<and> i' = i"
      by (rule Cons.prems(3)) simp
    ultimately show ?thesis using Cons.IH[OF s1(2)] by blast
  qed
qed simp

lemma cancel_absence_marks:
  assumes "reduce_fact a h (cancel_absent p i) = Inr (a', fx)" "ag_status a = cancel_unknown_status p"
  shows "MarkCancelCommandReconciledAbsent (agg_ticket_id a) i \<in> set fx"
    "MarkCancelCommandReconciledAbsent t' i' \<in> set fx \<Longrightarrow> t' = agg_ticket_id a \<and> i' = i"
  using assms by (cases p; auto simp: step_simps resolve_if_def split: step_splits if_splits)+


text \<open>The event of a recovery, committed: its fact was accepted and its effects were materialized.\<close>

lemma committed_effects:
  assumes "commit_event a e s = Inr s'" "next_event a n f = Inr e"
  obtains a' fx s2 s3 where "reduce_fact a (event_header_of e) f = Inr (a', fx)" "ks_commands s2 = ks_commands s"
    "materialize_effects a' (event_header_of e) fx s2 = Inr s3" "ks_commands s' = ks_commands s3"
proof -
  obtain r where r: "reduce_event (Some a) e = Inr r" "commit_reduction e r (ag_version a) s = Inr s'"
    using assms(1) by (auto simp: commit_event_def)
  obtain a' fx where ar: "r = (a', fx)" by (cases r)
  obtain h where e: "e = TicketEvent h (agg_ticket_id a) f"
    using assms(2) by (auto simp: next_event_def Let_def split: if_split_asm)
  have f: "reduce_fact a (event_header_of e) f = Inr (a', fx)" using r(1) by (simp add: reduce_event_Some_iff e ar)
  obtain s1 s2 s3 where st: "commit_aggregate e a' (ag_version a) s = Inr s1" "events_append e s1 = Inr s2"
      "materialize_effects a' (event_header_of e) fx s2 = Inr s3" "close_ticket e a' s3 = Inr s'"
    using commit_reductionE[OF r(2)[unfolded ar]] .
  have "ks_commands s1 = ks_commands s"
  proof (cases "ag_version a = 0")
    case True
    show ?thesis unfolding commit_first_writes(1)[OF st(1)[unfolded True]] by simp
  next
    case False
    show ?thesis unfolding commit_later_writes(1)[OF st(1) False] by simp
  qed
  then have "ks_commands s2 = ks_commands s" using events_append_writes[OF st(2)] by simp
  then show thesis using that[OF f _ st(3)] close_ticket_writes(7)[OF st(4)] by simp
qed

lemma absent_cancel_settles:
  assumes "absent_fact c a = Inr f" "ec_kind c = CANCEL_ORDER" "next_event a n f = Inr e" "commit_event a e s = Inr s'"
    "r \<in> set (ks_commands s)" "co_command r = c" "row_status r = OUTCOME_UNKNOWN" "command_ticket c = agg_ticket_id a"
  shows "settled_as (ec_command_id c) RECONCILED_ABSENT (ks_commands s')"
proof -
  obtain p where p: "ec_payload c = CancelCommandPayload p" "ag_status a = cancel_unknown_status (cp_purpose p)"
      "f = cancel_absent (cp_purpose p) (cp_exchange_order_id p)"
    using assms(1,2) by (auto simp: absent_fact_def Let_def split: command_payload.splits if_split_asm)
  obtain a' fx s2 s3 where fx: "reduce_fact a (event_header_of e) f = Inr (a', fx)" "ks_commands s2 = ks_commands s"
      "materialize_effects a' (event_header_of e) fx s2 = Inr s3" "ks_commands s' = ks_commands s3"
    by (rule committed_effects[OF assms(4,3)])
  have "settled_as (row_id r) RECONCILED_ABSENT (ks_commands s3)"
  proof (rule effects_settle_cancel[OF fx(3)])
    show "MarkCancelCommandReconciledAbsent (agg_ticket_id a) (cp_exchange_order_id p) \<in> set fx"
      by (rule cancel_absence_marks(1)[OF fx(1)[unfolded p(3)] p(2)])
    show "MarkCancelCommandReconciledAbsent t' i' \<in> set fx \<Longrightarrow> t' = agg_ticket_id a \<and> i' = cp_exchange_order_id p" for t' i'
      by (rule cancel_absence_marks(2)[OF fx(1)[unfolded p(3)] p(2)])
  qed (use assms(2,5-8) p(1) fx(2) in \<open>simp_all add: cancels_order_def\<close>)
  then show ?thesis using assms(6) fx(4) by simp
qed

section \<open>Outcomes rest on proof\<close>

text \<open>
  The venue has shown that the command did not take effect: the lookup found nothing after the visibility window,
  and for an order no trace of it; for a cancel also that its target is closed, or still open after the window.
\<close>

definition absence_proven :: "exchange_command \<Rightarrow> venue_truth \<Rightarrow> int \<Rightarrow> bool" where
  "absence_proven c t dl \<longleftrightarrow>
     (if ec_kind c = CANCEL_ORDER
      then (vs_lookup_status t = LK_ABSENT \<and> dl \<le> vs_observed_at_ms t)
           \<or> (\<exists>x. vs_lookup_status t = LK_VISIBLE \<and> vs_order t = Some x \<and> (vt_is_open x \<longrightarrow> dl \<le> vs_observed_at_ms t))
      else vs_lookup_status t = LK_ABSENT \<and> \<not> submission_evidence c t \<and> dl \<le> vs_observed_at_ms t)"

lemma decided_still_open:
  assumes "decide_unknown_recovery c t dl = Inr d" "ud_status d = UR_CANCEL_TARGET_STILL_OPEN"
  shows "absence_proven c t dl"
  using assms recovery_decision_sel
  by (fastforce simp: decide_unknown_recovery_def decide_cancel_recovery_def Let_def absence_proven_def
      split: if_split_asm option.splits command_payload.splits)

lemma decided_absence:
  assumes "decide_unknown_recovery c t dl = Inr d" "ud_status d = UR_RECONCILED_ABSENT"
  shows "absence_proven c t dl"
  using decided_absent[OF assms] by (auto simp: absence_proven_def)

lemma loaded_id: "aggregates_get t s = Inr (Some a) \<Longrightarrow> agg_ticket_id a = t"
  by (auto simp: aggregates_get_def tickets_get_def dest!: find_Some_set split: option.splits)

text \<open>What the settling of the command leaves in its row, and that committing the event keeps it.\<close>

lemma settle_recovered_settles:
  assumes "settle_recovered d c s = Inr s1"
  shows "ud_status d = UR_RECONCILED_SUBMITTED \<Longrightarrow> settled_as (ec_command_id c) RECONCILED_ACCEPTED (ks_commands s1)"
    "ud_status d \<noteq> UR_RECONCILED_SUBMITTED \<Longrightarrow> ec_kind c \<noteq> CANCEL_ORDER \<or> ud_status d = UR_CANCEL_TARGET_STILL_OPEN
       \<Longrightarrow> settled_as (ec_command_id c) RECONCILED_ABSENT (ks_commands s1)"
    "ud_status d \<noteq> UR_RECONCILED_SUBMITTED \<Longrightarrow> \<not> (ec_kind c \<noteq> CANCEL_ORDER \<or> ud_status d = UR_CANCEL_TARGET_STILL_OPEN) \<Longrightarrow> s1 = s"
  using assms unfolding settle_recovered_def commands_reconcile_unknown_submitted_def commands_reconcile_unknown_absent_def
  by (auto intro: reconcile_settles_accepted reconcile_settles_absent)

lemma committed_settled:
  assumes "reachable_store s" "settle_recovered d c s = Inr s1" "aggregates_get t s = Inr (Some a)" "valid_event e"
    "commit_event a e s1 = Inr s'" "settled_as i st (ks_commands s1)"
  shows "settled_as i st (ks_commands s')"
proof -
  have "reachable_store s1 \<and> aggregates_get t s1 = aggregates_get t s"
    using settle_step[OF assms(2)] assms(1) reachable_store.step[OF assms(1) kernel_step.worker] worker_aggregate by auto
  then show ?thesis using settled_steps[OF r_into_rtranclp[of kernel_step s1 s', OF commit_event_step[of t s1 a e s']]] assms(3-6) by simp
qed

lemma recovery_fact_shape:
  assumes "recovery_fact c a d = Inr f" "ud_status d \<in> {UR_RECONCILED_ABSENT, UR_CANCEL_TARGET_STILL_OPEN}"
    "ec_kind c = CANCEL_ORDER" "ud_status d \<noteq> UR_CANCEL_TARGET_STILL_OPEN"
  shows "absent_fact c a = Inr f"
  using assms by (auto simp: recovery_fact_def split: if_split_asm)

lemma absent_outcome:
  assumes "reachable_store s" "commands_get (rq_command_id q) s = Some c" "ec_status c = OUTCOME_UNKNOWN"
    "aggregates_get (command_ticket c) s = Inr (Some a)" "recovery_event c a d = Inr e" "settle_recovered d c s = Inr s1"
    "commit_event a e s1 = Inr s'" "ud_status d \<in> {UR_RECONCILED_ABSENT, UR_CANCEL_TARGET_STILL_OPEN}"
  shows "settled_as (ec_command_id c) RECONCILED_ABSENT (ks_commands s')"
proof (cases "ec_kind c \<noteq> CANCEL_ORDER \<or> ud_status d = UR_CANCEL_TARGET_STILL_OPEN")
  case True
  then have "settled_as (ec_command_id c) RECONCILED_ABSENT (ks_commands s1)"
    using settle_recovered_settles(2)[OF assms(6)] assms(8) by auto
  then show ?thesis by (rule committed_settled[OF assms(1,6,4) recovery_event_valid[OF assms(5)] assms(7)])
next
  case False
  then have s1: "s1 = s" using settle_recovered_settles(3)[OF assms(6)] assms(8) by auto
  obtain f where f: "recovery_fact c a d = Inr f" "next_event a (ud_observed_at_ms d) f = Inr e"
    using assms(5) by (auto simp: recovery_event_def)
  obtain r where r: "List.find (\<lambda>r. row_id r = rq_command_id q) (ks_commands s) = Some r" "c = co_command r"
    using assms(2) by (auto simp: commands_get_def)
  have "absent_fact c a = Inr f" using recovery_fact_shape[OF f(1) assms(8)] False by blast
  then show ?thesis
    by (rule absent_cancel_settles[OF _ _ f(2) assms(7)[unfolded s1], where r = r])
      (use False find_Some_set[OF r(1)] r(2) assms(3) loaded_id[OF assms(4)] in auto)
qed

lemma record_outcome:
  assumes "reachable_store s" "record_recovery d q s = Inr s'" "commands_get (rq_command_id q) s = Some c"
  shows "(ud_status d = UR_IDENTITY_CONTRADICTION \<and> ks_commands s' = ks_commands s)
    \<or> (ud_status d = UR_RECONCILED_SUBMITTED \<and> settled_as (ec_command_id c) RECONCILED_ACCEPTED (ks_commands s'))
    \<or> (ud_status d \<in> {UR_RECONCILED_ABSENT, UR_CANCEL_TARGET_STILL_OPEN} \<and> settled_as (ec_command_id c) RECONCILED_ABSENT (ks_commands s'))"
  using assms(2,3)
proof (cases rule: record_recoveryE)
  case (contradiction a)
  then show ?thesis using contradiction_step[OF contradiction(3)] by simp
next
  case (settled a e s1)
  have "ud_status d \<in> {UR_RECONCILED_SUBMITTED, UR_RECONCILED_ABSENT, UR_CANCEL_TARGET_STILL_OPEN}"
    using settled(4) by (auto simp: recovery_event_def recovery_fact_def split: if_split_asm)
  then consider "ud_status d = UR_RECONCILED_SUBMITTED" | "ud_status d \<in> {UR_RECONCILED_ABSENT, UR_CANCEL_TARGET_STILL_OPEN}" by blast
  then show ?thesis
  proof cases
    case 1
    show ?thesis
      using 1 committed_settled[OF assms(1) settled(5,3) recovery_event_valid[OF settled(4)] settled(6)]
        settle_recovered_settles(1)[OF settled(5) 1] by blast
  next
    case 2
    show ?thesis using absent_outcome[OF assms(1,3) settled(1,3-6) 2] 2 by blast
  qed
qed

text \<open>
  C30. When the recovery of an unknown order or cancel on a reachable store returns, either nothing is settled (the
  lookup failed, the visibility window is still open, or the order found contradicts the command; then the command
  table is untouched), or the command is settled on proof: as accepted only when the lookup showed an order that
  agrees with the command in identity, instrument, both sides, quantity and reduce-only flag; as absent only when
  the lookup showed nothing after the visibility deadline and no fill, position or open order speaks for a
  submission, or, for a cancel, what became of its target. The outcome is final: it is the same in every store the
  kernel reaches later.
\<close>

theorem recovery_rests_on_proof:
  assumes "reachable_store s" "commands_get (rq_command_id q) s = Some c"
    "recover_unknown_command port leverage_port q s = Inr (s', RecoveredOrder d)" "kernel_step\<^sup>*\<^sup>* s' later"
  shows "\<exists>client_id truth. ec_venue_client_order_id c = Some client_id
    \<and> truth = answered_truth (rq_now_ms q) (port (truth_request_of c client_id (rq_now_ms q)))
    \<and> reachable_store later
    \<and> (ks_commands s' = ks_commands s
       \<or> (\<exists>c' x. commands_get (ec_command_id c) later = Some c' \<and> ec_status c' = RECONCILED_ACCEPTED
            \<and> vs_lookup_status truth = LK_VISIBLE \<and> vs_order truth = Some x \<and> order_agrees c x)
       \<or> (\<exists>c'. commands_get (ec_command_id c) later = Some c' \<and> ec_status c' = RECONCILED_ABSENT
            \<and> absence_proven c truth (rq_visibility_deadline_ms q)))"
proof -
  note r0 = assms(3)[unfolded recover_unknown_command_def assms(2) option.case]
  have kind: "ec_status c = OUTCOME_UNKNOWN" "ec_kind c \<noteq> SET_LEVERAGE" using r0 by (auto split: if_split_asm)
  note r1 = r0[unfolded if_not_P[OF iffD2[OF not_not kind(1)]] if_not_P[OF kind(2)]]
  obtain client_id where client: "ec_venue_client_order_id c = Some client_id"
    using r1 by (cases "ec_venue_client_order_id c") auto
  define truth where "truth = answered_truth (rq_now_ms q) (port (truth_request_of c client_id (rq_now_ms q)))"
  have dec: "decide_unknown_recovery c truth (rq_visibility_deadline_ms q) = Inr d"
    and rec: "s' = s \<or> record_recovery d q s = Inr s'"
    using r1 by (auto simp: client Let_def truth_def[symmetric] split: if_split_asm)
  have reach: "reachable_store s'" using rec reachable_steps[OF record_recovery_steps assms(1)] assms(1) by blast
  then have later: "reachable_store later" using reachable_steps[OF assms(4)] by blast
  have final: "\<exists>c'. commands_get (ec_command_id c) later = Some c' \<and> ec_status c' = st"
    if "settled_as (ec_command_id c) st (ks_commands s')" for st
    using settled_get[OF later settled_steps[OF assms(4) reach that]] .
  have "ks_commands s' = ks_commands s
       \<or> (\<exists>c' x. commands_get (ec_command_id c) later = Some c' \<and> ec_status c' = RECONCILED_ACCEPTED
            \<and> vs_lookup_status truth = LK_VISIBLE \<and> vs_order truth = Some x \<and> order_agrees c x)
       \<or> (\<exists>c'. commands_get (ec_command_id c) later = Some c' \<and> ec_status c' = RECONCILED_ABSENT
            \<and> absence_proven c truth (rq_visibility_deadline_ms q))"
    using rec
  proof
    assume "record_recovery d q s = Inr s'"
    from record_outcome[OF assms(1) this assms(2)] show ?thesis
      using final decided_submitted[OF dec] decided_absence[OF dec] decided_still_open[OF dec] by blast
  qed simp
  then show ?thesis using client later truth_def by blast
qed

text \<open>The demonstration ENTRY timed out, and the venue shows its order.\<close>

definition demo_unknown_result :: exchange_command_result where
  "demo_unknown_result = unresolved_result OUTCOME_UNKNOWN 1 ''venue_timeout''"

definition demo_unknown_command :: exchange_command where
  "demo_unknown_command = demo_command\<lparr>ec_status := OUTCOME_UNKNOWN\<rparr>"

definition demo_unknown :: kernel_store where
  "demo_unknown = demo_claimed\<lparr>ks_commands := [\<lparr>co_command = demo_unknown_command, co_result_payload = Some (OrderResult demo_unknown_result),
     co_claim_owner = Some ''w'', co_lease_until_ms = None, co_completed_at_ms = Some 1\<rparr>]\<rparr>"

definition demo_order :: venue_order_truth where
  "demo_order = \<lparr>vt_exchange_order_id = ''in'', vt_venue_client_order_id = the (ec_venue_client_order_id demo_command),
     vt_exchange_instrument_id = ''i'', vt_position_side = Long, vt_order_side = Buy, vt_quantity = 2, vt_reduce_only = False,
     vt_order_namespace = Regular, vt_is_open = True\<rparr>"

definition demo_truth :: venue_truth where
  "demo_truth = (failed_lookup 60 [])\<lparr>vs_lookup_status := LK_VISIBLE, vs_order := Some demo_order, vs_reason := None\<rparr>"

lemma demo_unknown_reachable: "reachable_store demo_unknown"
proof (rule reachable_store.step[OF demo_claimed_reachable])
  have "commands_record_result (ec_command_id demo_command) ''w'' demo_unknown_result demo_claimed = Inr demo_unknown"
    by (simp add: commands_record_result_def update_command_def update_one_def update_where_def rowcount_def demo_claimed_def
        demo_claimed_command_def complete_def set_status_def demo_unknown_def demo_unknown_command_def demo_unknown_result_def unresolved_result_def)
  moreover have "valid_command_result demo_unknown_result"
    by (simp add: demo_unknown_result_def unresolved_valid literal_non_blank)
  ultimately show "kernel_step demo_claimed demo_unknown" using worker_step.result kernel_step.worker by blast
qed

definition demo_recovery :: recovery_request where
  "demo_recovery = \<lparr>rq_command_id = ec_command_id demo_command, rq_now_ms = 60, rq_visibility_deadline_ms = 200, rq_timeout_seconds = 1\<rparr>"

definition demo_recovered :: kernel_store where
  "demo_recovered = demo_unknown\<lparr>
     ks_commands := [\<lparr>co_command = demo_command\<lparr>ec_status := RECONCILED_ACCEPTED\<rparr>,
       co_result_payload = Some (ReconciledAcceptedResult ''in'' 60), co_claim_owner = Some ''w'', co_lease_until_ms = None,
       co_completed_at_ms = Some 60\<rparr>],
     ks_aggregates := [demo_moved_on], ks_events := [issue_event demo_ct 1, demo_accepted 60]\<rparr>"

definition demo_decision :: unknown_recovery_decision where
  "demo_decision = \<lparr>ud_status = UR_RECONCILED_SUBMITTED, ud_observed_at_ms = 60, ud_exchange_order_id = Some ''in'', ud_reason = None\<rparr>"

lemma demo_unknown_get: "commands_get (ec_command_id demo_command) demo_unknown = Some demo_unknown_command"
  by (simp add: commands_get_def demo_unknown_def demo_unknown_command_def)

lemma demo_client_id: "\<exists>i. ec_venue_client_order_id demo_command = Some i"
proof -
  have "mk_exchange_command demo_command = Inr demo_command"
    using demo_command_sel(1) mk_exchange_command_facts(1) by (auto simp: entry_command_def)
  then show ?thesis
    using demo_command_sel(2) by (auto simp: mk_exchange_command_iff command_fields_ok_def payload_matches_kind_def split: option.splits)
qed

lemma demo_order_agrees: "order_agrees demo_unknown_command demo_order"
proof -
  obtain p where p: "ec_payload demo_command = OrderCommandPayload p" "op_quantity p = 2" "op_side p = Buy" "\<not> op_reduce_only p"
    using demo_command_sel(1) mk_exchange_command_facts(6)
    by (fastforce simp: entry_command_def mk_order_payload_iff plain_order_def demo_ct_sel demo_identity claim_ticket_def demo_claim_eval)
  then show ?thesis
    using demo_client_id
    by (auto simp: order_agrees_def demo_order_def demo_unknown_command_def demo_command_sel demo_identity)
qed

lemma demo_decides: "decide_unknown_recovery demo_unknown_command demo_truth 200 = Inr demo_decision"
proof -
  have "identity_contradiction demo_unknown_command demo_order = None" using demo_order_agrees by (simp add: identity_contradiction_None)
  then show ?thesis
    by (simp add: decide_unknown_recovery_def demo_truth_def failed_lookup_def demo_decision_def mk_recovery_decision_def)
      (simp add: demo_unknown_command_def demo_command_sel demo_command_times demo_order_def non_blank_def)
qed

lemma demo_recorded: "record_recovery demo_decision demo_recovery demo_unknown = Inr demo_recovered"
proof -
  let ?a = "new_aggregate demo_ct ENTRY_PENDING 1 1"
  have c: "ec_status demo_unknown_command = OUTCOME_UNKNOWN" "ec_kind demo_unknown_command = ENTRY" "command_ticket demo_unknown_command = ''t''"
      "ec_command_id demo_unknown_command = ec_command_id demo_command"
    by (simp_all add: demo_unknown_command_def demo_command_sel)
  have load: "aggregates_get ''t'' demo_unknown = Inr (Some ?a)"
    using demo_claimed_aggregate quiet_aggregate[of demo_claimed demo_unknown "''t''"] by (simp add: quiet_def demo_unknown_def)
  let ?s1 = "demo_unknown\<lparr>ks_commands := ks_commands demo_recovered\<rparr>"
  have settle: "settle_recovered demo_decision demo_unknown_command demo_unknown = Inr ?s1"
    by (simp add: settle_recovered_def demo_decision_def commands_reconcile_unknown_submitted_def update_command_def update_one_def
        update_where_def rowcount_def demo_unknown_def demo_recovered_def complete_def set_status_def demo_unknown_command_def py_str_def)
  have event: "recovery_event demo_unknown_command ?a demo_decision = Inr (demo_accepted 60)"
  proof -
    have "recovery_fact demo_unknown_command ?a demo_decision = Inr (EntryAccepted ''in'')"
      by (simp add: recovery_fact_def submitted_fact_def c demo_decision_def)
    moreover have "next_event ?a 60 (EntryAccepted ''in'') = Inr (demo_accepted 60)"
      using demo_accepted_valid[of 60] by (simp add: next_event_def Let_def demo_accepted_def new_aggregate_def demo_ct_sel)
    ultimately show ?thesis by (simp add: recovery_event_def) (simp add: demo_decision_def)
  qed
  have "commit_event ?a (demo_accepted 60) ?s1 = Inr demo_recovered"
    by (subst demo_accept_commits) (simp_all add: demo_unknown_def demo_claimed_sel demo_recovered_def)
  then show ?thesis
    by (simp add: record_recovery_def demo_recovery_def demo_unknown_get c required_aggregate_def load event settle)
      (simp add: demo_decision_def)
qed

lemma demo_recovered_reachable: "reachable_store demo_recovered"
  using reachable_steps[OF record_recovery_steps[OF demo_recorded] demo_unknown_reachable] .

lemma demo_recovers:
  "recover_unknown_command (\<lambda>r. TruthSnapshot demo_truth) (\<lambda>r. LeverageTruthException ''e'') demo_recovery demo_unknown
    = Inr (demo_recovered, RecoveredOrder demo_decision)"
proof -
  obtain client_id where client: "ec_venue_client_order_id demo_unknown_command = Some client_id"
    using demo_client_id by (auto simp: demo_unknown_command_def)
  have c: "ec_status demo_unknown_command = OUTCOME_UNKNOWN" "ec_kind demo_unknown_command = ENTRY"
    by (simp_all add: demo_unknown_command_def demo_command_sel)
  have "rq_command_id demo_recovery = ec_command_id demo_command" "rq_visibility_deadline_ms demo_recovery = 200"
    by (simp_all add: demo_recovery_def)
  then show ?thesis
    using demo_recorded
    by (simp add: recover_unknown_command_def demo_unknown_get c client demo_decides) (simp add: demo_decision_def)
qed

theorem recovery_rests_on_proof_witness:
  "reachable_store demo_unknown \<and> reachable_store demo_recovered
   \<and> (\<exists>c'. commands_get (ec_command_id demo_command) demo_recovered = Some c' \<and> ec_status c' = RECONCILED_ACCEPTED
        \<and> order_agrees demo_unknown_command demo_order)"
proof -
  have q: "rq_command_id demo_recovery = ec_command_id demo_command" by (simp add: demo_recovery_def)
  have ne: "ks_commands demo_recovered \<noteq> ks_commands demo_unknown"
    by (simp add: demo_recovered_def demo_unknown_def)
  have t: "answered_truth n (TruthSnapshot demo_truth) = demo_truth" "vs_lookup_status demo_truth = LK_VISIBLE" for n
    by (simp_all add: demo_truth_def)
  have not_absent: "\<not> absence_proven demo_unknown_command demo_truth dl" for dl
    by (simp add: absence_proven_def demo_truth_def) (simp add: demo_unknown_command_def demo_command_sel)
  show ?thesis
    using recovery_rests_on_proof[OF demo_unknown_reachable demo_unknown_get[folded q] demo_recovers rtranclp.rtrancl_refl] ne not_absent
      demo_unknown_reachable
    by (auto simp: t demo_unknown_command_def demo_truth_def)
qed

section \<open>A cancel whose target stays open\<close>

text \<open>The target of the cancel, as its lookup shows it.\<close>

definition open_target :: "exchange_command \<Rightarrow> cancel_payload \<Rightarrow> venue_order_truth \<Rightarrow> bool" where
  "open_target c p x \<longleftrightarrow> vt_is_open x \<and> vt_exchange_order_id x = cp_exchange_order_id p \<and> vt_order_namespace x = cp_order_namespace p
     \<and> vt_exchange_instrument_id x = nd_exchange_instrument_id (ti_netting_domain (ec_ticket_identity c))
     \<and> vt_position_side x = nd_position_side (ti_netting_domain (ec_ticket_identity c))"

text \<open>
  The cancel of an ENTRY remainder or of the old runner stop with an unknown outcome has no recovery while its
  target stays open: after the visibility deadline every recovery that sees the open target raises, so the command
  stays unknown and is the first one the reconciliation worker looks at next time.
\<close>

theorem still_open_cancel_not_recovered:
  assumes "commands_get (rq_command_id q) s = Some c" "ec_kind c = CANCEL_ORDER" "ec_payload c = CancelCommandPayload p"
    "cp_purpose p \<in> {entry_remainder, runner_old_stop}" "ec_venue_client_order_id c = Some client_id"
    "port (truth_request_of c client_id (rq_now_ms q)) = TruthSnapshot t"
    "vs_lookup_status t = LK_VISIBLE" "vs_order t = Some x" "open_target c p x" "rq_visibility_deadline_ms q \<le> vs_observed_at_ms t"
  shows "\<exists>e. recover_unknown_command port leverage_port q s = Inl e"
proof (cases "ec_status c = OUTCOME_UNKNOWN \<and> ec_created_at_ms c < rq_visibility_deadline_ms q")
  case True
  have "decide_unknown_recovery c t (rq_visibility_deadline_ms q) =
      recovery_decision UR_CANCEL_TARGET_STILL_OPEN t ''cancel_target_still_open_after_visibility_window''"
    using True assms(2,3,7-10) by (simp add: decide_unknown_recovery_def decide_cancel_recovery_def Let_def open_target_def)
  moreover obtain d where d: "recovery_decision UR_CANCEL_TARGET_STILL_OPEN t ''cancel_target_still_open_after_visibility_window'' = Inr d"
    by (auto simp: recovery_decision_def mk_recovery_decision_def Let_def non_blank_Cons py_isspace_def)
  moreover have st: "ud_status d = UR_CANCEL_TARGET_STILL_OPEN" using recovery_decision_sel[OF d] by simp
  moreover have "\<exists>e. record_recovery d q s = Inl e"
  proof (cases "record_recovery d q s")
    case (Inr s')
    from Inr assms(1) show ?thesis
    proof (cases rule: record_recoveryE)
      case (settled a e s1)
      then show ?thesis
        using assms(2-4) st by (auto simp: recovery_event_def recovery_fact_def still_open_fact_def)
    qed (simp add: st)
  qed simp
  ultimately show ?thesis using True assms(1,2,5,6) by (auto simp: recover_unknown_command_def Let_def)
next
  case False
  then show ?thesis using assms(1,2,5,6) by (auto simp: recover_unknown_command_def decide_unknown_recovery_def Let_def)
qed

definition demo_cancel :: exchange_command where
  "demo_cancel = demo_command\<lparr>ec_kind := CANCEL_ORDER, ec_status := OUTCOME_UNKNOWN, ec_venue_client_order_id := Some ''c'',
     ec_payload := CancelCommandPayload \<lparr>cp_exchange_order_id = ''in'', cp_order_namespace = Regular, cp_purpose = entry_remainder,
       cp_entry_vacuum_id = None\<rparr>\<rparr>"

theorem still_open_cancel_not_recovered_witness:
  "\<exists>s e. commands_get_one_unknown s = Some demo_cancel
    \<and> recover_unknown_command (\<lambda>r. TruthSnapshot (demo_truth\<lparr>vs_observed_at_ms := 300\<rparr>)) (\<lambda>r. LeverageTruthException ''e'')
        (demo_recovery\<lparr>rq_now_ms := 300\<rparr>) s = Inl e"
proof -
  let ?s = "demo_unknown\<lparr>ks_commands := [\<lparr>co_command = demo_cancel, co_result_payload = Some (OrderResult demo_unknown_result),
     co_claim_owner = Some ''w'', co_lease_until_ms = None, co_completed_at_ms = Some 1\<rparr>]\<rparr>"
  let ?q = "demo_recovery\<lparr>rq_now_ms := 300\<rparr>"
  have get: "commands_get (rq_command_id ?q) ?s = Some demo_cancel"
    by (simp add: commands_get_def demo_recovery_def demo_cancel_def)
  have one: "commands_get_one_unknown ?s = Some demo_cancel"
    by (simp add: commands_get_one_unknown_def first_command_def order_rows_def commands_get_def) (simp add: demo_cancel_def)
  have "\<exists>e. recover_unknown_command (\<lambda>r. TruthSnapshot (demo_truth\<lparr>vs_observed_at_ms := 300\<rparr>)) (\<lambda>r. LeverageTruthException ''e'') ?q ?s = Inl e"
    by (rule still_open_cancel_not_recovered[OF get, where p = "\<lparr>cp_exchange_order_id = ''in'', cp_order_namespace = Regular,
          cp_purpose = entry_remainder, cp_entry_vacuum_id = None\<rparr>" and x = demo_order and client_id = "''c''"
          and t = "demo_truth\<lparr>vs_observed_at_ms := 300\<rparr>"])
      (simp_all add: demo_cancel_def demo_truth_def open_target_def demo_order_def demo_command_sel demo_identity demo_recovery_def)
  then show ?thesis using one by blast
qed

end
