(* ===== verification/Positions.thy ===== *)
theory Positions
  imports Kernel_Store
begin

text \<open>
  \<open>domain/position.py\<close>: the position and the open orders of one netting domain as the venue shows them, and the
  tables of the latest observations (\<open>PostgresPositionRepository\<close>, the instrument rules of
  \<open>infrastructure/pg_signal_repository.py\<close>), which keep one row per key and count its versions.
\<close>

section \<open>Snapshots\<close>

record venue_order_snapshot =
  os_exchange_order_id :: string
  os_venue_client_order_id :: "string option"
  os_position_side :: position_side
  os_reduce_only :: bool
  os_order_namespace :: order_namespace

datatype liquidation_observation = LO_VALID | LO_MISSING | LO_INVALID

record position_snapshot =
  px_netting_domain :: netting_domain
  px_quantity :: decimal
  px_average_entry_price :: "decimal option"
  px_liquidation_price :: "decimal option"
  px_liquidation_status :: liquidation_observation
  px_open_orders :: "venue_order_snapshot list"
  px_observed_at_ms :: int

text \<open>A status that is not given follows from the price.\<close>

definition default_liquidation_status :: "decimal option \<Rightarrow> liquidation_observation option \<Rightarrow> liquidation_observation" where
  "default_liquidation_status price status =
     (case status of Some s \<Rightarrow> s | None \<Rightarrow> if price \<noteq> None then LO_VALID else LO_MISSING)"

definition valid_venue_order :: "venue_order_snapshot \<Rightarrow> bool" where
  "valid_venue_order x \<longleftrightarrow> py_strip (os_exchange_order_id x) = os_exchange_order_id x \<and> os_exchange_order_id x \<noteq> []"

definition valid_position_snapshot :: "position_snapshot \<Rightarrow> bool" where
  "valid_position_snapshot p \<longleftrightarrow>
     0 \<le> px_quantity p \<and> 0 < px_observed_at_ms p \<and> list_all valid_venue_order (px_open_orders p)
     \<and> (if 0 < px_quantity p
        then (case px_average_entry_price p of None \<Rightarrow> False | Some price \<Rightarrow> 0 < price)
        else px_average_entry_price p = None \<and> px_liquidation_price p = None)
     \<and> (case px_liquidation_price p of None \<Rightarrow> True | Some price \<Rightarrow> 0 \<le> price)
     \<and> (px_liquidation_status p = LO_VALID) = (px_liquidation_price p \<noteq> None)"

section \<open>Latest observations\<close>

text \<open>
  \<open>SELECT projection_version \<dots> FOR UPDATE\<close>, then an insert with version one or an update with the next version.
  \<open>here\<close> selects the row of the key and \<open>next_row\<close> builds its next content.
\<close>

definition upsert_row :: "('r \<Rightarrow> bool) \<Rightarrow> ('r option \<Rightarrow> 'r) \<Rightarrow> 'r list \<Rightarrow> 'r list" where
  "upsert_row here next_row rows =
     (case List.find here rows of
        None \<Rightarrow> rows @ [next_row None]
      | Some current \<Rightarrow> update_where here (\<lambda>_. next_row (Some current)) rows)"

text \<open>The columns of a position row; the open orders are not stored.\<close>

record position_row =
  pt_ticket_id :: "string option"
  pt_snapshot :: position_snapshot
  pt_projection_version :: int

abbreviation position_key :: "position_row \<Rightarrow> string" where
  "position_key r \<equiv> netting_domain_key (px_netting_domain (pt_snapshot r))"

definition positions_upsert :: "string \<Rightarrow> position_snapshot \<Rightarrow> position_row list \<Rightarrow> position_row list" where
  "positions_upsert ticket_id p =
     upsert_row (\<lambda>r. position_key r = netting_domain_key (px_netting_domain p))
       (\<lambda>current. \<lparr>pt_ticket_id = (if 0 < px_quantity p then Some ticket_id else None),
          pt_snapshot = p\<lparr>px_open_orders := []\<rparr>,
          pt_projection_version = (case current of None \<Rightarrow> 1 | Some r \<Rightarrow> pt_projection_version r + 1)\<rparr>)"

definition positions_get :: "string \<Rightarrow> position_row list \<Rightarrow> position_snapshot option" where
  "positions_get key rows = map_option pt_snapshot (List.find (\<lambda>r. position_key r = key) rows)"

text \<open>The instrument rules certified last, by venue and instrument.\<close>

definition rules_at :: "string \<Rightarrow> string \<Rightarrow> instrument_rules \<Rightarrow> bool" where
  "rules_at venue_id instrument_id r \<longleftrightarrow> ir_venue_id r = venue_id \<and> ir_exchange_instrument_id r = instrument_id"

definition get_instrument_rules :: "string \<Rightarrow> string \<Rightarrow> instrument_rules list \<Rightarrow> instrument_rules option" where
  "get_instrument_rules venue_id instrument_id = List.find (rules_at venue_id instrument_id)"

text \<open>\<open>ir_projection_version\<close> of the argument is not read.\<close>

definition upsert_instrument_rules :: "instrument_rules \<Rightarrow> instrument_rules list \<Rightarrow> instrument_rules list" where
  "upsert_instrument_rules rules =
     upsert_row (rules_at (ir_venue_id rules) (ir_exchange_instrument_id rules))
       (\<lambda>current. rules\<lparr>ir_projection_version := (case current of None \<Rightarrow> 1 | Some r \<Rightarrow> ir_projection_version r + 1)\<rparr>)"

section \<open>The contract of an upsert\<close>

text \<open>What a table of latest observations promises: the key reads back what was written, no other key changes.\<close>

locale latest_table =
  fixes here :: "'k \<Rightarrow> 'r \<Rightarrow> bool"
    and key :: "'v \<Rightarrow> 'k"
    and next_row :: "'v \<Rightarrow> 'r option \<Rightarrow> 'r"
  assumes written_at: "here k (next_row v current) \<longleftrightarrow> k = key v"
    and one_key: "here k r \<Longrightarrow> here k' r \<Longrightarrow> k = k'"
begin

lemma find_upsert:
  "List.find (here k) (upsert_row (here (key v)) (next_row v) rows)
     = (if k = key v then Some (next_row v (List.find (here k) rows)) else List.find (here k) rows)"
proof (cases "List.find (here (key v)) rows")
  case None
  have "List.find (here k) (rows @ [next_row v None]) = (case List.find (here k) rows of None \<Rightarrow> if k = key v then Some (next_row v None) else None | x \<Rightarrow> x)"
    by (induction rows) (auto simp: written_at)
  then show ?thesis using None by (auto simp: upsert_row_def split: option.split)
next
  case (Some r)
  have "List.find (here k) (map (\<lambda>x. if here (key v) x then next_row v (Some r) else x) rows)
      = (if k = key v then map_option (\<lambda>_. next_row v (Some r)) (List.find (here k) rows) else List.find (here k) rows)"
    using one_key by (induction rows) (auto simp: written_at)
  then show ?thesis using Some by (simp add: upsert_row_def update_where_def)
qed

end

interpretation position_table: latest_table "\<lambda>k r. position_key r = k" "\<lambda>v. netting_domain_key (px_netting_domain (snd v))"
  "\<lambda>v current. \<lparr>pt_ticket_id = (if 0 < px_quantity (snd v) then Some (fst v) else None),
     pt_snapshot = (snd v)\<lparr>px_open_orders := []\<rparr>,
     pt_projection_version = (case current of None \<Rightarrow> 1 | Some r \<Rightarrow> pt_projection_version r + 1)\<rparr>"
  by unfold_locales auto

interpretation rules_table: latest_table "\<lambda>k. rules_at (fst k) (snd k)" "\<lambda>v. (ir_venue_id v, ir_exchange_instrument_id v)"
  "\<lambda>rules current. rules\<lparr>ir_projection_version := (case current of None \<Rightarrow> 1 | Some r \<Rightarrow> ir_projection_version r + 1)\<rparr>"
  by unfold_locales (auto simp: rules_at_def)

lemma positions_get_upsert:
  "positions_get key (positions_upsert t p rows) =
     (if key = netting_domain_key (px_netting_domain p) then Some (p\<lparr>px_open_orders := []\<rparr>) else positions_get key rows)"
  using position_table.find_upsert[of key "(t, p)" rows] by (auto simp: positions_get_def positions_upsert_def)

lemma rules_get_upsert:
  "get_instrument_rules venue_id instrument_id (upsert_instrument_rules rules table) =
     (if venue_id = ir_venue_id rules \<and> instrument_id = ir_exchange_instrument_id rules
      then Some (rules\<lparr>ir_projection_version := (case get_instrument_rules venue_id instrument_id table of
             None \<Rightarrow> 1 | Some r \<Rightarrow> ir_projection_version r + 1)\<rparr>)
      else get_instrument_rules venue_id instrument_id table)"
  using rules_table.find_upsert[of "(venue_id, instrument_id)" rules table]
  by (auto simp: get_instrument_rules_def upsert_instrument_rules_def)

end
