(* ===== verification/Reconcile_Ticket.thy ===== *)
theory Reconcile_Ticket
  imports Positions Dispatch
begin

text \<open>
  \<open>application/reconcile_ticket.py\<close>: one Ticket against one snapshot of its netting domain, the post-fill stress
  decision with its retries, and the request of an exit. Each operation is one transaction over the kernel store and
  the tables of latest observations. The due times written by a retry are scheduling columns and are not kept.
\<close>

record trading_store =
  td_kernel :: kernel_store
  td_positions :: "position_row list"
  td_rules :: "instrument_rules list"

section \<open>Requests and results\<close>

datatype reconcile_status =
    RT_NO_CHANGE | RT_LATE_FILL_INCIDENT | RT_ENTRY_FILL_RECORDED | RT_PARTIAL_FILL_INCIDENT | RT_EXTERNAL_FLAT_INCIDENT
  | RT_POSITION_FLAT_RECORDED | RT_PROTECTION_RESIDUE | RT_CANCEL_ABSENCE_RECORDED | RT_OWNED_ORPHAN_CANCEL_REQUESTED
  | RT_UNOWNED_ORDER_INCIDENT | RT_MATCHED

datatype stress_reconcile_status = PS_PASSED | PS_FAILED | PS_FACTS_UNAVAILABLE | PS_FACTS_CONTRADICTORY | PS_NO_CHANGE

fun stress_reconcile_value :: "stress_reconcile_status \<Rightarrow> string" where
  "stress_reconcile_value PS_PASSED = ''passed''"
| "stress_reconcile_value PS_FAILED = ''failed''"
| "stress_reconcile_value PS_FACTS_UNAVAILABLE = ''facts_unavailable''"
| "stress_reconcile_value PS_FACTS_CONTRADICTORY = ''facts_contradictory''"
| "stress_reconcile_value PS_NO_CHANGE = ''no_change''"

record reconcile_request =
  qr_ticket_id :: string
  qr_snapshot :: position_snapshot

record exit_request =
  xr_ticket_id :: string
  xr_reason :: string
  xr_requested_at_ms :: int

definition mk_exit_request :: "exit_request \<Rightarrow> exit_request result" where
  "mk_exit_request q =
     (if non_blank (xr_reason q) then Inr (q\<lparr>xr_reason := py_strip (xr_reason q)\<rparr>) else Inl ValidationError)"

record stress_reconcile_request =
  sq_ticket_id :: string
  sq_account_snapshot :: account_risk_snapshot
  sq_instrument_rules :: instrument_rules_facts
  sq_assessed_at_ms :: int

section \<open>Shared steps\<close>

definition existing_aggregate :: "string \<Rightarrow> kernel_store \<Rightarrow> trade_aggregate result" where
  "existing_aggregate ticket_id s =
     bind_result (aggregates_get ticket_id s) (\<lambda>a.
       case a of None \<Rightarrow> Inl (ValueError ''Ticket aggregate does not exist'') | Some x \<Rightarrow> Inr x)"

text \<open>The next event of an aggregate, reduced and committed.\<close>

definition commit_fact :: "trade_aggregate \<Rightarrow> int \<Rightarrow> lifecycle_fact \<Rightarrow> kernel_store \<Rightarrow> kernel_store result" where
  "commit_fact a occurred_at_ms f s = bind_result (next_event a occurred_at_ms f) (\<lambda>e. commit_event a e s)"

definition required_average_entry_price :: "position_snapshot \<Rightarrow> decimal result" where
  "required_average_entry_price p =
     (case px_average_entry_price p of
        None \<Rightarrow> Inl (RuntimeError ''open position snapshot lacks average entry price'') | Some price \<Rightarrow> Inr price)"

definition venue_liquidation_observation_code :: "position_snapshot \<Rightarrow> string" where
  "venue_liquidation_observation_code p =
     (if px_liquidation_status p = LO_INVALID then ''venue_liquidation_observation_invalid''
      else if px_liquidation_status p = LO_MISSING then ''venue_liquidation_observation_unavailable''
      else if px_liquidation_price p = Some 0 then ''venue_liquidation_observation_zero''
      else (case (px_liquidation_price p, px_average_entry_price p) of
        (Some price, Some average) \<Rightarrow>
          if (nd_position_side (px_netting_domain p) = Long \<and> average \<le> price)
             \<or> (nd_position_side (px_netting_domain p) = Short \<and> price \<le> average)
          then ''venue_liquidation_observation_not_side_directional'' else ''venue_liquidation_observation_observed''
      | _ \<Rightarrow> ''venue_liquidation_observation_observed''))"

definition liquidation_monitor :: "string \<Rightarrow> position_snapshot \<Rightarrow> monitor_row" where
  "liquidation_monitor ticket_id p =
     \<lparr>mo_monitor_key = ''venue-liquidation-observation:'' @ ticket_id, mo_owner_status = RUNNING,
      mo_summary = ''Venue liquidation observation is audit-only: '' @ venue_liquidation_observation_code p,
      mo_intervention = ''none'', mo_ticket_id = Some ticket_id, mo_incident_id = None,
      mo_updated_at_ms = px_observed_at_ms p, mo_projection_version = 0\<rparr>"

definition is_kernel_owned_order :: "venue_order_snapshot \<Rightarrow> bool" where
  "is_kernel_owned_order x =
     py_startswith (case os_venue_client_order_id x of None \<Rightarrow> [] | Some i \<Rightarrow> i) ''brc-''"

definition has_cancel_attempt :: "exchange_command list \<Rightarrow> string \<Rightarrow> bool" where
  "has_cancel_attempt commands order_id =
     list_ex (\<lambda>c. ec_status c \<in> {PREPARED, CLAIMED, ACCEPTED, OUTCOME_UNKNOWN}
       \<and> (case ec_payload c of CancelCommandPayload p \<Rightarrow> cp_exchange_order_id p = order_id | _ \<Rightarrow> False)) commands"

text \<open>The first of the take-profit, active stop and initial stop orders; the removal of duplicates keeps it.\<close>

definition next_known_cleanup_order_id :: "trade_aggregate \<Rightarrow> string option" where
  "next_known_cleanup_order_id a =
     (case List.find (\<lambda>i. i \<noteq> None)
        [ag_tp1_exchange_order_id a, ag_active_stop_exchange_order_id a, ag_initial_stop_exchange_order_id a] of
        None \<Rightarrow> None | Some i \<Rightarrow> i)"

text \<open>\<open>incidents.get_open_for_ticket\<close> and \<open>aggregates.schedule_next_check\<close>.\<close>

definition incidents_get_open_for_ticket :: "string \<Rightarrow> kernel_store \<Rightarrow> incident_row option" where
  "incidents_get_open_for_ticket ticket_id s =
     newest_incident (filter (\<lambda>r. in_ticket_id r = Some ticket_id \<and> in_status r = ''open'') (ks_incidents s))"

definition schedule_next_check :: "string \<Rightarrow> int \<Rightarrow> kernel_store \<Rightarrow> kernel_store result" where
  "schedule_next_check ticket_id due_at_ms s =
     (if due_at_ms \<le> 0 then Inl (ValueError ''aggregate next-check time must be positive'')
      else if rowcount (\<lambda>a. agg_ticket_id a = ticket_id) (ks_aggregates s) \<noteq> 1
      then Inl (AggregateVersionConflict ''aggregate missing during reschedule'')
      else Inr s)"

section \<open>What a snapshot says of a Ticket\<close>

text \<open>ENTRY accepted: a complete fill with its risk, or a partial one.\<close>

definition filled_fact :: "trade_aggregate \<Rightarrow> position_snapshot \<Rightarrow> lifecycle_fact result" where
  "filled_fact a p =
     bind_result (required_average_entry_price p) (\<lambda>price.
       let request = \<lparr>pr_position_side = nd_position_side (agg_domain a), pr_filled_quantity = px_quantity p,
             pr_average_fill_price = price, pr_initial_stop_price = tk_initial_stop_price (ag_ticket a),
             pr_planned_stop_risk_budget = tk_planned_stop_risk_budget (ag_ticket a),
             pr_post_fill_stop_risk_limit = tk_post_fill_stop_risk_limit (ag_ticket a)\<rparr>
       in if \<not> valid_post_fill_request request then Inl ValidationError
          else Inr (EntryFilled \<lparr>ef_filled_qty = px_quantity p, ef_average_fill_price = price,
                 ef_post_fill_risk = assess_post_fill_risk request,
                 ef_venue_reported_liquidation_price = px_liquidation_price p,
                 ef_position_observed_at_ms = px_observed_at_ms p\<rparr>))"

definition entry_accepted_fact ::
  "trade_aggregate \<Rightarrow> position_snapshot \<Rightarrow> (reconcile_status \<times> lifecycle_fact option) result" where
  "entry_accepted_fact a p =
     (if px_quantity p = tk_quantity (ag_ticket a)
      then bind_result (filled_fact a p) (\<lambda>f. Inr (RT_ENTRY_FILL_RECORDED, Some f))
      else if 0 < px_quantity p \<and> px_quantity p < tk_quantity (ag_ticket a)
      then bind_result (required_average_entry_price p) (\<lambda>price.
             Inr (RT_PARTIAL_FILL_INCIDENT, Some (EntryPartiallyFilled (px_quantity p) (tk_quantity (ag_ticket a)) price)))
      else Inr (RT_NO_CHANGE, None))"

definition exiting_statuses :: "aggregate_status list" where
  "exiting_statuses =
     [EXIT_PENDING, EXIT_ACCEPTED, EXIT_REJECTED, EXIT_OUTCOME_UNKNOWN, CONTROLLED_FLATTEN_PENDING,
      CONTROLLED_FLATTEN_ACCEPTED, CONTROLLED_FLATTEN_REJECTED, CONTROLLED_FLATTEN_OUTCOME_UNKNOWN]"

definition open_position_statuses :: "aggregate_status list" where
  "open_position_statuses =
     [TP1_PENDING, TP1_REJECTED, TP1_OUTCOME_UNKNOWN, POST_FILL_RISK_PENDING, POSITION_PROTECTED,
      RUNNER_REPLACEMENT_PENDING, RUNNER_REPLACEMENT_REJECTED, RUNNER_REPLACEMENT_OUTCOME_UNKNOWN,
      RUNNER_OLD_STOP_CANCEL_PENDING, RUNNER_OLD_STOP_CANCEL_REJECTED, RUNNER_OLD_STOP_CANCEL_OUTCOME_UNKNOWN,
      RUNNER_PROTECTED]"

text \<open>An open order of the Ticket is cancelled unless an earlier cancel of it may still succeed.\<close>

definition orphan_cancel ::
  "trade_aggregate \<Rightarrow> string \<Rightarrow> order_namespace \<Rightarrow> kernel_store \<Rightarrow> reconcile_status \<times> lifecycle_fact option" where
  "orphan_cancel a order_id namespace s =
     (if has_cancel_attempt (commands_list_for_ticket (agg_ticket_id a) s) order_id then (RT_PROTECTION_RESIDUE, None)
      else (RT_OWNED_ORPHAN_CANCEL_REQUESTED, Some (OwnedOrphanOrderDetected order_id namespace)))"

definition reconciling_fact ::
  "trade_aggregate \<Rightarrow> position_snapshot \<Rightarrow> kernel_store \<Rightarrow> reconcile_status \<times> lifecycle_fact option" where
  "reconciling_fact a p s =
     (if ag_pending_cancel_exchange_order_id a \<noteq> None then (RT_PROTECTION_RESIDUE, None)
      else case List.find (\<lambda>x. \<not> is_kernel_owned_order x) (px_open_orders p) of
        Some unowned \<Rightarrow>
          (RT_UNOWNED_ORDER_INCIDENT,
           case incidents_get_open_for_ticket (agg_ticket_id a) s of
             Some i \<Rightarrow> if in_incident_kind i = ''unowned_open_order'' then None
                       else Some (UnownedOrderDetected (os_exchange_order_id unowned))
           | None \<Rightarrow> Some (UnownedOrderDetected (os_exchange_order_id unowned)))
      | None \<Rightarrow>
          (case next_known_cleanup_order_id a of
             Some known \<Rightarrow>
               if \<not> list_ex (\<lambda>x. os_exchange_order_id x = known) (px_open_orders p)
               then (RT_CANCEL_ABSENCE_RECORDED, Some (OwnedOrderAbsenceConfirmed known))
               else orphan_cancel a known Conditional s
           | None \<Rightarrow>
               (case px_open_orders p of
                  x # _ \<Rightarrow> orphan_cancel a (os_exchange_order_id x) (os_order_namespace x) s
                | [] \<Rightarrow> if px_quantity p = 0 then (RT_MATCHED, Some (ReconciliationMatched None))
                        else (RT_NO_CHANGE, None))))"

text \<open>A cancel that was rejected or whose outcome is unknown.\<close>

definition cancel_recovery_fact ::
  "trade_aggregate \<Rightarrow> position_snapshot \<Rightarrow> (reconcile_status \<times> lifecycle_fact option) result" where
  "cancel_recovery_fact a p =
     (case ag_pending_cancel_exchange_order_id a of
        None \<Rightarrow> Inl (RuntimeError ''cancel recovery state has no exact order identity'')
      | Some target \<Rightarrow>
          (case List.find (\<lambda>x. os_exchange_order_id x = target) (px_open_orders p) of
             Some x \<Rightarrow>
               if ag_status a = CANCEL_OUTCOME_UNKNOWN then Inr (RT_PROTECTION_RESIDUE, None)
               else Inr (RT_OWNED_ORPHAN_CANCEL_REQUESTED, Some (OwnedOrphanOrderDetected target (os_order_namespace x)))
           | None \<Rightarrow> Inr (RT_CANCEL_ABSENCE_RECORDED, Some (CancelOrderAbsenceConfirmed target))))"

definition reconcile_fact ::
  "trade_aggregate \<Rightarrow> position_snapshot \<Rightarrow> kernel_store \<Rightarrow> (reconcile_status \<times> lifecycle_fact option) result" where
  "reconcile_fact a p s =
     (if ag_status a = ENTRY_ACCEPTED then entry_accepted_fact a p
      else if ag_status a \<in> set exiting_statuses \<and> px_quantity p = 0
      then Inr (RT_POSITION_FLAT_RECORDED, Some PositionFlatConfirmed)
      else if ag_status a \<in> set open_position_statuses \<and> px_quantity p = 0
      then Inr (RT_EXTERNAL_FLAT_INCIDENT, Some ExternalFlatDetected)
      else if ag_status a = RECONCILIATION_PENDING then Inr (reconciling_fact a p s)
      else if ag_status a \<in> {CANCEL_REJECTED, CANCEL_OUTCOME_UNKNOWN} then cancel_recovery_fact a p
      else Inr (RT_NO_CHANGE, None))"

section \<open>Reconciling a Ticket\<close>

text \<open>An incident that fences the account; its identity is the Ticket and the kind.\<close>

definition fence_id :: "string \<Rightarrow> string \<Rightarrow> string" where
  "fence_id ticket_id kind = ''incident:'' @ ticket_id @ '':'' @ kind"

definition fence_account ::
  "string \<Rightarrow> trade_aggregate \<Rightarrow> string \<Rightarrow> string option \<Rightarrow> int \<Rightarrow> kernel_store \<Rightarrow> kernel_store result" where
  "fence_account ticket_id a kind instrument_id opened_at_ms s =
     (let domain = agg_domain a
      in bind_result (canonical_entry_block_key ACCOUNT_CAPACITY (nd_venue_id domain) (nd_account_id domain) instrument_id)
           (\<lambda>key. incidents_add
             \<lparr>in_incident_id = fence_id ticket_id kind, in_ticket_id = Some ticket_id,
              in_incident_kind = kind, in_status = ''open'', in_first_blocker = kind,
              in_entry_block_scope = ACCOUNT_CAPACITY, in_entry_block_key = key, in_event_id = [],
              in_opened_at_ms = opened_at_ms, in_resolved_at_ms = None\<rparr> s))"

definition late_fill_kind :: string where
  "late_fill_kind = ''late_fill_after_entry_absence''"

definition record_late_fill_incident ::
  "trade_aggregate \<Rightarrow> position_snapshot \<Rightarrow> kernel_store \<Rightarrow> kernel_store result" where
  "record_late_fill_incident a p s =
     (let ticket_id = agg_ticket_id a
      in bind_result
           (case incidents_get_open_for_ticket_kind ticket_id late_fill_kind s of
              Some _ \<Rightarrow> Inr s
            | None \<Rightarrow> fence_account ticket_id a late_fill_kind None (px_observed_at_ms p) s)
           (\<lambda>s1. Inr (monitors_save_if_changed
             \<lparr>mo_monitor_key = ''late-fill:'' @ ticket_id, mo_owner_status = NEEDS_INTERVENTION,
              mo_summary = ''Positive venue position after terminal zero-fill ENTRY closure'',
              mo_intervention = ''Account ENTRY fenced; exact exposure requires controlled recovery'',
              mo_ticket_id = Some ticket_id, mo_incident_id = Some (fence_id ticket_id late_fill_kind),
              mo_updated_at_ms = px_observed_at_ms p, mo_projection_version = 0\<rparr> s1)))"

definition observe_position :: "string \<Rightarrow> position_snapshot \<Rightarrow> trading_store \<Rightarrow> trading_store" where
  "observe_position ticket_id p d =
     d\<lparr>td_positions := positions_upsert ticket_id p (td_positions d),
       td_kernel := monitors_save_if_changed (liquidation_monitor ticket_id p) (td_kernel d)\<rparr>"

definition reconcile_ticket :: "reconcile_request \<Rightarrow> trading_store \<Rightarrow> (trading_store \<times> reconcile_status) result" where
  "reconcile_ticket q d =
     (let p = qr_snapshot q; key = netting_domain_key (px_netting_domain p)
      in bind_result (existing_aggregate (qr_ticket_id q) (td_kernel d)) (\<lambda>a.
         if px_netting_domain p \<noteq> agg_domain a then Inl (ValueError ''position snapshot Netting Domain mismatch'')
         else if ag_status a = ENTRY_RECONCILED_ABSENT \<and> 0 < px_quantity p
         then (if (case positions_get key (td_positions d) of None \<Rightarrow> False
                   | Some latest \<Rightarrow> px_observed_at_ms p < px_observed_at_ms latest)
               then Inr (d, RT_NO_CHANGE)
               else bind_result (record_late_fill_incident a p (td_kernel d))
                      (\<lambda>s. Inr (d\<lparr>td_kernel := s\<rparr>, RT_LATE_FILL_INCIDENT)))
         else let d1 = observe_position (qr_ticket_id q) p d
              in bind_result (reconcile_fact a p (td_kernel d1)) (\<lambda>(status, f).
                   case f of
                     None \<Rightarrow> Inr (d1, status)
                   | Some x \<Rightarrow> bind_result (commit_fact a (px_observed_at_ms p) x (td_kernel d1))
                                 (\<lambda>s. Inr (d1\<lparr>td_kernel := s\<rparr>, status)))))"

definition request_exit :: "exit_request \<Rightarrow> kernel_store \<Rightarrow> kernel_store result" where
  "request_exit q s =
     bind_result (existing_aggregate (xr_ticket_id q) s) (\<lambda>a.
       commit_fact a (xr_requested_at_ms q) (ExitRequested (xr_reason q)) s)"

section \<open>Post-fill stress\<close>

definition stress_facts_current :: "stress_reconcile_request \<Rightarrow> bool" where
  "stress_facts_current q \<longleftrightarrow>
     (let account = sq_account_snapshot q; rules = sq_instrument_rules q; now = sq_assessed_at_ms q
      in \<not> (now < as_observed_at_ms account \<or> as_valid_until_ms account \<le> now
            \<or> now < rf_observed_at_ms rules \<or> rf_valid_until_ms rules \<le> now))"

definition stress_facts_contradict :: "netting_domain \<Rightarrow> stress_reconcile_request \<Rightarrow> instrument_rules \<Rightarrow> bool" where
  "stress_facts_contradict domain q certified \<longleftrightarrow>
     (let account = sq_account_snapshot q; rules = sq_instrument_rules q
      in as_venue_id account \<noteq> nd_venue_id domain \<or> as_account_id account \<noteq> nd_account_id domain
         \<or> as_exchange_instrument_id account \<noteq> nd_exchange_instrument_id domain
         \<or> rf_exchange_instrument_id rules \<noteq> nd_exchange_instrument_id domain
         \<or> rf_maintenance_margin_brackets_digest rules \<noteq> ir_maintenance_margin_brackets_digest certified
         \<or> rf_notional_coefficient rules \<noteq> ir_notional_coefficient certified
         \<or> rf_notional_coefficient_certified rules \<noteq> ir_notional_coefficient_certified certified)"

definition target_positions :: "netting_domain \<Rightarrow> account_risk_snapshot \<Rightarrow> account_risk_position list" where
  "target_positions domain account =
     filter (\<lambda>x. ap_exchange_instrument_id x = nd_exchange_instrument_id domain) (as_account_positions account)"

text \<open>The position of the Ticket's side is the one the Ticket recorded.\<close>

definition exposure_matches :: "trade_aggregate \<Rightarrow> account_risk_snapshot \<Rightarrow> bool" where
  "exposure_matches a account =
     (case List.find (\<lambda>x. ap_position_side x = nd_position_side (agg_domain a)) (target_positions (agg_domain a) account) of
        None \<Rightarrow> False
      | Some x \<Rightarrow> ap_quantity x = ag_position_qty a \<and> Some (ap_average_entry_price x) = ag_average_fill_price a)"

definition refreshed_rules :: "netting_domain \<Rightarrow> stress_reconcile_request \<Rightarrow> instrument_rules \<Rightarrow> instrument_rules list \<Rightarrow> instrument_rules list" where
  "refreshed_rules domain q certified table =
     (let rules = sq_instrument_rules q
      in if ir_valid_until_ms certified \<le> sq_assessed_at_ms q
         then upsert_instrument_rules
           \<lparr>ir_venue_id = nd_venue_id domain, ir_exchange_instrument_id = rf_exchange_instrument_id rules,
            ir_quantity_step = rf_quantity_step rules, ir_price_tick = rf_price_tick rules,
            ir_min_quantity = rf_min_quantity rules, ir_min_notional = rf_min_notional rules,
            ir_exchange_max_leverage = rf_exchange_max_leverage rules,
            ir_maintenance_margin_brackets = rf_maintenance_margin_brackets rules,
            ir_maintenance_margin_brackets_digest = rf_maintenance_margin_brackets_digest rules,
            ir_notional_coefficient = rf_notional_coefficient rules,
            ir_notional_coefficient_certified = rf_notional_coefficient_certified rules, ir_projection_version = 0,
            ir_observed_at_ms = rf_observed_at_ms rules, ir_valid_until_ms = rf_valid_until_ms rules\<rparr> table
         else table)"

definition post_fill_stress_request :: "trade_aggregate \<Rightarrow> stress_reconcile_request \<Rightarrow> stress_request result" where
  "post_fill_stress_request a q =
     (case ag_average_fill_price a of
        None \<Rightarrow> Inl AssertionError
      | Some price \<Rightarrow>
          let account = sq_account_snapshot q; rules = sq_instrument_rules q
          in mk_stress_request
               \<lparr>sr_account_snapshot = account, sr_maintenance_margin_brackets = rf_maintenance_margin_brackets rules,
                sr_maintenance_margin_brackets_digest = rf_maintenance_margin_brackets_digest rules,
                sr_notional_coefficient = rf_notional_coefficient rules,
                sr_notional_coefficient_certified = rf_notional_coefficient_certified rules,
                sr_evaluated_side = nd_position_side (agg_domain a), sr_reference_entry_price = price,
                sr_initial_stop_price = tk_initial_stop_price (ag_ticket a),
                sr_post_stop_stress_multiple = tk_post_stop_stress_multiple (ag_ticket a),
                sr_projected_instrument_positions =
                  map (\<lambda>x. \<lparr>sp_position_side = ap_position_side x, sp_quantity = ap_quantity x,
                            sp_average_entry_price = ap_average_entry_price x\<rparr>)
                    (target_positions (agg_domain a) account)\<rparr>)"

definition assessed_fact :: "trade_aggregate \<Rightarrow> stress_evidence \<Rightarrow> lifecycle_fact result" where
  "assessed_fact a e =
     (case (ag_average_fill_price a, ag_initial_stop_exchange_order_id a) of
        (Some price, Some stop_id) \<Rightarrow> Inr (PostFillStressAssessed
          \<lparr>ps_status = (if sf_status (se_proof e) = PASSED then stress_passed else stress_failed), ps_evidence = e,
           ps_owner_policy_id = tk_owner_policy_id (ag_ticket a),
           ps_owner_policy_version = tk_owner_policy_version (ag_ticket a), ps_filled_qty = ag_position_qty a,
           ps_average_fill_price = price, ps_initial_stop_price = tk_initial_stop_price (ag_ticket a),
           ps_initial_stop_exchange_order_id = stop_id\<rparr>)
      | _ \<Rightarrow> Inl AssertionError)"

definition facts_unavailable_kind :: string where
  "facts_unavailable_kind = ''post_fill_risk_facts_unavailable''"

definition facts_contradictory_kind :: string where
  "facts_contradictory_kind = ''post_fill_risk_facts_contradictory''"

definition resolve_open_kind :: "string \<Rightarrow> string \<Rightarrow> int \<Rightarrow> kernel_store \<Rightarrow> kernel_store" where
  "resolve_open_kind ticket_id kind now_ms s =
     (case incidents_get_open_for_ticket_kind ticket_id kind s of
        None \<Rightarrow> s | Some i \<Rightarrow> incidents_resolve (in_incident_id i) now_ms s)"

definition resolve_post_fill_retry_incidents :: "string \<Rightarrow> int \<Rightarrow> kernel_store \<Rightarrow> kernel_store" where
  "resolve_post_fill_retry_incidents ticket_id now_ms s =
     resolve_open_kind ticket_id facts_contradictory_kind now_ms
       (resolve_open_kind ticket_id facts_unavailable_kind now_ms s)"

definition stress_monitor ::
  "string \<Rightarrow> monitor_owner_status \<Rightarrow> string \<Rightarrow> string \<Rightarrow> string option \<Rightarrow> int \<Rightarrow> monitor_row" where
  "stress_monitor ticket_id owner_status summary intervention incident_id now_ms =
     \<lparr>mo_monitor_key = ''post-fill-stress:'' @ ticket_id, mo_owner_status = owner_status, mo_summary = summary,
      mo_intervention = intervention, mo_ticket_id = Some ticket_id, mo_incident_id = incident_id,
      mo_updated_at_ms = now_ms, mo_projection_version = 0\<rparr>"

text \<open>The assessment is committed, the retry incidents are resolved and the monitor is written.\<close>

definition record_assessment ::
  "trade_aggregate \<Rightarrow> stress_reconcile_request \<Rightarrow> stress_evidence \<Rightarrow> kernel_store
   \<Rightarrow> (kernel_store \<times> stress_reconcile_status) result" where
  "record_assessment a q e s =
     (let status = (if sf_status (se_proof e) = PASSED then PS_PASSED else PS_FAILED)
      in bind_result (assessed_fact a e) (\<lambda>f.
         bind_result (commit_fact a (sq_assessed_at_ms q) f s) (\<lambda>s1.
         Inr (monitors_save_if_changed
                (stress_monitor (sq_ticket_id q) PROCESSING (''Post-fill stress assessed: '' @ stress_reconcile_value status)
                   ''none'' None (sq_assessed_at_ms q))
                (resolve_post_fill_retry_incidents (sq_ticket_id q) (sq_assessed_at_ms q) s1), status))))"

definition reconcile_post_fill_stress ::
  "stress_reconcile_request \<Rightarrow> trading_store \<Rightarrow> (trading_store \<times> stress_reconcile_status) result" where
  "reconcile_post_fill_stress q d =
     bind_result (aggregates_get (sq_ticket_id q) (td_kernel d)) (\<lambda>loaded.
       case loaded of
         None \<Rightarrow> Inr (d, PS_NO_CHANGE)
       | Some a \<Rightarrow>
           if ag_status a \<noteq> POST_FILL_RISK_PENDING then Inr (d, PS_NO_CHANGE)
           else if \<not> stress_facts_current q then Inr (d, PS_FACTS_UNAVAILABLE)
           else (let domain = agg_domain a
             in case get_instrument_rules (nd_venue_id domain) (nd_exchange_instrument_id domain) (td_rules d) of
                  None \<Rightarrow> Inr (d, PS_FACTS_UNAVAILABLE)
                | Some certified \<Rightarrow>
                    if stress_facts_contradict domain q certified then Inr (d, PS_FACTS_CONTRADICTORY)
                    else if \<not> exposure_matches a (sq_account_snapshot q) then Inr (d, PS_FACTS_UNAVAILABLE)
                    else let d1 = d\<lparr>td_rules := refreshed_rules domain q certified (td_rules d)\<rparr>
                    in bind_result (post_fill_stress_request a q) (\<lambda>request.
                       bind_result (evaluate_cross_margin_stress request) (\<lambda>e.
                       if sf_status (se_proof e) = FACTS_CONTRADICTORY then Inr (d1, PS_FACTS_CONTRADICTORY)
                       else bind_result (record_assessment a q e (td_kernel d1)) (\<lambda>(s, status).
                              Inr (d1\<lparr>td_kernel := s\<rparr>, status))))))"

definition record_post_fill_stress_retry ::
  "string \<Rightarrow> stress_reconcile_status \<Rightarrow> int \<Rightarrow> int \<Rightarrow> kernel_store \<Rightarrow> kernel_store result" where
  "record_post_fill_stress_retry ticket_id status now_ms due_at_ms s =
     (if status \<notin> {PS_FACTS_UNAVAILABLE, PS_FACTS_CONTRADICTORY}
      then Inl (ValueError ''post-fill retry requires an unavailable fact status'')
      else bind_result (aggregates_get ticket_id s) (\<lambda>loaded.
        case loaded of
          None \<Rightarrow> Inr s
        | Some a \<Rightarrow>
            if ag_status a \<noteq> POST_FILL_RISK_PENDING then Inr s
            else
              let unavailable = (status = PS_FACTS_UNAVAILABLE);
                  kind = (if unavailable then facts_unavailable_kind else facts_contradictory_kind);
                  opposite = (if unavailable then facts_contradictory_kind else facts_unavailable_kind);
                  s1 = resolve_open_kind ticket_id opposite now_ms s;
                  existing = incidents_get_open_for_ticket_kind ticket_id kind s1
              in bind_result
                   (if existing = None
                    then fence_account ticket_id a kind (Some (nd_exchange_instrument_id (agg_domain a))) now_ms s1
                    else Inr s1) (\<lambda>s2.
                 schedule_next_check ticket_id due_at_ms (monitors_save_if_changed
                   (stress_monitor ticket_id (if unavailable then TEMPORARILY_UNAVAILABLE else NEEDS_INTERVENTION)
                     (''Post-fill stress '' @ stress_reconcile_value status)
                     (if unavailable then ''automatic retry'' else ''Owner review required'')
                     (Some (case existing of Some i \<Rightarrow> in_incident_id i | None \<Rightarrow> fence_id ticket_id kind))
                     now_ms) s2))))"

end
