(* ===== verification/Settle_Ticket.thy ===== *)
theory Settle_Ticket
  imports Reconcile_Ticket
begin

text \<open>
  \<open>application/settle_ticket.py\<close> with the review table of \<open>infrastructure/pg_repositories.py\<close>: the settlement of a
  matched Ticket, its first review and the revisions of a terminal one, each in one transaction.
\<close>

section \<open>Reviews\<close>

record trade_review =
  tv_review_id :: string
  tv_ticket_id :: string
  tv_revision :: int
  tv_supersedes_review_id :: "string option"
  tv_outcome :: string
  tv_metrics :: "(string \<times> json) list"
  tv_decision_impact :: "(string \<times> json) list"
  tv_created_at_ms :: int

definition revision_chain_ok :: "trade_review \<Rightarrow> bool" where
  "revision_chain_ok v \<longleftrightarrow>
     0 < tv_revision v
     \<and> \<not> (tv_revision v = 1 \<and> tv_supersedes_review_id v \<noteq> None)
     \<and> \<not> (1 < tv_revision v \<and> tv_supersedes_review_id v = None)
     \<and> Some (tv_review_id v) \<noteq> tv_supersedes_review_id v"

definition mk_trade_review :: "trade_review \<Rightarrow> trade_review result" where
  "mk_trade_review v =
     (let v' = v\<lparr>tv_review_id := py_strip (tv_review_id v), tv_ticket_id := py_strip (tv_ticket_id v),
                 tv_supersedes_review_id := (case tv_supersedes_review_id v of
                   None \<Rightarrow> None | Some i \<Rightarrow> if py_strip i = [] then None else Some (py_strip i))\<rparr>
      in if non_blank (tv_review_id v) \<and> non_blank (tv_ticket_id v) \<and> revision_chain_ok v' then Inr v' else Inl ValidationError)"

text \<open>
  The insert with the constraints of the table: the keys, one successor per review, and a superseded review of the
  same Ticket. Its check constraints repeat the validator.
\<close>

definition reviews_add :: "trade_review \<Rightarrow> trade_review list \<Rightarrow> trade_review list result" where
  "reviews_add v rows =
     (if (case tv_supersedes_review_id v of
            None \<Rightarrow> False
          | Some i \<Rightarrow> \<not> list_ex (\<lambda>r. tv_ticket_id r = tv_ticket_id v \<and> tv_review_id r = i) rows)
      then Inl IntegrityError
      else insert_row (\<lambda>r. tv_review_id r = tv_review_id v
             \<or> (tv_ticket_id r = tv_ticket_id v \<and> tv_revision r = tv_revision v)
             \<or> (tv_supersedes_review_id v \<noteq> None \<and> tv_supersedes_review_id r = tv_supersedes_review_id v)) v rows)"

definition reviews_get :: "string \<Rightarrow> trade_review list \<Rightarrow> trade_review option" where
  "reviews_get review_id = List.find (\<lambda>r. tv_review_id r = review_id)"

text \<open>The current review of a Ticket: the join with the aggregate row.\<close>

definition reviews_get_for_ticket :: "string \<Rightarrow> kernel_store \<Rightarrow> trade_review list \<Rightarrow> trade_review option" where
  "reviews_get_for_ticket ticket_id s =
     List.find (\<lambda>r. tv_ticket_id r = ticket_id
       \<and> list_ex (\<lambda>a. agg_ticket_id a = ticket_id \<and> ag_review_id a = Some (tv_review_id r)) (ks_aggregates s))"

record review_store =
  rv_kernel :: kernel_store
  rv_reviews :: "trade_review list"

section \<open>The services\<close>

record settle_request =
  gq_ticket_id :: string
  gq_settled_at_ms :: int

definition settle_ticket :: "settle_request \<Rightarrow> kernel_store \<Rightarrow> kernel_store result" where
  "settle_ticket q s =
     bind_result (existing_aggregate (gq_ticket_id q) s) (\<lambda>a. commit_fact a (gq_settled_at_ms q) BudgetSettled s)"

record review_request =
  wq_ticket_id :: string
  wq_review_id :: string
  wq_outcome :: string
  wq_metrics :: "(string \<times> json) list"
  wq_decision_impact :: "(string \<times> json) list"
  wq_recorded_at_ms :: int

definition add_review :: "review_request \<Rightarrow> int \<Rightarrow> string option \<Rightarrow> review_store \<Rightarrow> review_store result" where
  "add_review q revision supersedes d =
     bind_result (mk_trade_review
       \<lparr>tv_review_id = wq_review_id q, tv_ticket_id = wq_ticket_id q, tv_revision = revision,
        tv_supersedes_review_id = supersedes, tv_outcome = wq_outcome q, tv_metrics = wq_metrics q,
        tv_decision_impact = wq_decision_impact q, tv_created_at_ms = wq_recorded_at_ms q\<rparr>) (\<lambda>v.
     bind_result (reviews_add v (rv_reviews d)) (\<lambda>rows. Inr (d\<lparr>rv_reviews := rows\<rparr>)))"

definition record_trade_review :: "review_request \<Rightarrow> review_store \<Rightarrow> review_store result" where
  "record_trade_review q d =
     bind_result (existing_aggregate (wq_ticket_id q) (rv_kernel d)) (\<lambda>a.
     bind_result (add_review q 1 None d) (\<lambda>d1.
     bind_result (commit_fact a (wq_recorded_at_ms q) (ReviewRecorded (wq_review_id q)) (rv_kernel d1)) (\<lambda>s.
     Inr (d1\<lparr>rv_kernel := s\<rparr>))))"

definition revise_trade_review :: "review_request \<Rightarrow> string \<Rightarrow> review_store \<Rightarrow> review_store result" where
  "revise_trade_review q supersedes d =
     bind_result (existing_aggregate (wq_ticket_id q) (rv_kernel d)) (\<lambda>a.
       if ag_status a \<noteq> TERMINAL then Inl (ValueError ''Trade Review revision requires terminal Ticket'')
       else if ag_review_id a \<noteq> Some supersedes
       then Inl (ValueError ''Trade Review supersedes identity is not current'')
       else case reviews_get supersedes (rv_reviews d) of
              None \<Rightarrow> Inl (ValueError ''Superseded Trade Review does not exist for Ticket'')
            | Some predecessor \<Rightarrow>
                if tv_ticket_id predecessor \<noteq> wq_ticket_id q
                then Inl (ValueError ''Superseded Trade Review does not exist for Ticket'')
                else bind_result (add_review q (tv_revision predecessor + 1) (Some (tv_review_id predecessor)) d) (\<lambda>d1.
                     bind_result (commit_fact a (wq_recorded_at_ms q) (ReviewRevised (wq_review_id q) supersedes)
                       (rv_kernel d1)) (\<lambda>s. Inr (d1\<lparr>rv_kernel := s\<rparr>))))"

section \<open>Reviews form one chain per Ticket\<close>

text \<open>
  The reviews of a Ticket are numbered without gap from one, a later one names its predecessor, and no review is
  superseded twice.
\<close>

definition linked_to_predecessor :: "trade_review list \<Rightarrow> trade_review \<Rightarrow> bool" where
  "linked_to_predecessor rows v \<longleftrightarrow> py_strip (tv_review_id v) = tv_review_id v \<and> py_strip (tv_ticket_id v) = tv_ticket_id v
     \<and> 0 < tv_revision v
     \<and> (case tv_supersedes_review_id v of
          None \<Rightarrow> tv_revision v = 1
        | Some i \<Rightarrow> (\<exists>r\<in>set rows. tv_review_id r = i \<and> tv_ticket_id r = tv_ticket_id v \<and> tv_revision v = tv_revision r + 1))"

definition review_chain :: "trade_review list \<Rightarrow> bool" where
  "review_chain rows \<longleftrightarrow> distinct (map tv_review_id rows)
     \<and> distinct (map (\<lambda>v. (tv_ticket_id v, tv_revision v)) rows)
     \<and> distinct (filter (\<lambda>i. i \<noteq> None) (map tv_supersedes_review_id rows))
     \<and> (\<forall>v\<in>set rows. linked_to_predecessor rows v)"

lemma linked_more: "linked_to_predecessor rows v \<Longrightarrow> linked_to_predecessor (rows @ later) v"
  by (auto simp: linked_to_predecessor_def split: option.splits)

lemma reviews_add_chain:
  assumes "review_chain rows" "reviews_add v rows = Inr rows'" "linked_to_predecessor rows v"
  shows "review_chain rows'"
proof -
  have rows': "rows' = rows @ [v]" "\<forall>r\<in>set rows. tv_review_id r \<noteq> tv_review_id v
      \<and> \<not> (tv_ticket_id r = tv_ticket_id v \<and> tv_revision r = tv_revision v)
      \<and> \<not> (tv_supersedes_review_id v \<noteq> None \<and> tv_supersedes_review_id r = tv_supersedes_review_id v)"
    using assms(2) by (auto simp: reviews_add_def insert_row_iff list_ex_iff split: if_split_asm option.split_asm)
  then show ?thesis
    using assms(1) linked_more[OF assms(3)] linked_more by (auto simp: review_chain_def)
qed

lemma add_review_chain:
  assumes "review_chain (rv_reviews d)" "add_review q revision supersedes d = Inr d'"
    "supersedes = None \<and> revision = 1
     \<or> (\<exists>r\<in>set (rv_reviews d). supersedes = Some (tv_review_id r) \<and> tv_ticket_id r = wq_ticket_id q
\<and> revision = tv_revision r + 1)"
  shows "review_chain (rv_reviews d')"
proof -
  obtain v where v: "mk_trade_review \<lparr>tv_review_id = wq_review_id q, tv_ticket_id = wq_ticket_id q, tv_revision = revision,
        tv_supersedes_review_id = supersedes, tv_outcome = wq_outcome q, tv_metrics = wq_metrics q,
        tv_decision_impact = wq_decision_impact q, tv_created_at_ms = wq_recorded_at_ms q\<rparr> = Inr v"
      "reviews_add v (rv_reviews d) = Inr (rv_reviews d')"
    using assms(2) by (auto simp: add_review_def)
  have "\<forall>r\<in>set (rv_reviews d). py_strip (tv_review_id r) = tv_review_id r \<and> py_strip (tv_ticket_id r) = tv_ticket_id r"
    using assms(1) by (auto simp: review_chain_def linked_to_predecessor_def)
  then have "linked_to_predecessor (rv_reviews d) v"
    using v(1) assms(3) by (auto simp: mk_trade_review_def Let_def linked_to_predecessor_def revision_chain_ok_def split: if_split_asm) metis
  then show ?thesis using reviews_add_chain assms(1) v(2) by blast
qed

end
