(* ===== verification/Reconcile_Properties.thy ===== *)
theory Reconcile_Properties
  imports Reconcile_Ticket Recovery_Properties
begin

text \<open>
  What reconciliation guarantees: it is a sequence of kernel steps, and what it writes into a lifecycle is what the
  venue shows. And where it is blind: a position that is closed at the venue behind the post-fill gate.
\<close>

section \<open>Services are sequences of kernel steps\<close>

lemma existing_aggregate_iff: "existing_aggregate t s = Inr a \<longleftrightarrow> aggregates_get t s = Inr (Some a)"
  by (auto simp: existing_aggregate_def split: option.splits)

lemma commit_fact_step:
  "aggregates_get t s = Inr (Some a) \<Longrightarrow> commit_fact a n f s = Inr s' \<Longrightarrow> kernel_step s s'"
  by (auto simp: commit_fact_def intro: commit_event_step next_event_valid)

lemma fence_account_step: "fence_account t a kind i n s = Inr s' \<Longrightarrow> worker_step s s'"
  by (auto simp: fence_account_def Let_def intro: worker_step.incident_opened)

lemma late_fill_steps:
  assumes "record_late_fill_incident a p s = Inr s'"
  shows "worker_step\<^sup>*\<^sup>* s s'"
proof -
  obtain s1 m where s1: "s1 = s \<or> worker_step s s1" "s' = monitors_save_if_changed m s1"
    using assms by (auto simp: record_late_fill_incident_def Let_def split: option.splits dest: fence_account_step)
  then have "worker_step\<^sup>*\<^sup>* s s1" by blast
  also have "worker_step s1 s'" unfolding s1(2) by (rule worker_step.monitor)
  finally show ?thesis .
qed

lemma worker_steps: "worker_step\<^sup>*\<^sup>* s s' \<Longrightarrow> kernel_step\<^sup>*\<^sup>* s s'"
  by (rule mono_rtranclp[rule_format]) (rule kernel_step.worker)

lemma workers_stored: "worker_step\<^sup>*\<^sup>* s s' \<Longrightarrow> stored t s' = stored t s"
  by (induction rule: rtranclp_induct) (auto simp: stored_def worker_aggregate)

lemma observe_worker: "worker_step (td_kernel d) (td_kernel (observe_position t p d))"
  by (simp add: observe_position_def worker_step.monitor)

lemma observed_stored: "stored u (td_kernel (observe_position t p d)) = stored u (td_kernel d)"
  by (rule workers_stored) (rule r_into_rtranclp[where r = worker_step, OF observe_worker])

text \<open>The three ways a reconciliation ends.\<close>

lemma reconcile_ticketE:
  assumes "reconcile_ticket q d = Inr (d', r)"
  obtains (ignored) a where "stored (qr_ticket_id q) (td_kernel d) = Some a" "worker_step\<^sup>*\<^sup>* (td_kernel d) (td_kernel d')"
      "r \<noteq> RT_MATCHED" "r \<noteq> RT_OWNED_ORPHAN_CANCEL_REQUESTED" "td_positions d' = td_positions d"
      "ag_status a = ENTRY_RECONCILED_ABSENT" "0 < px_quantity (qr_snapshot q)"
  | (silent) a where "stored (qr_ticket_id q) (td_kernel d) = Some a" "d' = observe_position (qr_ticket_id q) (qr_snapshot q) d"
      "px_netting_domain (qr_snapshot q) = agg_domain a" "reconcile_fact a (qr_snapshot q) (td_kernel d') = Inr (r, None)"
  | (recorded) a f s where "stored (qr_ticket_id q) (td_kernel d) = Some a"
      "px_netting_domain (qr_snapshot q) = agg_domain a"
      "reconcile_fact a (qr_snapshot q) (td_kernel (observe_position (qr_ticket_id q) (qr_snapshot q) d)) = Inr (r, Some f)"
      "commit_fact a (px_observed_at_ms (qr_snapshot q)) f (td_kernel (observe_position (qr_ticket_id q) (qr_snapshot q) d)) = Inr s"
      "d' = (observe_position (qr_ticket_id q) (qr_snapshot q) d)\<lparr>td_kernel := s\<rparr>"
proof -
  let ?p = "qr_snapshot q" and ?d1 = "observe_position (qr_ticket_id q) (qr_snapshot q) d"
  obtain a where a: "stored (qr_ticket_id q) (td_kernel d) = Some a" "aggregates_get (qr_ticket_id q) (td_kernel d) = Inr (Some a)"
      "px_netting_domain ?p = agg_domain a"
    using assms by (auto simp: reconcile_ticket_def Let_def existing_aggregate_iff stored_def split: if_split_asm)
  note d = assms[unfolded reconcile_ticket_def Let_def, simplified existing_aggregate_def a(2), simplified, simplified a(3), simplified]
  show thesis
  proof (cases "ag_status a = ENTRY_RECONCILED_ABSENT \<and> 0 < px_quantity ?p")
    case True
    then show thesis
      using d a ignored[of a] late_fill_steps[of a ?p "td_kernel d"] by (auto split: if_split_asm option.split_asm)
  next
    case False
    note d = d[unfolded if_not_P[OF False]]
    obtain f where f: "reconcile_fact a ?p (td_kernel ?d1) = Inr (r, f)"
      using d by (auto split: option.split_asm)
    show thesis
    proof (cases f)
      case None
      then show thesis using d a f silent[of a] by simp
    next
      case (Some x)
      then show thesis using d a f recorded[of a x] by auto
    qed
  qed
qed

lemma reconcile_steps:
  assumes "reconcile_ticket q d = Inr (d', r)"
  shows "kernel_step\<^sup>*\<^sup>* (td_kernel d) (td_kernel d')"
  using assms
proof (cases rule: reconcile_ticketE)
  case (ignored a)
  then show ?thesis using worker_steps by blast
next
  case (silent a)
  then show ?thesis using observe_worker kernel_step.worker by blast
next
  case (recorded a f s)
  let ?d1 = "observe_position (qr_ticket_id q) (qr_snapshot q) d"
  have "aggregates_get (qr_ticket_id q) (td_kernel ?d1) = Inr (Some a)"
    using recorded(1) worker_aggregate[OF observe_worker] by (simp add: loaded_stored[symmetric])
  then have "kernel_step (td_kernel ?d1) s" using commit_fact_step recorded(4) by blast
  then show ?thesis
    using recorded(5) kernel_step.worker[OF observe_worker[of d "qr_ticket_id q" "qr_snapshot q"]] by (simp add: rtranclp.rtrancl_into_rtrancl)
qed

lemma resolve_kind_steps: "worker_step\<^sup>*\<^sup>* s (resolve_open_kind t k n s)"
  by (auto simp: resolve_open_kind_def split: option.split intro: worker_step.incident_resolved)

lemma retry_steps:
  assumes "record_post_fill_stress_retry t st n due s = Inr s'"
  shows "worker_step\<^sup>*\<^sup>* s s'"
proof (cases "\<exists>a. aggregates_get t s = Inr (Some a) \<and> ag_status a = POST_FILL_RISK_PENDING")
  case True
  then obtain a where a: "aggregates_get t s = Inr (Some a)" "ag_status a = POST_FILL_RISK_PENDING" by blast
  define other where "other = (if st = PS_FACTS_UNAVAILABLE then facts_contradictory_kind else facts_unavailable_kind)"
  have "\<exists>s2. (s2 = resolve_open_kind t other n s \<or> (\<exists>k i. fence_account t a k i n (resolve_open_kind t other n s) = Inr s2))
      \<and> (\<exists>m. s' = monitors_save_if_changed m s2)"
    using assms a unfolding record_post_fill_stress_retry_def other_def
    by (auto simp: Let_def schedule_next_check_def split: if_split_asm)
  then obtain k i m s2 where s2: "s2 = resolve_open_kind t other n s \<or> fence_account t a k i n (resolve_open_kind t other n s) = Inr s2"
      "s' = monitors_save_if_changed m s2"
    by blast
  have "worker_step\<^sup>*\<^sup>* s (resolve_open_kind t other n s)" by (rule resolve_kind_steps)
  also have "worker_step\<^sup>*\<^sup>* (resolve_open_kind t other n s) s2" using s2(1) fence_account_step by blast
  also have "worker_step s2 s'" unfolding s2(2) by (rule worker_step.monitor)
  finally show ?thesis .
next
  case False
  then have "s' = s" using assms by (auto simp: record_post_fill_stress_retry_def split: if_split_asm option.split_asm)
  then show ?thesis by simp
qed

lemma record_assessment_steps:
  assumes "record_assessment a q e s = Inr (s', st)" "aggregates_get (sq_ticket_id q) s = Inr (Some a)"
  shows "kernel_step\<^sup>*\<^sup>* s s'"
proof -
  obtain f s1 m where f: "commit_fact a (sq_assessed_at_ms q) f s = Inr s1"
      "s' = monitors_save_if_changed m (resolve_post_fill_retry_incidents (sq_ticket_id q) (sq_assessed_at_ms q) s1)"
    using assms(1) by (auto simp: record_assessment_def Let_def)
  let ?s2 = "resolve_post_fill_retry_incidents (sq_ticket_id q) (sq_assessed_at_ms q) s1"
  have "kernel_step s s1" using commit_fact_step[OF assms(2) f(1)] .
  also have "worker_step\<^sup>*\<^sup>* s1 ?s2"
    unfolding resolve_post_fill_retry_incidents_def by (rule rtranclp_trans[OF resolve_kind_steps resolve_kind_steps])
  then have "kernel_step\<^sup>*\<^sup>* s1 ?s2" by (rule worker_steps)
  also have "kernel_step ?s2 s'" unfolding f(2) by (rule kernel_step.worker[OF worker_step.monitor])
  finally show ?thesis .
qed

lemma post_fill_stress_steps:
  assumes "reconcile_post_fill_stress q d = Inr (d', st)"
  shows "kernel_step\<^sup>*\<^sup>* (td_kernel d) (td_kernel d')"
proof (cases "td_kernel d' = td_kernel d")
  case False
  obtain a where a: "aggregates_get (sq_ticket_id q) (td_kernel d) = Inr (Some a)"
    using assms False by (auto simp: reconcile_post_fill_stress_def split: option.splits)
  then obtain e s where "record_assessment a q e (td_kernel d) = Inr (s, st)" "td_kernel d' = s"
    using assms False
    by (auto simp: reconcile_post_fill_stress_def Let_def split: if_split_asm option.split_asm)
  then show ?thesis using record_assessment_steps a by blast
qed simp

lemma request_exit_step: "request_exit q s = Inr s' \<Longrightarrow> kernel_step s s'"
  by (auto simp: request_exit_def existing_aggregate_iff intro: commit_fact_step)

section \<open>What the snapshot shows\<close>

definition venue_shows :: "position_snapshot \<Rightarrow> string \<Rightarrow> bool" where
  "venue_shows p i \<longleftrightarrow> i \<in> os_exchange_order_id ` set (px_open_orders p)"

text \<open>What must be true of a snapshot for reconciliation to record a fact.\<close>

fun shown_fact :: "trade_aggregate \<Rightarrow> position_snapshot \<Rightarrow> kernel_store \<Rightarrow> lifecycle_fact \<Rightarrow> bool" where
  "shown_fact a p s (EntryFilled e) = (ef_filled_qty e = px_quantity p)"
| "shown_fact a p s (EntryPartiallyFilled filled requested price) = (filled = px_quantity p)"
| "shown_fact a p s PositionFlatConfirmed = (px_quantity p = 0)"
| "shown_fact a p s ExternalFlatDetected = (px_quantity p = 0)"
| "shown_fact a p s (UnownedOrderDetected i) = venue_shows p i"
| "shown_fact a p s (OwnedOrderAbsenceConfirmed i) = (\<not> venue_shows p i)"
| "shown_fact a p s (CancelOrderAbsenceConfirmed i) = (\<not> venue_shows p i)"
| "shown_fact a p s (OwnedOrphanOrderDetected i namespace) =
     (venue_shows p i
      \<and> (ag_status a = RECONCILIATION_PENDING \<longrightarrow> list_all is_kernel_owned_order (px_open_orders p)
           \<and> \<not> has_cancel_attempt (commands_list_for_ticket (agg_ticket_id a) s) i))"
| "shown_fact a p s (ReconciliationMatched kind) = (px_quantity p = 0 \<and> px_open_orders p = [])"
| "shown_fact a p s _ = False"

fun orphan_or_matched :: "reconcile_status \<Rightarrow> lifecycle_fact \<Rightarrow> bool" where
  "orphan_or_matched r (OwnedOrphanOrderDetected i namespace) = (r = RT_OWNED_ORPHAN_CANCEL_REQUESTED)"
| "orphan_or_matched r (ReconciliationMatched kind) = (r = RT_MATCHED)"
| "orphan_or_matched r _ = (r \<notin> {RT_OWNED_ORPHAN_CANCEL_REQUESTED, RT_MATCHED})"

lemma find_not_owned: "List.find (\<lambda>x. \<not> P x) xs = None \<longleftrightarrow> list_all P xs"
  by (induction xs) auto

lemma reconciling_shown:
  assumes "reconciling_fact a p s = (r, Some f)" "ag_status a = RECONCILIATION_PENDING"
  shows "shown_fact a p s f" "orphan_or_matched r f"
  using assms
  by (auto simp: reconciling_fact_def orphan_cancel_def venue_shows_def find_not_owned list_ex_iff find_Some_iff
      split: if_split_asm option.split_asm list.split_asm)

lemma reconcile_shown:
  assumes "reconcile_fact a p s = Inr (r, Some f)"
  shows "shown_fact a p s f" "orphan_or_matched r f"
proof -
  have "shown_fact a p s f \<and> orphan_or_matched r f"
  proof (cases "ag_status a = RECONCILIATION_PENDING")
    case True
    then show ?thesis
      using assms reconciling_shown[of a p s r f] by (simp add: reconcile_fact_def exiting_statuses_def open_position_statuses_def)
  next
    case False
    then show ?thesis
      using assms
      by (auto simp: reconcile_fact_def entry_accepted_fact_def filled_fact_def cancel_recovery_fact_def venue_shows_def Let_def
          find_Some_iff find_None_iff split: if_split_asm option.split_asm)
  qed
  then show "shown_fact a p s f" "orphan_or_matched r f" by blast+
qed

lemma silent_status: "reconcile_fact a p s = Inr (r, None) \<Longrightarrow> r \<noteq> RT_MATCHED \<and> r \<noteq> RT_OWNED_ORPHAN_CANCEL_REQUESTED"
  by (auto simp: reconcile_fact_def entry_accepted_fact_def filled_fact_def cancel_recovery_fact_def reconciling_fact_def
      orphan_cancel_def Let_def split: if_split_asm option.split_asm list.split_asm)

section \<open>What a recorded fact does to its Ticket\<close>

lemma as_stored_view [simp]:
  "ag_status (as_stored b) = ag_status b" "ag_position_qty (as_stored b) = ag_position_qty b"
  "known_cleanup_order_ids (as_stored b) = known_cleanup_order_ids b"
  "ag_pending_cancel_exchange_order_id (as_stored b) = ag_pending_cancel_exchange_order_id b"
  by (simp_all add: as_stored_def loaded_with_def known_cleanup_order_ids_def)

lemma known_cleanup_set: "set (known_cleanup_order_ids a) =
    set_option (ag_tp1_exchange_order_id a) \<union> set_option (ag_active_stop_exchange_order_id a) \<union> set_option (ag_initial_stop_exchange_order_id a)"
  by (cases "ag_tp1_exchange_order_id a"; cases "ag_active_stop_exchange_order_id a"; cases "ag_initial_stop_exchange_order_id a")
    (auto simp: known_cleanup_order_ids_def)

text \<open>Quantity, owned orders, closure and cancels after a fact the snapshot shows.\<close>

lemma shown_quantity:
  assumes "shown_fact a p s f" "reduce_fact b h f = Inr (b', fx)"
  shows "ag_position_qty b' \<in> {ag_position_qty b, px_quantity p}"
  using assms by (cases f) (auto simp: step_simps split: step_splits if_split_asm)

lemma shown_forgets:
  assumes "shown_fact a p s f" "reduce_fact b h f = Inr (b', fx)" "i \<in> set (known_cleanup_order_ids b)"
    "i \<notin> set (known_cleanup_order_ids b')"
  shows "\<not> venue_shows p i"
  using assms by (cases f) (auto simp: step_simps known_cleanup_set clear_cleanup_order_def Let_def split: step_splits if_split_asm)

lemma shown_closure:
  assumes "shown_fact a p s f" "orphan_or_matched r f" "reduce_fact b h f = Inr (b', fx)" "ag_status b' = SETTLEMENT_PENDING"
  shows "r = RT_MATCHED \<and> px_quantity p = 0 \<and> px_open_orders p = [] \<and> known_cleanup_order_ids b = []
    \<and> ag_pending_cancel_exchange_order_id b = None"
  using assms by (cases f) (auto simp: step_simps split: step_splits if_split_asm)

lemma shown_orphan:
  assumes "shown_fact a p s f" "orphan_or_matched RT_OWNED_ORPHAN_CANCEL_REQUESTED f" "reduce_fact b h f = Inr (b', fx)"
    "valid_position_snapshot p" "ag_status b = ag_status a"
  obtains i namespace where "venue_shows p i" "ag_pending_cancel_exchange_order_id b' = Some i"
    "fx = [CancelProtectionOrders (agg_ticket_id b) i namespace reconciliation_cleanup]"
    "ag_status b = RECONCILIATION_PENDING \<Longrightarrow> list_all is_kernel_owned_order (px_open_orders p)
       \<and> \<not> has_cancel_attempt (commands_list_for_ticket (agg_ticket_id a) s) i"
proof -
  obtain i namespace where f: "f = OwnedOrphanOrderDetected i namespace" using assms(2) by (cases f) auto
  have "py_strip i = i"
    using assms(1,4) by (auto simp: f venue_shows_def valid_position_snapshot_def valid_venue_order_def list_all_iff)
  then show thesis
    using assms(1,3,5) that[of i namespace] by (auto simp: f step_simps split: step_splits if_split_asm)
qed

lemma commit_fact_stored:
  assumes "reachable_store s" "stored t s = Some a" "commit_fact a n f s = Inr s'"
  obtains b b' h fx where "a = as_stored b" "reduce_fact b h f = Inr (b', fx)" "valid_ticket (ag_ticket b)" "agg_ticket_id b = t"
    "ag_identity b = tk_identity (ag_ticket b)" "\<And>u. stored u s' = (if u = t then Some (as_stored b') else stored u s)"
proof -
  obtain e r where e: "next_event a n f = Inr e" "reduce_event (Some a) e = Inr r" "commit_reduction e r (ag_version a) s = Inr s'"
    using assms(3) by (auto simp: commit_fact_def commit_event_def)
  obtain a1 fx where r: "r = (a1, fx)" by (cases r)
  have fact_of: "\<exists>h t. e = TicketEvent h t f" using e(1) by (auto simp: next_event_def Let_def split: if_split_asm)
  obtain b b' h f' where "a = as_stored b" "e = TicketEvent h t f'" "reduce_fact b h f' = Inr (b', fx)"
      "\<And>u. stored u s' = (if u = t then Some (as_stored b') else stored u s)" "valid_ticket (ag_ticket b)" "agg_ticket_id b = t"
      "ag_identity b = tk_identity (ag_ticket b)"
    using commit_step[OF reachable_log[OF assms(1)] assms(2) next_event_valid[OF e(1)] e(2)[unfolded r] e(3)[unfolded r]] by metis
  then show thesis using that[of b h b' fx] fact_of by auto
qed

lemma observed_commands: "commands_list_for_ticket u (td_kernel (observe_position t p d)) = commands_list_for_ticket u (td_kernel d)"
  by (simp add: observe_position_def commands_list_for_ticket_def monitors_save_if_changed_def Let_def split: option.split)

lemma observed_position:
  "positions_get (netting_domain_key (px_netting_domain p)) (td_positions (observe_position t p d)) = Some (p\<lparr>px_open_orders := []\<rparr>)"
  by (simp add: observe_position_def positions_get_upsert)

text \<open>What one reconciliation may have done to its Ticket.\<close>

definition believes_venue ::
  "position_snapshot \<Rightarrow> kernel_store \<Rightarrow> reconcile_status \<Rightarrow> trade_aggregate \<Rightarrow> trade_aggregate \<Rightarrow> bool" where
  "believes_venue p s r a a' \<longleftrightarrow>
     ag_position_qty a' \<in> {ag_position_qty a, px_quantity p}
     \<and> {i \<in> set (known_cleanup_order_ids a). venue_shows p i} \<subseteq> set (known_cleanup_order_ids a')
     \<and> (r = RT_MATCHED \<or> (ag_status a \<noteq> SETTLEMENT_PENDING \<and> ag_status a' = SETTLEMENT_PENDING) \<longrightarrow>
          px_quantity p = 0 \<and> px_open_orders p = [] \<and> known_cleanup_order_ids a = []
          \<and> ag_pending_cancel_exchange_order_id a = None)
     \<and> (r = RT_OWNED_ORPHAN_CANCEL_REQUESTED \<longrightarrow>
          (\<exists>i. ag_pending_cancel_exchange_order_id a' = Some i \<and> venue_shows p i
             \<and> (ag_status a = RECONCILIATION_PENDING \<longrightarrow> list_all is_kernel_owned_order (px_open_orders p)
                  \<and> \<not> has_cancel_attempt (commands_list_for_ticket (agg_ticket_id a) s) i)))"

lemma believes_unchanged: "r \<noteq> RT_MATCHED \<Longrightarrow> r \<noteq> RT_OWNED_ORPHAN_CANCEL_REQUESTED \<Longrightarrow> believes_venue p s r a a"
  by (auto simp: believes_venue_def)

lemma believes_recorded:
  assumes "shown_fact (as_stored b) p s f" "orphan_or_matched r f" "reduce_fact b h f = Inr (b', fx)" "valid_position_snapshot p"
  shows "believes_venue p s r (as_stored b) (as_stored b')"
proof -
  have matched: "ag_status b' = SETTLEMENT_PENDING" if "r = RT_MATCHED"
    using assms(2,3) that by (cases f) (auto simp: step_simps split: step_splits)
  have closure: "px_quantity p = 0 \<and> px_open_orders p = [] \<and> known_cleanup_order_ids b = [] \<and> ag_pending_cancel_exchange_order_id b = None"
    if "r = RT_MATCHED \<or> ag_status b' = SETTLEMENT_PENDING"
    using shown_closure[OF assms(1-3)] matched that by blast
  have orphan: "\<exists>i. ag_pending_cancel_exchange_order_id b' = Some i \<and> venue_shows p i
      \<and> (ag_status b = RECONCILIATION_PENDING \<longrightarrow> list_all is_kernel_owned_order (px_open_orders p)
           \<and> \<not> has_cancel_attempt (commands_list_for_ticket (agg_ticket_id (as_stored b)) s) i)"
    if "r = RT_OWNED_ORPHAN_CANCEL_REQUESTED"
    using shown_orphan[OF assms(1) _ assms(3,4)] assms(2) that by (metis as_stored_view(1))
  show ?thesis
    unfolding believes_venue_def as_stored_view
    using shown_quantity[OF assms(1,3)] shown_forgets[OF assms(1,3)] closure orphan by blast
qed

text \<open>
  C31. Reconciling a Ticket is a sequence of kernel steps and believes only the venue. The position of the Ticket
  stays or becomes the quantity of the snapshot; an owned order is forgotten only when the snapshot does not show it;
  the Ticket is matched, and its capital released, only on a flat snapshot without any open order and with no owned
  order or cancel left; a cancel requested for an orphan names an order the snapshot shows, during reconciliation
  only when every open order carries the kernel's prefix and no earlier cancel of it may still succeed. The snapshot
  becomes the latest observation of its domain, except behind a Ticket closed without a fill.
\<close>

theorem reconciliation_believes_the_venue:
  assumes "reachable_store (td_kernel d)" "valid_position_snapshot (qr_snapshot q)" "reconcile_ticket q d = Inr (d', r)"
  shows "\<exists>a a'. stored (qr_ticket_id q) (td_kernel d) = Some a \<and> stored (qr_ticket_id q) (td_kernel d') = Some a'
    \<and> reachable_store (td_kernel d') \<and> believes_venue (qr_snapshot q) (td_kernel d) r a a'
    \<and> (ag_status a = ENTRY_RECONCILED_ABSENT \<and> 0 < px_quantity (qr_snapshot q)
       \<or> positions_get (netting_domain_key (px_netting_domain (qr_snapshot q))) (td_positions d')
           = Some ((qr_snapshot q)\<lparr>px_open_orders := []\<rparr>))"
proof -
  have reach: "reachable_store (td_kernel d')" using reachable_steps[OF reconcile_steps[OF assms(3)] assms(1)] .
  from assms(3) show ?thesis
  proof (cases rule: reconcile_ticketE)
    case (ignored a)
    then show ?thesis using reach workers_stored believes_unchanged by metis
  next
    case (silent a)
    have "stored (qr_ticket_id q) (td_kernel d') = Some a"
      using silent(1) observed_stored by (simp add: silent(2))
    then show ?thesis using silent reach believes_unchanged silent_status observed_position by metis
  next
    case (recorded a f s)
    let ?d1 = "observe_position (qr_ticket_id q) (qr_snapshot q) d"
    have d1: "reachable_store (td_kernel ?d1)" "stored (qr_ticket_id q) (td_kernel ?d1) = Some a"
      using assms(1) recorded(1) observed_stored kernel_step.worker[OF observe_worker]
      by (auto intro: reachable_store.step)
    obtain b b' h fx where b: "a = as_stored b" "stored (qr_ticket_id q) s = Some (as_stored b')" "reduce_fact b h f = Inr (b', fx)"
      using commit_fact_stored[OF d1 recorded(4)] by metis
    have "believes_venue (qr_snapshot q) (td_kernel ?d1) r a (as_stored b')"
      using believes_recorded[OF _ _ b(3) assms(2)] reconcile_shown[OF recorded(3)] by (simp add: b(1))
    then have "believes_venue (qr_snapshot q) (td_kernel d) r a (as_stored b')"
      by (simp add: believes_venue_def observed_commands)
    then show ?thesis using recorded(1,5) b(2) reach observed_position by auto
  qed
qed

text \<open>An accepted ENTRY that the venue does not show as filled yet.\<close>

definition demo_flat :: position_snapshot where
  "demo_flat = \<lparr>px_netting_domain = agg_domain demo_moved_on, px_quantity = 0, px_average_entry_price = None,
     px_liquidation_price = None, px_liquidation_status = LO_MISSING, px_open_orders = [], px_observed_at_ms = 70\<rparr>"

definition demo_trading :: trading_store where
  "demo_trading = \<lparr>td_kernel = demo_recovered, td_positions = [], td_rules = []\<rparr>"

lemma demo_recovered_stored: "stored ''t'' demo_recovered = Some demo_moved_on"
  by (simp add: stored_lookup demo_recovered_def demo_unknown_def demo_claimed_sel tickets_get_def loaded_with_def)
    (simp add: demo_moved_on_def demo_ct_sel demo_store_def)

theorem reconciliation_believes_the_venue_witness:
  "\<exists>d'. reconcile_ticket \<lparr>qr_ticket_id = ''t'', qr_snapshot = demo_flat\<rparr> demo_trading = Inr (d', RT_NO_CHANGE)
    \<and> reachable_store (td_kernel d') \<and> positions_get (netting_domain_key (agg_domain demo_moved_on)) (td_positions d') = Some demo_flat"
proof -
  let ?q = "\<lparr>qr_ticket_id = ''t'', qr_snapshot = demo_flat\<rparr>"
  have load: "existing_aggregate ''t'' demo_recovered = Inr demo_moved_on"
    using demo_recovered_stored by (simp add: existing_aggregate_iff loaded_stored)
  have status: "ag_status demo_moved_on = ENTRY_ACCEPTED" "tk_quantity (ag_ticket demo_moved_on) \<noteq> 0"
    by (simp_all add: demo_moved_on_def claim_ticket_def demo_claim_eval)
  have run: "reconcile_ticket ?q demo_trading = Inr (observe_position ''t'' demo_flat demo_trading, RT_NO_CHANGE)"
    using status load
    by (simp add: reconcile_ticket_def demo_trading_def reconcile_fact_def entry_accepted_fact_def) (simp add: demo_flat_def)
  have valid: "valid_position_snapshot demo_flat" by (simp add: valid_position_snapshot_def demo_flat_def)
  have reach: "reachable_store (td_kernel demo_trading)"
    using demo_recovered_reachable by (simp add: demo_trading_def)
  show ?thesis
    using reconciliation_believes_the_venue[OF reach _ run] valid run status(1)
    by (auto simp: demo_trading_def demo_recovered_stored) (simp_all add: demo_flat_def)
qed

section \<open>Behind the post-fill gate\<close>

lemma gate_refuses:
  assumes "ag_status a = POST_FILL_RISK_PENDING" "f = ExternalFlatDetected \<or> f = ExitRequested reason"
  shows "\<exists>e. commit_fact a n f s = Inl e"
proof (cases "next_event a n f")
  case (Inr e)
  then obtain h t where "e = TicketEvent h t f" by (auto simp: next_event_def Let_def split: if_split_asm)
  then have "\<not> (\<exists>r. reduce_event (Some a) e = Inr r)"
    using assms by (auto simp: reduce_event_Some_iff step_simps external_flat_statuses_def split: step_splits)
  then obtain x where "reduce_event (Some a) e = Inl x" by (cases "reduce_event (Some a) e") auto
  then show ?thesis by (simp add: commit_fact_def Inr commit_event_def)
qed (simp add: commit_fact_def)

text \<open>
  C33. A position that closes at the venue while the Ticket waits behind the post-fill gate is never recorded:
  reconciliation picks the external-flat event for this status but the reducer refuses it, so it raises on every flat
  snapshot; the stress service finds no matching position and writes nothing; and an exit request raises.
\<close>

theorem flat_behind_gate_never_recorded:
  assumes "stored (qr_ticket_id q) (td_kernel d) = Some a" "ag_status a = POST_FILL_RISK_PENDING"
    "px_quantity (qr_snapshot q) = 0" "sq_ticket_id w = qr_ticket_id q" "xr_ticket_id x = qr_ticket_id q"
    "\<not> (\<exists>y\<in>set (target_positions (agg_domain a) (sq_account_snapshot w)). ap_position_side y = nd_position_side (agg_domain a))"
  shows "(\<exists>e. reconcile_ticket q d = Inl e)
    \<and> (\<exists>st. reconcile_post_fill_stress w d = Inr (d, st) \<and> st \<in> {PS_FACTS_UNAVAILABLE, PS_FACTS_CONTRADICTORY})
    \<and> (\<exists>e. request_exit x (td_kernel d) = Inl e)"
proof (intro conjI)
  have load: "aggregates_get (qr_ticket_id q) (td_kernel d) = Inr (Some a)" using assms(1) by (simp add: loaded_stored)
  have "reconcile_fact a (qr_snapshot q) s = Inr (RT_EXTERNAL_FLAT_INCIDENT, Some ExternalFlatDetected)" for s
    using assms(2,3) by (simp add: reconcile_fact_def exiting_statuses_def open_position_statuses_def)
  then show "\<exists>e. reconcile_ticket q d = Inl e"
    using assms(2) gate_refuses[OF assms(2)]
    by (auto simp: reconcile_ticket_def Let_def existing_aggregate_def load) (metis bind_result_simps(1))
  have "\<not> exposure_matches a (sq_account_snapshot w)"
    using assms(6) by (auto simp: exposure_matches_def find_Some_iff split: option.split)
  then show "\<exists>st. reconcile_post_fill_stress w d = Inr (d, st) \<and> st \<in> {PS_FACTS_UNAVAILABLE, PS_FACTS_CONTRADICTORY}"
    using assms(2) by (auto simp: reconcile_post_fill_stress_def assms(4) load Let_def split: option.split)
  show "\<exists>e. request_exit x (td_kernel d) = Inl e"
    using gate_refuses[OF assms(2)] by (simp add: request_exit_def existing_aggregate_def assms(5) load)
qed

text \<open>A history that reaches the gate, and an account whose position is gone.\<close>

definition demo_gate_facts :: "lifecycle_fact list" where
  "demo_gate_facts = [EntryAccepted ''in'', EntryFilled demo_fill, InitialStopConfirmed ''stop'' 2]"

definition demo_gate :: trade_aggregate where
  "demo_gate = demo_initial
     \<lparr>ag_status := POST_FILL_RISK_PENDING, ag_version := 4, ag_last_event_sequence := 4, ag_position_qty := 2,
      ag_average_fill_price := Some 100, ag_actual_stop_risk := Some 20, ag_post_fill_risk_status := Some WITHIN_BUDGET,
      ag_post_fill_disposition := Some NORMAL, ag_protected_qty := 2, ag_entry_exchange_order_id := Some ''in'',
      ag_initial_stop_exchange_order_id := Some ''stop'', ag_active_stop_exchange_order_id := Some ''stop'',
      ag_active_stop_price := Some 90\<rparr>"

lemma demo_gate_history: "\<exists>fx. history demo_gate (demo_events demo_gate_facts) fx"
proof -
  have "\<exists>fx. replay_from None (demo_events demo_gate_facts) = Inr (Some demo_gate, fx)"
    by (simp add: demo_events_def demo_gate_facts_def demo_gate_def demo_initial_def demo_fill_def new_aggregate_def demo_eval)
  moreover have "list_all valid_event (demo_events demo_gate_facts)"
    by (rule valid_demo_events) (simp add: demo_gate_facts_def)
  ultimately show ?thesis using replay_history by blast
qed

definition demo_gate_store :: trading_store where
  "demo_gate_store =
     \<lparr>td_kernel = empty_store\<lparr>ks_tickets := [\<lparr>tr_ticket = demo_ticket, tr_active_netting_domain_key = Some ''b:a:i:long'',
        tr_terminal_at_ms = None\<rparr>], ks_aggregates := [demo_gate], ks_events := demo_events demo_gate_facts\<rparr>,
      td_positions = [], td_rules = []\<rparr>"

theorem flat_behind_gate_never_recorded_witness:
  "(\<exists>fx. history demo_gate (demo_events demo_gate_facts) fx)
   \<and> (\<exists>e. reconcile_ticket \<lparr>qr_ticket_id = ''t'', qr_snapshot = demo_flat\<rparr> demo_gate_store = Inl e)
   \<and> (\<exists>e. request_exit \<lparr>xr_ticket_id = ''t'', xr_reason = ''x'', xr_requested_at_ms = 70\<rparr> (td_kernel demo_gate_store) = Inl e)"
proof -
  have "stored ''t'' (td_kernel demo_gate_store) = Some demo_gate"
    by (simp add: stored_lookup demo_gate_store_def tickets_get_def loaded_with_def empty_store_def demo_gate_def demo_initial_def)
  then show ?thesis
    using flat_behind_gate_never_recorded[of "\<lparr>qr_ticket_id = ''t'', qr_snapshot = demo_flat\<rparr>" demo_gate_store demo_gate
        "\<lparr>sq_ticket_id = ''t'', sq_account_snapshot = demo_snapshot\<lparr>as_account_positions := []\<rparr>,
          sq_instrument_rules = demo_rules, sq_assessed_at_ms = 70\<rparr>"
        "\<lparr>xr_ticket_id = ''t'', xr_reason = ''x'', xr_requested_at_ms = 70\<rparr>"]
      demo_gate_history
    by (simp add: target_positions_def demo_flat_def) (simp add: demo_gate_def)
qed

text \<open>
  The incident of a retry has one identity per kind, and an insert with a known identity writes nothing. When the
  facts are unavailable, then contradictory and then unavailable again, the second report resolves the first
  incident, the third one resolves the second and opens nothing: the account is not fenced any more, although the
  monitor names the incident.
\<close>

definition open_kind :: "string \<Rightarrow> string \<Rightarrow> incident_row \<Rightarrow> bool" where
  "open_kind t kind i \<longleftrightarrow> in_ticket_id i = Some t \<and> in_incident_kind i = kind \<and> in_status i = ''open''"

lemma open_kind_lookup: "incidents_get_open_for_ticket_kind t kind s = newest_incident (filter (open_kind t kind) (ks_incidents s))"
  by (simp add: incidents_get_open_for_ticket_kind_def open_kind_def[abs_def])

lemma no_open_kind: "incidents_get_open_for_ticket_kind t kind s = None \<longleftrightarrow> (\<forall>i\<in>set (ks_incidents s). \<not> open_kind t kind i)"
proof -
  have "newest_incident rows = None \<longleftrightarrow> rows = []" for rows by (cases rows) (auto split: option.split)
  then show ?thesis by (auto simp: open_kind_lookup filter_empty_conv)
qed

definition retry_incident :: "string \<Rightarrow> string \<Rightarrow> string option \<Rightarrow> int \<Rightarrow> incident_row" where
  "retry_incident t kind key n =
     \<lparr>in_incident_id = fence_id t kind, in_ticket_id = Some t, in_incident_kind = kind, in_status = ''open'',
      in_first_blocker = kind, in_entry_block_scope = ACCOUNT_CAPACITY, in_entry_block_key = key, in_event_id = [],
      in_opened_at_ms = n, in_resolved_at_ms = None\<rparr>"

definition retry_kind :: "stress_reconcile_status \<Rightarrow> string" where
  "retry_kind st = (if st = PS_FACTS_UNAVAILABLE then facts_unavailable_kind else facts_contradictory_kind)"

definition opposite_kind :: "stress_reconcile_status \<Rightarrow> string" where
  "opposite_kind st = (if st = PS_FACTS_UNAVAILABLE then facts_contradictory_kind else facts_unavailable_kind)"

lemma monitors_keep_incidents [simp]: "ks_incidents (monitors_save_if_changed m s) = ks_incidents s"
  by (simp add: monitors_save_if_changed_def Let_def split: option.split)

lemma fence_writes:
  assumes "fence_account t a kind i n s = Inr s'"
  shows "\<exists>key. ks_incidents s' = ks_incidents s
    @ (if fence_id t kind \<in> in_incident_id ` set (ks_incidents s) then [] else [retry_incident t kind key n])"
proof (cases "\<exists>x\<in>set (ks_incidents s). in_incident_id x = fence_id t kind")
  case True
  then have "fence_id t kind \<in> in_incident_id ` set (ks_incidents s)" by (metis imageI)
  moreover have "s' = s" using assms True by (auto simp: fence_account_def Let_def incidents_add_def list_ex_iff split: if_split_asm)
  ultimately show ?thesis by simp
next
  case False
  then have "fence_id t kind \<notin> in_incident_id ` set (ks_incidents s)" by (metis imageE)
  then show ?thesis
    using assms False
    by (auto simp: fence_account_def Let_def incidents_add_def list_ex_iff retry_incident_def split: if_split_asm)
qed

lemma retry_incidents:
  assumes "record_post_fill_stress_retry t st n due s = Inr s'" "aggregates_get t s = Inr (Some a)"
    "ag_status a = POST_FILL_RISK_PENDING" "ys = ks_incidents (resolve_open_kind t (opposite_kind st) n s)"
    "\<forall>i\<in>set ys. \<not> open_kind t (retry_kind st) i"
  shows "aggregates_get t s' = Inr (Some a)"
    "\<exists>key. ks_incidents s' = ys @ (if fence_id t (retry_kind st) \<in> in_incident_id ` set ys then []
       else [retry_incident t (retry_kind st) key n])"
proof -
  have steps: "worker_step\<^sup>*\<^sup>* s s'" using retry_steps[OF assms(1)] .
  then show "aggregates_get t s' = Inr (Some a)"
    using assms(2) by (induction rule: rtranclp_induct) (auto simp: worker_aggregate)
  let ?s1 = "resolve_open_kind t (opposite_kind st) n s"
  have none: "incidents_get_open_for_ticket_kind t (retry_kind st) ?s1 = None"
    using assms(4,5) by (simp add: no_open_kind)
  have st: "st \<in> {PS_FACTS_UNAVAILABLE, PS_FACTS_CONTRADICTORY}"
    using assms(1) by (auto simp: record_post_fill_stress_retry_def split: if_split_asm)
  obtain s2 m where s2: "fence_account t a (retry_kind st) (Some (nd_exchange_instrument_id (agg_domain a))) n ?s1 = Inr s2"
      "s' = monitors_save_if_changed m s2"
    using assms(1-3) st none
    by (auto simp: record_post_fill_stress_retry_def Let_def schedule_next_check_def retry_kind_def opposite_kind_def split: if_split_asm)
  from s2(1) show "\<exists>key. ks_incidents s' = ys @ (if fence_id t (retry_kind st) \<in> in_incident_id ` set ys then []
       else [retry_incident t (retry_kind st) key n])"
    unfolding s2(2) monitors_keep_incidents assms(4) by (intro fence_writes)
qed

lemma resolve_none: "\<forall>i\<in>set (ks_incidents s). \<not> open_kind t kind i \<Longrightarrow> resolve_open_kind t kind n s = s"
  by (simp add: resolve_open_kind_def no_open_kind[symmetric])

lemma resolve_last:
  assumes "ks_incidents s = ys @ [retry_incident t kind key m]" "\<forall>i\<in>set ys. \<not> open_kind t kind i"
    "fence_id t kind \<notin> in_incident_id ` set ys"
  shows "ks_incidents (resolve_open_kind t kind n s) = ys @ [resolved n (retry_incident t kind key m)]"
proof -
  have "filter (open_kind t kind) (ks_incidents s) = [retry_incident t kind key m]"
    using assms(1,2) by (simp add: filter_empty_conv open_kind_def retry_incident_def)
  then have "incidents_get_open_for_ticket_kind t kind s = Some (retry_incident t kind key m)"
    by (simp add: open_kind_lookup)
  moreover have "update_where (\<lambda>r. in_incident_id r = fence_id t kind) (resolved n) ys = ys"
    unfolding update_where_def by (rule map_idI) (use assms(3) in \<open>metis imageI\<close>)
  ultimately show ?thesis
    using assms(1) by (simp add: resolve_open_kind_def incidents_resolve_def update_where_def retry_incident_def)
qed

theorem retry_fence_lost:
  assumes "aggregates_get t s = Inr (Some a)" "ag_status a = POST_FILL_RISK_PENDING"
    "\<forall>i\<in>set (ks_incidents s). in_ticket_id i \<noteq> Some t"
    "fence_id t facts_unavailable_kind \<notin> in_incident_id ` set (ks_incidents s)"
    "fence_id t facts_contradictory_kind \<notin> in_incident_id ` set (ks_incidents s)"
    "record_post_fill_stress_retry t PS_FACTS_UNAVAILABLE n1 due1 s = Inr s1"
    "record_post_fill_stress_retry t PS_FACTS_CONTRADICTORY n2 due2 s1 = Inr s2"
    "record_post_fill_stress_retry t PS_FACTS_UNAVAILABLE n3 due3 s2 = Inr s3"
  shows "(\<exists>i\<in>set (ks_incidents s1). open_kind t facts_unavailable_kind i)
    \<and> (\<exists>i\<in>set (ks_incidents s2). open_kind t facts_contradictory_kind i)
    \<and> (\<forall>i\<in>set (ks_incidents s3). \<not> open_kind t facts_unavailable_kind i \<and> \<not> open_kind t facts_contradictory_kind i)"
proof -
  let ?xs = "ks_incidents s"
  have kinds: "facts_unavailable_kind \<noteq> facts_contradictory_kind"
      "fence_id t facts_contradictory_kind \<noteq> fence_id t facts_unavailable_kind"
    by (simp_all add: facts_unavailable_kind_def facts_contradictory_kind_def fence_id_def)
  have none: "\<forall>i\<in>set ?xs. \<not> open_kind t kind i" for kind using assms(3) by (auto simp: open_kind_def)
  have k: "retry_kind PS_FACTS_UNAVAILABLE = facts_unavailable_kind" "opposite_kind PS_FACTS_UNAVAILABLE = facts_contradictory_kind"
      "retry_kind PS_FACTS_CONTRADICTORY = facts_contradictory_kind" "opposite_kind PS_FACTS_CONTRADICTORY = facts_unavailable_kind"
    by (simp_all add: retry_kind_def opposite_kind_def)
  have row: "\<not> open_kind t kind (resolved n i)" "in_incident_id (resolved n i) = in_incident_id i"
      "open_kind t kind (retry_incident t kind' key n) \<longleftrightarrow> kind' = kind"
      "in_incident_id (retry_incident t kind key n) = fence_id t kind" for kind kind' key n i
    by (simp_all add: open_kind_def resolved_def retry_incident_def)
  obtain u where s1: "aggregates_get t s1 = Inr (Some a)" "ks_incidents s1 = ?xs @ [retry_incident t facts_unavailable_kind u n1]"
    using retry_incidents[OF assms(6,1,2) refl] none assms(4) by (auto simp: k resolve_none[OF none])
  have r1: "ks_incidents (resolve_open_kind t facts_unavailable_kind n2 s1) = ?xs @ [resolved n2 (retry_incident t facts_unavailable_kind u n1)]"
    by (rule resolve_last[OF s1(2) none assms(4)])
  obtain c where s2: "aggregates_get t s2 = Inr (Some a)"
      "ks_incidents s2 = (?xs @ [resolved n2 (retry_incident t facts_unavailable_kind u n1)]) @ [retry_incident t facts_contradictory_kind c n2]"
    using retry_incidents[OF assms(7) s1(1) assms(2) refl] none assms(5) kinds by (auto simp: k r1 row)
  have r2: "ks_incidents (resolve_open_kind t facts_contradictory_kind n3 s2)
      = (?xs @ [resolved n2 (retry_incident t facts_unavailable_kind u n1)]) @ [resolved n3 (retry_incident t facts_contradictory_kind c n2)]"
    by (rule resolve_last[OF s2(2)]) (use none assms(5) kinds in \<open>auto simp: row\<close>)
  have s3: "ks_incidents s3 = ks_incidents (resolve_open_kind t facts_contradictory_kind n3 s2)"
    using retry_incidents(2)[OF assms(8) s2(1) assms(2) refl] none by (auto simp: k r2 row)
  show ?thesis using none by (auto simp: s1(2) s2(2) s3 r2 row)
qed

end
