(* ===== verification/Settle_Properties.thy ===== *)
theory Settle_Properties
  imports Settle_Ticket Reconcile_Properties
begin

text \<open>
  The reviews of the kernel: the current review of a Ticket, named by its aggregate, is always the last of a gapless
  chain of revisions.
\<close>

section \<open>Who writes the current review\<close>

fun review_fact :: "lifecycle_fact \<Rightarrow> bool" where
  "review_fact (ReviewRecorded i) = True"
| "review_fact (ReviewRevised i supersedes) = True"
| "review_fact _ = False"

fun review_event :: "trade_event \<Rightarrow> bool" where
  "review_event (TicketIssued h k) = False"
| "review_event (TicketEvent h t f) = review_fact f"

lemma review_id_kept: "reduce_fact b h f = Inr (b', fx) \<Longrightarrow> \<not> review_fact f \<Longrightarrow> ag_review_id b' = ag_review_id b"
  by (cases f) (auto simp: step_simps clear_cleanup_order_def Let_def split: step_splits if_split_asm)

lemma as_stored_review [simp]: "ag_review_id (as_stored b) = ag_review_id b"
  by (simp add: as_stored_def loaded_with_def)

text \<open>No Ticket is lost and no current review changes.\<close>

definition reviews_kept :: "kernel_store \<Rightarrow> kernel_store \<Rightarrow> bool" where
  "reviews_kept s s' \<longleftrightarrow> (\<forall>t. case stored t s of
     Some a \<Rightarrow> (\<exists>a'. stored t s' = Some a' \<and> ag_review_id a' = ag_review_id a)
   | None \<Rightarrow> (\<forall>a'. stored t s' = Some a' \<longrightarrow> ag_review_id a' = None))"

lemma reviews_kept_same: "(\<And>t. stored t s' = stored t s) \<Longrightarrow> reviews_kept s s'"
  by (simp add: reviews_kept_def split: option.split)

lemma step_keeps_reviews:
  assumes "reachable_store s" "kernel_step s s'" "filter review_event (ks_events s') = filter review_event (ks_events s)"
  shows "reviews_kept s s'"
  using assms(2)
proof cases
  case (issue q q' A status)
  have lane: "stored t (fst (lock_global_lane s)) = stored t s" for t
    unfolding lock_global_lane_writes by (rule stored_cong) simp_all
  from issue(2) show ?thesis
  proof (cases rule: issue_ticket_cases)
    case (refused k)
    then show ?thesis using lane by (intro reviews_kept_same) simp
  next
    case (issued k)
    let ?new = "new_aggregate k (if tk_leverage_change_required k then LEVERAGE_PENDING else ENTRY_PENDING) 1 1"
    have st: "\<And>u. stored u s' = (if u = ticket_key k then Some ?new else stored u (fst (lock_global_lane s)))"
        "ticket_key k \<notin> set (map row_ticket_id (ks_tickets (fst (lock_global_lane s))))"
      using issue_stages[OF issued(7)] by metis+
    have "stored (ticket_key k) s = None" using stored_absent[OF st(2)] lane by simp
    moreover have "ag_review_id ?new = None" by (simp add: new_aggregate_def)
    ultimately show ?thesis by (auto simp: reviews_kept_def st(1) lane split: option.split)
  qed
next
  case (commit t a e r)
  obtain a1 fx where r: "r = (a1, fx)" by (cases r)
  have a: "stored t s = Some a" using commit(1) by (simp add: loaded_stored)
  obtain b b' h f where b: "a = as_stored b" "e = TicketEvent h t f" "reduce_fact b h f = Inr (b', fx)"
      "\<And>u. stored u s' = (if u = t then Some (as_stored b') else stored u s)"
    using commit_step[OF reachable_log[OF assms(1)] a commit(2) commit(3)[unfolded r] commit(4)[unfolded r]] by metis
  have "ag_version a \<noteq> 0" using log_ok_facts[OF reachable_log[OF assms(1)] a] by (metis length_greater_0_conv less_irrefl of_nat_0_eq_iff)
  then have "ks_events s' = ks_events s @ [e]" using commit_later(1)[OF commit(4)[unfolded r]] by blast
  then have "\<not> review_fact f" using assms(3) b(2) by auto
  then have "ag_review_id b' = ag_review_id b" using review_id_kept[OF b(3)] by blast
  then show ?thesis using a b(1) by (auto simp: reviews_kept_def b(4) split: option.split)
next
  case worker
  then show ?thesis by (intro reviews_kept_same) (simp add: stored_def worker_aggregate)
qed

lemma settle_ticket_step: "settle_ticket q s = Inr s' \<Longrightarrow> kernel_step s s'"
  by (auto simp: settle_ticket_def existing_aggregate_iff intro: commit_fact_step)

section \<open>The chain of revisions\<close>

text \<open>Every revision down to the first one is there, so the last one counts them.\<close>

lemma chain_down:
  assumes "review_chain rows" "v \<in> set rows" "0 < n" "n \<le> tv_revision v"
  shows "\<exists>r\<in>set rows. tv_ticket_id r = tv_ticket_id v \<and> tv_revision r = n"
  using assms(2,4)
proof (induction "nat (tv_revision v - n)" arbitrary: v)
  case 0
  then show ?case by auto
next
  case (Suc k)
  have "linked_to_predecessor rows v" using assms(1) Suc.prems(1) by (simp add: review_chain_def)
  moreover have "tv_revision v \<noteq> 1" using Suc.hyps(2) assms(3) Suc.prems(2) by linarith
  ultimately obtain p where p: "p \<in> set rows" "tv_ticket_id p = tv_ticket_id v" "tv_revision v = tv_revision p + 1"
    by (auto simp: linked_to_predecessor_def split: option.splits)
  then have "k = nat (tv_revision p - n)" "n \<le> tv_revision p" using Suc.hyps(2) Suc.prems(2) by linarith+
  then show ?case using Suc.hyps(1)[of p] p by metis
qed

lemma chain_count:
  assumes "review_chain rows" "v \<in> set rows" "\<forall>r\<in>set rows. tv_ticket_id r = tv_ticket_id v \<longrightarrow> tv_revision r \<le> tv_revision v"
  shows "tv_revision v = int (length (filter (\<lambda>r. tv_ticket_id r = tv_ticket_id v) rows))"
proof -
  let ?own = "filter (\<lambda>r. tv_ticket_id r = tv_ticket_id v) rows"
  have "0 < tv_revision r" if "r \<in> set rows" for r
    using assms(1) that by (auto simp: review_chain_def linked_to_predecessor_def)
  moreover have "n \<in> tv_revision ` set ?own" if n: "1 \<le> n" "n \<le> tv_revision v" for n
  proof -
    obtain r where "r \<in> set rows" "tv_ticket_id r = tv_ticket_id v" "tv_revision r = n"
      using chain_down[OF assms(1,2), of n] n by auto
    then show ?thesis by (intro image_eqI[of _ _ r]) auto
  qed
  ultimately have "tv_revision ` set ?own = {1..tv_revision v}" using assms(3) by (auto simp: int_one_le_iff_zero_less)
  moreover have "card (tv_revision ` set ?own) = length ?own"
  proof -
    have d: "distinct (map (\<lambda>r. (tv_ticket_id r, tv_revision r)) rows)" using assms(1) by (simp add: review_chain_def)
    then have "inj_on tv_revision (set ?own)" by (auto simp: distinct_map inj_on_def)
    moreover have "card (set ?own) = length ?own" by (rule distinct_card) (use d in \<open>simp add: distinct_map\<close>)
    ultimately show ?thesis by (simp only: card_image)
  qed
  moreover have "0 < tv_revision v" using assms(1,2) by (auto simp: review_chain_def linked_to_predecessor_def)
  ultimately show ?thesis by simp
qed

section \<open>The current review\<close>

text \<open>
  The transactions that touch reviews, among all others. A step of another service is a kernel step that commits no
  review event: only \<open>settle_ticket.py\<close> builds them.
\<close>

inductive review_step :: "review_store \<Rightarrow> review_store \<Rightarrow> bool" where
  recorded: "record_trade_review q d = Inr d' \<Longrightarrow> review_step d d'"
| revised: "revise_trade_review q supersedes d = Inr d' \<Longrightarrow> review_step d d'"
| other: "kernel_step (rv_kernel d) s \<Longrightarrow> filter review_event (ks_events s) = filter review_event (ks_events (rv_kernel d))
    \<Longrightarrow> review_step d (d\<lparr>rv_kernel := s\<rparr>)"

inductive reachable_reviews :: "review_store \<Rightarrow> bool" where
  start: "reachable_reviews \<lparr>rv_kernel = empty_store, rv_reviews = []\<rparr>"
| step: "reachable_reviews d \<Longrightarrow> review_step d d' \<Longrightarrow> reachable_reviews d'"

definition is_last_review :: "string \<Rightarrow> trade_review list \<Rightarrow> trade_review \<Rightarrow> bool" where
  "is_last_review t rows r \<longleftrightarrow> r \<in> set rows \<and> tv_ticket_id r = t
     \<and> (\<forall>r'\<in>set rows. tv_ticket_id r' = t \<longrightarrow> tv_revision r' \<le> tv_revision r)"

definition names_current :: "trade_review list \<Rightarrow> string \<Rightarrow> trade_aggregate \<Rightarrow> bool" where
  "names_current rows t a \<longleftrightarrow> (case ag_review_id a of
     None \<Rightarrow> \<forall>r\<in>set rows. tv_ticket_id r \<noteq> t
   | Some i \<Rightarrow> \<exists>r. is_last_review t rows r \<and> tv_review_id r = i)"

definition reviews_current :: "review_store \<Rightarrow> bool" where
  "reviews_current d \<longleftrightarrow> reachable_store (rv_kernel d) \<and> review_chain (rv_reviews d)
     \<and> (\<forall>r\<in>set (rv_reviews d). stored (tv_ticket_id r) (rv_kernel d) \<noteq> None)
     \<and> (\<forall>t a. stored t (rv_kernel d) = Some a \<longrightarrow> names_current (rv_reviews d) t a)"

lemma current_other:
  assumes "reviews_current d" "kernel_step (rv_kernel d) s" "reviews_kept (rv_kernel d) s"
  shows "reviews_current (d\<lparr>rv_kernel := s\<rparr>)"
proof -
  have kept: "\<exists>a'. stored t s = Some a' \<and> ag_review_id a' = ag_review_id a" if "stored t (rv_kernel d) = Some a" for t a
    using assms(3)[unfolded reviews_kept_def, THEN spec, of t] by (simp add: that)
  have fresh: "ag_review_id a' = None" if "stored t (rv_kernel d) = None" "stored t s = Some a'" for t a'
    using assms(3)[unfolded reviews_kept_def, THEN spec, of t] by (simp add: that)
  have "names_current (rv_reviews d) t a'" if "stored t s = Some a'" for t a'
  proof (cases "stored t (rv_kernel d)")
    case None
    then show ?thesis using fresh[OF None that] assms(1) by (auto simp: reviews_current_def names_current_def)
  next
    case (Some a)
    then show ?thesis using kept[OF Some] that assms(1) by (auto simp: reviews_current_def names_current_def)
  qed
  moreover have "\<forall>r\<in>set (rv_reviews d). stored (tv_ticket_id r) s \<noteq> None"
    using assms(1) kept by (force simp: reviews_current_def)
  ultimately show ?thesis
    using assms(1,2) by (auto simp: reviews_current_def intro: reachable_store.step)
qed

lemma stored_ticket_stripped:
  assumes "reachable_store s" "stored t s = Some a"
  shows "py_strip t = t"
proof -
  obtain b fx where b: "history b (log_of t s) fx" "a = as_stored b" "ag_identity b = tk_identity (ag_ticket b)" "agg_ticket_id a = t"
    using log_ok_facts[OF reachable_log[OF assms(1)] assms(2)] .
  then have "valid_ticket (ag_ticket b)" "agg_ticket_id b = t" using lc.history_inv[OF b(1)] by (simp_all add: as_stored_def)
  then show ?thesis using valid_ticket_id b(3) by metis
qed

text \<open>A review event written by the service, after the row of its review.\<close>

lemma added_review:
  assumes "add_review q revision supersedes d = Inr d1" "py_strip (wq_ticket_id q) = wq_ticket_id q"
  obtains v where "rv_reviews d1 = rv_reviews d @ [v]" "rv_kernel d1 = rv_kernel d" "tv_review_id v = py_strip (wq_review_id q)"
    "tv_ticket_id v = wq_ticket_id q" "tv_revision v = revision"
    "\<forall>r\<in>set (rv_reviews d). \<not> (tv_ticket_id r = wq_ticket_id q \<and> tv_revision r = revision)"
  using assms by (auto simp: add_review_def mk_trade_review_def Let_def reviews_add_def split: if_split_asm option.split_asm)

lemma current_review_written:
  assumes "reviews_current d" "stored (wq_ticket_id q) (rv_kernel d) = Some a" "add_review q revision supersedes d = Inr d1"
    "commit_fact a n f (rv_kernel d1) = Inr s"
    "f = ReviewRecorded (wq_review_id q) \<or> f = ReviewRevised (wq_review_id q) superseded"
    "review_chain (rv_reviews d1)" "\<forall>r\<in>set (rv_reviews d). tv_ticket_id r = wq_ticket_id q \<longrightarrow> tv_revision r < revision"
  shows "reviews_current (d1\<lparr>rv_kernel := s\<rparr>)"
proof -
  let ?t = "wq_ticket_id q"
  have reach: "reachable_store (rv_kernel d)" using assms(1) by (simp add: reviews_current_def)
  have k: "rv_kernel d1 = rv_kernel d" using assms(3) by (auto simp: add_review_def)
  obtain b b' h fx where b: "a = as_stored b" "reduce_fact b h f = Inr (b', fx)" "valid_ticket (ag_ticket b)" "agg_ticket_id b = ?t"
      "ag_identity b = tk_identity (ag_ticket b)" "\<And>u. stored u s = (if u = ?t then Some (as_stored b') else stored u (rv_kernel d))"
    using commit_fact_stored[OF reach assms(2) assms(4)[unfolded k]] by metis
  have strip: "py_strip ?t = ?t" using valid_ticket_id[OF b(3)] b(4,5) by simp
  obtain v where v: "rv_reviews d1 = rv_reviews d @ [v]" "tv_review_id v = py_strip (wq_review_id q)" "tv_ticket_id v = ?t"
      "tv_revision v = revision"
    using added_review[OF assms(3) strip] by metis
  have "ag_review_id b' = Some (py_strip (wq_review_id q))" using b(2) assms(5) by (auto simp: step_simps split: step_splits)
  moreover have "is_last_review ?t (rv_reviews d1) v" using assms(7) by (auto simp: is_last_review_def v)
  ultimately have own: "names_current (rv_reviews d1) ?t (as_stored b')" using v(2) by (auto simp: names_current_def)
  have others: "names_current (rv_reviews d1) u x" if "stored u (rv_kernel d) = Some x" "u \<noteq> ?t" for u x
  proof -
    have "names_current (rv_reviews d) u x" using assms(1) that(1) by (simp add: reviews_current_def)
    then show ?thesis using that(2) v(1,3) by (auto simp: names_current_def is_last_review_def split: option.splits)
  qed
  have "kernel_step (rv_kernel d) s"
    using commit_fact_step[of ?t "rv_kernel d" a n f s] assms(2,4) by (simp add: loaded_stored k)
  then have "reachable_store s" using reach reachable_store.step by blast
  moreover have "\<forall>r\<in>set (rv_reviews d1). stored (tv_ticket_id r) s \<noteq> None"
    using assms(1) by (auto simp: v(1,3) b(6) reviews_current_def)
  moreover have "names_current (rv_reviews d1) u x" if "stored u s = Some x" for u x
    using that own others by (cases "u = ?t") (simp_all add: b(6))
  ultimately show ?thesis using assms(6) by (simp add: reviews_current_def)
qed

lemma current_step:
  assumes "reviews_current d" "review_step d d'"
  shows "reviews_current d'"
  using assms(2)
proof cases
  case (recorded q)
  obtain a d1 s where r: "stored (wq_ticket_id q) (rv_kernel d) = Some a" "add_review q 1 None d = Inr d1"
      "commit_fact a (wq_recorded_at_ms q) (ReviewRecorded (wq_review_id q)) (rv_kernel d1) = Inr s" "d' = d1\<lparr>rv_kernel := s\<rparr>"
    using recorded by (auto simp: record_trade_review_def existing_aggregate_iff loaded_stored)
  have chain: "review_chain (rv_reviews d)" using assms(1) by (simp add: reviews_current_def)
  have strip: "py_strip (wq_ticket_id q) = wq_ticket_id q" using stored_ticket_stripped[OF _ r(1)] assms(1) by (simp add: reviews_current_def)
  have "\<forall>r\<in>set (rv_reviews d). \<not> (tv_ticket_id r = wq_ticket_id q \<and> tv_revision r = 1)"
    using added_review[OF r(2) strip] by metis
  moreover have "0 < tv_revision r" if "r \<in> set (rv_reviews d)" for r
    using chain that by (auto simp: review_chain_def linked_to_predecessor_def)
  ultimately have "\<forall>r\<in>set (rv_reviews d). tv_ticket_id r \<noteq> wq_ticket_id q"
    using chain_down[OF chain, of _ 1] by fastforce
  then show ?thesis
    unfolding r(4)
    using current_review_written[OF assms(1) r(1-3) _ add_review_chain[OF chain r(2)]] by auto
next
  case (revised q supersedes)
  obtain a p d1 s where r: "stored (wq_ticket_id q) (rv_kernel d) = Some a" "ag_review_id a = Some supersedes"
      "reviews_get supersedes (rv_reviews d) = Some p" "tv_ticket_id p = wq_ticket_id q"
      "add_review q (tv_revision p + 1) (Some (tv_review_id p)) d = Inr d1"
      "commit_fact a (wq_recorded_at_ms q) (ReviewRevised (wq_review_id q) supersedes) (rv_kernel d1) = Inr s" "d' = d1\<lparr>rv_kernel := s\<rparr>"
    using revised by (auto simp: revise_trade_review_def existing_aggregate_iff loaded_stored split: if_split_asm option.split_asm)
  have chain: "review_chain (rv_reviews d)" using assms(1) by (simp add: reviews_current_def)
  have p: "p \<in> set (rv_reviews d)" "tv_review_id p = supersedes" using r(3) find_Some_set unfolding reviews_get_def by fast+
  obtain l where l: "is_last_review (wq_ticket_id q) (rv_reviews d) l" "tv_review_id l = supersedes"
    using assms(1)[unfolded reviews_current_def] r(1,2) unfolding names_current_def by fastforce
  have "l = p" using chain p l by (auto simp: review_chain_def is_last_review_def distinct_map inj_on_def)
  then have last: "\<forall>x\<in>set (rv_reviews d). tv_ticket_id x = wq_ticket_id q \<longrightarrow> tv_revision x < tv_revision p + 1"
    using l(1) by (auto simp: is_last_review_def)
  have "review_chain (rv_reviews d1)" by (rule add_review_chain[OF chain r(5)]) (use p(1) r(4) in auto)
  then show ?thesis
    unfolding r(7) using current_review_written[OF assms(1) r(1) r(5,6) _ _ last] by blast
next
  case (other s)
  then show ?thesis using current_other[OF assms(1)] step_keeps_reviews[of "rv_kernel d" s] assms(1) by (simp add: reviews_current_def)
qed

lemma reachable_current: "reachable_reviews d \<Longrightarrow> reviews_current d"
proof (induction rule: reachable_reviews.induct)
  case start
  have "stored t empty_store = None" for t by (simp add: stored_lookup empty_store_def)
  then show ?case by (simp add: reviews_current_def reachable_store.start review_chain_def)
qed (rule current_step)

text \<open>
  C32. The current review of a Ticket is the last of a gapless chain. Under any interleaving of recording and revising
  reviews with every other transaction, a Ticket without a current review has no review at all, and otherwise the
  review its aggregate names is in the table, belongs to the Ticket, and carries as its revision the number of reviews
  of the Ticket; each later revision supersedes the one before it.
\<close>

theorem current_review_is_latest:
  assumes "reachable_reviews d" "aggregates_get t (rv_kernel d) = Inr (Some a)"
  shows "reachable_store (rv_kernel d) \<and> review_chain (rv_reviews d)
    \<and> (case ag_review_id a of
         None \<Rightarrow> filter (\<lambda>r. tv_ticket_id r = t) (rv_reviews d) = []
       | Some i \<Rightarrow> (\<exists>r. reviews_get i (rv_reviews d) = Some r \<and> tv_ticket_id r = t
           \<and> tv_revision r = int (length (filter (\<lambda>r. tv_ticket_id r = t) (rv_reviews d)))))"
proof -
  have c: "reachable_store (rv_kernel d)" "review_chain (rv_reviews d)" "names_current (rv_reviews d) t a"
    using reachable_current[OF assms(1)] assms(2) by (simp_all add: reviews_current_def loaded_stored)
  have "\<exists>r. reviews_get i (rv_reviews d) = Some r \<and> tv_ticket_id r = t
      \<and> tv_revision r = int (length (filter (\<lambda>r. tv_ticket_id r = t) (rv_reviews d)))" if i: "ag_review_id a = Some i" for i
  proof -
    obtain r where r: "r \<in> set (rv_reviews d)" "tv_ticket_id r = t" "tv_review_id r = i"
        "\<forall>x\<in>set (rv_reviews d). tv_ticket_id x = t \<longrightarrow> tv_revision x \<le> tv_revision r"
      using c(3) i by (auto simp: names_current_def is_last_review_def)
    have "reviews_get i (rv_reviews d) = Some r"
      using c(2) r(1,3) by (simp add: reviews_get_def find_distinct review_chain_def)
    then show ?thesis using chain_count[OF c(2) r(1)] r(2,4) by auto
  qed
  moreover have "filter (\<lambda>r. tv_ticket_id r = t) (rv_reviews d) = []" if "ag_review_id a = None"
    using c(3) that by (simp add: names_current_def filter_empty_conv)
  ultimately show ?thesis using c(1,2) by (simp split: option.split)
qed

theorem current_review_is_latest_witness:
  "reachable_reviews \<lparr>rv_kernel = demo_store, rv_reviews = []\<rparr> \<and> reachable_store demo_store
    \<and> aggregates_get ''t'' demo_store = Inr (Some (new_aggregate demo_ct ENTRY_PENDING 1 1))
    \<and> (\<exists>h. revise_trade_review \<lparr>wq_ticket_id = ''t'', wq_review_id = ''v'', wq_outcome = [], wq_metrics = [],
          wq_decision_impact = [], wq_recorded_at_ms = 1\<rparr> ''u'' \<lparr>rv_kernel = demo_store, rv_reviews = []\<rparr> = Inl h)"
proof -
  let ?d = "\<lparr>rv_kernel = demo_store, rv_reviews = []\<rparr>" and ?a = "new_aggregate demo_ct ENTRY_PENDING 1 1"
  have "filter review_event (ks_events demo_store) = []" "ks_events empty_store = []"
    by (simp_all add: demo_store_def empty_store_def issue_event_def)
  then have "review_step \<lparr>rv_kernel = empty_store, rv_reviews = []\<rparr> ?d"
    using review_step.other[of "\<lparr>rv_kernel = empty_store, rv_reviews = []\<rparr>" demo_store] kernel_step.issue[OF demo_issue_valid demo_issued]
    by simp
  then have reach: "reachable_reviews ?d" using reachable_reviews.start reachable_reviews.step by blast
  have load: "aggregates_get ''t'' demo_store = Inr (Some ?a)"
    by (simp add: aggregates_get_def tickets_get_def demo_store_def demo_ct_sel new_aggregate_def)
  have "ag_status ?a = ENTRY_PENDING" by (simp add: new_aggregate_def)
  then show ?thesis
    using current_review_is_latest[OF reach, of "''t''" ?a] load reach
    by (simp add: revise_trade_review_def existing_aggregate_def)
qed

end
