(* ===== verification/Strategy_Registry.thy ===== *)
theory Strategy_Registry
  imports Ticket Py_Digest "HOL-Library.Multiset"
begin

text \<open>
  \<open>domain/strategy_registry.py\<close>: the contracts of the registered strategy Events, their validators and the registry
  itself, which is a constant of the code. An identity that a validator strips is valid when it is its own stripped form.
\<close>

section \<open>Contracts\<close>

datatype fact_value_type = FACT_BOOLEAN | FACT_DECIMAL

datatype fact_role =
    FR_CONDITION | FR_PROTECTION_REFERENCE | FR_IDENTITY_REFERENCE | FR_LIFECYCLE_REFERENCE | FR_DISABLE

datatype bar_timeframe = M15 | H1

datatype episode_policy = RISING_EDGE | SESSION_REFERENCE

record fact_requirement =
  rq_fact_definition_id :: string
  rq_fact_name :: string
  rq_value_type :: fact_value_type
  rq_role :: fact_role
  rq_freshness_ms :: int

record strategy_contract =
  sc_strategy_group_id :: string
  sc_strategy_version_id :: string
  sc_event_spec_id :: string
  sc_event_id :: string
  sc_position_side :: position_side
  sc_timeframe :: bar_timeframe
  sc_freshness_window_ms :: int
  sc_entry_order_type :: entry_order_type
  sc_episode_policy :: episode_policy
  sc_exposure_family :: exposure_family
  sc_shadow_horizon_bars :: int
  sc_protection_reference_fact :: string
  sc_pre_tp1_reclaim_reference_fact :: "string option"
  sc_exposure_session_end_reference_fact :: "string option"
  sc_required_facts :: "fact_requirement list"
  sc_disable_facts :: "fact_requirement list"
  sc_exit_policy_id :: string
  sc_active :: bool

fun fact_role_value :: "fact_role \<Rightarrow> string" where
  "fact_role_value FR_CONDITION = ''condition''"
| "fact_role_value FR_PROTECTION_REFERENCE = ''protection_reference''"
| "fact_role_value FR_IDENTITY_REFERENCE = ''identity_reference''"
| "fact_role_value FR_LIFECYCLE_REFERENCE = ''lifecycle_reference''"
| "fact_role_value FR_DISABLE = ''disable''"

fun timeframe_value :: "bar_timeframe \<Rightarrow> string" where
  "timeframe_value M15 = ''15m''"
| "timeframe_value H1 = ''1h''"

section \<open>Validators\<close>

definition is_identity :: "string \<Rightarrow> bool" where
  "is_identity s \<longleftrightarrow> s \<noteq> [] \<and> py_strip s = s"

definition valid_fact_requirement :: "fact_requirement \<Rightarrow> bool" where
  "valid_fact_requirement r \<longleftrightarrow>
     is_identity (rq_fact_definition_id r) \<and> is_identity (rq_fact_name r) \<and> 0 < rq_freshness_ms r
     \<and> (if rq_role r \<in> {FR_PROTECTION_REFERENCE, FR_IDENTITY_REFERENCE, FR_LIFECYCLE_REFERENCE}
        then rq_value_type r = FACT_DECIMAL else rq_value_type r = FACT_BOOLEAN)"

text \<open>The version digits of \<open>sgv:<group>:v<version>\<close>, if the identity has this form.\<close>

definition is_positive_numeral :: "string \<Rightarrow> bool" where
  "is_positive_numeral s \<longleftrightarrow>
     (case s of [] \<Rightarrow> False | c # cs \<Rightarrow> c \<in> set ''123456789'' \<and> list_all (\<lambda>x. x \<in> set ''0123456789'') cs)"

definition strategy_version_text :: "string \<Rightarrow> string \<Rightarrow> string option" where
  "strategy_version_text strategy_group_id strategy_version_id =
     (let prefix = ''sgv:'' @ strategy_group_id @ '':v''; version = drop (length prefix) strategy_version_id
      in if py_startswith strategy_version_id prefix \<and> is_positive_numeral version then Some version else None)"

definition fact_named :: "strategy_contract \<Rightarrow> string \<Rightarrow> fact_requirement option" where
  "fact_named c fact_name = List.find (\<lambda>r. rq_fact_name r = fact_name) (sc_required_facts c)"

definition is_lifecycle_reference :: "strategy_contract \<Rightarrow> string option \<Rightarrow> bool" where
  "is_lifecycle_reference c fact_name =
     (case fact_name of None \<Rightarrow> False | Some n \<Rightarrow>
        (case fact_named c n of None \<Rightarrow> False | Some r \<Rightarrow> rq_role r = FR_LIFECYCLE_REFERENCE))"

definition required_fact_names :: "strategy_contract \<Rightarrow> string list" where
  "required_fact_names c = map rq_fact_name (sc_required_facts c)"

definition disable_fact_names :: "strategy_contract \<Rightarrow> string list" where
  "disable_fact_names c = map rq_fact_name (sc_disable_facts c)"

definition names_of_role :: "fact_role \<Rightarrow> strategy_contract \<Rightarrow> string list" where
  "names_of_role r c = map rq_fact_name (filter (\<lambda>f. rq_role f = r) (sc_required_facts c))"

definition valid_contract_identities :: "strategy_contract \<Rightarrow> bool" where
  "valid_contract_identities c \<longleftrightarrow>
     is_identity (sc_strategy_group_id c) \<and> is_identity (sc_strategy_version_id c) \<and> is_identity (sc_event_spec_id c)
     \<and> is_identity (sc_event_id c) \<and> is_identity (sc_protection_reference_fact c) \<and> is_identity (sc_exit_policy_id c)
     \<and> (case sc_pre_tp1_reclaim_reference_fact c of None \<Rightarrow> True | Some n \<Rightarrow> is_identity n)
     \<and> (case sc_exposure_session_end_reference_fact c of None \<Rightarrow> True | Some n \<Rightarrow> is_identity n)
     \<and> 0 < sc_freshness_window_ms c \<and> 0 < sc_shadow_horizon_bars c
     \<and> (case strategy_version_text (sc_strategy_group_id c) (sc_strategy_version_id c) of
          None \<Rightarrow> False
        | Some version \<Rightarrow>
            sc_event_spec_id c = ''event_spec:'' @ sc_strategy_group_id c @ '':'' @ sc_event_id c @ '':v'' @ version)"

definition valid_contract_facts :: "strategy_contract \<Rightarrow> bool" where
  "valid_contract_facts c \<longleftrightarrow>
     list_all valid_fact_requirement (sc_required_facts c @ sc_disable_facts c)
     \<and> required_fact_names c \<noteq> [] \<and> distinct (required_fact_names c) \<and> distinct (disable_fact_names c)
     \<and> list_all (\<lambda>n. \<not> list_ex (\<lambda>x. x = n) (disable_fact_names c)) (required_fact_names c)
     \<and> list_all (\<lambda>r. rq_role r \<noteq> FR_DISABLE) (sc_required_facts c)
     \<and> list_all (\<lambda>r. rq_role r = FR_DISABLE) (sc_disable_facts c)
     \<and> names_of_role FR_PROTECTION_REFERENCE c = [sc_protection_reference_fact c]
     \<and> (if sc_episode_policy c = SESSION_REFERENCE then length (names_of_role FR_IDENTITY_REFERENCE c) = 1
        else names_of_role FR_IDENTITY_REFERENCE c = [])
     \<and> (sc_pre_tp1_reclaim_reference_fact c = None) = (sc_exposure_session_end_reference_fact c = None)
     \<and> (sc_pre_tp1_reclaim_reference_fact c = None
        \<or> is_lifecycle_reference c (sc_pre_tp1_reclaim_reference_fact c)
          \<and> is_lifecycle_reference c (sc_exposure_session_end_reference_fact c))
     \<and> list_all (\<lambda>r. rq_freshness_ms r = sc_freshness_window_ms c) (sc_required_facts c @ sc_disable_facts c)"

definition valid_strategy_contract :: "strategy_contract \<Rightarrow> bool" where
  "valid_strategy_contract c \<longleftrightarrow> valid_contract_identities c \<and> valid_contract_facts c"

section \<open>The registered Events\<close>

definition registry_fact :: "string \<Rightarrow> fact_role \<Rightarrow> int \<Rightarrow> nat \<Rightarrow> fact_requirement" where
  "registry_fact fact_name role freshness_ms fact_version =
     \<lparr>rq_fact_definition_id = ''fact:'' @ fact_name @ '':v'' @ show_nat fact_version, rq_fact_name = fact_name,
      rq_value_type = (if role = FR_CONDITION \<or> role = FR_DISABLE then FACT_BOOLEAN else FACT_DECIMAL),
      rq_role = role, rq_freshness_ms = freshness_ms\<rparr>"

text \<open>The keyword arguments of \<open>_contract\<close>; an omitted optional argument is its default here too.\<close>

record contract_terms =
  ct_facts :: "(string \<times> fact_role) list"
  ct_protection_reference_fact :: string
  ct_pre_tp1_reclaim_reference_fact :: "string option"
  ct_exposure_session_end_reference_fact :: "string option"
  ct_disable_fact_names :: "string list"
  ct_episode_policy :: episode_policy
  ct_exposure_family :: exposure_family
  ct_shadow_horizon_bars :: int
  ct_semantic_version :: nat
  ct_fact_version :: nat
  ct_exit_policy_variant :: string

definition registry_contract :: "string \<Rightarrow> string \<Rightarrow> position_side \<Rightarrow> bar_timeframe \<Rightarrow> contract_terms \<Rightarrow> strategy_contract" where
  "registry_contract strategy_group_id event_id side timeframe t =
     (let freshness_window_ms = (if timeframe = M15 then 900000 else 3600000)
      in \<lparr>sc_strategy_group_id = strategy_group_id,
          sc_strategy_version_id = ''sgv:'' @ strategy_group_id @ '':v'' @ show_nat (ct_semantic_version t),
          sc_event_spec_id = ''event_spec:'' @ strategy_group_id @ '':'' @ event_id @ '':v'' @ show_nat (ct_semantic_version t),
          sc_event_id = event_id, sc_position_side = side, sc_timeframe = timeframe,
          sc_freshness_window_ms = freshness_window_ms, sc_entry_order_type = MARKET,
          sc_episode_policy = ct_episode_policy t, sc_exposure_family = ct_exposure_family t,
          sc_shadow_horizon_bars = ct_shadow_horizon_bars t,
          sc_protection_reference_fact = ct_protection_reference_fact t,
          sc_pre_tp1_reclaim_reference_fact = ct_pre_tp1_reclaim_reference_fact t,
          sc_exposure_session_end_reference_fact = ct_exposure_session_end_reference_fact t,
          sc_required_facts = map (\<lambda>(n, r). registry_fact n r freshness_window_ms (ct_fact_version t)) (ct_facts t),
          sc_disable_facts = map (\<lambda>n. registry_fact n FR_DISABLE freshness_window_ms (ct_fact_version t)) (ct_disable_fact_names t),
          sc_exit_policy_id = ''exit-policy:'' @ strategy_group_id @ '':'' @ event_id @ '':'' @ ct_exit_policy_variant t,
          sc_active = True\<rparr>)"

definition cpm_long_contract :: strategy_contract where
  "cpm_long_contract =
     registry_contract ''CPM-RO-001'' ''CPM-LONG'' Long H1
       \<lparr>ct_facts =
         [(''htf_trend_intact'', FR_CONDITION),
          (''reclaim_confirmed'', FR_CONDITION),
          (''pullback_low_reference'', FR_PROTECTION_REFERENCE)],
        ct_protection_reference_fact = ''pullback_low_reference'',
        ct_pre_tp1_reclaim_reference_fact = None,
        ct_exposure_session_end_reference_fact = None, ct_disable_fact_names = [],
        ct_episode_policy = RISING_EDGE, ct_exposure_family = long_continuation, ct_shadow_horizon_bars = 24,
        ct_semantic_version = 3, ct_fact_version = 1, ct_exit_policy_variant = ''portfolio-admission-v1''\<rparr>"

definition mpg_long_contract :: strategy_contract where
  "mpg_long_contract =
     registry_contract ''MPG-001'' ''MPG-LONG'' Long H1
       \<lparr>ct_facts =
         [(''momentum_persistence_confirmed'', FR_CONDITION),
          (''leader_strength_confirmed'', FR_CONDITION),
          (''momentum_floor_reference'', FR_PROTECTION_REFERENCE)],
        ct_protection_reference_fact = ''momentum_floor_reference'',
        ct_pre_tp1_reclaim_reference_fact = None,
        ct_exposure_session_end_reference_fact = None, ct_disable_fact_names = [],
        ct_episode_policy = RISING_EDGE, ct_exposure_family = long_continuation, ct_shadow_horizon_bars = 24,
        ct_semantic_version = 3, ct_fact_version = 1, ct_exit_policy_variant = ''portfolio-admission-v1''\<rparr>"

definition mi_long_contract :: strategy_contract where
  "mi_long_contract =
     registry_contract ''MI-001'' ''MI-LONG'' Long H1
       \<lparr>ct_facts =
         [(''impulse_confirmed'', FR_CONDITION),
          (''relative_strength_confirmed'', FR_CONDITION),
          (''impulse_invalidation_reference'', FR_PROTECTION_REFERENCE)],
        ct_protection_reference_fact = ''impulse_invalidation_reference'',
        ct_pre_tp1_reclaim_reference_fact = None,
        ct_exposure_session_end_reference_fact = None, ct_disable_fact_names = [],
        ct_episode_policy = RISING_EDGE, ct_exposure_family = long_continuation, ct_shadow_horizon_bars = 24,
        ct_semantic_version = 3, ct_fact_version = 1, ct_exit_policy_variant = ''portfolio-admission-v1''\<rparr>"

definition sor_long_contract :: strategy_contract where
  "sor_long_contract =
     registry_contract ''SOR-001'' ''SOR-LONG'' Long M15
       \<lparr>ct_facts =
         [(''opening_range_defined_v3'', FR_CONDITION),
          (''breakout_edge_crossed_v3'', FR_CONDITION),
          (''opening_range_high_reference_v3'', FR_LIFECYCLE_REFERENCE),
          (''opening_range_low_reference_v3'', FR_PROTECTION_REFERENCE),
          (''session_start_ms_v3'', FR_IDENTITY_REFERENCE),
          (''session_end_ms_v3'', FR_LIFECYCLE_REFERENCE)],
        ct_protection_reference_fact = ''opening_range_low_reference_v3'',
        ct_pre_tp1_reclaim_reference_fact = Some ''opening_range_high_reference_v3'',
        ct_exposure_session_end_reference_fact = Some ''session_end_ms_v3'', ct_disable_fact_names = [],
        ct_episode_policy = SESSION_REFERENCE, ct_exposure_family = opening_range, ct_shadow_horizon_bars = 96,
        ct_semantic_version = 4, ct_fact_version = 3, ct_exit_policy_variant = ''portfolio-admission-v1''\<rparr>"

definition sor_short_contract :: strategy_contract where
  "sor_short_contract =
     registry_contract ''SOR-001'' ''SOR-SHORT'' Short M15
       \<lparr>ct_facts =
         [(''opening_range_defined_v3'', FR_CONDITION),
          (''breakdown_edge_crossed_v3'', FR_CONDITION),
          (''opening_range_low_reference_v3'', FR_LIFECYCLE_REFERENCE),
          (''opening_range_high_reference_v3'', FR_PROTECTION_REFERENCE),
          (''session_start_ms_v3'', FR_IDENTITY_REFERENCE),
          (''session_end_ms_v3'', FR_LIFECYCLE_REFERENCE)],
        ct_protection_reference_fact = ''opening_range_high_reference_v3'',
        ct_pre_tp1_reclaim_reference_fact = Some ''opening_range_low_reference_v3'',
        ct_exposure_session_end_reference_fact = Some ''session_end_ms_v3'', ct_disable_fact_names = [],
        ct_episode_policy = SESSION_REFERENCE, ct_exposure_family = opening_range, ct_shadow_horizon_bars = 96,
        ct_semantic_version = 4, ct_fact_version = 3, ct_exit_policy_variant = ''portfolio-admission-v1''\<rparr>"

definition brf2_short_contract :: strategy_contract where
  "brf2_short_contract =
     registry_contract ''BRF2-001'' ''BRF2-SHORT'' Short H1
       \<lparr>ct_facts =
         [(''rally_failure_confirmed'', FR_CONDITION),
          (''short_side_not_disabled'', FR_CONDITION),
          (''rally_high_reference'', FR_PROTECTION_REFERENCE)],
        ct_protection_reference_fact = ''rally_high_reference'',
        ct_pre_tp1_reclaim_reference_fact = None,
        ct_exposure_session_end_reference_fact = None, ct_disable_fact_names = [''strong_uptrend_disable''],
        ct_episode_policy = RISING_EDGE, ct_exposure_family = rally_failure_short, ct_shadow_horizon_bars = 24,
        ct_semantic_version = 3, ct_fact_version = 1, ct_exit_policy_variant = ''portfolio-admission-v1''\<rparr>"

definition sor_1h_long_contract :: strategy_contract where
  "sor_1h_long_contract =
     registry_contract ''SOR-1H-001'' ''SOR-1H-LONG'' Long H1
       \<lparr>ct_facts =
         [(''opening_range_defined_1h_v1'', FR_CONDITION),
          (''entry_hour_eligible_1h_v1'', FR_CONDITION),
          (''breakout_edge_crossed_1h_v1'', FR_CONDITION),
          (''opening_range_high_reference_1h_v1'', FR_LIFECYCLE_REFERENCE),
          (''opening_range_low_reference_1h_v1'', FR_PROTECTION_REFERENCE),
          (''session_start_ms_1h_v1'', FR_IDENTITY_REFERENCE),
          (''session_end_ms_1h_v1'', FR_LIFECYCLE_REFERENCE)],
        ct_protection_reference_fact = ''opening_range_low_reference_1h_v1'',
        ct_pre_tp1_reclaim_reference_fact = Some ''opening_range_high_reference_1h_v1'',
        ct_exposure_session_end_reference_fact = Some ''session_end_ms_1h_v1'', ct_disable_fact_names = [],
        ct_episode_policy = SESSION_REFERENCE, ct_exposure_family = opening_range, ct_shadow_horizon_bars = 24,
        ct_semantic_version = 1, ct_fact_version = 1, ct_exit_policy_variant = ''orb-crypto-15m-v1''\<rparr>"

definition sor_1h_short_contract :: strategy_contract where
  "sor_1h_short_contract =
     registry_contract ''SOR-1H-001'' ''SOR-1H-SHORT'' Short H1
       \<lparr>ct_facts =
         [(''opening_range_defined_1h_v1'', FR_CONDITION),
          (''entry_hour_eligible_1h_v1'', FR_CONDITION),
          (''breakdown_edge_crossed_1h_v1'', FR_CONDITION),
          (''opening_range_low_reference_1h_v1'', FR_LIFECYCLE_REFERENCE),
          (''opening_range_high_reference_1h_v1'', FR_PROTECTION_REFERENCE),
          (''session_start_ms_1h_v1'', FR_IDENTITY_REFERENCE),
          (''session_end_ms_1h_v1'', FR_LIFECYCLE_REFERENCE)],
        ct_protection_reference_fact = ''opening_range_high_reference_1h_v1'',
        ct_pre_tp1_reclaim_reference_fact = Some ''opening_range_low_reference_1h_v1'',
        ct_exposure_session_end_reference_fact = Some ''session_end_ms_1h_v1'', ct_disable_fact_names = [],
        ct_episode_policy = SESSION_REFERENCE, ct_exposure_family = opening_range, ct_shadow_horizon_bars = 24,
        ct_semantic_version = 1, ct_fact_version = 1, ct_exit_policy_variant = ''orb-crypto-15m-v1''\<rparr>"

definition us_sor_long_contract :: strategy_contract where
  "us_sor_long_contract =
     registry_contract ''SOR-US-EQ-PERP-001'' ''SOR-US-LONG-15M'' Long M15
       \<lparr>ct_facts =
         [(''regular_session_confirmed_us_v1'', FR_CONDITION),
          (''opening_range_defined_us_v1'', FR_CONDITION),
          (''breakout_edge_crossed_us_v1'', FR_CONDITION),
          (''opening_range_high_reference_us_v1'', FR_LIFECYCLE_REFERENCE),
          (''initial_stop_reference_us_v1'', FR_PROTECTION_REFERENCE),
          (''regular_session_open_ms_us_v1'', FR_IDENTITY_REFERENCE),
          (''session_exit_deadline_ms_us_v1'', FR_LIFECYCLE_REFERENCE)],
        ct_protection_reference_fact = ''initial_stop_reference_us_v1'',
        ct_pre_tp1_reclaim_reference_fact = Some ''opening_range_high_reference_us_v1'',
        ct_exposure_session_end_reference_fact = Some ''session_exit_deadline_ms_us_v1'', ct_disable_fact_names = [],
        ct_episode_policy = SESSION_REFERENCE, ct_exposure_family = opening_range, ct_shadow_horizon_bars = 8,
        ct_semantic_version = 1, ct_fact_version = 1, ct_exit_policy_variant = ''us-regular-or-v1''\<rparr>"

definition us_sor_short_contract :: strategy_contract where
  "us_sor_short_contract =
     registry_contract ''SOR-US-EQ-PERP-001'' ''SOR-US-SHORT-15M'' Short M15
       \<lparr>ct_facts =
         [(''regular_session_confirmed_us_v1'', FR_CONDITION),
          (''opening_range_defined_us_v1'', FR_CONDITION),
          (''breakdown_edge_crossed_us_v1'', FR_CONDITION),
          (''opening_range_low_reference_us_v1'', FR_LIFECYCLE_REFERENCE),
          (''initial_stop_reference_us_v1'', FR_PROTECTION_REFERENCE),
          (''regular_session_open_ms_us_v1'', FR_IDENTITY_REFERENCE),
          (''session_exit_deadline_ms_us_v1'', FR_LIFECYCLE_REFERENCE)],
        ct_protection_reference_fact = ''initial_stop_reference_us_v1'',
        ct_pre_tp1_reclaim_reference_fact = Some ''opening_range_low_reference_us_v1'',
        ct_exposure_session_end_reference_fact = Some ''session_exit_deadline_ms_us_v1'', ct_disable_fact_names = [],
        ct_episode_policy = SESSION_REFERENCE, ct_exposure_family = opening_range, ct_shadow_horizon_bars = 8,
        ct_semantic_version = 1, ct_fact_version = 1, ct_exit_policy_variant = ''us-regular-or-v1''\<rparr>"

definition registered_strategy_contracts :: "strategy_contract list" where
  "registered_strategy_contracts =
     [cpm_long_contract,
      mpg_long_contract,
      mi_long_contract,
      sor_long_contract,
      sor_short_contract,
      brf2_short_contract,
      sor_1h_long_contract,
      sor_1h_short_contract,
      us_sor_long_contract,
      us_sor_short_contract]"

lemmas registered_contract_defs =
  cpm_long_contract_def mpg_long_contract_def mi_long_contract_def sor_long_contract_def sor_short_contract_def
  brf2_short_contract_def sor_1h_long_contract_def sor_1h_short_contract_def us_sor_long_contract_def us_sor_short_contract_def

text \<open>\<open>strategy_contract_for\<close>: the one contract of an Event.\<close>

definition strategy_contract_for :: "string \<Rightarrow> strategy_contract result" where
  "strategy_contract_for event_spec_id =
     (case filter (\<lambda>c. sc_event_spec_id c = py_strip event_spec_id) registered_strategy_contracts of
        [c] \<Rightarrow> Inr c | _ \<Rightarrow> Inl (ValueError ''registered Event must resolve exactly one contract''))"

section \<open>The identity of the registry\<close>

fun exposure_family_value :: "exposure_family \<Rightarrow> string" where
  "exposure_family_value long_continuation = ''long_continuation''"
| "exposure_family_value opening_range = ''opening_range''"
| "exposure_family_value rally_failure_short = ''rally_failure_short''"

definition requirement_json :: "fact_requirement \<Rightarrow> json" where
  "requirement_json r = JObj
     [(''fact_definition_id'', JStr (rq_fact_definition_id r)), (''fact_name'', JStr (rq_fact_name r)),
      (''value_type'', JStr (if rq_value_type r = FACT_BOOLEAN then ''boolean'' else ''decimal'')),
      (''role'', JStr (fact_role_value (rq_role r))), (''freshness_ms'', JInt (rq_freshness_ms r))]"

definition contract_json :: "strategy_contract \<Rightarrow> json" where
  "contract_json c = JObj
     [(''strategy_group_id'', JStr (sc_strategy_group_id c)), (''strategy_version_id'', JStr (sc_strategy_version_id c)),
      (''event_spec_id'', JStr (sc_event_spec_id c)), (''event_id'', JStr (sc_event_id c)),
      (''position_side'', JStr (side_value (sc_position_side c))), (''timeframe'', JStr (timeframe_value (sc_timeframe c))),
      (''freshness_window_ms'', JInt (sc_freshness_window_ms c)),
      (''event_time_authority'', JStr ''trigger_candle_close_time_ms''),
      (''entry_order_type'', JStr (if sc_entry_order_type c = MARKET then ''market'' else ''limit'')),
      (''episode_policy'', JStr (if sc_episode_policy c = RISING_EDGE then ''rising_edge'' else ''session_reference'')),
      (''exposure_family'', JStr (exposure_family_value (sc_exposure_family c))),
      (''shadow_horizon_bars'', JInt (sc_shadow_horizon_bars c)),
      (''protection_reference_fact'', JStr (sc_protection_reference_fact c)),
      (''pre_tp1_reclaim_reference_fact'', json_option JStr (sc_pre_tp1_reclaim_reference_fact c)),
      (''exposure_session_end_reference_fact'', json_option JStr (sc_exposure_session_end_reference_fact c)),
      (''required_facts'', JList (map requirement_json (sc_required_facts c))),
      (''disable_facts'', JList (map requirement_json (sc_disable_facts c))),
      (''exit_policy_id'', JStr (sc_exit_policy_id c)),
      (''status'', JStr (if sc_active c then ''active'' else ''disabled''))]"

definition build_registry_semantic_hash :: "strategy_contract list \<Rightarrow> string result" where
  "build_registry_semantic_hash contracts =
     (if \<not> distinct (map sc_event_spec_id contracts)
      then Inl (ValueError ''registry semantic hash input contains duplicate Events'')
      else Inr (''sha256:'' @ sha256_hexdigest
             (json_dumps (JList (map contract_json (sort_key sc_event_spec_id contracts))))))"

section \<open>The registry satisfies its validators\<close>

lemma registered_contracts_valid: "list_all valid_strategy_contract registered_strategy_contracts"
  by code_simp

lemma registered_events_distinct: "distinct (map sc_event_spec_id registered_strategy_contracts)"
  by code_simp

lemma sort_key_order:
  assumes "mset xs = mset ys" "inj_on f (set xs)"
  shows "sort_key f xs = sort_key f ys"
  using assms by (intro sort_key_inj_key_eq) auto

text \<open>The semantic hash does not depend on the order in which the contracts are listed.\<close>

lemma registry_hash_order:
  assumes "mset cs = mset ds"
  shows "build_registry_semantic_hash cs = build_registry_semantic_hash ds"
proof -
  have d: "distinct (map sc_event_spec_id cs) = distinct (map sc_event_spec_id ds)"
    by (metis assms mset_eq_imp_distinct_iff mset_map)
  show ?thesis
  proof (cases "distinct (map sc_event_spec_id ds)")
    case True
    then have "inj_on sc_event_spec_id (set cs)" using assms by (metis distinct_map mset_eq_setD)
    then have "sort_key sc_event_spec_id cs = sort_key sc_event_spec_id ds" using assms by (intro sort_key_order)
    then show ?thesis using d True by (simp add: build_registry_semantic_hash_def)
  qed (simp add: build_registry_semantic_hash_def d)
qed

end
