(* ===== verification/Exit_Policy.thy ===== *)
theory Exit_Policy
  imports Strategy_Registry
begin

text \<open>
  \<open>domain/exit_policy.py\<close>: the exit profiles of the registered Events, their bindings, the prices a profile calculates
  (cost-adjusted break-even, runner stop) and the decisions it takes on market facts. The semantic hash of a profile
  digests the text of its decimals, which keeps trailing zeros; a decimal is its value here, so the hash of a profile
  is an argument of the definitions that use it.
\<close>

section \<open>Rules\<close>

datatype time_stop_mode = TS_PRE_TP1 | TS_ABSOLUTE

datatype pre_tp1_guard = RECLAIM_REFERENCE | SESSION_EXPIRY

fun pre_tp1_guard_value :: "pre_tp1_guard \<Rightarrow> string" where
  "pre_tp1_guard_value RECLAIM_REFERENCE = ''reclaim_reference''"
| "pre_tp1_guard_value SESSION_EXPIRY = ''session_expiry''"

record take_profit_rule =
  tr_reward_multiple :: decimal
  tr_quantity_fraction :: decimal

record break_even_floor_rule =
  be_slippage_buffer_ticks :: int
  be_minimum_improvement_ticks :: int

record time_stop_rule =
  ts_max_holding_bars :: int
  ts_mode :: time_stop_mode

record rolling_runner_rule =
  rr_timeframe :: bar_timeframe
  rr_lookback_bars :: int
  rr_atr_period :: int
  rr_atr_buffer_multiple :: decimal
  rr_minimum_improvement_ticks :: int

record exit_profile =
  xp_exit_profile_id :: string
  xp_exit_profile_version :: int
  xp_position_side :: position_side
  xp_tp1 :: take_profit_rule
  xp_break_even_floor :: break_even_floor_rule
  xp_runner :: rolling_runner_rule
  xp_time_stop :: "time_stop_rule option"
  xp_pre_tp1_guards :: "pre_tp1_guard list"

definition valid_take_profit_rule :: "take_profit_rule \<Rightarrow> bool" where
  "valid_take_profit_rule r \<longleftrightarrow> 0 < tr_reward_multiple r \<and> 0 < tr_quantity_fraction r \<and> tr_quantity_fraction r < 1"

definition valid_break_even_rule :: "break_even_floor_rule \<Rightarrow> bool" where
  "valid_break_even_rule r \<longleftrightarrow> 0 \<le> be_slippage_buffer_ticks r \<and> 0 < be_minimum_improvement_ticks r"

definition valid_rolling_runner_rule :: "rolling_runner_rule \<Rightarrow> bool" where
  "valid_rolling_runner_rule r \<longleftrightarrow>
     0 < rr_lookback_bars r \<and> 0 < rr_atr_period r \<and> 0 \<le> rr_atr_buffer_multiple r \<and> 0 < rr_minimum_improvement_ticks r"

definition valid_time_stop :: "time_stop_rule option \<Rightarrow> bool" where
  "valid_time_stop t = (case t of None \<Rightarrow> True | Some r \<Rightarrow> 0 < ts_max_holding_bars r)"

definition canonical_guards :: "pre_tp1_guard list \<Rightarrow> pre_tp1_guard list" where
  "canonical_guards guards = sort_key pre_tp1_guard_value (remdups guards)"

definition valid_exit_profile :: "exit_profile \<Rightarrow> bool" where
  "valid_exit_profile p \<longleftrightarrow>
     is_identity (xp_exit_profile_id p) \<and> 0 < xp_exit_profile_version p
     \<and> valid_take_profit_rule (xp_tp1 p) \<and> valid_break_even_rule (xp_break_even_floor p)
     \<and> valid_rolling_runner_rule (xp_runner p) \<and> valid_time_stop (xp_time_stop p)
     \<and> canonical_guards (xp_pre_tp1_guards p) = xp_pre_tp1_guards p"

section \<open>Market facts and decisions\<close>

record lifecycle_market_facts =
  lm_watermark_ms :: int
  lm_is_final_closed_candle :: bool
  lm_latest_close :: decimal
  lm_structure_reference :: decimal
  lm_atr :: decimal
  lm_holding_bars :: int

definition valid_market_facts :: "lifecycle_market_facts \<Rightarrow> bool" where
  "valid_market_facts m \<longleftrightarrow>
     0 < lm_watermark_ms m \<and> 0 \<le> lm_holding_bars m
     \<and> 0 < lm_latest_close m \<and> 0 < lm_structure_reference m \<and> 0 < lm_atr m"

datatype exit_decision_kind = XD_NO_CHANGE | XD_MOVE_STOP | XD_EXIT

record exit_decision =
  xd_kind :: exit_decision_kind
  xd_reason :: string
  xd_source_watermark_ms :: int
  xd_proposed_stop :: "decimal option"

definition valid_exit_decision :: "exit_decision \<Rightarrow> bool" where
  "valid_exit_decision d \<longleftrightarrow>
     non_blank (xd_reason d) \<and> 0 < xd_source_watermark_ms d
     \<and> (if xd_kind d = XD_MOVE_STOP then (case xd_proposed_stop d of None \<Rightarrow> False | Some stop \<Rightarrow> 0 < stop)
        else xd_proposed_stop d = None)"

definition mk_exit_decision :: "exit_decision_kind \<Rightarrow> string \<Rightarrow> int \<Rightarrow> decimal option \<Rightarrow> exit_decision result" where
  "mk_exit_decision kind reason watermark stop =
     (let d = \<lparr>xd_kind = kind, xd_reason = reason, xd_source_watermark_ms = watermark, xd_proposed_stop = stop\<rparr>
      in if valid_exit_decision d then Inr d else Inl ValidationError)"

section \<open>Prices\<close>

definition round_to_step :: "(decimal \<Rightarrow> decimal) \<Rightarrow> decimal \<Rightarrow> decimal \<Rightarrow> decimal" where
  "round_to_step rounding value step = dec_mul (rounding (dec_div value step)) step"

record take_profit_split =
  qs_tp1_quantity :: decimal
  qs_runner_quantity :: decimal

definition split_tp1_quantity :: "decimal \<Rightarrow> decimal \<Rightarrow> decimal \<Rightarrow> take_profit_split result" where
  "split_tp1_quantity total_qty step fraction =
     (if total_qty \<le> 0 \<or> step \<le> 0 then Inl (ValueError ''quantity and quantity step must be positive'')
      else bind_result (dec_mod total_qty step) (\<lambda>m.
        if m \<noteq> 0 then Inl (ValueError ''total quantity must be aligned to the quantity step'')
        else if \<not> (0 < fraction \<and> fraction < 1) then Inl (ValueError ''TP1 quantity fraction must be in (0, 1)'')
        else let tp1 = round_to_step dec_floor (dec_mul total_qty fraction) step; runner = dec_sub total_qty tp1
             in if tp1 \<le> 0 \<or> runner \<le> 0 then Inl ValidationError
                else Inr \<lparr>qs_tp1_quantity = tp1, qs_runner_quantity = runner\<rparr>))"

record break_even_terms =
  bt_entry_average_price :: decimal
  bt_runner_quantity :: decimal
  bt_allocated_entry_fee_quote :: decimal
  bt_exit_taker_fee_rate :: decimal
  bt_price_tick :: decimal
  bt_slippage_buffer_ticks :: int

definition require_financial_inputs :: "break_even_terms \<Rightarrow> unit result" where
  "require_financial_inputs t =
     (if bt_entry_average_price t \<le> 0 \<or> bt_runner_quantity t \<le> 0 \<or> bt_price_tick t \<le> 0
      then Inl (ValueError ''break-even price, quantity, and tick must be positive'')
      else if bt_allocated_entry_fee_quote t < 0 \<or> bt_slippage_buffer_ticks t < 0
      then Inl (ValueError ''break-even fee and slippage values cannot be negative'')
      else if \<not> (0 \<le> bt_exit_taker_fee_rate t \<and> bt_exit_taker_fee_rate t < 1)
      then Inl (ValueError ''exit taker fee rate must be in [0, 1)'')
      else Inr ())"

definition slippage_buffer_quote :: "break_even_terms \<Rightarrow> decimal" where
  "slippage_buffer_quote t =
     dec_mul (dec_mul (bt_price_tick t) (of_int (bt_slippage_buffer_ticks t))) (bt_runner_quantity t)"

definition long_break_even :: "break_even_terms \<Rightarrow> decimal" where
  "long_break_even t =
     dec_div (dec_add (dec_add (dec_mul (bt_entry_average_price t) (bt_runner_quantity t)) (bt_allocated_entry_fee_quote t))
                (slippage_buffer_quote t))
             (dec_mul (bt_runner_quantity t) (dec_sub 1 (bt_exit_taker_fee_rate t)))"

definition short_break_even :: "break_even_terms \<Rightarrow> decimal" where
  "short_break_even t =
     dec_div (dec_sub (dec_sub (dec_mul (bt_entry_average_price t) (bt_runner_quantity t)) (bt_allocated_entry_fee_quote t))
                (slippage_buffer_quote t))
             (dec_mul (bt_runner_quantity t) (dec_add 1 (bt_exit_taker_fee_rate t)))"

text \<open>The side is a plain \<open>str\<close> in these two functions.\<close>

definition calculate_cost_adjusted_break_even :: "string \<Rightarrow> break_even_terms \<Rightarrow> decimal result" where
  "calculate_cost_adjusted_break_even side t =
     bind_result (require_financial_inputs t) (\<lambda>_.
       if side = ''long'' then Inr (round_to_step dec_ceiling (long_break_even t) (bt_price_tick t))
       else if side = ''short''
       then (if short_break_even t \<le> 0 then Inl (ValueError ''short break-even floor must remain positive'')
             else Inr (round_to_step dec_floor (short_break_even t) (bt_price_tick t)))
       else Inl (ValueError ''position side must be long or short''))"

definition calculate_structural_runner_stop ::
  "string \<Rightarrow> decimal \<Rightarrow> decimal \<Rightarrow> decimal \<Rightarrow> decimal \<Rightarrow> decimal result" where
  "calculate_structural_runner_stop side structure_reference atr atr_buffer_multiple price_tick =
     (if structure_reference \<le> 0 \<or> atr \<le> 0 \<or> atr_buffer_multiple < 0 \<or> price_tick \<le> 0
      then Inl (ValueError ''runner price, ATR, multiplier, and tick must be valid'')
      else let offset = dec_mul atr atr_buffer_multiple
           in if side = ''long''
              then (let raw = dec_sub structure_reference offset
                    in if raw \<le> 0 then Inl (ValueError ''long structural runner stop must remain positive'')
                       else Inr (round_to_step dec_floor raw price_tick))
              else if side = ''short''
              then Inr (round_to_step dec_ceiling (dec_add structure_reference offset) price_tick)
              else Inl (ValueError ''position side must be long or short''))"

definition calculate_rolling_extreme_atr_stop ::
  "string \<Rightarrow> decimal \<Rightarrow> decimal \<Rightarrow> decimal \<Rightarrow> decimal \<Rightarrow> decimal result" where
  "calculate_rolling_extreme_atr_stop side rolling_extreme atr atr_buffer_multiple price_tick =
     calculate_structural_runner_stop side rolling_extreme atr atr_buffer_multiple price_tick"

section \<open>Decisions of a profile\<close>

record runner_situation =
  ru_current_stop :: decimal
  ru_break_even_floor :: decimal
  ru_price_tick :: decimal
  ru_last_runner_watermark_ms :: int

text \<open>A time stop of the given mode that the position has reached.\<close>

definition time_stop_hit :: "time_stop_mode \<Rightarrow> time_stop_rule option \<Rightarrow> lifecycle_market_facts \<Rightarrow> bool" where
  "time_stop_hit mode rule m =
     (case rule of None \<Rightarrow> False | Some r \<Rightarrow> ts_mode r = mode \<and> ts_max_holding_bars r \<le> lm_holding_bars m)"

definition floored_candidate :: "position_side \<Rightarrow> decimal \<Rightarrow> decimal \<Rightarrow> decimal" where
  "floored_candidate side candidate floor_price =
     (if side = Long then max candidate floor_price else min candidate floor_price)"

definition stop_improvement :: "position_side \<Rightarrow> decimal \<Rightarrow> decimal \<Rightarrow> decimal" where
  "stop_improvement side candidate current_stop =
     (if side = Long then dec_sub candidate current_stop else dec_sub current_stop candidate)"

text \<open>The last steps of both runner evaluations: the floor, the minimum improvement, the move.\<close>

definition runner_move ::
  "position_side \<Rightarrow> int \<Rightarrow> string \<Rightarrow> runner_situation \<Rightarrow> int \<Rightarrow> decimal \<Rightarrow> exit_decision result" where
  "runner_move side minimum_improvement_ticks reason s watermark candidate =
     (let stop = floored_candidate side candidate (ru_break_even_floor s)
      in if stop_improvement side stop (ru_current_stop s)
              < dec_mul (ru_price_tick s) (of_int minimum_improvement_ticks)
         then mk_exit_decision XD_NO_CHANGE ''runner_stop_not_improved'' watermark None
         else mk_exit_decision XD_MOVE_STOP reason watermark (Some stop))"

definition evaluate_profile_runner_exit ::
  "exit_profile \<Rightarrow> runner_situation \<Rightarrow> lifecycle_market_facts \<Rightarrow> exit_decision result" where
  "evaluate_profile_runner_exit p s m =
     (if ru_current_stop s \<le> 0 \<or> ru_break_even_floor s \<le> 0 \<or> ru_price_tick s \<le> 0
      then Inl (ValueError ''runner evaluation prices and tick must be positive'')
      else if lm_watermark_ms m \<le> ru_last_runner_watermark_ms s
      then mk_exit_decision XD_NO_CHANGE ''market_watermark_not_new'' (lm_watermark_ms m) None
      else if \<not> lm_is_final_closed_candle m
      then mk_exit_decision XD_NO_CHANGE ''closed_candle_required'' (lm_watermark_ms m) None
      else if time_stop_hit TS_ABSOLUTE (xp_time_stop p) m
      then mk_exit_decision XD_EXIT ''absolute_time_stop_hit'' (lm_watermark_ms m) None
      else bind_result (calculate_rolling_extreme_atr_stop (side_value (xp_position_side p)) (lm_structure_reference m)
               (lm_atr m) (rr_atr_buffer_multiple (xp_runner p)) (ru_price_tick s))
             (runner_move (xp_position_side p) (rr_minimum_improvement_ticks (xp_runner p))
                ''rolling_extreme_atr_runner_improvement'' s (lm_watermark_ms m)))"

definition is_missing_price :: "decimal option \<Rightarrow> bool" where
  "is_missing_price price = (case price of None \<Rightarrow> True | Some x \<Rightarrow> x \<le> 0)"

definition is_missing_time :: "int option \<Rightarrow> bool" where
  "is_missing_time t = (case t of None \<Rightarrow> True | Some x \<Rightarrow> x \<le> 0)"

definition reclaim_hit :: "position_side \<Rightarrow> lifecycle_market_facts \<Rightarrow> decimal \<Rightarrow> bool" where
  "reclaim_hit side m price = (if side = Long then lm_latest_close m \<le> price else price \<le> lm_latest_close m)"

definition reclaim_reason :: "position_side \<Rightarrow> string" where
  "reclaim_reason side = (if side = Long then ''failed_breakout_reclaimed'' else ''failed_breakdown_reclaimed'')"

text \<open>The time stops of a profile before the first take profit.\<close>

definition pre_tp1_time_stops :: "exit_profile \<Rightarrow> lifecycle_market_facts \<Rightarrow> exit_decision result" where
  "pre_tp1_time_stops p m =
     (if time_stop_hit TS_ABSOLUTE (xp_time_stop p) m
      then mk_exit_decision XD_EXIT ''absolute_time_stop_hit'' (lm_watermark_ms m) None
      else if time_stop_hit TS_PRE_TP1 (xp_time_stop p) m
      then mk_exit_decision XD_EXIT ''pre_tp1_time_stop_hit'' (lm_watermark_ms m) None
      else mk_exit_decision XD_NO_CHANGE ''pre_tp1_plan_intact'' (lm_watermark_ms m) None)"

definition pre_tp1_reclaim :: "exit_profile \<Rightarrow> lifecycle_market_facts \<Rightarrow> decimal option \<Rightarrow> exit_decision result" where
  "pre_tp1_reclaim p m reclaim_price =
     (if RECLAIM_REFERENCE \<in> set (xp_pre_tp1_guards p)
      then if is_missing_price reclaim_price then Inl (ValueError ''reclaim guard requires a positive reference'')
           else if reclaim_hit (xp_position_side p) m (the reclaim_price)
           then mk_exit_decision XD_EXIT (reclaim_reason (xp_position_side p)) (lm_watermark_ms m) None
           else pre_tp1_time_stops p m
      else pre_tp1_time_stops p m)"

definition evaluate_profile_pre_tp1_exit ::
  "exit_profile \<Rightarrow> lifecycle_market_facts \<Rightarrow> int \<Rightarrow> decimal option \<Rightarrow> int option \<Rightarrow> exit_decision result" where
  "evaluate_profile_pre_tp1_exit p m observed_at_ms reclaim_price session_end_ms =
     (if observed_at_ms < lm_watermark_ms m then Inl (ValueError ''pre-TP1 observation precedes market facts'')
      else if \<not> lm_is_final_closed_candle m
      then mk_exit_decision XD_NO_CHANGE ''closed_candle_required'' (lm_watermark_ms m) None
      else if SESSION_EXPIRY \<in> set (xp_pre_tp1_guards p)
      then if is_missing_time session_end_ms then Inl (ValueError ''session-expiry guard requires a positive deadline'')
           else if the session_end_ms \<le> observed_at_ms
           then mk_exit_decision XD_EXIT ''session_expired'' (lm_watermark_ms m) None
           else pre_tp1_reclaim p m reclaim_price
      else pre_tp1_reclaim p m reclaim_price)"

section \<open>The registered profiles\<close>

definition exit_profile_of ::
  "string \<Rightarrow> position_side \<Rightarrow> bar_timeframe \<Rightarrow> decimal \<Rightarrow> int \<Rightarrow> decimal \<Rightarrow> time_stop_rule option \<Rightarrow> pre_tp1_guard list
     \<Rightarrow> exit_profile" where
  "exit_profile_of exit_profile_id side timeframe quantity_fraction lookback_bars atr_buffer_multiple time_stop guards =
     \<lparr>xp_exit_profile_id = exit_profile_id, xp_exit_profile_version = 1, xp_position_side = side,
      xp_tp1 = \<lparr>tr_reward_multiple = 1, tr_quantity_fraction = quantity_fraction\<rparr>,
      xp_break_even_floor = \<lparr>be_slippage_buffer_ticks = 2, be_minimum_improvement_ticks = 2\<rparr>,
      xp_runner = \<lparr>rr_timeframe = timeframe, rr_lookback_bars = lookback_bars, rr_atr_period = 14,
        rr_atr_buffer_multiple = atr_buffer_multiple, rr_minimum_improvement_ticks = 2\<rparr>,
      xp_time_stop = time_stop, xp_pre_tp1_guards = guards\<rparr>"

definition registered_exit_profiles :: "exit_profile list" where
  "registered_exit_profiles = sort_key xp_exit_profile_id
     [exit_profile_of ''exit-profile:trend-continuation:1h:long:v1'' Long H1 (1/2) 4 (1/2) None [],
      exit_profile_of ''exit-profile:momentum-tail:1h:long:v1'' Long H1 (33/100) 5 (3/4) None [],
      exit_profile_of ''exit-profile:impulse-decay:1h:long:v1'' Long H1 (1/2) 4 (1/2)
        (Some \<lparr>ts_max_holding_bars = 12, ts_mode = TS_PRE_TP1\<rparr>) [],
      exit_profile_of ''exit-profile:failure-reversal:1h:short:v1'' Short H1 (1/2) 4 (1/2)
        (Some \<lparr>ts_max_holding_bars = 12, ts_mode = TS_PRE_TP1\<rparr>) [],
      exit_profile_of ''exit-profile:orb-crypto:15m:long:v1'' Long M15 (1/2) 4 (1/2)
        (Some \<lparr>ts_max_holding_bars = 96, ts_mode = TS_ABSOLUTE\<rparr>) [RECLAIM_REFERENCE, SESSION_EXPIRY],
      exit_profile_of ''exit-profile:orb-crypto:15m:short:v1'' Short M15 (1/2) 4 (1/2)
        (Some \<lparr>ts_max_holding_bars = 96, ts_mode = TS_ABSOLUTE\<rparr>) [RECLAIM_REFERENCE, SESSION_EXPIRY],
      exit_profile_of ''exit-profile:orb-us:15m:long:v1'' Long M15 (1/2) 4 (1/2)
        (Some \<lparr>ts_max_holding_bars = 8, ts_mode = TS_ABSOLUTE\<rparr>) [RECLAIM_REFERENCE, SESSION_EXPIRY],
      exit_profile_of ''exit-profile:orb-us:15m:short:v1'' Short M15 (1/2) 4 (1/2)
        (Some \<lparr>ts_max_holding_bars = 8, ts_mode = TS_ABSOLUTE\<rparr>) [RECLAIM_REFERENCE, SESSION_EXPIRY]]"

section \<open>Bindings of Events to profiles\<close>

record event_exit_binding =
  xb_exit_binding_id :: string
  xb_binding_version :: int
  xb_event_spec_id :: string
  xb_exit_profile_id :: string
  xb_exit_profile_semantic_hash :: string
  xb_binding_semantic_hash :: string
  xb_activation_reason :: string
  xb_created_at_ms :: int

definition event_exit_binding_hash :: "int \<Rightarrow> string \<Rightarrow> string \<Rightarrow> string \<Rightarrow> string \<Rightarrow> string" where
  "event_exit_binding_hash binding_version event_spec_id exit_profile_id profile_hash activation_reason =
     ''sha256:'' @ sha256_hexdigest (json_dumps (JObj
       [(''binding_version'', JInt binding_version), (''event_spec_id'', JStr event_spec_id),
        (''exit_profile_id'', JStr exit_profile_id), (''exit_profile_semantic_hash'', JStr profile_hash),
        (''activation_reason'', JStr activation_reason)]))"

definition is_binding_hash :: "string \<Rightarrow> bool" where
  "is_binding_hash h \<longleftrightarrow> py_startswith h ''sha256:'' \<and> length h = 71"

definition valid_event_exit_binding :: "event_exit_binding \<Rightarrow> bool" where
  "valid_event_exit_binding b \<longleftrightarrow>
     is_identity (xb_exit_binding_id b) \<and> is_identity (xb_event_spec_id b) \<and> is_identity (xb_exit_profile_id b)
     \<and> is_identity (xb_activation_reason b)
     \<and> is_binding_hash (xb_exit_profile_semantic_hash b) \<and> is_binding_hash (xb_binding_semantic_hash b)
     \<and> 0 < xb_binding_version b \<and> 0 < xb_created_at_ms b
     \<and> xb_binding_semantic_hash b
         = event_exit_binding_hash (xb_binding_version b) (xb_event_spec_id b) (xb_exit_profile_id b)
             (xb_exit_profile_semantic_hash b) (xb_activation_reason b)"

text \<open>The constructor digests the arguments as given; the validators strip the identities first.\<close>

definition build_event_exit_binding ::
  "string \<Rightarrow> int \<Rightarrow> string \<Rightarrow> string \<Rightarrow> string \<Rightarrow> string \<Rightarrow> int \<Rightarrow> event_exit_binding result" where
  "build_event_exit_binding exit_binding_id binding_version event_spec_id exit_profile_id profile_hash activation_reason
       created_at_ms =
     (let b = \<lparr>xb_exit_binding_id = py_strip exit_binding_id, xb_binding_version = binding_version,
            xb_event_spec_id = py_strip event_spec_id, xb_exit_profile_id = py_strip exit_profile_id,
            xb_exit_profile_semantic_hash = profile_hash,
            xb_binding_semantic_hash = event_exit_binding_hash binding_version event_spec_id exit_profile_id
              profile_hash activation_reason,
            xb_activation_reason = py_strip activation_reason, xb_created_at_ms = created_at_ms\<rparr>
      in if valid_event_exit_binding b then Inr b else Inl ValidationError)"

definition event_profile_ids :: "(string \<times> string) list" where
  "event_profile_ids =
     [(''CPM-LONG'', ''exit-profile:trend-continuation:1h:long:v1''),
      (''MPG-LONG'', ''exit-profile:momentum-tail:1h:long:v1''),
      (''MI-LONG'', ''exit-profile:impulse-decay:1h:long:v1''),
      (''BRF2-SHORT'', ''exit-profile:failure-reversal:1h:short:v1''),
      (''SOR-LONG'', ''exit-profile:orb-crypto:15m:long:v1''),
      (''SOR-SHORT'', ''exit-profile:orb-crypto:15m:short:v1''),
      (''SOR-1H-LONG'', ''exit-profile:orb-crypto:15m:long:v1''),
      (''SOR-1H-SHORT'', ''exit-profile:orb-crypto:15m:short:v1''),
      (''SOR-US-LONG-15M'', ''exit-profile:orb-us:15m:long:v1''),
      (''SOR-US-SHORT-15M'', ''exit-profile:orb-us:15m:short:v1'')]"

definition profile_for_event :: "string \<Rightarrow> exit_profile result" where
  "profile_for_event event_id =
     (case map_of event_profile_ids event_id of
        None \<Rightarrow> Inl (KeyError event_id)
      | Some profile_id \<Rightarrow>
          (case List.find (\<lambda>p. xp_exit_profile_id p = profile_id) registered_exit_profiles of
             None \<Rightarrow> Inl (KeyError profile_id) | Some p \<Rightarrow> Inr p))"

fun traverse :: "('a \<Rightarrow> 'b result) \<Rightarrow> 'a list \<Rightarrow> 'b list result" where
  "traverse f [] = Inr []"
| "traverse f (x # xs) = bind_result (f x) (\<lambda>y. bind_result (traverse f xs) (\<lambda>ys. Inr (y # ys)))"

definition binding_of_contract :: "(exit_profile \<Rightarrow> string) \<Rightarrow> strategy_contract \<Rightarrow> event_exit_binding result" where
  "binding_of_contract semantic_hash c =
     bind_result (profile_for_event (sc_event_id c)) (\<lambda>p.
       build_event_exit_binding (''exit-binding:'' @ sc_event_spec_id c @ '':v1'') 1 (sc_event_spec_id c)
         (xp_exit_profile_id p) (semantic_hash p) ''owner_frozen_v1'' 1)"

definition registered_event_exit_bindings :: "(exit_profile \<Rightarrow> string) \<Rightarrow> event_exit_binding list result" where
  "registered_event_exit_bindings semantic_hash =
     bind_result (traverse (binding_of_contract semantic_hash) registered_strategy_contracts)
       (\<lambda>bs. Inr (sort_key xb_event_spec_id bs))"

end
