(* ===== verification/Exit_Authority.thy ===== *)
theory Exit_Authority
  imports Exit_Policy Issue_Ticket
begin

text \<open>
  \<open>infrastructure/pg_exit_profile_repository.py\<close> and its four tables: immutable exit profiles, immutable bindings of
  Events to profiles, the current binding of each Event, and the log of activations and retirements. The operations
  write through the unique, foreign and check constraints of \<open>infrastructure/pg_models.py\<close>. Each operation is one
  transaction; the row and advisory locks it takes are not kept. \<open>ExitProfileAuthorityConflict\<close> is the
  \<open>RuntimeError\<close> it derives from. The tables of Events and of Owner authorizations belong to other components: the side
  of an Event and the known authorizations are arguments, as is the semantic hash of a profile.
\<close>

section \<open>Tables\<close>

text \<open>A policy that is not an exit profile (a legacy row) has no decoded profile.\<close>

record exit_policy_row =
  ew_exit_policy_id :: string
  ew_profile_schema_version :: "string option"
  ew_policy :: "exit_profile option"
  ew_semantic_hash :: string
  ew_status :: string

datatype binding_operation = ACTIVATED | RETIRED

datatype authorization_source = SYSTEM_MIGRATION | OWNER_CONTROL

record binding_event =
  bv_binding_event_id :: string
  bv_event_spec_id :: string
  bv_exit_binding_id :: string
  bv_binding_version :: int
  bv_operation :: binding_operation
  bv_authorization_source :: authorization_source
  bv_owner_authorization_id :: "string option"
  bv_reason :: string
  bv_created_at_ms :: int

record exit_authority =
  xa_profiles :: "exit_policy_row list"
  xa_bindings :: "event_exit_binding list"
  xa_current :: "current_exit_binding list"
  xa_events :: "binding_event list"

record authority_context =
  ac_semantic_hash :: "exit_profile \<Rightarrow> string"
  ac_event_side :: "string \<Rightarrow> position_side option"
  ac_authorized :: "string \<Rightarrow> bool"

definition valid_current_binding :: "current_exit_binding \<Rightarrow> bool" where
  "valid_current_binding c \<longleftrightarrow> is_identity (eb_event_spec_id c) \<and> is_identity (eb_exit_binding_id c)
     \<and> is_binding_hash (eb_binding_semantic_hash c) \<and> 0 < eb_projection_version c \<and> 0 < eb_activated_at_ms c"

definition exit_conflict :: "string \<Rightarrow> 'a result" where
  "exit_conflict reason = Inl (RuntimeError reason)"

section \<open>Reads\<close>

text \<open>A row is validated when it is read.\<close>

definition get_current_binding :: "string \<Rightarrow> exit_authority \<Rightarrow> current_exit_binding option result" where
  "get_current_binding event_spec_id s =
     (case List.find (\<lambda>r. eb_event_spec_id r = event_spec_id) (xa_current s) of
        None \<Rightarrow> Inr None
      | Some r \<Rightarrow> if valid_current_binding r then Inr (Some r) else Inl ValidationError)"

definition get_binding :: "string \<Rightarrow> exit_authority \<Rightarrow> event_exit_binding option result" where
  "get_binding exit_binding_id s =
     (case List.find (\<lambda>b. xb_exit_binding_id b = exit_binding_id) (xa_bindings s) of
        None \<Rightarrow> Inr None
      | Some b \<Rightarrow> if valid_event_exit_binding b then Inr (Some b) else Inl ValidationError)"

text \<open>The key of a profile row, as \<open>get_profile\<close> selects it.\<close>

definition profile_row :: "string \<Rightarrow> string \<Rightarrow> exit_policy_row \<Rightarrow> bool" where
  "profile_row exit_profile_id semantic_hash r \<longleftrightarrow>
     ew_exit_policy_id r = exit_profile_id \<and> ew_semantic_hash r = semantic_hash
     \<and> ew_profile_schema_version r = Some ''exit_profile_v1''"

definition decode_profile :: "authority_context \<Rightarrow> exit_policy_row \<Rightarrow> (exit_profile \<times> string) result" where
  "decode_profile ctx r =
     (case ew_policy r of
        None \<Rightarrow> Inl ValidationError
      | Some p \<Rightarrow>
          if \<not> valid_exit_profile p then Inl ValidationError
          else if xp_exit_profile_id p \<noteq> ew_exit_policy_id r \<or> ac_semantic_hash ctx p \<noteq> ew_semantic_hash r
          then exit_conflict ''EXIT_PROFILE_HASH_DRIFT''
          else if ew_status r \<noteq> ''active'' \<and> ew_status r \<noteq> ''retired'' then exit_conflict ''EXIT_PROFILE_STATUS_INVALID''
          else Inr (p, ew_status r))"

definition get_profile :: "authority_context \<Rightarrow> string \<Rightarrow> string \<Rightarrow> exit_authority \<Rightarrow> (exit_profile \<times> string) option result" where
  "get_profile ctx exit_profile_id semantic_hash s =
     (case List.find (profile_row exit_profile_id semantic_hash) (xa_profiles s) of
        None \<Rightarrow> Inr None
      | Some r \<Rightarrow> bind_result (decode_profile ctx r) (\<lambda>x. Inr (Some x)))"

definition list_profiles :: "authority_context \<Rightarrow> nat \<Rightarrow> exit_authority \<Rightarrow> (exit_profile \<times> string) list result" where
  "list_profiles ctx limit s =
     (if \<not> (1 \<le> limit \<and> limit \<le> 32) then Inl (ValueError ''ExitProfile readonly limit must be in [1, 32]'')
      else traverse (decode_profile ctx)
             (take limit (sort_key ew_exit_policy_id
               (filter (\<lambda>r. ew_profile_schema_version r = Some ''exit_profile_v1'') (xa_profiles s)))))"

definition of_event :: "string option \<Rightarrow> string \<Rightarrow> bool" where
  "of_event event_spec_id i = (case event_spec_id of None \<Rightarrow> True | Some e \<Rightarrow> i = e)"

definition list_current_bindings :: "string option \<Rightarrow> nat \<Rightarrow> exit_authority \<Rightarrow> current_exit_binding list result" where
  "list_current_bindings event_spec_id limit s =
     (if \<not> (1 \<le> limit \<and> limit \<le> 32) then Inl (ValueError ''current Binding readonly limit must be in [1, 32]'')
      else traverse (\<lambda>r. if valid_current_binding r then Inr r else Inl ValidationError)
             (take limit (sort_key eb_event_spec_id (filter (\<lambda>r. of_event event_spec_id (eb_event_spec_id r)) (xa_current s)))))"

definition valid_binding_event :: "binding_event \<Rightarrow> bool" where
  "valid_binding_event e \<longleftrightarrow>
     0 < bv_binding_version e \<and> 0 < bv_created_at_ms e \<and> non_blank (bv_binding_event_id e) \<and> non_blank (bv_event_spec_id e)
     \<and> non_blank (bv_exit_binding_id e) \<and> non_blank (bv_reason e)
     \<and> (bv_authorization_source e = OWNER_CONTROL) = (bv_owner_authorization_id e \<noteq> None)"

text \<open>Latest first; the identities of the events are unique.\<close>

definition list_binding_events :: "string option \<Rightarrow> nat \<Rightarrow> exit_authority \<Rightarrow> binding_event list result" where
  "list_binding_events event_spec_id limit s =
     (if \<not> (1 \<le> limit \<and> limit \<le> 50) then Inl (ValueError ''Binding event readonly limit must be in [1, 50]'')
      else traverse (\<lambda>e. if valid_binding_event e then Inr e else Inl ValidationError)
             (take limit (rev (sort_key bv_created_at_ms (sort_key bv_binding_event_id
               (filter (\<lambda>e. of_event event_spec_id (bv_event_spec_id e)) (xa_events s)))))))"

section \<open>Writes\<close>

definition insert_binding :: "authority_context \<Rightarrow> event_exit_binding \<Rightarrow> exit_authority \<Rightarrow> exit_authority result" where
  "insert_binding ctx b s =
     (if list_ex (\<lambda>x. xb_exit_binding_id x = xb_exit_binding_id b) (xa_bindings s)
         \<or> list_ex (\<lambda>x. xb_event_spec_id x = xb_event_spec_id b \<and> xb_binding_version x = xb_binding_version b) (xa_bindings s)
         \<or> ac_event_side ctx (xb_event_spec_id b) = None
         \<or> \<not> list_ex (\<lambda>r. ew_exit_policy_id r = xb_exit_profile_id b \<and> ew_semantic_hash r = xb_exit_profile_semantic_hash b)
               (xa_profiles s)
         \<or> xb_binding_version b \<le> 0 \<or> \<not> is_sha256_digest (xb_exit_profile_semantic_hash b)
         \<or> \<not> is_sha256_digest (xb_binding_semantic_hash b)
      then Inl IntegrityError else Inr (s\<lparr>xa_bindings := xa_bindings s @ [b]\<rparr>))"

definition operation_suffix :: "binding_operation \<Rightarrow> string" where
  "operation_suffix x = (case x of ACTIVATED \<Rightarrow> ''activated'' | RETIRED \<Rightarrow> ''retired'')"

definition add_binding_event ::
  "authority_context \<Rightarrow> event_exit_binding \<Rightarrow> binding_operation \<Rightarrow> authorization_source \<Rightarrow> string option \<Rightarrow> string \<Rightarrow> int
     \<Rightarrow> exit_authority \<Rightarrow> exit_authority result" where
  "add_binding_event ctx b operation source owner_authorization_id reason occurred_at_ms s =
     (let e = \<lparr>bv_binding_event_id = ''binding-event:'' @ xb_exit_binding_id b @ '':'' @ operation_suffix operation,
            bv_event_spec_id = xb_event_spec_id b, bv_exit_binding_id = xb_exit_binding_id b,
            bv_binding_version = xb_binding_version b, bv_operation = operation, bv_authorization_source = source,
            bv_owner_authorization_id = owner_authorization_id, bv_reason = reason, bv_created_at_ms = occurred_at_ms\<rparr>
      in if list_ex (\<lambda>x. bv_binding_event_id x = bv_binding_event_id e) (xa_events s)
            \<or> list_ex (\<lambda>x. bv_exit_binding_id x = bv_exit_binding_id e \<and> bv_operation x = operation) (xa_events s)
            \<or> ac_event_side ctx (bv_event_spec_id e) = None
            \<or> \<not> list_ex (\<lambda>x. xb_exit_binding_id x = bv_exit_binding_id e) (xa_bindings s)
            \<or> bv_binding_version e \<le> 0
            \<or> (source = OWNER_CONTROL) \<noteq> (owner_authorization_id \<noteq> None)
            \<or> (case owner_authorization_id of None \<Rightarrow> False | Some i \<Rightarrow> \<not> ac_authorized ctx i)
         then Inl IntegrityError else Inr (s\<lparr>xa_events := xa_events s @ [e]\<rparr>))"

definition replace_current ::
  "current_exit_binding \<Rightarrow> current_exit_binding \<Rightarrow> exit_authority \<Rightarrow> exit_authority result" where
  "replace_current current c s =
     (let here = (\<lambda>r. eb_event_spec_id r = eb_event_spec_id current \<and> eb_exit_binding_id r = eb_exit_binding_id current
            \<and> eb_binding_semantic_hash r = eb_binding_semantic_hash current
            \<and> eb_projection_version r = eb_projection_version current)
      in if rowcount here (xa_current s) \<noteq> 1 then exit_conflict ''EXIT_BINDING_VERSION_CONFLICT''
         else if list_ex (\<lambda>r. \<not> here r \<and> eb_exit_binding_id r = eb_exit_binding_id c) (xa_current s)
              \<or> \<not> list_ex (\<lambda>b. xb_exit_binding_id b = eb_exit_binding_id c
                         \<and> xb_binding_semantic_hash b = eb_binding_semantic_hash c) (xa_bindings s)
         then Inl IntegrityError
         else Inr (s\<lparr>xa_current := update_where here (\<lambda>_. c) (xa_current s)\<rparr>))"

text \<open>The checks of a switch, in the order of the code, with the binding it supersedes.\<close>

definition successor_checked ::
  "authority_context \<Rightarrow> current_exit_binding \<Rightarrow> event_exit_binding \<Rightarrow> event_exit_binding \<Rightarrow> exit_authority \<Rightarrow> unit result" where
  "successor_checked ctx expected old b s =
     (if xb_event_spec_id b \<noteq> eb_event_spec_id expected \<or> xb_binding_version b \<noteq> xb_binding_version old + 1
      then exit_conflict ''EXIT_BINDING_SUCCESSOR_INVALID''
      else bind_result (get_profile ctx (xb_exit_profile_id b) (xb_exit_profile_semantic_hash b) s) (\<lambda>profile.
        case profile of
          None \<Rightarrow> exit_conflict ''EXIT_PROFILE_NOT_ACTIVE''
        | Some (p, status) \<Rightarrow>
            if status \<noteq> ''active'' then exit_conflict ''EXIT_PROFILE_NOT_ACTIVE''
            else if ac_event_side ctx (xb_event_spec_id b) \<noteq> Some (xp_position_side p)
            then exit_conflict ''EXIT_PROFILE_SIDE_MISMATCH''
            else Inr ()))"

definition switch_checked ::
  "authority_context \<Rightarrow> current_exit_binding \<Rightarrow> event_exit_binding \<Rightarrow> exit_authority \<Rightarrow> event_exit_binding result" where
  "switch_checked ctx expected b s =
     bind_result (get_current_binding (eb_event_spec_id expected) s) (\<lambda>current.
       if current \<noteq> Some expected then exit_conflict ''EXIT_BINDING_VERSION_CONFLICT''
       else bind_result (get_binding (eb_exit_binding_id expected) s) (\<lambda>previous.
         case previous of
           None \<Rightarrow> exit_conflict ''EXIT_BINDING_MISSING''
         | Some old \<Rightarrow> bind_result (successor_checked ctx expected old b s) (\<lambda>_. Inr old)))"

definition switch_current_binding ::
  "authority_context \<Rightarrow> current_exit_binding \<Rightarrow> event_exit_binding \<Rightarrow> string \<Rightarrow> string \<Rightarrow> int \<Rightarrow> exit_authority
     \<Rightarrow> (exit_authority \<times> current_exit_binding) result" where
  "switch_current_binding ctx expected b owner_authorization_id reason switched_at_ms s =
     bind_result (switch_checked ctx expected b s) (\<lambda>old.
     bind_result (insert_binding ctx b s) (\<lambda>s1.
     bind_result (add_binding_event ctx old RETIRED OWNER_CONTROL (Some owner_authorization_id) reason switched_at_ms s1) (\<lambda>s2.
     bind_result (add_binding_event ctx b ACTIVATED OWNER_CONTROL (Some owner_authorization_id) reason switched_at_ms s2) (\<lambda>s3.
       let c = \<lparr>eb_event_spec_id = eb_event_spec_id expected, eb_exit_binding_id = xb_exit_binding_id b,
             eb_binding_semantic_hash = xb_binding_semantic_hash b,
             eb_projection_version = eb_projection_version expected + 1, eb_activated_at_ms = switched_at_ms\<rparr>
       in bind_result (replace_current expected c s3) (\<lambda>s4.
            if valid_current_binding c then Inr (s4, c) else Inl ValidationError)))))"

definition has_current_binding :: "string \<Rightarrow> exit_authority \<Rightarrow> bool" where
  "has_current_binding exit_profile_id s =
     list_ex (\<lambda>c. list_ex (\<lambda>b. xb_exit_binding_id b = eb_exit_binding_id c \<and> xb_exit_profile_id b = exit_profile_id)
       (xa_bindings s)) (xa_current s)"

definition retire_profile :: "authority_context \<Rightarrow> exit_profile \<Rightarrow> exit_authority \<Rightarrow> exit_authority result" where
  "retire_profile ctx p s =
     bind_result (get_profile ctx (xp_exit_profile_id p) (ac_semantic_hash ctx p) s) (\<lambda>record.
       if record = None \<or> snd (the record) \<noteq> ''active'' then exit_conflict ''EXIT_PROFILE_NOT_ACTIVE''
       else if has_current_binding (xp_exit_profile_id p) s then exit_conflict ''EXIT_PROFILE_HAS_CURRENT_BINDING''
       else let here = (\<lambda>r. ew_exit_policy_id r = xp_exit_profile_id p \<and> ew_semantic_hash r = ac_semantic_hash ctx p
                  \<and> ew_status r = ''active'')
            in if rowcount here (xa_profiles s) \<noteq> 1 then exit_conflict ''EXIT_PROFILE_NOT_ACTIVE''
               else Inr (s\<lparr>xa_profiles := update_where here (\<lambda>r. r\<lparr>ew_status := ''retired''\<rparr>) (xa_profiles s)\<rparr>))"

text \<open>One Event of \<open>retire_current_bindings_for_events\<close>, then all of them in sorted order.\<close>

definition retire_current_binding ::
  "authority_context \<Rightarrow> string \<Rightarrow> int \<Rightarrow> string \<Rightarrow> exit_authority \<Rightarrow> exit_authority result" where
  "retire_current_binding ctx reason retired_at_ms event_spec_id s =
     bind_result (get_current_binding event_spec_id s) (\<lambda>current.
       case current of
         None \<Rightarrow> Inr s
       | Some c \<Rightarrow>
           bind_result (get_binding (eb_exit_binding_id c) s) (\<lambda>binding.
             case binding of
               None \<Rightarrow> exit_conflict ''EXIT_BINDING_MISSING''
             | Some b \<Rightarrow>
                 bind_result (add_binding_event ctx b RETIRED SYSTEM_MIGRATION None reason retired_at_ms s) (\<lambda>s1.
                   let here = (\<lambda>r. eb_event_spec_id r = event_spec_id \<and> eb_projection_version r = eb_projection_version c)
                   in if rowcount here (xa_current s1) \<noteq> 1 then exit_conflict ''EXIT_BINDING_VERSION_CONFLICT''
                      else Inr (s1\<lparr>xa_current := filter (\<lambda>r. \<not> here r) (xa_current s1)\<rparr>))))"

fun retire_each ::
  "authority_context \<Rightarrow> string \<Rightarrow> int \<Rightarrow> string list \<Rightarrow> exit_authority \<Rightarrow> exit_authority result" where
  "retire_each ctx reason retired_at_ms [] s = Inr s"
| "retire_each ctx reason retired_at_ms (i # is) s =
     bind_result (retire_current_binding ctx reason retired_at_ms i s) (retire_each ctx reason retired_at_ms is)"

definition retire_current_bindings_for_events ::
  "authority_context \<Rightarrow> string list \<Rightarrow> string \<Rightarrow> int \<Rightarrow> exit_authority \<Rightarrow> exit_authority result" where
  "retire_current_bindings_for_events ctx event_spec_ids reason retired_at_ms s =
     retire_each ctx reason retired_at_ms (sort event_spec_ids) s"

end
