(* ===== verification/Maintain_Lifecycle.thy ===== *)
theory Maintain_Lifecycle
  imports Exit_Authority Reconcile_Ticket
begin

text \<open>
  \<open>application/maintain_ticket_lifecycle.py\<close>: one protected Ticket advanced from current venue and market facts, by the
  exit profile frozen on the Ticket; and \<open>application/controlled_exit.py\<close>: the account-wide exit an Owner authorizes.
\<close>

section \<open>Facts and requests\<close>

datatype maintenance_status =
    LM_NO_CHANGE | LM_BREAK_EVEN_REQUESTED | LM_RUNNER_MOVE_REQUESTED | LM_EXIT_REQUESTED

record ticket_facts =
  tf_position_quantity :: decimal
  tf_tp1_filled_quantity :: decimal
  tf_tp1_average_fill_price :: "decimal option"
  tf_allocated_entry_fee_quote :: decimal
  tf_exit_taker_fee_rate :: decimal
  tf_price_tick :: decimal
  tf_market_facts :: "lifecycle_market_facts option"
  tf_observed_at_ms :: int

definition valid_ticket_facts :: "ticket_facts \<Rightarrow> bool" where
  "valid_ticket_facts f \<longleftrightarrow>
     0 \<le> tf_position_quantity f \<and> 0 \<le> tf_tp1_filled_quantity f \<and> 0 \<le> tf_allocated_entry_fee_quote f
     \<and> 0 < tf_price_tick f \<and> 0 < tf_observed_at_ms f
     \<and> 0 \<le> tf_exit_taker_fee_rate f \<and> tf_exit_taker_fee_rate f < 1
     \<and> (if 0 < tf_tp1_filled_quantity f then \<not> is_missing_price (tf_tp1_average_fill_price f)
        else tf_tp1_average_fill_price f = None)
     \<and> (case tf_market_facts f of None \<Rightarrow> True | Some m \<Rightarrow> valid_market_facts m)"

record maintenance_request =
  mq_ticket_id :: string
  mq_facts :: ticket_facts
  mq_now_ms :: int

definition valid_maintenance_request :: "maintenance_request \<Rightarrow> bool" where
  "valid_maintenance_request q \<longleftrightarrow>
     is_identity (mq_ticket_id q) \<and> valid_ticket_facts (mq_facts q) \<and> tf_observed_at_ms (mq_facts q) \<le> mq_now_ms q"

section \<open>The decision for a protected position\<close>

type_synonym maintenance = "(maintenance_status \<times> lifecycle_fact option) result"

abbreviation unchanged :: maintenance where
  "unchanged \<equiv> Inr (LM_NO_CHANGE, None)"

definition pre_tp1_maintenance :: "exit_profile \<Rightarrow> trade_aggregate \<Rightarrow> ticket_facts \<Rightarrow> maintenance" where
  "pre_tp1_maintenance p a f =
     (if tf_position_quantity f \<noteq> ag_position_qty a
      then Inl (ValueError ''pre-TP1 venue quantity differs from Ticket projection'')
      else if xp_pre_tp1_guards p = [] \<and> xp_time_stop p = None then unchanged
      else case tf_market_facts f of
        None \<Rightarrow> unchanged
      | Some m \<Rightarrow>
          bind_result (evaluate_profile_pre_tp1_exit p m (tf_observed_at_ms f) (tk_pre_tp1_reclaim_price (ag_ticket a))
              (tk_exposure_session_end_ms (ag_ticket a))) (\<lambda>d.
            if xd_kind d = XD_EXIT then Inr (LM_EXIT_REQUESTED, Some (ExitRequested (xd_reason d))) else unchanged))"

definition break_even_of :: "exit_profile \<Rightarrow> decimal \<Rightarrow> decimal \<Rightarrow> ticket_facts \<Rightarrow> break_even_terms" where
  "break_even_of p entry_average_price runner_quantity f =
     \<lparr>bt_entry_average_price = entry_average_price, bt_runner_quantity = runner_quantity,
      bt_allocated_entry_fee_quote = tf_allocated_entry_fee_quote f, bt_exit_taker_fee_rate = tf_exit_taker_fee_rate f,
      bt_price_tick = tf_price_tick f,
      bt_slippage_buffer_ticks = be_slippage_buffer_ticks (xp_break_even_floor p)\<rparr>"

definition tp1_maintenance :: "exit_profile \<Rightarrow> trade_aggregate \<Rightarrow> ticket_facts \<Rightarrow> maintenance" where
  "tp1_maintenance p a f =
     (let target = ag_tp1_target_qty a; runner_quantity = dec_sub (ag_position_qty a) target
      in if tf_tp1_filled_quantity f \<noteq> target
         then Inl (ValueError ''partial TP1 fill is outside the registered exit policy'')
         else case (ag_average_fill_price a, tf_tp1_average_fill_price f) of
           (Some entry_price, Some tp1_price) \<Rightarrow>
             if runner_quantity \<le> 0 \<or> tf_position_quantity f \<noteq> runner_quantity
             then Inl (ValueError ''TP1 venue facts contradict the frozen Ticket'')
             else bind_result (calculate_cost_adjusted_break_even (side_value (xp_position_side p))
                      (break_even_of p entry_price runner_quantity f)) (\<lambda>floor_price.
                    Inr (LM_BREAK_EVEN_REQUESTED, Some (TakeProfitFilled target tp1_price floor_price)))
         | _ \<Rightarrow> Inl (ValueError ''TP1 venue facts contradict the frozen Ticket''))"

definition runner_maintenance :: "exit_profile \<Rightarrow> trade_aggregate \<Rightarrow> ticket_facts \<Rightarrow> maintenance" where
  "runner_maintenance p a f =
     (if tf_position_quantity f \<noteq> ag_position_qty a
      then Inl (ValueError ''runner venue quantity differs from Ticket projection'')
      else case tf_market_facts f of
        None \<Rightarrow> unchanged
      | Some m \<Rightarrow>
          (case (ag_active_stop_price a, ag_break_even_floor_price a) of
             (Some stop, Some floor_price) \<Rightarrow>
               bind_result (evaluate_profile_runner_exit p
                   \<lparr>ru_current_stop = stop, ru_break_even_floor = floor_price, ru_price_tick = tf_price_tick f,
                    ru_last_runner_watermark_ms = (case ag_runner_stop_watermark_ms a of None \<Rightarrow> 0 | Some w \<Rightarrow> w)\<rparr> m) (\<lambda>d.
                 case xd_kind d of
                   XD_NO_CHANGE \<Rightarrow> unchanged
                 | XD_MOVE_STOP \<Rightarrow>
                     (case xd_proposed_stop d of
                        None \<Rightarrow> Inl (RuntimeError ''runner move decision lacks a stop price'')
                      | Some new_stop \<Rightarrow>
                          Inr (LM_RUNNER_MOVE_REQUESTED, Some (RunnerStopRequested new_stop (xd_source_watermark_ms d))))
                 | XD_EXIT \<Rightarrow> Inr (LM_EXIT_REQUESTED, Some (ExitRequested (xd_reason d))))
           | _ \<Rightarrow> Inl (ValueError ''runner protection lacks its active and floor prices'')))"

definition maintenance_decision :: "exit_profile \<Rightarrow> trade_aggregate \<Rightarrow> ticket_facts \<Rightarrow> maintenance" where
  "maintenance_decision p a f =
     (if ag_status a = POSITION_PROTECTED
      then if tf_tp1_filled_quantity f = 0 then pre_tp1_maintenance p a f else tp1_maintenance p a f
      else if ag_status a = RUNNER_PROTECTED then runner_maintenance p a f
      else unchanged)"

section \<open>The service\<close>

definition frozen_profile :: "authority_context \<Rightarrow> trade_aggregate \<Rightarrow> exit_authority \<Rightarrow> exit_profile result" where
  "frozen_profile ctx a x =
     bind_result (get_profile ctx (tk_exit_policy_id (ag_ticket a)) (tk_exit_policy_semantic_hash (ag_ticket a)) x) (\<lambda>record.
       case record of
         None \<Rightarrow> Inl (ValueError ''Ticket has no exact frozen ExitProfile'')
       | Some (p, status) \<Rightarrow>
           if xp_position_side p \<noteq> nd_position_side (agg_domain a)
           then Inl (ValueError ''ExitProfile side differs from Ticket Netting Domain'') else Inr p)"

definition maintain_loaded ::
  "authority_context \<Rightarrow> exit_authority \<Rightarrow> maintenance_request \<Rightarrow> trade_aggregate \<Rightarrow> kernel_store
     \<Rightarrow> (kernel_store \<times> maintenance_status) result" where
  "maintain_loaded ctx x q a s =
     bind_result (frozen_profile ctx a x) (\<lambda>p.
     bind_result (maintenance_decision p a (mq_facts q)) (\<lambda>(status, f).
       case f of
         None \<Rightarrow> Inr (s, status)
       | Some y \<Rightarrow> bind_result (commit_fact a (mq_now_ms q) y s) (\<lambda>s'. Inr (s', status))))"

definition maintain_ticket_lifecycle ::
  "authority_context \<Rightarrow> exit_authority \<Rightarrow> maintenance_request \<Rightarrow> kernel_store \<Rightarrow> (kernel_store \<times> maintenance_status) result" where
  "maintain_ticket_lifecycle ctx x q s =
     bind_result (aggregates_get (mq_ticket_id q) s) (\<lambda>loaded.
       case loaded of
         None \<Rightarrow> Inl (ValueError ''lifecycle Ticket does not exist'')
       | Some a \<Rightarrow> maintain_loaded ctx x q a s)"

section \<open>Controlled exit\<close>

datatype controlled_exit_classification = CX_ELIGIBLE | CX_IN_PROGRESS | CX_TERMINAL | CX_BLOCKED

definition classify_controlled_exit_status :: "aggregate_status \<Rightarrow> controlled_exit_classification" where
  "classify_controlled_exit_status status =
     (if status \<in> {POSITION_PROTECTED, RUNNER_PROTECTED} then CX_ELIGIBLE
      else if status \<in> {EXIT_PENDING, EXIT_ACCEPTED, EXIT_OUTCOME_UNKNOWN, RECONCILIATION_PENDING, SETTLEMENT_PENDING,
             REVIEW_PENDING} then CX_IN_PROGRESS
      else if status \<in> {TERMINAL, LEVERAGE_REJECTED, ENTRY_REJECTED, ENTRY_RECONCILED_ABSENT} then CX_TERMINAL
      else CX_BLOCKED)"

record controlled_exit_authorization =
  cz_authorization_id :: string
  cz_target_commit :: string

text \<open>The purpose is always \<open>deployment_drain\<close>.\<close>

definition is_authorization_id :: "string \<Rightarrow> bool" where
  "is_authorization_id i \<longleftrightarrow>
     (let alnum = set ''ABCDEFGHIJKLMNOPQRSTUVWXYZabcdefghijklmnopqrstuvwxyz0123456789''
      in i \<noteq> [] \<and> hd i \<in> alnum \<and> length i \<le> 128 \<and> list_all (\<lambda>c. c \<in> alnum \<union> set ''._-'') (tl i))"

definition valid_controlled_exit_authorization :: "controlled_exit_authorization \<Rightarrow> bool" where
  "valid_controlled_exit_authorization z \<longleftrightarrow> is_authorization_id (cz_authorization_id z)
     \<and> length (cz_target_commit z) = 40 \<and> list_all is_lower_hex (cz_target_commit z)"

definition controlled_exit_reason :: "controlled_exit_authorization \<Rightarrow> string" where
  "controlled_exit_reason z = ''deployment_drain:'' @ cz_authorization_id z @ '':'' @ cz_target_commit z"

record controlled_exit_request =
  cq_authorization :: controlled_exit_authorization
  cq_venue_id :: string
  cq_account_id :: string
  cq_max_active_tickets :: nat
  cq_requested_at_ms :: int

definition valid_controlled_exit_request :: "controlled_exit_request \<Rightarrow> bool" where
  "valid_controlled_exit_request q \<longleftrightarrow> valid_controlled_exit_authorization (cq_authorization q)
     \<and> is_identity (cq_venue_id q) \<and> is_identity (cq_account_id q)
     \<and> 0 < cq_max_active_tickets q \<and> cq_max_active_tickets q \<le> 3 \<and> 0 < cq_requested_at_ms q"

record controlled_exit_result =
  cr_requested :: "string list"
  cr_in_progress :: "string list"
  cr_terminal :: "string list"
  cr_blocked :: "string list"

text \<open>\<open>aggregates.list_active_ticket_ids\<close>.\<close>

definition list_active_ticket_ids :: "string \<Rightarrow> string \<Rightarrow> nat \<Rightarrow> kernel_store \<Rightarrow> string list result" where
  "list_active_ticket_ids venue_id account_id limit s =
     (if \<not> non_blank venue_id \<or> \<not> non_blank account_id
      then Inl (ValueError ''active Ticket scope identities must be non-blank'')
      else if limit = 0 \<or> 3 < limit then Inl (ValueError ''active Ticket selection limit must be 1 through 3'')
      else let rows = take (limit + 1) (sort (map agg_ticket_id (filter (\<lambda>a. list_ex (\<lambda>r.
             row_ticket_id r = agg_ticket_id a \<and> account_ticket venue_id account_id r
             \<and> tr_terminal_at_ms r = None) (ks_tickets s)) (ks_aggregates s))))
           in if limit < length rows then Inl (RuntimeError ''active Ticket set exceeds Controlled Exit bound'')
              else Inr rows)"

definition classification_for_ticket :: "kernel_store \<Rightarrow> string \<Rightarrow> controlled_exit_classification result" where
  "classification_for_ticket s ticket_id =
     bind_result (aggregates_get ticket_id s) (\<lambda>a.
       Inr (case a of None \<Rightarrow> CX_TERMINAL | Some x \<Rightarrow> classify_controlled_exit_status (ag_status x)))"

text \<open>
  One transaction per Ticket: \<open>others ticket_id\<close> is what other transactions do before it. An exception ends the
  service; the transactions before it stay committed.
\<close>

fun exit_each ::
  "controlled_exit_request \<Rightarrow> (string \<Rightarrow> kernel_store \<Rightarrow> kernel_store) \<Rightarrow> string list \<Rightarrow> controlled_exit_result \<Rightarrow> kernel_store
     \<Rightarrow> kernel_store \<times> controlled_exit_result result" where
  "exit_each q others [] r s = (s, Inr r)"
| "exit_each q others (t # ts) r s =
     (let s1 = others t s
      in case classification_for_ticket s1 t of
        Inl e \<Rightarrow> (s1, Inl e)
      | Inr CX_ELIGIBLE \<Rightarrow>
          (case request_exit \<lparr>xr_ticket_id = t, xr_reason = controlled_exit_reason (cq_authorization q),
                   xr_requested_at_ms = cq_requested_at_ms q\<rparr> s1 of
             Inl e \<Rightarrow> (s1, Inl e)
           | Inr s2 \<Rightarrow> exit_each q others ts (r\<lparr>cr_requested := cr_requested r @ [t]\<rparr>) s2)
      | Inr CX_IN_PROGRESS \<Rightarrow> exit_each q others ts (r\<lparr>cr_in_progress := cr_in_progress r @ [t]\<rparr>) s1
      | Inr CX_TERMINAL \<Rightarrow> exit_each q others ts (r\<lparr>cr_terminal := cr_terminal r @ [t]\<rparr>) s1
      | Inr CX_BLOCKED \<Rightarrow> (s1, Inr (r\<lparr>cr_blocked := cr_blocked r @ [t]\<rparr>)))"

definition empty_exit_result :: controlled_exit_result where
  "empty_exit_result = \<lparr>cr_requested = [], cr_in_progress = [], cr_terminal = [], cr_blocked = []\<rparr>"

definition request_controlled_exits ::
  "controlled_exit_request \<Rightarrow> (string \<Rightarrow> kernel_store \<Rightarrow> kernel_store) \<Rightarrow> kernel_store
     \<Rightarrow> kernel_store \<times> controlled_exit_result result" where
  "request_controlled_exits q others s =
     (case list_active_ticket_ids (cq_venue_id q) (cq_account_id q) (cq_max_active_tickets q) s of
        Inl e \<Rightarrow> (s, Inl e)
      | Inr ids \<Rightarrow>
          (case traverse (classification_for_ticket s) ids of
             Inl e \<Rightarrow> (s, Inl e)
           | Inr initial \<Rightarrow>
               let blocked = map fst (filter (\<lambda>(t, c). c = CX_BLOCKED) (zip ids initial))
               in if blocked \<noteq> [] then (s, Inr (empty_exit_result\<lparr>cr_blocked := blocked\<rparr>))
                  else exit_each q others ids empty_exit_result s))"

end
