(* ===== verification/Exit_Properties.thy ===== *)
theory Exit_Properties
  imports Exit_Policy Reducer
begin

text \<open>
  What the exit rules guarantee: a break-even floor covers the costs it is adjusted for, a runner move tightens the
  stop and never crosses the floor, and the registry, the exit profiles and their bindings fit together.
\<close>

section \<open>Accumulated rounding\<close>

text \<open>Lower bounds through a chain of rounded operations; the upper bounds are \<open>rnd_chain\<close>.\<close>

context context_rounding begin

lemma rnd_chain_lower: "0 \<le> x \<Longrightarrow> y * (1 - eps) ^ n \<le> x \<Longrightarrow> y * (1 - eps) ^ Suc n \<le> rnd x"
  using rnd_lower[of x] mult_right_mono[of "y * (1 - eps) ^ n" x "1 - eps"] eps_small
  by (simp add: algebra_simps)

end

lemma eps_bounds: "0 < dec_eps" "dec_eps < 1 / 1000"
  by (simp_all add: dec_eps_def)

lemma round_up_ge:
  assumes "0 \<le> value" "0 < step" "y * (1 - dec_eps) ^ n \<le> value"
  shows "y * (1 - dec_eps) ^ (n + 2) \<le> round_to_step dec_ceiling value step"
proof -
  let ?q = "dec_fix (value / step)"
  have "y / step * (1 - dec_eps) ^ n \<le> value / step" using assms by (simp add: divide_right_mono)
  then have "y / step * (1 - dec_eps) ^ Suc n \<le> ?q" using assms by (intro dec.rnd_chain_lower) auto
  also have "?q \<le> dec_ceiling ?q" by (rule dec_ceiling_ge)
  finally have "y * (1 - dec_eps) ^ Suc n \<le> dec_ceiling ?q * step" using assms by (simp add: field_simps)
  moreover have "0 \<le> ?q" using assms by simp
  then have "0 \<le> dec_ceiling ?q * step"
    using assms(2) order_trans[OF _ dec_ceiling_ge[of ?q]] by (intro mult_nonneg_nonneg) auto
  ultimately have "y * (1 - dec_eps) ^ Suc (Suc n) \<le> dec_fix (dec_ceiling ?q * step)" by (intro dec.rnd_chain_lower)
  then show ?thesis by (simp add: round_to_step_def dec_div_def dec_mul_def)
qed

lemma round_down_le:
  assumes "0 \<le> value" "0 < step" "value \<le> y * (1 + dec_eps) ^ n"
  shows "round_to_step dec_floor value step \<le> y * (1 + dec_eps) ^ (n + 2)"
proof -
  let ?q = "dec_fix (value / step)"
  have "value / step \<le> y / step * (1 + dec_eps) ^ n" using assms by (simp add: divide_right_mono)
  then have "?q \<le> y / step * (1 + dec_eps) ^ Suc n" using assms by (intro dec.rnd_chain) auto
  then have "dec_floor ?q \<le> y / step * (1 + dec_eps) ^ Suc n" using dec_floor_le order_trans by blast
  then have "dec_floor ?q * step \<le> y * (1 + dec_eps) ^ Suc n" using assms by (simp add: field_simps)
  moreover have "0 \<le> dec_floor ?q * step"
    using assms by (intro mult_nonneg_nonneg dec_floor_nonneg) auto
  ultimately have "dec_fix (dec_floor ?q * step) \<le> y * (1 + dec_eps) ^ Suc (Suc n)" by (intro dec.rnd_chain)
  then show ?thesis by (simp add: round_to_step_def dec_div_def dec_mul_def)
qed

section \<open>Break-even\<close>

text \<open>The amounts a break-even price is about, without rounding.\<close>

definition entry_value :: "break_even_terms \<Rightarrow> rat" where
  "entry_value t = bt_entry_average_price t * bt_runner_quantity t"

definition round_trip_costs :: "break_even_terms \<Rightarrow> rat" where
  "round_trip_costs t = bt_allocated_entry_fee_quote t
     + bt_price_tick t * of_int (bt_slippage_buffer_ticks t) * bt_runner_quantity t"

lemma financial_inputs_iff: "require_financial_inputs t = Inr u \<longleftrightarrow>
   0 < bt_entry_average_price t \<and> 0 < bt_runner_quantity t \<and> 0 < bt_price_tick t
   \<and> 0 \<le> bt_allocated_entry_fee_quote t \<and> 0 \<le> bt_slippage_buffer_ticks t
   \<and> 0 \<le> bt_exit_taker_fee_rate t \<and> bt_exit_taker_fee_rate t < 1"
  by (auto simp: require_financial_inputs_def)

lemma slippage_buffer_bounds:
  assumes "require_financial_inputs t = Inr ()"
  shows "bt_price_tick t * of_int (bt_slippage_buffer_ticks t) * bt_runner_quantity t * (1 - dec_eps) ^ 2
      \<le> slippage_buffer_quote t" "0 \<le> slippage_buffer_quote t"
proof -
  let ?s = "bt_price_tick t * of_int (bt_slippage_buffer_ticks t)"
  have s: "0 \<le> ?s" "0 < bt_runner_quantity t" using assms by (auto simp: financial_inputs_iff)
  have "?s * (1 - dec_eps) ^ Suc 0 \<le> dec_fix ?s" using s by (intro dec.rnd_chain_lower) auto
  then have "?s * bt_runner_quantity t * (1 - dec_eps) ^ Suc 0 \<le> dec_fix ?s * bt_runner_quantity t"
    using s by (simp add: mult_ac)
  moreover have nn: "0 \<le> dec_fix ?s * bt_runner_quantity t" using s by (intro mult_nonneg_nonneg) auto
  ultimately have "?s * bt_runner_quantity t * (1 - dec_eps) ^ Suc (Suc 0) \<le> dec_fix (dec_fix ?s * bt_runner_quantity t)"
    by (intro dec.rnd_chain_lower)
  then show "?s * bt_runner_quantity t * (1 - dec_eps) ^ 2 \<le> slippage_buffer_quote t"
    by (simp add: slippage_buffer_quote_def dec_mul_def numeral_2_eq_2)
  show "0 \<le> slippage_buffer_quote t" using nn by (simp add: slippage_buffer_quote_def dec_mul_def)
qed

lemma long_break_even_ge:
  assumes "require_financial_inputs t = Inr ()"
  shows "(entry_value t + round_trip_costs t) / (bt_runner_quantity t * (1 - bt_exit_taker_fee_rate t) * (1 + dec_eps) ^ 2)
      * (1 - dec_eps) ^ 4 \<le> long_break_even t" "0 \<le> long_break_even t"
proof -
  let ?P = "bt_entry_average_price t" and ?q = "bt_runner_quantity t" and ?A = "bt_allocated_entry_fee_quote t"
  let ?f = "bt_exit_taker_fee_rate t" and ?S = "slippage_buffer_quote t"
  let ?Slip = "bt_price_tick t * of_int (bt_slippage_buffer_ticks t) * bt_runner_quantity t"
  let ?n1 = "dec_fix (?P * ?q)" let ?n2 = "dec_fix (?n1 + ?A)" let ?n = "dec_fix (?n2 + ?S)"
  let ?d1 = "dec_fix (1 - ?f)" let ?d = "dec_fix (?q * ?d1)"
  have i: "0 < ?P" "0 < ?q" "0 \<le> ?A" "0 \<le> ?f" "?f < 1" using assms by (auto simp: financial_inputs_iff)
  have e: "0 < dec_eps" "dec_eps < 1" using eps_bounds by auto
  have pow: "(1 - dec_eps) ^ k \<le> 1" "0 \<le> (1 - dec_eps) ^ k" for k using e by (auto intro: power_le_one)
  have n1: "?P * ?q * (1 - dec_eps) ^ Suc 0 \<le> ?n1" "0 \<le> ?n1"
    using i dec.rnd_chain_lower[of "?P * ?q" "?P * ?q" 0] by auto
  have "(?P * ?q + ?A) * (1 - dec_eps) ^ Suc 0 \<le> ?n1 + ?A"
    using n1 mult_left_mono[OF pow(1)[of "Suc 0"] i(3)] by (simp add: algebra_simps)
  moreover have pos1: "0 \<le> ?n1 + ?A" using n1 i by simp
  ultimately have n2: "(?P * ?q + ?A) * (1 - dec_eps) ^ Suc (Suc 0) \<le> ?n2" by (intro dec.rnd_chain_lower)
  have "(?P * ?q + ?A + ?Slip) * (1 - dec_eps) ^ Suc (Suc 0) \<le> ?n2 + ?S"
    using add_mono[OF n2 slippage_buffer_bounds(1)[OF assms]] by (simp add: distrib_right numeral_2_eq_2)
  moreover have pos2: "0 \<le> ?n2 + ?S" using pos1 slippage_buffer_bounds(2)[OF assms] by simp
  ultimately have n: "(?P * ?q + ?A + ?Slip) * (1 - dec_eps) ^ Suc (Suc (Suc 0)) \<le> ?n" by (intro dec.rnd_chain_lower)
  have "?d1 \<le> (1 - ?f) * (1 + dec_eps) ^ Suc 0" using i by (intro dec.rnd_chain) auto
  then have "?q * ?d1 \<le> ?q * (1 - ?f) * (1 + dec_eps) ^ Suc 0" using i by (simp add: mult_ac)
  moreover have den: "0 < ?q * ?d1" using i by (intro mult_pos_pos) auto
  ultimately have d: "?d \<le> ?q * (1 - ?f) * (1 + dec_eps) ^ Suc (Suc 0)" by (intro dec.rnd_chain) simp_all
  have d': "0 < ?d" using den by simp
  let ?T = "?P * ?q + ?A + ?Slip" and ?D = "?q * (1 - ?f) * (1 + dec_eps) ^ Suc (Suc 0)"
  have T: "0 \<le> ?T" using i assms by (auto simp: financial_inputs_iff)
  have D: "0 < ?D" using i e by (intro mult_pos_pos zero_less_power) auto
  have "0 \<le> ?T * (1 - dec_eps) ^ 3" using T pow(2) by (intro mult_nonneg_nonneg)
  then have "?T * (1 - dec_eps) ^ 3 / ?D \<le> ?T * (1 - dec_eps) ^ 3 / ?d"
    using divide_left_mono[OF d _ mult_pos_pos[OF D d']] by blast
  also have "\<dots> \<le> ?n / ?d" using n d' by (simp add: divide_right_mono numeral_3_eq_3)
  finally have "?T / ?D * (1 - dec_eps) ^ 3 \<le> ?n / ?d" by simp
  then have "?T / ?D * (1 - dec_eps) ^ Suc 3 \<le> dec_fix (?n / ?d)" using pos2 d' by (intro dec.rnd_chain_lower) simp_all
  then show "(entry_value t + round_trip_costs t) / (?q * (1 - ?f) * (1 + dec_eps) ^ 2) * (1 - dec_eps) ^ 4
      \<le> long_break_even t"
    by (simp add: long_break_even_def dec_ops entry_value_def round_trip_costs_def numeral_2_eq_2 add.assoc
        power_Suc[symmetric] del: power_Suc)
  show "0 \<le> long_break_even t" using pos2 d' by (simp add: long_break_even_def dec_ops)
qed

lemma short_break_even_le:
  assumes "require_financial_inputs t = Inr ()" "0 < short_break_even t"
  shows "short_break_even t \<le> (entry_value t * (1 + dec_eps) ^ 2 - bt_allocated_entry_fee_quote t
        - bt_price_tick t * of_int (bt_slippage_buffer_ticks t) * bt_runner_quantity t * (1 - dec_eps) ^ 2)
      / (bt_runner_quantity t * (1 + bt_exit_taker_fee_rate t) * (1 - dec_eps) ^ 2) * (1 + dec_eps) ^ 2"
proof -
  let ?P = "bt_entry_average_price t" and ?q = "bt_runner_quantity t" and ?A = "bt_allocated_entry_fee_quote t"
  let ?f = "bt_exit_taker_fee_rate t" and ?S = "slippage_buffer_quote t"
  let ?Slip = "bt_price_tick t * of_int (bt_slippage_buffer_ticks t) * ?q * (1 - dec_eps) ^ 2"
  let ?gross = "dec_fix (?P * ?q)" let ?net = "dec_fix (?gross - ?A)" let ?num = "dec_fix (?net - ?S)"
  let ?rate = "dec_fix (1 + ?f)" let ?den = "dec_fix (?q * ?rate)"
  have i: "0 < ?P" "0 < ?q" "0 \<le> ?A" "0 \<le> ?f" using assms by (auto simp: financial_inputs_iff)
  have e: "0 < dec_eps" "dec_eps < 1" using eps_bounds by auto
  have rate: "0 < ?rate" using i by simp
  have den: "0 < ?den" using mult_pos_pos[OF i(2) rate] by simp
  have sbe: "short_break_even t = dec_fix (?num / ?den)" by (simp add: short_break_even_def dec_ops)
  then have num: "0 < ?num" using assms(2) den by (simp add: zero_less_divide_iff)
  then have net_S: "0 < ?net - ?S" by simp
  have S: "?Slip \<le> ?S" "0 \<le> ?S" using slippage_buffer_bounds[OF assms(1)] by auto
  have net: "0 < ?gross - ?A" using net_S S(2) by (metis dec.rnd_pos_iff diff_gt_0_iff_gt le_less_trans)
  have "?gross \<le> ?P * ?q * (1 + dec_eps) ^ Suc 0" using i by (intro dec.rnd_chain) auto
  then have "?net \<le> (?P * ?q * (1 + dec_eps) - ?A) * (1 + dec_eps) ^ Suc 0"
    using net by (intro dec.rnd_chain) auto
  also have "\<dots> \<le> ?P * ?q * (1 + dec_eps) ^ 2 - ?A"
    using i(3) e(1) by (simp add: algebra_simps power2_eq_square)
  finally have "?net - ?S \<le> ?P * ?q * (1 + dec_eps) ^ 2 - ?A - ?Slip" using S by linarith
  then have up: "?num \<le> (?P * ?q * (1 + dec_eps) ^ 2 - ?A - ?Slip) * (1 + dec_eps) ^ Suc 0"
    using net_S by (intro dec.rnd_chain) auto
  have "(1 + ?f) * (1 - dec_eps) ^ Suc 0 \<le> ?rate" using i by (intro dec.rnd_chain_lower) auto
  then have "?q * (1 + ?f) * (1 - dec_eps) ^ Suc 0 \<le> ?q * ?rate" using i by (simp add: mult_ac)
  then have low: "?q * (1 + ?f) * (1 - dec_eps) ^ Suc (Suc 0) \<le> ?den"
    using mult_pos_pos[OF i(2) rate] by (intro dec.rnd_chain_lower) simp_all
  have D: "0 < ?q * (1 + ?f) * (1 - dec_eps) ^ Suc (Suc 0)" using i e by (intro mult_pos_pos zero_less_power) auto
  have "?num / ?den \<le> ?num / (?q * (1 + ?f) * (1 - dec_eps) ^ Suc (Suc 0))"
    using divide_left_mono[OF low less_imp_le[OF num] mult_pos_pos[OF den D]] .
  also have "\<dots> \<le> (?P * ?q * (1 + dec_eps) ^ 2 - ?A - ?Slip) * (1 + dec_eps) ^ Suc 0
      / (?q * (1 + ?f) * (1 - dec_eps) ^ Suc (Suc 0))" using up D by (intro divide_right_mono) simp_all
  finally have "dec_fix (?num / ?den) \<le> (?P * ?q * (1 + dec_eps) ^ 2 - ?A - ?Slip)
      / (?q * (1 + ?f) * (1 - dec_eps) ^ Suc (Suc 0)) * (1 + dec_eps) ^ Suc (Suc 0)"
    using num den by (intro dec.rnd_chain) simp_all
  then show ?thesis by (simp add: sbe entry_value_def numeral_2_eq_2)
qed

text \<open>The rounding factors, as multiples of the unit roundoff.\<close>

lemma eps_power: "(1 - 8 * dec_eps) * (1 + dec_eps) ^ 2 \<le> (1 - dec_eps) ^ 6"
    "(1 + dec_eps) ^ 4 \<le> (1 + 7 * dec_eps) * (1 - dec_eps) ^ 2"
    "(1 + dec_eps) ^ 2 \<le> 1 + 3 * dec_eps" "1 - 2 * dec_eps \<le> (1 - dec_eps) ^ 2"
  by (simp_all add: dec_eps_def power_divide)

lemma exit_floor_long:
  assumes "require_financial_inputs t = Inr ()" "F = round_to_step dec_ceiling (long_break_even t) (bt_price_tick t)"
  shows "(entry_value t + round_trip_costs t) * (1 - 8 * dec_eps) \<le> F * bt_runner_quantity t * (1 - bt_exit_taker_fee_rate t)"
proof -
  let ?M = "bt_runner_quantity t * (1 - bt_exit_taker_fee_rate t)" and ?G = "entry_value t + round_trip_costs t"
  have i: "0 < ?M" "0 < bt_price_tick t" "0 \<le> ?G"
    using assms(1) by (auto simp: financial_inputs_iff entry_value_def round_trip_costs_def)
  have e: "0 < (1 + dec_eps) ^ 2" using eps_bounds by (intro zero_less_power) simp
  have D: "0 < ?M * (1 + dec_eps) ^ 2" using i(1) e by (rule mult_pos_pos)
  have "?G / (?M * (1 + dec_eps) ^ 2) * (1 - dec_eps) ^ (4 + 2) \<le> F"
    unfolding assms(2) using long_break_even_ge[OF assms(1)] i(2) by (intro round_up_ge)
  then have F: "?G * (1 - dec_eps) ^ 6 \<le> F * ?M * (1 + dec_eps) ^ 2" using D by (simp add: pos_divide_le_eq mult_ac)
  have "?G * (1 - 8 * dec_eps) * (1 + dec_eps) ^ 2 \<le> ?G * (1 - dec_eps) ^ 6"
    using mult_left_mono[OF eps_power(1) i(3)] by (simp only: mult.assoc)
  then have "?G * (1 - 8 * dec_eps) * (1 + dec_eps) ^ 2 \<le> F * ?M * (1 + dec_eps) ^ 2" using F by (rule order_trans)
  then have "?G * (1 - 8 * dec_eps) \<le> F * ?M" using e by (rule mult_right_le_imp_le)
  then show ?thesis by (simp only: mult.assoc)
qed

lemma surplus_bound:
  fixes v a s r :: rat
  assumes "r = v * (1 + dec_eps) ^ 2 - a - s * (1 - dec_eps) ^ 2" "0 < r" "0 \<le> a" "0 \<le> s" "0 < v"
  shows "r * (1 + 7 * dec_eps) \<le> v - a - s + 16 * dec_eps * v"
proof -
  have e: "0 < dec_eps" "dec_eps < 1 / 1000" using eps_bounds by auto
  have s: "s * (1 - 2 * dec_eps) \<le> s * (1 - dec_eps) ^ 2" using eps_power(4) assms(4) by (intro mult_left_mono)
  have v: "v * (1 + dec_eps) ^ 2 \<le> v * (1 + 3 * dec_eps)" using eps_power(3) assms(5) by (intro mult_left_mono) auto
  have small: "v * dec_eps * 1000 \<le> v" "s * dec_eps * 1000 \<le> s"
    using mult_left_mono[of "dec_eps * 1000" 1 v] mult_left_mono[of "dec_eps * 1000" 1 s] e(2) assms by (auto simp: mult_ac)
  have r: "r \<le> v + 3 * (v * dec_eps) - a - s + 2 * (s * dec_eps)" using assms(1) s v by (simp add: algebra_simps)
  then have "s \<le> 2 * v" using small assms(2,3,5) by linarith
  then have s2: "s * dec_eps \<le> 2 * (v * dec_eps)" using mult_right_mono[of s "2 * v" dec_eps] e(1) by simp
  then have r2: "r \<le> v - a - s + 7 * (v * dec_eps)" using r by linarith
  then have "r \<le> 9 / 7 * v" using small assms(3,4,5) by linarith
  then have "r * dec_eps \<le> 9 / 7 * v * dec_eps" using e(1) by (intro mult_right_mono) auto
  then show ?thesis using r2 by (simp add: algebra_simps)
qed

lemma exit_floor_short:
  assumes "require_financial_inputs t = Inr ()" "0 < short_break_even t"
    "F = round_to_step dec_floor (short_break_even t) (bt_price_tick t)"
  shows "F * bt_runner_quantity t * (1 + bt_exit_taker_fee_rate t)
    \<le> entry_value t - round_trip_costs t + 16 * dec_eps * entry_value t"
proof -
  let ?M = "bt_runner_quantity t * (1 + bt_exit_taker_fee_rate t)" and ?V = "entry_value t"
  let ?A = "bt_allocated_entry_fee_quote t"
  let ?Slip = "bt_price_tick t * of_int (bt_slippage_buffer_ticks t) * bt_runner_quantity t"
  let ?R = "?V * (1 + dec_eps) ^ 2 - ?A - ?Slip * (1 - dec_eps) ^ 2"
  have i: "0 < ?M" "0 < bt_price_tick t" "0 < ?V" "0 \<le> ?A" "0 \<le> ?Slip"
    using assms(1) by (auto simp: financial_inputs_iff entry_value_def)
  have e: "0 < dec_eps" "dec_eps < 1 / 1000" "0 < (1 - dec_eps) ^ 2" using eps_bounds by auto
  have D: "0 < ?M * (1 - dec_eps) ^ 2" using i(1) e(3) by (rule mult_pos_pos)
  have "F \<le> ?R / (?M * (1 - dec_eps) ^ 2) * (1 + dec_eps) ^ (2 + 2)"
    unfolding assms(3) using short_break_even_le[OF assms(1,2)] i(2) assms(2) by (intro round_down_le) auto
  then have F: "F * ?M * (1 - dec_eps) ^ 2 \<le> ?R * (1 + dec_eps) ^ 4" using D by (simp add: le_divide_eq mult_ac)
  have "0 < ?R / (?M * (1 - dec_eps) ^ 2) * (1 + dec_eps) ^ 2"
    using short_break_even_le[OF assms(1)] assms(2) by simp
  then have R: "0 < ?R" using D e(1) by (simp add: zero_less_mult_iff zero_less_divide_iff)
  have "F * ?M * (1 - dec_eps) ^ 2 \<le> ?R * ((1 + 7 * dec_eps) * (1 - dec_eps) ^ 2)"
    using F mult_left_mono[OF eps_power(2) less_imp_le[OF R]] by (rule order_trans)
  then have "F * ?M \<le> ?R * (1 + 7 * dec_eps)" using e(3) mult_right_le_imp_le by (metis mult.assoc)
  then show ?thesis using surplus_bound[OF refl R i(4,5,3)] by (simp add: round_trip_costs_def mult_ac)
qed

text \<open>
  C34. A break-even floor pays for the round trip. Leaving a long runner at the floor returns, after the taker fee, the
  entry value and the costs (the allocated entry fee and the slippage buffer); buying a short runner back at the floor
  costs, with the taker fee, no more than the entry value less the costs. Both hold up to the accumulated rounding of
  the 28-digit context.
\<close>

theorem break_even_covers_costs:
  assumes "calculate_cost_adjusted_break_even (side_value side) t = Inr F"
  shows "case side of
      Long \<Rightarrow> (entry_value t + round_trip_costs t) * (1 - 8 * dec_eps)
               \<le> F * bt_runner_quantity t * (1 - bt_exit_taker_fee_rate t)
    | Short \<Rightarrow> F * bt_runner_quantity t * (1 + bt_exit_taker_fee_rate t)
               \<le> entry_value t - round_trip_costs t + 16 * dec_eps * entry_value t"
proof (cases side)
  case Long
  then have "require_financial_inputs t = Inr ()" "F = round_to_step dec_ceiling (long_break_even t) (bt_price_tick t)"
    using assms by (auto simp: calculate_cost_adjusted_break_even_def)
  then show ?thesis using exit_floor_long Long by simp
next
  case Short
  then have "require_financial_inputs t = Inr ()" "0 < short_break_even t"
    "F = round_to_step dec_floor (short_break_even t) (bt_price_tick t)"
    using assms by (auto simp: calculate_cost_adjusted_break_even_def split: if_splits)
  then show ?thesis using exit_floor_short Short by simp
qed

definition demo_break_even :: break_even_terms where
  "demo_break_even =
     \<lparr>bt_entry_average_price = 100, bt_runner_quantity = 2, bt_allocated_entry_fee_quote = 1 / 10,
      bt_exit_taker_fee_rate = 1 / 2000, bt_price_tick = 1 / 10, bt_slippage_buffer_ticks = 2\<rparr>"

lemma demo_break_even_floor: "calculate_cost_adjusted_break_even (side_value Short) demo_break_even = Inr (997 / 10)"
  by code_simp

theorem break_even_covers_costs_witness:
  "calculate_cost_adjusted_break_even (side_value Short) demo_break_even = Inr (997 / 10)
    \<and> 997 / 10 * 2 * (1 + 1 / 2000) \<le> 200 - (1 / 10 + 1 / 10 * 2 * 2) + 16 * dec_eps * 200"
  using break_even_covers_costs[OF demo_break_even_floor] demo_break_even_floor
  by (simp add: entry_value_def round_trip_costs_def demo_break_even_def)

section \<open>Runner moves\<close>

lemma stop_improvement_pos: "0 < stop_improvement side stop_price current_stop \<Longrightarrow> stop_improves side stop_price current_stop"
  by (cases side) (auto simp: stop_improvement_def stop_improves_def dec_sub_def)

text \<open>What a move of the runner stop has established.\<close>

lemma runner_move_sound:
  assumes "evaluate_profile_runner_exit p s m = Inr d" "xd_kind d = XD_MOVE_STOP" "valid_exit_profile p"
  shows "\<exists>stop. xd_proposed_stop d = Some stop \<and> 0 < stop
    \<and> stop_improves (xp_position_side p) stop (ru_current_stop s)
    \<and> \<not> stop_improves (xp_position_side p) (ru_break_even_floor s) stop
    \<and> xd_source_watermark_ms d = lm_watermark_ms m \<and> 0 < lm_watermark_ms m
    \<and> ru_last_runner_watermark_ms s < lm_watermark_ms m \<and> lm_is_final_closed_candle m"
proof -
  let ?n = "rr_minimum_improvement_ticks (xp_runner p)"
  have n: "0 < ?n" using assms(3) by (simp add: valid_exit_profile_def valid_rolling_runner_rule_def)
  have made: "mk_exit_decision k r w x = Inr d \<longleftrightarrow>
      d = \<lparr>xd_kind = k, xd_reason = r, xd_source_watermark_ms = w, xd_proposed_stop = x\<rparr> \<and> valid_exit_decision d" for k r w x
    by (auto simp: mk_exit_decision_def Let_def)
  have tick: "0 < ru_price_tick s" "ru_last_runner_watermark_ms s < lm_watermark_ms m" "lm_is_final_closed_candle m"
    using assms(1,2) by (auto simp: evaluate_profile_runner_exit_def made split: if_splits)
  then obtain candidate where "runner_move (xp_position_side p) ?n ''rolling_extreme_atr_runner_improvement'' s
      (lm_watermark_ms m) candidate = Inr d"
    using assms(1,2) by (auto simp: evaluate_profile_runner_exit_def made split: if_splits)
  moreover define stop where "stop = floored_candidate (xp_position_side p) candidate (ru_break_even_floor s)"
  ultimately have d: "d = \<lparr>xd_kind = XD_MOVE_STOP, xd_reason = ''rolling_extreme_atr_runner_improvement'',
        xd_source_watermark_ms = lm_watermark_ms m, xd_proposed_stop = Some stop\<rparr>" "valid_exit_decision d"
      "dec_mul (ru_price_tick s) (of_int ?n) \<le> stop_improvement (xp_position_side p) stop (ru_current_stop s)"
    using assms(2) by (auto simp: runner_move_def made Let_def split: if_splits)
  have "0 < dec_mul (ru_price_tick s) (of_int ?n)" using tick(1) n by (simp add: dec_mul_def)
  then have "stop_improves (xp_position_side p) stop (ru_current_stop s)" using d(3) by (intro stop_improvement_pos) simp
  moreover have "\<not> stop_improves (xp_position_side p) (ru_break_even_floor s) stop"
    by (auto simp: stop_improves_def stop_def floored_candidate_def)
  ultimately show ?thesis using d tick by (simp add: valid_exit_decision_def)
qed

section \<open>Registry, profiles and bindings\<close>

lemma traverse_total:
  assumes "\<And>x. x \<in> set xs \<Longrightarrow> \<exists>y. f x = Inr y \<and> P x y"
  shows "\<exists>ys. traverse f xs = Inr ys \<and> list_all2 P xs ys"
  using assms by (induction xs) (simp, fastforce)

lemma list_all2_related: "list_all2 P xs ys \<Longrightarrow> x \<in> set xs \<Longrightarrow> \<exists>y\<in>set ys. P x y"
  by (induction rule: list_all2_induct) auto

definition exit_plan_fits :: "strategy_contract \<Rightarrow> exit_profile \<Rightarrow> bool" where
  "exit_plan_fits c p \<longleftrightarrow> valid_exit_profile p \<and> xp_position_side p = sc_position_side c
     \<and> (xp_pre_tp1_guards p = []) = (sc_pre_tp1_reclaim_reference_fact c = None)
     \<and> (xp_pre_tp1_guards p = []) = (sc_exposure_session_end_reference_fact c = None)"

definition contract_has_plan :: "strategy_contract \<Rightarrow> bool" where
  "contract_has_plan c = (case profile_for_event (sc_event_id c) of Inl _ \<Rightarrow> False | Inr p \<Rightarrow>
     exit_plan_fits c p \<and> is_identity (''exit-binding:'' @ sc_event_spec_id c @ '':v1'') \<and> is_identity (sc_event_spec_id c))"

lemma registered_contracts_have_plans: "list_all contract_has_plan registered_strategy_contracts"
  by code_simp

lemma binding_of_contract_total:
  assumes "contract_has_plan c"
  shows "\<exists>p b. profile_for_event (sc_event_id c) = Inr p \<and> exit_plan_fits c p
    \<and> binding_of_contract (\<lambda>p. ''sha256:'' @ sha256_hexdigest (render p)) c = Inr b \<and> valid_event_exit_binding b
    \<and> xb_event_spec_id b = sc_event_spec_id c \<and> xb_exit_profile_id b = xp_exit_profile_id p"
proof -
  obtain p where p: "profile_for_event (sc_event_id c) = Inr p" "exit_plan_fits c p"
    "is_identity (''exit-binding:'' @ sc_event_spec_id c @ '':v1'')" "is_identity (sc_event_spec_id c)"
    using assms by (auto simp: contract_has_plan_def split: sum.splits)
  have hash: "is_binding_hash (''sha256:'' @ sha256_hexdigest x)" for x
    by (simp add: is_binding_hash_def py_startswith_def)
  have "is_identity ''owner_frozen_v1''" by code_simp
  moreover have "is_identity (xp_exit_profile_id p)" using p(2) by (simp add: exit_plan_fits_def valid_exit_profile_def)
  ultimately show ?thesis
    using p hash
    by (simp add: binding_of_contract_def build_event_exit_binding_def valid_event_exit_binding_def is_identity_def
        event_exit_binding_hash_def Let_def)
qed

lemma registered_bindings_total:
  assumes "P = (\<lambda>c b. valid_strategy_contract c \<and> valid_event_exit_binding b \<and> xb_event_spec_id b = sc_event_spec_id c
      \<and> (\<exists>p. profile_for_event (sc_event_id c) = Inr p \<and> exit_plan_fits c p \<and> xb_exit_profile_id b = xp_exit_profile_id p))"
  obtains bs where "registered_event_exit_bindings (\<lambda>p. ''sha256:'' @ sha256_hexdigest (render p)) = Inr bs"
    "map xb_event_spec_id bs = sort (map sc_event_spec_id registered_strategy_contracts)"
    "\<And>c. c \<in> set registered_strategy_contracts \<Longrightarrow> \<exists>b\<in>set bs. P c b"
proof -
  let ?h = "\<lambda>p. ''sha256:'' @ sha256_hexdigest (render p)" and ?cs = registered_strategy_contracts
  have "\<exists>b. binding_of_contract ?h c = Inr b \<and> P c b" if "c \<in> set ?cs" for c
    using that registered_contracts_have_plans registered_contracts_valid binding_of_contract_total[of c render]
    unfolding list_all_iff assms by blast
  then obtain bs where bs: "traverse (binding_of_contract ?h) ?cs = Inr bs" "list_all2 P ?cs bs"
    using traverse_total[of ?cs "binding_of_contract ?h" P] by blast
  let ?bs = "sort_key xb_event_spec_id bs"
  have run: "registered_event_exit_bindings ?h = Inr ?bs"
    by (simp only: registered_event_exit_bindings_def bs(1) bind_result_simps)
  have "map xb_event_spec_id bs = map sc_event_spec_id ?cs"
    using bs(2) unfolding assms by (induction rule: list_all2_induct) auto
  then have "map xb_event_spec_id ?bs = sort (map sc_event_spec_id ?cs)"
    by (metis mset_map mset_sort properties_for_sort sorted_sort_key)
  then show ?thesis using list_all2_related[OF bs(2)] by (intro that[OF run]) (simp_all only: set_sort)
qed

text \<open>
  C35. The registered strategies, the exit profiles and their bindings fit together: the binding table is built
  without an error, one valid binding per Event in the order of the Events, and the profile of every Event is valid, is of the side of the
  Event and asks for the reclaim and session guards exactly if the contract of the Event provides their references.
  The text of a profile that is hashed is arbitrary.
\<close>

theorem registry_fits_exit_profiles:
  "\<exists>bs. registered_event_exit_bindings (\<lambda>p. ''sha256:'' @ sha256_hexdigest (render p)) = Inr bs
    \<and> map xb_event_spec_id bs = sort (map sc_event_spec_id registered_strategy_contracts)
    \<and> distinct (map xb_event_spec_id bs)
    \<and> list_all (\<lambda>c. valid_strategy_contract c \<and> (\<exists>p b. profile_for_event (sc_event_id c) = Inr p \<and> exit_plan_fits c p
         \<and> b \<in> set bs \<and> valid_event_exit_binding b \<and> xb_event_spec_id b = sc_event_spec_id c
         \<and> xb_exit_profile_id b = xp_exit_profile_id p)) registered_strategy_contracts"
proof (rule registered_bindings_total[OF refl, of render])
  fix bs
  let ?cs = registered_strategy_contracts
  let ?P = "\<lambda>c b. valid_strategy_contract c \<and> valid_event_exit_binding b \<and> xb_event_spec_id b = sc_event_spec_id c
      \<and> (\<exists>p. profile_for_event (sc_event_id c) = Inr p \<and> exit_plan_fits c p \<and> xb_exit_profile_id b = xp_exit_profile_id p)"
  assume run: "registered_event_exit_bindings (\<lambda>p. ''sha256:'' @ sha256_hexdigest (render p)) = Inr bs"
    and ids: "map xb_event_spec_id bs = sort (map sc_event_spec_id ?cs)" and rel: "\<And>c. c \<in> set ?cs \<Longrightarrow> \<exists>b\<in>set bs. ?P c b"
  have "list_all (\<lambda>c. valid_strategy_contract c \<and> (\<exists>p b. profile_for_event (sc_event_id c) = Inr p \<and> exit_plan_fits c p
         \<and> b \<in> set bs \<and> valid_event_exit_binding b \<and> xb_event_spec_id b = sc_event_spec_id c
         \<and> xb_exit_profile_id b = xp_exit_profile_id p)) ?cs"
    unfolding list_all_iff using rel by blast
  moreover have "distinct (map xb_event_spec_id bs)" unfolding ids using registered_events_distinct by simp
  ultimately show ?thesis using run ids by blast
qed

end
