(* ===== verification/Exit_Authority_Properties.thy ===== *)
theory Exit_Authority_Properties
  imports Exit_Authority Exit_Properties Store_Views
begin

text \<open>
  The exit authority as a transition system: from a database seeded with the registry, any number of switches and
  retirements. Every current binding leads to an active profile of the side of its Event, and the log of activations
  and retirements says which bindings are current.
\<close>

section \<open>Seeding and steps\<close>

text \<open>\<open>infrastructure/strategy_registry_seed.py\<close> on an empty database.\<close>

definition seeded_profile :: "authority_context \<Rightarrow> exit_profile \<Rightarrow> exit_policy_row" where
  "seeded_profile ctx p =
     \<lparr>ew_exit_policy_id = xp_exit_profile_id p, ew_profile_schema_version = Some ''exit_profile_v1'', ew_policy = Some p,
      ew_semantic_hash = ac_semantic_hash ctx p, ew_status = ''active''\<rparr>"

definition seeded_current :: "int \<Rightarrow> event_exit_binding \<Rightarrow> current_exit_binding" where
  "seeded_current seeded_at_ms b =
     \<lparr>eb_event_spec_id = xb_event_spec_id b, eb_exit_binding_id = xb_exit_binding_id b,
      eb_binding_semantic_hash = xb_binding_semantic_hash b, eb_projection_version = 1, eb_activated_at_ms = seeded_at_ms\<rparr>"

definition seeded_event :: "int \<Rightarrow> event_exit_binding \<Rightarrow> binding_event" where
  "seeded_event seeded_at_ms b =
     \<lparr>bv_binding_event_id = ''binding-event:'' @ xb_exit_binding_id b @ '':activated'',
      bv_event_spec_id = xb_event_spec_id b, bv_exit_binding_id = xb_exit_binding_id b,
      bv_binding_version = xb_binding_version b, bv_operation = ACTIVATED, bv_authorization_source = SYSTEM_MIGRATION,
      bv_owner_authorization_id = None, bv_reason = xb_activation_reason b, bv_created_at_ms = seeded_at_ms\<rparr>"

definition seeded_authority :: "authority_context \<Rightarrow> int \<Rightarrow> event_exit_binding list \<Rightarrow> exit_authority" where
  "seeded_authority ctx seeded_at_ms bindings =
     \<lparr>xa_profiles = map (seeded_profile ctx) registered_exit_profiles,
      xa_bindings = map (\<lambda>b. b\<lparr>xb_created_at_ms := seeded_at_ms\<rparr>) bindings,
      xa_current = map (seeded_current seeded_at_ms) bindings, xa_events = map (seeded_event seeded_at_ms) bindings\<rparr>"

text \<open>The Event table holds the registered Events with their sides.\<close>

definition registry_sides :: "authority_context \<Rightarrow> bool" where
  "registry_sides ctx \<longleftrightarrow>
     list_all (\<lambda>c. ac_event_side ctx (sc_event_spec_id c) = Some (sc_position_side c)) registered_strategy_contracts"

text \<open>A switch is given a binding that its validators accept.\<close>

inductive reachable_authority :: "authority_context \<Rightarrow> exit_authority \<Rightarrow> bool" for ctx where
  seeded: "registered_event_exit_bindings (ac_semantic_hash ctx) = Inr bs \<Longrightarrow> registry_sides ctx \<Longrightarrow> 0 < n
    \<Longrightarrow> reachable_authority ctx (seeded_authority ctx n bs)"
| switched: "reachable_authority ctx s \<Longrightarrow> valid_event_exit_binding b
    \<Longrightarrow> switch_current_binding ctx c b owner reason n s = Inr (s', c') \<Longrightarrow> reachable_authority ctx s'"
| profile_retired: "reachable_authority ctx s \<Longrightarrow> retire_profile ctx p s = Inr s' \<Longrightarrow> reachable_authority ctx s'"
| events_retired: "reachable_authority ctx s
    \<Longrightarrow> retire_current_bindings_for_events ctx is reason n s = Inr s' \<Longrightarrow> reachable_authority ctx s'"

section \<open>The invariant\<close>

definition serves :: "authority_context \<Rightarrow> exit_authority \<Rightarrow> event_exit_binding \<Rightarrow> exit_policy_row \<Rightarrow> bool" where
  "serves ctx s b r \<longleftrightarrow> r \<in> set (xa_profiles s) \<and> profile_row (xb_exit_profile_id b) (xb_exit_profile_semantic_hash b) r
     \<and> ew_status r = ''active''
     \<and> (\<exists>p. ew_policy r = Some p \<and> valid_exit_profile p \<and> xp_exit_profile_id p = ew_exit_policy_id r
            \<and> ac_semantic_hash ctx p = ew_semantic_hash r
            \<and> ac_event_side ctx (xb_event_spec_id b) = Some (xp_position_side p))"

definition logged :: "binding_operation \<Rightarrow> exit_authority \<Rightarrow> string set" where
  "logged op s = {bv_exit_binding_id e |e. e \<in> set (xa_events s) \<and> bv_operation e = op}"

definition current_ids :: "exit_authority \<Rightarrow> string set" where
  "current_ids s = eb_exit_binding_id ` set (xa_current s)"

definition keys_ok :: "exit_authority \<Rightarrow> bool" where
  "keys_ok s \<longleftrightarrow>
     distinct (map ew_exit_policy_id (xa_profiles s)) \<and> distinct (map xb_exit_binding_id (xa_bindings s))
     \<and> distinct (map eb_event_spec_id (xa_current s)) \<and> distinct (map eb_exit_binding_id (xa_current s))
     \<and> (\<forall>b\<in>set (xa_bindings s). valid_event_exit_binding b) \<and> (\<forall>c\<in>set (xa_current s). valid_current_binding c)"

definition served :: "authority_context \<Rightarrow> exit_authority \<Rightarrow> current_exit_binding \<Rightarrow> bool" where
  "served ctx s c \<longleftrightarrow> (\<exists>b\<in>set (xa_bindings s). xb_exit_binding_id b = eb_exit_binding_id c
     \<and> xb_binding_semantic_hash b = eb_binding_semantic_hash c \<and> xb_event_spec_id b = eb_event_spec_id c
     \<and> (\<exists>r. serves ctx s b r))"

definition binding_log_ok :: "exit_authority \<Rightarrow> bool" where
  "binding_log_ok s \<longleftrightarrow> logged ACTIVATED s \<union> logged RETIRED s \<subseteq> xb_exit_binding_id ` set (xa_bindings s)
     \<and> current_ids s = logged ACTIVATED s - logged RETIRED s"

definition authority_ok :: "authority_context \<Rightarrow> exit_authority \<Rightarrow> bool" where
  "authority_ok ctx s \<longleftrightarrow> keys_ok s \<and> (\<forall>c\<in>set (xa_current s). served ctx s c) \<and> binding_log_ok s"

lemma add_binding_eventE:
  assumes "add_binding_event ctx b op source owner reason n s = Inr s'"
  obtains e where "s' = s\<lparr>xa_events := xa_events s @ [e]\<rparr>" "bv_exit_binding_id e = xb_exit_binding_id b" "bv_operation e = op"
    "xb_exit_binding_id b \<notin> logged op s" "xb_exit_binding_id b \<in> xb_exit_binding_id ` set (xa_bindings s)"
proof -
  define i where "i = ''binding-event:'' @ xb_exit_binding_id b @ '':'' @ operation_suffix op"
  let ?e = "\<lparr>bv_binding_event_id = i, bv_event_spec_id = xb_event_spec_id b, bv_exit_binding_id = xb_exit_binding_id b,
      bv_binding_version = xb_binding_version b, bv_operation = op, bv_authorization_source = source,
      bv_owner_authorization_id = owner, bv_reason = reason, bv_created_at_ms = n\<rparr>"
  have "s' = s\<lparr>xa_events := xa_events s @ [?e]\<rparr>" "xb_exit_binding_id b \<notin> logged op s"
    "xb_exit_binding_id b \<in> xb_exit_binding_id ` set (xa_bindings s)"
    using assms unfolding add_binding_event_def Let_def i_def[symmetric]
    by (auto simp: list_ex_iff logged_def rev_image_eqI split: if_splits)
  then show ?thesis by (intro that[of ?e]) auto
qed

lemma logged_snoc: "logged x (s\<lparr>xa_events := xa_events s @ [e]\<rparr>)
    = (if x = bv_operation e then insert (bv_exit_binding_id e) (logged x s) else logged x s)"
  by (auto simp: logged_def)

lemma add_binding_event_logged:
  assumes "add_binding_event ctx b op source owner reason n s = Inr s'"
  shows "logged x s' = (if x = op then insert (xb_exit_binding_id b) (logged op s) else logged x s)"
    "xa_profiles s' = xa_profiles s" "xa_bindings s' = xa_bindings s" "xa_current s' = xa_current s"
    "xb_exit_binding_id b \<notin> logged op s" "xb_exit_binding_id b \<in> xb_exit_binding_id ` set (xa_bindings s)"
  using assms by (auto elim!: add_binding_eventE simp: logged_snoc)

lemma insert_binding_iff:
  "insert_binding ctx b s = Inr s' \<Longrightarrow> s' = s\<lparr>xa_bindings := xa_bindings s @ [b]\<rparr>
    \<and> xb_exit_binding_id b \<notin> xb_exit_binding_id ` set (xa_bindings s)"
  by (auto simp: insert_binding_def list_ex_iff split: if_splits)

text \<open>Every binding of the registry is served by the profile of its contract.\<close>

lemma traverse_Inr: "traverse f xs = Inr ys \<Longrightarrow> list_all2 (\<lambda>x y. f x = Inr y) xs ys"
  by (induction xs arbitrary: ys) auto

lemma binding_of_contractE:
  assumes "binding_of_contract h c = Inr b" "contract_has_plan c"
  obtains p where "profile_for_event (sc_event_id c) = Inr p" "exit_plan_fits c p" "valid_event_exit_binding b"
    "xb_event_spec_id b = sc_event_spec_id c" "xb_exit_binding_id b = ''exit-binding:'' @ sc_event_spec_id c @ '':v1''"
    "xb_exit_profile_id b = xp_exit_profile_id p" "xb_exit_profile_semantic_hash b = h p"
proof -
  obtain p where p: "profile_for_event (sc_event_id c) = Inr p" "exit_plan_fits c p"
    "is_identity (''exit-binding:'' @ sc_event_spec_id c @ '':v1'')" "is_identity (sc_event_spec_id c)"
    using assms(2) by (auto simp: contract_has_plan_def split: sum.splits)
  moreover have "is_identity (xp_exit_profile_id p)" using p(2) by (simp add: exit_plan_fits_def valid_exit_profile_def)
  ultimately show ?thesis
    using assms(1) that[of p]
    by (auto simp: binding_of_contract_def build_event_exit_binding_def is_identity_def Let_def split: if_splits)
qed

lemma profile_for_event_registered: "profile_for_event e = Inr p \<Longrightarrow> p \<in> set registered_exit_profiles"
  by (auto simp: profile_for_event_def find_Some_iff split: option.splits)

lemma registered_profiles_distinct: "distinct (map xp_exit_profile_id registered_exit_profiles)"
  by code_simp

section \<open>The operations keep the invariant\<close>

lemma get_currentE:
  assumes "get_current_binding e s = Inr (Some c)"
  shows "c \<in> set (xa_current s)" "eb_event_spec_id c = e" "valid_current_binding c"
  using assms by (auto simp: get_current_binding_def dest: find_Some_set split: option.splits if_splits)

lemma get_bindingE:
  assumes "get_binding i s = Inr (Some b)"
  shows "b \<in> set (xa_bindings s)" "xb_exit_binding_id b = i" "valid_event_exit_binding b"
  using assms by (auto simp: get_binding_def dest: find_Some_set split: option.splits if_splits)

lemma get_profileE:
  assumes "get_profile ctx i h s = Inr (Some (p, status))"
  obtains r where "r \<in> set (xa_profiles s)" "profile_row i h r" "ew_status r = status" "ew_policy r = Some p"
    "valid_exit_profile p" "xp_exit_profile_id p = i" "ac_semantic_hash ctx p = h"
proof -
  obtain r where r: "List.find (profile_row i h) (xa_profiles s) = Some r" "decode_profile ctx r = Inr (p, status)"
    using assms by (auto simp: get_profile_def split: option.splits)
  have "ew_status r = status \<and> ew_policy r = Some p \<and> valid_exit_profile p \<and> xp_exit_profile_id p = ew_exit_policy_id r
      \<and> ac_semantic_hash ctx p = ew_semantic_hash r"
    using r(2) by (auto simp: decode_profile_def exit_conflict_def split: option.splits if_splits)
  then show ?thesis using find_Some_set[OF r(1)] by (intro that[of r]) (auto simp: profile_row_def)
qed

lemma distinct_replaced:
  assumes "distinct (map f xs)" "\<And>r. r \<in> set xs \<Longrightarrow> \<not> P r \<Longrightarrow> f r \<noteq> f c" "\<And>r. r \<in> set xs \<Longrightarrow> P r \<Longrightarrow> r = old"
  shows "distinct (map f (update_where P (\<lambda>_. c) xs))"
proof -
  have "inj_on (f \<circ> (\<lambda>r. if P r then c else r)) (set xs)"
    using assms by (auto simp: inj_on_def distinct_map) metis+
  then show ?thesis using assms(1) by (simp add: update_where_def distinct_map)
qed

lemma one_current: "keys_ok s \<Longrightarrow> c \<in> set (xa_current s) \<Longrightarrow> c' \<in> set (xa_current s)
    \<Longrightarrow> eb_event_spec_id c = eb_event_spec_id c' \<or> eb_exit_binding_id c = eb_exit_binding_id c' \<Longrightarrow> c = c'"
  by (auto simp: keys_ok_def distinct_map dest: inj_onD)

lemma serves_mono: "serves ctx s b r \<Longrightarrow> xa_profiles s' = xa_profiles s \<Longrightarrow> serves ctx s' b r"
  by (simp add: serves_def)

lemma served_mono: "served ctx s c \<Longrightarrow> xa_profiles s' = xa_profiles s \<Longrightarrow> set (xa_bindings s) \<subseteq> set (xa_bindings s')
    \<Longrightarrow> served ctx s' c"
  unfolding served_def using serves_mono by (meson subsetD)

lemma successor_checkedD:
  assumes "successor_checked ctx c old b s = Inr u"
  shows "xb_event_spec_id b = eb_event_spec_id c \<and> (\<exists>p.
    get_profile ctx (xb_exit_profile_id b) (xb_exit_profile_semantic_hash b) s = Inr (Some (p, ''active''))
    \<and> ac_event_side ctx (xb_event_spec_id b) = Some (xp_position_side p))"
  using assms
  by (auto simp: successor_checked_def exit_conflict_def split: if_split_asm option.split_asm prod.split_asm)

lemma switch_checkedD:
  assumes "switch_checked ctx c b s = Inr old"
  shows "get_current_binding (eb_event_spec_id c) s = Inr (Some c) \<and> get_binding (eb_exit_binding_id c) s = Inr (Some old)
    \<and> successor_checked ctx c old b s = Inr ()"
  using assms by (auto simp: switch_checked_def exit_conflict_def split: if_split_asm option.split_asm)

text \<open>What a switch did.\<close>

lemma switchE:
  assumes "switch_current_binding ctx c b owner reason n s = Inr (s', c')" "keys_ok s"
  obtains old r where "c \<in> set (xa_current s)" "old \<in> set (xa_bindings s)" "xb_exit_binding_id old = eb_exit_binding_id c"
    "xb_event_spec_id b = eb_event_spec_id c" "xb_exit_binding_id b \<notin> xb_exit_binding_id ` set (xa_bindings s)"
    "serves ctx s b r" "valid_current_binding c'" "eb_event_spec_id c' = eb_event_spec_id c"
    "eb_exit_binding_id c' = xb_exit_binding_id b" "eb_binding_semantic_hash c' = xb_binding_semantic_hash b"
    "xa_profiles s' = xa_profiles s" "xa_bindings s' = xa_bindings s @ [b]"
    "xa_current s' = update_where (\<lambda>r. r = c) (\<lambda>_. c') (xa_current s)"
    "logged ACTIVATED s' = insert (xb_exit_binding_id b) (logged ACTIVATED s)"
    "logged RETIRED s' = insert (xb_exit_binding_id old) (logged RETIRED s)"
    "\<forall>x\<in>set (xa_current s). x \<noteq> c \<longrightarrow> eb_exit_binding_id x \<noteq> eb_exit_binding_id c'"
proof -
  obtain old s1 s2 s3 where run: "switch_checked ctx c b s = Inr old" "insert_binding ctx b s = Inr s1"
    "add_binding_event ctx old RETIRED OWNER_CONTROL (Some owner) reason n s1 = Inr s2"
    "add_binding_event ctx b ACTIVATED OWNER_CONTROL (Some owner) reason n s2 = Inr s3"
    "replace_current c c' s3 = Inr s'" "valid_current_binding c'" "eb_event_spec_id c' = eb_event_spec_id c"
    "eb_exit_binding_id c' = xb_exit_binding_id b" "eb_binding_semantic_hash c' = xb_binding_semantic_hash b"
    using assms(1) by (auto simp: switch_current_binding_def Let_def split: if_splits)
  obtain p where checked: "get_current_binding (eb_event_spec_id c) s = Inr (Some c)"
    "get_binding (eb_exit_binding_id c) s = Inr (Some old)" "xb_event_spec_id b = eb_event_spec_id c"
    "get_profile ctx (xb_exit_profile_id b) (xb_exit_profile_semantic_hash b) s = Inr (Some (p, ''active''))"
    "ac_event_side ctx (xb_event_spec_id b) = Some (xp_position_side p)"
    using switch_checkedD[OF run(1)] successor_checkedD by blast
  from get_profileE[OF checked(4)] obtain r where "r \<in> set (xa_profiles s)"
      "profile_row (xb_exit_profile_id b) (xb_exit_profile_semantic_hash b) r" "ew_status r = ''active''" "ew_policy r = Some p"
      "valid_exit_profile p" "xp_exit_profile_id p = xb_exit_profile_id b"
      "ac_semantic_hash ctx p = xb_exit_profile_semantic_hash b" by metis
  then have r: "serves ctx s b r" using checked(5) by (simp add: serves_def profile_row_def)
  have s1: "s1 = s\<lparr>xa_bindings := xa_bindings s @ [b]\<rparr>" "xb_exit_binding_id b \<notin> xb_exit_binding_id ` set (xa_bindings s)"
    using insert_binding_iff[OF run(2)] by auto
  have s3: "xa_current s3 = xa_current s" "xa_profiles s3 = xa_profiles s" "xa_bindings s3 = xa_bindings s @ [b]"
    "logged ACTIVATED s3 = insert (xb_exit_binding_id b) (logged ACTIVATED s)"
    "logged RETIRED s3 = insert (xb_exit_binding_id old) (logged RETIRED s)"
    using add_binding_event_logged[OF run(3)] add_binding_event_logged[OF run(4)] s1(1) by (auto simp: logged_def)
  let ?here = "\<lambda>r. eb_event_spec_id r = eb_event_spec_id c \<and> eb_exit_binding_id r = eb_exit_binding_id c
      \<and> eb_binding_semantic_hash r = eb_binding_semantic_hash c \<and> eb_projection_version r = eb_projection_version c"
  note c = get_currentE[OF checked(1)]
  have here: "?here x \<longleftrightarrow> x = c" if "x \<in> set (xa_current s)" for x using one_current[OF assms(2) that c(1)] by auto
  have s': "s' = s3\<lparr>xa_current := update_where ?here (\<lambda>_. c') (xa_current s3)\<rparr>"
    "\<forall>x\<in>set (xa_current s3). \<not> ?here x \<longrightarrow> eb_exit_binding_id x \<noteq> eb_exit_binding_id c'"
    using run(5) by (auto simp: replace_current_def exit_conflict_def Let_def list_ex_iff split: if_splits)
  have "xa_current s' = update_where (\<lambda>r. r = c) (\<lambda>_. c') (xa_current s)"
    using here by (auto simp: s'(1) s3(1) update_where_def)
  moreover have "\<forall>x\<in>set (xa_current s). x \<noteq> c \<longrightarrow> eb_exit_binding_id x \<noteq> eb_exit_binding_id c'"
    using s'(2) here by (auto simp: s3(1))
  moreover have "logged x s' = logged x s3" for x by (simp add: s'(1) logged_def)
  ultimately show ?thesis
    using c(1) get_bindingE[OF checked(2)] checked(3) s1(2) r run(6-9) s3 by (intro that) (auto simp: s'(1))
qed

lemma switch_keeps:
  assumes "switch_current_binding ctx c b owner reason n s = Inr (s', c')" "valid_event_exit_binding b" "authority_ok ctx s"
  shows "authority_ok ctx s'"
proof -
  have ok: "keys_ok s" "\<forall>c\<in>set (xa_current s). served ctx s c" "binding_log_ok s" using assms(3) by (auto simp: authority_ok_def)
  show ?thesis
  proof (rule switchE[OF assms(1) ok(1)])
    fix old r
    assume 1: "c \<in> set (xa_current s)" "old \<in> set (xa_bindings s)" "xb_exit_binding_id old = eb_exit_binding_id c"
      "xb_event_spec_id b = eb_event_spec_id c" "xb_exit_binding_id b \<notin> xb_exit_binding_id ` set (xa_bindings s)"
      and 2: "serves ctx s b r" "valid_current_binding c'" "eb_event_spec_id c' = eb_event_spec_id c"
      "eb_exit_binding_id c' = xb_exit_binding_id b" "eb_binding_semantic_hash c' = xb_binding_semantic_hash b"
      and s': "xa_profiles s' = xa_profiles s" "xa_bindings s' = xa_bindings s @ [b]"
      "xa_current s' = update_where (\<lambda>r. r = c) (\<lambda>_. c') (xa_current s)"
      "logged ACTIVATED s' = insert (xb_exit_binding_id b) (logged ACTIVATED s)"
      "logged RETIRED s' = insert (xb_exit_binding_id old) (logged RETIRED s)"
      and fresh: "\<forall>x\<in>set (xa_current s). x \<noteq> c \<longrightarrow> eb_exit_binding_id x \<noteq> eb_exit_binding_id c'"
    have cur: "set (xa_current s') = insert c' (set (xa_current s) - {c})" using 1(1) by (auto simp: s'(3) update_where_def)
    have "distinct (map eb_event_spec_id (xa_current s'))"
      unfolding s'(3) using ok(1) one_current[OF ok(1)] 1(1) 2(3) by (intro distinct_replaced[where old = c]) (auto simp: keys_ok_def)
    moreover have "distinct (map eb_exit_binding_id (xa_current s'))"
      unfolding s'(3) using ok(1) fresh by (intro distinct_replaced[where old = c]) (auto simp: keys_ok_def)
    ultimately have "keys_ok s'" using ok(1) 1(5) 2(2) assms(2) cur by (auto simp: keys_ok_def s'(1,2))
    moreover have "served ctx s' x" if "x \<in> set (xa_current s')" for x
    proof (cases "x = c'")
      case True
      then show ?thesis using serves_mono[OF 2(1) s'(1)] 1(4) 2(3-5) by (auto simp: served_def s'(2))
    next
      case False
      then show ?thesis using that cur ok(2) served_mono[OF _ s'(1), of ctx x] s'(2) by auto
    qed
    moreover have "binding_log_ok s'"
    proof -
      have "current_ids s' = insert (xb_exit_binding_id b) (current_ids s - {eb_exit_binding_id c})"
        using cur 1(1) 2(4) one_current[OF ok(1) _ 1(1)] unfolding current_ids_def by auto
      moreover have "xb_exit_binding_id old \<in> xb_exit_binding_id ` set (xa_bindings s)" using 1(2) by simp
      ultimately show ?thesis using ok(3) 1(5) unfolding binding_log_ok_def s' 1(3) by auto
    qed
    ultimately show ?thesis by (simp add: authority_ok_def)
  qed
qed

lemma retire_profile_keeps:
  assumes "retire_profile ctx p s = Inr s'" "authority_ok ctx s"
  shows "authority_ok ctx s'"
proof -
  define here :: "exit_policy_row \<Rightarrow> bool" where "here r \<longleftrightarrow> ew_exit_policy_id r = xp_exit_profile_id p \<and> ew_semantic_hash r = ac_semantic_hash ctx p
      \<and> ew_status r = ''active''" for r
  have s': "s' = s\<lparr>xa_profiles := update_where here (\<lambda>r. r\<lparr>ew_status := ''retired''\<rparr>) (xa_profiles s)\<rparr>"
    "\<not> has_current_binding (xp_exit_profile_id p) s"
    using assms(1) by (auto simp: retire_profile_def exit_conflict_def Let_def here_def[abs_def] split: if_split_asm)
  have "map ew_exit_policy_id (xa_profiles s') = map ew_exit_policy_id (xa_profiles s)"
    by (simp add: s'(1) update_where_def)
  then have "keys_ok s'" using assms(2) by (simp add: authority_ok_def keys_ok_def s'(1))
  moreover have "served ctx s' c" if c: "c \<in> set (xa_current s')" for c
  proof -
    obtain b r where b: "b \<in> set (xa_bindings s)" "xb_exit_binding_id b = eb_exit_binding_id c"
      "xb_binding_semantic_hash b = eb_binding_semantic_hash c" "xb_event_spec_id b = eb_event_spec_id c" "serves ctx s b r"
      using assms(2) c by (auto simp: authority_ok_def served_def s'(1))
    have "xb_exit_profile_id b \<noteq> xp_exit_profile_id p"
      using s'(2) b(1,2) c by (auto simp: has_current_binding_def list_ex_iff s'(1))
    then have "\<not> here r" using b(5) by (simp add: here_def serves_def profile_row_def)
    moreover have "r \<in> set (xa_profiles s)" using b(5) by (simp add: serves_def)
    ultimately have "r \<in> set (xa_profiles s')" by (auto simp: s'(1) update_where_def image_iff intro!: bexI[of _ r])
    then have "serves ctx s' b r" using b(5) by (simp add: serves_def)
    then show ?thesis using b(1-4) by (auto simp: served_def s'(1))
  qed
  moreover have "binding_log_ok s'" using assms(2) by (simp add: authority_ok_def binding_log_ok_def logged_def current_ids_def s'(1))
  ultimately show ?thesis by (simp add: authority_ok_def)
qed

lemma retire_current_keeps:
  assumes "retire_current_binding ctx reason n i s = Inr s'" "authority_ok ctx s"
  shows "authority_ok ctx s'"
proof (cases "s' = s")
  case False
  have ok: "keys_ok s" "\<forall>c\<in>set (xa_current s). served ctx s c" "binding_log_ok s" using assms(2) by (auto simp: authority_ok_def)
  obtain c b s1 where run: "get_current_binding i s = Inr (Some c)" "get_binding (eb_exit_binding_id c) s = Inr (Some b)"
    "add_binding_event ctx b RETIRED SYSTEM_MIGRATION None reason n s = Inr s1"
    "s' = s1\<lparr>xa_current := filter (\<lambda>r. \<not> (eb_event_spec_id r = i \<and> eb_projection_version r = eb_projection_version c)) (xa_current s1)\<rparr>"
    using assms(1) False
    by (auto simp: retire_current_binding_def exit_conflict_def Let_def split: if_split_asm option.split_asm)
  note c = get_currentE[OF run(1)] and log = add_binding_event_logged[OF run(3)]
  have cur: "set (xa_current s') = set (xa_current s) - {c}"
    using one_current[OF ok(1) _ c(1)] c(2) by (auto simp: run(4) log(4))
  have keys: "keys_ok s'" using ok(1) by (auto simp: keys_ok_def run(4) log distinct_map_filter)
  have serv: "served ctx s' x" if "x \<in> set (xa_current s')" for x
    using that cur ok(2) served_mono[of ctx s x s'] by (simp add: run(4) log)
  have "current_ids s' = current_ids s - {eb_exit_binding_id c}"
    using cur one_current[OF ok(1) _ c(1)] unfolding current_ids_def by auto
  moreover have "logged ACTIVATED s' = logged ACTIVATED s" "logged RETIRED s' = insert (eb_exit_binding_id c) (logged RETIRED s)"
    using log(1)[of ACTIVATED] log(1)[of RETIRED] get_bindingE(2)[OF run(2)] by (auto simp: run(4) logged_def)
  ultimately have "binding_log_ok s'" using ok(3) log(6) get_bindingE(2)[OF run(2)] by (auto simp: binding_log_ok_def run(4) log(3))
  then show ?thesis using keys serv by (simp add: authority_ok_def)
qed (simp add: assms)

lemma retire_each_keeps:
  "retire_each ctx reason n is s = Inr s' \<Longrightarrow> authority_ok ctx s \<Longrightarrow> authority_ok ctx s'"
  by (induction "is" arbitrary: s) (auto intro: retire_current_keeps)

section \<open>The seeded authority\<close>

lemma registered_bindings:
  assumes "registered_event_exit_bindings (ac_semantic_hash ctx) = Inr bs"
  shows "distinct (map xb_event_spec_id bs)"
    "b \<in> set bs \<Longrightarrow> \<exists>c p. c \<in> set registered_strategy_contracts \<and> p \<in> set registered_exit_profiles \<and> exit_plan_fits c p
      \<and> valid_event_exit_binding b \<and> xb_event_spec_id b = sc_event_spec_id c
      \<and> xb_exit_binding_id b = ''exit-binding:'' @ xb_event_spec_id b @ '':v1''
      \<and> xb_exit_profile_id b = xp_exit_profile_id p \<and> xb_exit_profile_semantic_hash b = ac_semantic_hash ctx p"
proof -
  let ?f = "binding_of_contract (ac_semantic_hash ctx)" and ?cs = registered_strategy_contracts
  obtain ys where ys: "list_all2 (\<lambda>c b. ?f c = Inr b) ?cs ys" "bs = sort_key xb_event_spec_id ys"
    using assms traverse_Inr unfolding registered_event_exit_bindings_def bind_result_Inr_iff by blast
  have plan: "contract_has_plan c" if "c \<in> set ?cs" for c
    using that registered_contracts_have_plans by (auto simp: list_all_iff)
  have ids: "map xb_event_spec_id ys' = map sc_event_spec_id cs"
    if "list_all2 (\<lambda>c b. ?f c = Inr b) cs ys'" "\<forall>c\<in>set cs. contract_has_plan c" for cs ys'
    using that by (induction rule: list_all2_induct) (auto elim: binding_of_contractE)
  have "map xb_event_spec_id ys = map sc_event_spec_id ?cs" by (rule ids[OF ys(1)]) (simp add: plan)
  then show "distinct (map xb_event_spec_id bs)"
    using registered_events_distinct ys(2) by (metis distinct_map distinct_sort set_sort)
  assume "b \<in> set bs"
  then obtain c where c: "c \<in> set ?cs" "?f c = Inr b"
    using ys list_all2_related[of "\<lambda>b c. ?f c = Inr b" ys ?cs b] by (auto simp: list_all2_conv_all_nth)
  then show "\<exists>c p. c \<in> set ?cs \<and> p \<in> set registered_exit_profiles \<and> exit_plan_fits c p
      \<and> valid_event_exit_binding b \<and> xb_event_spec_id b = sc_event_spec_id c
      \<and> xb_exit_binding_id b = ''exit-binding:'' @ xb_event_spec_id b @ '':v1''
      \<and> xb_exit_profile_id b = xp_exit_profile_id p \<and> xb_exit_profile_semantic_hash b = ac_semantic_hash ctx p"
    using binding_of_contractE[OF c(2) plan[OF c(1)]] profile_for_event_registered by metis
qed

lemma seeded_event_fields [simp]:
  "bv_exit_binding_id (seeded_event n b) = xb_exit_binding_id b" "bv_operation (seeded_event n b) = ACTIVATED"
  by (simp_all add: seeded_event_def)

lemma seeded_ok:
  assumes "registered_event_exit_bindings (ac_semantic_hash ctx) = Inr bs" "registry_sides ctx" "0 < n"
  shows "authority_ok ctx (seeded_authority ctx n bs)"
proof -
  let ?s = "seeded_authority ctx n bs"
  note reg = registered_bindings[OF assms(1)]
  have ids: "map xb_exit_binding_id bs = map (\<lambda>e. ''exit-binding:'' @ e @ '':v1'') (map xb_event_spec_id bs)"
    using reg(2) by (auto simp only: map_map comp_def map_eq_conv)
  have dist: "distinct (map xb_exit_binding_id bs)" unfolding ids using reg(1) by (simp add: distinct_map inj_on_def)
  have valid: "valid_event_exit_binding b \<and> valid_event_exit_binding (b\<lparr>xb_created_at_ms := n\<rparr>)
      \<and> valid_current_binding (seeded_current n b)" if "b \<in> set bs" for b
    using reg(2)[OF that] assms(3) by (auto simp: valid_event_exit_binding_def valid_current_binding_def seeded_current_def)
  have "keys_ok ?s"
    using registered_profiles_distinct reg(1) dist valid
    by (auto simp: keys_ok_def seeded_authority_def comp_def seeded_profile_def seeded_current_def[abs_def])
  moreover have "served ctx ?s (seeded_current n b)" if b: "b \<in> set bs" for b
  proof -
    obtain c p where r: "c \<in> set registered_strategy_contracts" "p \<in> set registered_exit_profiles" "exit_plan_fits c p"
      "xb_event_spec_id b = sc_event_spec_id c" "xb_exit_profile_id b = xp_exit_profile_id p"
      "xb_exit_profile_semantic_hash b = ac_semantic_hash ctx p" using reg(2)[OF b] by metis
    have "ac_event_side ctx (xb_event_spec_id b) = Some (xp_position_side p)"
      using assms(2) r(1,3,4) by (auto simp: registry_sides_def list_all_iff exit_plan_fits_def)
    then have "serves ctx ?s (b\<lparr>xb_created_at_ms := n\<rparr>) (seeded_profile ctx p)"
      using r(2,3,5,6) by (auto simp: serves_def seeded_authority_def seeded_profile_def profile_row_def exit_plan_fits_def)
    then show ?thesis using b by (auto simp: served_def seeded_authority_def seeded_current_def intro!: bexI[of _ b])
  qed
  moreover have "binding_log_ok ?s"
  proof -
    have "logged ACTIVATED ?s = xb_exit_binding_id ` set bs" "logged RETIRED ?s = {}"
      by (auto simp: logged_def seeded_authority_def) (metis imageI seeded_event_fields)
    moreover have "current_ids ?s = xb_exit_binding_id ` set bs"
      by (simp add: current_ids_def seeded_authority_def seeded_current_def image_image)
    ultimately show ?thesis by (simp add: binding_log_ok_def seeded_authority_def image_image)
  qed
  ultimately show ?thesis by (auto simp: authority_ok_def seeded_authority_def)
qed

lemma authority_invariant: "reachable_authority ctx s \<Longrightarrow> authority_ok ctx s"
proof (induction rule: reachable_authority.induct)
  case (events_retired s "is" reason n s')
  then show ?case unfolding retire_current_bindings_for_events_def by (rule_tac retire_each_keeps)
qed (auto intro: seeded_ok switch_keeps retire_profile_keeps)

text \<open>Reads of a consistent authority succeed.\<close>

lemma get_binding_stored:
  assumes "keys_ok s" "b \<in> set (xa_bindings s)"
  shows "get_binding (xb_exit_binding_id b) s = Inr (Some b)"
proof -
  obtain x where x: "List.find (\<lambda>y. xb_exit_binding_id y = xb_exit_binding_id b) (xa_bindings s) = Some x"
    using assms(2) by (cases "List.find (\<lambda>y. xb_exit_binding_id y = xb_exit_binding_id b) (xa_bindings s)")
      (auto simp: find_None_iff)
  then have "x = b" using find_Some_set[OF x] assms by (auto simp: keys_ok_def distinct_map dest: inj_onD)
  then show ?thesis using x assms by (simp add: get_binding_def keys_ok_def)
qed

lemma get_profile_stored:
  assumes "keys_ok s" "serves ctx s b r"
  shows "\<exists>p. get_profile ctx (xb_exit_profile_id b) (xb_exit_profile_semantic_hash b) s = Inr (Some (p, ''active''))
    \<and> ac_event_side ctx (xb_event_spec_id b) = Some (xp_position_side p)"
proof -
  let ?P = "profile_row (xb_exit_profile_id b) (xb_exit_profile_semantic_hash b)"
  obtain x where x: "List.find ?P (xa_profiles s) = Some x"
    using assms(2) by (cases "List.find ?P (xa_profiles s)") (auto simp: find_None_iff serves_def)
  then have "ew_exit_policy_id x = ew_exit_policy_id r" "x \<in> set (xa_profiles s)" "r \<in> set (xa_profiles s)"
    using find_Some_set[OF x] assms by (auto simp: serves_def profile_row_def)
  then have "x = r" using assms(1) by (auto simp: keys_ok_def distinct_map dest: inj_onD)
  then show ?thesis
    using x assms(2) by (auto simp: get_profile_def decode_profile_def serves_def profile_row_def)
qed

text \<open>
  C36. In every exit authority reachable from a seeded database by switches and retirements, reading the current binding
  of an Event never fails, and a current binding leads to its stored binding, to an active profile under the hash the
  binding froze and to the side of the Event; it has been activated and not retired. A profile is never retired under
  an Event that uses it.
\<close>

theorem current_binding_serves_active_profile:
  assumes "reachable_authority ctx s"
  shows "get_current_binding e s = Inr None
    \<or> (\<exists>c b p. get_current_binding e s = Inr (Some c) \<and> get_binding (eb_exit_binding_id c) s = Inr (Some b)
        \<and> xb_event_spec_id b = e \<and> xb_binding_semantic_hash b = eb_binding_semantic_hash c
        \<and> get_profile ctx (xb_exit_profile_id b) (xb_exit_profile_semantic_hash b) s = Inr (Some (p, ''active''))
        \<and> ac_event_side ctx e = Some (xp_position_side p)
        \<and> eb_exit_binding_id c \<in> logged ACTIVATED s \<and> eb_exit_binding_id c \<notin> logged RETIRED s)"
proof (cases "get_current_binding e s = Inr None")
  case False
  have ok: "keys_ok s" "\<forall>c\<in>set (xa_current s). served ctx s c" "binding_log_ok s"
    using authority_invariant[OF assms] by (auto simp: authority_ok_def)
  obtain c where c: "get_current_binding e s = Inr (Some c)"
    using False ok(1) find_Some_set by (fastforce simp: get_current_binding_def keys_ok_def split: option.splits)
  note c' = get_currentE[OF c]
  obtain b r where b: "b \<in> set (xa_bindings s)" "xb_exit_binding_id b = eb_exit_binding_id c"
    "xb_binding_semantic_hash b = eb_binding_semantic_hash c" "xb_event_spec_id b = eb_event_spec_id c" "serves ctx s b r"
    using ok(2) c'(1) by (auto simp: served_def)
  have "eb_exit_binding_id c \<in> logged ACTIVATED s - logged RETIRED s" using ok(3) c'(1) by (auto simp: binding_log_ok_def current_ids_def)
  then show ?thesis
    using c c'(2) b get_binding_stored[OF ok(1) b(1)] get_profile_stored[OF ok(1) b(5)] by auto
qed simp

definition demo_exit_context :: authority_context where
  "demo_exit_context = \<lparr>ac_semantic_hash = (\<lambda>p. ''sha256:'' @ sha256_hexdigest (xp_exit_profile_id p)),
     ac_event_side = map_of (map (\<lambda>c. (sc_event_spec_id c, sc_position_side c)) registered_strategy_contracts),
     ac_authorized = (\<lambda>_. True)\<rparr>"

lemma demo_sides: "registry_sides demo_exit_context"
proof -
  have "map_of (map (\<lambda>c. (sc_event_spec_id c, sc_position_side c)) registered_strategy_contracts) (sc_event_spec_id c)
      = Some (sc_position_side c)" if "c \<in> set registered_strategy_contracts" for c
    using that registered_events_distinct by (intro map_of_is_SomeI) (auto simp: comp_def)
  then show ?thesis by (simp add: registry_sides_def demo_exit_context_def list_all_iff)
qed

lemma cpm_registered: "cpm_long_contract \<in> set registered_strategy_contracts"
  by (simp add: registered_strategy_contracts_def)

theorem current_binding_serves_active_profile_witness:
  "\<exists>s c p. \<exists>b :: event_exit_binding. reachable_authority demo_exit_context s
    \<and> get_current_binding (sc_event_spec_id cpm_long_contract) s = Inr (Some c)
    \<and> get_profile demo_exit_context (xb_exit_profile_id b) (xb_exit_profile_semantic_hash b) s = Inr (Some (p, ''active''))
    \<and> xp_position_side p = Long"
proof (rule registered_bindings_total[OF refl, of xp_exit_profile_id])
  fix bs
  let ?e = "sc_event_spec_id cpm_long_contract" and ?s = "seeded_authority demo_exit_context 1 bs"
  assume run: "registered_event_exit_bindings (\<lambda>p. ''sha256:'' @ sha256_hexdigest (xp_exit_profile_id p)) = Inr bs"
    and ids: "map xb_event_spec_id bs = sort (map sc_event_spec_id registered_strategy_contracts)"
  have reach: "reachable_authority demo_exit_context ?s"
    using run demo_sides by (intro reachable_authority.seeded) (simp_all add: demo_exit_context_def)
  have "?e \<in> set (map xb_event_spec_id bs)" unfolding ids using cpm_registered by simp
  then have "get_current_binding ?e ?s \<noteq> Inr None"
    by (auto simp: get_current_binding_def seeded_authority_def seeded_current_def find_None_iff split: option.splits)
  then obtain c p and b :: event_exit_binding where found: "get_current_binding ?e ?s = Inr (Some c)"
    "get_profile demo_exit_context (xb_exit_profile_id b) (xb_exit_profile_semantic_hash b) ?s = Inr (Some (p, ''active''))"
    "ac_event_side demo_exit_context ?e = Some (xp_position_side p)"
    using current_binding_serves_active_profile[OF reach, of ?e] by blast
  have "ac_event_side demo_exit_context ?e = Some Long"
    using demo_sides cpm_registered
    by (auto simp: registry_sides_def list_all_iff cpm_long_contract_def registry_contract_def Let_def)
  then have "xp_position_side p = Long" using found(3) by simp
  then show ?thesis using reach found(1,2) by blast
qed

end
