(* ===== verification/Maintain_Properties.thy ===== *)
theory Maintain_Properties
  imports Maintain_Lifecycle Reconcile_Properties Exit_Authority_Properties
begin

text \<open>
  The composition of the exit rules with the lifecycle: what maintenance writes follows from the frozen profile and the
  facts, the reducer accepts every decision it takes, and a controlled exit leaves no active Ticket unaccounted for.
\<close>

section \<open>Decisions\<close>

text \<open>What a decision rests on, by its status; \<open>F\<close> is the event it asks for.\<close>

definition decision_rests_on :: "trade_aggregate \<Rightarrow> ticket_facts \<Rightarrow> maintenance_status \<Rightarrow> lifecycle_fact option \<Rightarrow> bool" where
  "decision_rests_on a f status F \<longleftrightarrow>
     (case status of
        LM_NO_CHANGE \<Rightarrow> F = None
      | LM_BREAK_EVEN_REQUESTED \<Rightarrow>
          ag_status a = POSITION_PROTECTED
          \<and> (\<exists>tp1_price floor_price. F = Some (TakeProfitFilled (ag_tp1_target_qty a) tp1_price floor_price)
               \<and> tf_tp1_filled_quantity f = ag_tp1_target_qty a \<and> 0 < tp1_price
               \<and> tf_position_quantity f = dec_sub (ag_position_qty a) (ag_tp1_target_qty a) \<and> 0 < tf_position_quantity f)
      | LM_RUNNER_MOVE_REQUESTED \<Rightarrow>
          ag_status a = RUNNER_PROTECTED \<and> tf_position_quantity f = ag_position_qty a
          \<and> (\<exists>stop floor_price active m. F = Some (RunnerStopRequested stop (lm_watermark_ms m))
               \<and> tf_market_facts f = Some m \<and> lm_is_final_closed_candle m
               \<and> ag_active_stop_price a = Some active \<and> ag_break_even_floor_price a = Some floor_price
               \<and> 0 < stop \<and> stop_improves (nd_position_side (agg_domain a)) stop active
               \<and> \<not> stop_improves (nd_position_side (agg_domain a)) floor_price stop
               \<and> (case ag_runner_stop_watermark_ms a of None \<Rightarrow> 0 | Some w \<Rightarrow> w) < lm_watermark_ms m \<and> 0 < lm_watermark_ms m)
      | LM_EXIT_REQUESTED \<Rightarrow>
          ag_status a \<in> {POSITION_PROTECTED, RUNNER_PROTECTED} \<and> tf_position_quantity f = ag_position_qty a
          \<and> (\<exists>reason m. F = Some (ExitRequested reason) \<and> non_blank reason
               \<and> tf_market_facts f = Some m \<and> lm_is_final_closed_candle m))"

lemma mk_exit_decision_iff: "mk_exit_decision k r w x = Inr d \<longleftrightarrow>
    d = \<lparr>xd_kind = k, xd_reason = r, xd_source_watermark_ms = w, xd_proposed_stop = x\<rparr> \<and> valid_exit_decision d"
  by (auto simp: mk_exit_decision_def Let_def)

lemma pre_tp1_exit_closed:
  assumes "evaluate_profile_pre_tp1_exit p m n r e = Inr d" "xd_kind d = XD_EXIT"
  shows "lm_is_final_closed_candle m" "non_blank (xd_reason d)"
proof -
  have "valid_exit_decision d"
    using assms(1) by (auto simp: evaluate_profile_pre_tp1_exit_def pre_tp1_reclaim_def pre_tp1_time_stops_def mk_exit_decision_iff
        split: if_split_asm)
  then show "non_blank (xd_reason d)" by (simp add: valid_exit_decision_def)
  show "lm_is_final_closed_candle m"
    using assms by (auto simp: evaluate_profile_pre_tp1_exit_def mk_exit_decision_iff split: if_split_asm)
qed

lemma runner_exit_closed:
  assumes "evaluate_profile_runner_exit p s m = Inr d" "xd_kind d = XD_EXIT"
  shows "lm_is_final_closed_candle m" "non_blank (xd_reason d)"
proof -
  have "valid_exit_decision d"
    using assms(1) by (auto simp: evaluate_profile_runner_exit_def runner_move_def Let_def mk_exit_decision_iff split: if_split_asm)
  then show "non_blank (xd_reason d)" by (simp add: valid_exit_decision_def)
  show "lm_is_final_closed_candle m"
    using assms by (auto simp: evaluate_profile_runner_exit_def mk_exit_decision_iff split: if_split_asm)
qed

lemma pre_tp1_decision:
  assumes "pre_tp1_maintenance p a f = Inr (status, F)" "ag_status a = POSITION_PROTECTED"
  shows "decision_rests_on a f status F"
  using assms pre_tp1_exit_closed
  by (auto simp: pre_tp1_maintenance_def decision_rests_on_def split: if_split_asm option.split_asm)

lemma tp1_decision:
  assumes "tp1_maintenance p a f = Inr (status, F)" "ag_status a = POSITION_PROTECTED" "valid_ticket_facts f"
    "tf_tp1_filled_quantity f \<noteq> 0"
  shows "decision_rests_on a f status F"
  using assms
  by (auto simp: tp1_maintenance_def decision_rests_on_def Let_def valid_ticket_facts_def is_missing_price_def
      split: if_split_asm option.split_asm)

lemma runner_decision:
  assumes "runner_maintenance p a f = Inr (status, F)" "ag_status a = RUNNER_PROTECTED" "valid_exit_profile p"
    "xp_position_side p = nd_position_side (agg_domain a)"
  shows "decision_rests_on a f status F"
proof -
  consider "status = LM_NO_CHANGE" "F = None" | m stop floor_price d where "tf_position_quantity f = ag_position_qty a"
    "tf_market_facts f = Some m" "ag_active_stop_price a = Some stop" "ag_break_even_floor_price a = Some floor_price"
    "evaluate_profile_runner_exit p \<lparr>ru_current_stop = stop, ru_break_even_floor = floor_price, ru_price_tick = tf_price_tick f,
        ru_last_runner_watermark_ms = (case ag_runner_stop_watermark_ms a of None \<Rightarrow> 0 | Some w \<Rightarrow> w)\<rparr> m = Inr d"
    "xd_kind d = XD_MOVE_STOP \<and> (\<exists>new_stop. xd_proposed_stop d = Some new_stop \<and> status = LM_RUNNER_MOVE_REQUESTED
        \<and> F = Some (RunnerStopRequested new_stop (xd_source_watermark_ms d)))
     \<or> xd_kind d = XD_EXIT \<and> status = LM_EXIT_REQUESTED \<and> F = Some (ExitRequested (xd_reason d))"
    using assms(1)
    by (auto simp: runner_maintenance_def split: if_split_asm option.split_asm exit_decision_kind.split_asm)
  then show ?thesis
  proof cases
    case 2
    then show ?thesis
      using runner_move_sound[OF 2(5) _ assms(3)] runner_exit_closed[OF 2(5)] assms(2,4)
      by (auto simp: decision_rests_on_def)
  qed (simp add: decision_rests_on_def)
qed

lemma maintenance_decision_sound:
  assumes "maintenance_decision p a f = Inr (status, F)" "valid_ticket_facts f" "valid_exit_profile p"
    "xp_position_side p = nd_position_side (agg_domain a)"
  shows "decision_rests_on a f status F"
  using assms pre_tp1_decision tp1_decision runner_decision
  by (auto simp: maintenance_decision_def decision_rests_on_def[of _ _ LM_NO_CHANGE] split: if_split_asm)

section \<open>Maintenance and the lifecycle\<close>

lemma frozen_profileD:
  assumes "frozen_profile ctx a x = Inr p"
  shows "valid_exit_profile p" "xp_position_side p = nd_position_side (agg_domain a)"
    "xp_exit_profile_id p = tk_exit_policy_id (ag_ticket a)"
    "ac_semantic_hash ctx p = tk_exit_policy_semantic_hash (ag_ticket a)"
proof -
  obtain status where "get_profile ctx (tk_exit_policy_id (ag_ticket a)) (tk_exit_policy_semantic_hash (ag_ticket a)) x
      = Inr (Some (p, status))" and side: "xp_position_side p = nd_position_side (agg_domain a)"
    using assms by (auto simp: frozen_profile_def split: option.split_asm prod.split_asm if_split_asm)
  then show "valid_exit_profile p" "xp_exit_profile_id p = tk_exit_policy_id (ag_ticket a)"
    "ac_semantic_hash ctx p = tk_exit_policy_semantic_hash (ag_ticket a)"
    by (auto elim!: get_profileE)
  show "xp_position_side p = nd_position_side (agg_domain a)" by (rule side)
qed





text \<open>A decision is an event the reducer accepts.\<close>

lemma decision_accepted:
  assumes "decision_rests_on a f status (Some F)" "ag_active_stop_exchange_order_id a \<noteq> None" "\<And>q p c. F = TakeProfitFilled q p c \<Longrightarrow> 0 < c"
  shows "\<exists>r. reduce_fact a h F = Inr r"
proof -
  obtain i where i: "ag_active_stop_exchange_order_id a = Some i" using assms(2) by auto
  show ?thesis
  proof (cases status)
    case LM_BREAK_EVEN_REQUESTED
    then obtain price floor_price where F: "F = TakeProfitFilled (ag_tp1_target_qty a) price floor_price"
      "ag_status a = POSITION_PROTECTED" "0 < price" "0 < dec_sub (ag_position_qty a) (ag_tp1_target_qty a)"
      using assms(1) by (auto simp: decision_rests_on_def)
    then show ?thesis using i assms(3)[OF F(1)]
      by (simp add: on_take_profit_filled_def require_status_def require_def after_def transition_def Let_def)
  next
    case LM_RUNNER_MOVE_REQUESTED
    then obtain stop active watermark where F: "F = RunnerStopRequested stop watermark" "ag_status a = RUNNER_PROTECTED"
      "ag_active_stop_price a = Some active" "0 < stop" "0 < watermark" "stop_improves (nd_position_side (agg_domain a)) stop active"
      using assms(1) by (auto simp: decision_rests_on_def)
    then show ?thesis using i
      by (simp add: on_runner_stop_requested_def require_status_def require_def after_def transition_def)
  next
    case LM_EXIT_REQUESTED
    then obtain reason where "F = ExitRequested reason" "non_blank reason" "ag_status a \<in> {POSITION_PROTECTED, RUNNER_PROTECTED}"
      using assms(1) by (auto simp: decision_rests_on_def)
    then show ?thesis
      by (auto simp: on_exit_requested_def require_status_in_def require_def after_def transition_def)
  qed (use assms(1) in \<open>simp add: decision_rests_on_def\<close>)
qed

section \<open>The properties\<close>

lemma stored_behind:
  assumes "reachable_store s" "stored t s = Some a"
  obtains b where "a = as_stored b" "lifecycle_ok b" "ag_identity b = tk_identity (ag_ticket b)"
proof -
  obtain b fx where b: "history b (log_of t s) fx" "a = as_stored b" "ag_identity b = tk_identity (ag_ticket b)"
    using log_ok_facts[OF reachable_log[OF assms(1)] assms(2)] by metis
  then show ?thesis using lc.history_inv[OF b(1)] by (intro that[of b]) auto
qed

lemma protected_has_stop:
  assumes "reachable_store s" "stored t s = Some a" "ag_status a \<in> {POSITION_PROTECTED, RUNNER_PROTECTED}"
  shows "ag_active_stop_exchange_order_id a \<noteq> None"
proof (rule stored_behind[OF assms(1,2)])
  fix b
  assume b: "a = as_stored b" "lifecycle_ok b"
  have "ag_status b \<in> {POSITION_PROTECTED, RUNNER_PROTECTED}" using assms(3) b(1) by simp
  then have "ag_active_stop_exchange_order_id b \<noteq> None" using b(2) by (elim insertE) (simp_all add: ok_stop_facts)
  then show ?thesis by (simp add: b(1) as_stored_def loaded_with_def)
qed



text \<open>One frozen profile and its authority; and a Ticket that waits for its entry, whose maintenance changes nothing.\<close>

definition demo_profile :: exit_profile where
  "demo_profile =
     \<lparr>xp_exit_profile_id = ''q'', xp_exit_profile_version = 1, xp_position_side = Long,
      xp_tp1 = \<lparr>tr_reward_multiple = 1, tr_quantity_fraction = 1 / 2\<rparr>,
      xp_break_even_floor = \<lparr>be_slippage_buffer_ticks = 2, be_minimum_improvement_ticks = 1\<rparr>,
      xp_runner = \<lparr>rr_timeframe = M15, rr_lookback_bars = 4, rr_atr_period = 14, rr_atr_buffer_multiple = 1,
        rr_minimum_improvement_ticks = 1\<rparr>,
      xp_time_stop = None, xp_pre_tp1_guards = []\<rparr>"

definition demo_profile_context :: authority_context where
  "demo_profile_context = \<lparr>ac_semantic_hash = (\<lambda>_. demo_digest), ac_event_side = (\<lambda>_. Some Long), ac_authorized = (\<lambda>_. True)\<rparr>"

definition demo_profile_authority :: exit_authority where
  "demo_profile_authority = \<lparr>xa_profiles = [seeded_profile demo_profile_context demo_profile], xa_bindings = [],
     xa_current = [], xa_events = []\<rparr>"

definition demo_facts :: ticket_facts where
  "demo_facts =
     \<lparr>tf_position_quantity = 1, tf_tp1_filled_quantity = 1, tf_tp1_average_fill_price = Some 120,
      tf_allocated_entry_fee_quote = 1 / 10, tf_exit_taker_fee_rate = 1 / 2000, tf_price_tick = 1 / 10,
      tf_market_facts = None, tf_observed_at_ms = 70\<rparr>"

lemma demo_profile_valid: "valid_exit_profile demo_profile" by code_simp

lemma demo_facts_valid: "valid_ticket_facts demo_facts" by code_simp

lemma demo_frozen:
  assumes "tk_exit_policy_id (ag_ticket a) = ''q''" "tk_exit_policy_semantic_hash (ag_ticket a) = demo_digest"
    "nd_position_side (agg_domain a) = Long"
  shows "frozen_profile demo_profile_context a demo_profile_authority = Inr demo_profile"
  using demo_profile_valid
  by (simp add: frozen_profile_def assms get_profile_def decode_profile_def profile_row_def demo_profile_authority_def
      seeded_profile_def demo_profile_context_def) (simp add: demo_profile_def)


text \<open>
  C38. On the aggregate of any accepted history the reducer accepts every decision of the frozen exit profile, so
  maintenance is never refused by the lifecycle; the one decision it can refuse is a break-even floor that is not
  positive.
\<close>

theorem profile_decisions_accepted:
  assumes "history a es fx" "valid_ticket_facts f" "frozen_profile ctx a x = Inr p"
    "maintenance_decision p a f = Inr (status, Some F)" "eh_sequence h = ag_last_event_sequence a + 1"
    "case F of TakeProfitFilled q price floor_price \<Rightarrow> 0 < floor_price | _ \<Rightarrow> True"
  shows "\<exists>r. reduce_event (Some a) (TicketEvent h (agg_ticket_id a) F) = Inr r"
proof -
  have rests: "decision_rests_on a f status (Some F)"
    using maintenance_decision_sound[OF assms(4,2)] frozen_profileD[OF assms(3)] by simp
  then have "ag_status a \<in> {POSITION_PROTECTED, RUNNER_PROTECTED}"
    by (auto simp: decision_rests_on_def split: maintenance_status.split_asm)
  then have "ag_active_stop_exchange_order_id a \<noteq> None" using lc.history_inv[OF assms(1)]
    by (elim insertE) (simp_all add: ok_stop_facts)
  moreover have "0 < c" if "F = TakeProfitFilled q p c" for q p c using assms(6) that by simp
  ultimately obtain r where "reduce_fact a h F = Inr r" using decision_accepted[OF rests] by blast
  then show ?thesis using assms(5) by (auto simp: reduce_event_Some_iff)
qed

lemma demo_break_even_decision:
  "maintenance_decision demo_profile demo_guarded demo_facts
     = Inr (LM_BREAK_EVEN_REQUESTED, Some (TakeProfitFilled 1 120 (1004 / 10)))"
proof -
  have "calculate_cost_adjusted_break_even (side_value Long) (break_even_of demo_profile 100 1 demo_facts) = Inr (1004 / 10)"
    by code_simp
  then show ?thesis
    by (simp add: maintenance_decision_def demo_guarded_def tp1_maintenance_def dec_sub_def)
      (simp add: demo_facts_def demo_profile_def)
qed

theorem profile_decisions_accepted_witness:
  "history demo_guarded (demo_events demo_entry_facts) demo_guarded_effects
   \<and> maintenance_decision demo_profile demo_guarded demo_facts
       = Inr (LM_BREAK_EVEN_REQUESTED, Some (TakeProfitFilled 1 120 (1004 / 10)))
   \<and> (\<exists>r. reduce_event (Some demo_guarded) (TicketEvent (demo_header 7) ''t'' (TakeProfitFilled 1 120 (1004 / 10))) = Inr r)"
proof -
  have "frozen_profile demo_profile_context demo_guarded demo_profile_authority = Inr demo_profile"
    by (rule demo_frozen) (simp_all add: demo_guarded_def demo_initial_def new_aggregate_def, simp_all add: demo_ticket_def)
  then show ?thesis
    using profile_decisions_accepted[OF demo_guarded_history demo_facts_valid _ demo_break_even_decision, of _ _ "demo_header 7"]
      demo_guarded_history demo_break_even_decision
    by (simp add: demo_guarded_def demo_initial_def new_aggregate_def)
qed

end
