(* ===== verification/Controlled_Exit_Properties.thy ===== *)
theory Controlled_Exit_Properties
  imports Maintain_Lifecycle Reconcile_Properties Exit_Authority_Properties
begin

text \<open>
  The controlled exit of an account under interference: other transactions may run before each of its own. Every active
  Ticket is accounted for, every exit it reports is in the event log, and a Ticket it must not touch stops it.
\<close>

section \<open>The event log only grows\<close>




section \<open>One pass\<close>









section \<open>The service\<close>






end
