(* ===== verification/Exposure_Episode.thy ===== *)
theory Exposure_Episode
  imports Strategy_Registry Kernel_Store
begin

text \<open>
  \<open>domain/exposure_episode.py\<close>: the rising-edge Episode of one strategy Event on one instrument, with the barrier that
  keeps a change of the comparison universe from fabricating an edge; and the table \<open>exposure_episode_current\<close> of
  \<open>infrastructure/pg_models.py\<close> with the operations of \<open>infrastructure/pg_signal_repository.py\<close> that read and write it.
  The columns of an authority recovery, written by another branch of the observation, are not kept.
\<close>

section \<open>States and transitions\<close>

datatype detector_status = DET_TRIGGERED | DET_NOT_TRIGGERED | DET_INVALID

datatype episode_state = EP_ARMED | EP_TRIGGERED | EP_COMPARISON_REBASE_REQUIRED | EP_AUTHORITY_REBASE_REQUIRED

abbreviation rebasing :: "episode_state set" where
  "rebasing \<equiv> {EP_COMPARISON_REBASE_REQUIRED, EP_AUTHORITY_REBASE_REQUIRED}"

record exposure_episode =
  ee_episode_domain_key :: string
  ee_event_spec_id :: string
  ee_exchange_instrument_id :: string
  ee_position_side :: position_side
  ee_state :: episode_state
  ee_exposure_episode_id :: "string option"
  ee_triggered_at_ms :: "int option"
  ee_rearmed_at_ms :: "int option"
  ee_last_observed_at_ms :: "int option"
  ee_projection_version :: int

definition positive_time :: "int option \<Rightarrow> bool" where
  "positive_time t = (case t of None \<Rightarrow> False | Some n \<Rightarrow> 0 < n)"

definition valid_exposure_episode :: "exposure_episode \<Rightarrow> bool" where
  "valid_exposure_episode e \<longleftrightarrow>
     is_identity (ee_episode_domain_key e) \<and> is_identity (ee_event_spec_id e) \<and> is_identity (ee_exchange_instrument_id e)
     \<and> 0 < ee_projection_version e
     \<and> (if ee_last_observed_at_ms e = None then ee_state e = EP_AUTHORITY_REBASE_REQUIRED
        else positive_time (ee_last_observed_at_ms e))
     \<and> (ee_rearmed_at_ms e = None \<or> positive_time (ee_rearmed_at_ms e))
     \<and> (if ee_state e = EP_TRIGGERED then ee_exposure_episode_id e \<noteq> None \<and> positive_time (ee_triggered_at_ms e)
        else ee_exposure_episode_id e = None \<and> ee_triggered_at_ms e = None)
     \<and> (if ee_state e \<in> rebasing then ee_rearmed_at_ms e = None else True)"

definition mk_exposure_episode :: "exposure_episode \<Rightarrow> exposure_episode result" where
  "mk_exposure_episode e =
     (let v = e\<lparr>ee_episode_domain_key := py_strip (ee_episode_domain_key e),
            ee_event_spec_id := py_strip (ee_event_spec_id e),
            ee_exchange_instrument_id := py_strip (ee_exchange_instrument_id e)\<rparr>
      in if valid_exposure_episode v then Inr v else Inl ValidationError)"

record episode_transition =
  et_current :: exposure_episode
  et_exposure_episode_id :: "string option"
  et_created_new_episode :: bool

definition mk_episode_transition :: "episode_transition \<Rightarrow> episode_transition result" where
  "mk_episode_transition t =
     (if et_exposure_episode_id t \<noteq> ee_exposure_episode_id (et_current t)
         \<or> et_created_new_episode t \<and> et_exposure_episode_id t = None
      then Inl ValidationError else Inr t)"

datatype binding_episode_state = REBASE_REQUIRED | ARMED_UNDER_BINDING

record comparison_checkpoint =
  cb_episode_domain_key :: string
  cb_comparison_binding_digest :: string
  cb_comparison_transition_revision :: int
  cb_state :: binding_episode_state
  cb_armed_at_ms :: "int option"
  cb_last_observed_at_ms :: int
  cb_last_detector_status :: detector_status
  cb_projection_version :: int

text \<open>What \<open>int(text, 16)\<close> accepts: blanks around, a sign, a prefix, and single underscores between digits.\<close>

definition hex_groups :: "string \<Rightarrow> bool" where
  "hex_groups s \<longleftrightarrow> s \<noteq> [] \<and> hd s \<noteq> CHR ''_'' \<and> last s \<noteq> CHR ''_''
     \<and> list_all (\<lambda>c. c \<in> set ''0123456789abcdefABCDEF_'') s
     \<and> list_all (\<lambda>(c, d). \<not> (c = CHR ''_'' \<and> d = CHR ''_'')) (zip s (tl s))"

definition parses_as_hex :: "string \<Rightarrow> bool" where
  "parses_as_hex s =
     (let t = py_strip s;
          u = (if t \<noteq> [] \<and> hd t \<in> {CHR ''+'', CHR ''-''} then tl t else t);
          v = (if py_startswith u ''0x'' \<or> py_startswith u ''0X''
               then (if py_startswith (drop 2 u) ''_'' then drop 3 u else drop 2 u) else u)
      in hex_groups v)"

definition valid_binding_digest :: "string \<Rightarrow> bool" where
  "valid_binding_digest d \<longleftrightarrow> py_startswith d ''sha256:'' \<and> length d = 71
     \<and> list_all (\<lambda>c. c \<notin> set ''ABCDEFGHIJKLMNOPQRSTUVWXYZ'') d \<and> parses_as_hex (drop 7 d)"

definition valid_comparison_checkpoint :: "comparison_checkpoint \<Rightarrow> bool" where
  "valid_comparison_checkpoint c \<longleftrightarrow>
     is_identity (cb_episode_domain_key c) \<and> valid_binding_digest (cb_comparison_binding_digest c)
     \<and> 0 < cb_comparison_transition_revision c \<and> 0 < cb_last_observed_at_ms c \<and> 0 < cb_projection_version c
     \<and> cb_last_detector_status c \<noteq> DET_INVALID
     \<and> (if cb_state c = REBASE_REQUIRED
        then cb_armed_at_ms c = None \<and> cb_last_detector_status c = DET_TRIGGERED
        else (case cb_armed_at_ms c of None \<Rightarrow> False | Some n \<Rightarrow> 0 < n \<and> n \<le> cb_last_observed_at_ms c))"

definition mk_comparison_checkpoint :: "comparison_checkpoint \<Rightarrow> comparison_checkpoint result" where
  "mk_comparison_checkpoint c =
     (let v = c\<lparr>cb_episode_domain_key := py_strip (cb_episode_domain_key c),
            cb_comparison_binding_digest := py_strip (cb_comparison_binding_digest c)\<rparr>
      in if valid_comparison_checkpoint v then Inr v else Inl ValidationError)"

record comparison_transition =
  cn_checkpoint :: comparison_checkpoint
  cn_episode_transition :: "episode_transition option"
  cn_signal_eligible :: bool
  cn_suppression_reason :: "string option"

definition mk_comparison_transition :: "comparison_transition \<Rightarrow> comparison_transition result" where
  "mk_comparison_transition t =
     (if (if cn_suppression_reason t \<noteq> None then cn_signal_eligible t \<or> cn_episode_transition t \<noteq> None
          else cb_state (cn_checkpoint t) = REBASE_REQUIRED)
      then Inl ValidationError else Inr t)"

section \<open>Identities\<close>

definition build_episode_domain_key :: "string \<Rightarrow> string \<Rightarrow> position_side \<Rightarrow> string" where
  "build_episode_domain_key event_spec_id exchange_instrument_id side =
     ''episode-domain:'' @ sha256_hexdigest (json_dumps (JObj
       [(''event_spec_id'', JStr event_spec_id), (''exchange_instrument_id'', JStr exchange_instrument_id),
        (''position_side'', JStr (side_value side))]))"

definition build_exposure_episode_id :: "string \<Rightarrow> string \<Rightarrow> position_side \<Rightarrow> int \<Rightarrow> string result" where
  "build_exposure_episode_id event_spec_id exchange_instrument_id side occurred_at_ms =
     (if occurred_at_ms \<le> 0 then Inl (ValueError ''Exposure Episode occurrence time must be positive'')
      else Inr (''episode:'' @ sha256_hexdigest (json_dumps (JObj
        [(''event_spec_id'', JStr event_spec_id), (''exchange_instrument_id'', JStr exchange_instrument_id),
         (''position_side'', JStr (side_value side)), (''occurred_at_ms'', JInt occurred_at_ms)]))))"

section \<open>The rising edge\<close>

text \<open>The detector's result for one closed bar.\<close>

record detection =
  dn_status :: detector_status
  dn_occurred_at_ms :: "int option"
  dn_observed_at_ms :: int

text \<open>A trigger has its time of occurrence, and nothing else has one; the barrier reports it in its own words.\<close>

definition occurrence_checked :: "string \<Rightarrow> string \<Rightarrow> detection \<Rightarrow> unit result" where
  "occurrence_checked missing extra dt =
     (if dn_status dt = DET_TRIGGERED
      then (if positive_time (dn_occurred_at_ms dt) then Inr () else Inl (ValueError missing))
      else if dn_occurred_at_ms dt \<noteq> None then Inl (ValueError extra) else Inr ())"

definition detection_checked :: "strategy_contract \<Rightarrow> string \<Rightarrow> detection \<Rightarrow> unit result" where
  "detection_checked contract instrument_id dt =
     (if sc_episode_policy contract \<noteq> RISING_EDGE
      then Inl (ValueError ''rising-edge reducer requires a rising-edge Event contract'')
      else if dn_status dt = DET_INVALID
      then Inl (ValueError ''Episode reducer accepts triggered or not_triggered only'')
      else if dn_observed_at_ms dt \<le> 0 then Inl (ValueError ''Episode observation time must be positive'')
      else if instrument_id = [] then Inl (ValueError ''Episode instrument identity must be non-blank'')
      else occurrence_checked ''triggered Episode transition requires occurrence time''
             ''not-triggered Episode transition forbids occurrence time'' dt)"

text \<open>The checks on the current state; true for a replay of the last observation.\<close>

definition episode_replayed ::
  "strategy_contract \<Rightarrow> string \<Rightarrow> string \<Rightarrow> exposure_episode \<Rightarrow> detection \<Rightarrow> bool result" where
  "episode_replayed contract instrument_id domain_key e dt =
     bind_result (mk_exposure_episode e) (\<lambda>_.
       if ee_state e \<in> rebasing \<and> dn_status dt = DET_TRIGGERED
       then Inl (ValueError ''rebase requires a valid NOT_TRIGGERED before an Episode'')
       else if ee_episode_domain_key e \<noteq> domain_key \<or> ee_event_spec_id e \<noteq> sc_event_spec_id contract
               \<or> ee_exchange_instrument_id e \<noteq> instrument_id \<or> ee_position_side e \<noteq> sc_position_side contract
       then Inl (ValueError ''Exposure Episode current state identity differs'')
       else (case ee_last_observed_at_ms e of
          None \<Rightarrow> Inr False
        | Some last_observed \<Rightarrow>
            if dn_observed_at_ms dt < last_observed
            then Inl (ValueError ''Exposure Episode observation cannot move backwards'')
            else if dn_observed_at_ms dt = last_observed
            then (if ee_state e \<noteq> (if dn_status dt = DET_TRIGGERED then EP_TRIGGERED else EP_ARMED)
                  then Inl (ValueError ''same Episode observation has contradictory result'') else Inr True)
            else Inr False))"

definition next_version :: "exposure_episode option \<Rightarrow> int" where
  "next_version current = (case current of None \<Rightarrow> 1 | Some e \<Rightarrow> ee_projection_version e + 1)"

text \<open>The state a new observation leads to.\<close>

definition observed_episode ::
  "strategy_contract \<Rightarrow> string \<Rightarrow> string \<Rightarrow> exposure_episode option \<Rightarrow> episode_state \<Rightarrow> string option \<Rightarrow> int option
     \<Rightarrow> int option \<Rightarrow> int \<Rightarrow> exposure_episode" where
  "observed_episode contract instrument_id domain_key current state episode_id triggered rearmed observed_at_ms =
     \<lparr>ee_episode_domain_key = domain_key, ee_event_spec_id = sc_event_spec_id contract,
      ee_exchange_instrument_id = instrument_id, ee_position_side = sc_position_side contract, ee_state = state,
      ee_exposure_episode_id = episode_id, ee_triggered_at_ms = triggered, ee_rearmed_at_ms = rearmed,
      ee_last_observed_at_ms = Some observed_at_ms, ee_projection_version = next_version current\<rparr>"

definition transition_to :: "exposure_episode \<Rightarrow> bool \<Rightarrow> episode_transition result" where
  "transition_to e created =
     bind_result (mk_exposure_episode e) (\<lambda>v.
       mk_episode_transition \<lparr>et_current = v, et_exposure_episode_id = ee_exposure_episode_id e, et_created_new_episode = created\<rparr>)"

definition advance_armed ::
  "strategy_contract \<Rightarrow> string \<Rightarrow> string \<Rightarrow> exposure_episode option \<Rightarrow> detection \<Rightarrow> episode_transition result" where
  "advance_armed contract instrument_id domain_key current dt =
     (let rearmed = (case current of None \<Rightarrow> Some (dn_observed_at_ms dt)
            | Some e \<Rightarrow> if ee_state e \<noteq> EP_ARMED then Some (dn_observed_at_ms dt) else ee_rearmed_at_ms e)
      in transition_to (observed_episode contract instrument_id domain_key current EP_ARMED None None rearmed
             (dn_observed_at_ms dt)) False)"

definition open_episode :: "exposure_episode option \<Rightarrow> bool" where
  "open_episode current = (case current of None \<Rightarrow> False | Some e \<Rightarrow> ee_state e = EP_TRIGGERED)"

definition advance_triggered ::
  "strategy_contract \<Rightarrow> string \<Rightarrow> string \<Rightarrow> exposure_episode option \<Rightarrow> detection \<Rightarrow> episode_transition result" where
  "advance_triggered contract instrument_id domain_key current dt =
     (let rearmed = (case current of None \<Rightarrow> None | Some e \<Rightarrow> ee_rearmed_at_ms e);
          next_e = (\<lambda>i t. observed_episode contract instrument_id domain_key current EP_TRIGGERED i t rearmed (dn_observed_at_ms dt))
      in if open_episode current
         then transition_to (next_e (ee_exposure_episode_id (the current)) (ee_triggered_at_ms (the current))) False
         else (case dn_occurred_at_ms dt of
                 None \<Rightarrow> Inl AssertionError
               | Some n \<Rightarrow>
                   bind_result (build_exposure_episode_id (sc_event_spec_id contract) instrument_id (sc_position_side contract) n)
                     (\<lambda>i. transition_to (next_e (Some i) (Some n)) True)))"

definition advance_exposure_episode ::
  "strategy_contract \<Rightarrow> exposure_episode option \<Rightarrow> detection \<Rightarrow> string \<Rightarrow> episode_transition result" where
  "advance_exposure_episode contract current dt exchange_instrument_id =
     (let instrument_id = py_strip exchange_instrument_id;
          domain_key = build_episode_domain_key (sc_event_spec_id contract) instrument_id (sc_position_side contract)
      in bind_result (detection_checked contract instrument_id dt) (\<lambda>_.
         bind_result (case current of None \<Rightarrow> Inr False | Some e \<Rightarrow> episode_replayed contract instrument_id domain_key e dt) (\<lambda>replayed.
           if replayed
           then mk_episode_transition \<lparr>et_current = the current,
                  et_exposure_episode_id = ee_exposure_episode_id (the current), et_created_new_episode = False\<rparr>
           else if dn_status dt = DET_NOT_TRIGGERED then advance_armed contract instrument_id domain_key current dt
           else advance_triggered contract instrument_id domain_key current dt)))"

section \<open>The comparison barrier\<close>

record comparison_binding =
  cg_digest :: string
  cg_revision :: int

definition comparison_request_checked :: "strategy_contract \<Rightarrow> string \<Rightarrow> comparison_binding \<Rightarrow> detection \<Rightarrow> unit result" where
  "comparison_request_checked contract exchange_instrument_id g dt =
     (if sc_episode_policy contract \<noteq> RISING_EDGE
      then Inl (ValueError ''comparison barrier requires a rising-edge Event contract'')
      else if dn_status dt = DET_INVALID
      then Inl (ValueError ''comparison barrier accepts triggered or not_triggered only'')
      else if dn_observed_at_ms dt \<le> 0 \<or> py_strip exchange_instrument_id = []
      then Inl (ValueError ''comparison barrier Observation identity is invalid'')
      else if cg_revision g \<le> 0 then Inl (ValueError ''comparison transition revision must be positive'')
      else bind_result (mk_comparison_checkpoint
          \<lparr>cb_episode_domain_key = ''validation'', cb_comparison_binding_digest = cg_digest g,
           cb_comparison_transition_revision = cg_revision g, cb_state = ARMED_UNDER_BINDING,
           cb_armed_at_ms = Some (dn_observed_at_ms dt), cb_last_observed_at_ms = dn_observed_at_ms dt,
           cb_last_detector_status = DET_NOT_TRIGGERED, cb_projection_version = 1\<rparr>) (\<lambda>_.
        occurrence_checked ''triggered comparison barrier requires occurrence time''
          ''not-triggered comparison barrier forbids occurrence time'' dt))"

definition checkpoint_version :: "comparison_checkpoint option \<Rightarrow> int" where
  "checkpoint_version checkpoint = (case checkpoint of None \<Rightarrow> 0 | Some c \<Rightarrow> cb_projection_version c)"

definition suppressed :: "comparison_checkpoint \<Rightarrow> comparison_transition result" where
  "suppressed c = mk_comparison_transition
     \<lparr>cn_checkpoint = c, cn_episode_transition = None, cn_signal_eligible = False,
      cn_suppression_reason = Some ''COMPARISON_REBASE_REQUIRED''\<rparr>"

definition arm_under_comparison_binding ::
  "strategy_contract \<Rightarrow> exposure_episode option \<Rightarrow> comparison_checkpoint option \<Rightarrow> detection \<Rightarrow> string \<Rightarrow> comparison_binding
     \<Rightarrow> comparison_transition result" where
  "arm_under_comparison_binding contract current_episode current_checkpoint dt exchange_instrument_id g =
     (if dn_status dt \<noteq> DET_NOT_TRIGGERED \<or> dn_occurred_at_ms dt \<noteq> None then Inl AssertionError
      else bind_result (advance_exposure_episode contract current_episode dt exchange_instrument_id) (\<lambda>t.
        bind_result (mk_comparison_checkpoint
          \<lparr>cb_episode_domain_key = ee_episode_domain_key (et_current t), cb_comparison_binding_digest = cg_digest g,
           cb_comparison_transition_revision = cg_revision g, cb_state = ARMED_UNDER_BINDING,
           cb_armed_at_ms = Some (dn_observed_at_ms dt), cb_last_observed_at_ms = dn_observed_at_ms dt,
           cb_last_detector_status = DET_NOT_TRIGGERED,
           cb_projection_version = checkpoint_version current_checkpoint + 1\<rparr>) (\<lambda>c.
          mk_comparison_transition \<lparr>cn_checkpoint = c, cn_episode_transition = Some t, cn_signal_eligible = False,
            cn_suppression_reason = None\<rparr>)))"

text \<open>The first observation under a binding.\<close>

definition rebase_binding ::
  "strategy_contract \<Rightarrow> exposure_episode option \<Rightarrow> comparison_checkpoint option \<Rightarrow> detection \<Rightarrow> string \<Rightarrow> comparison_binding
     \<Rightarrow> string \<Rightarrow> comparison_transition result" where
  "rebase_binding contract current_episode current_checkpoint dt exchange_instrument_id g domain_key =
     (if (case current_episode of None \<Rightarrow> False
          | Some e \<Rightarrow> (case ee_last_observed_at_ms e of None \<Rightarrow> False | Some n \<Rightarrow> dn_observed_at_ms dt \<le> n))
      then Inl (ValueError ''comparison transition cannot reuse a consumed Episode close'')
      else if (case current_checkpoint of None \<Rightarrow> False | Some c \<Rightarrow> dn_observed_at_ms dt \<le> cb_last_observed_at_ms c)
      then Inl (ValueError ''comparison transition must use a later Observation close'')
      else if dn_status dt = DET_TRIGGERED
      then bind_result (mk_comparison_checkpoint
          \<lparr>cb_episode_domain_key = domain_key, cb_comparison_binding_digest = cg_digest g,
           cb_comparison_transition_revision = cg_revision g, cb_state = REBASE_REQUIRED, cb_armed_at_ms = None,
           cb_last_observed_at_ms = dn_observed_at_ms dt, cb_last_detector_status = DET_TRIGGERED,
           cb_projection_version = checkpoint_version current_checkpoint + 1\<rparr>) suppressed
      else arm_under_comparison_binding contract current_episode current_checkpoint dt exchange_instrument_id g)"

text \<open>A further observation under the binding of the checkpoint; \<open>model_copy\<close> does not validate.\<close>

definition observed_checkpoint :: "comparison_checkpoint \<Rightarrow> detection \<Rightarrow> comparison_checkpoint" where
  "observed_checkpoint c dt = c\<lparr>cb_last_observed_at_ms := dn_observed_at_ms dt, cb_last_detector_status := dn_status dt,
     cb_projection_version := cb_projection_version c + 1\<rparr>"

definition replay_binding ::
  "strategy_contract \<Rightarrow> exposure_episode option \<Rightarrow> comparison_checkpoint \<Rightarrow> detection \<Rightarrow> string \<Rightarrow> comparison_transition result" where
  "replay_binding contract current_episode c dt exchange_instrument_id =
     (if dn_status dt \<noteq> cb_last_detector_status c
      then Inl (ValueError ''same comparison Observation has contradictory result'')
      else if cb_state c = REBASE_REQUIRED then suppressed c
      else if (case current_episode of None \<Rightarrow> True | Some e \<Rightarrow> ee_last_observed_at_ms e \<noteq> Some (dn_observed_at_ms dt))
      then Inl (ValueError ''comparison replay lacks matching Episode cursor'')
      else bind_result (advance_exposure_episode contract current_episode dt exchange_instrument_id) (\<lambda>t.
        mk_comparison_transition \<lparr>cn_checkpoint = c, cn_episode_transition = Some t, cn_signal_eligible = False,
          cn_suppression_reason = None\<rparr>))"

definition advance_under_arm ::
  "strategy_contract \<Rightarrow> exposure_episode option \<Rightarrow> comparison_checkpoint \<Rightarrow> detection \<Rightarrow> string \<Rightarrow> comparison_transition result" where
  "advance_under_arm contract current_episode c dt exchange_instrument_id =
     (case cb_armed_at_ms c of
        None \<Rightarrow> Inl AssertionError
      | Some armed_at_ms \<Rightarrow>
          if dn_status dt = DET_TRIGGERED \<and> dn_observed_at_ms dt \<le> armed_at_ms
          then Inl (ValueError ''comparison trigger must be later than its arming close'')
          else bind_result (advance_exposure_episode contract current_episode dt exchange_instrument_id) (\<lambda>t.
            mk_comparison_transition \<lparr>cn_checkpoint = observed_checkpoint c dt, cn_episode_transition = Some t,
              cn_signal_eligible = (dn_status dt = DET_TRIGGERED \<and> et_created_new_episode t),
              cn_suppression_reason = None\<rparr>))"

definition observe_under_binding ::
  "strategy_contract \<Rightarrow> exposure_episode option \<Rightarrow> comparison_checkpoint \<Rightarrow> detection \<Rightarrow> string \<Rightarrow> comparison_binding
     \<Rightarrow> comparison_transition result" where
  "observe_under_binding contract current_episode c dt exchange_instrument_id g =
     (if dn_observed_at_ms dt < cb_last_observed_at_ms c
      then Inl (ValueError ''comparison Observation cannot move backwards'')
      else if dn_observed_at_ms dt = cb_last_observed_at_ms c
      then replay_binding contract current_episode c dt exchange_instrument_id
      else if cb_state c = REBASE_REQUIRED
      then (if dn_status dt = DET_TRIGGERED then suppressed (observed_checkpoint c dt)
            else arm_under_comparison_binding contract current_episode (Some c) dt exchange_instrument_id g)
      else advance_under_arm contract current_episode c dt exchange_instrument_id)"

definition comparison_state_checked ::
  "exposure_episode option \<Rightarrow> comparison_checkpoint option \<Rightarrow> comparison_binding \<Rightarrow> string \<Rightarrow> unit result" where
  "comparison_state_checked current_episode current_checkpoint g domain_key =
     (if (case current_episode of None \<Rightarrow> False | Some e \<Rightarrow> ee_episode_domain_key e \<noteq> domain_key)
      then Inl (ValueError ''comparison Episode state identity differs'')
      else (case current_checkpoint of
         None \<Rightarrow> Inr ()
       | Some c \<Rightarrow>
           if cb_episode_domain_key c \<noteq> domain_key then Inl (ValueError ''comparison checkpoint Episode identity differs'')
           else if cg_revision g < cb_comparison_transition_revision c
                \<or> cg_revision g = cb_comparison_transition_revision c \<and> cg_digest g \<noteq> cb_comparison_binding_digest c
           then Inl (ValueError ''comparison transition revision is stale or has contradictory digest'')
           else Inr ()))"

definition under_binding :: "comparison_binding \<Rightarrow> comparison_checkpoint \<Rightarrow> bool" where
  "under_binding g c \<longleftrightarrow> cb_comparison_binding_digest c = cg_digest g \<and> cb_comparison_transition_revision c = cg_revision g"

definition advance_comparison_bound_exposure_episode ::
  "strategy_contract \<Rightarrow> exposure_episode option \<Rightarrow> comparison_checkpoint option \<Rightarrow> detection \<Rightarrow> string \<Rightarrow> comparison_binding
     \<Rightarrow> comparison_transition result" where
  "advance_comparison_bound_exposure_episode contract current_episode current_checkpoint dt exchange_instrument_id g =
     (let domain_key = build_episode_domain_key (sc_event_spec_id contract) exchange_instrument_id (sc_position_side contract)
      in bind_result (comparison_request_checked contract exchange_instrument_id g dt) (\<lambda>_.
         bind_result (comparison_state_checked current_episode current_checkpoint g domain_key) (\<lambda>_.
           case current_checkpoint of
             None \<Rightarrow> rebase_binding contract current_episode None dt exchange_instrument_id g domain_key
           | Some c \<Rightarrow>
               if under_binding g c then observe_under_binding contract current_episode c dt exchange_instrument_id g
               else rebase_binding contract current_episode (Some c) dt exchange_instrument_id g domain_key)))"

section \<open>The table of current Episodes\<close>

record episode_row =
  eq_episode :: exposure_episode
  eq_checkpoint :: "comparison_checkpoint option"

abbreviation row_key :: "episode_row \<Rightarrow> string" where
  "row_key r \<equiv> ee_episode_domain_key (eq_episode r)"

definition lock_exposure_episode :: "string \<Rightarrow> episode_row list \<Rightarrow> exposure_episode option result" where
  "lock_exposure_episode episode_domain_key rows =
     (let k = py_strip episode_domain_key
      in if k = [] then Inl (ValueError ''Episode domain key must be non-blank'')
         else case List.find (\<lambda>r. row_key r = k) rows of
           None \<Rightarrow> Inr None
         | Some r \<Rightarrow> bind_result (mk_exposure_episode (eq_episode r)) (\<lambda>e. Inr (Some e)))"

text \<open>The state of a checkpoint is read off its arming time.\<close>

definition get_comparison_episode_checkpoint :: "string \<Rightarrow> episode_row list \<Rightarrow> comparison_checkpoint option result" where
  "get_comparison_episode_checkpoint episode_domain_key rows =
     (case List.find (\<lambda>r. row_key r = episode_domain_key) rows of
        None \<Rightarrow> Inr None
      | Some r \<Rightarrow>
          (case eq_checkpoint r of
             None \<Rightarrow> Inr None
           | Some c \<Rightarrow> bind_result (mk_comparison_checkpoint (c\<lparr>cb_episode_domain_key := episode_domain_key,
                 cb_state := (if cb_armed_at_ms c = None then REBASE_REQUIRED else ARMED_UNDER_BINDING)\<rparr>)) (\<lambda>v. Inr (Some v))))"

definition save_exposure_episode :: "exposure_episode \<Rightarrow> int \<Rightarrow> episode_row list \<Rightarrow> episode_row list result" where
  "save_exposure_episode state expected_version rows =
     (let here = (\<lambda>r. row_key r = ee_episode_domain_key state \<and> ee_projection_version (eq_episode r) = expected_version)
      in if expected_version < 0 then Inl (ValueError ''Episode expected version cannot be negative'')
         else if ee_projection_version state \<noteq> expected_version + 1
         then Inl (ValueError ''Episode projection version is not monotonic'')
         else if expected_version = 0
         then (if list_ex (\<lambda>r. row_key r = ee_episode_domain_key state) rows
               then Inl (RuntimeError ''Exposure Episode authority changed'')
               else Inr (rows @ [\<lparr>eq_episode = state, eq_checkpoint = None\<rparr>]))
         else if rowcount here rows \<noteq> 1 then Inl (RuntimeError ''Exposure Episode authority changed'')
         else Inr (update_where here (\<lambda>r. r\<lparr>eq_episode := state\<rparr>) rows))"

text \<open>The Events whose rows may carry a checkpoint, by a check constraint of the table.\<close>

definition comparison_events :: "string list" where
  "comparison_events = [''event_spec:MPG-001:MPG-LONG:v3'', ''event_spec:MI-001:MI-LONG:v3'']"

definition rebasing_episode :: "string \<Rightarrow> string \<Rightarrow> string \<Rightarrow> position_side \<Rightarrow> comparison_checkpoint \<Rightarrow> exposure_episode" where
  "rebasing_episode key event_spec_id exchange_instrument_id side c =
     \<lparr>ee_episode_domain_key = key, ee_event_spec_id = event_spec_id, ee_exchange_instrument_id = exchange_instrument_id,
      ee_position_side = side, ee_state = EP_COMPARISON_REBASE_REQUIRED, ee_exposure_episode_id = None,
      ee_triggered_at_ms = None, ee_rearmed_at_ms = None, ee_last_observed_at_ms = Some (cb_last_observed_at_ms c),
      ee_projection_version = 1\<rparr>"

text \<open>The row the transition writes: \<open>current\<close> is the Episode read under the lock.\<close>

definition comparison_row_written ::
  "string \<Rightarrow> exposure_episode \<Rightarrow> comparison_checkpoint \<Rightarrow> exposure_episode option \<Rightarrow> int \<Rightarrow> int \<Rightarrow> episode_row list
     \<Rightarrow> episode_row list result" where
  "comparison_row_written key state c current expected_episode_version expected_checkpoint_version rows =
     (let row = \<lparr>eq_episode = state, eq_checkpoint = Some c\<rparr>;
          here = (\<lambda>r. row_key r = key \<and> ee_projection_version (eq_episode r) = expected_episode_version
                    \<and> checkpoint_version (eq_checkpoint r) = expected_checkpoint_version)
      in if ee_event_spec_id state \<notin> set comparison_events then Inl IntegrityError
         else if current = None
         then (if list_ex (\<lambda>r. row_key r = ee_episode_domain_key state) rows
               then Inl (RuntimeError ''comparison Episode authority changed'') else Inr (rows @ [row]))
         else if rowcount here rows \<noteq> 1 then Inl (RuntimeError ''comparison Episode authority changed'')
         else Inr (update_where here (\<lambda>_. row) rows))"

definition save_comparison_episode_transition ::
  "comparison_transition \<Rightarrow> string \<Rightarrow> string \<Rightarrow> position_side \<Rightarrow> int \<Rightarrow> int \<Rightarrow> comparison_binding option \<Rightarrow> episode_row list
     \<Rightarrow> episode_row list result" where
  "save_comparison_episode_transition t event_spec_id exchange_instrument_id side expected_episode_version
       expected_checkpoint_version binding rows =
     (let c = cn_checkpoint t; key = build_episode_domain_key event_spec_id exchange_instrument_id side;
          proposed = map_option et_current (cn_episode_transition t)
      in if key \<noteq> cb_episode_domain_key c then Inl (ValueError ''comparison checkpoint domain identity differs'')
         else if (case binding of None \<Rightarrow> True | Some g \<Rightarrow> \<not> under_binding g c)
         then Inl (RuntimeError ''comparison binding authority changed'')
         else bind_result (lock_exposure_episode key rows) (\<lambda>current.
              bind_result (get_comparison_episode_checkpoint key rows) (\<lambda>previous.
         if next_version current - 1 \<noteq> expected_episode_version \<or> checkpoint_version previous \<noteq> expected_checkpoint_version
         then Inl (RuntimeError ''comparison Episode version changed'')
         else if Some c = previous
         then (if proposed \<noteq> None \<and> proposed \<noteq> current then Inl (RuntimeError ''comparison replay Episode differs'')
               else Inr rows)
         else if cb_projection_version c \<noteq> expected_checkpoint_version + 1
         then Inl (ValueError ''comparison checkpoint version is not monotonic'')
         else if (case previous of None \<Rightarrow> False | Some p \<Rightarrow> cb_last_observed_at_ms c \<le> cb_last_observed_at_ms p)
         then Inl (ValueError ''comparison checkpoint close is not monotonic'')
         else (case proposed of
            Some e \<Rightarrow>
              if ee_episode_domain_key e \<noteq> key \<or> ee_projection_version e \<noteq> expected_episode_version + 1
              then Inl (ValueError ''comparison Episode transition identity/version differs'')
              else comparison_row_written key e c current expected_episode_version expected_checkpoint_version rows
          | None \<Rightarrow>
              bind_result (case current of Some e \<Rightarrow> Inr e
                 | None \<Rightarrow> mk_exposure_episode (rebasing_episode key event_spec_id exchange_instrument_id side c)) (\<lambda>e.
                comparison_row_written key e c current expected_episode_version expected_checkpoint_version rows)))))"

section \<open>One observation of a scope\<close>

text \<open>
  The comparison branch and the plain branch of \<open>application/observe_strategy_scope.py\<close> for a rising-edge Event. The
  comparison binding is read before the transaction and again, as \<open>authority\<close>, when the transition is saved.
\<close>

definition observe_comparison ::
  "strategy_contract \<Rightarrow> string \<Rightarrow> comparison_binding \<Rightarrow> comparison_binding option \<Rightarrow> detection \<Rightarrow> episode_row list
     \<Rightarrow> (episode_row list \<times> comparison_transition) result" where
  "observe_comparison contract exchange_instrument_id g authority dt rows =
     (let key = build_episode_domain_key (sc_event_spec_id contract) exchange_instrument_id (sc_position_side contract)
      in bind_result (lock_exposure_episode key rows) (\<lambda>current.
         bind_result (get_comparison_episode_checkpoint key rows) (\<lambda>checkpoint.
         bind_result (advance_comparison_bound_exposure_episode contract current checkpoint dt exchange_instrument_id g) (\<lambda>t.
         bind_result (save_comparison_episode_transition t (sc_event_spec_id contract) exchange_instrument_id
             (sc_position_side contract) (next_version current - 1) (checkpoint_version checkpoint) authority rows) (\<lambda>rows'.
           Inr (rows', t))))))"

definition observe_rising_edge ::
  "strategy_contract \<Rightarrow> string \<Rightarrow> detection \<Rightarrow> episode_row list \<Rightarrow> (episode_row list \<times> episode_transition) result" where
  "observe_rising_edge contract exchange_instrument_id dt rows =
     (let key = build_episode_domain_key (sc_event_spec_id contract) exchange_instrument_id (sc_position_side contract)
      in bind_result (lock_exposure_episode key rows) (\<lambda>current.
         bind_result (advance_exposure_episode contract current dt exchange_instrument_id) (\<lambda>t.
           if Some (et_current t) = current then Inr (rows, t)
           else bind_result (save_exposure_episode (et_current t) (next_version current - 1) rows) (\<lambda>rows'. Inr (rows', t)))))"

end
