(* ===== verification/Episode_Properties.thy ===== *)
theory Episode_Properties
  imports Exposure_Episode Store_Views
begin

text \<open>
  Observations of one scope under the comparison barrier: a signal is eligible exactly at a rising edge seen under one
  comparison binding, and every signal carries the identity of the Episode its edge opened.
\<close>

section \<open>The row of a scope\<close>

lemma domain_key_strip [simp]: "py_strip (build_episode_domain_key e i s) = build_episode_domain_key e i s"
  using tagged_hex_strip[of "''episode-domain:''" 64]
  by (simp add: build_episode_domain_key_def py_isspace_def)

lemma domain_key_nonempty [simp]: "build_episode_domain_key e i s \<noteq> []"
  by (simp add: build_episode_domain_key_def)

lemma valid_episode_normal: "valid_exposure_episode e \<Longrightarrow> mk_exposure_episode e = Inr e"
  by (simp add: mk_exposure_episode_def valid_exposure_episode_def is_identity_def)

lemma mk_exposure_episode_iff: "mk_exposure_episode e = Inr v \<longleftrightarrow>
    v = e\<lparr>ee_episode_domain_key := py_strip (ee_episode_domain_key e), ee_event_spec_id := py_strip (ee_event_spec_id e),
          ee_exchange_instrument_id := py_strip (ee_exchange_instrument_id e)\<rparr> \<and> valid_exposure_episode v"
  by (auto simp: mk_exposure_episode_def Let_def)

lemma mk_comparison_checkpoint_iff: "mk_comparison_checkpoint c = Inr v \<longleftrightarrow>
    v = c\<lparr>cb_episode_domain_key := py_strip (cb_episode_domain_key c),
          cb_comparison_binding_digest := py_strip (cb_comparison_binding_digest c)\<rparr> \<and> valid_comparison_checkpoint v"
  by (auto simp: mk_comparison_checkpoint_def Let_def)

text \<open>What the table holds for a key: its Episode and its checkpoint, as they are read.\<close>

definition scope_view :: "string \<Rightarrow> episode_row list \<Rightarrow> (exposure_episode option \<times> comparison_checkpoint option) result" where
  "scope_view key rows =
     bind_result (lock_exposure_episode key rows) (\<lambda>e. bind_result (get_comparison_episode_checkpoint key rows) (\<lambda>c. Inr (e, c)))"

definition scope_key :: "strategy_contract \<Rightarrow> string \<Rightarrow> string" where
  "scope_key contract i = build_episode_domain_key (sc_event_spec_id contract) i (sc_position_side contract)"

definition stored_checkpoint :: "string \<Rightarrow> comparison_checkpoint \<Rightarrow> bool" where
  "stored_checkpoint key c \<longleftrightarrow> cb_episode_domain_key c = key \<and> py_strip (cb_comparison_binding_digest c) = cb_comparison_binding_digest c
     \<and> (cb_armed_at_ms c = None) = (cb_state c = REBASE_REQUIRED)"

lemma stored_checkpoint_state:
  "stored_checkpoint key c \<Longrightarrow> c\<lparr>cb_episode_domain_key := key,
      cb_state := (if cb_armed_at_ms c = None then REBASE_REQUIRED else ARMED_UNDER_BINDING)\<rparr> = c"
  by (cases c, cases "cb_state c") (auto simp: stored_checkpoint_def)

lemma find_update:
  assumes "distinct (map f rows)" "rowcount P rows = 1" "\<And>r. P r \<Longrightarrow> f r = k" "f row = k"
  shows "List.find (\<lambda>r. f r = k) (update_where P (\<lambda>_. row) rows) = Some row"
    and "map f (update_where P (\<lambda>_. row) rows) = map f rows"
proof -
  have "filter P rows \<noteq> []" using assms(2) by (auto simp: rowcount_def)
  then obtain r where r: "r \<in> set rows" "P r" by (auto simp: filter_empty_conv)
  have P: "P x \<longleftrightarrow> f x = k" if "x \<in> set rows" for x
    using that r assms(1,3) by (auto simp: distinct_map dest: inj_onD)
  then have eq: "update_where P (\<lambda>_. row) rows = update_where (\<lambda>x. f x = k) (\<lambda>_. row) rows"
    by (simp add: update_where_def)
  have ex: "\<exists>x\<in>set rows. f x = k" using r assms(3) by blast
  then show "List.find (\<lambda>r. f r = k) (update_where P (\<lambda>_. row) rows) = Some row"
    unfolding eq using assms(4) by (induction rows) (auto simp: update_where_def)
  show "map f (update_where P (\<lambda>_. row) rows) = map f rows"
    unfolding eq using assms(4) by (simp add: update_where_def)
qed

lemma row_written:
  assumes "comparison_row_written key e c current ev cv rows = Inr rows'" "distinct (map row_key rows)"
    "ee_episode_domain_key e = key" "current = None \<longleftrightarrow> List.find (\<lambda>r. row_key r = key) rows = None"
  shows "List.find (\<lambda>r. row_key r = key) rows' = Some \<lparr>eq_episode = e, eq_checkpoint = Some c\<rparr> \<and> distinct (map row_key rows')"
proof (cases "current = None")
  case True
  then have "rows' = rows @ [\<lparr>eq_episode = e, eq_checkpoint = Some c\<rparr>]" "\<forall>r\<in>set rows. row_key r \<noteq> key"
    using assms(1,3) by (auto simp: comparison_row_written_def Let_def list_ex_iff split: if_split_asm)
  then show ?thesis using assms(2-4) True by (auto simp: find_append)
next
  case False
  let ?here = "\<lambda>r. row_key r = key \<and> ee_projection_version (eq_episode r) = ev \<and> checkpoint_version (eq_checkpoint r) = cv"
  let ?row = "\<lparr>eq_episode = e, eq_checkpoint = Some c\<rparr>"
  have w: "rowcount ?here rows = 1" "rows' = update_where ?here (\<lambda>_. ?row) rows"
    using assms(1) False by (auto simp: comparison_row_written_def Let_def split: if_split_asm)
  show ?thesis using find_update[OF assms(2) w(1), of key ?row] assms(2,3) unfolding w(2) by simp
qed

section \<open>The rising edge\<close>

text \<open>What an advance of the Episode leaves, in terms of the Episode it found.\<close>

lemma transition_toD:
  "transition_to e created = Inr t \<Longrightarrow>
     et_created_new_episode t = created \<and> et_exposure_episode_id t = ee_exposure_episode_id e
     \<and> ee_state (et_current t) = ee_state e \<and> ee_last_observed_at_ms (et_current t) = ee_last_observed_at_ms e
     \<and> ee_exposure_episode_id (et_current t) = ee_exposure_episode_id e \<and> (created \<longrightarrow> ee_exposure_episode_id e \<noteq> None)
     \<and> mk_exposure_episode (et_current t) = Inr (et_current t)"
  by (auto simp: transition_to_def mk_episode_transition_def mk_exposure_episode_iff valid_episode_normal split: if_split_asm)

lemma observed_episode_sel [simp]:
  "ee_state (observed_episode k i d c s x y z n) = s" "ee_last_observed_at_ms (observed_episode k i d c s x y z n) = Some n"
  "ee_exposure_episode_id (observed_episode k i d c s x y z n) = x"
  by (simp_all add: observed_episode_def)

definition episode_identity :: "strategy_contract \<Rightarrow> string \<Rightarrow> int option \<Rightarrow> string option" where
  "episode_identity contract i occurred =
     (case occurred of None \<Rightarrow> None
      | Some n \<Rightarrow> (case build_exposure_episode_id (sc_event_spec_id contract) (py_strip i) (sc_position_side contract) n of
            Inl _ \<Rightarrow> None | Inr x \<Rightarrow> Some x))"

definition follows :: "strategy_contract \<Rightarrow> string \<Rightarrow> exposure_episode option \<Rightarrow> detection \<Rightarrow> episode_transition \<Rightarrow> bool" where
  "follows contract i current dt t \<longleftrightarrow>
     dn_status dt \<noteq> DET_INVALID
     \<and> ee_state (et_current t) = (if dn_status dt = DET_TRIGGERED then EP_TRIGGERED else EP_ARMED)
     \<and> ee_last_observed_at_ms (et_current t) = Some (dn_observed_at_ms dt)
     \<and> et_exposure_episode_id t = ee_exposure_episode_id (et_current t)
     \<and> et_created_new_episode t = (dn_status dt = DET_TRIGGERED \<and> \<not> open_episode current)
     \<and> (et_created_new_episode t \<longrightarrow> et_exposure_episode_id t \<noteq> None)
     \<and> (dn_status dt = DET_TRIGGERED \<longrightarrow>
          ee_exposure_episode_id (et_current t) = (if open_episode current then ee_exposure_episode_id (the current)
            else episode_identity contract i (dn_occurred_at_ms dt)))
     \<and> (\<forall>e. current = Some e \<and> ee_last_observed_at_ms e = Some (dn_observed_at_ms dt) \<longrightarrow> et_current t = e)
     \<and> ((case current of None \<Rightarrow> True | Some e \<Rightarrow> mk_exposure_episode e = Inr e) \<longrightarrow>
          mk_exposure_episode (et_current t) = Inr (et_current t))"

lemma advance_follows:
  assumes "advance_exposure_episode contract current dt i = Inr t"
  shows "follows contract i current dt t"
proof -
  let ?i = "py_strip i"
  let ?k = "build_episode_domain_key (sc_event_spec_id contract) ?i (sc_position_side contract)"
  obtain u replayed where run: "detection_checked contract ?i dt = Inr u"
    "(case current of None \<Rightarrow> Inr False | Some e \<Rightarrow> episode_replayed contract ?i ?k e dt) = Inr replayed"
    "(if replayed then mk_episode_transition \<lparr>et_current = the current,
        et_exposure_episode_id = ee_exposure_episode_id (the current), et_created_new_episode = False\<rparr>
      else if dn_status dt = DET_NOT_TRIGGERED then advance_armed contract ?i ?k current dt
      else advance_triggered contract ?i ?k current dt) = Inr t"
    using assms unfolding advance_exposure_episode_def Let_def bind_result_Inr_iff by blast
  have valid: "dn_status dt \<noteq> DET_INVALID" using run(1) by (auto simp: detection_checked_def split: if_split_asm)
  have replay: "replayed" if "current = Some e" "ee_last_observed_at_ms e = Some (dn_observed_at_ms dt)" for e
    using run(2) that by (auto simp: episode_replayed_def split: if_split_asm)
  show ?thesis
  proof (cases replayed)
    case True
    then obtain e where "current = Some e" "ee_last_observed_at_ms e = Some (dn_observed_at_ms dt)"
      "ee_state e = (if dn_status dt = DET_TRIGGERED then EP_TRIGGERED else EP_ARMED)"
      using run(2) by (auto simp: episode_replayed_def split: option.split_asm if_split_asm)
    then show ?thesis using run(3) True valid by (auto simp: follows_def mk_episode_transition_def open_episode_def)
  next
    case False
    have new: "current = Some e \<Longrightarrow> ee_last_observed_at_ms e \<noteq> Some (dn_observed_at_ms dt)" for e
      using replay False by blast
    show ?thesis
    proof (cases "dn_status dt")
      case DET_TRIGGERED
      then have adv: "advance_triggered contract ?i ?k current dt = Inr t" using run(3) False by simp
      show ?thesis
      proof (cases "open_episode current")
        case True
        then show ?thesis using adv new DET_TRIGGERED by (auto simp: advance_triggered_def Let_def follows_def dest!: transition_toD)
      next
        case False
        then show ?thesis using adv new DET_TRIGGERED
          by (auto simp: advance_triggered_def Let_def follows_def episode_identity_def dest!: transition_toD split: option.split_asm)
      qed
    next
      case DET_NOT_TRIGGERED
      then show ?thesis using run(3) new False by (auto simp: advance_armed_def Let_def follows_def dest!: transition_toD)
    qed (use valid in simp)
  qed
qed

section \<open>The barrier\<close>

text \<open>A checkpoint as it is read: armed exactly with an arming time, and waiting only after a trigger.\<close>

definition readable_checkpoint :: "comparison_checkpoint \<Rightarrow> bool" where
  "readable_checkpoint c \<longleftrightarrow> (cb_armed_at_ms c = None) = (cb_state c = REBASE_REQUIRED)
     \<and> (cb_state c = REBASE_REQUIRED \<longrightarrow> cb_last_detector_status c = DET_TRIGGERED)"

definition barrier_result ::
  "strategy_contract \<Rightarrow> string \<Rightarrow> exposure_episode option \<Rightarrow> comparison_checkpoint option \<Rightarrow> comparison_binding \<Rightarrow> detection
     \<Rightarrow> comparison_transition \<Rightarrow> bool" where
  "barrier_result contract i current checkpoint g dt t \<longleftrightarrow>
     under_binding g (cn_checkpoint t) \<and> cb_last_observed_at_ms (cn_checkpoint t) = dn_observed_at_ms dt
     \<and> cb_last_detector_status (cn_checkpoint t) = dn_status dt \<and> readable_checkpoint (cn_checkpoint t)
     \<and> (case cn_episode_transition t of
          None \<Rightarrow> cb_state (cn_checkpoint t) = REBASE_REQUIRED \<and> dn_status dt = DET_TRIGGERED \<and> \<not> cn_signal_eligible t
            \<and> (\<forall>c. checkpoint = Some c \<and> under_binding g c \<longrightarrow> cb_state c = REBASE_REQUIRED)
        | Some tr \<Rightarrow> cb_state (cn_checkpoint t) = ARMED_UNDER_BINDING \<and> follows contract i current dt tr
            \<and> cn_signal_eligible t = et_created_new_episode tr
            \<and> (dn_status dt = DET_TRIGGERED \<longrightarrow> (\<exists>c. checkpoint = Some c \<and> under_binding g c
                 \<and> cb_state c = ARMED_UNDER_BINDING \<and> cb_last_observed_at_ms c \<le> dn_observed_at_ms dt)))"

lemma mk_comparison_transition_iff [simp]: "mk_comparison_transition t = Inr u \<longleftrightarrow>
    u = t \<and> (if cn_suppression_reason t \<noteq> None then \<not> cn_signal_eligible t \<and> cn_episode_transition t = None
             else cb_state (cn_checkpoint t) = ARMED_UNDER_BINDING)"
  by (cases "cb_state (cn_checkpoint t)") (auto simp: mk_comparison_transition_def)

lemma arm_result:
  assumes "arm_under_comparison_binding contract current checkpoint dt i g = Inr t" "py_strip (cg_digest g) = cg_digest g"
  shows "barrier_result contract i current checkpoint g dt t"
proof -
  obtain tr where tr: "dn_status dt = DET_NOT_TRIGGERED" "advance_exposure_episode contract current dt i = Inr tr"
    "cn_episode_transition t = Some tr" "\<not> cn_signal_eligible t" "under_binding g (cn_checkpoint t)"
    "cb_state (cn_checkpoint t) = ARMED_UNDER_BINDING" "cb_armed_at_ms (cn_checkpoint t) = Some (dn_observed_at_ms dt)"
    "cb_last_observed_at_ms (cn_checkpoint t) = dn_observed_at_ms dt" "cb_last_detector_status (cn_checkpoint t) = DET_NOT_TRIGGERED"
    using assms
    by (auto simp: arm_under_comparison_binding_def mk_comparison_checkpoint_iff under_binding_def split: if_split_asm)
  then show ?thesis using advance_follows[OF tr(2)] by (auto simp: barrier_result_def readable_checkpoint_def follows_def)
qed

lemma rebase_result:
  assumes "rebase_binding contract current checkpoint dt i g key = Inr t" "py_strip (cg_digest g) = cg_digest g"
    "\<And>c. checkpoint = Some c \<Longrightarrow> \<not> under_binding g c" "dn_status dt \<noteq> DET_INVALID"
  shows "barrier_result contract i current checkpoint g dt t"
proof (cases "dn_status dt = DET_TRIGGERED")
  case True
  then have "under_binding g (cn_checkpoint t) \<and> cb_last_observed_at_ms (cn_checkpoint t) = dn_observed_at_ms dt
      \<and> cb_last_detector_status (cn_checkpoint t) = DET_TRIGGERED \<and> cb_state (cn_checkpoint t) = REBASE_REQUIRED
      \<and> cb_armed_at_ms (cn_checkpoint t) = None \<and> cn_episode_transition t = None \<and> \<not> cn_signal_eligible t"
    using assms(1,2)
    by (auto simp: rebase_binding_def suppressed_def mk_comparison_checkpoint_iff under_binding_def split: if_split_asm)
  then show ?thesis using True assms(3) by (auto simp: barrier_result_def readable_checkpoint_def)
next
  case False
  then have "arm_under_comparison_binding contract current checkpoint dt i g = Inr t"
    using assms(1) by (auto simp: rebase_binding_def split: if_split_asm)
  then show ?thesis using arm_result assms(2) by blast
qed

lemma replay_result:
  assumes "replay_binding contract current c dt i = Inr t" "under_binding g c" "readable_checkpoint c"
    "cb_last_observed_at_ms c = dn_observed_at_ms dt"
  shows "barrier_result contract i current (Some c) g dt t"
proof (cases "cb_state c = REBASE_REQUIRED")
  case True
  then have "t = \<lparr>cn_checkpoint = c, cn_episode_transition = None, cn_signal_eligible = False,
      cn_suppression_reason = Some ''COMPARISON_REBASE_REQUIRED''\<rparr>" "dn_status dt = cb_last_detector_status c"
    using assms(1) by (auto simp: replay_binding_def suppressed_def split: if_split_asm)
  then show ?thesis using assms(2-4) True by (auto simp: barrier_result_def readable_checkpoint_def)
next
  case False
  then obtain e tr where tr: "current = Some e" "ee_last_observed_at_ms e = Some (dn_observed_at_ms dt)"
    "advance_exposure_episode contract current dt i = Inr tr" "dn_status dt = cb_last_detector_status c"
    "t = \<lparr>cn_checkpoint = c, cn_episode_transition = Some tr, cn_signal_eligible = False, cn_suppression_reason = None\<rparr>"
    "cb_state c = ARMED_UNDER_BINDING"
    using assms(1) by (auto simp: replay_binding_def split: if_split_asm option.split_asm)
  note f = advance_follows[OF tr(3)]
  have "et_current tr = e" using f tr(1,2) by (auto simp: follows_def)
  then have "\<not> et_created_new_episode tr" using f tr(1) by (auto simp: follows_def open_episode_def)
  then show ?thesis using f tr assms(2-4) by (auto simp: barrier_result_def)
qed

lemma under_arm_result:
  assumes "advance_under_arm contract current c dt i = Inr t" "under_binding g c" "readable_checkpoint c"
    "cb_state c = ARMED_UNDER_BINDING" "cb_last_observed_at_ms c \<le> dn_observed_at_ms dt"
  shows "barrier_result contract i current (Some c) g dt t"
proof -
  obtain tr where tr: "advance_exposure_episode contract current dt i = Inr tr"
    "t = \<lparr>cn_checkpoint = observed_checkpoint c dt, cn_episode_transition = Some tr,
       cn_signal_eligible = (dn_status dt = DET_TRIGGERED \<and> et_created_new_episode tr), cn_suppression_reason = None\<rparr>"
    using assms(1) by (auto simp: advance_under_arm_def split: if_split_asm option.split_asm)
  note f = advance_follows[OF tr(1)]
  then have "(dn_status dt = DET_TRIGGERED \<and> et_created_new_episode tr) = et_created_new_episode tr" by (auto simp: follows_def)
  then show ?thesis using f assms(2-) unfolding tr(2)
    by (auto simp: barrier_result_def readable_checkpoint_def observed_checkpoint_def under_binding_def)
qed

lemma barrier_advance:
  assumes "advance_comparison_bound_exposure_episode contract current checkpoint dt i g = Inr t"
    "py_strip (cg_digest g) = cg_digest g" "\<And>c. checkpoint = Some c \<Longrightarrow> readable_checkpoint c"
  shows "barrier_result contract i current checkpoint g dt t"
proof -
  let ?k = "build_episode_domain_key (sc_event_spec_id contract) i (sc_position_side contract)"
  obtain u where req: "comparison_request_checked contract i g dt = Inr u"
    and run: "(case checkpoint of None \<Rightarrow> rebase_binding contract current None dt i g ?k
       | Some c \<Rightarrow> if under_binding g c then observe_under_binding contract current c dt i g
           else rebase_binding contract current (Some c) dt i g ?k) = Inr t"
    using assms(1) unfolding advance_comparison_bound_exposure_episode_def Let_def bind_result_Inr_iff by blast
  have valid: "dn_status dt \<noteq> DET_INVALID" using req by (auto simp: comparison_request_checked_def split: if_split_asm)
  show ?thesis
  proof (cases checkpoint)
    case None
    then show ?thesis using run rebase_result[of contract current None dt i g ?k t] assms(2) valid by simp
  next
    case (Some c)
    note c = assms(3)[OF Some]
    show ?thesis
    proof (cases "under_binding g c")
      case True
      then have obs: "observe_under_binding contract current c dt i g = Inr t" using run Some by simp
      consider "dn_observed_at_ms dt = cb_last_observed_at_ms c" "replay_binding contract current c dt i = Inr t"
        | "cb_state c = REBASE_REQUIRED" "dn_status dt = DET_TRIGGERED" "suppressed (observed_checkpoint c dt) = Inr t"
        | "arm_under_comparison_binding contract current (Some c) dt i g = Inr t"
        | "cb_state c = ARMED_UNDER_BINDING" "cb_last_observed_at_ms c \<le> dn_observed_at_ms dt" "advance_under_arm contract current c dt i = Inr t"
        using obs by (cases "cb_state c") (auto simp: observe_under_binding_def split: if_split_asm)
      then show ?thesis
      proof cases
        case 1
        then show ?thesis using replay_result True c Some by simp
      next
        case 2
        then show ?thesis using True c Some
          by (auto simp: suppressed_def barrier_result_def readable_checkpoint_def observed_checkpoint_def under_binding_def)
      next
        case 3
        then show ?thesis using arm_result assms(2) Some by blast
      next
        case 4
        then show ?thesis using under_arm_result True c Some by blast
      qed
    next
      case False
      then show ?thesis using run Some rebase_result[of contract current checkpoint dt i g ?k t] assms(2) valid by simp
    qed
  qed
qed

section \<open>Observations of one scope\<close>

lemma get_checkpoint_readable:
  assumes "get_comparison_episode_checkpoint key rows = Inr (Some c)"
  shows "readable_checkpoint c" "py_strip (cb_comparison_binding_digest c) = cb_comparison_binding_digest c"
proof -
  obtain x where "mk_comparison_checkpoint (x\<lparr>cb_episode_domain_key := key,
      cb_state := (if cb_armed_at_ms x = None then REBASE_REQUIRED else ARMED_UNDER_BINDING)\<rparr>) = Inr c"
    using assms by (auto simp: get_comparison_episode_checkpoint_def split: option.split_asm)
  then show "readable_checkpoint c" "py_strip (cb_comparison_binding_digest c) = cb_comparison_binding_digest c"
    by (auto simp: mk_comparison_checkpoint_iff readable_checkpoint_def valid_comparison_checkpoint_def split: if_split_asm)
qed

lemma lock_episodeD:
  assumes "lock_exposure_episode key rows = Inr (Some e)"
  shows "mk_exposure_episode e = Inr e" "List.find (\<lambda>r. row_key r = py_strip key) rows \<noteq> None"
  using assms
  by (auto simp: lock_exposure_episode_def Let_def mk_exposure_episode_iff valid_episode_normal split: if_split_asm option.split_asm)

text \<open>What the row of the scope reads as after a transition is saved.\<close>

definition saved_as :: "exposure_episode option \<Rightarrow> comparison_transition \<Rightarrow> exposure_episode option \<times> comparison_checkpoint option \<Rightarrow> bool" where
  "saved_as current t v \<longleftrightarrow> snd v = Some (cn_checkpoint t) \<and> fst v \<noteq> None
     \<and> (case cn_episode_transition t of Some tr \<Rightarrow> fst v = Some (et_current tr)
        | None \<Rightarrow> (current \<noteq> None \<longrightarrow> fst v = current))"

lemma view_of_row:
  assumes "List.find (\<lambda>r. row_key r = key) rows = Some \<lparr>eq_episode = e, eq_checkpoint = Some c\<rparr>" "py_strip key = key"
    "mk_exposure_episode e = Inr e" "stored_checkpoint key c" "scope_view key rows = Inr v"
  shows "v = (Some e, Some c)"
proof -
  have "get_comparison_episode_checkpoint key rows = Inr x \<Longrightarrow> x = Some c" for x
    using assms(1,2,4) stored_checkpoint_state[OF assms(4)]
    by (auto simp: get_comparison_episode_checkpoint_def mk_comparison_checkpoint_iff stored_checkpoint_def)
  then show ?thesis using assms(1-3,5) by (auto simp: scope_view_def lock_exposure_episode_def Let_def split: if_split_asm)
qed

lemma save_cases:
  assumes "save_comparison_episode_transition t ev i side n m authority rows = Inr rows'"
    "lock_exposure_episode (build_episode_domain_key ev i side) rows = Inr current"
    "get_comparison_episode_checkpoint (build_episode_domain_key ev i side) rows = Inr previous"
  obtains (replayed) "rows' = rows" "previous = Some (cn_checkpoint t)"
      "\<And>tr. cn_episode_transition t = Some tr \<Longrightarrow> current = Some (et_current tr)"
    | (written) e where "comparison_row_written (build_episode_domain_key ev i side) e (cn_checkpoint t) current n m rows = Inr rows'"
      "cb_episode_domain_key (cn_checkpoint t) = build_episode_domain_key ev i side"
      "case cn_episode_transition t of
         Some tr \<Rightarrow> e = et_current tr \<and> ee_episode_domain_key e = build_episode_domain_key ev i side
       | None \<Rightarrow> (case current of Some x \<Rightarrow> e = x
           | None \<Rightarrow> mk_exposure_episode (rebasing_episode (build_episode_domain_key ev i side) ev i side (cn_checkpoint t)) = Inr e)"
proof (cases "Some (cn_checkpoint t) = previous")
  case True
  then have "rows' = rows \<and> (\<forall>tr. cn_episode_transition t = Some tr \<longrightarrow> current = Some (et_current tr))"
    using assms by (auto simp: save_comparison_episode_transition_def Let_def split: if_split_asm)
  then show ?thesis using replayed True by blast
next
  case False
  let ?k = "build_episode_domain_key ev i side"
  have k: "cb_episode_domain_key (cn_checkpoint t) = ?k"
    using assms(1) by (auto simp: save_comparison_episode_transition_def Let_def split: if_split_asm)
  have w: "(case map_option et_current (cn_episode_transition t) of
       Some e \<Rightarrow> if ee_episode_domain_key e \<noteq> ?k \<or> ee_projection_version e \<noteq> n + 1
         then Inl (ValueError ''comparison Episode transition identity/version differs'')
         else comparison_row_written ?k e (cn_checkpoint t) current n m rows
     | None \<Rightarrow> bind_result (case current of Some e \<Rightarrow> Inr e
         | None \<Rightarrow> mk_exposure_episode (rebasing_episode ?k ev i side (cn_checkpoint t))) (\<lambda>e.
           comparison_row_written ?k e (cn_checkpoint t) current n m rows)) = Inr rows'"
    using assms False by (simp add: save_comparison_episode_transition_def Let_def split: if_split_asm)
  show ?thesis
  proof (cases "cn_episode_transition t")
    case None
    then show ?thesis using w k by (auto intro!: written split: option.split_asm)
  next
    case (Some tr)
    then show ?thesis using w k by (auto intro!: written[of "et_current tr"] split: if_split_asm)
  qed
qed

lemma observe_saved:
  assumes "observe_comparison contract i g authority dt rows = Inr (rows', t)" "distinct (map row_key rows)"
    "py_strip (cg_digest g) = cg_digest g"
  obtains current checkpoint where "scope_view (scope_key contract i) rows = Inr (current, checkpoint)"
    "barrier_result contract i current checkpoint g dt t" "distinct (map row_key rows')"
    "\<And>v. scope_view (scope_key contract i) rows' = Inr v \<Longrightarrow> saved_as current t v"
proof -
  let ?ev = "sc_event_spec_id contract" and ?side = "sc_position_side contract"
  let ?k = "build_episode_domain_key ?ev i ?side"
  obtain current checkpoint where run: "lock_exposure_episode ?k rows = Inr current"
    "get_comparison_episode_checkpoint ?k rows = Inr checkpoint"
    "advance_comparison_bound_exposure_episode contract current checkpoint dt i g = Inr t"
    "save_comparison_episode_transition t ?ev i ?side (next_version current - 1) (checkpoint_version checkpoint) authority rows = Inr rows'"
    using assms(1) by (auto simp: observe_comparison_def Let_def)
  have view: "scope_view (scope_key contract i) rows = Inr (current, checkpoint)" by (simp add: scope_view_def scope_key_def run(1,2))
  have barrier: "barrier_result contract i current checkpoint g dt t"
    using barrier_advance[OF run(3) assms(3)] get_checkpoint_readable run(2) by blast
  show ?thesis
  proof (rule save_cases[OF run(4) run(1,2)])
    assume r: "rows' = rows" "checkpoint = Some (cn_checkpoint t)"
      and tr: "\<And>tr. cn_episode_transition t = Some tr \<Longrightarrow> current = Some (et_current tr)"
    have "current \<noteq> None" using run(1,2) r(2)
      by (auto simp: lock_exposure_episode_def get_comparison_episode_checkpoint_def Let_def split: option.split_asm)
    then have "saved_as current t (current, checkpoint)" using r(2) tr by (auto simp: saved_as_def split: option.split)
    then show ?thesis using that[OF view barrier] assms(2) view by (simp add: r(1))
  next
    fix e
    assume w: "comparison_row_written ?k e (cn_checkpoint t) current (next_version current - 1) (checkpoint_version checkpoint) rows = Inr rows'"
      "cb_episode_domain_key (cn_checkpoint t) = ?k"
      and e: "case cn_episode_transition t of
         Some tr \<Rightarrow> e = et_current tr \<and> ee_episode_domain_key e = ?k
       | None \<Rightarrow> (case current of Some x \<Rightarrow> e = x
           | None \<Rightarrow> mk_exposure_episode (rebasing_episode ?k ?ev i ?side (cn_checkpoint t)) = Inr e)"
    have cur: "mk_exposure_episode x = Inr x \<and> ee_episode_domain_key x = ?k" if "current = Some x" for x
      using run(1) that lock_episodeD(1)
      by (auto simp: lock_exposure_episode_def mk_exposure_episode_iff find_Some_iff split: option.split_asm)
    have tr: "mk_exposure_episode (et_current tr) = Inr (et_current tr)" if "cn_episode_transition t = Some tr" for tr
      using barrier that cur by (auto simp: barrier_result_def follows_def split: option.split)
    have new: "mk_exposure_episode x = Inr x \<and> ee_episode_domain_key x = ?k"
      if "mk_exposure_episode (rebasing_episode ?k ?ev i ?side (cn_checkpoint t)) = Inr x" for x
      using that by (auto simp: mk_exposure_episode_iff rebasing_episode_def valid_episode_normal)
    have n: "mk_exposure_episode e = Inr e" "ee_episode_domain_key e = ?k"
      using e cur tr new by (auto split: option.split_asm)
    have c: "stored_checkpoint ?k (cn_checkpoint t)"
      using barrier w(2) assms(3) by (auto simp: barrier_result_def stored_checkpoint_def readable_checkpoint_def under_binding_def)
    have "current = None \<longleftrightarrow> List.find (\<lambda>r. row_key r = ?k) rows = None"
      using run(1) by (auto simp: lock_exposure_episode_def split: option.split_asm)
    note found = row_written[OF w(1) assms(2) n(2) this]
    have "saved_as current t (Some e, Some (cn_checkpoint t))" using e by (auto simp: saved_as_def split: option.split_asm option.split)
    then show ?thesis
      using that[OF view barrier] found view_of_row[OF _ domain_key_strip n(1) c] by (auto simp: scope_key_def)
  qed
qed

section \<open>Streams of observations\<close>

record scope_observation =
  ov_binding :: comparison_binding
  ov_authority :: "comparison_binding option"
  ov_detection :: detection

fun comparison_run ::
  "strategy_contract \<Rightarrow> string \<Rightarrow> scope_observation list \<Rightarrow> episode_row list \<Rightarrow> (episode_row list \<times> comparison_transition list) result" where
  "comparison_run contract i [] rows = Inr (rows, [])"
| "comparison_run contract i (x # xs) rows =
     bind_result (observe_comparison contract i (ov_binding x) (ov_authority x) (ov_detection x) rows) (\<lambda>(rows1, t).
     bind_result (comparison_run contract i xs rows1) (\<lambda>(rows2, ts). Inr (rows2, t # ts)))"

lemma comparison_run_snoc:
  "comparison_run contract i (xs @ [x]) rows = Inr (rows', us) \<longleftrightarrow>
     (\<exists>rows1 ts t. comparison_run contract i xs rows = Inr (rows1, ts) \<and> us = ts @ [t]
       \<and> observe_comparison contract i (ov_binding x) (ov_authority x) (ov_detection x) rows1 = Inr (rows', t))"
  by (induction xs arbitrary: rows us) (fastforce split: prod.split)+

abbreviation fired :: "scope_observation \<Rightarrow> bool" where
  "fired x \<equiv> dn_status (ov_detection x) = DET_TRIGGERED"

abbreviation seen_at :: "scope_observation \<Rightarrow> int" where
  "seen_at x \<equiv> dn_observed_at_ms (ov_detection x)"

text \<open>A trigger that directly follows an earlier close without one, both under one comparison binding.\<close>

definition rising_edge :: "scope_observation list \<Rightarrow> nat \<Rightarrow> bool" where
  "rising_edge xs n \<longleftrightarrow> 0 < n \<and> n < length xs \<and> fired (xs ! n) \<and> \<not> fired (xs ! (n - 1))
     \<and> ov_binding (xs ! n) = ov_binding (xs ! (n - 1)) \<and> seen_at (xs ! (n - 1)) < seen_at (xs ! n)"

text \<open>The identity of the Episode that an edge opened and no observation up to \<open>n\<close> has closed.\<close>

definition opened_by_edge :: "strategy_contract \<Rightarrow> string \<Rightarrow> scope_observation list \<Rightarrow> nat \<Rightarrow> string option \<Rightarrow> bool" where
  "opened_by_edge contract i xs n episode_id \<longleftrightarrow>
     (\<exists>m\<le>n. rising_edge xs m \<and> (\<forall>k\<in>{m..n}. fired (xs ! k) \<and> ov_binding (xs ! k) = ov_binding (xs ! m))
        \<and> episode_id = episode_identity contract i (dn_occurred_at_ms (ov_detection (xs ! m))) \<and> episode_id \<noteq> None)"

definition signal_ok :: "strategy_contract \<Rightarrow> string \<Rightarrow> scope_observation list \<Rightarrow> nat \<Rightarrow> comparison_transition \<Rightarrow> bool" where
  "signal_ok contract i xs n t \<longleftrightarrow>
     cn_signal_eligible t = rising_edge xs n
     \<and> (case cn_episode_transition t of None \<Rightarrow> True
        | Some tr \<Rightarrow> fired (xs ! n) \<longrightarrow> opened_by_edge contract i xs n (et_exposure_episode_id tr))"

lemma rising_edge_append: "n < length xs \<Longrightarrow> rising_edge (xs @ [x]) n = rising_edge xs n"
  by (auto simp: rising_edge_def nth_append)

lemma opened_append: "n < length xs \<Longrightarrow> opened_by_edge contract i (xs @ [x]) n d = opened_by_edge contract i xs n d"
proof -
  assume n: "n < length xs"
  have "(xs @ [x]) ! k = xs ! k" if "k \<le> n" for k using that n by (simp add: nth_append)
  then show ?thesis using n by (auto simp: opened_by_edge_def rising_edge_append cong: conj_cong)
qed

lemma signal_append: "n < length xs \<Longrightarrow> signal_ok contract i (xs @ [x]) n t = signal_ok contract i xs n t"
  by (simp add: signal_ok_def rising_edge_append opened_append nth_append split: option.split)

text \<open>The Episode and the checkpoint after the last observation \<open>x\<close>.\<close>

definition cursor_ok :: "scope_observation \<Rightarrow> exposure_episode \<Rightarrow> comparison_checkpoint \<Rightarrow> bool" where
  "cursor_ok x e c \<longleftrightarrow> under_binding (ov_binding x) c \<and> cb_last_observed_at_ms c = seen_at x
     \<and> (if fired x
        then cb_state c = REBASE_REQUIRED \<or> ee_state e = EP_TRIGGERED
        else cb_state c = ARMED_UNDER_BINDING \<and> ee_state e = EP_ARMED \<and> ee_last_observed_at_ms e = Some (seen_at x))"

definition scope_ok :: "strategy_contract \<Rightarrow> string \<Rightarrow> scope_observation list \<Rightarrow> exposure_episode option \<times> comparison_checkpoint option \<Rightarrow> bool" where
  "scope_ok contract i xs v \<longleftrightarrow>
     (if xs = [] then snd v = None
      else (\<exists>e c. v = (Some e, Some c) \<and> cursor_ok (last xs) e c
        \<and> (cb_state c = ARMED_UNDER_BINDING \<and> ee_state e = EP_TRIGGERED
           \<longrightarrow> opened_by_edge contract i xs (length xs - 1) (ee_exposure_episode_id e))))"

lemma under_binding_unique: "under_binding g c \<Longrightarrow> under_binding g' c \<Longrightarrow> g = g'"
  by (cases g, cases g') (simp add: under_binding_def)

lemma last_snoc_nth: "xs \<noteq> [] \<Longrightarrow> (xs @ [x]) ! (length xs - 1) = last xs"
  by (simp add: nth_append last_conv_nth)

lemma step_signal:
  assumes "barrier_result contract i current checkpoint (ov_binding x) (ov_detection x) t" "scope_ok contract i xs (current, checkpoint)"
  shows "signal_ok contract i (xs @ [x]) (length xs) t"
proof (cases "xs = []")
  case True
  then have "checkpoint = None" using assms(2) by (simp add: scope_ok_def)
  then show ?thesis
    using assms(1) True by (auto simp: signal_ok_def rising_edge_def barrier_result_def follows_def split: option.split_asm option.split)
next
  case False
  obtain e c where v: "current = Some e" "checkpoint = Some c" "cursor_ok (last xs) e c"
    and open_: "cb_state c = ARMED_UNDER_BINDING \<Longrightarrow> ee_state e = EP_TRIGGERED \<Longrightarrow>
      opened_by_edge contract i xs (length xs - 1) (ee_exposure_episode_id e)"
    using assms(2) False by (auto simp: scope_ok_def)
  let ?xs = "xs @ [x]" and ?n = "length xs"
  have nth: "?xs ! ?n = x" "?xs ! (?n - Suc 0) = last xs" using last_snoc_nth[OF False] by simp_all
  show ?thesis
  proof (cases "cn_episode_transition t")
    case None
    then have n: "fired x" "\<not> cn_signal_eligible t" "under_binding (ov_binding x) c \<longrightarrow> cb_state c = REBASE_REQUIRED"
      using assms(1) v(2) by (simp_all add: barrier_result_def)
    have "\<not> rising_edge ?xs ?n" using n v(3) by (auto simp: rising_edge_def nth cursor_ok_def)
    then show ?thesis using n None by (simp add: signal_ok_def)
  next
    case (Some tr)
    have f: "follows contract i (Some e) (ov_detection x) tr" "cn_signal_eligible t = et_created_new_episode tr"
      and armed: "fired x \<Longrightarrow> under_binding (ov_binding x) c \<and> cb_state c = ARMED_UNDER_BINDING \<and> cb_last_observed_at_ms c \<le> seen_at x"
      using assms(1) Some v(1,2) by (auto simp: barrier_result_def)
    have same: "fired x \<Longrightarrow> ov_binding x = ov_binding (last xs)"
      using armed v(3) under_binding_unique by (auto simp: cursor_ok_def)
    have edge: "rising_edge ?xs ?n" if "fired x" "ee_state e \<noteq> EP_TRIGGERED"
    proof -
      have l: "\<not> fired (last xs)" "ee_state e = EP_ARMED" "ee_last_observed_at_ms e = Some (seen_at (last xs))"
        using v(3) armed[OF that(1)] that(2) by (auto simp: cursor_ok_def split: if_split_asm)
      have "seen_at (last xs) \<noteq> seen_at x"
      proof
        assume "seen_at (last xs) = seen_at x"
        then have "et_current tr = e" using f(1) l(3) by (simp add: follows_def)
        then show False using f(1) l(2) that(1) by (simp add: follows_def)
      qed
      moreover have "seen_at (last xs) \<le> seen_at x" using armed[OF that(1)] v(3) by (simp add: cursor_ok_def)
      ultimately show ?thesis using that l False same by (simp add: rising_edge_def nth)
    qed
    have eligible: "cn_signal_eligible t \<longleftrightarrow> fired x \<and> ee_state e \<noteq> EP_TRIGGERED"
      using f by (simp add: follows_def open_episode_def)
    have "fired x \<and> \<not> fired (last xs)" if "rising_edge ?xs ?n" using that by (simp add: rising_edge_def nth)
    moreover have "ee_state e = EP_ARMED" if "\<not> fired (last xs)" using v(3) that by (simp add: cursor_ok_def)
    ultimately have "cn_signal_eligible t = rising_edge ?xs ?n" using eligible edge by fastforce
    moreover have "opened_by_edge contract i ?xs ?n (et_exposure_episode_id tr)" if x: "fired x"
    proof (cases "ee_state e = EP_TRIGGERED")
      case True
      then have id: "et_exposure_episode_id tr = ee_exposure_episode_id e"
        using f(1) x by (simp add: follows_def open_episode_def)
      have "opened_by_edge contract i xs (?n - 1) (ee_exposure_episode_id e)"
        by (rule open_[OF _ True]) (rule armed[OF x, THEN conjunct2, THEN conjunct1])
      moreover have "?n - 1 < length xs" using False by simp
      ultimately have "opened_by_edge contract i ?xs (?n - 1) (ee_exposure_episode_id e)"
        by (simp only: opened_append)
      then obtain m where m: "m \<le> ?n - 1" "rising_edge ?xs m"
        "\<forall>k\<in>{m..?n - 1}. fired (?xs ! k) \<and> ov_binding (?xs ! k) = ov_binding (?xs ! m)"
        "ee_exposure_episode_id e = episode_identity contract i (dn_occurred_at_ms (ov_detection (?xs ! m)))"
        "ee_exposure_episode_id e \<noteq> None" unfolding opened_by_edge_def by blast
      have "?n - 1 \<in> {m..?n - 1}" using m(1) by simp
      then have "ov_binding (?xs ! (?n - 1)) = ov_binding (?xs ! m)" using m(3) by blast
      then have prev: "ov_binding (last xs) = ov_binding (?xs ! m)" using nth(2) by simp
      have "fired (?xs ! k) \<and> ov_binding (?xs ! k) = ov_binding (?xs ! m)" if "k \<in> {m..?n}" for k
      proof (cases "k = ?n")
        case True
        then show ?thesis using nth(1) x same[OF x] prev by simp
      next
        case False
        then have "k \<in> {m..?n - 1}" using that by auto
        then show ?thesis using m(3) by blast
      qed
      moreover have "m \<le> ?n" using m(1) by simp
      ultimately show ?thesis unfolding opened_by_edge_def id using m(2,4,5) by blast
    next
      case other: False
      then have "\<not> open_episode (Some e)" by (simp add: open_episode_def)
      moreover have "et_exposure_episode_id tr = ee_exposure_episode_id (et_current tr)"
        "et_created_new_episode tr \<longrightarrow> et_exposure_episode_id tr \<noteq> None"
        "et_created_new_episode tr \<longleftrightarrow> fired x \<and> \<not> open_episode (Some e)"
        "fired x \<longrightarrow> ee_exposure_episode_id (et_current tr) = (if open_episode (Some e) then ee_exposure_episode_id (the (Some e))
           else episode_identity contract i (dn_occurred_at_ms (ov_detection x)))"
        using f(1) unfolding follows_def by blast+
      ultimately have "et_exposure_episode_id tr = episode_identity contract i (dn_occurred_at_ms (ov_detection x))"
        "et_exposure_episode_id tr \<noteq> None" using x by (presburger, metis)
      then show ?thesis using edge[OF x other] x by (auto simp: opened_by_edge_def nth intro!: exI[of _ ?n])
    qed
    ultimately show ?thesis using Some by (simp add: signal_ok_def)
  qed
qed

lemma step_scope:
  assumes "barrier_result contract i current checkpoint (ov_binding x) (ov_detection x) t"
    "signal_ok contract i (xs @ [x]) (length xs) t" "saved_as current t v"
  shows "scope_ok contract i (xs @ [x]) v"
proof -
  obtain e where v: "v = (Some e, Some (cn_checkpoint t))" using assms(3) by (cases v) (auto simp: saved_as_def)
  show ?thesis
  proof (cases "cn_episode_transition t")
    case None
    then show ?thesis using assms(1) v by (auto simp: scope_ok_def barrier_result_def cursor_ok_def)
  next
    case (Some tr)
    then have "e = et_current tr" using assms(3) v by (simp add: saved_as_def)
    then show ?thesis
      using assms(1,2) v Some by (auto simp: scope_ok_def barrier_result_def cursor_ok_def follows_def signal_ok_def split: if_split_asm)
  qed
qed

section \<open>A close without a trigger, then a trigger\<close>

definition demo_binding :: comparison_binding where
  "demo_binding = \<lparr>cg_digest = ''sha256:'' @ replicate 64 (CHR ''a''), cg_revision = 1\<rparr>"

definition demo_observation :: "int \<Rightarrow> bool \<Rightarrow> scope_observation" where
  "demo_observation n f = \<lparr>ov_binding = demo_binding, ov_authority = Some demo_binding,
     ov_detection = \<lparr>dn_status = (if f then DET_TRIGGERED else DET_NOT_TRIGGERED),
       dn_occurred_at_ms = (if f then Some n else None), dn_observed_at_ms = n\<rparr>\<rparr>"

abbreviation demo_key :: string where
  "demo_key \<equiv> build_episode_domain_key ''event_spec:MPG-001:MPG-LONG:v3'' ''binance:BTCUSDT'' Long"

definition demo_checkpoint :: "int \<Rightarrow> bool \<Rightarrow> comparison_checkpoint" where
  "demo_checkpoint n f = \<lparr>cb_episode_domain_key = demo_key, cb_comparison_binding_digest = cg_digest demo_binding,
     cb_comparison_transition_revision = 1, cb_state = ARMED_UNDER_BINDING, cb_armed_at_ms = Some 1,
     cb_last_observed_at_ms = n, cb_last_detector_status = (if f then DET_TRIGGERED else DET_NOT_TRIGGERED),
     cb_projection_version = n\<rparr>"

definition demo_episode :: "int \<Rightarrow> string option \<Rightarrow> exposure_episode" where
  "demo_episode n d = \<lparr>ee_episode_domain_key = demo_key, ee_event_spec_id = ''event_spec:MPG-001:MPG-LONG:v3'',
     ee_exchange_instrument_id = ''binance:BTCUSDT'', ee_position_side = Long,
     ee_state = (if d = None then EP_ARMED else EP_TRIGGERED), ee_exposure_episode_id = d,
     ee_triggered_at_ms = (if d = None then None else Some n), ee_rearmed_at_ms = Some 1,
     ee_last_observed_at_ms = Some n, ee_projection_version = n\<rparr>"

lemma demo_strips:
  "py_strip ''binance:BTCUSDT'' = ''binance:BTCUSDT''"
  "py_strip ''event_spec:MPG-001:MPG-LONG:v3'' = ''event_spec:MPG-001:MPG-LONG:v3''"
  "py_strip ''validation'' = ''validation''"
  "py_strip (cg_digest demo_binding) = cg_digest demo_binding"
  "valid_binding_digest (cg_digest demo_binding)"
  "''event_spec:MPG-001:MPG-LONG:v3'' \<in> set comparison_events"
  by code_simp+

lemma demo_contract:
  "sc_event_spec_id mpg_long_contract = ''event_spec:MPG-001:MPG-LONG:v3''" "sc_position_side mpg_long_contract = Long"
  "sc_episode_policy mpg_long_contract = RISING_EDGE"
  by code_simp+

lemma demo_checkpoint_made: "0 < n \<Longrightarrow> mk_comparison_checkpoint (demo_checkpoint n f) = Inr (demo_checkpoint n f)"
  by (simp add: mk_comparison_checkpoint_def valid_comparison_checkpoint_def demo_checkpoint_def is_identity_def demo_strips)

lemma demo_episode_made: "0 < n \<Longrightarrow> mk_exposure_episode (demo_episode n d) = Inr (demo_episode n d)"
  by (simp add: mk_exposure_episode_def valid_exposure_episode_def demo_episode_def is_identity_def demo_strips positive_time_def)

definition demo_transition :: "int \<Rightarrow> string option \<Rightarrow> comparison_transition" where
  "demo_transition n d = \<lparr>cn_checkpoint = demo_checkpoint n (d \<noteq> None),
     cn_episode_transition = Some \<lparr>et_current = demo_episode n d, et_exposure_episode_id = d,
       et_created_new_episode = (d \<noteq> None)\<rparr>,
     cn_signal_eligible = (d \<noteq> None), cn_suppression_reason = None\<rparr>"

definition demo_rows :: "int \<Rightarrow> string option \<Rightarrow> episode_row list" where
  "demo_rows n d = [\<lparr>eq_episode = demo_episode n d, eq_checkpoint = Some (demo_checkpoint n (d \<noteq> None))\<rparr>]"

lemma demo_request: "0 < n \<Longrightarrow>
    comparison_request_checked mpg_long_contract ''binance:BTCUSDT'' demo_binding (ov_detection (demo_observation n f)) = Inr ()"
  by (simp add: comparison_request_checked_def demo_observation_def demo_contract demo_strips mk_comparison_checkpoint_def
      valid_comparison_checkpoint_def is_identity_def occurrence_checked_def positive_time_def)
     (simp add: demo_binding_def)

lemma demo_detection: "0 < n \<Longrightarrow>
    detection_checked mpg_long_contract ''binance:BTCUSDT'' (ov_detection (demo_observation n f)) = Inr ()"
  by (simp add: detection_checked_def demo_observation_def demo_contract occurrence_checked_def positive_time_def)

lemma demo_observation_sel:
  "ov_binding (demo_observation n f) = demo_binding" "ov_authority (demo_observation n f) = Some demo_binding"
  "dn_status (ov_detection (demo_observation n f)) = (if f then DET_TRIGGERED else DET_NOT_TRIGGERED)"
  "dn_occurred_at_ms (ov_detection (demo_observation n f)) = (if f then Some n else None)"
  "dn_observed_at_ms (ov_detection (demo_observation n f)) = n" "cg_revision demo_binding = 1"
  by (simp_all add: demo_observation_def demo_binding_def)

lemma demo_state_sel:
  "ee_episode_domain_key (demo_episode n d) = demo_key" "ee_event_spec_id (demo_episode n d) = ''event_spec:MPG-001:MPG-LONG:v3''"
  "ee_exchange_instrument_id (demo_episode n d) = ''binance:BTCUSDT''" "ee_position_side (demo_episode n d) = Long"
  "ee_state (demo_episode n d) = (if d = None then EP_ARMED else EP_TRIGGERED)" "ee_exposure_episode_id (demo_episode n d) = d"
  "ee_rearmed_at_ms (demo_episode n d) = Some 1" "ee_last_observed_at_ms (demo_episode n d) = Some n"
  "ee_projection_version (demo_episode n d) = n" "cb_episode_domain_key (demo_checkpoint n f) = demo_key"
  "cb_comparison_binding_digest (demo_checkpoint n f) = cg_digest demo_binding" "cb_state (demo_checkpoint n f) = ARMED_UNDER_BINDING"
  "cb_comparison_transition_revision (demo_checkpoint n f) = 1" "cb_armed_at_ms (demo_checkpoint n f) = Some 1"
  "cb_last_observed_at_ms (demo_checkpoint n f) = n" "cb_projection_version (demo_checkpoint n f) = n"
  by (simp_all add: demo_episode_def demo_checkpoint_def)

lemmas demo_simps = demo_strips demo_contract demo_observation_sel demo_state_sel demo_episode_made demo_checkpoint_made
  demo_request demo_detection Let_def

lemma demo_advance:
  "advance_exposure_episode mpg_long_contract None (ov_detection (demo_observation 1 False)) ''binance:BTCUSDT'' =
     Inr \<lparr>et_current = demo_episode 1 None, et_exposure_episode_id = None, et_created_new_episode = False\<rparr>"
  "build_exposure_episode_id ''event_spec:MPG-001:MPG-LONG:v3'' ''binance:BTCUSDT'' Long 2 = Inr d \<Longrightarrow>
   advance_exposure_episode mpg_long_contract (Some (demo_episode 1 None)) (ov_detection (demo_observation 2 True)) ''binance:BTCUSDT'' =
     Inr \<lparr>et_current = demo_episode 2 (Some d), et_exposure_episode_id = Some d, et_created_new_episode = True\<rparr>"
proof -
  have made: "observed_episode mpg_long_contract ''binance:BTCUSDT'' demo_key None EP_ARMED None None (Some 1) 1 = demo_episode 1 None"
    "observed_episode mpg_long_contract ''binance:BTCUSDT'' demo_key (Some (demo_episode 1 None)) EP_TRIGGERED (Some d) (Some 2) (Some 1) 2
       = demo_episode 2 (Some d)"
    by (simp_all add: observed_episode_def demo_episode_def demo_contract next_version_def)
  show "advance_exposure_episode mpg_long_contract None (ov_detection (demo_observation 1 False)) ''binance:BTCUSDT'' =
     Inr \<lparr>et_current = demo_episode 1 None, et_exposure_episode_id = None, et_created_new_episode = False\<rparr>"
    by (simp add: advance_exposure_episode_def demo_simps advance_armed_def made transition_to_def mk_episode_transition_def)
  show "build_exposure_episode_id ''event_spec:MPG-001:MPG-LONG:v3'' ''binance:BTCUSDT'' Long 2 = Inr d \<Longrightarrow>
   advance_exposure_episode mpg_long_contract (Some (demo_episode 1 None)) (ov_detection (demo_observation 2 True)) ''binance:BTCUSDT'' =
     Inr \<lparr>et_current = demo_episode 2 (Some d), et_exposure_episode_id = Some d, et_created_new_episode = True\<rparr>"
    by (simp add: advance_exposure_episode_def demo_simps advance_triggered_def made transition_to_def mk_episode_transition_def
        episode_replayed_def open_episode_def)
qed

lemma demo_checkpoint_eqs:
  "demo_checkpoint 1 False = \<lparr>cb_episode_domain_key = demo_key, cb_comparison_binding_digest = cg_digest demo_binding,
     cb_comparison_transition_revision = 1, cb_state = ARMED_UNDER_BINDING, cb_armed_at_ms = Some 1,
     cb_last_observed_at_ms = 1, cb_last_detector_status = DET_NOT_TRIGGERED, cb_projection_version = 1\<rparr>"
  "observed_checkpoint (demo_checkpoint 1 False) (ov_detection (demo_observation 2 True)) = demo_checkpoint 2 True"
  by (simp_all add: observed_checkpoint_def demo_checkpoint_def demo_observation_sel)

lemma demo_barrier:
  "advance_comparison_bound_exposure_episode mpg_long_contract None None (ov_detection (demo_observation 1 False))
     ''binance:BTCUSDT'' demo_binding = Inr (demo_transition 1 None)"
  "build_exposure_episode_id ''event_spec:MPG-001:MPG-LONG:v3'' ''binance:BTCUSDT'' Long 2 = Inr d \<Longrightarrow>
   advance_comparison_bound_exposure_episode mpg_long_contract (Some (demo_episode 1 None)) (Some (demo_checkpoint 1 False))
     (ov_detection (demo_observation 2 True)) ''binance:BTCUSDT'' demo_binding = Inr (demo_transition 2 (Some d))"
  using demo_checkpoint_made[of 1 False]
  by (simp_all add: advance_comparison_bound_exposure_episode_def demo_simps demo_advance comparison_state_checked_def
      rebase_binding_def arm_under_comparison_binding_def checkpoint_version_def demo_checkpoint_eqs(1)[symmetric]
      demo_transition_def under_binding_def observe_under_binding_def advance_under_arm_def demo_checkpoint_eqs(2))

lemma demo_reads:
  "lock_exposure_episode demo_key (demo_rows 1 None) = Inr (Some (demo_episode 1 None))"
  "get_comparison_episode_checkpoint demo_key (demo_rows 1 None) = Inr (Some (demo_checkpoint 1 False))"
proof -
  have "mk_comparison_checkpoint ((demo_checkpoint 1 False)\<lparr>cb_episode_domain_key := demo_key, cb_state := ARMED_UNDER_BINDING\<rparr>)
      = Inr (demo_checkpoint 1 False)"
    using demo_checkpoint_made[of 1 False] by (simp add: demo_checkpoint_def)
  then show "get_comparison_episode_checkpoint demo_key (demo_rows 1 None) = Inr (Some (demo_checkpoint 1 False))"
    by (simp add: get_comparison_episode_checkpoint_def demo_simps demo_rows_def)
  show "lock_exposure_episode demo_key (demo_rows 1 None) = Inr (Some (demo_episode 1 None))"
    by (simp add: lock_exposure_episode_def demo_simps demo_rows_def)
qed

lemma demo_observes:
  "observe_comparison mpg_long_contract ''binance:BTCUSDT'' demo_binding (Some demo_binding) (ov_detection (demo_observation 1 False)) []
     = Inr (demo_rows 1 None, demo_transition 1 None)"
  "build_exposure_episode_id ''event_spec:MPG-001:MPG-LONG:v3'' ''binance:BTCUSDT'' Long 2 = Inr d \<Longrightarrow>
   observe_comparison mpg_long_contract ''binance:BTCUSDT'' demo_binding (Some demo_binding) (ov_detection (demo_observation 2 True))
     (demo_rows 1 None) = Inr (demo_rows 2 (Some d), demo_transition 2 (Some d))"
proof -
  have reads: "lock_exposure_episode demo_key [] = Inr None" "get_comparison_episode_checkpoint demo_key [] = Inr None"
    by (simp_all add: lock_exposure_episode_def get_comparison_episode_checkpoint_def)
  show "observe_comparison mpg_long_contract ''binance:BTCUSDT'' demo_binding (Some demo_binding) (ov_detection (demo_observation 1 False)) []
     = Inr (demo_rows 1 None, demo_transition 1 None)"
    by (simp add: observe_comparison_def demo_contract Let_def reads demo_barrier save_comparison_episode_transition_def del: bind_result_Inr_iff)
       (simp add: demo_transition_def demo_simps under_binding_def next_version_def checkpoint_version_def comparison_row_written_def
         demo_rows_def reads del: bind_result_Inr_iff)
  assume d: "build_exposure_episode_id ''event_spec:MPG-001:MPG-LONG:v3'' ''binance:BTCUSDT'' Long 2 = Inr d"
  have new: "demo_checkpoint 2 True \<noteq> demo_checkpoint 1 False" by (simp add: demo_checkpoint_def)
  show "observe_comparison mpg_long_contract ''binance:BTCUSDT'' demo_binding (Some demo_binding) (ov_detection (demo_observation 2 True))
     (demo_rows 1 None) = Inr (demo_rows 2 (Some d), demo_transition 2 (Some d))"
    using demo_reads
    by (simp add: observe_comparison_def demo_contract Let_def demo_barrier(2)[OF d] save_comparison_episode_transition_def
         del: bind_result_Inr_iff)
       (simp add: demo_transition_def demo_simps under_binding_def next_version_def checkpoint_version_def
         comparison_row_written_def new rowcount_def update_where_def demo_rows_def del: bind_result_Inr_iff)
qed

lemma demo_run:
  obtains d where "comparison_run mpg_long_contract ''binance:BTCUSDT'' [demo_observation 1 False, demo_observation 2 True] []
    = Inr (demo_rows 2 (Some d), [demo_transition 1 None, demo_transition 2 (Some d)])"
proof -
  obtain d where d: "build_exposure_episode_id ''event_spec:MPG-001:MPG-LONG:v3'' ''binance:BTCUSDT'' Long 2 = Inr d"
    by (simp add: build_exposure_episode_id_def)
  show ?thesis using that[of d] by (simp add: demo_observation_sel demo_observes(1) demo_observes(2)[OF d] del: bind_result_Inr_iff)
qed

text \<open>
  C40. Of the observations of one strategy Event on one instrument under the comparison barrier, a signal is eligible
  exactly at a rising edge: at a trigger that directly follows a strictly earlier close without one, both under the same
  comparison binding and revision. Every observation that carries an open Episode, eligible or repeated, carries the
  identity of the Episode which such an edge opened, with only triggers under the same binding since. So a change of the
  comparison universe never fabricates a signal, whatever the Episode it meets.
\<close>

theorem signals_follow_rising_edges:
  assumes "comparison_run contract i xs rows = Inr (rows', ts)" "distinct (map row_key rows)"
    "\<forall>r\<in>set rows. eq_checkpoint r = None" "\<forall>x\<in>set xs. py_strip (cg_digest (ov_binding x)) = cg_digest (ov_binding x)"
  shows "length ts = length xs \<and> (\<forall>n<length xs.
      cn_signal_eligible (ts ! n) = rising_edge xs n
      \<and> (\<forall>tr. cn_episode_transition (ts ! n) = Some tr \<and> fired (xs ! n)
           \<longrightarrow> opened_by_edge contract i xs n (et_exposure_episode_id tr)))"
proof -
  have "distinct (map row_key rows') \<and> length ts = length xs \<and> (\<forall>n<length xs. signal_ok contract i xs n (ts ! n))
      \<and> (\<forall>v. scope_view (scope_key contract i) rows' = Inr v \<longrightarrow> scope_ok contract i xs v)"
    using assms(1,4)
  proof (induction xs arbitrary: rows' ts rule: rev_induct)
    case Nil
    have "c = None" if "get_comparison_episode_checkpoint k rows = Inr c" for k c
      using that assms(3) by (auto simp: get_comparison_episode_checkpoint_def find_Some_iff split: option.split_asm)
    then show ?case using Nil assms(2) by (auto simp: scope_ok_def scope_view_def)
  next
    case (snoc x xs)
    obtain rows1 us t where run: "comparison_run contract i xs rows = Inr (rows1, us)" "ts = us @ [t]"
      "observe_comparison contract i (ov_binding x) (ov_authority x) (ov_detection x) rows1 = Inr (rows', t)"
      using snoc.prems(1) by (auto simp: comparison_run_snoc)
    have ih: "distinct (map row_key rows1)" "length us = length xs" "\<And>n. n < length xs \<Longrightarrow> signal_ok contract i xs n (us ! n)"
      "\<And>v. scope_view (scope_key contract i) rows1 = Inr v \<Longrightarrow> scope_ok contract i xs v"
      using snoc.IH[OF run(1)] snoc.prems(2) by auto
    have "py_strip (cg_digest (ov_binding x)) = cg_digest (ov_binding x)" using snoc.prems(2) by simp
    note saved = observe_saved[OF run(3) ih(1) this]
    obtain current checkpoint where o: "scope_view (scope_key contract i) rows1 = Inr (current, checkpoint)"
      "barrier_result contract i current checkpoint (ov_binding x) (ov_detection x) t" "distinct (map row_key rows')"
      "\<And>v. scope_view (scope_key contract i) rows' = Inr v \<Longrightarrow> saved_as current t v"
      using saved by metis
    note now = step_signal[OF o(2) ih(4)[OF o(1)]]
    have "signal_ok contract i (xs @ [x]) n (ts ! n)" if "n < length (xs @ [x])" for n
      using that now ih(2,3) by (cases "n = length xs") (auto simp: run(2) nth_append signal_append)
    then show ?case using o(3,4) ih(2) step_scope[OF o(2) now] by (auto simp: run(2))
  qed
  then show ?thesis by (auto simp: signal_ok_def split: option.split_asm)
qed

theorem signals_follow_rising_edges_witness:
  "\<exists>ts rows. comparison_run mpg_long_contract ''binance:BTCUSDT'' [demo_observation 1 False, demo_observation 2 True] [] = Inr (rows, ts)
     \<and> length ts = 2 \<and> cn_signal_eligible (ts ! 1) \<and> \<not> cn_signal_eligible (ts ! 0)
     \<and> rising_edge [demo_observation 1 False, demo_observation 2 True] 1"
proof -
  let ?xs = "[demo_observation 1 False, demo_observation 2 True]"
  obtain d where run: "comparison_run mpg_long_contract ''binance:BTCUSDT'' ?xs [] =
      Inr (demo_rows 2 (Some d), [demo_transition 1 None, demo_transition 2 (Some d)])" by (rule demo_run)
  have edge: "rising_edge ?xs 1" "\<not> rising_edge ?xs 0" by (simp_all add: rising_edge_def demo_observation_sel)
  have "\<forall>n<2. cn_signal_eligible ([demo_transition 1 None, demo_transition 2 (Some d)] ! n) = rising_edge ?xs n"
    using signals_follow_rising_edges[OF run] by (simp add: demo_observation_sel demo_strips)
  then have "cn_signal_eligible ([demo_transition 1 None, demo_transition 2 (Some d)] ! 1)"
    "\<not> cn_signal_eligible ([demo_transition 1 None, demo_transition 2 (Some d)] ! 0)"
    using edge by (auto simp only: less_2_cases_iff One_nat_def)
  moreover have "length [demo_transition 1 None, demo_transition 2 (Some d)] = 2" by simp
  ultimately show ?thesis using run edge(1) by blast
qed

end
