(* ===== verification/Spec2Isabelle.thy ===== *)
theory Spec2Isabelle
  imports Lifecycle_Properties Cleanup_Termination Margin_Stress_Properties Capacity_Properties
    Store_Properties Lane_Blockage Dispatch_Properties Recovery_Properties Settle_Properties
    Maintain_Properties Controlled_Exit_Properties Episode_Properties
begin

text \<open>
  \<^bold>\<open>The BRC trading kernel, verified.\<close>

  The kernel (\<open>src/src/trading_kernel\<close>) turns a strategy signal into one immutable Ticket and drives that
  Ticket through a lifecycle: leverage, ENTRY order, fill, protective stop, post-fill risk checks, take
  profit, runner, exit, reconciliation, settlement and review. Every step is an event; a pure reducer
  maps an aggregate and an event to the next aggregate and a list of effects, and a unit of work turns
  the effects into durable commands in one transaction. Money and prices are Python decimals.

  \<^bold>\<open>Theories and the code they model.\<close>

  \<^item> \<open>Kernel_Prelude\<close>: errors as values, strings; \<open>Py_Decimal\<close>: \<open>decimal.Decimal\<close> in its default
    context (locale \<open>context_rounding\<close>, interpreted on \<open>dec_fix\<close>); \<open>Py_Digest\<close>: SHA-256 and
    canonical JSON (\<open>entry_admission_snapshot.canonical_digest\<close>).
  \<^item> \<open>Identities\<close> (\<open>identities.py\<close>, \<open>exposure_family.py\<close>, \<open>incident_blocking.py\<close>), \<open>Ticket\<close>
    (\<open>ticket.py\<close>), \<open>Commands\<close> (\<open>commands.py\<close>), \<open>Post_Fill_Risk\<close> (\<open>post_fill_risk.py\<close>),
    \<open>Cross_Margin_Stress\<close> (\<open>cross_margin_stress.py\<close>), \<open>Capacity_Sizing\<close> (\<open>capacity_sizing.py\<close>),
    \<open>Vacuum_Late_Fill\<close> (the proof digests of \<open>vacuum_late_fill.py\<close>).
  \<^item> \<open>Trade_Events\<close> (\<open>events.py\<close>), \<open>Aggregate\<close> (\<open>aggregate.py\<close>, \<open>effects.py\<close>) and \<open>Reducer\<close>
    (\<open>reducer.py\<close>): one \<open>on_\<dots>\<close> definition per event branch, composed by \<open>reduce_fact\<close> and
    \<open>reduce_event\<close>.
  \<^item> \<open>Lifecycle\<close>: histories as an inductive relation, replay, and the locales through which invariants and
    effect ledgers are proved once; \<open>Lifecycle_Invariants\<close>, \<open>Lifecycle_Liveness\<close> and \<open>Custody\<close>
    interpret them on the reducer.
  \<^item> \<open>Lifecycle_Demo\<close> holds concrete runs; \<open>Lifecycle_Properties\<close>, \<open>Cleanup_Termination\<close> and
    \<open>Margin_Stress_Properties\<close> state the properties.
  \<^item> \<open>Capacity\<close> (\<open>capacity.py\<close>): policy, usage and rules, the capacity claim with its validators and
    digest, freezing at the storage precision and the Ticket a claim issues; \<open>Capacity_Properties\<close> states
    its round trip and its limits.
  \<^item> \<open>Kernel_Store\<close> (tables of \<open>infrastructure/pg_models.py\<close>, methods of
    \<open>infrastructure/pg_repositories.py\<close>) and \<open>Unit_Of_Work\<close> (\<open>infrastructure/pg_unit_of_work.py\<close>): the
    durable state as lists of rows, and \<open>commit_reduction\<close>, the one transaction that writes an aggregate, its
    event and every effect.
  \<^item> \<open>Owner_Authority\<close> (\<open>owner_policy.py\<close>, \<open>owner_control.py\<close>, \<open>strategy_entry_vacuum.py\<close>,
    \<open>application/strategy_authority.py\<close>) and \<open>Issue_Ticket\<close> (\<open>application/issue_ticket.py\<close>): the ENTRY
    admission transaction with every refusal in source order.
  \<^item> \<open>Store_Views\<close>, \<open>Kernel_System\<close>, \<open>Stored_Lifecycles\<close>, \<open>Stored_Capital\<close>, \<open>Stored_Commands\<close>: the
    kernel as a transition system. A step of \<open>kernel_step\<close> issues a Ticket, commits a reduced event, or is an
    operation of a worker, a monitor or an incident service; \<open>reachable_store\<close> is what such steps reach
    from an empty database. The locale \<open>store_invariant\<close> carries a predicate over all of them (interpreted for
    the event log, the lane, the budgets, the netting domains), its extension \<open>command_invariant\<close> a predicate
    over the command table; \<open>unique_key\<close> and \<open>effect_view\<close> are the contracts of tables and effects.
  \<^item> \<open>Store_Demo\<close> issues a claim into an empty database; \<open>Store_Properties\<close> and \<open>Lane_Blockage\<close> state
    the properties of the whole.

  \<^item> \<open>Product_Entry\<close> (\<open>product.py\<close>), \<open>Entry_Health\<close> (\<open>entry_admission_snapshot.py\<close>,
    \<open>account_entry_health.py\<close>, \<open>instrument_entry_health.py\<close>) and \<open>Entry_Preflight\<close>
    (\<open>application/revalidate_entry_dispatch.py\<close>): the decision on a frozen Ticket before its order leaves.
  \<^item> \<open>Dispatch\<close> (\<open>application/dispatch_exchange_command.py\<close>): the transactions of one dispatch and the venue
    call between them. \<open>Dispatch_System\<close>: any number of dispatchers between two of their transactions,
    interleaved with every kernel step, with crashes and a log of what the venue was handed; \<open>Stored_Entries\<close>:
    the ENTRY commands of reachable stores; \<open>Dispatch_Demo\<close> and \<open>Dispatch_Properties\<close>: a concrete world and
    the properties.
  \<^item> \<open>Venue_Truth\<close> (\<open>venue_truth.py\<close>) and \<open>Recover_Unknown\<close> (\<open>application/recover_unknown_command.py\<close>,
    \<open>application/reconcile_leverage_command.py\<close>): the recovery of a command whose outcome is unknown;
    \<open>Recovery_Properties\<close>: what a recovery rests on.
  \<^item> \<open>Positions\<close> (\<open>position.py\<close>, the tables of positions and instrument rules; locale \<open>latest_table\<close>, a table
    read by its newest row), \<open>Reconcile_Ticket\<close> (\<open>application/reconcile_ticket.py\<close>) and \<open>Settle_Ticket\<close>
    (\<open>application/settle_ticket.py\<close> and the review table): the services that end a lifecycle;
    \<open>Reconcile_Properties\<close> and \<open>Settle_Properties\<close>: what they believe and what they leave.
  \<^item> \<open>Strategy_Registry\<close> (\<open>strategy_registry.py\<close>): the contracts of the registered Events; \<open>Exit_Policy\<close>
    (\<open>exit_policy.py\<close>): exit profiles, the prices they calculate, their decisions and their bindings to Events;
    \<open>Exit_Properties\<close>: that a break-even floor pays its costs and that registry and profiles fit.
  \<^item> \<open>Exit_Authority\<close> (\<open>infrastructure/pg_exit_profile_repository.py\<close> and its tables) and
    \<open>Exit_Authority_Properties\<close>: switches and retirements of bindings and profiles as a transition system.
  \<^item> \<open>Maintain_Lifecycle\<close> (\<open>application/maintain_ticket_lifecycle.py\<close>, \<open>application/controlled_exit.py\<close>): the
    maintenance of a protected Ticket by its frozen profile, and the account-wide exit; \<open>Maintain_Properties\<close> and
    \<open>Controlled_Exit_Properties\<close>: that decisions follow the profile, that the reducer accepts them, and that a
    controlled exit accounts for every active Ticket.
  \<^item> \<open>Exposure_Episode\<close> (\<open>exposure_episode.py\<close>, the table of Episodes in \<open>infrastructure/pg_signal_repository.py\<close>
    and one observation of \<open>application/observe_strategy_scope.py\<close>) and \<open>Episode_Properties\<close>: which triggers
    become signals, over any stream of observations of a scope.

  \<^bold>\<open>What the theorems show.\<close> Of one lifecycle, over every accepted event sequence: exposure is protected and
  bounded, closing orders fit the position, capital and lane are released once, ENTRY is prepared once, runner
  stops never loosen, unknown outcomes are not resubmitted, the reducer refines an abstract custody contract,
  lifecycles can close and clean-up terminates; and the two states where they cannot. Of risk: a passed
  cross-margin stress holds at every price between mark and stress price; a size is the largest within budget;
  a claim survives storage unchanged. Of the whole kernel, over every reachable store: aggregates are replays of
  their events, the lane has one owner, accounts count their committed Tickets, netting domains are exclusive,
  command generations have no gap and at most one outstanding submission, every order but ENTRY is reduce-only
  on the closing side, loading never fails, and admission is guarded. Of the venue boundary, under any
  interleaving and any crash: no command is handed to the venue twice and at most one ENTRY per Ticket; an ENTRY
  leaves only on facts that protect it; an unknown outcome is settled once and only on proof; a recorded match is the venue's flat
  position; reviews form one gapless chain whose last is current; and situations that raise for ever. Of exits: a break-even
  floor covers its costs, every current binding serves an active profile of its side, maintenance does what the
  frozen profile decides and no more, and a controlled exit reports every active Ticket. Of signals: under the comparison
  barrier one is eligible exactly at a rising edge under one binding.

  \<^bold>\<open>Choices.\<close> Exceptions are values of \<open>kernel_error\<close>; a transaction that raises leaves the store as it was.
  Decimals are rationals with the 28-digit rounding of the default context on every operation the code performs;
  the rounding of \<open>NUMERIC(38, 18)\<close> on write is not modelled, which is exact for frozen claims. No recursion
  needs fuel: every loop of the modelled code is a structural recursion. SHA-256 is defined, but no property
  assumes it free of collisions: where two digests meet in a unique key, the insertion may fail.

  \<^bold>\<open>Parameters.\<close> \<open>issue_ticket_request\<close> takes the owner, strategy and selection rows it reads as the record
  \<open>issue_authority\<close>, unconstrained: the properties hold for whatever these subsystems return. A dispatch takes
  the facts it gathers outside the store, the open Vacuum and the venue as arguments, a recovery the answers of the
  truth ports; the only assumption on them is that a value they return has passed the validators of its class. The
  exit authority takes the semantic hash of a profile, the side of an Event and the known Owner authorizations; a
  controlled exit what other transactions do between its own, assumed to be kernel steps.

  \<^bold>\<open>Not modelled.\<close> The services over the kernel store are sequences of kernel steps; those not modelled are
  represented by the store operations they may perform, in any order, and by arbitrary validated events. The tables
  of positions, rules and reviews are kept beside the kernel store; due times of retries are not kept. Of an
  incident only the identity of the event that opened it is kept as its details; the product sessions a preflight
  refreshes are not kept. Of exits, the legacy exit policies, which no maintenance reads, are left out. Of an observation only
  the Episode is modelled, without the recovery branch. Arbitration, signals, detectors, universes and the
  selection pipeline, shadow outcomes and read models are outside; so are scheduling columns, row locks and sessions.
\<close>

end
